(* ===== verification/Prelude.thy ===== *)
theory Prelude
  imports Main "HOL-Library.Word" "HOL-Library.AList" "HOL-Library.Product_Lexorder"
    "HOL-Library.List_Lexorder" "HOL-Library.Char_ord"
begin

text \<open>
  Shared vocabulary of the development.

  Rust's unsigned machine integers are words of their width; \<open>checked_add\<close> and \<open>checked_mul\<close>
  are Rust's \<open>u64::checked_add\<close> and \<open>u64::checked_mul\<close>.  A \<open>&str\<close> is the list of its UTF-8
  bytes (HOL's \<open>char\<close> is an 8-bit byte), so \<open>str::len\<close> is \<open>length\<close> and the ASCII tests of the
  sources are tests on the byte's code.  A \<open>Result\<close> is a sum whose left side is the error.
  The database tables are lists of rows in insertion order; \<open>lookup_row\<close>, \<open>update_rows\<close> and
  the lemmas about sums over them serve every repository theory.
\<close>

section \<open>Machine integers\<close>

type_synonym u8 = "8 word"
type_synonym u16 = "16 word"
type_synonym u32 = "32 word"
type_synonym u64 = "64 word"

definition checked_add :: "u64 \<Rightarrow> u64 \<Rightarrow> u64 option" where
  "checked_add a b = (if unat a + unat b < 2 ^ 64 then Some (a + b) else None)"

definition checked_mul :: "u64 \<Rightarrow> u64 \<Rightarrow> u64 option" where
  "checked_mul a b = (if unat a * unat b < 2 ^ 64 then Some (a * b) else None)"

lemma checked_add_Some:
  "checked_add a b = Some c \<longleftrightarrow> unat a + unat b < 2 ^ 64 \<and> unat c = unat a + unat b"
proof -
  have "unat (a + b) = unat a + unat b" if "unat a + unat b < 2 ^ 64"
    using that by (simp add: unat_add_lem[THEN iffD1])
  then show ?thesis
    by (auto simp: checked_add_def intro: word_unat_eq_iff[THEN iffD2])
qed

lemma checked_mul_Some:
  "checked_mul a b = Some c \<longleftrightarrow> unat a * unat b < 2 ^ 64 \<and> unat c = unat a * unat b"
proof -
  have "unat (a * b) = unat a * unat b" if "unat a * unat b < 2 ^ 64"
    using that by (simp add: unat_mult_lem[THEN iffD1])
  then show ?thesis
    by (auto simp: checked_mul_def intro: word_unat_eq_iff[THEN iffD2])
qed

lemma checked_add_None: "checked_add a b = None \<longleftrightarrow> 2 ^ 64 \<le> unat a + unat b"
  by (auto simp: checked_add_def)

lemma checked_mul_None: "checked_mul a b = None \<longleftrightarrow> 2 ^ 64 \<le> unat a * unat b"
  by (auto simp: checked_mul_def)

text \<open>\<open>u64::from(a) * u64::from(b)\<close> of two 32-bit values never wraps.\<close>

definition widening_mul :: "u32 \<Rightarrow> u32 \<Rightarrow> u64" where
  "widening_mul a b = ucast a * ucast b"

lemma unat_u32_less: "unat (a :: u32) < 4294967296"
  using unsigned_less[of a, where ?'a = nat] by simp

lemma unat_u64_less: "unat (a :: u64) < 18446744073709551616"
  using unsigned_less[of a, where ?'a = nat] by simp

lemma unat_widening_mul [simp]: "unat (widening_mul a b) = unat a * unat b"
proof -
  have "unat a * unat b \<le> 4294967295 * 4294967295"
    by (rule mult_le_mono) (use unat_u32_less[of a] unat_u32_less[of b] in simp_all)
  then have "unat a * unat b < 2 ^ 64" by simp
  moreover have "unat (ucast a :: u64) = unat a" "unat (ucast b :: u64) = unat b"
    by (simp_all add: unsigned_ucast_eq take_bit_nat_eq_self_iff
          less_trans[OF unat_u32_less])
  ultimately show ?thesis
    by (simp add: widening_mul_def unat_mult_lem[THEN iffD1])
qed

lemma ceil_nat:
  assumes "0 < (b::nat)"
  shows "(a + b - 1) div b = (if a mod b = 0 then a div b else a div b + 1)"
proof (cases "a mod b = 0")
  case True
  then obtain q where a: "a = b * q" by (auto elim: dvdE simp: mod_eq_0_iff_dvd)
  have "(b * q + (b - 1)) div b = q + (b - 1) div b"
    using assms by (intro div_mult_self4) simp
  then show ?thesis using a assms by simp
next
  case False
  have "a + b - 1 = b * (a div b + 1) + (a mod b - 1)"
    using False mult_div_mod_eq[of b a] distrib_left[of b "a div b" 1] by linarith
  moreover have "(b * (a div b + 1) + (a mod b - 1)) div b = a div b + 1 + (a mod b - 1) div b"
    using assms by (intro div_mult_self4) simp
  moreover have "a mod b - 1 < b" using assms mod_less_divisor[of b a] by linarith
  ultimately show ?thesis using False by simp
qed

text \<open>\<open>u64::div_ceil\<close>.\<close>

definition div_ceil :: "u64 \<Rightarrow> u64 \<Rightarrow> u64" where
  "div_ceil a b = (if a mod b > 0 then a div b + 1 else a div b)"

lemma unat_div_ceil:
  assumes "b \<noteq> 0"
  shows "unat (div_ceil a b) = (unat a + unat b - 1) div unat b"
proof -
  have b: "0 < unat b" using assms by (simp add: unat_gt_0)
  have q: "unat a div unat b \<le> unat a" by simp
  show ?thesis
  proof (cases "a mod b > 0")
    case True
    then have m: "0 < unat a mod unat b" by (simp add: word_less_nat_alt unat_mod)
    then have "unat b \<noteq> 1" by auto
    then have "unat a div unat b < unat a \<or> unat a = 0" using b by (cases "unat a = 0") simp_all
    then have "unat a div unat b + 1 < 2 ^ 64"
      using unat_u64_less[of a] by auto
    then have "unat (a div b + 1) = unat a div unat b + 1"
      by (simp add: unat_div unat_add_lem[THEN iffD1])
    then show ?thesis using True m ceil_nat[OF b, of "unat a"] by (simp add: div_ceil_def)
  next
    case False
    then have "unat a mod unat b = 0" by (simp add: word_less_nat_alt unat_mod)
    then show ?thesis using False ceil_nat[OF b, of "unat a"] by (simp add: div_ceil_def unat_div)
  qed
qed

section \<open>Results\<close>

type_synonym ('e, 'a) result = "'e + 'a"

abbreviation Err :: "'e \<Rightarrow> ('e, 'a) result" where "Err \<equiv> Inl"
abbreviation Ok :: "'a \<Rightarrow> ('e, 'a) result" where "Ok \<equiv> Inr"

text \<open>The \<open>?\<close> operator: continue with the value or return the error.\<close>

definition and_then :: "('e, 'a) result \<Rightarrow> ('a \<Rightarrow> ('e, 'b) result) \<Rightarrow> ('e, 'b) result" where
  "and_then r k = (case r of Inl e \<Rightarrow> Inl e | Inr a \<Rightarrow> k a)"

lemma and_then_simps [simp]:
  "and_then (Inl e) k = Inl e"
  "and_then (Inr a) k = k a"
  by (simp_all add: and_then_def)

lemma and_then_eq_Inr: "and_then r k = Inr b \<longleftrightarrow> (\<exists>a. r = Inr a \<and> k a = Inr b)"
  by (cases r) auto

text \<open>\<open>map(f).collect::<Result<Vec<_>, _>>()\<close>: the values, or the first error.\<close>

fun collect_results :: "('a \<Rightarrow> ('e, 'b) result) \<Rightarrow> 'a list \<Rightarrow> ('e, 'b list) result" where
  "collect_results f [] = Ok []"
| "collect_results f (x # xs) =
     and_then (f x) (\<lambda>y. and_then (collect_results f xs) (\<lambda>ys. Ok (y # ys)))"

lemma collect_results_map:
  "(\<And>x. x \<in> set xs \<Longrightarrow> f x = Ok (g x)) \<Longrightarrow> collect_results f xs = Ok (map g xs)"
  by (induction xs) auto

lemma collect_results_member: "collect_results f xs = Ok ys \<Longrightarrow> y \<in> set ys \<Longrightarrow> \<exists>x\<in>set xs. f x = Ok y"
  by (induction xs arbitrary: ys) (auto simp: and_then_eq_Inr)

section \<open>Bytes and strings\<close>

definition byte_of :: "char \<Rightarrow> nat" where
  "byte_of c = of_char c"

definition is_ascii_digit :: "char \<Rightarrow> bool" where
  "is_ascii_digit c \<longleftrightarrow> 48 \<le> byte_of c \<and> byte_of c \<le> 57"

definition is_ascii_upper :: "char \<Rightarrow> bool" where
  "is_ascii_upper c \<longleftrightarrow> 65 \<le> byte_of c \<and> byte_of c \<le> 90"

definition is_ascii_lower :: "char \<Rightarrow> bool" where
  "is_ascii_lower c \<longleftrightarrow> 97 \<le> byte_of c \<and> byte_of c \<le> 122"

definition is_ascii_alphanumeric :: "char \<Rightarrow> bool" where
  "is_ascii_alphanumeric c \<longleftrightarrow> is_ascii_digit c \<or> is_ascii_upper c \<or> is_ascii_lower c"

definition is_lower_hex :: "char \<Rightarrow> bool" where
  "is_lower_hex c \<longleftrightarrow> is_ascii_digit c \<or> (97 \<le> byte_of c \<and> byte_of c \<le> 102)"

definition is_ascii_graphic :: "char \<Rightarrow> bool" where
  "is_ascii_graphic c \<longleftrightarrow> 33 \<le> byte_of c \<and> byte_of c \<le> 126"

text \<open>The bytes of tenants, presets, keys and client references.\<close>

definition token_byte :: "char \<Rightarrow> bool" where
  "token_byte c \<longleftrightarrow> is_ascii_alphanumeric c \<or> c = CHR ''-'' \<or> c = CHR ''_''"

text \<open>\<open>str::starts_with\<close>, \<open>str::split_once\<close> and a slice \<open>v[a..b]\<close>.\<close>

definition starts_with :: "string \<Rightarrow> string \<Rightarrow> bool" where
  "starts_with p v \<longleftrightarrow> take (length p) v = p"

definition split_once :: "char \<Rightarrow> string \<Rightarrow> (string \<times> string) option" where
  "split_once sep v =
     (if sep \<in> set v then Some (takeWhile (\<lambda>c. c \<noteq> sep) v, tl (dropWhile (\<lambda>c. c \<noteq> sep) v)) else None)"

definition slice :: "nat \<Rightarrow> nat \<Rightarrow> string \<Rightarrow> string" where
  "slice a b v = take (b - a) (drop a v)"

text \<open>Decimal texts: \<open>str::parse::<u64>\<close> of an all-digit text fails only on overflow.\<close>

definition digit :: "char \<Rightarrow> nat" where
  "digit c = byte_of c - 48"

definition decimal_value :: "string \<Rightarrow> nat" where
  "decimal_value ds = fold (\<lambda>c v. 10 * v + digit c) ds 0"

definition parse_digits_u64 :: "string \<Rightarrow> u64 option" where
  "parse_digits_u64 ds = (if decimal_value ds < 2 ^ 64 then Some (of_nat (decimal_value ds)) else None)"

lemma digit_less: "is_ascii_digit c \<Longrightarrow> digit c < 10"
  unfolding is_ascii_digit_def digit_def by linarith

lemma decimal_value_from: "fold (\<lambda>c v. 10 * v + digit c) ds n = n * 10 ^ length ds + decimal_value ds"
proof (induction ds arbitrary: n)
  case (Cons c ds)
  have "decimal_value (c # ds) = digit c * 10 ^ length ds + decimal_value ds"
    using Cons.IH[of "digit c"] by (simp add: decimal_value_def)
  then show ?case using Cons.IH[of "10 * n + digit c"] by (simp add: algebra_simps)
qed (simp add: decimal_value_def)

lemma decimal_value_append: "decimal_value (a @ b) = decimal_value a * 10 ^ length b + decimal_value b"
  using decimal_value_from[of b "decimal_value a"] by (simp add: decimal_value_def)

lemma decimal_value_bound: "list_all is_ascii_digit ds \<Longrightarrow> decimal_value ds < 10 ^ length ds"
proof (induction ds rule: rev_induct)
  case (snoc c ds)
  then have "decimal_value ds + 1 \<le> 10 ^ length ds" "digit c < 10" by (auto simp: digit_less)
  then have "decimal_value (ds @ [c]) < 10 * (decimal_value ds + 1)"
    by (simp add: decimal_value_append) (simp add: decimal_value_def)
  also have "\<dots> \<le> 10 * 10 ^ length ds" using \<open>decimal_value ds + 1 \<le> 10 ^ length ds\<close> by (rule mult_le_mono2)
  finally show ?case by simp
qed (simp add: decimal_value_def)

lemma decimal_value_zero:
  "list_all is_ascii_digit ds \<Longrightarrow> decimal_value ds = 0 \<longleftrightarrow> list_all (\<lambda>c. c = CHR ''0'') ds"
proof (induction ds rule: rev_induct)
  case (snoc c ds)
  have "digit c = 0 \<longleftrightarrow> c = CHR ''0''"
  proof
    assume "digit c = 0"
    then have "byte_of c = byte_of (CHR ''0'')" using snoc.prems by (simp add: digit_def is_ascii_digit_def byte_of_def)
    then show "c = CHR ''0''" unfolding byte_of_def by (metis char_of_char)
  qed (simp add: digit_def byte_of_def)
  then show ?case using snoc by (simp add: decimal_value_append) (simp add: decimal_value_def)
qed (simp add: decimal_value_def)

text \<open>\<open>str::split\<close> with a one-byte separator.\<close>

fun split_on :: "char \<Rightarrow> string \<Rightarrow> string list" where
  "split_on sep [] = [[]]"
| "split_on sep (c # cs) =
     (if c = sep then [] # split_on sep cs
      else (case split_on sep cs of [] \<Rightarrow> [[c]] | s # ss \<Rightarrow> (c # s) # ss))"

fun join_with :: "char \<Rightarrow> string list \<Rightarrow> string" where
  "join_with sep [] = []"
| "join_with sep [s] = s"
| "join_with sep (s # t # ss) = s @ sep # join_with sep (t # ss)"

lemma split_on_not_Nil [simp]: "split_on sep cs \<noteq> []"
  by (induction cs) (auto split: list.splits)

lemma join_split [simp]: "join_with sep (split_on sep cs) = cs"
proof (induction cs)
  case (Cons c cs)
  obtain s ss where split: "split_on sep cs = s # ss"
    by (metis neq_Nil_conv split_on_not_Nil)
  then show ?case
    using Cons.IH by (cases ss) auto
qed simp

lemma split_on_no_sep: "sep \<notin> set cs \<Longrightarrow> split_on sep cs = [cs]"
  by (induction cs) auto

lemma split_on_append:
  "sep \<notin> set xs \<Longrightarrow> split_on sep (xs @ sep # ys) = xs # split_on sep ys"
  by (induction xs) auto

lemma split_join: "list_all (\<lambda>s. sep \<notin> set s) ss \<Longrightarrow> ss \<noteq> [] \<Longrightarrow> split_on sep (join_with sep ss) = ss"
  by (induction sep ss rule: join_with.induct) (simp_all add: split_on_append split_on_no_sep)

lemma join_with_inj:
  assumes "list_all (\<lambda>s. sep \<notin> set s) ss" "list_all (\<lambda>s. sep \<notin> set s) ts" "ss \<noteq> []" "ts \<noteq> []"
    and "join_with sep ss = join_with sep ts"
  shows "ss = ts"
  using assms by (metis split_join)

section \<open>Tables\<close>

text \<open>A table is the list of its rows; a row is found by a key column.\<close>

definition lookup_row :: "('r \<Rightarrow> 'k) \<Rightarrow> 'k \<Rightarrow> 'r list \<Rightarrow> 'r option" where
  "lookup_row key k rows = find (\<lambda>r. key r = k) rows"

definition update_rows :: "('r \<Rightarrow> bool) \<Rightarrow> ('r \<Rightarrow> 'r) \<Rightarrow> 'r list \<Rightarrow> 'r list" where
  "update_rows p f rows = map (\<lambda>r. if p r then f r else r) rows"

text \<open>A statement that visits the selected rows one by one (firing a row trigger each time) keeps a
  relation between the table and the rest of the state if each visit does.\<close>

lemma fold_update_rows:
  assumes "\<And>xs r ys s. I (xs @ r # ys) s \<Longrightarrow> p r \<Longrightarrow> I (xs @ f r # ys) (fire r s)"
    and "I (seen @ rows) s"
  shows "I (seen @ update_rows p f rows) (fold fire (filter p rows) s)"
  using assms(2)
proof (induction rows arbitrary: seen s)
  case Nil
  then show ?case by (simp add: update_rows_def)
next
  case (Cons r rows)
  show ?case
  proof (cases "p r")
    case True
    then have "I ((seen @ [f r]) @ rows) (fire r s)"
      using assms(1)[of seen r rows s] Cons.prems by simp
    from Cons.IH[OF this] show ?thesis using True by (simp add: update_rows_def)
  next
    case False
    then show ?thesis
      using Cons.IH[of "seen @ [r]" s] Cons.prems by (simp add: update_rows_def)
  qed
qed

lemma fold_delete_rows:
  assumes "\<And>xs r ys s. I (xs @ r # ys) s \<Longrightarrow> p r \<Longrightarrow> I (xs @ ys) (fire r s)"
    and "I (seen @ rows) s"
  shows "I (seen @ filter (\<lambda>r. \<not> p r) rows) (fold fire (filter p rows) s)"
  using assms(2)
proof (induction rows arbitrary: seen s)
  case (Cons r rows)
  show ?case
  proof (cases "p r")
    case True
    then show ?thesis
      using assms(1)[of seen r rows s] Cons.IH[of seen "fire r s"] Cons.prems by simp
  next
    case False
    then show ?thesis using Cons.IH[of "seen @ [r]" s] Cons.prems by simp
  qed
qed simp

lemmas fold_update_table = fold_update_rows[where seen = "[]", simplified]
lemmas fold_delete_table = fold_delete_rows[where seen = "[]", simplified]

lemma set_update_rows: "set (update_rows p f rows) = (\<lambda>r. if p r then f r else r) ` set rows"
  by (simp add: update_rows_def)

lemma length_update_rows [simp]: "length (update_rows p f rows) = length rows"
  by (simp add: update_rows_def)

lemma map_update_rows:
  "(\<And>r. p r \<Longrightarrow> g (f r) = g r) \<Longrightarrow> map g (update_rows p f rows) = map g rows"
  by (simp add: update_rows_def)

lemma image_update_rows:
  "(\<And>r. p r \<Longrightarrow> g (f r) = g r) \<Longrightarrow> g ` set (update_rows p f rows) = g ` set rows"
  by (metis list.set_map map_update_rows)

lemma lookup_row_Some: "lookup_row key k rows = Some r \<Longrightarrow> r \<in> set rows \<and> key r = k"
  by (auto simp: lookup_row_def find_Some_iff)

lemma lookup_row_None: "lookup_row key k rows = None \<longleftrightarrow> k \<notin> key ` set rows"
  by (auto simp: lookup_row_def find_None_iff)

lemma lookup_row_unique:
  "distinct (map key rows) \<Longrightarrow> r \<in> set rows \<Longrightarrow> lookup_row key (key r) rows = Some r"
  by (induction rows) (auto simp: lookup_row_def image_iff)

lemma find_unique_key:
  assumes "distinct (map key rows)" "r \<in> set rows" "p r" "\<And>x. p x \<Longrightarrow> key x = key r"
  shows "find p rows = Some r"
  using assms(1,2)
proof (induction rows)
  case (Cons x rows)
  show ?case
  proof (cases "p x")
    case True
    then have "key x = key r" by (rule assms(4))
    then have "x = r" using Cons.prems by auto
    then show ?thesis using True by simp
  next
    case False
    then show ?thesis using Cons assms(3) by auto
  qed
qed simp

lemma lookup_row_append:
  "lookup_row key k (xs @ ys) =
     (case lookup_row key k xs of None \<Rightarrow> lookup_row key k ys | Some r \<Rightarrow> Some r)"
  by (induction xs) (auto simp: lookup_row_def)

lemma lookup_update_rows:
  assumes "\<And>r. p r \<Longrightarrow> key (f r) = key r"
  shows "lookup_row key k (update_rows p f rows) =
    map_option (\<lambda>r. if p r then f r else r) (lookup_row key k rows)"
  using assms by (induction rows) (auto simp: lookup_row_def update_rows_def)

text \<open>Counting, in the integers the counter columns hold.\<close>

definition tally :: "('r \<Rightarrow> bool) \<Rightarrow> 'r list \<Rightarrow> int" where
  "tally p rows = int (length (filter p rows))"

lemma tally_simps [simp]:
  "tally p [] = 0"
  "tally p (r # rows) = (if p r then 1 else 0) + tally p rows"
  "tally p (xs @ ys) = tally p xs + tally p ys"
  by (simp_all add: tally_def)

lemma tally_nonneg [simp]: "0 \<le> tally p rows"
  by (simp add: tally_def)

lemma fold_invariant_value:
  "(\<And>r s. F (g r s) = F s) \<Longrightarrow> F (fold g rs s) = F s"
  by (induction rs arbitrary: s) auto

text \<open>\<open>ORDER BY key LIMIT 1\<close>.\<close>

fun least_row :: "('r \<Rightarrow> 'k::linorder) \<Rightarrow> 'r list \<Rightarrow> 'r option" where
  "least_row key [] = None"
| "least_row key (r # rows) =
     (case least_row key rows of
        None \<Rightarrow> Some r
      | Some m \<Rightarrow> if key r \<le> key m then Some r else Some m)"

lemma least_row_None: "least_row key rows = None \<longleftrightarrow> rows = []"
  by (cases rows) (auto split: option.splits)

lemma least_row_Some:
  "least_row key rows = Some m \<Longrightarrow> m \<in> set rows \<and> (\<forall>r\<in>set rows. key m \<le> key r)"
  by (induction rows arbitrary: m)
    (auto simp: least_row_None split: option.splits if_splits intro: order.trans)

section \<open>Instants\<close>

text \<open>An instant is a number of nanoseconds since the epoch and a duration a number of nanoseconds;
  \<open>unix_timestamp\<close> and \<open>as_secs\<close> drop the part below a second, as their namesakes do.\<close>

type_synonym instant = int
type_synonym duration = nat

definition unix_timestamp :: "instant \<Rightarrow> int" where
  "unix_timestamp t = t div 1000000000"

definition as_secs :: "duration \<Rightarrow> nat" where
  "as_secs d = d div 1000000000"

definition seconds :: "nat \<Rightarrow> duration" where
  "seconds n = n * 1000000000"

lemma as_secs_seconds [simp]: "as_secs (seconds n) = n"
  by (simp add: as_secs_def seconds_def)

lemma unix_timestamp_mono: "s \<le> t \<Longrightarrow> unix_timestamp s \<le> unix_timestamp t"
  by (simp add: unix_timestamp_def zdiv_mono1)

lemma int_within: "0 \<le> g \<Longrightarrow> nat g + a \<le> b \<Longrightarrow> g + int a \<le> int b"
  by linarith

end
