(* ===== verification/Domain.thy ===== *)
theory Domain
  imports Prelude
begin

text \<open>
  The pure policies of \<open>crates/g7mb-domain/src/lib.rs\<close>: batch planning, object-key validation,
  the upload state machine and the image and video resource limits.  Sizes, dimensions and
  counters keep their machine widths; every early return is a value of the error datatype.
\<close>

section \<open>Identifiers, media kinds and states\<close>

text \<open>Upload and batch identifiers are UUIDs, kept as their 128 bits.\<close>

type_synonym uuid = "128 word"

datatype MediaKind = Image | Video

datatype UploadState =
    Created | Uploaded | Quarantined | Processing | Ready | Rejected | Failed | Deleted

fun can_transition_to :: "UploadState \<Rightarrow> UploadState \<Rightarrow> bool" where
  "can_transition_to Created Uploaded = True"
| "can_transition_to Uploaded Quarantined = True"
| "can_transition_to Quarantined Processing = True"
| "can_transition_to Quarantined Rejected = True"
| "can_transition_to Quarantined Failed = True"
| "can_transition_to Processing Ready = True"
| "can_transition_to Processing Rejected = True"
| "can_transition_to Processing Failed = True"
| "can_transition_to Created Deleted = True"
| "can_transition_to Uploaded Deleted = True"
| "can_transition_to Quarantined Deleted = True"
| "can_transition_to Processing Deleted = True"
| "can_transition_to Ready Deleted = True"
| "can_transition_to Rejected Deleted = True"
| "can_transition_to Failed Deleted = True"
| "can_transition_to _ _ = False"

record StateTransitionError =
  ste_from :: UploadState
  ste_to :: UploadState

definition transition_to :: "UploadState \<Rightarrow> UploadState \<Rightarrow> (StateTransitionError, UploadState) result" where
  "transition_to self target =
     (if \<not> can_transition_to self target then Err \<lparr>ste_from = self, ste_to = target\<rparr>
      else Ok target)"

text \<open>A sequence of states every two neighbours of which are a permitted transition.\<close>

fun transition_path :: "UploadState list \<Rightarrow> bool" where
  "transition_path (s # t # ss) \<longleftrightarrow> can_transition_to s t \<and> transition_path (t # ss)"
| "transition_path _ = True"

text \<open>The height of a state: the number of transitions it is above \<open>Deleted\<close> at most.\<close>

fun state_height :: "UploadState \<Rightarrow> nat" where
  "state_height Created = 5"
| "state_height Uploaded = 4"
| "state_height Quarantined = 3"
| "state_height Processing = 2"
| "state_height Ready = 1"
| "state_height Rejected = 1"
| "state_height Failed = 1"
| "state_height Deleted = 0"

lemma transition_lowers_height: "can_transition_to s t \<Longrightarrow> state_height t < state_height s"
  by (cases s; cases t) simp_all

lemma transition_path_height:
  "transition_path (s # ss) \<Longrightarrow> length ss \<le> state_height s"
proof (induction "s # ss" arbitrary: s ss rule: transition_path.induct)
  case (1 s t ss)
  then show ?case using transition_lowers_height[of s t] by fastforce
qed auto

lemma deleted_is_terminal [simp]: "\<not> can_transition_to Deleted t"
  by (cases t) simp_all

lemma deletion_always_permitted: "can_transition_to s Deleted \<longleftrightarrow> s \<noteq> Deleted"
  by (cases s) simp_all

lemma ready_only_from_processing: "can_transition_to s Ready \<longleftrightarrow> s = Processing"
  by (cases s) simp_all

text \<open>
  The upload lifecycle terminates: from any state at most as many transitions follow as the
  state is high, so at most five from \<open>created\<close>; and the only state with no way on is \<open>deleted\<close>.
\<close>

theorem lifecycle_bounded:
  "(transition_path (s # ss) \<longrightarrow> length ss \<le> state_height s) \<and>
   (\<forall>t. (\<exists>u. can_transition_to t u) \<longleftrightarrow> t \<noteq> Deleted)"
  using transition_path_height[of s ss] deletion_always_permitted deleted_is_terminal by metis

theorem lifecycle_bounded_witness:
  "length [Uploaded, Quarantined, Processing, Ready, Deleted] \<le> state_height Created"
  using lifecycle_bounded[of Created "[Uploaded, Quarantined, Processing, Ready, Deleted]"]
  by simp

section \<open>Batch planning\<close>

datatype UploadTransfer = SinglePut | Multipart (part_size_bytes: u64)

record UploadCandidate =
  declared_kind :: MediaKind
  byte_len :: u64

record UploadBatchPolicy =
  max_files :: nat
  max_batch_bytes :: u64
  max_image_bytes :: u64
  max_video_bytes :: u64
  multipart_threshold_bytes :: u64
  multipart_part_size_bytes :: u64

definition default_batch_policy :: UploadBatchPolicy where
  "default_batch_policy =
     \<lparr>max_files = 100,
      max_batch_bytes = 20 * 1024 * 1024 * 1024,
      max_image_bytes = 128 * 1024 * 1024,
      max_video_bytes = 5 * 1024 * 1024 * 1024,
      multipart_threshold_bytes = 100 * 1024 * 1024,
      multipart_part_size_bytes = 32 * 1024 * 1024\<rparr>"

datatype UploadBatchPolicyError =
    Empty | TooManyFiles | EmptyFile | FileTooLarge | BatchTooLarge | InvalidPartSize

definition kind_cap :: "UploadBatchPolicy \<Rightarrow> MediaKind \<Rightarrow> u64" where
  "kind_cap p k = (case k of Image \<Rightarrow> max_image_bytes p | Video \<Rightarrow> max_video_bytes p)"

definition transfer_for :: "UploadBatchPolicy \<Rightarrow> UploadCandidate \<Rightarrow> UploadTransfer" where
  "transfer_for p c =
     (if declared_kind c = Video \<or> multipart_threshold_bytes p \<le> byte_len c
      then Multipart (multipart_part_size_bytes p) else SinglePut)"

text \<open>The loop of \<open>plan\<close>: \<open>total_bytes\<close> and \<open>transfers\<close> are its two mutable variables.\<close>

fun plan_loop :: "UploadBatchPolicy \<Rightarrow> u64 \<Rightarrow> UploadTransfer list \<Rightarrow> UploadCandidate list
    \<Rightarrow> (UploadBatchPolicyError, UploadTransfer list) result" where
  "plan_loop p total_bytes transfers [] = Ok transfers"
| "plan_loop p total_bytes transfers (c # cs) =
     (if byte_len c = 0 then Err EmptyFile
      else if byte_len c > kind_cap p (declared_kind c) then Err FileTooLarge
      else (case checked_add total_bytes (byte_len c) of
              None \<Rightarrow> Err BatchTooLarge
            | Some total_bytes' \<Rightarrow>
                if total_bytes' > max_batch_bytes p then Err BatchTooLarge
                else plan_loop p total_bytes' (transfers @ [transfer_for p c]) cs))"

definition plan :: "UploadBatchPolicy \<Rightarrow> UploadCandidate list
    \<Rightarrow> (UploadBatchPolicyError, UploadTransfer list) result" where
  "plan p candidates =
     (if candidates = [] then Err Empty
      else if length candidates > max_files p then Err TooManyFiles
      else if multipart_part_size_bytes p < 5 * 1024 * 1024 then Err InvalidPartSize
      else plan_loop p 0 [] candidates)"

definition batch_bytes :: "UploadCandidate list \<Rightarrow> nat" where
  "batch_bytes cs = sum_list (map (\<lambda>c. unat (byte_len c)) cs)"

lemma batch_bytes_simps [simp]:
  "batch_bytes [] = 0"
  "batch_bytes (c # cs) = unat (byte_len c) + batch_bytes cs"
  "batch_bytes (cs @ ds) = batch_bytes cs + batch_bytes ds"
  by (simp_all add: batch_bytes_def)

definition candidate_ok :: "UploadBatchPolicy \<Rightarrow> UploadCandidate \<Rightarrow> bool" where
  "candidate_ok p c \<longleftrightarrow> 0 < byte_len c \<and> byte_len c \<le> kind_cap p (declared_kind c)"

lemma plan_loop_step:
  assumes "unat total_bytes \<le> unat (max_batch_bytes p)" "candidate_ok p c"
  shows "plan_loop p total_bytes ts (c # cs) =
    (if unat total_bytes + unat (byte_len c) \<le> unat (max_batch_bytes p)
     then plan_loop p (total_bytes + byte_len c) (ts @ [transfer_for p c]) cs
     else Err BatchTooLarge)"
proof (cases "checked_add total_bytes (byte_len c)")
  case None
  then have "2 ^ 64 \<le> unat total_bytes + unat (byte_len c)" by (simp add: checked_add_None)
  then show ?thesis
    using None assms(2) unat_u64_less[of "max_batch_bytes p"]
    by (auto simp: candidate_ok_def word_neq_0_conv)
next
  case (Some t)
  then have t: "unat t = unat total_bytes + unat (byte_len c)" "t = total_bytes + byte_len c"
    using checked_add_Some[of total_bytes "byte_len c" t]
    by (simp_all add: checked_add_def split: if_splits)
  then show ?thesis
    using Some assms(2) by (auto simp: candidate_ok_def word_neq_0_conv word_le_nat_alt word_less_nat_alt)
qed

lemma plan_loop_Ok:
  assumes "unat total_bytes \<le> unat (max_batch_bytes p)"
  shows "plan_loop p total_bytes acc cs = Ok ts \<longleftrightarrow>
    list_all (candidate_ok p) cs \<and> unat total_bytes + batch_bytes cs \<le> unat (max_batch_bytes p) \<and>
    ts = acc @ map (transfer_for p) cs"
  using assms
proof (induction cs arbitrary: total_bytes acc)
  case Nil
  then show ?case by auto
next
  case (Cons c cs)
  show ?case
  proof (cases "candidate_ok p c")
    case False
    then show ?thesis by (auto simp: candidate_ok_def word_neq_0_conv not_le)
  next
    case True
    note step = plan_loop_step[OF Cons.prems True]
    show ?thesis
    proof (cases "unat total_bytes + unat (byte_len c) \<le> unat (max_batch_bytes p)")
      case fits: True
      then have "unat (total_bytes + byte_len c) = unat total_bytes + unat (byte_len c)"
        using unat_u64_less[of "max_batch_bytes p"] by (simp add: unat_add_lem[THEN iffD1])
      then show ?thesis
        using Cons.IH[of "total_bytes + byte_len c" "acc @ [transfer_for p c]"] fits True
        by (simp add: step del: plan_loop.simps) (auto simp: add.assoc)
    next
      case False
      then show ?thesis using True by (simp add: step del: plan_loop.simps)
    qed
  qed
qed

lemma plan_Ok_iff:
  "plan p cs = Ok ts \<longleftrightarrow>
     cs \<noteq> [] \<and> length cs \<le> max_files p \<and> 5242880 \<le> multipart_part_size_bytes p \<and>
     list_all (candidate_ok p) cs \<and> batch_bytes cs \<le> unat (max_batch_bytes p) \<and>
     ts = map (transfer_for p) cs"
  using plan_loop_Ok[of 0 p "[]" cs ts] by (auto simp: plan_def not_less)

text \<open>
  \<open>plan\<close> accepts a batch exactly when it is non-empty, within the file count, planned with
  S3-sized parts, every file is non-empty and within the cap of its kind, and the true sum of the
  lengths (no wrap-around) is within the batch cap; it then returns one transfer per file, in
  order: multipart for videos and for files at the threshold, a single PUT otherwise.
\<close>

theorem plan_accepts_iff:
  "plan p cs = Ok ts \<longleftrightarrow>
     cs \<noteq> [] \<and> length cs \<le> max_files p \<and> 5242880 \<le> multipart_part_size_bytes p \<and>
     list_all (candidate_ok p) cs \<and> batch_bytes cs \<le> unat (max_batch_bytes p) \<and>
     ts = map (transfer_for p) cs"
  by (rule plan_Ok_iff)

text \<open>The error an offending candidate earns.\<close>

definition candidate_error :: "UploadBatchPolicy \<Rightarrow> UploadCandidate \<Rightarrow> UploadBatchPolicyError" where
  "candidate_error p c =
     (if byte_len c = 0 then EmptyFile
      else if kind_cap p (declared_kind c) < byte_len c then FileTooLarge
      else BatchTooLarge)"

lemma plan_loop_prefix:
  assumes "list_all (candidate_ok p) pre"
    and "unat t + batch_bytes pre \<le> unat (max_batch_bytes p)"
  shows "\<exists>t'. unat t' = unat t + batch_bytes pre \<and>
    plan_loop p t acc (pre @ post) = plan_loop p t' (acc @ map (transfer_for p) pre) post"
  using assms
proof (induction pre arbitrary: t acc)
  case Nil
  then show ?case by auto
next
  case (Cons c pre)
  then have ok: "candidate_ok p c" and fits: "unat t + unat (byte_len c) \<le> unat (max_batch_bytes p)"
    by auto
  have step: "plan_loop p t acc (c # pre @ post) =
      plan_loop p (t + byte_len c) (acc @ [transfer_for p c]) (pre @ post)"
    using plan_loop_step[OF _ ok, of t acc "pre @ post"] fits by simp
  have "unat (t + byte_len c) = unat t + unat (byte_len c)"
    using fits unat_u64_less[of "max_batch_bytes p"] by (simp add: unat_add_lem[THEN iffD1])
  then show ?case
    using Cons.IH[of "t + byte_len c" "acc @ [transfer_for p c]"] Cons.prems
    by (simp add: step add.assoc del: plan_loop.simps)
qed

text \<open>
  A rejected batch is rejected for its first offending file: if the files before \<open>c\<close> fit and
  \<open>c\<close> does not (alone or with them), \<open>plan\<close> returns the error of \<open>c\<close>, whatever follows it.
\<close>

theorem plan_first_offender:
  assumes "length (pre @ c # post) \<le> max_files p" "5242880 \<le> multipart_part_size_bytes p"
    and "list_all (candidate_ok p) pre" "batch_bytes pre \<le> unat (max_batch_bytes p)"
    and "\<not> (candidate_ok p c \<and> batch_bytes (pre @ [c]) \<le> unat (max_batch_bytes p))"
  shows "plan p (pre @ c # post) = Err (candidate_error p c)"
proof -
  obtain t where t: "unat t = batch_bytes pre"
      "plan_loop p 0 [] (pre @ c # post) = plan_loop p t (map (transfer_for p) pre) (c # post)"
    using plan_loop_prefix[of p pre 0 "[]" "c # post"] assms(3,4) by auto
  have "plan_loop p t (map (transfer_for p) pre) (c # post)
      = Err (candidate_error p c)"
  proof (cases "candidate_ok p c")
    case True
    then show ?thesis
      using plan_loop_step[of t p c] assms(4,5) t(1)
      by (auto simp: candidate_error_def candidate_ok_def word_neq_0_conv simp del: plan_loop.simps)
  next
    case False
    then show ?thesis by (auto simp: candidate_error_def candidate_ok_def word_neq_0_conv)
  qed
  then show ?thesis using t(2) assms(1,2) by (auto simp: plan_def not_less simp del: plan_loop.simps)
qed

theorem plan_first_offender_witness:
  "plan default_batch_policy
     [\<lparr>declared_kind = Image, byte_len = 7\<rparr>, \<lparr>declared_kind = Image, byte_len = 134217729\<rparr>,
      \<lparr>declared_kind = Video, byte_len = 0\<rparr>] = Err FileTooLarge"
  using plan_first_offender[of "[\<lparr>declared_kind = Image, byte_len = 7\<rparr>]"
      "\<lparr>declared_kind = Image, byte_len = 134217729\<rparr>" "[\<lparr>declared_kind = Video, byte_len = 0\<rparr>]"
      default_batch_policy]
  by (simp add: default_batch_policy_def candidate_ok_def candidate_error_def kind_cap_def)

section \<open>Object keys\<close>

datatype ObjectKeyError = KeyEmpty | TooLong | Absolute | UnsafeSegment | UnsupportedCharacter

definition unsafe_segment :: "string \<Rightarrow> bool" where
  "unsafe_segment s \<longleftrightarrow> s = [] \<or> s = ''.'' \<or> s = ''..''"

definition key_byte :: "char \<Rightarrow> bool" where
  "key_byte c \<longleftrightarrow> is_ascii_alphanumeric c \<or> c \<in> {CHR ''/'', CHR ''-'', CHR ''_'', CHR ''.''}"

definition validate_object_key :: "string \<Rightarrow> (ObjectKeyError, unit) result" where
  "validate_object_key value =
     (if value = [] then Err KeyEmpty
      else if length value > 1024 then Err TooLong
      else if hd value = CHR ''/'' then Err Absolute
      else if list_ex unsafe_segment (split_on CHR ''/'' value) then Err UnsafeSegment
      else if \<not> list_all key_byte value then Err UnsupportedCharacter
      else Ok ())"

text \<open>\<open>ObjectKey::new\<close>; an object key is the string it validated.\<close>

definition ObjectKey_new :: "string \<Rightarrow> (ObjectKeyError, string) result" where
  "ObjectKey_new value = and_then (validate_object_key value) (\<lambda>_. Ok value)"

definition valid_object_key :: "string \<Rightarrow> bool" where
  "valid_object_key value \<longleftrightarrow> validate_object_key value = Ok ()"

lemma valid_object_key_iff:
  "valid_object_key k \<longleftrightarrow>
     length k \<le> 1024 \<and> list_all (\<lambda>s. \<not> unsafe_segment s) (split_on CHR ''/'' k) \<and>
     list_all key_byte k"
proof (cases k)
  case (Cons c cs)
  then show ?thesis
    by (auto simp: valid_object_key_def validate_object_key_def list_all_iff list_ex_iff
        unsafe_segment_def split: list.splits)
qed (simp add: valid_object_key_def validate_object_key_def unsafe_segment_def)

text \<open>How a path resolver walks a relative path below a directory stack: an empty or \<open>.\<close>
  segment stays, \<open>..\<close> leaves the directory, anything else enters one.\<close>

fun resolve_path :: "string list \<Rightarrow> string list \<Rightarrow> string list" where
  "resolve_path dirs [] = dirs"
| "resolve_path dirs (s # ss) =
     (if s = [] \<or> s = ''.'' then resolve_path dirs ss
      else if s = ''..'' then resolve_path (butlast dirs) ss
      else resolve_path (dirs @ [s]) ss)"

lemma resolve_safe_segments:
  "list_all (\<lambda>s. \<not> unsafe_segment s) ss \<Longrightarrow> resolve_path dirs ss = dirs @ ss"
  by (induction ss arbitrary: dirs) (auto simp: unsafe_segment_def)

text \<open>
  A key \<open>ObjectKey::new\<close> accepts cannot leave the directory it is resolved in: walking its
  segments from any root enters exactly those segments below it, and joining them gives the key
  back, so two keys never name one path; the key is relative and at most 1024 bytes long.
\<close>

theorem object_key_confined:
  assumes "ObjectKey_new value = Ok k"
  shows "k = value \<and> length k \<le> 1024 \<and> k \<noteq> [] \<and> hd k \<noteq> CHR ''/'' \<and>
    resolve_path root (split_on CHR ''/'' k) = root @ split_on CHR ''/'' k \<and>
    join_with CHR ''/'' (drop (length root) (resolve_path root (split_on CHR ''/'' k))) = k"
proof -
  have valid: "valid_object_key k" "k = value"
    using assms by (auto simp: ObjectKey_new_def valid_object_key_def and_then_eq_Inr)
  then have "resolve_path root (split_on CHR ''/'' k) = root @ split_on CHR ''/'' k"
    by (simp add: valid_object_key_iff resolve_safe_segments)
  moreover have "k \<noteq> []" "hd k \<noteq> CHR ''/''" "length k \<le> 1024"
    using valid(1) by (auto simp: valid_object_key_def validate_object_key_def split: if_splits)
  ultimately show ?thesis using valid(2) by simp
qed

theorem object_key_confined_witness:
  "resolve_path [''srv''] (split_on CHR ''/'' ''raw/t/a.bin'') = [''srv'', ''raw'', ''t'', ''a.bin'']"
proof -
  have "ObjectKey_new ''raw/t/a.bin'' = Ok ''raw/t/a.bin''"
    by (simp add: ObjectKey_new_def validate_object_key_def unsafe_segment_def key_byte_def
        is_ascii_alphanumeric_def is_ascii_lower_def is_ascii_digit_def is_ascii_upper_def byte_of_def)
  from object_key_confined[OF this, of "[''srv'']"] show ?thesis by simp
qed

section \<open>Image limits\<close>

record ImageProbe =
  ip_byte_len :: u64
  ip_width :: u32
  ip_height :: u32
  ip_frames :: u32

datatype ImageWorkClass = Standard | Heavy

definition image_pixels :: "ImageProbe \<Rightarrow> u64" where
  "image_pixels probe = widening_mul (ip_width probe) (ip_height probe)"

definition work_class :: "ImageProbe \<Rightarrow> ImageWorkClass" where
  "work_class self =
     (if ip_width self > 16384 \<or> ip_height self > 16384 \<or> image_pixels self > 100000000
      then Heavy else Standard)"

record ImageLimits =
  il_max_bytes :: u64
  il_max_dimension :: u32
  il_max_pixels :: u64
  il_max_frames :: u32
  il_max_animated_pixels :: u64

definition default_image_limits :: ImageLimits where
  "default_image_limits =
     \<lparr>il_max_bytes = 64 * 1024 * 1024, il_max_dimension = 32768, il_max_pixels = 200000000,
      il_max_frames = 300, il_max_animated_pixels = 500000000\<rparr>"

datatype ImagePolicyError =
    EncodedBytes | ZeroDimensionOrFrame | Dimension | Pixels | Frames | AnimatedPixels

definition validate_image :: "ImageLimits \<Rightarrow> ImageProbe \<Rightarrow> (ImagePolicyError, unit) result" where
  "validate_image l probe =
     (if ip_byte_len probe > il_max_bytes l then Err EncodedBytes
      else if ip_width probe = 0 \<or> ip_height probe = 0 \<or> ip_frames probe = 0
      then Err ZeroDimensionOrFrame
      else if ip_width probe > il_max_dimension l \<or> ip_height probe > il_max_dimension l
      then Err Dimension
      else if image_pixels probe > il_max_pixels l then Err Pixels
      else if ip_frames probe > il_max_frames l then Err Frames
      else (case checked_mul (image_pixels probe) (ucast (ip_frames probe)) of
              None \<Rightarrow> Err AnimatedPixels
            | Some animated_pixels \<Rightarrow>
                if animated_pixels > il_max_animated_pixels l then Err AnimatedPixels
                else Ok ()))"

text \<open>The budgets of an image as the policy means them: arithmetic that cannot overflow, in the
  order they are reported.\<close>

definition image_budgets :: "ImageLimits \<Rightarrow> ImageProbe \<Rightarrow> (bool \<times> ImagePolicyError) list" where
  "image_budgets l p = (let w = unat (ip_width p); h = unat (ip_height p); f = unat (ip_frames p) in
     [(unat (ip_byte_len p) \<le> unat (il_max_bytes l), EncodedBytes),
      (0 < w \<and> 0 < h \<and> 0 < f, ZeroDimensionOrFrame),
      (max w h \<le> unat (il_max_dimension l), Dimension),
      (w * h \<le> unat (il_max_pixels l), Pixels),
      (f \<le> unat (il_max_frames l), Frames),
      (w * h * f \<le> unat (il_max_animated_pixels l), AnimatedPixels)])"

definition first_violated :: "(bool \<times> 'e) list \<Rightarrow> ('e, unit) result" where
  "first_violated bs = (case find (\<lambda>b. \<not> fst b) bs of None \<Rightarrow> Ok () | Some b \<Rightarrow> Err (snd b))"

lemma first_violated_simps [simp]:
  "first_violated [] = Ok ()"
  "first_violated ((b, e) # bs) = (if b then first_violated bs else Err e)"
  by (simp_all add: first_violated_def)

lemma first_violated_Ok: "first_violated bs = Ok () \<longleftrightarrow> list_all fst bs"
  by (induction bs) (auto split: if_splits)

lemma animated_budget:
  "(case checked_mul (image_pixels p) (ucast (ip_frames p)) of
      None \<Rightarrow> Err AnimatedPixels
    | Some a \<Rightarrow> if a > il_max_animated_pixels l then Err AnimatedPixels else Ok ()) =
   (if unat (ip_width p) * unat (ip_height p) * unat (ip_frames p) \<le> unat (il_max_animated_pixels l)
    then Ok () else Err AnimatedPixels)"
proof -
  have f: "unat (ucast (ip_frames p) :: u64) = unat (ip_frames p)"
    by (simp add: unsigned_ucast_eq take_bit_nat_eq_self_iff less_trans[OF unat_u32_less])
  show ?thesis
  proof (cases "checked_mul (image_pixels p) (ucast (ip_frames p))")
    case None
    then have "2 ^ 64 \<le> unat (ip_width p) * unat (ip_height p) * unat (ip_frames p)"
      by (simp add: checked_mul_None image_pixels_def f)
    then show ?thesis
      using None unat_u64_less[of "il_max_animated_pixels l"] by simp
  next
    case (Some a)
    then have "unat a = unat (ip_width p) * unat (ip_height p) * unat (ip_frames p)"
      by (simp add: checked_mul_Some image_pixels_def f)
    then show ?thesis using Some by (simp add: word_less_nat_alt not_le[symmetric])
  qed
qed

lemma u_zero_iff: "(w :: 'a::len word) = 0 \<longleftrightarrow> unat w = 0"
  by (simp add: unat_eq_0)

text \<open>
  \<open>ImageLimits::validate\<close> reports the first violated budget of the policy and accepts exactly
  when all six hold, computed without overflow: the \<open>checked_mul\<close> and the 32-bit widenings never
  let an oversized image through.
\<close>

theorem validate_image_first_violated:
  "validate_image l p = first_violated (image_budgets l p)"
  unfolding validate_image_def image_budgets_def Let_def animated_budget
  by (simp add: word_less_nat_alt image_pixels_def u_zero_iff not_less max_def)

section \<open>Video limits\<close>

record VideoProbe =
  vp_byte_len :: u64
  vp_duration_ms :: u64
  vp_width :: u32
  vp_height :: u32
  vp_video_streams :: u32
  vp_total_streams :: u32

record VideoLimits =
  vl_max_bytes :: u64
  vl_max_duration_ms :: u64
  vl_max_dimension :: u32
  vl_max_pixels :: u64
  vl_max_streams :: u32

definition default_video_limits :: VideoLimits where
  "default_video_limits =
     \<lparr>vl_max_bytes = 5 * 1024 * 1024 * 1024, vl_max_duration_ms = 6 * 60 * 60 * 1000,
      vl_max_dimension = 8192, vl_max_pixels = 40000000, vl_max_streams = 8\<rparr>"

datatype VideoPolicyError =
    VEncodedBytes | VDuration | VDimension | VPixels | VStreams

definition validate_video :: "VideoLimits \<Rightarrow> VideoProbe \<Rightarrow> (VideoPolicyError, unit) result" where
  "validate_video l probe =
     (if vp_byte_len probe = 0 \<or> vp_byte_len probe > vl_max_bytes l then Err VEncodedBytes
      else if vp_duration_ms probe = 0 \<or> vp_duration_ms probe > vl_max_duration_ms l
      then Err VDuration
      else if vp_width probe = 0 \<or> vp_height probe = 0 then Err VDimension
      else if vp_width probe > vl_max_dimension l \<or> vp_height probe > vl_max_dimension l
      then Err VDimension
      else if widening_mul (vp_width probe) (vp_height probe) > vl_max_pixels l then Err VPixels
      else if vp_video_streams probe \<noteq> 1 \<or> vp_total_streams probe = 0 \<or>
              vp_total_streams probe > vl_max_streams l
      then Err VStreams
      else Ok ())"

definition video_budgets :: "VideoLimits \<Rightarrow> VideoProbe \<Rightarrow> (bool \<times> VideoPolicyError) list" where
  "video_budgets l p = (let w = unat (vp_width p); h = unat (vp_height p) in
     [(unat (vp_byte_len p) \<in> {1..unat (vl_max_bytes l)}, VEncodedBytes),
      (unat (vp_duration_ms p) \<in> {1..unat (vl_max_duration_ms l)}, VDuration),
      (0 < w \<and> 0 < h \<and> max w h \<le> unat (vl_max_dimension l), VDimension),
      (w * h \<le> unat (vl_max_pixels l), VPixels),
      (unat (vp_video_streams p) = 1 \<and>
       unat (vp_total_streams p) \<in> {1..unat (vl_max_streams l)}, VStreams)])"

lemma u_one_iff: "(w :: 'a::len word) = 1 \<longleftrightarrow> unat w = 1"
  by (metis unat_1 word_unat_eq_iff)

text \<open>
  \<open>VideoLimits::validate\<close> reports the first violated budget of the policy and accepts exactly
  the probes within all of them, one video stream included.
\<close>

theorem validate_video_first_violated:
  "validate_video l p = first_violated (video_budgets l p)"
  unfolding validate_video_def video_budgets_def Let_def
  by (simp add: word_less_nat_alt u_zero_iff u_one_iff not_less max_def)

end
