(* ===== verification/Database.thy ===== *)
theory Database
  imports Domain
begin

text \<open>
  The tables of \<open>crates/g7mb-persistence-sqlite/migrations\<close> as lists of rows, and the SQL
  statements the repositories issue on them, each with the triggers of migrations 0009 and 0011
  that it fires.  \<open>storage_usage_global\<close>, \<open>tenant_storage_usage\<close> and \<open>operational_counters\<close> are
  the three tables only triggers write; \<open>counters_ok\<close> says they agree with the rows they
  summarise, and every statement is shown to preserve it.  \<open>verify_pool\<close> is the check the
  backup code of \<open>crates/g7mb-persistence-sqlite/src/backup.rs\<close> runs on a database.

  Text columns constrained by a \<open>CHECK (state IN ...)\<close> are datatypes; SQLite's 64-bit integers
  are natural numbers or integers whose \<open>try_from\<close> conversions the repositories write out; a
  UUID column, compared and ordered as canonical text, is the 128-bit value itself.
\<close>

section \<open>Rows\<close>

record UploadRow =
  up_id :: uuid
  up_tenant :: string
  up_key :: string
  up_state :: UploadState
  up_expected :: nat
  up_actual :: "nat option"
  up_hint :: string
  up_detected :: "string option"
  up_sha256 :: "string option"
  up_error :: "string option"
  up_created :: int
  up_updated :: int
  up_batch :: "uuid option"
  up_declared :: "MediaKind option"
  up_multipart :: bool
  up_part_size :: "nat option"
  up_session :: "string option"
  up_delete_requested :: "int option"
  up_deleted_at :: "int option"
  up_cleanup_owner :: "string option"
  up_cleanup_until :: "int option"
  up_cleanup_retry :: "int option"
  up_cleanup_attempts :: nat
  up_cleanup_error :: "string option"

datatype JobState = Queued | Leased | Completed | DeadLetter

record JobRow =
  job_id :: uuid
  job_upload :: uuid
  job_preset :: string
  job_state :: JobState
  job_attempts :: nat
  job_available :: int
  job_owner :: "string option"
  job_until :: "int option"
  job_error :: "string option"
  job_created :: int
  job_updated :: int
  job_revision :: "nat option"

record NonceRow =
  nonce_key :: string
  nonce_value :: string
  nonce_expires :: int

record BatchRow =
  batch_id :: uuid
  batch_tenant :: string
  batch_files :: nat
  batch_expected :: nat
  batch_created :: int

record DerivativeRow =
  drv_upload :: uuid
  drv_preset :: string
  drv_variant :: string
  drv_key :: string
  drv_type :: string
  drv_len :: nat
  drv_sha256 :: string
  drv_created :: int

datatype WatermarkPosition = Center | TopLeft | TopRight | BottomLeft | BottomRight

record StoredWatermark =
  wm_upload :: uuid
  wm_key :: string
  wm_len :: nat
  wm_sha256 :: string
  wm_position :: WatermarkPosition
  wm_margin :: nat
  wm_max_width :: nat
  wm_opacity :: nat

record PolicyRow =
  pol_tenant :: string
  pol_revision :: nat
  pol_schema :: nat
  pol_issued :: int
  pol_sha256 :: string
  pol_watermark :: "StoredWatermark option"
  pol_created :: int

datatype StorageNamespace = Raw | Derivative

text \<open>Ordered as the column's text is: \<open>'derivative'\<close> before \<open>'raw'\<close>.\<close>

instantiation StorageNamespace :: linorder
begin

definition less_eq_StorageNamespace :: "StorageNamespace \<Rightarrow> StorageNamespace \<Rightarrow> bool" where
  "less_eq_StorageNamespace m n \<longleftrightarrow> m = Derivative \<or> n = Raw"

definition less_StorageNamespace :: "StorageNamespace \<Rightarrow> StorageNamespace \<Rightarrow> bool" where
  "less_StorageNamespace m n \<longleftrightarrow> m = Derivative \<and> n = Raw"

instance
proof
  fix m n k :: StorageNamespace
  show "(m < n) = (m \<le> n \<and> \<not> n \<le> m)"
    by (cases m; cases n) (simp_all add: less_StorageNamespace_def less_eq_StorageNamespace_def)
  show "m \<le> m" by (cases m) (simp_all add: less_eq_StorageNamespace_def)
  show "m \<le> n \<Longrightarrow> n \<le> k \<Longrightarrow> m \<le> k"
    by (cases m; cases n) (simp_all add: less_eq_StorageNamespace_def)
  show "m \<le> n \<Longrightarrow> n \<le> m \<Longrightarrow> m = n"
    by (cases m; cases n) (simp_all add: less_eq_StorageNamespace_def)
  show "m \<le> n \<or> n \<le> m" by (cases m; cases n) (simp_all add: less_eq_StorageNamespace_def)
qed

end

datatype OrphanState = Suspected | OrphanDeleted

record OrphanRow =
  orp_namespace :: StorageNamespace
  orp_key :: string
  orp_len :: nat
  orp_first_seen :: int
  orp_last_seen :: int
  orp_state :: OrphanState
  orp_attempts :: nat
  orp_error :: "string option"
  orp_deleted_at :: "int option"

record OperationalCounters =
  queued_jobs :: int
  leased_jobs :: int
  dead_letter_jobs :: int
  processing_uploads :: int
  cleanup_pending_uploads :: int
  upload_tombstones :: int
  orphan_suspects :: int
  orphan_delete_failures :: int

record Database =
  uploads :: "UploadRow list"
  jobs :: "JobRow list"
  request_nonces :: "NonceRow list"
  upload_batches :: "BatchRow list"
  derivatives :: "DerivativeRow list"
  site_policies :: "PolicyRow list"
  orphans :: "OrphanRow list"
  inventory_cursors :: "(StorageNamespace \<times> string option) list"
  next_claim_sequence :: nat
  tenant_queue_state :: "(string \<times> nat) list"
  global_reserved :: int
  tenant_reserved :: "(string \<times> int) list"
  operational :: OperationalCounters

definition empty_counters :: OperationalCounters where
  "empty_counters = \<lparr>queued_jobs = 0, leased_jobs = 0, dead_letter_jobs = 0,
     processing_uploads = 0, cleanup_pending_uploads = 0, upload_tombstones = 0,
     orphan_suspects = 0, orphan_delete_failures = 0\<rparr>"

text \<open>The database the migrations create.\<close>

definition empty_database :: Database where
  "empty_database = \<lparr>uploads = [], jobs = [], request_nonces = [], upload_batches = [],
     derivatives = [], site_policies = [], orphans = [], inventory_cursors = [],
     next_claim_sequence = 1, tenant_queue_state = [], global_reserved = 0,
     tenant_reserved = [], operational = empty_counters\<rparr>"

definition i64_max :: nat where
  "i64_max = 9223372036854775807"

section \<open>Triggers\<close>

definition live :: "UploadRow \<Rightarrow> bool" where
  "live r \<longleftrightarrow> up_state r \<noteq> Deleted"

definition cleanup_pending :: "UploadRow \<Rightarrow> bool" where
  "cleanup_pending r \<longleftrightarrow> up_state r \<noteq> Deleted \<and> up_delete_requested r \<noteq> None"

definition delete_failed :: "OrphanRow \<Rightarrow> bool" where
  "delete_failed r \<longleftrightarrow> orp_state r = Suspected \<and> orp_error r \<noteq> None"

definition flag :: "bool \<Rightarrow> int" where
  "flag b = (if b then 1 else 0)"

definition live_bytes :: "UploadRow \<Rightarrow> int" where
  "live_bytes r = (if live r then int (up_expected r) else 0)"

fun add_usage :: "string \<Rightarrow> int \<Rightarrow> (string \<times> int) list \<Rightarrow> (string \<times> int) list" where
  "add_usage t n [] = [(t, n)]"
| "add_usage t n ((t', m) # us) =
     (if t' = t then (t', m + n) # us else (t', m) # add_usage t n us)"

definition sub_usage :: "string \<Rightarrow> int \<Rightarrow> (string \<times> int) list \<Rightarrow> (string \<times> int) list" where
  "sub_usage t n us = map (\<lambda>(t', m). if t' = t then (t', m - n) else (t', m)) us"

definition drop_zero_usage :: "string \<Rightarrow> (string \<times> int) list \<Rightarrow> (string \<times> int) list" where
  "drop_zero_usage t us = filter (\<lambda>(t', m). \<not> (t' = t \<and> m = 0)) us"

text \<open>\<open>uploads_storage_usage_after_insert\<close>, \<open>..._update\<close> and \<open>..._delete\<close>.\<close>

definition usage_after_insert :: "UploadRow \<Rightarrow> Database \<Rightarrow> Database" where
  "usage_after_insert new db =
     (if live new
      then db\<lparr>global_reserved := global_reserved db + int (up_expected new),
              tenant_reserved := add_usage (up_tenant new) (int (up_expected new)) (tenant_reserved db)\<rparr>
      else db)"

definition usage_after_update :: "UploadRow \<Rightarrow> UploadRow \<Rightarrow> Database \<Rightarrow> Database" where
  "usage_after_update old new db =
     (if up_tenant old \<noteq> up_tenant new \<or> up_state old \<noteq> up_state new \<or>
         up_expected old \<noteq> up_expected new
      then (let us1 = (if live old then sub_usage (up_tenant old) (int (up_expected old)) (tenant_reserved db)
                       else tenant_reserved db);
                us2 = drop_zero_usage (up_tenant old) us1;
                us3 = (if live new then add_usage (up_tenant new) (int (up_expected new)) us2 else us2)
            in db\<lparr>global_reserved := global_reserved db - live_bytes old + live_bytes new,
                  tenant_reserved := us3\<rparr>)
      else db)"

definition usage_after_delete :: "UploadRow \<Rightarrow> Database \<Rightarrow> Database" where
  "usage_after_delete old db =
     (if live old
      then db\<lparr>global_reserved := global_reserved db - int (up_expected old),
              tenant_reserved := drop_zero_usage (up_tenant old)
                (sub_usage (up_tenant old) (int (up_expected old)) (tenant_reserved db))\<rparr>
      else db)"

text \<open>The triggers of \<open>operational_counters\<close>: one row leaves (\<open>old\<close>) and one arrives (\<open>new\<close>).\<close>

definition operational_uploads :: "UploadRow option \<Rightarrow> UploadRow option \<Rightarrow> Database \<Rightarrow> Database" where
  "operational_uploads old new db = (let c = operational db;
      d = (\<lambda>p. (case new of None \<Rightarrow> 0 | Some r \<Rightarrow> flag (p r)) - (case old of None \<Rightarrow> 0 | Some r \<Rightarrow> flag (p r)))
    in db\<lparr>operational := c\<lparr>
        processing_uploads := processing_uploads c + d (\<lambda>r. up_state r = Processing),
        cleanup_pending_uploads := cleanup_pending_uploads c + d cleanup_pending,
        upload_tombstones := upload_tombstones c + d (\<lambda>r. up_state r = Deleted)\<rparr>\<rparr>)"

definition operational_jobs :: "JobRow option \<Rightarrow> JobRow option \<Rightarrow> Database \<Rightarrow> Database" where
  "operational_jobs old new db = (let c = operational db;
      d = (\<lambda>s. (case new of None \<Rightarrow> 0 | Some r \<Rightarrow> flag (job_state r = s)) -
               (case old of None \<Rightarrow> 0 | Some r \<Rightarrow> flag (job_state r = s)))
    in db\<lparr>operational := c\<lparr>
        queued_jobs := queued_jobs c + d Queued,
        leased_jobs := leased_jobs c + d Leased,
        dead_letter_jobs := dead_letter_jobs c + d DeadLetter\<rparr>\<rparr>)"

definition operational_orphans :: "OrphanRow option \<Rightarrow> OrphanRow option \<Rightarrow> Database \<Rightarrow> Database" where
  "operational_orphans old new db = (let c = operational db;
      d = (\<lambda>p. (case new of None \<Rightarrow> 0 | Some r \<Rightarrow> flag (p r)) - (case old of None \<Rightarrow> 0 | Some r \<Rightarrow> flag (p r)))
    in db\<lparr>operational := c\<lparr>
        orphan_suspects := orphan_suspects c + d (\<lambda>r. orp_state r = Suspected),
        orphan_delete_failures := orphan_delete_failures c + d delete_failed\<rparr>\<rparr>)"

section \<open>Statements\<close>

definition insert_upload :: "UploadRow \<Rightarrow> Database \<Rightarrow> Database" where
  "insert_upload r db =
     operational_uploads None (Some r) (usage_after_insert r (db\<lparr>uploads := uploads db @ [r]\<rparr>))"

definition fire_upload_update :: "UploadRow \<Rightarrow> UploadRow \<Rightarrow> Database \<Rightarrow> Database" where
  "fire_upload_update old new db =
     operational_uploads (Some old) (Some new) (usage_after_update old new db)"

definition update_uploads :: "(UploadRow \<Rightarrow> bool) \<Rightarrow> (UploadRow \<Rightarrow> UploadRow) \<Rightarrow> Database \<Rightarrow> Database" where
  "update_uploads p f db =
     fold (\<lambda>r. fire_upload_update r (f r)) (filter p (uploads db))
       (db\<lparr>uploads := update_rows p f (uploads db)\<rparr>)"

definition insert_job :: "JobRow \<Rightarrow> Database \<Rightarrow> Database" where
  "insert_job r db = operational_jobs None (Some r) (db\<lparr>jobs := jobs db @ [r]\<rparr>)"

definition update_jobs :: "(JobRow \<Rightarrow> bool) \<Rightarrow> (JobRow \<Rightarrow> JobRow) \<Rightarrow> Database \<Rightarrow> Database" where
  "update_jobs p f db =
     fold (\<lambda>r. operational_jobs (Some r) (Some (f r))) (filter p (jobs db))
       (db\<lparr>jobs := update_rows p f (jobs db)\<rparr>)"

definition delete_jobs :: "(JobRow \<Rightarrow> bool) \<Rightarrow> Database \<Rightarrow> Database" where
  "delete_jobs p db =
     fold (\<lambda>r. operational_jobs (Some r) None) (filter p (jobs db))
       (db\<lparr>jobs := filter (\<lambda>r. \<not> p r) (jobs db)\<rparr>)"

text \<open>Deleting an upload cascades to its jobs and derivatives.\<close>

definition fire_upload_delete :: "UploadRow \<Rightarrow> Database \<Rightarrow> Database" where
  "fire_upload_delete old db = operational_uploads (Some old) None (usage_after_delete old db)"

definition delete_uploads :: "(UploadRow \<Rightarrow> bool) \<Rightarrow> Database \<Rightarrow> Database" where
  "delete_uploads p db = (let gone = map up_id (filter p (uploads db));
      db1 = fold fire_upload_delete (filter p (uploads db))
              (db\<lparr>uploads := filter (\<lambda>r. \<not> p r) (uploads db)\<rparr>);
      db2 = delete_jobs (\<lambda>j. job_upload j \<in> set gone) db1
    in db2\<lparr>derivatives := filter (\<lambda>d. drv_upload d \<notin> set gone) (derivatives db2)\<rparr>)"

definition insert_orphan :: "OrphanRow \<Rightarrow> Database \<Rightarrow> Database" where
  "insert_orphan r db = operational_orphans None (Some r) (db\<lparr>orphans := orphans db @ [r]\<rparr>)"

definition update_orphans :: "(OrphanRow \<Rightarrow> bool) \<Rightarrow> (OrphanRow \<Rightarrow> OrphanRow) \<Rightarrow> Database \<Rightarrow> Database" where
  "update_orphans p f db =
     fold (\<lambda>r. operational_orphans (Some r) (Some (f r))) (filter p (orphans db))
       (db\<lparr>orphans := update_rows p f (orphans db)\<rparr>)"

definition delete_orphans :: "(OrphanRow \<Rightarrow> bool) \<Rightarrow> Database \<Rightarrow> Database" where
  "delete_orphans p db =
     fold (\<lambda>r. operational_orphans (Some r) None) (filter p (orphans db))
       (db\<lparr>orphans := filter (\<lambda>r. \<not> p r) (orphans db)\<rparr>)"

section \<open>The counters agree with the rows\<close>

definition tenant_bytes :: "string \<Rightarrow> UploadRow list \<Rightarrow> int" where
  "tenant_bytes t us = sum_list (map (\<lambda>r. if up_tenant r = t then live_bytes r else 0) us)"

definition usage_ok :: "UploadRow list \<Rightarrow> (string \<times> int) list \<Rightarrow> bool" where
  "usage_ok us tab \<longleftrightarrow> distinct (map fst tab) \<and>
     (\<forall>t. map_of tab t = (if tenant_bytes t us = 0 then None else Some (tenant_bytes t us)))"

definition operational_of :: "UploadRow list \<Rightarrow> JobRow list \<Rightarrow> OrphanRow list \<Rightarrow> OperationalCounters" where
  "operational_of us js os =
     \<lparr>queued_jobs = tally (\<lambda>j. job_state j = Queued) js,
      leased_jobs = tally (\<lambda>j. job_state j = Leased) js,
      dead_letter_jobs = tally (\<lambda>j. job_state j = DeadLetter) js,
      processing_uploads = tally (\<lambda>r. up_state r = Processing) us,
      cleanup_pending_uploads = tally cleanup_pending us,
      upload_tombstones = tally (\<lambda>r. up_state r = Deleted) us,
      orphan_suspects = tally (\<lambda>r. orp_state r = Suspected) os,
      orphan_delete_failures = tally delete_failed os\<rparr>"

definition counters_agree :: "UploadRow list \<Rightarrow> JobRow list \<Rightarrow> OrphanRow list \<Rightarrow> Database \<Rightarrow> bool" where
  "counters_agree us js os db \<longleftrightarrow>
     list_all (\<lambda>r. 0 < up_expected r) us \<and>
     global_reserved db = sum_list (map live_bytes us) \<and>
     usage_ok us (tenant_reserved db) \<and>
     operational db = operational_of us js os"

definition counters_ok :: "Database \<Rightarrow> bool" where
  "counters_ok db \<longleftrightarrow> counters_agree (uploads db) (jobs db) (orphans db) db"

lemma tenant_bytes_simps [simp]:
  "tenant_bytes t [] = 0"
  "tenant_bytes t (r # us) = (if up_tenant r = t then live_bytes r else 0) + tenant_bytes t us"
  "tenant_bytes t (us @ vs) = tenant_bytes t us + tenant_bytes t vs"
  by (simp_all add: tenant_bytes_def)

lemma live_bytes_nonneg [simp]: "0 \<le> live_bytes r"
  by (simp add: live_bytes_def)

lemma tenant_bytes_nonneg [simp]: "0 \<le> tenant_bytes t us"
  by (induction us) auto

lemma map_of_add_usage:
  "map_of (add_usage t n us) = (map_of us)(t \<mapsto> (case map_of us t of None \<Rightarrow> n | Some m \<Rightarrow> m + n))"
  by (induction t n us rule: add_usage.induct) (auto simp: fun_eq_iff)

lemma map_of_sub_usage:
  "map_of (sub_usage t n us) = (map_of us)(t := map_option (\<lambda>m. m - n) (map_of us t))"
  by (induction us) (auto simp: sub_usage_def fun_eq_iff)

lemma map_of_drop_zero_usage:
  "distinct (map fst us) \<Longrightarrow>
   map_of (drop_zero_usage t us) = (if map_of us t = Some 0 then (map_of us)(t := None) else map_of us)"
proof (induction us)
  case (Cons u us)
  then have "map_of us (fst u) = None" by (simp add: map_of_eq_None_iff)
  then show ?case using Cons by (cases u) (auto simp: drop_zero_usage_def fun_eq_iff)
qed (simp add: drop_zero_usage_def)

lemma fst_add_usage: "fst ` set (add_usage t n us) = insert t (fst ` set us)"
  by (induction t n us rule: add_usage.induct) auto

lemma distinct_usage:
  "distinct (map fst us) \<Longrightarrow> distinct (map fst (add_usage t n us))"
  "distinct (map fst us) \<Longrightarrow> distinct (map fst (sub_usage t n us))"
  "distinct (map fst us) \<Longrightarrow> distinct (map fst (drop_zero_usage t us))"
proof -
  show "distinct (map fst us) \<Longrightarrow> distinct (map fst (add_usage t n us))"
    by (induction t n us rule: add_usage.induct) (auto simp: fst_add_usage image_iff)
  have "map fst (sub_usage t n us) = map fst us" by (simp add: sub_usage_def split_def comp_def)
  then show "distinct (map fst us) \<Longrightarrow> distinct (map fst (sub_usage t n us))" by simp
  show "distinct (map fst us) \<Longrightarrow> distinct (map fst (drop_zero_usage t us))"
    by (simp add: drop_zero_usage_def distinct_map_filter)
qed

lemmas usage_maps = map_of_add_usage map_of_sub_usage map_of_drop_zero_usage distinct_usage

lemma usage_okD:
  "usage_ok us tab \<Longrightarrow> map_of tab t = (if tenant_bytes t us = 0 then None else Some (tenant_bytes t us))"
  "usage_ok us tab \<Longrightarrow> distinct (map fst tab)"
  by (simp_all add: usage_ok_def)

lemma usage_remove:
  assumes "usage_ok (xs @ old # ys) tab" "0 < up_expected old"
  shows "usage_ok (xs @ ys) (drop_zero_usage (up_tenant old)
    (if live old then sub_usage (up_tenant old) (int (up_expected old)) tab else tab))"
proof -
  note tab = usage_okD(1)[OF assms(1)] and [simp] = usage_okD(2)[OF assms(1)]
  have sum: "tenant_bytes (up_tenant old) (xs @ old # ys) =
      live_bytes old + tenant_bytes (up_tenant old) (xs @ ys)" by simp
  show ?thesis
  proof (cases "live old")
    case True
    then have "live_bytes old = int (up_expected old)" by (simp add: live_bytes_def)
    then have pos: "tenant_bytes (up_tenant old) (xs @ old # ys) \<noteq> 0"
      using assms(2) tenant_bytes_nonneg[of "up_tenant old" "xs @ ys"] by (simp only: sum)
    show ?thesis
      using True pos \<open>live_bytes old = int (up_expected old)\<close>
      by (auto simp: usage_ok_def usage_maps tab fun_upd_def)
  next
    case False
    then have "live_bytes old = 0" by (simp add: live_bytes_def)
    then show ?thesis
      using False by (auto simp: usage_ok_def usage_maps tab fun_upd_def)
  qed
qed

lemma usage_add:
  assumes "usage_ok (xs @ ys) tab" "0 < up_expected new"
  shows "usage_ok (xs @ new # ys)
    (if live new then add_usage (up_tenant new) (int (up_expected new)) tab else tab)"
proof -
  note tab = usage_okD(1)[OF assms(1)] and [simp] = usage_okD(2)[OF assms(1)]
  show ?thesis
  proof (cases "live new")
    case True
    then have "live_bytes new = int (up_expected new)" by (simp add: live_bytes_def)
    moreover have "tenant_bytes (up_tenant new) xs +
        (int (up_expected new) + tenant_bytes (up_tenant new) ys) \<noteq> 0"
      using assms(2) tenant_bytes_nonneg[of "up_tenant new" xs] tenant_bytes_nonneg[of "up_tenant new" ys]
      by linarith
    ultimately show ?thesis
      using True assms(2) by (auto simp: usage_ok_def usage_maps tab)
  next
    case False
    then have "live_bytes new = 0" by (simp add: live_bytes_def)
    then show ?thesis using False by (auto simp: usage_ok_def tab)
  qed
qed

lemma usage_unchanged:
  assumes "usage_ok (xs @ old # ys) tab"
    and "up_tenant old = up_tenant new" "up_state old = up_state new" "up_expected old = up_expected new"
  shows "usage_ok (xs @ new # ys) tab"
  using assms by (simp add: usage_ok_def live_bytes_def live_def)

text \<open>Each trigger keeps the counters in agreement with the table it watches.\<close>

lemma counters_agree_update:
  assumes "counters_agree (xs @ old # ys) js os db" "0 < up_expected new"
  shows "counters_agree (xs @ new # ys) js os (fire_upload_update old new db)"
proof -
  have pos: "0 < up_expected old" and usage: "usage_ok (xs @ old # ys) (tenant_reserved db)"
    using assms(1) by (auto simp: counters_agree_def)
  have "tenant_reserved (usage_after_update old new db) =
     (if up_tenant old \<noteq> up_tenant new \<or> up_state old \<noteq> up_state new \<or> up_expected old \<noteq> up_expected new
      then (if live new then add_usage (up_tenant new) (int (up_expected new)) else id)
             (drop_zero_usage (up_tenant old)
               (if live old then sub_usage (up_tenant old) (int (up_expected old)) (tenant_reserved db)
                else tenant_reserved db))
      else tenant_reserved db)"
    by (simp add: usage_after_update_def Let_def)
  then have "usage_ok (xs @ new # ys) (tenant_reserved (usage_after_update old new db))"
    using usage_add[OF usage_remove[OF usage pos] assms(2)] usage_unchanged[OF usage]
    by (auto split: if_splits)
  moreover have "live_bytes new = live_bytes old"
    if "up_state old = up_state new" "up_expected old = up_expected new"
    using that by (simp add: live_bytes_def live_def)
  ultimately show ?thesis
    using assms
    by (auto simp: counters_agree_def fire_upload_update_def operational_uploads_def
        usage_after_update_def operational_of_def Let_def flag_def)
qed

lemma counters_agree_insert:
  assumes "counters_agree us js os db" "0 < up_expected r"
  shows "counters_agree (us @ [r]) js os (operational_uploads None (Some r) (usage_after_insert r db))"
  using assms usage_add[of us "[]" "tenant_reserved db" r]
  by (auto simp: counters_agree_def operational_uploads_def usage_after_insert_def operational_of_def
      Let_def flag_def live_bytes_def)

lemma counters_agree_delete:
  assumes "counters_agree (xs @ old # ys) js os db"
  shows "counters_agree (xs @ ys) js os (fire_upload_delete old db)"
proof -
  have "usage_ok (xs @ ys) (tenant_reserved db)" if "\<not> live old"
    using assms that by (simp add: counters_agree_def usage_ok_def live_bytes_def)
  then show ?thesis
    using assms usage_remove[of xs old ys "tenant_reserved db"]
    by (auto simp: counters_agree_def fire_upload_delete_def operational_uploads_def
        usage_after_delete_def operational_of_def Let_def flag_def live_bytes_def)
qed

lemma counters_agree_jobs:
  "counters_agree us (xs @ old # ys) os db \<Longrightarrow>
     counters_agree us (xs @ new # ys) os (operational_jobs (Some old) (Some new) db)"
  "counters_agree us (xs @ old # ys) os db \<Longrightarrow>
     counters_agree us (xs @ ys) os (operational_jobs (Some old) None db)"
  "counters_agree us js os db \<Longrightarrow>
     counters_agree us (js @ [new]) os (operational_jobs None (Some new) db)"
  by (auto simp: counters_agree_def operational_jobs_def operational_of_def Let_def flag_def)

lemma counters_agree_orphans:
  "counters_agree us js (xs @ old # ys) db \<Longrightarrow>
     counters_agree us js (xs @ new # ys) (operational_orphans (Some old) (Some new) db)"
  "counters_agree us js (xs @ old # ys) db \<Longrightarrow>
     counters_agree us js (xs @ ys) (operational_orphans (Some old) None db)"
  "counters_agree us js os db \<Longrightarrow>
     counters_agree us js (os @ [o']) (operational_orphans None (Some o') db)"
  by (auto simp: counters_agree_def operational_orphans_def operational_of_def Let_def flag_def)

section \<open>What a statement changes\<close>

text \<open>The rows of a database, with the tables only triggers write blanked out.\<close>

definition rows_of :: "Database \<Rightarrow> Database" where
  "rows_of db = db\<lparr>global_reserved := 0, tenant_reserved := [], operational := empty_counters\<rparr>"

lemma rows_of_triggers:
  "rows_of (operational_uploads old_u new_u db) = rows_of db"
  "rows_of (operational_jobs old_j new_j db) = rows_of db"
  "rows_of (operational_orphans old_o new_o db) = rows_of db"
  "rows_of (usage_after_insert u db) = rows_of db"
  "rows_of (usage_after_update u v db) = rows_of db"
  "rows_of (usage_after_delete u db) = rows_of db"
  "rows_of (fire_upload_update u v db) = rows_of db"
  "rows_of (fire_upload_delete u db) = rows_of db"
  by (simp_all add: rows_of_def operational_uploads_def operational_jobs_def operational_orphans_def
      usage_after_insert_def usage_after_update_def usage_after_delete_def fire_upload_update_def
      fire_upload_delete_def Let_def)

lemma rows_of_fields:
  assumes "rows_of db = rows_of db'"
  shows "uploads db = uploads db'" "jobs db = jobs db'" "request_nonces db = request_nonces db'"
    "upload_batches db = upload_batches db'" "derivatives db = derivatives db'"
    "site_policies db = site_policies db'" "orphans db = orphans db'"
    "inventory_cursors db = inventory_cursors db'" "next_claim_sequence db = next_claim_sequence db'"
    "tenant_queue_state db = tenant_queue_state db'"
  using assms by (cases db; cases db'; simp add: rows_of_def)+

lemma rows_of_statements:
  "rows_of (insert_upload r db) = rows_of (db\<lparr>uploads := uploads db @ [r]\<rparr>)"
  "rows_of (update_uploads p f db) = rows_of (db\<lparr>uploads := update_rows p f (uploads db)\<rparr>)"
  "rows_of (insert_job j db) = rows_of (db\<lparr>jobs := jobs db @ [j]\<rparr>)"
  "rows_of (update_jobs pj fj db) = rows_of (db\<lparr>jobs := update_rows pj fj (jobs db)\<rparr>)"
  "rows_of (delete_jobs pj db) = rows_of (db\<lparr>jobs := filter (\<lambda>r. \<not> pj r) (jobs db)\<rparr>)"
  "rows_of (insert_orphan o' db) = rows_of (db\<lparr>orphans := orphans db @ [o']\<rparr>)"
  "rows_of (update_orphans po fo db) = rows_of (db\<lparr>orphans := update_rows po fo (orphans db)\<rparr>)"
  "rows_of (delete_orphans po db) = rows_of (db\<lparr>orphans := filter (\<lambda>r. \<not> po r) (orphans db)\<rparr>)"
  unfolding insert_upload_def update_uploads_def insert_job_def update_jobs_def delete_jobs_def
    insert_orphan_def update_orphans_def delete_orphans_def
  by (simp_all add: rows_of_triggers fold_invariant_value[of rows_of])

lemma insert_upload_rows [simp]:
  "uploads (insert_upload r db) = uploads db @ [r]"
  "jobs (insert_upload r db) = jobs db"
  "request_nonces (insert_upload r db) = request_nonces db"
  "upload_batches (insert_upload r db) = upload_batches db"
  "derivatives (insert_upload r db) = derivatives db"
  "site_policies (insert_upload r db) = site_policies db"
  "orphans (insert_upload r db) = orphans db"
  "inventory_cursors (insert_upload r db) = inventory_cursors db"
  "next_claim_sequence (insert_upload r db) = next_claim_sequence db"
  "tenant_queue_state (insert_upload r db) = tenant_queue_state db"
  using rows_of_fields[OF rows_of_statements(1)] by simp_all

lemma update_uploads_rows [simp]:
  "uploads (update_uploads p f db) = update_rows p f (uploads db)"
  "jobs (update_uploads p f db) = jobs db"
  "request_nonces (update_uploads p f db) = request_nonces db"
  "upload_batches (update_uploads p f db) = upload_batches db"
  "derivatives (update_uploads p f db) = derivatives db"
  "site_policies (update_uploads p f db) = site_policies db"
  "orphans (update_uploads p f db) = orphans db"
  "inventory_cursors (update_uploads p f db) = inventory_cursors db"
  "next_claim_sequence (update_uploads p f db) = next_claim_sequence db"
  "tenant_queue_state (update_uploads p f db) = tenant_queue_state db"
  using rows_of_fields[OF rows_of_statements(2)] by simp_all

lemma insert_job_rows [simp]:
  "uploads (insert_job j db) = uploads db"
  "jobs (insert_job j db) = jobs db @ [j]"
  "request_nonces (insert_job j db) = request_nonces db"
  "upload_batches (insert_job j db) = upload_batches db"
  "derivatives (insert_job j db) = derivatives db"
  "site_policies (insert_job j db) = site_policies db"
  "orphans (insert_job j db) = orphans db"
  "inventory_cursors (insert_job j db) = inventory_cursors db"
  "next_claim_sequence (insert_job j db) = next_claim_sequence db"
  "tenant_queue_state (insert_job j db) = tenant_queue_state db"
  using rows_of_fields[OF rows_of_statements(3)] by simp_all

lemma update_jobs_rows [simp]:
  "uploads (update_jobs pj fj db) = uploads db"
  "jobs (update_jobs pj fj db) = update_rows pj fj (jobs db)"
  "request_nonces (update_jobs pj fj db) = request_nonces db"
  "upload_batches (update_jobs pj fj db) = upload_batches db"
  "derivatives (update_jobs pj fj db) = derivatives db"
  "site_policies (update_jobs pj fj db) = site_policies db"
  "orphans (update_jobs pj fj db) = orphans db"
  "inventory_cursors (update_jobs pj fj db) = inventory_cursors db"
  "next_claim_sequence (update_jobs pj fj db) = next_claim_sequence db"
  "tenant_queue_state (update_jobs pj fj db) = tenant_queue_state db"
  using rows_of_fields[OF rows_of_statements(4)] by simp_all

lemma delete_jobs_rows [simp]:
  "uploads (delete_jobs pj db) = uploads db"
  "jobs (delete_jobs pj db) = filter (\<lambda>r. \<not> pj r) (jobs db)"
  "request_nonces (delete_jobs pj db) = request_nonces db"
  "upload_batches (delete_jobs pj db) = upload_batches db"
  "derivatives (delete_jobs pj db) = derivatives db"
  "site_policies (delete_jobs pj db) = site_policies db"
  "orphans (delete_jobs pj db) = orphans db"
  "inventory_cursors (delete_jobs pj db) = inventory_cursors db"
  "next_claim_sequence (delete_jobs pj db) = next_claim_sequence db"
  "tenant_queue_state (delete_jobs pj db) = tenant_queue_state db"
  using rows_of_fields[OF rows_of_statements(5)] by simp_all

lemma insert_orphan_rows [simp]:
  "uploads (insert_orphan o' db) = uploads db"
  "jobs (insert_orphan o' db) = jobs db"
  "request_nonces (insert_orphan o' db) = request_nonces db"
  "upload_batches (insert_orphan o' db) = upload_batches db"
  "derivatives (insert_orphan o' db) = derivatives db"
  "site_policies (insert_orphan o' db) = site_policies db"
  "orphans (insert_orphan o' db) = orphans db @ [o']"
  "inventory_cursors (insert_orphan o' db) = inventory_cursors db"
  "next_claim_sequence (insert_orphan o' db) = next_claim_sequence db"
  "tenant_queue_state (insert_orphan o' db) = tenant_queue_state db"
  using rows_of_fields[OF rows_of_statements(6)] by simp_all

lemma update_orphans_rows [simp]:
  "uploads (update_orphans po fo db) = uploads db"
  "jobs (update_orphans po fo db) = jobs db"
  "request_nonces (update_orphans po fo db) = request_nonces db"
  "upload_batches (update_orphans po fo db) = upload_batches db"
  "derivatives (update_orphans po fo db) = derivatives db"
  "site_policies (update_orphans po fo db) = site_policies db"
  "orphans (update_orphans po fo db) = update_rows po fo (orphans db)"
  "inventory_cursors (update_orphans po fo db) = inventory_cursors db"
  "next_claim_sequence (update_orphans po fo db) = next_claim_sequence db"
  "tenant_queue_state (update_orphans po fo db) = tenant_queue_state db"
  using rows_of_fields[OF rows_of_statements(7)] by simp_all

lemma delete_orphans_rows [simp]:
  "uploads (delete_orphans po db) = uploads db"
  "jobs (delete_orphans po db) = jobs db"
  "request_nonces (delete_orphans po db) = request_nonces db"
  "upload_batches (delete_orphans po db) = upload_batches db"
  "derivatives (delete_orphans po db) = derivatives db"
  "site_policies (delete_orphans po db) = site_policies db"
  "orphans (delete_orphans po db) = filter (\<lambda>r. \<not> po r) (orphans db)"
  "inventory_cursors (delete_orphans po db) = inventory_cursors db"
  "next_claim_sequence (delete_orphans po db) = next_claim_sequence db"
  "tenant_queue_state (delete_orphans po db) = tenant_queue_state db"
  using rows_of_fields[OF rows_of_statements(8)] by simp_all

lemma delete_uploads_rows_of:
  "rows_of (delete_uploads p db) = rows_of (db\<lparr>uploads := filter (\<lambda>r. \<not> p r) (uploads db),
     jobs := filter (\<lambda>j. job_upload j \<notin> up_id ` set (filter p (uploads db))) (jobs db),
     derivatives := filter (\<lambda>d. drv_upload d \<notin> up_id ` set (filter p (uploads db))) (derivatives db)\<rparr>)"
proof -
  let ?db1 = "fold fire_upload_delete (filter p (uploads db)) (db\<lparr>uploads := filter (\<lambda>r. \<not> p r) (uploads db)\<rparr>)"
  have "rows_of ?db1 = rows_of (db\<lparr>uploads := filter (\<lambda>r. \<not> p r) (uploads db)\<rparr>)"
    by (rule fold_invariant_value) (simp add: rows_of_triggers)
  note db1 = rows_of_fields[OF this]
  show ?thesis
    by (simp add: delete_uploads_def Let_def rows_of_def db1 rows_of_fields[OF rows_of_statements(5)])
qed

lemma delete_uploads_rows [simp]:
  "uploads (delete_uploads p db) = filter (\<lambda>r. \<not> p r) (uploads db)"
  "jobs (delete_uploads p db) = filter (\<lambda>j. job_upload j \<notin> up_id ` set (filter p (uploads db))) (jobs db)"
  "request_nonces (delete_uploads p db) = request_nonces db"
  "upload_batches (delete_uploads p db) = upload_batches db"
  "derivatives (delete_uploads p db) = filter (\<lambda>d. drv_upload d \<notin> up_id ` set (filter p (uploads db))) (derivatives db)"
  "site_policies (delete_uploads p db) = site_policies db"
  "orphans (delete_uploads p db) = orphans db"
  "inventory_cursors (delete_uploads p db) = inventory_cursors db"
  "next_claim_sequence (delete_uploads p db) = next_claim_sequence db"
  "tenant_queue_state (delete_uploads p db) = tenant_queue_state db"
  using rows_of_fields[OF delete_uploads_rows_of] by simp_all

section \<open>Every statement keeps the counters\<close>

lemma counters_agree_rows [simp]:
  "counters_agree us js os (db\<lparr>uploads := x\<rparr>) = counters_agree us js os db"
  "counters_agree us js os (db\<lparr>jobs := y\<rparr>) = counters_agree us js os db"
  "counters_agree us js os (db\<lparr>request_nonces := n\<rparr>) = counters_agree us js os db"
  "counters_agree us js os (db\<lparr>upload_batches := b\<rparr>) = counters_agree us js os db"
  "counters_agree us js os (db\<lparr>derivatives := d\<rparr>) = counters_agree us js os db"
  "counters_agree us js os (db\<lparr>site_policies := s\<rparr>) = counters_agree us js os db"
  "counters_agree us js os (db\<lparr>orphans := z\<rparr>) = counters_agree us js os db"
  "counters_agree us js os (db\<lparr>inventory_cursors := i\<rparr>) = counters_agree us js os db"
  "counters_agree us js os (db\<lparr>next_claim_sequence := q\<rparr>) = counters_agree us js os db"
  "counters_agree us js os (db\<lparr>tenant_queue_state := tq\<rparr>) = counters_agree us js os db"
  by (simp_all add: counters_agree_def)

named_theorems counters_intros \<open>statements that keep the counters\<close>

lemma counters_ok_insert_upload [counters_intros]:
  "counters_ok db \<Longrightarrow> 0 < up_expected r \<Longrightarrow> counters_ok (insert_upload r db)"
  unfolding counters_ok_def insert_upload_rows
  unfolding insert_upload_def by (rule counters_agree_insert) simp_all

lemma counters_ok_update_uploads [counters_intros]:
  assumes "counters_ok db" "\<And>r. p r \<Longrightarrow> up_expected (f r) = up_expected r"
  shows "counters_ok (update_uploads p f db)"
proof -
  have "counters_agree (update_rows p f (uploads db)) (jobs db) (orphans db)
     (fold (\<lambda>r. fire_upload_update r (f r)) (filter p (uploads db))
       (db\<lparr>uploads := update_rows p f (uploads db)\<rparr>))"
  proof (rule fold_update_table[where I = "\<lambda>us s. counters_agree us (jobs db) (orphans db) s"])
    fix xs r ys s
    assume agree: "counters_agree (xs @ r # ys) (jobs db) (orphans db) s" and "p r"
    then have "0 < up_expected (f r)" using assms(2) by (auto simp: counters_agree_def)
    with agree show "counters_agree (xs @ f r # ys) (jobs db) (orphans db) (fire_upload_update r (f r) s)"
      by (rule counters_agree_update)
  qed (use assms(1) in \<open>simp add: counters_ok_def\<close>)
  then show ?thesis
    unfolding counters_ok_def update_uploads_rows by (simp add: update_uploads_def)
qed

lemma counters_ok_jobs [counters_intros]:
  assumes "counters_ok db"
  shows "counters_ok (insert_job j db)" "counters_ok (update_jobs p f db)" "counters_ok (delete_jobs p db)"
proof -
  show "counters_ok (insert_job j db)"
    unfolding counters_ok_def insert_job_rows
    unfolding insert_job_def by (rule counters_agree_jobs) (use assms in \<open>simp add: counters_ok_def\<close>)
  have "counters_agree (uploads db) (update_rows p f (jobs db)) (orphans db)
     (fold (\<lambda>r. operational_jobs (Some r) (Some (f r))) (filter p (jobs db))
       (db\<lparr>jobs := update_rows p f (jobs db)\<rparr>))"
    by (rule fold_update_table[where I = "\<lambda>js s. counters_agree (uploads db) js (orphans db) s"])
      (use assms in \<open>simp_all add: counters_ok_def counters_agree_jobs\<close>)
  then show "counters_ok (update_jobs p f db)"
    unfolding counters_ok_def update_jobs_rows by (simp add: update_jobs_def)
  have "counters_agree (uploads db) (filter (\<lambda>r. \<not> p r) (jobs db)) (orphans db)
     (fold (\<lambda>r. operational_jobs (Some r) None) (filter p (jobs db))
       (db\<lparr>jobs := filter (\<lambda>r. \<not> p r) (jobs db)\<rparr>))"
    by (rule fold_delete_table[where I = "\<lambda>js s. counters_agree (uploads db) js (orphans db) s"])
      (use assms in \<open>simp_all add: counters_ok_def counters_agree_jobs\<close>)
  then show "counters_ok (delete_jobs p db)"
    unfolding counters_ok_def delete_jobs_rows by (simp add: delete_jobs_def)
qed

lemma counters_ok_orphans [counters_intros]:
  assumes "counters_ok db"
  shows "counters_ok (insert_orphan o' db)" "counters_ok (update_orphans p f db)"
    "counters_ok (delete_orphans p db)"
proof -
  show "counters_ok (insert_orphan o' db)"
    unfolding counters_ok_def insert_orphan_rows
    unfolding insert_orphan_def by (rule counters_agree_orphans) (use assms in \<open>simp add: counters_ok_def\<close>)
  have "counters_agree (uploads db) (jobs db) (update_rows p f (orphans db))
     (fold (\<lambda>r. operational_orphans (Some r) (Some (f r))) (filter p (orphans db))
       (db\<lparr>orphans := update_rows p f (orphans db)\<rparr>))"
    by (rule fold_update_table[where I = "\<lambda>os s. counters_agree (uploads db) (jobs db) os s"])
      (use assms in \<open>simp_all add: counters_ok_def counters_agree_orphans\<close>)
  then show "counters_ok (update_orphans p f db)"
    unfolding counters_ok_def update_orphans_rows by (simp add: update_orphans_def)
  have "counters_agree (uploads db) (jobs db) (filter (\<lambda>r. \<not> p r) (orphans db))
     (fold (\<lambda>r. operational_orphans (Some r) None) (filter p (orphans db))
       (db\<lparr>orphans := filter (\<lambda>r. \<not> p r) (orphans db)\<rparr>))"
    by (rule fold_delete_table[where I = "\<lambda>os s. counters_agree (uploads db) (jobs db) os s"])
      (use assms in \<open>simp_all add: counters_ok_def counters_agree_orphans\<close>)
  then show "counters_ok (delete_orphans p db)"
    unfolding counters_ok_def delete_orphans_rows by (simp add: delete_orphans_def)
qed

lemma counters_ok_delete_uploads [counters_intros]:
  assumes "counters_ok db"
  shows "counters_ok (delete_uploads p db)"
proof -
  let ?db1 = "fold fire_upload_delete (filter p (uploads db)) (db\<lparr>uploads := filter (\<lambda>r. \<not> p r) (uploads db)\<rparr>)"
  have "rows_of ?db1 = rows_of (db\<lparr>uploads := filter (\<lambda>r. \<not> p r) (uploads db)\<rparr>)"
    by (rule fold_invariant_value) (simp add: rows_of_triggers)
  note db1 = rows_of_fields[OF this]
  have "counters_agree (filter (\<lambda>r. \<not> p r) (uploads db)) (jobs db) (orphans db) ?db1"
    by (rule fold_delete_table[where I = "\<lambda>us s. counters_agree us (jobs db) (orphans db) s"])
      (use assms in \<open>simp_all add: counters_ok_def counters_agree_delete\<close>)
  then have "counters_ok ?db1" by (simp add: counters_ok_def db1)
  then show ?thesis
    using counters_ok_jobs(3)[of ?db1 "\<lambda>j. job_upload j \<in> set (map up_id (filter p (uploads db)))"]
    by (simp add: delete_uploads_def Let_def counters_ok_def)
qed

lemma counters_ok_fields [simp]:
  "counters_ok (db\<lparr>request_nonces := n\<rparr>) = counters_ok db"
  "counters_ok (db\<lparr>upload_batches := b\<rparr>) = counters_ok db"
  "counters_ok (db\<lparr>derivatives := d\<rparr>) = counters_ok db"
  "counters_ok (db\<lparr>site_policies := s\<rparr>) = counters_ok db"
  "counters_ok (db\<lparr>inventory_cursors := i\<rparr>) = counters_ok db"
  "counters_ok (db\<lparr>next_claim_sequence := q\<rparr>) = counters_ok db"
  "counters_ok (db\<lparr>tenant_queue_state := tq\<rparr>) = counters_ok db"
  by (simp_all add: counters_ok_def)

lemma counters_ok_empty: "counters_ok empty_database"
  by (simp add: counters_ok_def counters_agree_def empty_database_def usage_ok_def operational_of_def
      empty_counters_def)

end
