(* ===== verification/Integrity.thy ===== *)
theory Integrity
  imports Database
begin

text \<open>
  What a well-formed database is (unique keys, foreign keys, row and queue conditions, counters),
  and the two readers of \<open>crates/g7mb-persistence-sqlite\<close> that report on it: \<open>verify_pool\<close> of
  \<open>src/backup.rs\<close>, run before and after every backup, and \<open>operational_snapshot\<close> of
  \<open>src/lib.rs\<close>.  SQLite's own \<open>quick_check\<close> and the migration history that \<open>sqlx\<close> keeps are
  arguments.
\<close>

section \<open>Well-formed databases\<close>

definition foreign_keys_ok :: "Database \<Rightarrow> bool" where
  "foreign_keys_ok db \<longleftrightarrow>
     job_upload ` set (jobs db) \<subseteq> up_id ` set (uploads db) \<and>
     drv_upload ` set (derivatives db) \<subseteq> up_id ` set (uploads db) \<and>
     (\<forall>r\<in>set (uploads db). \<forall>b. up_batch r = Some b \<longrightarrow> b \<in> batch_id ` set (upload_batches db)) \<and>
     (\<forall>p\<in>set (site_policies db). \<forall>w. pol_watermark p = Some w \<longrightarrow> wm_upload w \<in> up_id ` set (uploads db))"

lemma foreign_keys_ok_code [code]:
  "foreign_keys_ok db \<longleftrightarrow>
     list_all (\<lambda>j. job_upload j \<in> set (map up_id (uploads db))) (jobs db) \<and>
     list_all (\<lambda>d. drv_upload d \<in> set (map up_id (uploads db))) (derivatives db) \<and>
     list_all (\<lambda>r. pred_option (\<lambda>b. b \<in> set (map batch_id (upload_batches db))) (up_batch r)) (uploads db) \<and>
     list_all (\<lambda>p. pred_option (\<lambda>w. wm_upload w \<in> set (map up_id (uploads db))) (pol_watermark p)) (site_policies db)"
  by (auto simp: foreign_keys_ok_def list_all_iff option.pred_set)

definition unique_keys_ok :: "Database \<Rightarrow> bool" where
  "unique_keys_ok db \<longleftrightarrow>
     distinct (map up_id (uploads db)) \<and> distinct (map up_key (uploads db)) \<and>
     distinct (map job_id (jobs db)) \<and>
     distinct (map (\<lambda>j. (job_upload j, job_preset j)) (jobs db)) \<and>
     distinct (map (\<lambda>n. (nonce_key n, nonce_value n)) (request_nonces db)) \<and>
     distinct (map batch_id (upload_batches db)) \<and>
     distinct (map (\<lambda>d. (drv_upload d, drv_preset d, drv_variant d)) (derivatives db)) \<and>
     distinct (map drv_key (derivatives db)) \<and>
     distinct (map (\<lambda>p. (pol_tenant p, pol_revision p)) (site_policies db)) \<and>
     distinct (map (\<lambda>r. (orp_namespace r, orp_key r)) (orphans db))"

text \<open>An upload row can be read back, is a tombstone exactly when it carries a deletion time, and is
  leased for cleanup with an owner and a deadline or with neither.\<close>

definition upload_row_ok :: "UploadRow \<Rightarrow> bool" where
  "upload_row_ok r \<longleftrightarrow>
     valid_object_key (up_key r) \<and> up_declared r \<noteq> None \<and>
     0 < up_expected r \<and> up_expected r \<le> i64_max \<and>
     (up_multipart r \<longrightarrow> up_session r \<noteq> None \<and>
        (case up_part_size r of None \<Rightarrow> False | Some n \<Rightarrow> 5242880 \<le> n \<and> n \<le> i64_max)) \<and>
     (up_state r = Deleted \<longleftrightarrow> up_deleted_at r \<noteq> None) \<and>
     (up_cleanup_owner r = None \<longleftrightarrow> up_cleanup_until r = None) \<and>
     (up_state r \<notin> {Created, Deleted} \<longrightarrow> up_actual r \<noteq> None)"

text \<open>A job is leased exactly when it has an owner and a deadline.\<close>

definition job_row_ok :: "JobRow \<Rightarrow> bool" where
  "job_row_ok j \<longleftrightarrow>
     (job_state j = Leased \<longleftrightarrow> job_owner j \<noteq> None) \<and>
     (job_state j = Leased \<longleftrightarrow> job_until j \<noteq> None) \<and>
     1 \<le> length (job_preset j) \<and> length (job_preset j) \<le> 128"

text \<open>Claim sequence numbers already handed out are below the next one.\<close>

definition queue_ok :: "Database \<Rightarrow> bool" where
  "queue_ok db \<longleftrightarrow> 0 < next_claim_sequence db \<and> distinct (map fst (tenant_queue_state db)) \<and>
     (\<forall>(t, n)\<in>set (tenant_queue_state db). 0 < n \<and> n < next_claim_sequence db) \<and>
     distinct (map snd (tenant_queue_state db))"

definition orphan_row_ok :: "OrphanRow \<Rightarrow> bool" where
  "orphan_row_ok r \<longleftrightarrow> (orp_state r = OrphanDeleted \<longleftrightarrow> orp_deleted_at r \<noteq> None)"

definition derivative_row_ok :: "DerivativeRow \<Rightarrow> bool" where
  "derivative_row_ok d \<longleftrightarrow> valid_object_key (drv_key d) \<and> 0 < drv_len d \<and> drv_len d \<le> i64_max"

definition db_ok :: "Database \<Rightarrow> bool" where
  "db_ok db \<longleftrightarrow> counters_ok db \<and> foreign_keys_ok db \<and> unique_keys_ok db \<and> queue_ok db \<and>
     list_all upload_row_ok (uploads db) \<and> list_all job_row_ok (jobs db) \<and>
     list_all orphan_row_ok (orphans db) \<and> list_all derivative_row_ok (derivatives db)"

lemma db_ok_empty: "db_ok empty_database"
  by (simp add: db_ok_def counters_ok_empty foreign_keys_ok_def unique_keys_ok_def queue_ok_def)
    (simp add: empty_database_def)

section \<open>Statements keep a database well formed\<close>

lemma db_ok_parts:
  assumes "db_ok db"
  shows "counters_ok db" "foreign_keys_ok db" "unique_keys_ok db" "queue_ok db"
    "list_all upload_row_ok (uploads db)" "list_all job_row_ok (jobs db)"
    "list_all orphan_row_ok (orphans db)" "list_all derivative_row_ok (derivatives db)"
  using assms by (simp_all add: db_ok_def)

lemma db_ok_unique_upload:
  "db_ok db \<Longrightarrow> r \<in> set (uploads db) \<Longrightarrow> lookup_row up_id (up_id r) (uploads db) = Some r"
  by (auto simp: db_ok_def unique_keys_ok_def intro: lookup_row_unique)

named_theorems db_intros \<open>statements that keep a database well formed\<close>

lemma db_ok_update_uploads [db_intros]:
  assumes "db_ok db"
    and "\<And>r. p r \<Longrightarrow> up_id (f r) = up_id r \<and> up_key (f r) = up_key r \<and>
           up_batch (f r) = up_batch r \<and> up_expected (f r) = up_expected r"
    and "\<And>r. p r \<Longrightarrow> r \<in> set (uploads db) \<Longrightarrow> upload_row_ok r \<Longrightarrow> upload_row_ok (f r)"
  shows "db_ok (update_uploads p f db)"
proof -
  have maps: "map up_id (update_rows p f (uploads db)) = map up_id (uploads db)"
    "map up_key (update_rows p f (uploads db)) = map up_key (uploads db)"
    using assms(2) by (auto intro!: map_update_rows)
  have ids: "up_id ` set (update_rows p f (uploads db)) = up_id ` set (uploads db)"
    using maps(1) by (metis list.set_map)
  have "counters_ok (update_uploads p f db)"
    using assms by (intro counters_ok_update_uploads) (auto simp: db_ok_def)
  moreover have "\<forall>r\<in>set (update_rows p f (uploads db)).
      \<forall>b. up_batch r = Some b \<longrightarrow> b \<in> batch_id ` set (upload_batches db)"
    using db_ok_parts(2)[OF assms(1)] assms(2) by (auto simp: foreign_keys_ok_def set_update_rows)
  then have "foreign_keys_ok (update_uploads p f db)"
    using db_ok_parts(2)[OF assms(1)] by (simp add: foreign_keys_ok_def ids)
  moreover have "list_all upload_row_ok (update_rows p f (uploads db))"
    using db_ok_parts(5)[OF assms(1)] assms(3) by (auto simp: list_all_iff set_update_rows)
  ultimately show ?thesis
    using assms(1) by (simp add: db_ok_def unique_keys_ok_def queue_ok_def maps)
qed

lemma db_ok_update_jobs [db_intros]:
  assumes "db_ok db"
    and "\<And>j. p j \<Longrightarrow> job_id (f j) = job_id j \<and> job_upload (f j) = job_upload j \<and>
           job_preset (f j) = job_preset j"
    and "\<And>j. p j \<Longrightarrow> job_row_ok j \<Longrightarrow> job_row_ok (f j)"
  shows "db_ok (update_jobs p f db)"
proof -
  have maps: "map job_id (update_rows p f (jobs db)) = map job_id (jobs db)"
    "map (\<lambda>j. (job_upload j, job_preset j)) (update_rows p f (jobs db)) =
       map (\<lambda>j. (job_upload j, job_preset j)) (jobs db)"
    "map job_upload (update_rows p f (jobs db)) = map job_upload (jobs db)"
    using assms(2) by (auto intro!: map_update_rows)
  have "job_upload ` set (update_rows p f (jobs db)) = job_upload ` set (jobs db)"
    using maps(3) by (metis list.set_map)
  moreover have "list_all job_row_ok (update_rows p f (jobs db))"
    using db_ok_parts(6)[OF assms(1)] assms(3) by (auto simp: list_all_iff set_update_rows)
  ultimately show ?thesis
    using assms(1)
    by (simp add: db_ok_def counters_ok_jobs unique_keys_ok_def queue_ok_def foreign_keys_ok_def maps)
qed

lemma db_ok_insert_job [db_intros]:
  assumes "db_ok db" "job_row_ok j" "job_id j \<notin> job_id ` set (jobs db)"
    "(job_upload j, job_preset j) \<notin> (\<lambda>j. (job_upload j, job_preset j)) ` set (jobs db)"
    "job_upload j \<in> up_id ` set (uploads db)"
  shows "db_ok (insert_job j db)"
  using assms
  by (simp add: db_ok_def counters_ok_jobs unique_keys_ok_def queue_ok_def foreign_keys_ok_def)

lemma db_ok_insert_upload [db_intros]:
  assumes "db_ok db" "upload_row_ok r" "up_id r \<notin> up_id ` set (uploads db)"
    "up_key r \<notin> up_key ` set (uploads db)"
    "\<And>b. up_batch r = Some b \<Longrightarrow> b \<in> batch_id ` set (upload_batches db)"
  shows "db_ok (insert_upload r db)"
proof -
  have "counters_ok (insert_upload r db)"
    using assms(1,2) by (intro counters_ok_insert_upload) (simp_all add: db_ok_def upload_row_ok_def)
  moreover have "foreign_keys_ok (insert_upload r db)"
    using db_ok_parts(2)[OF assms(1)] assms(5) by (auto simp: foreign_keys_ok_def)
  ultimately show ?thesis
    using assms by (simp add: db_ok_def unique_keys_ok_def queue_ok_def)
qed

lemma db_ok_orphans [db_intros]:
  assumes "db_ok db"
  shows "orphan_row_ok r \<Longrightarrow> (orp_namespace r, orp_key r) \<notin> (\<lambda>r. (orp_namespace r, orp_key r)) ` set (orphans db) \<Longrightarrow>
      db_ok (insert_orphan r db)"
    and "(\<And>r. p r \<Longrightarrow> orp_namespace (f r) = orp_namespace r \<and> orp_key (f r) = orp_key r) \<Longrightarrow>
      (\<And>r. p r \<Longrightarrow> orphan_row_ok r \<Longrightarrow> orphan_row_ok (f r)) \<Longrightarrow> db_ok (update_orphans p f db)"
    and "db_ok (delete_orphans p db)"
proof -
  assume "orphan_row_ok r" "(orp_namespace r, orp_key r) \<notin> (\<lambda>r. (orp_namespace r, orp_key r)) ` set (orphans db)"
  then show "db_ok (insert_orphan r db)"
    using assms by (simp add: db_ok_def counters_ok_orphans unique_keys_ok_def queue_ok_def foreign_keys_ok_def)
next
  assume keys: "\<And>r. p r \<Longrightarrow> orp_namespace (f r) = orp_namespace r \<and> orp_key (f r) = orp_key r"
    and ok: "\<And>r. p r \<Longrightarrow> orphan_row_ok r \<Longrightarrow> orphan_row_ok (f r)"
  have "map (\<lambda>r. (orp_namespace r, orp_key r)) (update_rows p f (orphans db)) =
      map (\<lambda>r. (orp_namespace r, orp_key r)) (orphans db)"
    using keys by (intro map_update_rows) simp
  moreover have "list_all orphan_row_ok (update_rows p f (orphans db))"
    using db_ok_parts(7)[OF assms] ok by (auto simp: list_all_iff set_update_rows)
  ultimately show "db_ok (update_orphans p f db)"
    using assms by (simp add: db_ok_def counters_ok_orphans unique_keys_ok_def queue_ok_def foreign_keys_ok_def)
next
  have "distinct (map (\<lambda>r. (orp_namespace r, orp_key r)) (filter (\<lambda>r. \<not> p r) (orphans db)))"
    using assms by (simp add: db_ok_def unique_keys_ok_def distinct_map_filter)
  moreover have "list_all orphan_row_ok (filter (\<lambda>r. \<not> p r) (orphans db))"
    using db_ok_parts(7)[OF assms] by (auto simp: list_all_iff)
  ultimately show "db_ok (delete_orphans p db)"
    using assms by (simp add: db_ok_def counters_ok_orphans unique_keys_ok_def queue_ok_def foreign_keys_ok_def)
qed

text \<open>Deleting uploads takes their jobs and derivatives along; a site policy must not pin them.\<close>

lemma db_ok_delete_uploads [db_intros]:
  assumes "db_ok db"
    and "\<And>r q w. r \<in> set (uploads db) \<Longrightarrow> p r \<Longrightarrow> q \<in> set (site_policies db) \<Longrightarrow>
           pol_watermark q = Some w \<Longrightarrow> wm_upload w \<noteq> up_id r"
  shows "db_ok (delete_uploads p db)"
proof -
  let ?gone = "up_id ` set (filter p (uploads db))"
  have kept: "up_id ` set (filter (\<lambda>r. \<not> p r) (uploads db)) = up_id ` set (uploads db) - ?gone"
    using assms(1) by (auto simp: db_ok_def unique_keys_ok_def distinct_map inj_on_def)
  have "foreign_keys_ok (delete_uploads p db)"
    unfolding foreign_keys_ok_def delete_uploads_rows kept
    using db_ok_parts(2)[OF assms(1)] assms(2) by (auto simp: foreign_keys_ok_def)
  moreover have "unique_keys_ok (delete_uploads p db)"
    using db_ok_parts(3)[OF assms(1)] by (simp add: unique_keys_ok_def distinct_map_filter)
  moreover have "queue_ok (delete_uploads p db)"
    using db_ok_parts(4)[OF assms(1)] by (simp add: queue_ok_def)
  moreover have "list_all upload_row_ok (uploads (delete_uploads p db))"
    "list_all job_row_ok (jobs (delete_uploads p db))"
    "list_all derivative_row_ok (derivatives (delete_uploads p db))"
    using db_ok_parts(5,6,8)[OF assms(1)] by (auto simp: list_all_iff)
  ultimately show ?thesis
    using assms(1) by (simp add: db_ok_def counters_ok_delete_uploads)
qed

lemma set_alist_update: "x \<in> set (AList.update k v q) \<Longrightarrow> x = (k, v) \<or> x \<in> set q"
  by (induction q) (auto split: if_splits)

lemma distinct_snd_update:
  "distinct (map snd q) \<Longrightarrow> v \<notin> snd ` set q \<Longrightarrow> distinct (map snd (AList.update k v q))"
  by (induction q) (auto dest!: set_alist_update)

text \<open>A tenant takes the next claim sequence number.\<close>

definition take_claim_sequence :: "string \<Rightarrow> Database \<Rightarrow> Database" where
  "take_claim_sequence t db = db\<lparr>next_claim_sequence := next_claim_sequence db + 1,
     tenant_queue_state := AList.update t (next_claim_sequence db) (tenant_queue_state db)\<rparr>"

lemma db_ok_take_claim_sequence [db_intros]:
  assumes "db_ok db"
  shows "db_ok (take_claim_sequence t db)"
proof -
  have ok: "queue_ok db" using assms(1) by (simp add: db_ok_def)
  then have "next_claim_sequence db \<notin> snd ` set (tenant_queue_state db)"
    by (auto simp: queue_ok_def)
  with ok have "queue_ok (take_claim_sequence t db)"
    by (auto simp: queue_ok_def take_claim_sequence_def distinct_update distinct_snd_update
        dest!: set_alist_update)
  then show ?thesis
    using assms(1) by (simp add: db_ok_def unique_keys_ok_def foreign_keys_ok_def take_claim_sequence_def)
qed

section \<open>The lifecycle of rows\<close>

text \<open>A database follows another when every upload row of the first is in the second in a state its
  own state leads to, or was a tombstone that is gone.\<close>

definition follows_lifecycle :: "Database \<Rightarrow> Database \<Rightarrow> bool" where
  "follows_lifecycle db db' \<longleftrightarrow> (\<forall>r\<in>set (uploads db).
     case lookup_row up_id (up_id r) (uploads db') of
       None \<Rightarrow> up_state r = Deleted
     | Some r' \<Rightarrow> can_transition_to\<^sup>*\<^sup>* (up_state r) (up_state r'))"

lemma lookup_map_same_key:
  "(\<And>r. r \<in> set rows \<Longrightarrow> key (g r) = key r) \<Longrightarrow>
   lookup_row key k (map g rows) = map_option g (lookup_row key k rows)"
  by (induction rows) (auto simp: lookup_row_def)

lemma follows_lifecycle_map:
  assumes "distinct (map up_id (uploads db))" "uploads db' = map g (uploads db) @ extra"
    and "\<And>r. r \<in> set (uploads db) \<Longrightarrow> up_id (g r) = up_id r"
    and "\<And>r. r \<in> set (uploads db) \<Longrightarrow> can_transition_to\<^sup>*\<^sup>* (up_state r) (up_state (g r))"
  shows "follows_lifecycle db db'"
  unfolding follows_lifecycle_def
proof
  fix r assume r: "r \<in> set (uploads db)"
  then have "lookup_row up_id (up_id r) (uploads db') = Some (g r)"
    using lookup_row_unique[OF assms(1) r] lookup_map_same_key[of "uploads db" up_id g "up_id r"] assms(3)
    by (simp add: assms(2) lookup_row_append)
  then show "case lookup_row up_id (up_id r) (uploads db') of
      None \<Rightarrow> up_state r = Deleted | Some r' \<Rightarrow> can_transition_to\<^sup>*\<^sup>* (up_state r) (up_state r')"
    using assms(4)[OF r] by simp
qed

lemma follows_lifecycle_same:
  "db_ok db \<Longrightarrow> uploads db' = uploads db \<Longrightarrow> follows_lifecycle db db'"
  by (rule follows_lifecycle_map[where g = id and extra = "[]"]) (simp_all add: db_ok_def unique_keys_ok_def)

lemma follows_lifecycle_append:
  "db_ok db \<Longrightarrow> uploads db' = uploads db @ extra \<Longrightarrow> follows_lifecycle db db'"
  by (rule follows_lifecycle_map[where g = id and extra = extra]) (simp_all add: db_ok_def unique_keys_ok_def)

lemma follows_lifecycle_update:
  assumes "db_ok db" "uploads db' = update_rows p f (uploads db)"
    and "\<And>r. p r \<Longrightarrow> up_id (f r) = up_id r"
    and "\<And>r. p r \<Longrightarrow> can_transition_to\<^sup>*\<^sup>* (up_state r) (up_state (f r))"
  shows "follows_lifecycle db db'"
  by (rule follows_lifecycle_map[where g = "\<lambda>r. if p r then f r else r" and extra = "[]"])
    (use assms in \<open>simp_all add: update_rows_def db_ok_def unique_keys_ok_def\<close>)

lemma follows_lifecycle_delete:
  assumes "db_ok db" "uploads db' = filter (\<lambda>r. \<not> p r) (uploads db)"
    and "\<And>r. p r \<Longrightarrow> up_state r = Deleted"
  shows "follows_lifecycle db db'"
  unfolding follows_lifecycle_def
proof
  fix r assume r: "r \<in> set (uploads db)"
  have ids: "distinct (map up_id (uploads db))" using assms(1) by (simp add: db_ok_def unique_keys_ok_def)
  show "case lookup_row up_id (up_id r) (uploads db') of
      None \<Rightarrow> up_state r = Deleted | Some r' \<Rightarrow> can_transition_to\<^sup>*\<^sup>* (up_state r) (up_state r')"
  proof (cases "p r")
    case True
    then have "up_id r \<notin> up_id ` set (uploads db')"
      using ids r assms(2) by (auto simp: distinct_map inj_on_def)
    then show ?thesis using True assms(3) by (simp add: lookup_row_None[THEN iffD2])
  next
    case False
    then have "lookup_row up_id (up_id r) (uploads db') = Some r"
      using ids r assms(2) by (intro lookup_row_unique) (simp_all add: distinct_map_filter)
    then show ?thesis by simp
  qed
qed

section \<open>Backup verification\<close>

definition latest_schema_version :: nat where
  "latest_schema_version = 11"

record DatabaseVerification =
  dv_schema_version :: nat
  dv_uploads :: nat
  dv_derivatives :: nat
  dv_jobs :: nat
  dv_orphan_suspects :: nat
  dv_reserved_source_bytes :: nat

datatype DatabaseBackupError = InvalidPath | Sqlite | Integrity string

text \<open>\<open>SELECT tenant_id, SUM(expected_size_bytes) ... GROUP BY tenant_id\<close>.\<close>

definition tenant_groups :: "UploadRow list \<Rightarrow> (string \<times> int) list" where
  "tenant_groups us = map (\<lambda>t. (t, tenant_bytes t us)) (remdups (map up_tenant (filter live us)))"

definition sql_except :: "'a list \<Rightarrow> 'a list \<Rightarrow> 'a list" where
  "sql_except a b = filter (\<lambda>x. x \<notin> set b) (remdups a)"

text \<open>\<open>A EXCEPT B UNION ALL B EXCEPT A\<close>: SQLite groups compound operators from left to right.\<close>

definition tenant_mismatches :: "(string \<times> int) list \<Rightarrow> (string \<times> int) list \<Rightarrow> (string \<times> int) list" where
  "tenant_mismatches a b = sql_except (sql_except a b @ b) a"

definition max_version :: "(nat \<times> bool) list \<Rightarrow> nat option" where
  "max_version history = (case map fst (filter snd history) of [] \<Rightarrow> None | v # vs \<Rightarrow> Some (fold max vs v))"

definition nonnegative :: "int \<Rightarrow> string \<Rightarrow> (DatabaseBackupError, nat) result" where
  "nonnegative value message = (if value < 0 then Err (Integrity message) else Ok (nat value))"

definition verify_pool :: "bool \<Rightarrow> (nat \<times> bool) list \<Rightarrow> Database
    \<Rightarrow> (DatabaseBackupError, DatabaseVerification) result" where
  "verify_pool quick_check history db =
     (if \<not> quick_check then Err (Integrity ''SQLite quick_check failed'')
      else if \<not> foreign_keys_ok db then Err (Integrity ''SQLite foreign_key_check failed'')
      else (case max_version history of
        None \<Rightarrow> Err (Integrity ''schema migration history is empty'')
      | Some schema_version \<Rightarrow>
          if schema_version \<noteq> latest_schema_version \<or> filter (\<lambda>m. \<not> snd m) history \<noteq> []
          then Err (Integrity ''schema migration history does not match this binary'')
          else if global_reserved db \<noteq> sum_list (map live_bytes (uploads db))
          then Err (Integrity ''global reserved byte counter disagrees with uploads'')
          else if length (tenant_mismatches (tenant_reserved db) (tenant_groups (uploads db))) \<noteq> 0
          then Err (Integrity ''tenant reserved byte counters disagree with uploads'')
          else if operational db \<noteq> operational_of (uploads db) (jobs db) (orphans db)
          then Err (Integrity ''operational counters disagree with durable rows'')
          else and_then (nonnegative (global_reserved db) ''reserved source byte count is invalid'')
            (\<lambda>reserved. Ok
              \<lparr>dv_schema_version = schema_version,
               dv_uploads = length (uploads db),
               dv_derivatives = length (derivatives db),
               dv_jobs = length (jobs db),
               dv_orphan_suspects = length (filter (\<lambda>r. orp_state r = Suspected) (orphans db)),
               dv_reserved_source_bytes = reserved\<rparr>)))"

lemma tenant_mismatches_left_to_right:
  "set (tenant_mismatches a b) = set b - set a"
  by (auto simp: tenant_mismatches_def sql_except_def)

lemma tenant_bytes_pos:
  assumes "list_all (\<lambda>r. 0 < up_expected r) us" "r \<in> set us" "live r"
  shows "0 < tenant_bytes (up_tenant r) us"
  using assms
proof (induction us)
  case (Cons u us)
  show ?case
  proof (cases "r = u")
    case True
    then show ?thesis
      using Cons.prems tenant_bytes_nonneg[of "up_tenant r" us]
      by (simp add: live_bytes_def add_pos_nonneg)
  next
    case False
    then show ?thesis
      using Cons live_bytes_nonneg[of u] by (simp add: add_nonneg_pos)
  qed
qed simp

lemma tenant_groups_in_usage:
  assumes "usage_ok us tab" "list_all (\<lambda>r. 0 < up_expected r) us"
  shows "set (tenant_groups us) \<subseteq> set tab"
proof
  fix x assume "x \<in> set (tenant_groups us)"
  then obtain r where r: "r \<in> set us" "live r" "x = (up_tenant r, tenant_bytes (up_tenant r) us)"
    by (auto simp: tenant_groups_def)
  then have "tenant_bytes (up_tenant r) us \<noteq> 0"
    using tenant_bytes_pos[OF assms(2)] by fastforce
  then show "x \<in> set tab"
    using usage_okD(1)[OF assms(1), of "up_tenant r"] r(3) by (simp add: map_of_SomeD)
qed

lemma sum_list_live_nonneg: "0 \<le> sum_list (map live_bytes us)"
  by (induction us) auto

text \<open>A database whose counters agree with its rows and whose foreign keys hold passes \<open>verify_pool\<close>.\<close>

lemma verify_pool_of_ok:
  assumes "db_ok db" "max_version history = Some latest_schema_version" "list_all snd history"
  shows "verify_pool True history db = Ok
    \<lparr>dv_schema_version = 11, dv_uploads = length (uploads db),
     dv_derivatives = length (derivatives db), dv_jobs = length (jobs db),
     dv_orphan_suspects = length (filter (\<lambda>r. orp_state r = Suspected) (orphans db)),
     dv_reserved_source_bytes = nat (sum_list (map live_bytes (uploads db)))\<rparr>"
proof -
  have agree: "counters_agree (uploads db) (jobs db) (orphans db) db"
    using assms(1) by (simp add: db_ok_def counters_ok_def)
  then have "set (tenant_groups (uploads db)) - set (tenant_reserved db) = {}"
    using tenant_groups_in_usage by (auto simp: counters_agree_def)
  then have "tenant_mismatches (tenant_reserved db) (tenant_groups (uploads db)) = []"
    by (metis set_empty tenant_mismatches_left_to_right)
  moreover have "filter (\<lambda>m. \<not> snd m) history = []"
    using assms(3) by (simp add: list_all_iff filter_empty_conv)
  ultimately show ?thesis
    using agree assms sum_list_live_nonneg[of "uploads db"]
    by (simp add: verify_pool_def counters_agree_def db_ok_def nonnegative_def latest_schema_version_def)
qed

text \<open>
  The tenant-counter query of \<open>verify_pool\<close> is one-sided.  SQLite reads
  \<open>A EXCEPT B UNION ALL B EXCEPT A\<close> from left to right, as \<open>B\<close> without \<open>A\<close>: a tenant counter for
  which no upload exists is never reported, so such a corrupt database passes verification.
\<close>

theorem verify_pool_misses_stale_tenants:
  assumes "db_ok db" "max_version history = Some latest_schema_version" "list_all snd history"
  shows "verify_pool True history (db\<lparr>tenant_reserved := (t, n) # tenant_reserved db\<rparr>)
       = verify_pool True history db"
proof -
  let ?stale = "db\<lparr>tenant_reserved := (t, n) # tenant_reserved db\<rparr>"
  have agree: "counters_agree (uploads db) (jobs db) (orphans db) db"
    using assms(1) by (simp add: db_ok_def counters_ok_def)
  then have sub: "set (tenant_groups (uploads db)) \<subseteq> set (tenant_reserved db)"
    using tenant_groups_in_usage by (auto simp: counters_agree_def)
  then have "tenant_mismatches (tenant_reserved db) (tenant_groups (uploads db)) = []"
    "tenant_mismatches ((t, n) # tenant_reserved db) (tenant_groups (uploads db)) = []"
    by (metis Diff_eq_empty_iff set_empty tenant_mismatches_left_to_right)
      (metis Diff_eq_empty_iff set_empty tenant_mismatches_left_to_right set_subset_Cons sub subset_trans)
  moreover have "foreign_keys_ok ?stale = foreign_keys_ok db" by (simp add: foreign_keys_ok_def)
  ultimately show ?thesis by (simp add: verify_pool_def split: option.split)
qed

theorem verify_pool_misses_stale_tenants_witness:
  "verify_pool True [(11, True)] (empty_database\<lparr>tenant_reserved := [(''ghost'', 4096)]\<rparr>)
     = verify_pool True [(11, True)] empty_database"
  using verify_pool_misses_stale_tenants[OF db_ok_empty, of "[(11, True)]" "''ghost''" 4096]
  by (simp add: max_version_def latest_schema_version_def empty_database_def)

end
