(* ===== verification/Leases.thy ===== *)
theory Leases
  imports Prelude
begin

text \<open>
  The lease protocol two components follow: the job queue and the cleanup queue both hand a row to
  one worker until a deadline.  \<open>holder s k\<close> is who holds row \<open>k\<close> in state \<open>s\<close> and until when.  The
  one law the provider owes is that an operation issued before the deadline by anybody but the
  holder leaves the lease alone; the client's fact is that then no interleaving of such operations
  can take the lease away.
\<close>

locale lease_protocol =
  fixes step :: "'op \<Rightarrow> 's \<Rightarrow> 's"
    and actor :: "'op \<Rightarrow> string option"
    and issued :: "'op \<Rightarrow> int"
    and holder :: "'s \<Rightarrow> 'k \<Rightarrow> (string \<times> int) option"
    and inv :: "'s \<Rightarrow> bool"
  assumes step_inv: "inv s \<Longrightarrow> inv (step op s)"
    and step_respects: "inv s \<Longrightarrow> holder s k = Some (w, t) \<Longrightarrow> issued op < t \<Longrightarrow>
      actor op \<noteq> Some w \<Longrightarrow> holder (step op s) k = Some (w, t)"
begin

lemma run_inv: "inv s \<Longrightarrow> inv (fold step ops s)"
  by (induction ops arbitrary: s) (auto intro: step_inv)

lemma lease_protected:
  assumes "inv s" "holder s k = Some (w, t)"
    and "list_all (\<lambda>op. issued op < t \<and> actor op \<noteq> Some w) ops"
  shows "holder (fold step ops s) k = Some (w, t)"
  using assms by (induction ops arbitrary: s) (auto intro: step_inv step_respects)

text \<open>So nobody else is the holder before the deadline, whatever happened in between.\<close>

lemma no_second_holder:
  assumes "inv s" "holder s k = Some (w, t)"
    and "list_all (\<lambda>op. issued op < t \<and> actor op \<noteq> Some w) ops"
    and "holder (fold step ops s) k = Some (v, u)"
  shows "v = w \<and> u = t"
  using lease_protected[OF assms(1-3)] assms(4) by simp

end

end
