(* ===== verification/Samples.thy ===== *)
theory Samples
  imports Integrity
begin

text \<open>
  Small well-formed databases on which the witnesses of the repository theories evaluate: two
  tenants with one quarantined upload and one queued job each.
\<close>

definition sample_upload :: "uuid \<Rightarrow> string \<Rightarrow> string \<Rightarrow> UploadState \<Rightarrow> UploadRow" where
  "sample_upload i t k s =
     \<lparr>up_id = i, up_tenant = t, up_key = k, up_state = s, up_expected = 1000, up_actual = Some 1000,
      up_hint = ''image/jpeg'', up_detected = None, up_sha256 = None, up_error = None,
      up_created = 5, up_updated = 5, up_batch = None, up_declared = Some Image,
      up_multipart = False, up_part_size = None, up_session = None, up_delete_requested = None,
      up_deleted_at = (if s = Deleted then Some 5 else None), up_cleanup_owner = None,
      up_cleanup_until = None, up_cleanup_retry = None, up_cleanup_attempts = 0,
      up_cleanup_error = None\<rparr>"

definition sample_job :: "uuid \<Rightarrow> uuid \<Rightarrow> JobRow" where
  "sample_job i u =
     \<lparr>job_id = i, job_upload = u, job_preset = ''thumbnail-320'', job_state = Queued,
      job_attempts = 0, job_available = 5, job_owner = None, job_until = None, job_error = None,
      job_created = 5, job_updated = 5, job_revision = None\<rparr>"

definition sample_uploads_db :: "UploadState \<Rightarrow> Database" where
  "sample_uploads_db s =
     insert_upload (sample_upload 2 ''b'' ''raw/b/2/source'' s)
       (insert_upload (sample_upload 1 ''a'' ''raw/a/1/source'' s) empty_database)"

definition sample_db :: Database where
  "sample_db = insert_job (sample_job 12 2) (insert_job (sample_job 11 1) (sample_uploads_db Quarantined))"

lemma key_bytes:
  "valid_object_key ''raw/a/1/source''" "valid_object_key ''raw/b/2/source''"
  by (simp_all add: valid_object_key_def validate_object_key_def unsafe_segment_def key_byte_def
      is_ascii_alphanumeric_def is_ascii_lower_def is_ascii_digit_def is_ascii_upper_def byte_of_def)

lemma sample_upload_row_ok: "valid_object_key k \<Longrightarrow> upload_row_ok (sample_upload i t k s)"
  by (simp add: upload_row_ok_def sample_upload_def i64_max_def)

lemma sample_rows [simp]:
  "uploads (sample_uploads_db s) =
     [sample_upload 1 ''a'' ''raw/a/1/source'' s, sample_upload 2 ''b'' ''raw/b/2/source'' s]"
  "jobs (sample_uploads_db s) = []" "derivatives (sample_uploads_db s) = []"
  "tenant_queue_state (sample_uploads_db s) = []" "next_claim_sequence (sample_uploads_db s) = 1"
  "site_policies (sample_uploads_db s) = []" "orphans (sample_uploads_db s) = []"
  "request_nonces (sample_uploads_db s) = []" "upload_batches (sample_uploads_db s) = []"
  "uploads sample_db = uploads (sample_uploads_db Quarantined)"
  "jobs sample_db = [sample_job 11 1, sample_job 12 2]" "derivatives sample_db = []"
  "tenant_queue_state sample_db = []" "next_claim_sequence sample_db = 1"
  "site_policies sample_db = []" "orphans sample_db = []"
  "request_nonces sample_db = []" "upload_batches sample_db = []"
  by (simp_all add: sample_uploads_db_def sample_db_def empty_database_def)

lemma sample_uploads_db_ok: "db_ok (sample_uploads_db s)"
  unfolding sample_uploads_db_def
  by (intro db_ok_insert_upload db_ok_empty sample_upload_row_ok key_bytes)
    (simp_all add: sample_upload_def empty_database_def)

lemma sample_db_ok: "db_ok sample_db"
  unfolding sample_db_def
  by (intro db_ok_insert_job sample_uploads_db_ok)
    (simp_all add: sample_job_def job_row_ok_def sample_upload_def)

end
