(* ===== verification/Job_Queue.thy ===== *)
theory Job_Queue
  imports Samples Leases
begin

text \<open>
  The durable job queue: \<open>impl JobQueue for SqliteStore\<close> of
  \<open>crates/g7mb-persistence-sqlite/src/lib.rs\<close>.  Every operation returns its result and the new
  database; an early return leaves the database as it was, a failure after the commit does not.
  Identifiers made by \<open>Uuid::now_v7\<close>, the clock and the range of instants the \<open>time\<close> crate can
  represent (\<open>representable\<close>) are arguments.
\<close>

record ProcessingJob =
  pj_upload :: uuid
  pj_preset :: string
  pj_revision :: "nat option"

record LeasedProcessingJob =
  lj_job_id :: uuid
  lj_job :: ProcessingJob
  lj_attempts :: nat
  lj_lease_until :: int
  lj_enqueued_at :: int

datatype JobFailureDisposition = RetryScheduled | DeadLettered

datatype JobQueueError = JobQueueError string

section \<open>Operations\<close>

definition worker_id_byte :: "char \<Rightarrow> bool" where
  "worker_id_byte c \<longleftrightarrow> is_ascii_alphanumeric c \<or> c = CHR ''-'' \<or> c = CHR ''_''"

definition validate_worker_id :: "string \<Rightarrow> (JobQueueError, unit) result" where
  "validate_worker_id worker_id =
     (if worker_id = [] \<or> length worker_id > 128 \<or> \<not> list_all worker_id_byte worker_id
      then Err (JobQueueError ''worker_id is invalid'') else Ok ())"

definition new_job :: "uuid \<Rightarrow> uuid \<Rightarrow> string \<Rightarrow> nat option \<Rightarrow> int \<Rightarrow> JobRow" where
  "new_job fresh upload_id preset_id revision now =
     \<lparr>job_id = fresh, job_upload = upload_id, job_preset = preset_id, job_state = Queued,
      job_attempts = 0, job_available = now, job_owner = None, job_until = None,
      job_error = None, job_created = now, job_updated = now, job_revision = revision\<rparr>"

text \<open>\<open>INSERT OR IGNORE\<close> skips a row that violates a uniqueness constraint; a foreign key is not
  covered by it.\<close>

definition enqueue :: "uuid \<Rightarrow> instant \<Rightarrow> ProcessingJob \<Rightarrow> Database
    \<Rightarrow> (JobQueueError, unit) result \<times> Database" where
  "enqueue fresh now job db =
     (if pj_preset job = [] \<or> length (pj_preset job) > 128
      then (Err (JobQueueError ''preset_id is invalid''), db)
      else if (case pj_revision job of None \<Rightarrow> False | Some r \<Rightarrow> r > i64_max)
      then (Err (JobQueueError ''site policy revision exceeds SQLite range''), db)
      else if fresh \<in> job_id ` set (jobs db) \<or>
              (pj_upload job, pj_preset job) \<in> (\<lambda>j. (job_upload j, job_preset j)) ` set (jobs db)
      then (Ok (), db)
      else if pj_upload job \<notin> up_id ` set (uploads db)
      then (Err (JobQueueError ''SQLite backend: FOREIGN KEY constraint failed''), db)
      else (Ok (), insert_job (new_job fresh (pj_upload job) (pj_preset job) (pj_revision job)
                     (unix_timestamp now)) db))"

definition job_eligible :: "int \<Rightarrow> JobRow \<Rightarrow> bool" where
  "job_eligible now j \<longleftrightarrow>
     (job_state j = Queued \<and> job_available j \<le> now) \<or>
     (job_state j = Leased \<and> (case job_until j of None \<Rightarrow> False | Some t \<Rightarrow> t \<le> now))"

definition last_claim :: "Database \<Rightarrow> string \<Rightarrow> nat" where
  "last_claim db t = (case map_of (tenant_queue_state db) t of None \<Rightarrow> 0 | Some n \<Rightarrow> n)"

text \<open>\<open>jobs JOIN uploads ... WHERE\<close>: the eligible jobs, each with the tenant of its upload.\<close>

definition claim_candidates :: "int \<Rightarrow> Database \<Rightarrow> (JobRow \<times> string) list" where
  "claim_candidates now db = concat (map (\<lambda>j.
     case lookup_row up_id (job_upload j) (uploads db) of
       None \<Rightarrow> [] | Some u \<Rightarrow> if job_eligible now j then [(j, up_tenant u)] else []) (jobs db))"

definition claim_order :: "Database \<Rightarrow> JobRow \<times> string \<Rightarrow> nat \<times> int \<times> int \<times> uuid" where
  "claim_order db c = (last_claim db (snd c), job_available (fst c), job_created (fst c), job_id (fst c))"

definition lease_job :: "string \<Rightarrow> int \<Rightarrow> int \<Rightarrow> JobRow \<Rightarrow> JobRow" where
  "lease_job worker_id lease_until now j =
     j\<lparr>job_state := Leased, job_attempts := job_attempts j + 1, job_owner := Some worker_id,
       job_until := Some lease_until, job_updated := now\<rparr>"

definition tenant_column_ok :: "string \<Rightarrow> bool" where
  "tenant_column_ok t \<longleftrightarrow> 1 \<le> length t \<and> length t \<le> 64"

definition leased_from_row :: "(int \<Rightarrow> bool) \<Rightarrow> JobRow \<Rightarrow> (JobQueueError, LeasedProcessingJob) result" where
  "leased_from_row representable j =
     (if job_attempts j \<ge> 2 ^ 32 then Err (JobQueueError ''stored attempt count is invalid'')
      else (case job_until j of
          None \<Rightarrow> Err (JobQueueError ''SQLite backend: unexpected null'')
        | Some t \<Rightarrow>
            if \<not> representable t then Err (JobQueueError ''stored lease expiration is invalid'')
            else if \<not> representable (job_created j)
            then Err (JobQueueError ''stored job creation time is invalid'')
            else Ok \<lparr>lj_job_id = job_id j,
                     lj_job = \<lparr>pj_upload = job_upload j, pj_preset = job_preset j,
                               pj_revision = job_revision j\<rparr>,
                     lj_attempts = job_attempts j, lj_lease_until = t,
                     lj_enqueued_at = job_created j\<rparr>))"

definition claim_next :: "(int \<Rightarrow> bool) \<Rightarrow> string \<Rightarrow> instant \<Rightarrow> duration \<Rightarrow> Database
    \<Rightarrow> (JobQueueError, LeasedProcessingJob option) result \<times> Database" where
  "claim_next representable worker_id now lease_for db =
     (case validate_worker_id worker_id of Inl e \<Rightarrow> (Err e, db) | Inr _ \<Rightarrow>
      let lease_seconds = as_secs lease_for; now_timestamp = unix_timestamp now;
          lease_until = now_timestamp + int lease_seconds in
      if lease_seconds > i64_max
      then (Err (JobQueueError ''lease duration exceeds SQLite range''), db)
      else if lease_seconds = 0 then (Err (JobQueueError ''lease duration must be positive''), db)
      else if lease_until > int i64_max then (Err (JobQueueError ''lease expiration overflow''), db)
      else (case least_row (claim_order db) (claim_candidates now_timestamp db) of
          None \<Rightarrow> (Ok None, db)
        | Some (j, tenant_id) \<Rightarrow>
            let lease = lease_job worker_id lease_until now_timestamp;
                db1 = update_jobs (\<lambda>x. job_id x = job_id j) lease db in
            if \<not> tenant_column_ok tenant_id
            then (Err (JobQueueError ''SQLite backend: CHECK constraint failed''), db)
            else (and_then (leased_from_row representable (lease j)) (\<lambda>l. Ok (Some l)),
                  take_claim_sequence tenant_id db1)))"

definition owned_lease :: "uuid \<Rightarrow> string \<Rightarrow> JobRow \<Rightarrow> bool" where
  "owned_lease jid worker_id j \<longleftrightarrow>
     job_id j = jid \<and> job_state j = Leased \<and> job_owner j = Some worker_id"

definition renew :: "(int \<Rightarrow> bool) \<Rightarrow> uuid \<Rightarrow> string \<Rightarrow> instant \<Rightarrow> duration \<Rightarrow> Database
    \<Rightarrow> (JobQueueError, int) result \<times> Database" where
  "renew representable jid worker_id now lease_for db =
     (case validate_worker_id worker_id of Inl e \<Rightarrow> (Err e, db) | Inr _ \<Rightarrow>
      let lease_seconds = as_secs lease_for; now_timestamp = unix_timestamp now;
          lease_until = now_timestamp + int lease_seconds;
          renewable = (\<lambda>j. owned_lease jid worker_id j \<and>
            (case job_until j of None \<Rightarrow> False | Some t \<Rightarrow> t > now_timestamp)) in
      if lease_seconds > i64_max
      then (Err (JobQueueError ''lease duration exceeds SQLite range''), db)
      else if lease_seconds = 0 then (Err (JobQueueError ''lease duration must be positive''), db)
      else if lease_until > int i64_max then (Err (JobQueueError ''lease expiration overflow''), db)
      else if \<not> list_ex renewable (jobs db)
      then (Err (JobQueueError ''job lease is not renewable by this worker''), db)
      else (if representable lease_until then Ok lease_until
            else Err (JobQueueError ''renewed lease expiration is invalid''),
            update_jobs renewable
              (\<lambda>j. j\<lparr>job_until := Some lease_until, job_updated := now_timestamp\<rparr>) db))"

definition complete :: "uuid \<Rightarrow> string \<Rightarrow> instant \<Rightarrow> Database
    \<Rightarrow> (JobQueueError, unit) result \<times> Database" where
  "complete jid worker_id now db =
     (case validate_worker_id worker_id of Inl e \<Rightarrow> (Err e, db) | Inr _ \<Rightarrow>
      if length (filter (owned_lease jid worker_id) (jobs db)) \<noteq> 1
      then (Err (JobQueueError ''job is not leased by the requesting worker''), db)
      else (Ok (), update_jobs (owned_lease jid worker_id)
              (\<lambda>j. j\<lparr>job_state := Completed, job_owner := None, job_until := None,
                     job_updated := unix_timestamp now\<rparr>) db))"

definition failed_job :: "int \<Rightarrow> int \<Rightarrow> nat \<Rightarrow> string \<Rightarrow> JobRow \<Rightarrow> JobRow" where
  "failed_job now retry_at max_attempts error_code j =
     j\<lparr>job_state := (if job_attempts j \<ge> max_attempts then DeadLetter else Queued),
       job_available := retry_at, job_owner := None, job_until := None,
       job_error := Some error_code, job_updated := now\<rparr>"

definition fail :: "uuid \<Rightarrow> string \<Rightarrow> instant \<Rightarrow> instant \<Rightarrow> u32 \<Rightarrow> string \<Rightarrow> Database
    \<Rightarrow> (JobQueueError, JobFailureDisposition) result \<times> Database" where
  "fail jid worker_id now retry_at max_attempts error_code db =
     (case validate_worker_id worker_id of Inl e \<Rightarrow> (Err e, db) | Inr _ \<Rightarrow>
      if max_attempts = 0 \<or> error_code = [] \<or> length error_code > 64
      then (Err (JobQueueError ''failure policy is invalid''), db)
      else (let f = failed_job (unix_timestamp now) (unix_timestamp retry_at) (unat max_attempts) error_code in
        (case find (owned_lease jid worker_id) (jobs db) of
          None \<Rightarrow> (Err (JobQueueError ''job is not leased by the requesting worker''), db)
        | Some j \<Rightarrow>
            (case job_state (f j) of
               Queued \<Rightarrow> Ok RetryScheduled
             | DeadLetter \<Rightarrow> Ok DeadLettered
             | _ \<Rightarrow> Err (JobQueueError ''stored job state is invalid''),
             update_jobs (owned_lease jid worker_id) f db))))"

section \<open>The queue keeps the database well formed\<close>

lemma lookup_in_jobs:
  "db_ok db \<Longrightarrow> j \<in> set (jobs db) \<Longrightarrow> lookup_row job_id (job_id j) (jobs db) = Some j"
  by (auto simp: db_ok_def unique_keys_ok_def intro: lookup_row_unique)

lemma claim_candidate:
  assumes "(j, t) \<in> set (claim_candidates now db)"
  shows "j \<in> set (jobs db) \<and> job_eligible now j \<and>
    (\<exists>u. lookup_row up_id (job_upload j) (uploads db) = Some u \<and> up_tenant u = t)"
  using assms by (auto simp: claim_candidates_def split: option.splits if_splits) (metis (no_types))

lemma claim_candidateI:
  assumes "j \<in> set (jobs db)" "job_eligible now j"
    "lookup_row up_id (job_upload j) (uploads db) = Some u"
  shows "(j, up_tenant u) \<in> set (claim_candidates now db)"
  using assms by (force simp: claim_candidates_def)

lemma claim_least:
  assumes "least_row (claim_order db) (claim_candidates now db) = Some (j, t)"
  shows "(j, t) \<in> set (claim_candidates now db)" "j \<in> set (jobs db)" "job_eligible now j"
    "\<And>c. c \<in> set (claim_candidates now db) \<Longrightarrow> claim_order db (j, t) \<le> claim_order db c"
  using least_row_Some[OF assms] claim_candidate[of j t now db] by auto

text \<open>The two ways a claim ends with a changed database or a job.\<close>

lemma claim_next_cases:
  obtains (unchanged) "snd (claim_next rep w now d db) = db"
      "\<And>l. fst (claim_next rep w now d db) \<noteq> Ok (Some l)"
  | (claimed) j t where "least_row (claim_order db) (claim_candidates (unix_timestamp now) db) = Some (j, t)"
      "0 < as_secs d" "tenant_column_ok t"
      "snd (claim_next rep w now d db) = take_claim_sequence t
         (update_jobs (\<lambda>x. job_id x = job_id j)
           (lease_job w (unix_timestamp now + int (as_secs d)) (unix_timestamp now)) db)"
      "fst (claim_next rep w now d db) = and_then (leased_from_row rep
         (lease_job w (unix_timestamp now + int (as_secs d)) (unix_timestamp now) j)) (\<lambda>l. Ok (Some l))"
proof (cases "validate_worker_id w")
  case (Inl e)
  then show ?thesis by (intro unchanged) (simp_all add: claim_next_def)
next
  case (Inr x)
  show ?thesis
  proof (cases "least_row (claim_order db) (claim_candidates (unix_timestamp now) db)")
    case None
    then show ?thesis using Inr by (intro unchanged) (simp_all add: claim_next_def Let_def)
  next
    case (Some jt)
    obtain j t where jt: "jt = (j, t)" by (cases jt)
    show ?thesis
    proof (cases "as_secs d > i64_max \<or> as_secs d = 0 \<or>
        unix_timestamp now + int (as_secs d) > int i64_max \<or> \<not> tenant_column_ok t")
      case True
      then show ?thesis
        using Inr Some jt by (intro unchanged) (auto simp: claim_next_def Let_def)
    next
      case False
      then show ?thesis
        using Inr Some jt by (intro claimed[of j t]) (auto simp: claim_next_def Let_def)
    qed
  qed
qed

lemma job_row_ok_updates:
  "job_row_ok j \<Longrightarrow> job_row_ok (lease_job w t now j)"
  "job_row_ok j \<Longrightarrow> job_row_ok (failed_job now retry n e j)"
  "job_row_ok j \<Longrightarrow> job_row_ok (j\<lparr>job_state := Completed, job_owner := None, job_until := None, job_updated := now\<rparr>)"
  "job_row_ok j \<Longrightarrow> job_state j = Leased \<Longrightarrow>
     job_row_ok (j\<lparr>job_until := Some t, job_updated := now\<rparr>)"
  by (auto simp: job_row_ok_def lease_job_def failed_job_def)

lemma job_key_updates [simp]:
  "job_id (lease_job w t now j) = job_id j" "job_upload (lease_job w t now j) = job_upload j"
  "job_preset (lease_job w t now j) = job_preset j"
  "job_id (failed_job now retry n e j) = job_id j" "job_upload (failed_job now retry n e j) = job_upload j"
  "job_preset (failed_job now retry n e j) = job_preset j"
  by (simp_all add: lease_job_def failed_job_def)

lemma claim_next_ok:
  assumes "db_ok db"
  shows "db_ok (snd (claim_next rep w now d db))"
proof (cases rule: claim_next_cases[of rep w now d db])
  case (claimed j t)
  then show ?thesis
    using assms by (auto intro!: db_intros job_row_ok_updates simp: claimed)
qed (use assms in simp)

lemma complete_ok: "db_ok db \<Longrightarrow> db_ok (snd (complete jid w now db))"
  by (auto simp: complete_def owned_lease_def split: sum.splits
      intro!: db_ok_update_jobs job_row_ok_updates)

lemma renew_ok: "db_ok db \<Longrightarrow> db_ok (snd (renew rep jid w now d db))"
  by (auto simp: renew_def owned_lease_def Let_def split: sum.splits
      intro!: db_ok_update_jobs job_row_ok_updates)

lemma fail_ok: "db_ok db \<Longrightarrow> db_ok (snd (fail jid w now retry n e db))"
  by (auto simp: fail_def owned_lease_def Let_def split: sum.splits option.splits
      intro!: db_ok_update_jobs job_row_ok_updates)

lemma new_job_row_ok:
  "1 \<le> length p \<Longrightarrow> length p \<le> 128 \<Longrightarrow> job_row_ok (new_job fresh u p r now)"
  by (simp add: job_row_ok_def new_job_def)

lemma enqueue_ok:
  assumes "db_ok db"
  shows "db_ok (snd (enqueue fresh now job db))"
  using assms by (auto simp: enqueue_def Suc_le_eq intro!: db_ok_insert_job new_job_row_ok)
    (auto simp: new_job_def)

section \<open>Leases are exclusive\<close>

definition job_holder :: "Database \<Rightarrow> uuid \<Rightarrow> (string \<times> int) option" where
  "job_holder db jid = (case lookup_row job_id jid (jobs db) of
     None \<Rightarrow> None
   | Some j \<Rightarrow> (case (job_state j, job_owner j, job_until j) of
       (Leased, Some w, Some t) \<Rightarrow> Some (w, t) | _ \<Rightarrow> None))"

datatype QueueOp =
    OpEnqueue uuid instant ProcessingJob
  | OpClaim string instant duration
  | OpRenew uuid string instant duration
  | OpComplete uuid string instant
  | OpFail uuid string instant instant u32 string

fun queue_step :: "(int \<Rightarrow> bool) \<Rightarrow> QueueOp \<Rightarrow> Database \<Rightarrow> Database" where
  "queue_step rep (OpEnqueue fresh now job) db = snd (enqueue fresh now job db)"
| "queue_step rep (OpClaim w now d) db = snd (claim_next rep w now d db)"
| "queue_step rep (OpRenew jid w now d) db = snd (renew rep jid w now d db)"
| "queue_step rep (OpComplete jid w now) db = snd (complete jid w now db)"
| "queue_step rep (OpFail jid w now retry n e) db = snd (fail jid w now retry n e db)"

fun queue_actor :: "QueueOp \<Rightarrow> string option" where
  "queue_actor (OpEnqueue _ _ _) = None"
| "queue_actor (OpClaim w _ _) = Some w"
| "queue_actor (OpRenew _ w _ _) = Some w"
| "queue_actor (OpComplete _ w _) = Some w"
| "queue_actor (OpFail _ w _ _ _ _) = Some w"

fun queue_time :: "QueueOp \<Rightarrow> int" where
  "queue_time (OpEnqueue _ now _) = unix_timestamp now"
| "queue_time (OpClaim _ now _) = unix_timestamp now"
| "queue_time (OpRenew _ _ now _) = unix_timestamp now"
| "queue_time (OpComplete _ _ now) = unix_timestamp now"
| "queue_time (OpFail _ _ now _ _ _) = unix_timestamp now"

lemma job_holder_Some:
  "job_holder db jid = Some (w, t) \<longleftrightarrow> (\<exists>j. lookup_row job_id jid (jobs db) = Some j \<and>
     job_state j = Leased \<and> job_owner j = Some w \<and> job_until j = Some t)"
  by (auto simp: job_holder_def split: option.splits JobState.splits)

lemma job_holder_update:
  assumes "job_holder db jid = Some (w, t)"
    and "\<And>j. p j \<Longrightarrow> job_id (f j) = job_id j"
    and "\<And>j. j \<in> set (jobs db) \<Longrightarrow> job_id j = jid \<Longrightarrow> job_state j = Leased \<Longrightarrow> job_owner j = Some w \<Longrightarrow>
           job_until j = Some t \<Longrightarrow> \<not> p j"
  shows "job_holder (update_jobs p f db) jid = Some (w, t)"
proof -
  obtain j where j: "lookup_row job_id jid (jobs db) = Some j" "job_state j = Leased"
      "job_owner j = Some w" "job_until j = Some t"
    using assms(1) by (auto simp: job_holder_Some)
  then have "\<not> p j" using assms(3) lookup_row_Some[OF j(1)] by blast
  then show ?thesis using j by (auto simp: job_holder_Some lookup_update_rows assms(2))
qed

lemma job_holder_take_sequence [simp]: "job_holder (take_claim_sequence t db) = job_holder db"
  by (simp add: job_holder_def take_claim_sequence_def fun_eq_iff)

lemma job_holder_claim:
  assumes "db_ok db" "job_holder db jid = Some (v, t)" "unix_timestamp now < t"
  shows "job_holder (snd (claim_next rep w now d db)) jid = Some (v, t)"
proof (cases rule: claim_next_cases[of rep w now d db])
  case (claimed j tn)
  have j: "j \<in> set (jobs db)" "job_eligible (unix_timestamp now) j"
    using claim_least[OF claimed(1)] by simp_all
  have "job_id j \<noteq> jid"
    using assms(2,3) lookup_in_jobs[OF assms(1) j(1)] j(2)
    by (auto simp: job_holder_Some job_eligible_def)
  then show ?thesis
    using claimed by (auto intro!: job_holder_update[OF assms(2)])
qed (use assms in simp)

lemma job_holder_step:
  assumes "db_ok db" "job_holder db jid = Some (w, t)" "queue_time op < t" "queue_actor op \<noteq> Some w"
  shows "job_holder (queue_step rep op db) jid = Some (w, t)"
proof (cases op)
  case (OpEnqueue fresh now job)
  have "\<exists>js. jobs (snd (enqueue fresh now job db)) = jobs db @ js"
    by (auto simp: enqueue_def)
  then show ?thesis
    using assms(2) OpEnqueue by (auto simp: job_holder_Some lookup_row_append)
next
  case (OpClaim v now d)
  then show ?thesis using job_holder_claim assms by simp
next
  case (OpRenew k v now d)
  then show ?thesis
    using assms by (auto simp: renew_def owned_lease_def Let_def split: sum.split
        intro!: job_holder_update)
next
  case (OpComplete k v now)
  then show ?thesis
    using assms by (auto simp: complete_def owned_lease_def split: sum.split intro!: job_holder_update)
next
  case (OpFail k v now retry n e)
  then show ?thesis
    using assms by (auto simp: fail_def owned_lease_def Let_def split: sum.split option.split
        intro!: job_holder_update)
qed

lemma queue_step_ok: "db_ok db \<Longrightarrow> db_ok (queue_step rep op db)"
  by (cases op) (simp_all add: enqueue_ok claim_next_ok renew_ok complete_ok fail_ok)

interpretation job_leases: lease_protocol "queue_step rep" queue_actor queue_time job_holder db_ok
  for rep
  by unfold_locales (auto intro: queue_step_ok job_holder_step)

lemma claim_next_leases:
  assumes "db_ok db" "claim_next rep w now d db = (Ok (Some l), db')"
  shows "job_holder db' (lj_job_id l) = Some (w, lj_lease_until l)"
    "lj_lease_until l = unix_timestamp now + int (as_secs d)"
    "\<exists>j\<in>set (jobs db). job_id j = lj_job_id l \<and> job_eligible (unix_timestamp now) j"
proof -
  obtain j t where claimed:
    "least_row (claim_order db) (claim_candidates (unix_timestamp now) db) = Some (j, t)"
    "db' = take_claim_sequence t (update_jobs (\<lambda>x. job_id x = job_id j)
       (lease_job w (unix_timestamp now + int (as_secs d)) (unix_timestamp now)) db)"
    "and_then (leased_from_row rep
       (lease_job w (unix_timestamp now + int (as_secs d)) (unix_timestamp now) j)) (\<lambda>l. Ok (Some l)) = Ok (Some l)"
    by (cases rule: claim_next_cases[of rep w now d db]) (use assms(2) in auto)
  have j: "j \<in> set (jobs db)" "job_eligible (unix_timestamp now) j"
    using claim_least[OF claimed(1)] by simp_all
  have l: "lj_job_id l = job_id j" "lj_lease_until l = unix_timestamp now + int (as_secs d)"
    using claimed(3)
    by (auto simp: leased_from_row_def lease_job_def and_then_eq_Inr split: if_splits)
  show "lj_lease_until l = unix_timestamp now + int (as_secs d)" by fact
  show "\<exists>j\<in>set (jobs db). job_id j = lj_job_id l \<and> job_eligible (unix_timestamp now) j"
    using j l by auto
  have "jobs db' = update_rows (\<lambda>x. job_id x = job_id j)
      (lease_job w (unix_timestamp now + int (as_secs d)) (unix_timestamp now)) (jobs db)"
    using claimed(2) by (simp add: take_claim_sequence_def)
  then show "job_holder db' (lj_job_id l) = Some (w, lj_lease_until l)"
    using lookup_in_jobs[OF assms(1) j(1)] l
    by (simp add: job_holder_Some lookup_update_rows) (simp add: lease_job_def)
qed

text \<open>
  C4. A job a worker has claimed is its own until the lease ends: whatever enqueues, claims,
  renewals, completions and failures other workers issue before the deadline, in whatever order,
  the worker still holds the lease with the same deadline afterwards.
\<close>

theorem claimed_job_is_exclusive:
  assumes "db_ok db" "claim_next rep w now d db = (Ok (Some l), db')"
    and "list_all (\<lambda>op. queue_time op < lj_lease_until l \<and> queue_actor op \<noteq> Some w) ops"
  shows "job_holder (fold (queue_step rep) ops db') (lj_job_id l) = Some (w, lj_lease_until l)"
  using job_leases.lease_protected[OF _ claim_next_leases(1)[OF assms(1,2)] assms(3)]
    claim_next_ok[OF assms(1), of rep w now d] assms(2) by simp

lemma sample_claim:
  "claim_next (\<lambda>_. True) ''w1'' 10000000000 30000000000 sample_db =
    (Ok (Some \<lparr>lj_job_id = 11, lj_job = \<lparr>pj_upload = 1, pj_preset = ''thumbnail-320'', pj_revision = None\<rparr>,
       lj_attempts = 1, lj_lease_until = 40, lj_enqueued_at = 5\<rparr>),
     snd (claim_next (\<lambda>_. True) ''w1'' 10000000000 30000000000 sample_db))"
  by (simp add: claim_next_def validate_worker_id_def worker_id_byte_def is_ascii_alphanumeric_def
      is_ascii_lower_def is_ascii_digit_def is_ascii_upper_def byte_of_def as_secs_def unix_timestamp_def
      i64_max_def claim_candidates_def lookup_row_def sample_job_def sample_upload_def job_eligible_def
      claim_order_def last_claim_def tenant_column_ok_def lease_job_def leased_from_row_def)

theorem claimed_job_is_exclusive_witness:
  "job_holder (fold (queue_step (\<lambda>_. True))
     [OpClaim ''w2'' 20000000000 30000000000, OpFail 11 ''w2'' 20000000000 90000000000 3 ''E'']
     (snd (claim_next (\<lambda>_. True) ''w1'' 10000000000 30000000000 sample_db))) 11 = Some (''w1'', 40)"
  using claimed_job_is_exclusive[OF sample_db_ok sample_claim,
      of "[OpClaim ''w2'' 20000000000 30000000000, OpFail 11 ''w2'' 20000000000 90000000000 3 ''E'']"]
  by (simp add: unix_timestamp_def)

section \<open>Fairness between tenants\<close>

lemma last_claim_take:
  "last_claim (take_claim_sequence t db) s = (if s = t then next_claim_sequence db else last_claim db s)"
  by (simp add: last_claim_def take_claim_sequence_def update_conv')

lemma last_claim_update_jobs [simp]: "last_claim (update_jobs p f db) = last_claim db"
  by (simp add: last_claim_def fun_eq_iff)

lemma last_claim_below: "db_ok db \<Longrightarrow> last_claim db t < next_claim_sequence db"
  by (auto simp: db_ok_def queue_ok_def last_claim_def dest!: map_of_SomeD split: option.splits)

text \<open>
  A claim serves the tenant that was served least recently among those with an eligible job,
  its oldest job first, and puts that tenant behind every other.
\<close>

theorem claim_serves_least_recent_tenant:
  assumes "db_ok db" "claim_next rep w now d db = (Ok (Some l), db')"
    and "(j', t') \<in> set (claim_candidates (unix_timestamp now) db)"
  shows "\<exists>j t. (j, t) \<in> set (claim_candidates (unix_timestamp now) db) \<and> job_id j = lj_job_id l \<and>
    last_claim db t \<le> last_claim db t' \<and>
    (last_claim db t = last_claim db t' \<longrightarrow>
       (job_available j, job_created j, job_id j) \<le> (job_available j', job_created j', job_id j')) \<and>
    (\<forall>s. s \<noteq> t \<longrightarrow> last_claim db' s < last_claim db' t)"
proof -
  obtain j t where claimed:
    "least_row (claim_order db) (claim_candidates (unix_timestamp now) db) = Some (j, t)"
    "db' = take_claim_sequence t (update_jobs (\<lambda>x. job_id x = job_id j)
       (lease_job w (unix_timestamp now + int (as_secs d)) (unix_timestamp now)) db)"
    "and_then (leased_from_row rep
       (lease_job w (unix_timestamp now + int (as_secs d)) (unix_timestamp now) j)) (\<lambda>l. Ok (Some l)) = Ok (Some l)"
    by (cases rule: claim_next_cases[of rep w now d db]) (use assms(2) in auto)
  note least = claim_least[OF claimed(1)]
  have "claim_order db (j, t) \<le> claim_order db (j', t')" using least(4) assms(3) by blast
  moreover have "lj_job_id l = job_id j"
    using claimed(3) by (auto simp: leased_from_row_def lease_job_def and_then_eq_Inr split: if_splits)
  moreover have "\<forall>s. s \<noteq> t \<longrightarrow> last_claim db' s < last_claim db' t"
    using last_claim_below[OF assms(1)] claimed(2) by (simp add: last_claim_take)
  ultimately show ?thesis
    using least(1) by (intro exI[of _ j] exI[of _ t]) (auto simp: claim_order_def less_eq_prod_def)
qed

theorem claim_serves_least_recent_tenant_witness:
  "\<exists>j t. (j, t) \<in> set (claim_candidates (unix_timestamp 10000000000) sample_db) \<and> job_id j = 11 \<and>
     last_claim sample_db t \<le> last_claim sample_db ''b''"
proof -
  have "(sample_job 12 2, ''b'') \<in> set (claim_candidates (unix_timestamp 10000000000) sample_db)"
    by (simp add: claim_candidates_def lookup_row_def sample_job_def sample_upload_def job_eligible_def
        unix_timestamp_def)
  note fair = claim_serves_least_recent_tenant[OF sample_db_ok sample_claim this, unfolded LeasedProcessingJob.simps]
  then obtain j t where "(j, t) \<in> set (claim_candidates (unix_timestamp 10000000000) sample_db)"
    "job_id j = 11" "last_claim sample_db t \<le> last_claim sample_db ''b''"
    by (elim exE conjE)
  then show ?thesis by (intro exI conjI)
qed

text \<open>The tenant a successful claim serves.\<close>

definition served_tenant :: "(int \<Rightarrow> bool) \<Rightarrow> string \<Rightarrow> instant \<Rightarrow> duration \<Rightarrow> Database \<Rightarrow> string option" where
  "served_tenant rep w now d db =
     (case fst (claim_next rep w now d db) of
        Inr (Some l) \<Rightarrow> map_option snd (least_row (claim_order db) (claim_candidates (unix_timestamp now) db))
      | _ \<Rightarrow> None)"

text \<open>A run of successful claims each of which serves another tenant although \<open>b\<close> has an eligible job.\<close>

fun passed_over :: "(int \<Rightarrow> bool) \<Rightarrow> string \<Rightarrow> (string \<times> instant \<times> duration) list \<Rightarrow> Database \<Rightarrow> bool" where
  "passed_over rep b [] db = True"
| "passed_over rep b ((w, now, d) # claims) db \<longleftrightarrow>
     list_ex (\<lambda>c. snd c = b) (claim_candidates (unix_timestamp now) db) \<and>
     (case served_tenant rep w now d db of None \<Rightarrow> False | Some t \<Rightarrow> t \<noteq> b) \<and>
     passed_over rep b claims (snd (claim_next rep w now d db))"

text \<open>The tenants that may still be served before \<open>b\<close>.\<close>

definition ahead_of :: "string \<Rightarrow> Database \<Rightarrow> string set" where
  "ahead_of b db = {t \<in> up_tenant ` set (uploads db). t \<noteq> b \<and> last_claim db t \<le> last_claim db b}"

lemma ahead_of_shrinks:
  assumes "db_ok db" "passed_over rep b ((w, now, d) # claims) db"
  shows "card (ahead_of b (snd (claim_next rep w now d db))) < card (ahead_of b db)"
proof -
  let ?db' = "snd (claim_next rep w now d db)"
  obtain t where t: "served_tenant rep w now d db = Some t" "t \<noteq> b"
    using assms(2) by (auto split: option.splits)
  then obtain j where least:
    "least_row (claim_order db) (claim_candidates (unix_timestamp now) db) = Some (j, t)"
    "?db' = take_claim_sequence t (update_jobs (\<lambda>x. job_id x = job_id j)
       (lease_job w (unix_timestamp now + int (as_secs d)) (unix_timestamp now)) db)"
    by (cases rule: claim_next_cases[of rep w now d db])
      (auto simp: served_tenant_def split: sum.splits option.splits)
  obtain c where c: "c \<in> set (claim_candidates (unix_timestamp now) db)" "snd c = b"
    using assms(2) by (auto simp: list_ex_iff)
  have "last_claim db t \<le> last_claim db b"
    using claim_least(4)[OF least(1) c(1)] c(2) by (auto simp: claim_order_def less_eq_prod_def)
  moreover have "t \<in> up_tenant ` set (uploads db)"
    using claim_candidate[OF claim_least(1)[OF least(1)]] lookup_row_Some by fastforce
  ultimately have mem: "t \<in> ahead_of b db" using t(2) by (simp add: ahead_of_def)
  have "ahead_of b ?db' \<subseteq> ahead_of b db - {t}"
    using last_claim_below[OF assms(1), of b] t(2)
    by (auto simp: ahead_of_def least(2) last_claim_take)
      (auto simp: take_claim_sequence_def)
  then have "card (ahead_of b ?db') \<le> card (ahead_of b db - {t})"
    by (rule card_mono[rotated]) (simp add: ahead_of_def)
  also have "\<dots> < card (ahead_of b db)"
    using mem by (intro card_Diff1_less) (simp_all add: ahead_of_def)
  finally show ?thesis .
qed



section \<open>Retries and dead letters\<close>

lemma find_owned_lease:
  assumes "db_ok db" "lookup_row job_id jid (jobs db) = Some j" "owned_lease jid w j"
  shows "find (owned_lease jid w) (jobs db) = Some j"
proof -
  have "distinct (map job_id (jobs db))" using assms(1) by (simp add: db_ok_def unique_keys_ok_def)
  then show ?thesis
    using assms(3) lookup_row_Some[OF assms(2)]
    by (intro find_unique_key[of job_id]) (auto simp: owned_lease_def)
qed

text \<open>
  The holder of a lease may fail its job; the job then leaves the lease, becomes a dead letter
  exactly when its attempts have reached the cap, and otherwise is claimable again from
  \<open>retry_at\<close> on and not before.
\<close>

theorem fail_retries_or_dead_letters:
  assumes "db_ok db" "lookup_row job_id jid (jobs db) = Some j" "owned_lease jid w j"
    and "validate_worker_id w = Ok ()" "max_attempts \<noteq> 0" "e \<noteq> []" "length e \<le> 64"
  shows "fst (fail jid w now retry max_attempts e db) =
      Ok (if unat max_attempts \<le> job_attempts j then DeadLettered else RetryScheduled) \<and>
    job_holder (snd (fail jid w now retry max_attempts e db)) jid = None \<and>
    (\<exists>j'. lookup_row job_id jid (jobs (snd (fail jid w now retry max_attempts e db))) = Some j' \<and>
       job_attempts j' = job_attempts j \<and>
       (\<forall>t. job_eligible t j' \<longleftrightarrow> job_attempts j < unat max_attempts \<and> unix_timestamp retry \<le> t))"
proof -
  let ?f = "failed_job (unix_timestamp now) (unix_timestamp retry) (unat max_attempts) e"
  have "lookup_row job_id jid (update_rows (owned_lease jid w) ?f (jobs db)) = Some (?f j)"
    by (subst lookup_update_rows) (simp_all add: assms(2,3))
  then show ?thesis
    using assms(4-7) find_owned_lease[OF assms(1-3)]
    by (simp add: fail_def job_holder_def) (auto simp: failed_job_def job_eligible_def)
qed

lemma sample_leased_job:
  assumes "sample = snd (claim_next (\<lambda>_. True) ''w1'' 10000000000 30000000000 sample_db)"
  shows "lookup_row job_id 11 (jobs sample) = Some (lease_job ''w1'' 40 10 (sample_job 11 1))"
  unfolding assms
  by (simp add: claim_next_def validate_worker_id_def worker_id_byte_def is_ascii_alphanumeric_def
      is_ascii_lower_def is_ascii_digit_def is_ascii_upper_def byte_of_def as_secs_def unix_timestamp_def
      i64_max_def claim_candidates_def lookup_row_def sample_job_def sample_upload_def job_eligible_def
      claim_order_def last_claim_def tenant_column_ok_def lease_job_def take_claim_sequence_def
      update_rows_def)

theorem fail_retries_or_dead_letters_witness:
  "fst (fail 11 ''w1'' 12000000000 60000000000 1 ''TIMEOUT''
     (snd (claim_next (\<lambda>_. True) ''w1'' 10000000000 30000000000 sample_db))) = Ok DeadLettered"
proof -
  have "owned_lease 11 ''w1'' (lease_job ''w1'' 40 10 (sample_job 11 1))"
    by (simp add: owned_lease_def lease_job_def sample_job_def)
  moreover have "validate_worker_id ''w1'' = Ok ()"
    by (simp add: validate_worker_id_def worker_id_byte_def is_ascii_alphanumeric_def
      is_ascii_lower_def is_ascii_digit_def is_ascii_upper_def byte_of_def)
  ultimately show ?thesis
    using fail_retries_or_dead_letters[OF claim_next_ok[OF sample_db_ok] sample_leased_job[OF refl],
        of "''w1''" 1 "''TIMEOUT''" 12000000000 60000000000]
    by (simp add: lease_job_def sample_job_def)
qed

end
