(* ===== verification/Nonce_Store.thy ===== *)
theory Nonce_Store
  imports Samples
begin

text \<open>
  The replay protection of signed requests: \<open>impl NonceStore for SqliteStore\<close> of
  \<open>crates/g7mb-persistence-sqlite/src/lib.rs\<close>, behind the interface \<open>nonce_store\<close> the request
  authentication relies on.
\<close>

datatype NonceStoreError = Replay | NonceBackend string

section \<open>The interface\<close>

text \<open>
  \<open>reserved s k n\<close> is the second until which the store remembers nonce \<open>n\<close> of key \<open>k\<close>.  An
  accepted reservation was not remembered and is from then on; no other call forgets it before
  its time.
\<close>

locale nonce_store =
  fixes consume :: "string \<Rightarrow> string \<Rightarrow> instant \<Rightarrow> instant \<Rightarrow> 's \<Rightarrow> (NonceStoreError, unit) result \<times> 's"
    and reserved :: "'s \<Rightarrow> string \<Rightarrow> string \<Rightarrow> int option"
    and inv :: "'s \<Rightarrow> bool"
  assumes consume_inv: "inv s \<Longrightarrow> inv (snd (consume k n now until s))"
    and consume_fresh: "inv s \<Longrightarrow> fst (consume k n now until s) = Ok () \<Longrightarrow>
      reserved s k n = Some t \<Longrightarrow> t \<le> unix_timestamp now"
    and consume_records: "inv s \<Longrightarrow> fst (consume k n now until s) = Ok () \<Longrightarrow>
      reserved (snd (consume k n now until s)) k n = Some (unix_timestamp until)"
    and consume_remembers: "inv s \<Longrightarrow> reserved s k n = Some t \<Longrightarrow> unix_timestamp now < t \<Longrightarrow>
      reserved (snd (consume k' n' now until s)) k n = Some t"
begin

text \<open>A history is a list of calls; \<open>accepted\<close> lists the ones the store let through.\<close>

fun accepted :: "(string \<times> string \<times> instant \<times> instant) list \<Rightarrow> 's \<Rightarrow> (string \<times> string) list" where
  "accepted [] s = []"
| "accepted ((k, n, now, until) # calls) s =
     (if fst (consume k n now until s) = Ok () then [(k, n)] else []) @
     accepted calls (snd (consume k n now until s))"

lemma remembered_not_accepted:
  assumes "inv s" "reserved s k n = Some t"
    and "list_all (\<lambda>(_, _, now, _). unix_timestamp now < t) calls"
  shows "(k, n) \<notin> set (accepted calls s)"
  using assms
proof (induction calls arbitrary: s)
  case (Cons c calls)
  obtain k' n' now until where c: "c = (k', n', now, until)" by (cases c)
  have "(k, n) \<notin> set (accepted calls (snd (consume k' n' now until s)))"
    using Cons c by (auto intro!: Cons.IH consume_inv consume_remembers)
  moreover have "fst (consume k n now until s) \<noteq> Ok ()"
    using Cons.prems c consume_fresh[of s k n now until t] by auto
  ultimately show ?case using c by auto
qed simp

lemma no_replay:
  assumes "inv s" "fst (consume k n now until s) = Ok ()"
    and "list_all (\<lambda>(_, _, later, _). unix_timestamp later < unix_timestamp until) calls"
  shows "(k, n) \<notin> set (accepted calls (snd (consume k n now until s)))"
  by (rule remembered_not_accepted[OF consume_inv[OF assms(1)] consume_records[OF assms(1,2)] assms(3)])

end

section \<open>The SQLite store\<close>

definition consume_nonce :: "string \<Rightarrow> string \<Rightarrow> instant \<Rightarrow> instant \<Rightarrow> Database
    \<Rightarrow> (NonceStoreError, unit) result \<times> Database" where
  "consume_nonce key_id nonce now expires_at db =
     (if key_id = [] \<or> length key_id > 128 \<or> length nonce < 16 \<or> length nonce > 128 \<or> expires_at \<le> now
      then (Err (NonceBackend ''nonce reservation input is invalid''), db)
      else (let rows = filter (\<lambda>r. \<not> nonce_expires r \<le> unix_timestamp now) (request_nonces db) in
        if (key_id, nonce) \<in> (\<lambda>r. (nonce_key r, nonce_value r)) ` set rows
        then (Err Replay, db)
        else (Ok (), db\<lparr>request_nonces := rows @
               [\<lparr>nonce_key = key_id, nonce_value = nonce, nonce_expires = unix_timestamp expires_at\<rparr>]\<rparr>)))"

definition nonce_reserved :: "Database \<Rightarrow> string \<Rightarrow> string \<Rightarrow> int option" where
  "nonce_reserved db k n =
     map_option nonce_expires (lookup_row (\<lambda>r. (nonce_key r, nonce_value r)) (k, n) (request_nonces db))"

lemma consume_nonce_ok: "db_ok db \<Longrightarrow> db_ok (snd (consume_nonce k n now until db))"
  by (auto simp: consume_nonce_def Let_def db_ok_def foreign_keys_ok_def unique_keys_ok_def queue_ok_def
      distinct_map_filter)

lemma lookup_filter_keep:
  "lookup_row key k rows = Some r \<Longrightarrow> p r \<Longrightarrow> lookup_row key k (filter p rows) = Some r"
  by (induction rows) (auto simp: lookup_row_def split: if_splits)

lemma nonce_reserved_kept:
  assumes "nonce_reserved db k n = Some t" "unix_timestamp now < t"
  shows "nonce_reserved (snd (consume_nonce k' n' now until db)) k n = Some t"
proof -
  obtain r where r: "lookup_row (\<lambda>r. (nonce_key r, nonce_value r)) (k, n) (request_nonces db) = Some r"
      "nonce_expires r = t"
    using assms(1) by (auto simp: nonce_reserved_def)
  then have "lookup_row (\<lambda>r. (nonce_key r, nonce_value r)) (k, n)
      (filter (\<lambda>r. \<not> nonce_expires r \<le> unix_timestamp now) (request_nonces db)) = Some r"
    using assms(2) by (intro lookup_filter_keep) auto
  then show ?thesis
    using r by (auto simp: consume_nonce_def Let_def nonce_reserved_def lookup_row_append)
qed

interpretation sqlite_nonces: nonce_store consume_nonce nonce_reserved db_ok
proof
  show "db_ok db \<Longrightarrow> db_ok (snd (consume_nonce k n now until db))" for db k n now until
    by (rule consume_nonce_ok)
  show "t \<le> unix_timestamp now"
    if "db_ok db" "fst (consume_nonce k n now until db) = Ok ()" "nonce_reserved db k n = Some t"
    for db k n now until t
  proof (rule ccontr)
    note prems = that
    assume late: "\<not> t \<le> unix_timestamp now"
    obtain r where "r \<in> set (request_nonces db)" "nonce_key r = k" "nonce_value r = n" "nonce_expires r = t"
      using prems(3) by (auto simp: nonce_reserved_def dest!: lookup_row_Some)
    then show False
      using prems(2) late by (force simp: consume_nonce_def Let_def split: if_splits)
  qed
  show "nonce_reserved (snd (consume_nonce k n now until db)) k n = Some (unix_timestamp until)"
    if "db_ok db" "fst (consume_nonce k n now until db) = Ok ()" for db k n now until
  proof -
    let ?rows = "filter (\<lambda>r. \<not> nonce_expires r \<le> unix_timestamp now) (request_nonces db)"
    have "lookup_row (\<lambda>r. (nonce_key r, nonce_value r)) (k, n) ?rows = None"
      and "snd (consume_nonce k n now until db) = db\<lparr>request_nonces := ?rows @
         [\<lparr>nonce_key = k, nonce_value = n, nonce_expires = unix_timestamp until\<rparr>]\<rparr>"
      using that(2) by (auto simp: consume_nonce_def Let_def lookup_row_None split: if_splits)
    then show ?thesis by (simp add: nonce_reserved_def lookup_row_append) (simp add: lookup_row_def)
  qed
  show "nonce_reserved (snd (consume_nonce k' n' now until db)) k n = Some t"
    if "db_ok db" "nonce_reserved db k n = Some t" "unix_timestamp now < t" for db k n t now k' n' until
    using that by (intro nonce_reserved_kept)
qed

text \<open>
  A nonce accepted with expiry \<open>until\<close> is not accepted again before that second, whatever
  requests of whatever keys come in between.
\<close>

theorem nonce_not_replayed:
  assumes "db_ok db" "fst (consume_nonce k n now until db) = Ok ()"
    and "list_all (\<lambda>(_, _, later, _). unix_timestamp later < unix_timestamp until) calls"
  shows "(k, n) \<notin> set (sqlite_nonces.accepted calls (snd (consume_nonce k n now until db)))"
  using assms by (rule sqlite_nonces.no_replay)

theorem nonce_not_replayed_witness:
  "(''site'', ''nonce-0123456789'') \<notin> set (sqlite_nonces.accepted
     [(''site'', ''nonce-0123456789'', 200000000000, 900000000000)]
     (snd (consume_nonce ''site'' ''nonce-0123456789'' 100000000000 400000000000 empty_database)))"
proof (rule nonce_not_replayed[OF db_ok_empty])
  show "fst (consume_nonce ''site'' ''nonce-0123456789'' 100000000000 400000000000 empty_database) = Ok ()"
    by (simp add: consume_nonce_def empty_database_def)
qed (simp add: unix_timestamp_def)

end
