(* ===== verification/Ports.thy ===== *)
theory Ports
  imports Domain
begin

text \<open>
  The object-storage port of \<open>crates/g7mb-application/src/lib.rs\<close>.  A provider is a record of its
  operations over a state of its own (\<open>'o\<close>): the services are proved for every provider, and what
  a property needs of one is a hypothesis that names it.  Presigned URLs are opaque strings.
\<close>

datatype ObjectStoreError =
    InvalidRequest string | ObjectNotFound | ContentLengthMismatch | StoreBackend string

record PresignPutRequest =
  pp_key :: string
  pp_content_length :: u64
  pp_content_type :: string
  pp_expires_in :: duration

record PresignedUpload =
  pu_url :: string
  pu_required_headers :: "(string \<times> string) list"
  pu_expires_at :: instant

record PresignGetRequest =
  pg_key :: string
  pg_expires_in :: duration

record PresignedDownload =
  pd_url :: string
  pd_expires_at :: instant

record CreateMultipartRequest =
  cm_key :: string
  cm_content_type :: string

record PresignPartRequest =
  ppr_key :: string
  ppr_upload_id :: string
  ppr_part_number :: u16
  ppr_content_length :: u64
  ppr_expires_in :: duration

record CompletedPart =
  cp_part_number :: u16
  cp_etag :: string

record CompleteMultipartRequest =
  cmr_key :: string
  cmr_upload_id :: string
  cmr_parts :: "CompletedPart list"

record AbortMultipartRequest =
  am_key :: string
  am_upload_id :: string

record ObjectMetadata =
  om_content_length :: u64
  om_content_type :: "string option"
  om_etag :: "string option"

record ListObjectsRequest =
  lo_prefix :: string
  lo_start_after :: "string option"
  lo_max_keys :: u16

record ListedObject =
  lob_key :: string
  lob_content_length :: u64

record ListedObjectsPage =
  lop_objects :: "ListedObject list"
  lop_next_start_after :: "string option"

type_synonym ('o, 'a) store_op = "'o \<Rightarrow> (ObjectStoreError, 'a) result \<times> 'o"

record 'o ObjectStore =
  presign_put :: "PresignPutRequest \<Rightarrow> ('o, PresignedUpload) store_op"
  presign_get :: "PresignGetRequest \<Rightarrow> ('o, PresignedDownload) store_op"
  create_multipart :: "CreateMultipartRequest \<Rightarrow> ('o, string) store_op"
  store_presign_part :: "PresignPartRequest \<Rightarrow> ('o, PresignedUpload) store_op"
  store_complete_multipart :: "CompleteMultipartRequest \<Rightarrow> ('o, unit) store_op"
  store_abort_multipart :: "AbortMultipartRequest \<Rightarrow> ('o, unit) store_op"
  head_object :: "string \<Rightarrow> ('o, ObjectMetadata) store_op"
  list_objects :: "ListObjectsRequest \<Rightarrow> ('o, ListedObjectsPage) store_op"
  delete_object :: "string \<Rightarrow> ('o, unit) store_op"

end
