(* ===== verification/Upload_Repository.thy ===== *)
theory Upload_Repository
  imports Job_Queue
begin

text \<open>
  Upload reservations: \<open>impl UploadRepository for SqliteStore\<close> of
  \<open>crates/g7mb-persistence-sqlite/src/lib.rs\<close> with the reservation types of
  \<open>crates/g7mb-application/src/uploads.rs\<close>.  A transaction that returns an error is rolled back:
  the database is the one it started from.
\<close>

section \<open>Types of the port\<close>

record UploadReservation =
  ur_upload_id :: uuid
  ur_object_key :: string
  ur_declared_kind :: MediaKind
  ur_expected_size :: u64
  ur_content_type_hint :: string
  ur_transfer :: UploadTransfer
  ur_session :: "string option"

record UploadBatchReservation =
  ubr_batch_id :: uuid
  ubr_tenant_id :: string
  ubr_created_at :: instant
  ubr_uploads :: "UploadReservation list"

record UploadCapacityPolicy =
  max_active_global :: nat
  max_active_per_tenant :: nat
  max_reserved_bytes_global :: u64
  max_reserved_bytes_per_tenant :: u64

definition default_capacity :: UploadCapacityPolicy where
  "default_capacity = \<lparr>max_active_global = 1000, max_active_per_tenant = 200,
     max_reserved_bytes_global = 1024 * 1024 * 1024 * 1024,
     max_reserved_bytes_per_tenant = 100 * 1024 * 1024 * 1024\<rparr>"

definition capacity_is_valid :: "UploadCapacityPolicy \<Rightarrow> bool" where
  "capacity_is_valid c \<longleftrightarrow>
     max_active_global c > 0 \<and> max_active_per_tenant c > 0 \<and>
     max_active_per_tenant c \<le> max_active_global c \<and>
     max_reserved_bytes_global c > 0 \<and> max_reserved_bytes_per_tenant c > 0 \<and>
     max_reserved_bytes_per_tenant c \<le> max_reserved_bytes_global c \<and>
     max_reserved_bytes_global c \<le> 9223372036854775807"

datatype UploadRepositoryError = CapacityExhausted | RepositoryBackend string

record StoredUploadReservation =
  sur_upload_id :: uuid
  sur_object_key :: string
  sur_expected_size :: u64
  sur_state :: UploadState
  sur_transfer :: UploadTransfer
  sur_session :: "string option"

record StoredDerivative =
  sd_preset :: string
  sd_variant :: string
  sd_object_key :: string
  sd_content_type :: string
  sd_byte_len :: u64

record UploadStatusSnapshot =
  us_upload_id :: uuid
  us_state :: UploadState
  us_detected_content_type :: "string option"
  us_error_code :: "string option"
  us_deletion_pending :: bool
  us_derivatives :: "StoredDerivative list"

section \<open>Capacity\<close>

definition active_state :: "UploadState \<Rightarrow> bool" where
  "active_state s \<longleftrightarrow> s \<in> {Created, Uploaded, Quarantined, Processing}"

definition active_global :: "Database \<Rightarrow> nat" where
  "active_global db = length (filter (\<lambda>r. active_state (up_state r)) (uploads db))"

definition active_tenant :: "string \<Rightarrow> Database \<Rightarrow> nat" where
  "active_tenant t db = length (filter (\<lambda>r. up_tenant r = t \<and> active_state (up_state r)) (uploads db))"

definition reserved_tenant :: "string \<Rightarrow> Database \<Rightarrow> int" where
  "reserved_tenant t db = (case map_of (tenant_reserved db) t of None \<Rightarrow> 0 | Some n \<Rightarrow> n)"

definition fits :: "nat \<Rightarrow> nat \<Rightarrow> nat \<Rightarrow> bool" where
  "fits used extra cap \<longleftrightarrow> used + extra < 2 ^ 64 \<and> used + extra \<le> cap"

definition capacity_allows :: "nat \<Rightarrow> nat \<Rightarrow> int \<Rightarrow> int \<Rightarrow> nat \<Rightarrow> u64 \<Rightarrow> UploadCapacityPolicy
    \<Rightarrow> (UploadRepositoryError, bool) result" where
  "capacity_allows active tenant_active global_reserved_bytes tenant_reserved_bytes extra extra_bytes c =
     (if global_reserved_bytes < 0 then Err (RepositoryBackend ''global reserved byte count is invalid'')
      else if tenant_reserved_bytes < 0 then Err (RepositoryBackend ''tenant reserved byte count is invalid'')
      else if extra = 0 \<or> extra_bytes = 0 \<or> \<not> capacity_is_valid c
      then Err (RepositoryBackend ''upload capacity policy is invalid'')
      else Ok (fits active extra (max_active_global c) \<and>
               fits tenant_active extra (max_active_per_tenant c) \<and>
               fits (nat global_reserved_bytes) (unat extra_bytes) (unat (max_reserved_bytes_global c)) \<and>
               fits (nat tenant_reserved_bytes) (unat extra_bytes) (unat (max_reserved_bytes_per_tenant c))))"

definition capacity_in :: "string \<Rightarrow> nat \<Rightarrow> u64 \<Rightarrow> UploadCapacityPolicy \<Rightarrow> Database
    \<Rightarrow> (UploadRepositoryError, bool) result" where
  "capacity_in tenant extra extra_bytes c db =
     capacity_allows (active_global db) (active_tenant tenant db) (global_reserved db)
       (reserved_tenant tenant db) extra extra_bytes c"

definition has_capacity :: "string \<Rightarrow> nat \<Rightarrow> u64 \<Rightarrow> UploadCapacityPolicy \<Rightarrow> Database
    \<Rightarrow> (UploadRepositoryError, bool) result" where
  "has_capacity tenant_id additional_uploads additional_bytes c db =
     (if tenant_id = [] \<or> additional_uploads = 0 \<or> additional_bytes = 0
      then Err (RepositoryBackend ''capacity preflight input is invalid'')
      else capacity_in tenant_id additional_uploads additional_bytes c db)"

section \<open>Saving a batch\<close>

fun batch_total :: "u64 \<Rightarrow> UploadReservation list \<Rightarrow> u64 option" where
  "batch_total acc [] = Some acc"
| "batch_total acc (u # us) =
     (case checked_add acc (ur_expected_size u) of None \<Rightarrow> None | Some acc' \<Rightarrow> batch_total acc' us)"

definition reservation_row :: "UploadBatchReservation \<Rightarrow> UploadReservation \<Rightarrow> UploadRow" where
  "reservation_row batch u = (let ts = unix_timestamp (ubr_created_at batch) in
     \<lparr>up_id = ur_upload_id u, up_tenant = ubr_tenant_id batch, up_key = ur_object_key u,
      up_state = Created, up_expected = unat (ur_expected_size u), up_actual = None,
      up_hint = ur_content_type_hint u, up_detected = None, up_sha256 = None, up_error = None,
      up_created = ts, up_updated = ts, up_batch = Some (ubr_batch_id batch),
      up_declared = Some (ur_declared_kind u),
      up_multipart = (case ur_transfer u of SinglePut \<Rightarrow> False | Multipart _ \<Rightarrow> True),
      up_part_size = (case ur_transfer u of SinglePut \<Rightarrow> None | Multipart p \<Rightarrow> Some (unat p)),
      up_session = (case ur_transfer u of SinglePut \<Rightarrow> None | Multipart _ \<Rightarrow> ur_session u),
      up_delete_requested = None, up_deleted_at = None, up_cleanup_owner = None,
      up_cleanup_until = None, up_cleanup_retry = None, up_cleanup_attempts = 0,
      up_cleanup_error = None\<rparr>)"

text \<open>The constraints an inserted reservation must satisfy: primary key, unique object key, part size
  and, through the storage trigger, the length of the tenant.\<close>

definition upload_constraints :: "UploadRow \<Rightarrow> Database \<Rightarrow> bool" where
  "upload_constraints r db \<longleftrightarrow>
     up_id r \<notin> up_id ` set (uploads db) \<and> up_key r \<notin> up_key ` set (uploads db) \<and>
     (case up_part_size r of None \<Rightarrow> True | Some n \<Rightarrow> 5242880 \<le> n) \<and> tenant_column_ok (up_tenant r)"

fun save_uploads :: "UploadBatchReservation \<Rightarrow> UploadReservation list \<Rightarrow> Database
    \<Rightarrow> (UploadRepositoryError, Database) result" where
  "save_uploads batch [] db = Ok db"
| "save_uploads batch (u # us) db =
     (if unat (ur_expected_size u) > i64_max
      then Err (RepositoryBackend ''upload byte length exceeds SQLite range'')
      else if (case ur_transfer u of SinglePut \<Rightarrow> False | Multipart p \<Rightarrow> unat p > i64_max)
      then Err (RepositoryBackend ''multipart part size exceeds SQLite range'')
      else if (case ur_transfer u of SinglePut \<Rightarrow> False | Multipart _ \<Rightarrow> ur_session u = None)
      then Err (RepositoryBackend ''multipart reservation has no provider session'')
      else if \<not> upload_constraints (reservation_row batch u) db
      then Err (RepositoryBackend ''SQLite backend: constraint failed'')
      else save_uploads batch us (insert_upload (reservation_row batch u) db))"

definition batch_row :: "UploadBatchReservation \<Rightarrow> u64 \<Rightarrow> BatchRow" where
  "batch_row batch total_size =
     \<lparr>batch_id = ubr_batch_id batch, batch_tenant = ubr_tenant_id batch,
      batch_files = length (ubr_uploads batch), batch_expected = unat total_size,
      batch_created = unix_timestamp (ubr_created_at batch)\<rparr>"

definition save_batch :: "UploadBatchReservation \<Rightarrow> UploadCapacityPolicy \<Rightarrow> Database
    \<Rightarrow> (UploadRepositoryError, unit) result \<times> Database" where
  "save_batch batch c db =
     (if ubr_uploads batch = [] \<or> length (ubr_uploads batch) > 100
      then (Err (RepositoryBackend ''batch file count is outside 1..=100''), db)
      else (case batch_total 0 (ubr_uploads batch) of
          None \<Rightarrow> (Err (RepositoryBackend ''batch byte total exceeds integer range''), db)
        | Some total_size \<Rightarrow>
            if unat total_size > i64_max
            then (Err (RepositoryBackend ''batch byte total exceeds SQLite range''), db)
            else (case capacity_in (ubr_tenant_id batch) (length (ubr_uploads batch)) total_size c db of
                Inl e \<Rightarrow> (Err e, db)
              | Inr False \<Rightarrow> (Err CapacityExhausted, db)
              | Inr True \<Rightarrow>
                  if ubr_batch_id batch \<in> batch_id ` set (upload_batches db) \<or> total_size = 0
                  then (Err (RepositoryBackend ''SQLite backend: constraint failed''), db)
                  else (case save_uploads batch (ubr_uploads batch)
                          (db\<lparr>upload_batches := upload_batches db @ [batch_row batch total_size]\<rparr>) of
                      Inl e \<Rightarrow> (Err e, db)
                    | Inr db' \<Rightarrow> (Ok (), db')))))"

section \<open>Reading\<close>

definition stored_upload_from_row :: "UploadRow \<Rightarrow> (UploadRepositoryError, StoredUploadReservation) result" where
  "stored_upload_from_row r =
     (case ObjectKey_new (up_key r) of
        Inl _ \<Rightarrow> Err (RepositoryBackend ''stored object key is invalid'')
      | Inr key \<Rightarrow>
          if up_multipart r \<and> up_part_size r = None
          then Err (RepositoryBackend ''multipart upload has no part size'')
          else if up_multipart r \<and> up_session r = None
          then Err (RepositoryBackend ''multipart upload has no provider session'')
          else Ok \<lparr>sur_upload_id = up_id r, sur_object_key = key,
                   sur_expected_size = of_nat (up_expected r), sur_state = up_state r,
                   sur_transfer = (if up_multipart r then Multipart (of_nat (the (up_part_size r)))
                                   else SinglePut),
                   sur_session = up_session r\<rparr>)"

definition find_upload_row :: "string \<Rightarrow> uuid \<Rightarrow> Database \<Rightarrow> UploadRow option" where
  "find_upload_row tenant_id upload_id db =
     find (\<lambda>r. up_tenant r = tenant_id \<and> up_id r = upload_id) (uploads db)"

definition find_upload :: "string \<Rightarrow> uuid \<Rightarrow> Database
    \<Rightarrow> (UploadRepositoryError, StoredUploadReservation option) result" where
  "find_upload tenant_id upload_id db =
     (case find_upload_row tenant_id upload_id db of
        None \<Rightarrow> Ok None
      | Some r \<Rightarrow> and_then (stored_upload_from_row r) (\<lambda>s. Ok (Some s)))"

definition stored_derivative_from_row :: "DerivativeRow \<Rightarrow> (UploadRepositoryError, StoredDerivative) result" where
  "stored_derivative_from_row d =
     (case ObjectKey_new (drv_key d) of
        Inl _ \<Rightarrow> Err (RepositoryBackend ''stored derivative key is invalid'')
      | Inr key \<Rightarrow> Ok \<lparr>sd_preset = drv_preset d, sd_variant = drv_variant d, sd_object_key = key,
                       sd_content_type = drv_type d, sd_byte_len = of_nat (drv_len d)\<rparr>)"

definition derivative_rows :: "uuid \<Rightarrow> Database \<Rightarrow> DerivativeRow list" where
  "derivative_rows upload_id db =
     sort_key (\<lambda>d. (drv_preset d, drv_variant d)) (filter (\<lambda>d. drv_upload d = upload_id) (derivatives db))"

definition find_status :: "string \<Rightarrow> uuid \<Rightarrow> Database
    \<Rightarrow> (UploadRepositoryError, UploadStatusSnapshot option) result" where
  "find_status tenant_id upload_id db =
     (case find_upload_row tenant_id upload_id db of
        None \<Rightarrow> Ok None
      | Some r \<Rightarrow>
          let pending = (up_delete_requested r \<noteq> None \<and> up_state r \<noteq> Deleted) in
          and_then (collect_results stored_derivative_from_row (derivative_rows upload_id db))
            (\<lambda>ds. Ok (Some
              \<lparr>us_upload_id = upload_id, us_state = up_state r, us_detected_content_type = up_detected r,
               us_error_code = up_error r, us_deletion_pending = pending,
               us_derivatives = (if pending \<or> up_state r = Deleted then [] else ds)\<rparr>)))"

definition is_delivery_allowed :: "string \<Rightarrow> uuid \<Rightarrow> Database
    \<Rightarrow> (UploadRepositoryError, bool option) result" where
  "is_delivery_allowed tenant_id upload_id db =
     Ok (map_option (\<lambda>r. up_state r = Ready \<and> up_delete_requested r = None)
           (find_upload_row tenant_id upload_id db))"

text \<open>The trait's default implementation, through \<open>find_status\<close>.\<close>

definition default_is_delivery_allowed :: "string \<Rightarrow> uuid \<Rightarrow> Database
    \<Rightarrow> (UploadRepositoryError, bool option) result" where
  "default_is_delivery_allowed tenant_id upload_id db =
     and_then (find_status tenant_id upload_id db)
       (\<lambda>st. Ok (map_option (\<lambda>s. us_state s = Ready \<and> \<not> us_deletion_pending s) st))"

section \<open>State changes\<close>

definition owned_in_state :: "string \<Rightarrow> uuid \<Rightarrow> UploadState \<Rightarrow> UploadRow \<Rightarrow> bool" where
  "owned_in_state tenant_id upload_id s r \<longleftrightarrow> up_tenant r = tenant_id \<and> up_id r = upload_id \<and> up_state r = s"

definition latest_revision :: "string \<Rightarrow> Database \<Rightarrow> nat option" where
  "latest_revision tenant_id db =
     (case map pol_revision (filter (\<lambda>p. pol_tenant p = tenant_id) (site_policies db)) of
        [] \<Rightarrow> None | v # vs \<Rightarrow> Some (fold max vs v))"

text \<open>The two \<open>UPDATE\<close> statements of a confirmation.\<close>

definition set_uploaded :: "string \<Rightarrow> uuid \<Rightarrow> nat \<Rightarrow> int \<Rightarrow> Database \<Rightarrow> Database" where
  "set_uploaded tenant_id upload_id actual ts =
     update_uploads (owned_in_state tenant_id upload_id Created)
       (\<lambda>r. r\<lparr>up_state := Uploaded, up_actual := Some actual, up_updated := ts\<rparr>)"

definition set_quarantined :: "string \<Rightarrow> uuid \<Rightarrow> int \<Rightarrow> Database \<Rightarrow> Database" where
  "set_quarantined tenant_id upload_id ts =
     update_uploads (owned_in_state tenant_id upload_id Uploaded)
       (\<lambda>r. r\<lparr>up_state := Quarantined, up_updated := ts\<rparr>)"

definition mark_quarantined_and_enqueue :: "uuid \<Rightarrow> string \<Rightarrow> uuid \<Rightarrow> u64 \<Rightarrow> string \<Rightarrow> instant \<Rightarrow> Database
    \<Rightarrow> (UploadRepositoryError, unit) result \<times> Database" where
  "mark_quarantined_and_enqueue fresh tenant_id upload_id actual_size preset_id now db =
     (let ts = unix_timestamp now;
          db1 = set_uploaded tenant_id upload_id (unat actual_size) ts db;
          db2 = set_quarantined tenant_id upload_id ts db1 in
      if preset_id = [] \<or> length preset_id > 128
      then (Err (RepositoryBackend ''initial processing preset is invalid''), db)
      else if unat actual_size > i64_max
      then (Err (RepositoryBackend ''actual upload size exceeds SQLite range''), db)
      else if length (filter (owned_in_state tenant_id upload_id Created) (uploads db)) \<noteq> 1
      then (Err (RepositoryBackend ''upload is not in the created state''), db)
      else if length (filter (owned_in_state tenant_id upload_id Uploaded) (uploads db1)) \<noteq> 1
      then (Err (RepositoryBackend ''upload could not enter quarantine''), db)
      else if fresh \<in> job_id ` set (jobs db2) \<or>
              (upload_id, preset_id) \<in> (\<lambda>j. (job_upload j, job_preset j)) ` set (jobs db2)
      then (Err (RepositoryBackend ''SQLite backend: UNIQUE constraint failed''), db)
      else (Ok (), insert_job (new_job fresh upload_id preset_id (latest_revision tenant_id db2) ts) db2))"

definition mark_deleted :: "string \<Rightarrow> uuid \<Rightarrow> instant \<Rightarrow> Database
    \<Rightarrow> (UploadRepositoryError, unit) result \<times> Database" where
  "mark_deleted tenant_id upload_id now db =
     (let ts = unix_timestamp now;
          db1 = update_uploads (owned_in_state tenant_id upload_id Created)
            (\<lambda>r. r\<lparr>up_state := Deleted, up_deleted_at := Some ts, up_updated := ts\<rparr>) db in
      if length (filter (owned_in_state tenant_id upload_id Created) (uploads db)) = 1 then (Ok (), db1)
      else if map_option up_state (find_upload_row tenant_id upload_id db1) = Some Deleted
      then (Ok (), db1)
      else (Err (RepositoryBackend ''upload is not abortable from its current state''), db1))"

section \<open>Well-formedness is kept\<close>

definition reservation_ok :: "UploadReservation \<Rightarrow> bool" where
  "reservation_ok u \<longleftrightarrow> valid_object_key (ur_object_key u) \<and> 0 < ur_expected_size u"

lemma reservation_row_simps [simp]:
  "up_id (reservation_row b u) = ur_upload_id u"
  "up_tenant (reservation_row b u) = ubr_tenant_id b"
  "up_key (reservation_row b u) = ur_object_key u"
  "up_state (reservation_row b u) = Created"
  "up_expected (reservation_row b u) = unat (ur_expected_size u)"
  "up_batch (reservation_row b u) = Some (ubr_batch_id b)"
  by (simp_all add: reservation_row_def Let_def)

lemma save_uploads_ok:
  assumes "db_ok db" "ubr_batch_id batch \<in> batch_id ` set (upload_batches db)"
    and "list_all reservation_ok us" "save_uploads batch us db = Ok db'"
  shows "db_ok db' \<and> uploads db' = uploads db @ map (reservation_row batch) us \<and>
    rows_of (db'\<lparr>uploads := []\<rparr>) = rows_of (db\<lparr>uploads := []\<rparr>)"
  using assms
proof (induction us arbitrary: db)
  case (Cons u us)
  let ?r = "reservation_row batch u"
  have step: "save_uploads batch us (insert_upload ?r db) = Ok db'"
    "upload_constraints ?r db" "unat (ur_expected_size u) \<le> i64_max"
    "case ur_transfer u of SinglePut \<Rightarrow> True | Multipart p \<Rightarrow> unat p \<le> i64_max \<and> ur_session u \<noteq> None"
    using Cons.prems(4) by (auto split: if_splits UploadTransfer.splits)
  have "upload_row_ok ?r"
    using Cons.prems(3) step(2-4)
    by (auto simp: upload_row_ok_def reservation_ok_def upload_constraints_def word_less_nat_alt
        reservation_row_def Let_def split: UploadTransfer.splits)
  then have "db_ok (insert_upload ?r db)"
    using Cons.prems step(2) by (intro db_ok_insert_upload) (auto simp: upload_constraints_def)
  moreover have "rows_of (insert_upload ?r db\<lparr>uploads := []\<rparr>) = rows_of (db\<lparr>uploads := []\<rparr>)"
    using rows_of_statements(1)[of ?r db] by (cases db) (simp add: rows_of_def)
  ultimately show ?case
    using Cons.IH[of "insert_upload ?r db"] Cons.prems(2,3) step(1) by simp
qed simp

lemma batch_total_Some:
  "batch_total acc us = Some t \<Longrightarrow> unat t = unat acc + sum_list (map (\<lambda>u. unat (ur_expected_size u)) us)"
  by (induction us arbitrary: acc) (auto simp: checked_add_Some split: option.splits)

lemma reserved_tenant_eq: "counters_ok db \<Longrightarrow> reserved_tenant t db = tenant_bytes t (uploads db)"
  using usage_okD(1)[of "uploads db" "tenant_reserved db" t]
  by (simp add: counters_ok_def counters_agree_def reserved_tenant_def)

lemma global_reserved_eq: "counters_ok db \<Longrightarrow> global_reserved db = sum_list (map live_bytes (uploads db))"
  by (simp add: counters_ok_def counters_agree_def)

lemma reservation_rows_bytes:
  "sum_list (map live_bytes (map (reservation_row b) us)) = int (sum_list (map (\<lambda>u. unat (ur_expected_size u)) us))"
  "tenant_bytes t (map (reservation_row b) us) =
     (if ubr_tenant_id b = t then int (sum_list (map (\<lambda>u. unat (ur_expected_size u)) us)) else 0)"
  by (induction us) (auto simp: live_bytes_def live_def)

lemma reservation_rows_active:
  "length (filter (\<lambda>r. active_state (up_state r)) (map (reservation_row b) us)) = length us"
  "length (filter (\<lambda>r. up_tenant r = t \<and> active_state (up_state r)) (map (reservation_row b) us)) =
     (if ubr_tenant_id b = t then length us else 0)"
  by (induction us) (auto simp: active_state_def)

lemma save_batch_Ok:
  assumes "save_batch batch c db = (Ok (), db')"
  obtains total_size where "batch_total 0 (ubr_uploads batch) = Some total_size"
    "capacity_in (ubr_tenant_id batch) (length (ubr_uploads batch)) total_size c db = Ok True"
    "ubr_batch_id batch \<notin> batch_id ` set (upload_batches db)"
    "save_uploads batch (ubr_uploads batch)
       (db\<lparr>upload_batches := upload_batches db @ [batch_row batch total_size]\<rparr>) = Ok db'"
  using assms by (auto simp: save_batch_def split: if_splits option.splits sum.splits bool.splits)

lemma save_batch_rollback: "fst (save_batch batch c db) \<noteq> Ok () \<Longrightarrow> snd (save_batch batch c db) = db"
  by (auto simp: save_batch_def split: option.splits sum.splits bool.splits)

lemma save_batch_effect:
  assumes "db_ok db" "list_all reservation_ok (ubr_uploads batch)" "save_batch batch c db = (Ok (), db')"
  shows "db_ok db'" "uploads db' = uploads db @ map (reservation_row batch) (ubr_uploads batch)"
    "jobs db' = jobs db"
proof -
  obtain total_size where t: "ubr_batch_id batch \<notin> batch_id ` set (upload_batches db)"
    "save_uploads batch (ubr_uploads batch)
       (db\<lparr>upload_batches := upload_batches db @ [batch_row batch total_size]\<rparr>) = Ok db'"
    using save_batch_Ok[OF assms(3)] by metis
  have "foreign_keys_ok (db\<lparr>upload_batches := upload_batches db @ [batch_row batch total_size]\<rparr>)"
    using db_ok_parts(2)[OF assms(1)] by (auto simp: foreign_keys_ok_def)
  then have "db_ok (db\<lparr>upload_batches := upload_batches db @ [batch_row batch total_size]\<rparr>)"
    using assms(1) t(1) by (simp add: db_ok_def unique_keys_ok_def queue_ok_def batch_row_def)
  note saved = save_uploads_ok[OF this _ assms(2) t(2)]
  have member: "ubr_batch_id batch \<in> batch_id `
      set (upload_batches (db\<lparr>upload_batches := upload_batches db @ [batch_row batch total_size]\<rparr>))"
    by (simp add: batch_row_def)
  show "db_ok db'" "uploads db' = uploads db @ map (reservation_row batch) (ubr_uploads batch)"
    using saved[OF member] by simp_all
  show "jobs db' = jobs db"
    using saved[OF member] rows_of_fields(2)[of "db'\<lparr>uploads := []\<rparr>"] by simp
qed

lemma save_batch_capacity:
  assumes "db_ok db" "list_all reservation_ok (ubr_uploads batch)"
  shows "case save_batch batch c db of
      (Inl _, db') \<Rightarrow> db' = db
    | (Inr _, db') \<Rightarrow>
        uploads db' = uploads db @ map (reservation_row batch) (ubr_uploads batch) \<and>
        active_global db' \<le> max_active_global c \<and>
        active_tenant (ubr_tenant_id batch) db' \<le> max_active_per_tenant c \<and>
        sum_list (map live_bytes (uploads db')) \<le> int (unat (max_reserved_bytes_global c)) \<and>
        tenant_bytes (ubr_tenant_id batch) (uploads db') \<le> int (unat (max_reserved_bytes_per_tenant c))"
proof (cases "fst (save_batch batch c db)")
  case (Inl e)
  then show ?thesis using save_batch_rollback[of batch c db] by (cases "save_batch batch c db") auto
next
  case (Inr u)
  then obtain db' where save: "save_batch batch c db = (Ok (), db')"
    by (cases "save_batch batch c db") auto
  obtain total_size where t: "batch_total 0 (ubr_uploads batch) = Some total_size"
    "capacity_in (ubr_tenant_id batch) (length (ubr_uploads batch)) total_size c db = Ok True"
    using save_batch_Ok[OF save] by metis
  note eff = save_batch_effect[OF assms save]
  have counters: "counters_ok db" using assms(1) by (simp add: db_ok_def)
  have size: "unat total_size = sum_list (map (\<lambda>u. unat (ur_expected_size u)) (ubr_uploads batch))"
    using batch_total_Some[OF t(1)] by simp
  have nonneg: "0 \<le> global_reserved db" "0 \<le> reserved_tenant (ubr_tenant_id batch) db"
    by (simp_all add: global_reserved_eq[OF counters] reserved_tenant_eq[OF counters] sum_list_live_nonneg)
  have caps: "active_global db + length (ubr_uploads batch) \<le> max_active_global c"
    "active_tenant (ubr_tenant_id batch) db + length (ubr_uploads batch) \<le> max_active_per_tenant c"
    "nat (global_reserved db) + unat total_size \<le> unat (max_reserved_bytes_global c)"
    "nat (reserved_tenant (ubr_tenant_id batch) db) + unat total_size \<le> unat (max_reserved_bytes_per_tenant c)"
    using t(2) by (auto simp: capacity_in_def capacity_allows_def fits_def split: if_splits)
  have active: "active_global db' = active_global db + length (ubr_uploads batch)"
    "active_tenant (ubr_tenant_id batch) db' =
       active_tenant (ubr_tenant_id batch) db + length (ubr_uploads batch)"
    by (simp_all only: eff(2) active_global_def active_tenant_def filter_append length_append
        reservation_rows_active if_True refl)
  have bytes: "sum_list (map live_bytes (uploads db')) = global_reserved db + int (unat total_size)"
    "tenant_bytes (ubr_tenant_id batch) (uploads db') =
       reserved_tenant (ubr_tenant_id batch) db + int (unat total_size)"
    by (simp_all only: eff(2) map_append sum_list.append tenant_bytes_simps reservation_rows_bytes size
        global_reserved_eq[OF counters] reserved_tenant_eq[OF counters] if_True refl)
  show ?thesis
    unfolding save prod.case sum.case active bytes
    using eff(2) caps(1,2) int_within[OF nonneg(1) caps(3)] int_within[OF nonneg(2) caps(4)]
    by (intro conjI)
qed


definition sample_batch :: UploadBatchReservation where
  "sample_batch = \<lparr>ubr_batch_id = 7, ubr_tenant_id = ''a'', ubr_created_at = 5000000000,
     ubr_uploads = [\<lparr>ur_upload_id = 1, ur_object_key = ''raw/a/1/source'', ur_declared_kind = Image,
       ur_expected_size = 1000, ur_content_type_hint = ''image/jpeg'', ur_transfer = SinglePut,
       ur_session = None\<rparr>]\<rparr>"

lemma sample_batch_ok: "list_all reservation_ok (ubr_uploads sample_batch)"
  by (simp add: sample_batch_def reservation_ok_def key_bytes)

lemma sample_batch_saved: "fst (save_batch sample_batch default_capacity empty_database) = Ok ()"
  by (simp add: save_batch_def sample_batch_def checked_add_def i64_max_def capacity_in_def
      capacity_allows_def capacity_is_valid_def default_capacity_def fits_def active_global_def
      active_tenant_def reserved_tenant_def empty_database_def upload_constraints_def tenant_column_ok_def
      reservation_row_def batch_row_def Let_def)


lemma db_ok_one_row:
  assumes "db_ok db" "length (filter (owned_in_state t i s) (uploads db)) = 1"
  shows "i \<in> up_id ` set (uploads db)"
proof -
  have "filter (owned_in_state t i s) (uploads db) \<noteq> []" using assms(2) by auto
  then show ?thesis by (auto simp: filter_empty_conv owned_in_state_def)
qed

lemma set_uploaded_ok: "db_ok db \<Longrightarrow> db_ok (set_uploaded t i n ts db)"
  unfolding set_uploaded_def
  by (rule db_ok_update_uploads) (simp_all add: upload_row_ok_def owned_in_state_def)

lemma set_quarantined_ok: "db_ok db \<Longrightarrow> db_ok (set_quarantined t i ts db)"
  unfolding set_quarantined_def
  by (rule db_ok_update_uploads) (simp_all add: upload_row_ok_def owned_in_state_def)

lemma set_state_rows [simp]:
  "jobs (set_uploaded t i n ts db) = jobs db" "jobs (set_quarantined t i ts db) = jobs db"
  "site_policies (set_uploaded t i n ts db) = site_policies db"
  "site_policies (set_quarantined t i ts db) = site_policies db"
  "up_id ` set (uploads (set_quarantined t i ts db)) = up_id ` set (uploads db)"
  "up_id ` set (uploads (set_uploaded t i n ts db)) = up_id ` set (uploads db)"
  by (simp_all add: set_uploaded_def set_quarantined_def image_update_rows)

lemma mark_quarantined_ok:
  assumes "db_ok db"
  shows "db_ok (snd (mark_quarantined_and_enqueue fresh t i n preset now db))"
proof -
  note ok = set_quarantined_ok[OF set_uploaded_ok[OF assms]]
  have "job_row_ok (new_job fresh i preset r ts)" if "preset \<noteq> []" "length preset \<le> 128" for r ts
    using that by (simp add: new_job_row_ok Suc_le_eq)
  then show ?thesis
    using assms ok db_ok_one_row[OF assms]
    by (auto simp: mark_quarantined_and_enqueue_def Let_def not_less new_job_def
        intro!: db_ok_insert_job)
qed

lemma mark_deleted_ok: "db_ok db \<Longrightarrow> db_ok (snd (mark_deleted t i now db))"
  by (simp add: mark_deleted_def Let_def)
    (auto intro!: db_ok_update_uploads simp: upload_row_ok_def owned_in_state_def)

section \<open>Writes follow the lifecycle\<close>

lemma created_to_quarantined: "can_transition_to\<^sup>*\<^sup>* Created Quarantined"
  by (rule converse_rtranclp_into_rtranclp[of _ _ Uploaded]) (auto intro: r_into_rtranclp)

lemma mark_quarantined_lifecycle:
  assumes "db_ok db"
  shows "follows_lifecycle db (snd (mark_quarantined_and_enqueue fresh t i n preset now db))"
proof -
  let ?g = "\<lambda>r. if owned_in_state t i Uploaded r then r\<lparr>up_state := Quarantined, up_updated := unix_timestamp now\<rparr> else r"
  let ?f = "\<lambda>r. if owned_in_state t i Created r
    then r\<lparr>up_state := Uploaded, up_actual := Some (unat n), up_updated := unix_timestamp now\<rparr> else r"
  have rows: "uploads (set_quarantined t i (unix_timestamp now) (set_uploaded t i (unat n) (unix_timestamp now) db))
      = map (\<lambda>r. ?g (?f r)) (uploads db) @ []"
    by (simp add: set_uploaded_def set_quarantined_def update_rows_def)
  have "follows_lifecycle db (set_quarantined t i (unix_timestamp now)
      (set_uploaded t i (unat n) (unix_timestamp now) db))"
    using created_to_quarantined
    by (intro follows_lifecycle_map[OF _ rows])
      (use assms in \<open>auto simp: db_ok_def unique_keys_ok_def owned_in_state_def intro: r_into_rtranclp\<close>)
  then show ?thesis
    using follows_lifecycle_same[OF assms refl]
    by (simp add: mark_quarantined_and_enqueue_def Let_def follows_lifecycle_def)
qed

lemma mark_deleted_lifecycle:
  assumes "db_ok db"
  shows "follows_lifecycle db (snd (mark_deleted t i now db))"
proof -
  have "uploads (snd (mark_deleted t i now db)) = update_rows (owned_in_state t i Created)
      (\<lambda>r. r\<lparr>up_state := Deleted, up_deleted_at := Some (unix_timestamp now), up_updated := unix_timestamp now\<rparr>)
      (uploads db)"
    by (simp add: mark_deleted_def Let_def)
  then show ?thesis
    by (rule follows_lifecycle_update[OF assms]) (auto simp: owned_in_state_def)
qed

lemma save_batch_lifecycle:
  assumes "db_ok db" "list_all reservation_ok (ubr_uploads batch)"
  shows "follows_lifecycle db (snd (save_batch batch c db))" "db_ok (snd (save_batch batch c db))"
proof -
  have "follows_lifecycle db (snd (save_batch batch c db)) \<and> db_ok (snd (save_batch batch c db))"
  proof (cases "fst (save_batch batch c db) = Ok ()")
    case True
    then have "save_batch batch c db = (Ok (), snd (save_batch batch c db))" by (metis prod.collapse)
    from save_batch_effect[OF assms this] show ?thesis
      using follows_lifecycle_append[OF assms(1)] by auto
  next
    case False
    then show ?thesis using save_batch_rollback[OF False] follows_lifecycle_same[OF assms(1)] assms(1) by simp
  qed
  then show "follows_lifecycle db (snd (save_batch batch c db))" "db_ok (snd (save_batch batch c db))"
    by simp_all
qed

section \<open>What is read back\<close>

lemma find_upload_row_unique:
  assumes "db_ok db" "r \<in> set (uploads db)"
  shows "find_upload_row (up_tenant r) (up_id r) db = Some r"
proof -
  have "distinct (map up_id (uploads db))" using assms(1) by (simp add: db_ok_def unique_keys_ok_def)
  then show ?thesis
    unfolding find_upload_row_def by (rule find_unique_key[OF _ assms(2)]) simp_all
qed

lemma find_upload_row_Some:
  "find_upload_row t i db = Some r \<Longrightarrow> r \<in> set (uploads db) \<and> up_tenant r = t \<and> up_id r = i"
  by (auto simp: find_upload_row_def find_Some_iff)

lemma find_upload_lookup:
  assumes "db_ok db" "find_upload_row t i db = Some r"
  shows "lookup_row up_id i (uploads db) = Some r"
  using find_upload_row_Some[OF assms(2)] lookup_row_unique[of up_id "uploads db" r] db_ok_unique_upload[OF assms(1)]
  by auto

definition stored_of :: "UploadReservation \<Rightarrow> StoredUploadReservation" where
  "stored_of u = \<lparr>sur_upload_id = ur_upload_id u, sur_object_key = ur_object_key u,
     sur_expected_size = ur_expected_size u, sur_state = Created, sur_transfer = ur_transfer u,
     sur_session = (case ur_transfer u of SinglePut \<Rightarrow> None | Multipart _ \<Rightarrow> ur_session u)\<rparr>"

lemma ObjectKey_new_valid: "valid_object_key k \<Longrightarrow> ObjectKey_new k = Ok k"
  by (simp add: ObjectKey_new_def valid_object_key_def)

text \<open>
  What is saved is what is found: after a batch is saved, \<open>find_upload\<close> returns every one of its
  reservations, in state \<open>created\<close>, with its key, length, transfer plan and provider session.
\<close>

theorem save_then_find:
  assumes "db_ok db" "list_all reservation_ok (ubr_uploads batch)"
    and "save_batch batch c db = (Ok (), db')" "u \<in> set (ubr_uploads batch)"
  shows "find_upload (ubr_tenant_id batch) (ur_upload_id u) db' = Ok (Some (stored_of u))"
proof -
  note eff = save_batch_effect[OF assms(1-3)]
  let ?r = "reservation_row batch u"
  have mem: "?r \<in> set (uploads db')" using eff(2) assms(4) by simp
  then have found: "find_upload_row (ubr_tenant_id batch) (ur_upload_id u) db' = Some ?r"
    using find_upload_row_unique[OF eff(1) mem] by simp
  have "upload_row_ok ?r" using eff(1) mem by (simp add: db_ok_def list_all_iff)
  then have "valid_object_key (ur_object_key u)" "up_multipart ?r \<longrightarrow> up_session ?r \<noteq> None"
    by (simp_all add: upload_row_ok_def)
  then have "stored_upload_from_row ?r = Ok (stored_of u)"
    by (cases "ur_transfer u")
      (auto simp: stored_upload_from_row_def ObjectKey_new_valid reservation_row_def Let_def stored_of_def)
  then show ?thesis by (simp add: find_upload_def found)
qed

theorem save_then_find_witness:
  "find_upload ''a'' 1 (snd (save_batch sample_batch default_capacity empty_database))
     = Ok (Some (stored_of (hd (ubr_uploads sample_batch))))"
proof -
  have eq: "save_batch sample_batch default_capacity empty_database
      = (Ok (), snd (save_batch sample_batch default_capacity empty_database))"
    using sample_batch_saved by (metis prod.collapse)
  have "hd (ubr_uploads sample_batch) \<in> set (ubr_uploads sample_batch)"
    by (simp add: sample_batch_def)
  from save_then_find[OF db_ok_empty sample_batch_ok eq this] show ?thesis by (simp add: sample_batch_def)
qed

lemma stored_derivatives:
  assumes "list_all derivative_row_ok ds"
  shows "\<exists>sds. collect_results stored_derivative_from_row ds = Ok sds"
  using assms
  by (induction ds) (auto simp: stored_derivative_from_row_def derivative_row_ok_def ObjectKey_new_valid)

text \<open>
  The store's dedicated \<open>is_delivery_allowed\<close> query answers what the port's default
  implementation computes from the full status: delivery is allowed exactly for a ready upload of
  the tenant with no deletion pending.
\<close>

theorem delivery_query_refines_default:
  assumes "db_ok db"
  shows "is_delivery_allowed t i db = default_is_delivery_allowed t i db"
proof (cases "find_upload_row t i db")
  case None
  then show ?thesis by (simp add: is_delivery_allowed_def default_is_delivery_allowed_def find_status_def)
next
  case (Some r)
  have "list_all derivative_row_ok (derivative_rows i db)"
    using db_ok_parts(8)[OF assms] by (auto simp: list_all_iff derivative_rows_def)
  then obtain sds where "collect_results stored_derivative_from_row (derivative_rows i db) = Ok sds"
    using stored_derivatives by blast
  then show ?thesis
    using Some
    by (auto simp: is_delivery_allowed_def default_is_delivery_allowed_def find_status_def Let_def)
qed

theorem delivery_query_refines_default_witness:
  "default_is_delivery_allowed ''a'' 1 (sample_uploads_db Ready) = Ok (Some True)"
  unfolding delivery_query_refines_default[OF sample_uploads_db_ok, symmetric]
  by (simp add: is_delivery_allowed_def find_upload_row_def sample_upload_def)

lemma mark_quarantined_atomic:
  assumes "db_ok db"
  shows "case mark_quarantined_and_enqueue fresh t i n preset now db of
      (Inl _, db') \<Rightarrow> db' = db
    | (Inr _, db') \<Rightarrow>
        (\<exists>r. find_upload_row t i db = Some r \<and> up_state r = Created \<and>
           find_upload_row t i db' = Some (r\<lparr>up_state := Quarantined, up_actual := Some (unat n),
             up_updated := unix_timestamp now\<rparr>)) \<and>
        jobs db' = jobs db @ [new_job fresh i preset (latest_revision t db) (unix_timestamp now)] \<and>
        fst (mark_quarantined_and_enqueue fresh' t i n' preset' later db') \<noteq> Ok ()"
proof -
  let ?ts = "unix_timestamp now"
  let ?f = "\<lambda>r. r\<lparr>up_state := Quarantined, up_actual := Some (unat n), up_updated := ?ts\<rparr>"
  let ?db2 = "set_quarantined t i ?ts (set_uploaded t i (unat n) ?ts db)"
  show ?thesis
  proof (cases "fst (mark_quarantined_and_enqueue fresh t i n preset now db)")
    case (Inl e)
    then have "snd (mark_quarantined_and_enqueue fresh t i n preset now db) = db"
      by (auto simp: mark_quarantined_and_enqueue_def Let_def split: if_splits)
    then show ?thesis using Inl by (auto simp: split_beta)
  next
    case (Inr u)
    then have eq: "mark_quarantined_and_enqueue fresh t i n preset now db =
        (Ok (), insert_job (new_job fresh i preset (latest_revision t db) ?ts) ?db2)"
      and one: "length (filter (owned_in_state t i Created) (uploads db)) = 1"
      by (auto simp: mark_quarantined_and_enqueue_def Let_def latest_revision_def split: if_splits)
    obtain r where r: "r \<in> set (uploads db)" "owned_in_state t i Created r"
      using one filter_empty_conv[of "owned_in_state t i Created" "uploads db"] by fastforce
    have found: "find_upload_row t i db = Some r"
      using find_upload_row_unique[OF assms r(1)] r(2) by (simp add: owned_in_state_def)
    have "up_id x = i \<Longrightarrow> x = r" if "x \<in> set (uploads db)" for x
      using that found find_upload_row_unique[OF assms that] db_ok_unique_upload[OF assms that]
        db_ok_unique_upload[OF assms r(1)] r(2) by (simp add: owned_in_state_def)
    then have rows: "uploads ?db2 = map (\<lambda>x. if up_id x = i then ?f r else x) (uploads db)"
      using r by (auto simp: set_quarantined_def set_uploaded_def update_rows_def owned_in_state_def)
    have "up_id r = i" using r(2) by (simp add: owned_in_state_def)
    then have "?f r \<in> set (uploads ?db2)" 
      unfolding rows set_map by (intro image_eqI[of _ _ r]) (simp_all add: r(1))
    from find_upload_row_unique[OF set_quarantined_ok[OF set_uploaded_ok[OF assms]] this]
    have "find_upload_row t i ?db2 = Some (?f r)"
      using r(2) by (simp add: owned_in_state_def)
    moreover have "filter (owned_in_state t i Created) (uploads ?db2) = []"
      by (auto simp: rows filter_empty_conv owned_in_state_def)
    ultimately show ?thesis
      using found r(2)
      by (auto simp: eq find_upload_row_def owned_in_state_def)
        (auto simp: mark_quarantined_and_enqueue_def Let_def split: if_splits)
  qed
qed

lemma mark_quarantined_error:
  "fst (mark_quarantined_and_enqueue fresh t i n preset now db) \<noteq> Ok () \<Longrightarrow>
   snd (mark_quarantined_and_enqueue fresh t i n preset now db) = db"
  by (auto simp: mark_quarantined_and_enqueue_def Let_def split: if_splits)

lemma mark_quarantined_success:
  assumes "db_ok db" "mark_quarantined_and_enqueue fresh t i n preset now db = (Ok (), db')"
  shows "\<exists>r. find_upload_row t i db = Some r \<and> up_state r = Created \<and>
      find_upload_row t i db' = Some (r\<lparr>up_state := Quarantined, up_actual := Some (unat n),
             up_updated := unix_timestamp now\<rparr>)"
    "jobs db' = jobs db @ [new_job fresh i preset (latest_revision t db) (unix_timestamp now)]"
  using mark_quarantined_atomic[OF assms(1), where fresh = fresh and t = t and i = i and n = n and
      preset = preset and now = now and fresh' = fresh and n' = n and preset' = preset and later = now]
    assms(2) by auto



end
