(* ===== verification/Uploads.thy ===== *)
theory Uploads
  imports Ports Upload_Repository
begin

text \<open>
  The upload service of \<open>crates/g7mb-application/src/uploads.rs\<close> over any object store and the
  SQLite repository.  An operation maps the provider's state and the database to its result and
  their new states.  The identifiers \<open>UploadId::new\<close> and \<open>UploadBatchId::new\<close> make, the text the
  \<open>uuid\<close> crate prints for one (\<open>show_uuid\<close>) and the clock are arguments.
\<close>

section \<open>Multipart layouts\<close>

definition presign_ttl :: duration where
  "presign_ttl = seconds (10 * 60)"

definition initial_processing_preset :: string where
  "initial_processing_preset = ''source-validation-v1''"

definition expected_part_length :: "u64 \<Rightarrow> u64 \<Rightarrow> u16 \<Rightarrow> u64 option" where
  "expected_part_length total_size part_size part_number =
     (if total_size = 0 \<or> part_size = 0 \<or> part_number = 0 \<or> part_number > 10000 then None
      else (case checked_mul (ucast (part_number - 1)) part_size of
          None \<Rightarrow> None
        | Some start \<Rightarrow> if start \<ge> total_size then None else Some (min (total_size - start) part_size)))"

definition etag_ok :: "string \<Rightarrow> bool" where
  "etag_ok e \<longleftrightarrow> e \<noteq> [] \<and> length e \<le> 1024 \<and> list_all is_ascii_graphic e"

text \<open>The closure of \<open>parts.iter().enumerate().any\<close>, with \<open>u16::try_from(index + 1)\<close>.\<close>

definition part_misplaced :: "nat \<Rightarrow> CompletedPart \<Rightarrow> bool" where
  "part_misplaced index part \<longleftrightarrow>
     \<not> (index + 1 < 2 ^ 16 \<and> cp_part_number part = of_nat (index + 1)) \<or> \<not> etag_ok (cp_etag part)"

datatype MultipartControlError =
    InvalidTenant | NotFound | InvalidState | InvalidPart | InvalidCompletion | StoredSizeMismatch
  | MObjectStore ObjectStoreError | MRepository UploadRepositoryError

definition validate_completion :: "u64 \<Rightarrow> u64 \<Rightarrow> CompletedPart list
    \<Rightarrow> (MultipartControlError, unit) result" where
  "validate_completion total_size part_size parts =
     (if total_size = 0 \<or> part_size = 0 then Err InvalidCompletion
      else (let expected_count = div_ceil total_size part_size in
        if expected_count > 10000 \<or> length parts \<noteq> unat expected_count \<or>
           list_ex (\<lambda>(index, part). part_misplaced index part) (enumerate 0 parts)
        then Err InvalidCompletion else Ok ()))"

lemma unat_part_number: "n \<le> 10000 \<Longrightarrow> unat (of_nat n :: u16) = n"
  by (simp add: unat_of_nat take_bit_nat_eq_self_iff)

lemma expected_part_length_nat:
  assumes "n \<le> 10000"
  shows "map_option unat (expected_part_length t p (of_nat n)) =
    (if 0 < unat p \<and> 0 < n \<and> (n - 1) * unat p < unat t
     then Some (min (unat t - (n - 1) * unat p) (unat p)) else None)"
proof (cases "t = 0 \<or> p = 0 \<or> n = 0")
  case True
  then show ?thesis by (auto simp: expected_part_length_def)
next
  case False
  have n16: "unat (of_nat n :: u16) = n" by (rule unat_part_number[OF assms])
  have nz: "(of_nat n :: u16) \<noteq> 0" using False n16 by (metis unat_0)
  have le: "\<not> (10000 :: u16) < of_nat n" using assms n16 by (simp add: word_less_nat_alt)
  have "unat (of_nat n - 1 :: u16) = n - 1"
    using nz n16 by (simp add: unat_minus_one)
  then have pred: "unat (ucast (of_nat n - 1 :: u16) :: u64) = n - 1"
    using assms by (simp add: unsigned_ucast_eq take_bit_nat_eq_self_iff)
  have pos: "0 < unat p" "0 < n" using False by (simp_all add: unat_gt_0)
  show ?thesis
  proof (cases "checked_mul (ucast (of_nat n - 1 :: u16)) p")
    case None
    then have "2 ^ 64 \<le> (n - 1) * unat p" by (simp add: checked_mul_None pred)
    then show ?thesis
      using None False nz le unat_u64_less[of t] by (simp add: expected_part_length_def)
  next
    case (Some start)
    then have start: "unat start = (n - 1) * unat p" by (simp add: checked_mul_Some pred)
    have "unat (t - start) = unat t - unat start" if "unat start < unat t"
      using that by (simp add: unat_sub word_le_nat_alt)
    then show ?thesis
      using Some False nz le start pos
      by (auto simp: expected_part_length_def word_le_nat_alt min_def not_le)
  qed
qed

lemma sum_parts:
  "sum_list (map (\<lambda>i. min (t - i * p) p) [0..<k]) = min t (k * (p::nat))"
proof (induction k)
  case (Suc k)
  then show ?case by (auto simp: min_def)
qed simp

lemma ceil_bounds:
  assumes "0 < (p::nat)" "0 < t"
  shows "i < (t + p - 1) div p \<longleftrightarrow> i * p < t"
proof -
  have "i < (t + p - 1) div p \<longleftrightarrow> (i + 1) * p \<le> t + p - 1"
    using assms(1) by (simp add: Suc_le_eq[symmetric] less_eq_div_iff_mult_less_eq)
  also have "\<dots> \<longleftrightarrow> i * p < t" using assms by (simp add: algebra_simps) linarith
  finally show ?thesis .
qed

text \<open>
  The multipart layout tiles the file: for a reservation of at most 10,000 parts, exactly the
  part numbers from 1 to the rounded-up quotient have a length, every one is positive and at
  most the part size, all but the last are full, and together they are the reserved length.
\<close>

theorem part_lengths_tile_the_file:
  assumes "total_size \<noteq> 0" "part_size \<noteq> 0" "unat (div_ceil total_size part_size) \<le> 10000"
  defines "count \<equiv> unat (div_ceil total_size part_size)"
    and "len \<equiv> (\<lambda>n. map_option unat (expected_part_length total_size part_size (of_nat n)))"
  shows "(\<forall>n\<le>10000. len n \<noteq> None \<longleftrightarrow> 1 \<le> n \<and> n \<le> count) \<and>
    (\<forall>n. 1 \<le> n \<longrightarrow> n < count \<longrightarrow> len n = Some (unat part_size)) \<and>
    (\<forall>n l. n \<le> count \<longrightarrow> len n = Some l \<longrightarrow> 0 < l \<and> l \<le> unat part_size) \<and>
    sum_list (map (\<lambda>n. the (len n)) [1..<Suc count]) = unat total_size"
proof -
  let ?t = "unat total_size" and ?p = "unat part_size"
  have pos: "0 < ?t" "0 < ?p" using assms(1,2) by (simp_all add: unat_gt_0)
  have count: "count = (?t + ?p - 1) div ?p" using assms(2) by (simp add: count_def unat_div_ceil)
  have below: "i < count \<longleftrightarrow> i * ?p < ?t" for i unfolding count by (rule ceil_bounds[OF pos(2,1)])
  have len: "len n = (if 0 < n \<and> n \<le> count then Some (min (?t - (n - 1) * ?p) ?p) else None)"
    if "n \<le> 10000" for n
    using expected_part_length_nat[OF that, of total_size part_size] below[of "n - 1"] pos(2)
    by (auto simp: len_def)
  have full: "len n = Some ?p" if "1 \<le> n" "n < count" for n
  proof -
    have "n * ?p < ?t" using that(2) below by blast
    moreover have "n * ?p = (n - 1) * ?p + ?p" using that(1) by (cases n) auto
    ultimately show ?thesis using that len[of n] assms(3) by (simp add: count_def[symmetric])
  qed
  have range: "0 < l \<and> l \<le> ?p" if "n \<le> count" "len n = Some l" for n l
    using that len[of n] below[of "n - 1"] pos assms(3)
    by (auto simp: count_def[symmetric] split: if_splits)
  have "map (\<lambda>n. the (len n)) [1..<Suc count] = map (\<lambda>i. min (?t - i * ?p) ?p) [0..<count]"
  proof (rule nth_equalityI)
    fix i assume "i < length (map (\<lambda>n. the (len n)) [1..<Suc count])"
    then show "map (\<lambda>n. the (len n)) [1..<Suc count] ! i = map (\<lambda>i. min (?t - i * ?p) ?p) [0..<count] ! i"
      using len[of "Suc i"] assms(3) by (simp add: count_def[symmetric] del: upt_Suc)
  qed simp
  then have "sum_list (map (\<lambda>n. the (len n)) [1..<Suc count]) = min ?t (count * ?p)"
    by (simp only: sum_parts)
  also have "\<dots> = ?t" using below[of count] by simp
  finally show ?thesis
    using len full range by (auto split: if_splits)
qed

theorem part_lengths_tile_the_file_witness:
  "sum_list (map (\<lambda>n. the (map_option unat (expected_part_length 12000000 5242880 (of_nat n)))) [1..<4])
     = 12000000"
  using part_lengths_tile_the_file[of 12000000 5242880] by (simp add: div_ceil_def)

text \<open>
  \<open>validate_completion\<close> accepts a completion list exactly when it numbers the parts of the
  layout from 1 in order, none missing and none extra, each with a usable entity tag.
\<close>

theorem validate_completion_iff:
  "validate_completion total_size part_size parts = Ok () \<longleftrightarrow>
     total_size \<noteq> 0 \<and> part_size \<noteq> 0 \<and> unat (div_ceil total_size part_size) \<le> 10000 \<and>
     map (\<lambda>p. unat (cp_part_number p)) parts = [1..<Suc (unat (div_ceil total_size part_size))] \<and>
     list_all (\<lambda>p. etag_ok (cp_etag p)) parts"
proof -
  let ?k = "unat (div_ceil total_size part_size)"
  have "list_ex (\<lambda>(i, part). part_misplaced i part) (enumerate 0 parts) \<longleftrightarrow>
      \<not> (map (\<lambda>p. unat (cp_part_number p)) parts = [1..<Suc ?k] \<and> list_all (\<lambda>p. etag_ok (cp_etag p)) parts)"
    if len: "length parts = ?k" and le: "?k \<le> 10000"
  proof -
    have num: "cp_part_number (parts ! i) = of_nat (i + 1) \<longleftrightarrow> unat (cp_part_number (parts ! i)) = i + 1"
      if "i < ?k" for i
      using unat_part_number[of "i + 1"] that le by (auto simp: word_unat_eq_iff simp del: of_nat_add of_nat_Suc)
    have "(\<forall>i<?k. \<not> part_misplaced i (parts ! i)) \<longleftrightarrow>
        (\<forall>i<?k. unat (cp_part_number (parts ! i)) = i + 1 \<and> etag_ok (cp_etag (parts ! i)))"
      using num le by (auto simp: part_misplaced_def simp del: of_nat_add of_nat_Suc)
    moreover have "map (\<lambda>p. unat (cp_part_number p)) parts = [1..<Suc ?k] \<longleftrightarrow>
        (\<forall>i<?k. unat (cp_part_number (parts ! i)) = i + 1)"
      using len by (auto simp: list_eq_iff_nth_eq simp del: upt_Suc)
    ultimately show ?thesis
      using len by (auto simp: list_ex_length list_all_length nth_enumerate_eq)
  qed
  moreover have "length parts = ?k" if "map (\<lambda>p. unat (cp_part_number p)) parts = [1..<Suc ?k]"
    using arg_cong[OF that, of length] by (simp del: upt_Suc)
  ultimately show ?thesis
    by (auto simp: validate_completion_def Let_def word_less_nat_alt not_less simp del: upt_Suc)
qed

section \<open>Guards of the service\<close>

definition tenant_is_valid :: "string \<Rightarrow> bool" where
  "tenant_is_valid tenant_id \<longleftrightarrow>
     tenant_id \<noteq> [] \<and> length tenant_id \<le> 64 \<and> list_all token_byte tenant_id"

record UploadFileIntent =
  uf_client_ref :: string
  uf_declared_kind :: MediaKind
  uf_content_length :: u64
  uf_content_type_hint :: string

record CreateUploadBatch =
  cb_tenant_id :: string
  cb_files :: "UploadFileIntent list"

record CreatedUploadIntent =
  ci_client_ref :: string
  ci_upload_id :: uuid
  ci_transfer :: UploadTransfer
  ci_presigned_put :: "PresignedUpload option"
  ci_expires_at :: instant

record CreatedUploadBatch =
  cub_batch_id :: uuid
  cub_uploads :: "CreatedUploadIntent list"

datatype CreateUploadBatchError =
    CInvalidTenant | InvalidClientRef | InvalidContentType | Policy UploadBatchPolicyError
  | Backpressure | CObjectStore ObjectStoreError | CRepository UploadRepositoryError
  | CleanupRequired | GeneratedObjectKey

text \<open>The loop of \<open>validate_file_metadata\<close>; \<open>seen\<close> is the set of client references so far.\<close>

fun validate_files :: "string list \<Rightarrow> UploadFileIntent list \<Rightarrow> (CreateUploadBatchError, unit) result" where
  "validate_files seen [] = Ok ()"
| "validate_files seen (f # fs) =
     (if uf_client_ref f = [] \<or> length (uf_client_ref f) > 128 \<or>
         \<not> list_all token_byte (uf_client_ref f) \<or> uf_client_ref f \<in> set seen
      then Err InvalidClientRef
      else if uf_content_type_hint f = [] \<or> length (uf_content_type_hint f) > 255 \<or>
              \<not> list_all is_ascii_graphic (uf_content_type_hint f)
      then Err InvalidContentType
      else validate_files (uf_client_ref f # seen) fs)"

definition validate_file_metadata :: "UploadFileIntent list \<Rightarrow> (CreateUploadBatchError, unit) result" where
  "validate_file_metadata files = validate_files [] files"

definition upload_bytes_are_confirmed :: "UploadState \<Rightarrow> bool" where
  "upload_bytes_are_confirmed s \<longleftrightarrow> s \<in> {Uploaded, Quarantined, Processing, Ready}"

definition multipart_layout :: "StoredUploadReservation \<Rightarrow> (MultipartControlError, u64 \<times> string) result" where
  "multipart_layout stored =
     (case sur_transfer stored of
        SinglePut \<Rightarrow> Err InvalidState
      | Multipart part_size \<Rightarrow>
          (case sur_session stored of None \<Rightarrow> Err InvalidState | Some sid \<Rightarrow> Ok (part_size, sid)))"

section \<open>Creating a batch\<close>

text \<open>\<open>cleanup\<close> tries to abort every provider session of the reservations and tells whether all went.\<close>

fun cleanup :: "'o ObjectStore \<Rightarrow> UploadReservation list \<Rightarrow> 'o \<Rightarrow> bool \<times> 'o" where
  "cleanup os [] o' = (True, o')"
| "cleanup os (r # rs) o' =
     (case ur_session r of
        None \<Rightarrow> cleanup os rs o'
      | Some sid \<Rightarrow>
          (case store_abort_multipart os \<lparr>am_key = ur_object_key r, am_upload_id = sid\<rparr> o' of
             (res, o1) \<Rightarrow> (case cleanup os rs o1 of
               (ok, o2) \<Rightarrow> (ok \<and> (case res of Inl _ \<Rightarrow> False | Inr _ \<Rightarrow> True), o2))))"

definition cleanup_or_error :: "'o ObjectStore \<Rightarrow> UploadReservation list \<Rightarrow> ObjectStoreError \<Rightarrow> 'o
    \<Rightarrow> CreateUploadBatchError \<times> 'o" where
  "cleanup_or_error os rs original o' =
     (case cleanup os rs o' of (ok, o1) \<Rightarrow> (if ok then CObjectStore original else CleanupRequired, o1))"

definition raw_key :: "(uuid \<Rightarrow> string) \<Rightarrow> string \<Rightarrow> uuid \<Rightarrow> string" where
  "raw_key show_uuid tenant_id upload_id = ''raw/'' @ tenant_id @ ''/'' @ show_uuid upload_id @ ''/source''"

text \<open>The loop over \<open>files.zip(transfers)\<close>; \<open>fresh n\<close> is the identifier made for the \<open>n\<close>-th file.\<close>

fun reserve_files :: "'o ObjectStore \<Rightarrow> (uuid \<Rightarrow> string) \<Rightarrow> string \<Rightarrow> instant \<Rightarrow> (nat \<Rightarrow> uuid) \<Rightarrow> nat
    \<Rightarrow> UploadReservation list \<Rightarrow> CreatedUploadIntent list \<Rightarrow> (UploadFileIntent \<times> UploadTransfer) list \<Rightarrow> 'o
    \<Rightarrow> (CreateUploadBatchError, UploadReservation list \<times> CreatedUploadIntent list) result \<times> 'o" where
  "reserve_files os show_uuid tenant_id expires_at fresh n rs outs [] o' = (Ok (rs, outs), o')"
| "reserve_files os show_uuid tenant_id expires_at fresh n rs outs ((file, transfer) # files) o' =
     (let upload_id = fresh n in
      case ObjectKey_new (raw_key show_uuid tenant_id upload_id) of
        Inl _ \<Rightarrow> (Err GeneratedObjectKey, o')
      | Inr key \<Rightarrow>
         (let reservation = (\<lambda>session. \<lparr>ur_upload_id = upload_id, ur_object_key = key,
                ur_declared_kind = uf_declared_kind file, ur_expected_size = uf_content_length file,
                ur_content_type_hint = uf_content_type_hint file, ur_transfer = transfer,
                ur_session = session\<rparr>);
              output = (\<lambda>put. \<lparr>ci_client_ref = uf_client_ref file, ci_upload_id = upload_id,
                ci_transfer = transfer, ci_presigned_put = put, ci_expires_at = expires_at\<rparr>) in
          case transfer of
            SinglePut \<Rightarrow>
              (case presign_put os \<lparr>pp_key = key, pp_content_length = uf_content_length file,
                  pp_content_type = uf_content_type_hint file, pp_expires_in = presign_ttl\<rparr> o' of
                (Inl e, o1) \<Rightarrow> (case cleanup_or_error os rs e o1 of (err, o2) \<Rightarrow> (Err err, o2))
              | (Inr presigned, o1) \<Rightarrow>
                  reserve_files os show_uuid tenant_id expires_at fresh (n + 1)
                    (rs @ [reservation None]) (outs @ [output (Some presigned)]) files o1)
          | Multipart _ \<Rightarrow>
              (case create_multipart os \<lparr>cm_key = key, cm_content_type = uf_content_type_hint file\<rparr> o' of
                (Inl e, o1) \<Rightarrow> (case cleanup_or_error os rs e o1 of (err, o2) \<Rightarrow> (Err err, o2))
              | (Inr session, o1) \<Rightarrow>
                  reserve_files os show_uuid tenant_id expires_at fresh (n + 1)
                    (rs @ [reservation (Some session)]) (outs @ [output None]) files o1)))"

definition file_candidate :: "UploadFileIntent \<Rightarrow> UploadCandidate" where
  "file_candidate f = \<lparr>declared_kind = uf_declared_kind f, byte_len = uf_content_length f\<rparr>"

fun file_total :: "u64 \<Rightarrow> UploadFileIntent list \<Rightarrow> u64 option" where
  "file_total acc [] = Some acc"
| "file_total acc (f # fs) =
     (case checked_add acc (uf_content_length f) of None \<Rightarrow> None | Some acc' \<Rightarrow> file_total acc' fs)"

text \<open>The last step: save the batch, or abort the sessions opened for it.\<close>

definition save_or_clean :: "'o ObjectStore \<Rightarrow> UploadCapacityPolicy \<Rightarrow> UploadBatchReservation
    \<Rightarrow> CreatedUploadIntent list \<Rightarrow> 'o \<times> Database
    \<Rightarrow> (CreateUploadBatchError, CreatedUploadBatch) result \<times> 'o \<times> Database" where
  "save_or_clean os c batch outputs s =
     (case s of (o1, db) \<Rightarrow>
      (case save_batch batch c db of
        (Inr _, db1) \<Rightarrow> (Ok \<lparr>cub_batch_id = ubr_batch_id batch, cub_uploads = outputs\<rparr>, o1, db1)
      | (Inl error, db1) \<Rightarrow>
          (case cleanup os (ubr_uploads batch) o1 of
            (True, o2) \<Rightarrow> (Err (case error of
                CapacityExhausted \<Rightarrow> Backpressure | RepositoryBackend _ \<Rightarrow> CRepository error), o2, db1)
          | (False, o2) \<Rightarrow> (Err CleanupRequired, o2, db1))))"

definition create_batch :: "'o ObjectStore \<Rightarrow> (uuid \<Rightarrow> string) \<Rightarrow> UploadBatchPolicy \<Rightarrow> UploadCapacityPolicy
    \<Rightarrow> uuid \<Rightarrow> (nat \<Rightarrow> uuid) \<Rightarrow> instant \<Rightarrow> CreateUploadBatch \<Rightarrow> 'o \<times> Database
    \<Rightarrow> (CreateUploadBatchError, CreatedUploadBatch) result \<times> 'o \<times> Database" where
  "create_batch os show_uuid p c new_batch_id fresh now request s =
     (case s of (o', db) \<Rightarrow>
      if \<not> tenant_is_valid (cb_tenant_id request) then (Err CInvalidTenant, s)
      else (case validate_file_metadata (cb_files request) of
        Inl e \<Rightarrow> (Err e, s)
      | Inr _ \<Rightarrow>
        (case plan p (map file_candidate (cb_files request)) of
          Inl e \<Rightarrow> (Err (Policy e), s)
        | Inr transfers \<Rightarrow>
          (case file_total 0 (cb_files request) of
            None \<Rightarrow> (Err Backpressure, s)
          | Some additional_bytes \<Rightarrow>
            if \<not> capacity_is_valid c then (Err Backpressure, s)
            else (case has_capacity (cb_tenant_id request) (length (cb_files request)) additional_bytes c db of
              Inl e \<Rightarrow> (Err (CRepository e), s)
            | Inr False \<Rightarrow> (Err Backpressure, s)
            | Inr True \<Rightarrow>
              (case reserve_files os show_uuid (cb_tenant_id request) (now + int presign_ttl) fresh 0 [] []
                  (zip (cb_files request) transfers) o' of
                (Inl e, o1) \<Rightarrow> (Err e, o1, db)
              | (Inr (reservations, outputs), o1) \<Rightarrow>
                  save_or_clean os c \<lparr>ubr_batch_id = new_batch_id, ubr_tenant_id = cb_tenant_id request,
                    ubr_created_at = now, ubr_uploads = reservations\<rparr> outputs (o1, db)))))))"

section \<open>Controlling an upload\<close>

definition verify_stored_size :: "'o ObjectStore \<Rightarrow> StoredUploadReservation \<Rightarrow> 'o
    \<Rightarrow> (MultipartControlError, unit) result \<times> 'o" where
  "verify_stored_size os stored o' =
     (case head_object os (sur_object_key stored) o' of
        (Inl e, o1) \<Rightarrow> (Err (MObjectStore e), o1)
      | (Inr m, o1) \<Rightarrow>
          (if om_content_length m \<noteq> sur_expected_size stored then Err StoredSizeMismatch else Ok (), o1))"

text \<open>The common prologue: a valid tenant and an existing reservation.\<close>

definition find_reservation :: "string \<Rightarrow> uuid \<Rightarrow> Database
    \<Rightarrow> (MultipartControlError, StoredUploadReservation) result" where
  "find_reservation tenant_id upload_id db =
     (if \<not> tenant_is_valid tenant_id then Err InvalidTenant
      else (case find_upload tenant_id upload_id db of
          Inl e \<Rightarrow> Err (MRepository e) | Inr None \<Rightarrow> Err NotFound | Inr (Some stored) \<Rightarrow> Ok stored))"

definition presign_part :: "'o ObjectStore \<Rightarrow> string \<Rightarrow> uuid \<Rightarrow> u16 \<Rightarrow> u64 \<Rightarrow> 'o \<times> Database
    \<Rightarrow> (MultipartControlError, PresignedUpload) result \<times> 'o \<times> Database" where
  "presign_part os tenant_id upload_id part_number content_length s =
     (case s of (o', db) \<Rightarrow>
      (case find_reservation tenant_id upload_id db of Inl e \<Rightarrow> (Err e, s) | Inr stored \<Rightarrow>
      (case multipart_layout stored of Inl e \<Rightarrow> (Err e, s) | Inr (part_size, sid) \<Rightarrow>
        if sur_state stored \<noteq> Created then (Err InvalidState, s)
        else if expected_part_length (sur_expected_size stored) part_size part_number \<noteq> Some content_length
        then (Err InvalidPart, s)
        else (case store_presign_part os \<lparr>ppr_key = sur_object_key stored, ppr_upload_id = sid,
                ppr_part_number = part_number, ppr_content_length = content_length,
                ppr_expires_in = presign_ttl\<rparr> o' of
            (Inl e, o1) \<Rightarrow> (Err (MObjectStore e), o1, db)
          | (Inr presigned, o1) \<Rightarrow> (Ok presigned, o1, db)))))"

text \<open>Checking the stored bytes and queueing the validation: the common end of both confirmations.\<close>

definition verify_and_enqueue :: "'o ObjectStore \<Rightarrow> uuid \<Rightarrow> instant \<Rightarrow> string \<Rightarrow> uuid \<Rightarrow> StoredUploadReservation
    \<Rightarrow> 'o \<times> Database \<Rightarrow> (MultipartControlError, unit) result \<times> 'o \<times> Database" where
  "verify_and_enqueue os fresh now tenant_id upload_id stored s =
     (case s of (o', db) \<Rightarrow>
      (case verify_stored_size os stored o' of
        (Inl e, o1) \<Rightarrow> (Err e, o1, db)
      | (Inr _, o1) \<Rightarrow>
        (case mark_quarantined_and_enqueue fresh tenant_id upload_id (sur_expected_size stored)
            initial_processing_preset now db of
          (Inl e, db1) \<Rightarrow> (Err (MRepository e), o1, db1)
        | (Inr _, db1) \<Rightarrow> (Ok (), o1, db1))))"

definition complete_multipart_upload :: "'o ObjectStore \<Rightarrow> uuid \<Rightarrow> instant \<Rightarrow> string \<Rightarrow> uuid \<Rightarrow> CompletedPart list
    \<Rightarrow> 'o \<times> Database \<Rightarrow> (MultipartControlError, unit) result \<times> 'o \<times> Database" where
  "complete_multipart_upload os fresh now tenant_id upload_id parts s =
     (case s of (o', db) \<Rightarrow>
      (case find_reservation tenant_id upload_id db of Inl e \<Rightarrow> (Err e, s) | Inr stored \<Rightarrow>
      (case multipart_layout stored of Inl e \<Rightarrow> (Err e, s) | Inr (part_size, sid) \<Rightarrow>
        if upload_bytes_are_confirmed (sur_state stored)
        then (case verify_stored_size os stored o' of (r, o1) \<Rightarrow> (r, o1, db))
        else if sur_state stored \<noteq> Created then (Err InvalidState, s)
        else (case validate_completion (sur_expected_size stored) part_size parts of
            Inl e \<Rightarrow> (Err e, s)
          | Inr _ \<Rightarrow>
            (case store_complete_multipart os \<lparr>cmr_key = sur_object_key stored, cmr_upload_id = sid,
                cmr_parts = parts\<rparr> o' of
              (Inl e, o1) \<Rightarrow> (Err (MObjectStore e), o1, db)
            | (Inr _, o1) \<Rightarrow> verify_and_enqueue os fresh now tenant_id upload_id stored (o1, db))))))"

definition confirm_single_upload :: "'o ObjectStore \<Rightarrow> uuid \<Rightarrow> instant \<Rightarrow> string \<Rightarrow> uuid
    \<Rightarrow> 'o \<times> Database \<Rightarrow> (MultipartControlError, unit) result \<times> 'o \<times> Database" where
  "confirm_single_upload os fresh now tenant_id upload_id s =
     (case s of (o', db) \<Rightarrow>
      (case find_reservation tenant_id upload_id db of Inl e \<Rightarrow> (Err e, s) | Inr stored \<Rightarrow>
        if sur_transfer stored \<noteq> SinglePut then (Err InvalidState, s)
        else if upload_bytes_are_confirmed (sur_state stored)
        then (case verify_stored_size os stored o' of (r, o1) \<Rightarrow> (r, o1, db))
        else if sur_state stored \<noteq> Created then (Err InvalidState, s)
        else verify_and_enqueue os fresh now tenant_id upload_id stored (o', db)))"

definition abort_multipart_upload :: "'o ObjectStore \<Rightarrow> instant \<Rightarrow> string \<Rightarrow> uuid
    \<Rightarrow> 'o \<times> Database \<Rightarrow> (MultipartControlError, unit) result \<times> 'o \<times> Database" where
  "abort_multipart_upload os now tenant_id upload_id s =
     (case s of (o', db) \<Rightarrow>
      (case find_reservation tenant_id upload_id db of Inl e \<Rightarrow> (Err e, s) | Inr stored \<Rightarrow>
      (case multipart_layout stored of Inl e \<Rightarrow> (Err e, s) | Inr (_, sid) \<Rightarrow>
        if sur_state stored = Deleted then (Ok (), s)
        else if sur_state stored \<noteq> Created then (Err InvalidState, s)
        else (case store_abort_multipart os \<lparr>am_key = sur_object_key stored, am_upload_id = sid\<rparr> o' of
            (Inl e, o1) \<Rightarrow> (Err (MObjectStore e), o1, db)
          | (Inr _, o1) \<Rightarrow>
            (case mark_deleted tenant_id upload_id now db of
              (Inl e, db1) \<Rightarrow> (Err (MRepository e), o1, db1)
            | (Inr _, db1) \<Rightarrow> (Ok (), o1, db1))))))"

definition upload_status :: "string \<Rightarrow> uuid \<Rightarrow> Database \<Rightarrow> (MultipartControlError, UploadStatusSnapshot) result" where
  "upload_status tenant_id upload_id db =
     (if \<not> tenant_is_valid tenant_id then Err InvalidTenant
      else (case find_status tenant_id upload_id db of
          Inl e \<Rightarrow> Err (MRepository e) | Inr None \<Rightarrow> Err NotFound | Inr (Some st) \<Rightarrow> Ok st))"

section \<open>Generated keys\<close>

text \<open>What the \<open>uuid\<close> crate documents of the hyphenated form of an identifier.\<close>

definition uuid_text :: "(uuid \<Rightarrow> string) \<Rightarrow> bool" where
  "uuid_text show_uuid \<longleftrightarrow>
     (\<forall>u. length (show_uuid u) = 36 \<and> list_all (\<lambda>c. is_lower_hex c \<or> c = CHR ''-'') (show_uuid u))"

lemma token_byte_key: "token_byte c \<Longrightarrow> key_byte c"
  by (auto simp: token_byte_def key_byte_def)

lemma token_byte_other: "\<not> token_byte CHR ''/''" "\<not> token_byte CHR ''.''"
  by (simp_all add: token_byte_def is_ascii_alphanumeric_def is_ascii_digit_def
      is_ascii_upper_def is_ascii_lower_def byte_of_def)

lemma hex_byte_token: "is_lower_hex c \<or> c = CHR ''-'' \<Longrightarrow> token_byte c"
  by (auto simp: token_byte_def is_lower_hex_def is_ascii_alphanumeric_def is_ascii_lower_def)

lemma token_segment:
  assumes "list_all token_byte s" "s \<noteq> []"
  shows "\<not> unsafe_segment s" "CHR ''/'' \<notin> set s" "list_all key_byte s"
proof -
  show "CHR ''/'' \<notin> set s" using assms(1) token_byte_other(1) by (auto simp: list_all_iff)
  show "list_all key_byte s" using assms(1) token_byte_key by (auto simp: list_all_iff)
  have "CHR ''.'' \<notin> set s" using assms(1) token_byte_other(2) by (auto simp: list_all_iff)
  then show "\<not> unsafe_segment s" using assms(2) by (auto simp: unsafe_segment_def)
qed

lemma split_two_segments:
  assumes "CHR ''/'' \<notin> set a" "CHR ''/'' \<notin> set b" "CHR ''/'' \<notin> set c" "CHR ''/'' \<notin> set d"
  shows "split_on CHR ''/'' (a @ CHR ''/'' # b @ CHR ''/'' # c @ CHR ''/'' # d) = [a, b, c, d]"
  using assms by (simp add: split_on_append split_on_no_sep)

lemma raw_key_valid:
  assumes "tenant_is_valid t" "uuid_text show_uuid"
  shows "valid_object_key (raw_key show_uuid t u)"
proof -
  have printed: "length (show_uuid u) = 36" "list_all (\<lambda>c. is_lower_hex c \<or> c = CHR ''-'') (show_uuid u)"
    using assms(2) by (simp_all add: uuid_text_def)
  have uuid: "list_all token_byte (show_uuid u)" "show_uuid u \<noteq> []" "length (show_uuid u) = 36"
    using printed(1) by (auto intro: list.pred_mono_strong[OF printed(2)] hex_byte_token)
  have tenant: "list_all token_byte t" "t \<noteq> []" "length t \<le> 64"
    using assms(1) by (simp_all add: tenant_is_valid_def)
  have lits: "list_all key_byte ''raw''" "list_all key_byte ''source''" "\<not> unsafe_segment ''raw''"
    "\<not> unsafe_segment ''source''" "key_byte CHR ''/''"
    by (simp_all add: key_byte_def is_ascii_alphanumeric_def is_ascii_lower_def is_ascii_digit_def
        is_ascii_upper_def byte_of_def unsafe_segment_def)
  have "split_on CHR ''/'' (''raw'' @ CHR ''/'' # t @ CHR ''/'' # show_uuid u @ CHR ''/'' # ''source'')
      = [''raw'', t, show_uuid u, ''source'']"
    by (rule split_two_segments) (use token_segment[OF uuid(1,2)] token_segment[OF tenant(1,2)] in simp_all)
  then show ?thesis
    using token_segment[OF uuid(1,2)] token_segment[OF tenant(1,2)] lits uuid(3) tenant(3)
    by (simp add: valid_object_key_iff raw_key_def)
qed

section \<open>No partial batch\<close>

text \<open>A provider that tracks its open multipart sessions: opening adds one, a successful abort
  removes it, nothing else adds any.\<close>

definition tracks_sessions :: "'o ObjectStore \<Rightarrow> ('o \<Rightarrow> (string \<times> string) set) \<Rightarrow> bool" where
  "tracks_sessions os open_sessions \<longleftrightarrow>
     (\<forall>req s. case create_multipart os req s of
        (Inl _, s') \<Rightarrow> open_sessions s' \<subseteq> open_sessions s
      | (Inr sid, s') \<Rightarrow> open_sessions s' \<subseteq> insert (cm_key req, sid) (open_sessions s)) \<and>
     (\<forall>req s. case store_abort_multipart os req s of
        (Inl _, s') \<Rightarrow> open_sessions s' \<subseteq> open_sessions s
      | (Inr _, s') \<Rightarrow> open_sessions s' \<subseteq> open_sessions s - {(am_key req, am_upload_id req)}) \<and>
     (\<forall>req s. open_sessions (snd (presign_put os req s)) \<subseteq> open_sessions s)"

definition reservation_sessions :: "UploadReservation list \<Rightarrow> (string \<times> string) set" where
  "reservation_sessions rs = {(ur_object_key r, sid) | r sid. r \<in> set rs \<and> ur_session r = Some sid}"

lemma reservation_sessions_simps [simp]:
  "reservation_sessions [] = {}"
  "reservation_sessions (r # rs) =
     (case ur_session r of None \<Rightarrow> {} | Some sid \<Rightarrow> {(ur_object_key r, sid)}) \<union> reservation_sessions rs"
  "reservation_sessions (rs @ ss) = reservation_sessions rs \<union> reservation_sessions ss"
  by (auto simp: reservation_sessions_def split: option.splits)

lemma tracks_sessionsD:
  assumes "tracks_sessions os open_sessions"
  shows "create_multipart os cm s = (Inl e, s') \<Longrightarrow> open_sessions s' \<subseteq> open_sessions s"
    "create_multipart os cm s = (Inr sid, s') \<Longrightarrow>
       open_sessions s' \<subseteq> insert (cm_key cm, sid) (open_sessions s)"
    "store_abort_multipart os am s = (Inl e, s') \<Longrightarrow> open_sessions s' \<subseteq> open_sessions s"
    "store_abort_multipart os am s = (Inr u, s') \<Longrightarrow>
       open_sessions s' \<subseteq> open_sessions s - {(am_key am, am_upload_id am)}"
    "presign_put os pp s = (r, s') \<Longrightarrow> open_sessions s' \<subseteq> open_sessions s"
proof -
  note laws = assms[unfolded tracks_sessions_def]
  note create = laws[THEN conjunct1, THEN spec[of _ cm], THEN spec[of _ s]]
  show "create_multipart os cm s = (Inl e, s') \<Longrightarrow> open_sessions s' \<subseteq> open_sessions s"
    "create_multipart os cm s = (Inr sid, s') \<Longrightarrow>
       open_sessions s' \<subseteq> insert (cm_key cm, sid) (open_sessions s)"
    using create by simp_all
  note abort = laws[THEN conjunct2, THEN conjunct1, THEN spec[of _ am], THEN spec[of _ s]]
  show "store_abort_multipart os am s = (Inl e, s') \<Longrightarrow> open_sessions s' \<subseteq> open_sessions s"
    "store_abort_multipart os am s = (Inr u, s') \<Longrightarrow>
       open_sessions s' \<subseteq> open_sessions s - {(am_key am, am_upload_id am)}"
    using abort by simp_all
  show "presign_put os pp s = (r, s') \<Longrightarrow> open_sessions s' \<subseteq> open_sessions s"
    using laws[THEN conjunct2, THEN conjunct2, THEN spec[of _ pp], THEN spec[of _ s]] by simp
qed

lemma cleanup_closes:
  assumes "tracks_sessions os open_sessions" "cleanup os rs o' = (ok, o1)"
  shows "open_sessions o1 \<subseteq> open_sessions o' \<and>
    (ok \<longrightarrow> open_sessions o1 \<subseteq> open_sessions o' - reservation_sessions rs)"
  using assms(2)
proof (induction rs arbitrary: o' ok o1)
  case (Cons r rs)
  show ?case
  proof (cases "ur_session r")
    case None
    then show ?thesis using Cons by auto
  next
    case (Some sid)
    obtain res oa where abort: "store_abort_multipart os \<lparr>am_key = ur_object_key r, am_upload_id = sid\<rparr> o' = (res, oa)"
      by (metis surj_pair)
    obtain ok' where rest: "cleanup os rs oa = (ok', o1)" "ok = (ok' \<and> (case res of Inl _ \<Rightarrow> False | Inr _ \<Rightarrow> True))"
      using Cons.prems Some abort by (auto split: prod.splits)
    have "open_sessions oa \<subseteq> open_sessions o' \<and>
        (\<forall>u. res = Inr u \<longrightarrow> open_sessions oa \<subseteq> open_sessions o' - {(ur_object_key r, sid)})"
      using tracks_sessionsD(3,4)[OF assms(1)] abort by (cases res) fastforce+
    then show ?thesis
      using Cons.IH[OF rest(1)] rest(2) Some by (auto split: sum.splits)
  qed
qed auto

lemma reserve_files_effect:
  assumes "tracks_sessions os open_sessions" "uuid_text show_uuid" "tenant_is_valid t"
    and "open_sessions o' \<subseteq> base \<union> reservation_sessions rs"
    and "list_all (\<lambda>r. valid_object_key (ur_object_key r)) rs"
    and "reserve_files os show_uuid t e fresh n rs outs files o' = (res, o1)"
  shows "case res of
      Inl err \<Rightarrow> err \<noteq> GeneratedObjectKey \<and> (err \<noteq> CleanupRequired \<longrightarrow> open_sessions o1 \<subseteq> base)
    | Inr (rs', outs') \<Rightarrow> open_sessions o1 \<subseteq> base \<union> reservation_sessions rs' \<and>
        list_all (\<lambda>r. valid_object_key (ur_object_key r)) rs' \<and>
        map (\<lambda>r. (ur_expected_size r, ur_transfer r)) rs' =
          map (\<lambda>r. (ur_expected_size r, ur_transfer r)) rs @ map (\<lambda>(f, tr). (uf_content_length f, tr)) files"
  using assms(4-6)
proof (induction files arbitrary: n rs outs o')
  case Nil
  then show ?case by auto
next
  case (Cons ft files)
  obtain f transfer where ft: "ft = (f, transfer)" by (cases ft)
  let ?k = "raw_key show_uuid t (fresh n)"
  have valid: "valid_object_key ?k" by (rule raw_key_valid[OF assms(3,2)])
  note key = ObjectKey_new_valid[OF valid]
  have failed: "case res of Inl err \<Rightarrow> err \<noteq> GeneratedObjectKey \<and>
        (err \<noteq> CleanupRequired \<longrightarrow> open_sessions o1 \<subseteq> base) | Inr _ \<Rightarrow> False"
    if "open_sessions oa \<subseteq> base \<union> reservation_sessions rs"
      "(case cleanup_or_error os rs er oa of (err, o2) \<Rightarrow> (Err err, o2)) = (res, o1)" for oa er
    using that cleanup_closes[OF assms(1), of rs oa]
    by (auto simp: cleanup_or_error_def split: prod.splits if_splits) blast+
  show ?case
  proof (cases transfer)
    case SinglePut
    let ?req = "\<lparr>pp_key = ?k, pp_content_length = uf_content_length f,
      pp_content_type = uf_content_type_hint f, pp_expires_in = presign_ttl\<rparr>"
    obtain put oa where put: "presign_put os ?req o' = (put, oa)" by (metis surj_pair)
    have "open_sessions oa \<subseteq> open_sessions o'"
      by (rule tracks_sessionsD(5)[OF assms(1) put])
    then have oa: "open_sessions oa \<subseteq> base \<union> reservation_sessions rs" using Cons.prems(1) by blast
    show ?thesis
    proof (cases put)
      case (Inl er)
      then show ?thesis
        using failed[OF oa, of er] Cons.prems(3) put SinglePut ft key
        by (auto split: sum.splits)
    next
      case (Inr url)
      obtain r out where step: "reserve_files os show_uuid t e fresh (n + 1) (rs @ [r]) (outs @ [out]) files oa = (res, o1)"
        "ur_object_key r = ?k" "ur_session r = None" "ur_expected_size r = uf_content_length f"
        "ur_transfer r = SinglePut"
        using Cons.prems(3) put Inr SinglePut ft key by (simp add: Let_def)
      then show ?thesis
        using Cons.IH[OF _ _ step(1)] Cons.prems(2) oa valid ft SinglePut by (auto split: sum.splits)
    qed
  next
    case (Multipart part)
    let ?req = "\<lparr>cm_key = ?k, cm_content_type = uf_content_type_hint f\<rparr>"
    obtain session oa where session: "create_multipart os ?req o' = (session, oa)" by (metis surj_pair)
    have law: "case session of Inl _ \<Rightarrow> open_sessions oa \<subseteq> open_sessions o'
       | Inr sid \<Rightarrow> open_sessions oa \<subseteq> insert (?k, sid) (open_sessions o')"
      using tracks_sessionsD(1,2)[OF assms(1)] session by (cases session) fastforce+
    show ?thesis
    proof (cases session)
      case (Inl er)
      then have oa: "open_sessions oa \<subseteq> base \<union> reservation_sessions rs"
        using law Cons.prems(1) by auto
      show ?thesis
        using Inl failed[OF oa, of er] Cons.prems(3) session Multipart ft key
        by (auto split: sum.splits)
    next
      case (Inr sid)
      then have "open_sessions oa \<subseteq> base \<union> insert (?k, sid) (reservation_sessions rs)"
        using law Cons.prems(1) by auto
      moreover obtain r out where step: "reserve_files os show_uuid t e fresh (n + 1) (rs @ [r]) (outs @ [out]) files oa = (res, o1)"
        "ur_object_key r = ?k" "ur_session r = Some sid" "ur_expected_size r = uf_content_length f"
        "ur_transfer r = Multipart part"
        using Cons.prems(3) session Inr Multipart ft key by (simp add: Let_def)
      ultimately show ?thesis
        using Cons.IH[OF _ _ step(1)] Cons.prems(2) valid ft Multipart by (auto split: sum.splits)
    qed
  qed
qed

lemma create_batch_cases:
  assumes "create_batch os show_uuid p c b fresh now request (o', db) = (res, o1, db1)"
  shows "(\<exists>e. res = Err e \<and> e \<noteq> GeneratedObjectKey \<and> o1 = o' \<and> db1 = db) \<or>
   (tenant_is_valid (cb_tenant_id request) \<and> (\<exists>transfers.
      plan p (map file_candidate (cb_files request)) = Ok transfers \<and>
      (case reserve_files os show_uuid (cb_tenant_id request) (now + int presign_ttl) fresh 0 [] []
         (zip (cb_files request) transfers) o' of
          (Inl e, oa) \<Rightarrow> (Err e, oa, db)
        | (Inr (reservations, outputs), oa) \<Rightarrow>
            save_or_clean os c \<lparr>ubr_batch_id = b, ubr_tenant_id = cb_tenant_id request,
              ubr_created_at = now, ubr_uploads = reservations\<rparr> outputs (oa, db)) = (res, o1, db1)))"
proof -
  have metadata: "validate_files seen fs = Inl e \<Longrightarrow> e \<noteq> GeneratedObjectKey" for seen fs e
    by (induction seen fs rule: validate_files.induct) (auto split: if_splits)
  show ?thesis
    using assms unfolding create_batch_def prod.case
    by (split if_split_asm sum.split_asm option.split_asm bool.split_asm; simp add: validate_file_metadata_def)
      (auto dest: metadata split: if_split_asm sum.split_asm option.split_asm bool.split_asm
        simp: validate_file_metadata_def)
qed

lemma plan_candidates_positive:
  assumes "plan p (map file_candidate files) = Ok transfers"
  shows "list_all (\<lambda>f. 0 < uf_content_length f) files" "length transfers = length files" "files \<noteq> []"
proof -
  have "list_all (candidate_ok p) (map file_candidate files)" "transfers = map (transfer_for p) (map file_candidate files)"
    "map file_candidate files \<noteq> []"
    using assms unfolding plan_Ok_iff by simp_all
  then show "list_all (\<lambda>f. 0 < uf_content_length f) files" "length transfers = length files" "files \<noteq> []"
    by (simp_all add: list_all_iff candidate_ok_def file_candidate_def)
qed


text \<open>A provider for the witnesses: it remembers its open sessions and stores objects of 1000 bytes.\<close>

definition sample_store :: "(string \<times> string) list ObjectStore" where
  "sample_store = \<lparr>
     presign_put = (\<lambda>req s. (Ok \<lparr>pu_url = ''put'', pu_required_headers = [], pu_expires_at = 0\<rparr>, s)),
     presign_get = (\<lambda>req s. (Ok \<lparr>pd_url = ''get'', pd_expires_at = 0\<rparr>, s)),
     create_multipart = (\<lambda>req s. (Ok ''sid'', (cm_key req, ''sid'') # s)),
     store_presign_part = (\<lambda>req s. (Ok \<lparr>pu_url = ''part'', pu_required_headers = [], pu_expires_at = 0\<rparr>, s)),
     store_complete_multipart = (\<lambda>req s. (Ok (), s)),
     store_abort_multipart = (\<lambda>req s. (Ok (), filter (\<lambda>x. x \<noteq> (am_key req, am_upload_id req)) s)),
     head_object = (\<lambda>k s. (Ok \<lparr>om_content_length = 1000, om_content_type = None, om_etag = None\<rparr>, s)),
     list_objects = (\<lambda>req s. (Ok \<lparr>lop_objects = [], lop_next_start_after = None\<rparr>, s)),
     delete_object = (\<lambda>k s. (Ok (), s))\<rparr>"

lemma sample_store_tracks: "tracks_sessions sample_store set"
  by (auto simp: tracks_sessions_def sample_store_def)

definition zero_text :: "uuid \<Rightarrow> string" where
  "zero_text u = replicate 36 (CHR ''0'')"

lemma zero_text_ok: "uuid_text zero_text"
  by (simp add: uuid_text_def zero_text_def is_lower_hex_def is_ascii_digit_def byte_of_def list_all_iff)

definition sample_request :: CreateUploadBatch where
  "sample_request = \<lparr>cb_tenant_id = ''a'', cb_files =
     [\<lparr>uf_client_ref = ''f1'', uf_declared_kind = Video, uf_content_length = 6000000,
       uf_content_type_hint = ''video/mp4''\<rparr>]\<rparr>"

lemma sample_create:
  "fst (create_batch sample_store zero_text default_batch_policy default_capacity 7 of_nat 5000000000
     sample_request ([], empty_database)) =
   Ok \<lparr>cub_batch_id = 7, cub_uploads = [\<lparr>ci_client_ref = ''f1'', ci_upload_id = 0,
     ci_transfer = Multipart 33554432, ci_presigned_put = None, ci_expires_at = 605000000000\<rparr>]\<rparr>"
proof -
  have tenant: "tenant_is_valid ''a''"
    by (simp add: tenant_is_valid_def token_byte_def is_ascii_alphanumeric_def is_ascii_lower_def
        is_ascii_digit_def is_ascii_upper_def byte_of_def)
  have key: "ObjectKey_new (raw_key zero_text ''a'' 0) = Ok (raw_key zero_text ''a'' 0)"
    by (rule ObjectKey_new_valid[OF raw_key_valid[OF tenant zero_text_ok]])
  have metadata: "validate_file_metadata (cb_files sample_request) = Ok ()"
    by (simp add: validate_file_metadata_def sample_request_def token_byte_def is_ascii_alphanumeric_def
        is_ascii_lower_def is_ascii_digit_def is_ascii_upper_def byte_of_def is_ascii_graphic_def)
  show ?thesis
    using tenant metadata key
    by (simp add: create_batch_def sample_request_def plan_def default_batch_policy_def file_candidate_def
        kind_cap_def checked_add_def transfer_for_def capacity_is_valid_def default_capacity_def
        has_capacity_def capacity_in_def capacity_allows_def fits_def active_global_def active_tenant_def
        reserved_tenant_def empty_database_def Let_def sample_store_def save_or_clean_def save_batch_def
        i64_max_def upload_constraints_def tenant_column_ok_def reservation_row_def batch_row_def
        presign_ttl_def seconds_def)
qed


section \<open>Confirming an upload\<close>

text \<open>The object the provider reports for a key in a state has a given length.\<close>

definition reports_length :: "'o ObjectStore \<Rightarrow> 'o \<Rightarrow> string \<Rightarrow> u64 \<Rightarrow> bool" where
  "reports_length os o' key n \<longleftrightarrow>
     (case head_object os key o' of (Inl _, _) \<Rightarrow> False | (Inr m, _) \<Rightarrow> om_content_length m = n)"

lemma verify_stored_size_Ok:
  "fst (verify_stored_size os stored o') = Ok () \<longleftrightarrow>
     reports_length os o' (sur_object_key stored) (sur_expected_size stored)"
  by (auto simp: verify_stored_size_def reports_length_def split: prod.splits sum.splits)

lemma verify_and_enqueue_result:
  assumes "verify_and_enqueue os fresh now t i stored (o', db) = (res, o1, db1)"
  shows "(res \<noteq> Ok () \<longrightarrow> db1 = snd (mark_quarantined_and_enqueue fresh t i
             (sur_expected_size stored) initial_processing_preset now db) \<or> db1 = db) \<and>
    (res = Ok () \<longrightarrow> reports_length os o' (sur_object_key stored) (sur_expected_size stored) \<and>
       mark_quarantined_and_enqueue fresh t i (sur_expected_size stored) initial_processing_preset now db
         = (Ok (), db1))"
  using assms verify_stored_size_Ok[of os stored o']
  by (auto simp: verify_and_enqueue_def split: prod.splits sum.splits)

lemma verify_and_enqueue_error:
  assumes "verify_and_enqueue os fresh now t i stored (o', db) = (Err e, o1, db1)"
  shows "db1 = db"
  using assms mark_quarantined_error[of fresh t i "sur_expected_size stored" initial_processing_preset now db]
  by (auto simp: verify_and_enqueue_def split: prod.splits sum.splits)

lemma verify_and_enqueue_quarantines:
  assumes "db_ok db" "verify_and_enqueue os fresh now t i stored (o', db) = (Ok (), o1, db1)"
  shows "reports_length os o' (sur_object_key stored) (sur_expected_size stored)"
    "\<exists>r. find_upload_row t i db1 = Some r \<and> up_state r = Quarantined \<and>
       up_actual r = Some (unat (sur_expected_size stored))"
    "\<exists>j. jobs db1 = jobs db @ [j] \<and> job_upload j = i \<and> job_state j = Queued"
proof -
  have marked: "mark_quarantined_and_enqueue fresh t i (sur_expected_size stored)
      initial_processing_preset now db = (Ok (), db1)"
    and "reports_length os o' (sur_object_key stored) (sur_expected_size stored)"
    using verify_and_enqueue_result[OF assms(2)] by simp_all
  then show "reports_length os o' (sur_object_key stored) (sur_expected_size stored)" by simp
  show "\<exists>r. find_upload_row t i db1 = Some r \<and> up_state r = Quarantined \<and>
       up_actual r = Some (unat (sur_expected_size stored))"
    using mark_quarantined_success(1)[OF assms(1) marked] by auto
  show "\<exists>j. jobs db1 = jobs db @ [j] \<and> job_upload j = i \<and> job_state j = Queued"
    using mark_quarantined_success(2)[OF assms(1) marked] by (simp add: new_job_def)
qed

text \<open>
  Bytes are confirmed against storage.  A confirmation that succeeds saw the provider report
  exactly the reserved length; if the upload was \<open>created\<close> it is now \<open>quarantined\<close> with that length
  and one validation job is queued, otherwise it was already confirmed and nothing changed.  A
  confirmation that fails changes nothing in the database.
\<close>

theorem single_upload_confirmed_only_when_stored:
  assumes "db_ok db" "find_upload t i db = Ok (Some stored)"
    and "confirm_single_upload os fresh now t i (o', db) = (res, o1, db1)"
  shows "(case res of
      Inl _ \<Rightarrow> db1 = db
    | Inr _ \<Rightarrow> sur_transfer stored = SinglePut \<and>
        reports_length os o' (sur_object_key stored) (sur_expected_size stored) \<and>
        (if sur_state stored = Created
         then (\<exists>r. find_upload_row t i db1 = Some r \<and> up_state r = Quarantined \<and>
                 up_actual r = Some (unat (sur_expected_size stored))) \<and>
              (\<exists>j. jobs db1 = jobs db @ [j] \<and> job_upload j = i \<and> job_state j = Queued)
         else upload_bytes_are_confirmed (sur_state stored) \<and> db1 = db))"
proof -
  consider (guard) e where "res = Err e" "db1 = db"
    | (again) "sur_transfer stored = SinglePut" "upload_bytes_are_confirmed (sur_state stored)" "db1 = db"
        "fst (verify_stored_size os stored o') = res"
    | (first) "sur_transfer stored = SinglePut" "sur_state stored = Created"
        "verify_and_enqueue os fresh now t i stored (o', db) = (res, o1, db1)"
    using assms(2,3)
    by (auto simp: confirm_single_upload_def find_reservation_def split: if_splits prod.splits)
  then show ?thesis
  proof cases
    case again
    then show ?thesis
      using verify_stored_size_Ok[of os stored o'] by (auto simp: upload_bytes_are_confirmed_def split: sum.splits)
  next
    case first
    then show ?thesis
      using verify_and_enqueue_error verify_and_enqueue_quarantines[OF assms(1)]
      by (cases res) auto
  qed simp
qed

theorem single_upload_confirmed_only_when_stored_witness:
  "\<exists>r. find_upload_row ''a'' 1 (snd (snd (confirm_single_upload sample_store 50 9000000000 ''a'' 1
     ([], sample_uploads_db Created)))) = Some r \<and> up_state r = Quarantined"
proof -
  let ?run = "confirm_single_upload sample_store 50 9000000000 ''a'' 1 ([], sample_uploads_db Created)"
  let ?stored = "\<lparr>sur_upload_id = 1, sur_object_key = ''raw/a/1/source'', sur_expected_size = 1000,
     sur_state = Created, sur_transfer = SinglePut, sur_session = None\<rparr>"
  have found: "find_upload ''a'' 1 (sample_uploads_db Created) = Ok (Some ?stored)"
    by (simp add: find_upload_def find_upload_row_def sample_upload_def stored_upload_from_row_def
        ObjectKey_new_valid[OF key_bytes(1)])
  have tenant: "tenant_is_valid ''a''"
    by (simp add: tenant_is_valid_def token_byte_def is_ascii_alphanumeric_def is_ascii_lower_def
        is_ascii_digit_def is_ascii_upper_def byte_of_def)
  have "fst ?run = Ok ()"
    using tenant found
    by (simp add: confirm_single_upload_def find_reservation_def upload_bytes_are_confirmed_def
        verify_and_enqueue_def verify_stored_size_def sample_store_def mark_quarantined_and_enqueue_def
        initial_processing_preset_def Let_def set_uploaded_def update_rows_def owned_in_state_def
        sample_upload_def i64_max_def)
  then obtain o1 db1 where run: "?run = (Ok (), o1, db1)" by (metis prod.collapse)
  show ?thesis
    using single_upload_confirmed_only_when_stored[OF sample_uploads_db_ok found run] run by auto
qed

end
