(* ===== verification/Lifecycle_Repository.thy ===== *)
theory Lifecycle_Repository
  imports Upload_Repository Leases Samples "HOL-Library.Option_ord"
begin

text \<open>
  \<open>LifecycleRepository\<close> of \<open>application/src/lifecycle.rs\<close> as \<open>SqliteStore\<close> implements it: deletion
  requests, cleanup leases, their completion and failure, and the purge of old tombstones.  An
  upload row carries its own cleanup lease (\<open>cleanup_lease_owner\<close>, \<open>cleanup_lease_until\<close>), so the
  second interpretation of the lease protocol is here.
\<close>

section \<open>Types of the port\<close>

datatype CleanupReason = UserRequested | ExpiredReservation | RetentionExpired

record CleanupCandidate =
  cc_tenant_id :: string
  cc_upload_id :: uuid
  cc_raw_key :: string
  cc_state :: UploadState
  cc_transfer :: UploadTransfer
  cc_session :: "string option"
  cc_derivative_keys :: "string list"
  cc_reason :: CleanupReason
  cc_attempts :: nat

datatype DeletionRequestOutcome = Accepted | AlreadyPending | AlreadyDeleted

datatype DeletionRequestError =
    DInvalidTenant | DNotFound | StateConflict | ReferencedByPolicy | DBackend string

datatype LifecycleRepositoryError = LifecycleRepositoryError string

section \<open>Requesting a deletion\<close>

definition deletable :: "UploadState \<Rightarrow> bool" where
  "deletable s \<longleftrightarrow> s \<in> {Created, Ready, Rejected, Failed}"

definition policy_references :: "uuid \<Rightarrow> Database \<Rightarrow> nat" where
  "policy_references upload_id db =
     length (filter (\<lambda>p. map_option wm_upload (pol_watermark p) = Some upload_id) (site_policies db))"

definition requestable :: "string \<Rightarrow> uuid \<Rightarrow> UploadRow \<Rightarrow> bool" where
  "requestable tenant_id upload_id r \<longleftrightarrow>
     up_tenant r = tenant_id \<and> up_id r = upload_id \<and> up_delete_requested r = None \<and> deletable (up_state r)"

definition set_delete_requested :: "int \<Rightarrow> UploadRow \<Rightarrow> UploadRow" where
  "set_delete_requested ts r =
     r\<lparr>up_delete_requested := Some ts, up_cleanup_retry := Some ts, up_cleanup_error := None, up_updated := ts\<rparr>"

definition request_deletion :: "string \<Rightarrow> uuid \<Rightarrow> instant \<Rightarrow> Database
    \<Rightarrow> (DeletionRequestError, DeletionRequestOutcome) result \<times> Database" where
  "request_deletion tenant_id upload_id now db =
     (case find_upload_row tenant_id upload_id db of
        None \<Rightarrow> (Err DNotFound, db)
      | Some r \<Rightarrow>
          if up_state r = Deleted then (Ok AlreadyDeleted, db)
          else if up_delete_requested r \<noteq> None then (Ok AlreadyPending, db)
          else if \<not> deletable (up_state r) then (Err StateConflict, db)
          else if policy_references upload_id db \<noteq> 0 then (Err ReferencedByPolicy, db)
          else if length (filter (requestable tenant_id upload_id) (uploads db)) \<noteq> 1
          then (Err StateConflict, db)
          else (Ok Accepted, update_uploads (requestable tenant_id upload_id)
                  (set_delete_requested (unix_timestamp now)) db))"

section \<open>Claiming cleanup work\<close>

definition cleanup_eligible :: "int \<Rightarrow> int \<Rightarrow> int \<Rightarrow> nat \<Rightarrow> UploadRow \<Rightarrow> bool" where
  "cleanup_eligible now created_before rejected_before max_attempts r \<longleftrightarrow>
     up_state r \<noteq> Deleted \<and> up_cleanup_attempts r < max_attempts \<and>
     (case up_cleanup_retry r of None \<Rightarrow> True | Some t \<Rightarrow> t \<le> now) \<and>
     (case up_cleanup_until r of None \<Rightarrow> True | Some t \<Rightarrow> t \<le> now) \<and>
     (up_delete_requested r \<noteq> None \<or>
      up_state r = Created \<and> up_created r \<le> created_before \<or>
      up_state r \<in> {Rejected, Failed} \<and> up_updated r \<le> rejected_before)"

definition cleanup_order :: "UploadRow \<Rightarrow> nat \<times> int \<times> uuid" where
  "cleanup_order r =
     (if up_delete_requested r \<noteq> None then 0 else 1,
      (case up_delete_requested r of Some t \<Rightarrow> t | None \<Rightarrow> up_updated r), up_id r)"

definition cleanup_rows :: "int \<Rightarrow> int \<Rightarrow> int \<Rightarrow> nat \<Rightarrow> nat \<Rightarrow> Database \<Rightarrow> UploadRow list" where
  "cleanup_rows now created_before rejected_before limit max_attempts db =
     take limit (sort_key cleanup_order
       (filter (cleanup_eligible now created_before rejected_before max_attempts) (uploads db)))"

definition lease_cleanup :: "string \<Rightarrow> int \<Rightarrow> UploadRow \<Rightarrow> UploadRow" where
  "lease_cleanup owner lease_until r =
     r\<lparr>up_cleanup_owner := Some owner, up_cleanup_until := Some lease_until,
       up_cleanup_attempts := up_cleanup_attempts r + 1, up_cleanup_error := None\<rparr>"

definition cleanup_reason :: "UploadRow \<Rightarrow> CleanupReason" where
  "cleanup_reason r =
     (if up_delete_requested r \<noteq> None then UserRequested
      else if up_state r = Created then ExpiredReservation else RetentionExpired)"

fun repository_error_text :: "UploadRepositoryError \<Rightarrow> string" where
  "repository_error_text CapacityExhausted = ''active upload capacity is exhausted''"
| "repository_error_text (RepositoryBackend m) = ''upload repository operation failed: '' @ m"

definition derivative_keys :: "uuid \<Rightarrow> Database \<Rightarrow> (LifecycleRepositoryError, string list) result" where
  "derivative_keys upload_id db =
     collect_results (\<lambda>key. case ObjectKey_new key of
         Inl _ \<Rightarrow> Err (LifecycleRepositoryError ''cleanup derivative key is invalid'') | Inr k \<Rightarrow> Ok k)
       (sort (map drv_key (filter (\<lambda>d. drv_upload d = upload_id) (derivatives db))))"

definition cleanup_candidate :: "UploadRow \<Rightarrow> StoredUploadReservation \<Rightarrow> string list \<Rightarrow> CleanupCandidate" where
  "cleanup_candidate r stored keys =
     \<lparr>cc_tenant_id = up_tenant r, cc_upload_id = sur_upload_id stored,
      cc_raw_key = sur_object_key stored, cc_state = sur_state stored,
      cc_transfer = sur_transfer stored, cc_session = sur_session stored,
      cc_derivative_keys = keys, cc_reason = cleanup_reason r,
      cc_attempts = up_cleanup_attempts r + 1\<rparr>"

text \<open>The loop over the selected rows: each is leased and turned into a candidate.\<close>

fun lease_rows :: "string \<Rightarrow> int \<Rightarrow> UploadRow list \<Rightarrow> Database
    \<Rightarrow> (LifecycleRepositoryError, CleanupCandidate list \<times> Database) result" where
  "lease_rows owner lease_until [] db = Ok ([], db)"
| "lease_rows owner lease_until (r # rows) db =
     (if up_cleanup_attempts r + 1 \<ge> 2 ^ 32
      then Err (LifecycleRepositoryError ''cleanup attempts are invalid'')
      else (case stored_upload_from_row r of
          Inl e \<Rightarrow> Err (LifecycleRepositoryError (''cleanup upload row is invalid: '' @ repository_error_text e))
        | Inr stored \<Rightarrow>
          if length (filter (\<lambda>x. up_id x = sur_upload_id stored) (uploads db)) \<noteq> 1
          then Err (LifecycleRepositoryError ''cleanup candidate could not be leased'')
          else (let db1 = update_uploads (\<lambda>x. up_id x = sur_upload_id stored) (lease_cleanup owner lease_until) db in
            and_then (derivative_keys (sur_upload_id stored) db1) (\<lambda>keys.
            and_then (lease_rows owner lease_until rows db1) (\<lambda>(cs, db2).
              Ok (cleanup_candidate r stored keys # cs, db2))))))"

definition cleanup_claim_valid :: "string \<Rightarrow> duration \<Rightarrow> nat \<Rightarrow> nat \<Rightarrow> bool" where
  "cleanup_claim_valid owner lease_for limit max_attempts \<longleftrightarrow>
     owner \<noteq> [] \<and> length owner \<le> 128 \<and> list_all worker_id_byte owner \<and>
     lease_for \<noteq> 0 \<and> lease_for \<le> seconds (60 * 60) \<and>
     1 \<le> limit \<and> limit \<le> 100 \<and> 1 \<le> max_attempts \<and> max_attempts \<le> 100"

definition claim_cleanup_batch :: "string \<Rightarrow> instant \<Rightarrow> instant \<Rightarrow> instant \<Rightarrow> duration \<Rightarrow> nat \<Rightarrow> nat \<Rightarrow> Database
    \<Rightarrow> (LifecycleRepositoryError, CleanupCandidate list) result \<times> Database" where
  "claim_cleanup_batch owner now created_before rejected_before lease_for limit max_attempts db =
     (let lease_until = unix_timestamp now + int (as_secs lease_for) in
      if \<not> cleanup_claim_valid owner lease_for limit max_attempts
      then (Err (LifecycleRepositoryError ''cleanup claim policy is invalid''), db)
      else if lease_until > int i64_max then (Err (LifecycleRepositoryError ''cleanup lease overflow''), db)
      else (case lease_rows owner lease_until
              (cleanup_rows (unix_timestamp now) (unix_timestamp created_before)
                 (unix_timestamp rejected_before) limit max_attempts db) db of
          Inl e \<Rightarrow> (Err e, db)
        | Inr (candidates, db') \<Rightarrow> (Ok candidates, db')))"

section \<open>Ending a cleanup lease\<close>

definition owned_cleanup :: "uuid \<Rightarrow> string \<Rightarrow> UploadRow \<Rightarrow> bool" where
  "owned_cleanup upload_id owner r \<longleftrightarrow>
     up_id r = upload_id \<and> up_state r \<noteq> Deleted \<and> up_cleanup_owner r = Some owner"

definition tombstone :: "int \<Rightarrow> UploadRow \<Rightarrow> UploadRow" where
  "tombstone ts r =
     r\<lparr>up_state := Deleted, up_deleted_at := Some ts, up_updated := ts, up_cleanup_owner := None,
       up_cleanup_until := None, up_cleanup_retry := None, up_cleanup_error := None\<rparr>"

definition complete_cleanup :: "uuid \<Rightarrow> string \<Rightarrow> instant \<Rightarrow> Database
    \<Rightarrow> (LifecycleRepositoryError, unit) result \<times> Database" where
  "complete_cleanup upload_id owner now db =
     (if length (filter (owned_cleanup upload_id owner) (uploads db)) \<noteq> 1
      then (Err (LifecycleRepositoryError ''cleanup lease is not owned by this worker''), db)
      else (Ok (), update_uploads (owned_cleanup upload_id owner) (tombstone (unix_timestamp now)) db))"

definition error_code_byte :: "char \<Rightarrow> bool" where
  "error_code_byte c \<longleftrightarrow> is_ascii_upper c \<or> is_ascii_digit c \<or> c = CHR ''_''"

definition error_code_ok :: "string \<Rightarrow> bool" where
  "error_code_ok e \<longleftrightarrow> e \<noteq> [] \<and> length e \<le> 64 \<and> list_all error_code_byte e"

definition release_cleanup :: "int \<Rightarrow> string \<Rightarrow> int \<Rightarrow> UploadRow \<Rightarrow> UploadRow" where
  "release_cleanup retry_at error_code ts r =
     r\<lparr>up_cleanup_owner := None, up_cleanup_until := None, up_cleanup_retry := Some retry_at,
       up_cleanup_error := Some error_code, up_updated := ts\<rparr>"

definition fail_cleanup :: "uuid \<Rightarrow> string \<Rightarrow> instant \<Rightarrow> instant \<Rightarrow> string \<Rightarrow> Database
    \<Rightarrow> (LifecycleRepositoryError, unit) result \<times> Database" where
  "fail_cleanup upload_id owner now retry_at error_code db =
     (if retry_at \<le> now \<or> \<not> error_code_ok error_code
      then (Err (LifecycleRepositoryError ''cleanup failure policy is invalid''), db)
      else if length (filter (owned_cleanup upload_id owner) (uploads db)) \<noteq> 1
      then (Err (LifecycleRepositoryError ''failed cleanup lease is not owned by this worker''), db)
      else (Ok (), update_uploads (owned_cleanup upload_id owner)
              (release_cleanup (unix_timestamp retry_at) error_code (unix_timestamp now)) db))"

section \<open>Purging tombstones\<close>

definition purgeable :: "int \<Rightarrow> Database \<Rightarrow> UploadRow \<Rightarrow> bool" where
  "purgeable deleted_before db r \<longleftrightarrow>
     up_state r = Deleted \<and> (case up_deleted_at r of None \<Rightarrow> False | Some t \<Rightarrow> t \<le> deleted_before) \<and>
     list_all (\<lambda>p. map_option wm_upload (pol_watermark p) \<noteq> Some (up_id r)) (site_policies db)"

definition purgeable_orphan :: "int \<Rightarrow> OrphanRow \<Rightarrow> bool" where
  "purgeable_orphan deleted_before r \<longleftrightarrow>
     orp_state r = OrphanDeleted \<and> (case orp_deleted_at r of None \<Rightarrow> False | Some t \<Rightarrow> t \<le> deleted_before)"

definition purge_uploads :: "int \<Rightarrow> nat \<Rightarrow> Database \<Rightarrow> UploadRow list" where
  "purge_uploads deleted_before limit db =
     take limit (sort_key (\<lambda>r. (up_deleted_at r, up_id r)) (filter (purgeable deleted_before db) (uploads db)))"

definition purge_orphans :: "int \<Rightarrow> nat \<Rightarrow> Database \<Rightarrow> OrphanRow list" where
  "purge_orphans deleted_before limit db =
     take limit (sort_key (\<lambda>r. (orp_deleted_at r, orp_namespace r, orp_key r))
       (filter (purgeable_orphan deleted_before) (orphans db)))"

definition purge_tombstones :: "instant \<Rightarrow> nat \<Rightarrow> Database
    \<Rightarrow> (LifecycleRepositoryError, nat) result \<times> Database" where
  "purge_tombstones deleted_before limit db =
     (let before = unix_timestamp deleted_before;
          gone = purge_uploads before limit db;
          db1 = delete_uploads (\<lambda>r. up_id r \<in> up_id ` set gone) db;
          purged = length (uploads db) - length (uploads db1);
          remaining = limit - purged;
          gone_orphans = purge_orphans before remaining db1;
          db2 = delete_orphans (\<lambda>r. (orp_namespace r, orp_key r) \<in>
                  (\<lambda>r. (orp_namespace r, orp_key r)) ` set gone_orphans) db1 in
      if limit = 0 \<or> limit > 1000
      then (Err (LifecycleRepositoryError ''tombstone purge limit is invalid''), db)
      else if remaining > 0 then (Ok (purged + (length (orphans db1) - length (orphans db2))), db2)
      else (Ok purged, db1))"

section \<open>The loop over the selected rows\<close>

lemma stored_upload_from_row_Ok:
  "stored_upload_from_row r = Inr stored \<Longrightarrow>
    sur_upload_id stored = up_id r \<and> sur_object_key stored = up_key r \<and> sur_state stored = up_state r"
  by (auto simp: stored_upload_from_row_def ObjectKey_new_def and_then_def split: sum.splits if_splits)

lemma update_rows_twice:
  assumes "\<And>x. p x \<Longrightarrow> \<not> q (f x)"
  shows "update_rows q f (update_rows p f rows) = update_rows (\<lambda>x. p x \<or> q x) f rows"
  using assms by (simp add: update_rows_def)

lemma lease_cleanup_fields [simp]:
  "up_id (lease_cleanup owner t r) = up_id r" "up_key (lease_cleanup owner t r) = up_key r"
  "up_tenant (lease_cleanup owner t r) = up_tenant r" "up_state (lease_cleanup owner t r) = up_state r"
  "up_batch (lease_cleanup owner t r) = up_batch r" "up_expected (lease_cleanup owner t r) = up_expected r"
  "up_delete_requested (lease_cleanup owner t r) = up_delete_requested r"
  "up_cleanup_owner (lease_cleanup owner t r) = Some owner"
  "up_cleanup_until (lease_cleanup owner t r) = Some t"
  by (simp_all add: lease_cleanup_def)

lemma lease_cleanup_row_ok: "upload_row_ok r \<Longrightarrow> upload_row_ok (lease_cleanup owner t r)"
  by (simp add: upload_row_ok_def lease_cleanup_def split: option.splits)

text \<open>What a candidate says of the row it was made from.\<close>

definition candidate_of :: "Database \<Rightarrow> UploadRow \<Rightarrow> CleanupCandidate \<Rightarrow> bool" where
  "candidate_of db r c \<longleftrightarrow> cc_upload_id c = up_id r \<and> cc_tenant_id c = up_tenant r \<and>
     cc_raw_key c = up_key r \<and> cc_state c = up_state r \<and> cc_reason c = cleanup_reason r \<and>
     cc_attempts c = up_cleanup_attempts r + 1 \<and>
     set (cc_derivative_keys c) = drv_key ` {d \<in> set (derivatives db). drv_upload d = up_id r}"

lemma candidate_of_update [simp]: "candidate_of (update_uploads p f db) = candidate_of db"
  by (simp add: candidate_of_def fun_eq_iff)

lemma derivative_keys_Ok:
  "derivative_keys i db = Inr keys \<Longrightarrow>
    set keys = drv_key ` {d \<in> set (derivatives db). drv_upload d = i}"
proof -
  have "collect_results (\<lambda>key. case ObjectKey_new key of
        Inl _ \<Rightarrow> Err (LifecycleRepositoryError m) | Inr k \<Rightarrow> Ok k) ks = Inr keys \<Longrightarrow> keys = ks" for ks keys m
    by (induction ks arbitrary: keys)
      (auto simp: and_then_eq_Inr ObjectKey_new_def split: sum.splits)
  then show "derivative_keys i db = Inr keys \<Longrightarrow> ?thesis"
    by (fastforce simp: derivative_keys_def)
qed

lemma rows_of_uploads: "rows_of (db\<lparr>uploads := us\<rparr>) = (rows_of db)\<lparr>uploads := us\<rparr>"
  by (simp add: rows_of_def)

lemma lease_rows_Cons:
  "lease_rows owner t (r # rows) db = Inr (cs, db') \<longleftrightarrow>
    up_cleanup_attempts r + 1 < 2 ^ 32 \<and> length (filter (\<lambda>x. up_id x = up_id r) (uploads db)) = 1 \<and>
    (\<exists>stored keys cs'. stored_upload_from_row r = Inr stored \<and>
      derivative_keys (up_id r) (update_uploads (\<lambda>x. up_id x = up_id r) (lease_cleanup owner t) db) = Inr keys \<and>
      lease_rows owner t rows (update_uploads (\<lambda>x. up_id x = up_id r) (lease_cleanup owner t) db) = Inr (cs', db') \<and>
      cs = cleanup_candidate r stored keys # cs')"
proof (cases "stored_upload_from_row r")
  case (Inr stored)
  have id: "sur_upload_id stored = up_id r" using stored_upload_from_row_Ok[OF Inr] by simp
  show ?thesis
    by (simp add: Inr id Let_def and_then_eq_Inr split_paired_Ex) blast
qed simp

lemma lease_rows_spec:
  assumes "lease_rows owner t rows db = Inr (cs, db')" "distinct (map up_id rows)"
  shows "rows_of db' = rows_of (db\<lparr>uploads :=
      update_rows (\<lambda>x. up_id x \<in> up_id ` set rows) (lease_cleanup owner t) (uploads db)\<rparr>) \<and>
    list_all2 (candidate_of db) rows cs \<and> (db_ok db \<longrightarrow> db_ok db')"
  using assms
proof (induction rows arbitrary: db cs)
  case Nil
  then show ?case by (simp add: update_rows_def)
next
  case (Cons r rows)
  let ?db1 = "update_uploads (\<lambda>x. up_id x = up_id r) (lease_cleanup owner t) db"
  from lease_rows_Cons[THEN iffD1, OF Cons.prems(1)] obtain stored keys cs' where step:
      "stored_upload_from_row r = Inr stored" "lease_rows owner t rows ?db1 = Inr (cs', db')"
      "cs = cleanup_candidate r stored keys # cs'" "derivative_keys (up_id r) ?db1 = Inr keys"
    by blast
  note f = stored_upload_from_row_Ok[OF step(1)]
  have "distinct (map up_id rows)" "up_id r \<notin> up_id ` set rows" using Cons.prems(2) by auto
  note IH = Cons.IH[OF step(2) this(1)] and new = this(2)
  have "update_rows (\<lambda>x. up_id x \<in> up_id ` set rows) (lease_cleanup owner t) (uploads ?db1) =
      update_rows (\<lambda>x. up_id x = up_id r \<or> up_id x \<in> up_id ` set rows) (lease_cleanup owner t) (uploads db)"
    unfolding update_uploads_rows by (rule update_rows_twice) (use new in auto)
  moreover have "rows_of (?db1\<lparr>uploads := us\<rparr>) = rows_of (db\<lparr>uploads := us\<rparr>)" for us
    by (simp add: rows_of_uploads rows_of_statements(2))
  ultimately have "rows_of db' = rows_of (db\<lparr>uploads :=
      update_rows (\<lambda>x. up_id x \<in> up_id ` set (r # rows)) (lease_cleanup owner t) (uploads db)\<rparr>)"
    using IH by simp
  moreover have "db_ok db \<Longrightarrow> db_ok ?db1"
    by (rule db_ok_update_uploads) (auto intro: lease_cleanup_row_ok)
  moreover have "list_all2 (candidate_of db) (r # rows) cs"
  proof -
    have "candidate_of db r (cleanup_candidate r stored keys)"
      using f derivative_keys_Ok[OF step(4)] by (simp add: candidate_of_def cleanup_candidate_def)
    then show ?thesis using IH by (simp add: step(3))
  qed
  ultimately show ?case using IH by blast
qed

lemma cleanup_rows_props:
  assumes "distinct (map up_id (uploads db))"
  shows "distinct (map up_id (cleanup_rows now cb rb limit m db))"
    "length (cleanup_rows now cb rb limit m db) \<le> limit"
    "r \<in> set (cleanup_rows now cb rb limit m db) \<Longrightarrow> r \<in> set (uploads db) \<and> cleanup_eligible now cb rb m r"
proof -
  have "set (map up_id (sort_key cleanup_order (filter (cleanup_eligible now cb rb m) (uploads db)))) =
      set (map up_id (filter (cleanup_eligible now cb rb m) (uploads db)))" by simp
  then have "distinct (map up_id (sort_key cleanup_order (filter (cleanup_eligible now cb rb m) (uploads db))))"
    using assms by (metis card_distinct distinct_card distinct_map_filter length_map length_sort)
  then show "distinct (map up_id (cleanup_rows now cb rb limit m db))"
    by (simp add: cleanup_rows_def take_map[symmetric] distinct_take)
  show "length (cleanup_rows now cb rb limit m db) \<le> limit" by (simp add: cleanup_rows_def)
  show "r \<in> set (cleanup_rows now cb rb limit m db) \<Longrightarrow> r \<in> set (uploads db) \<and> cleanup_eligible now cb rb m r"
    by (auto simp: cleanup_rows_def dest: in_set_takeD)
qed

lemma claim_cleanup_cases:
  obtains e where "claim_cleanup_batch w now cb rb d n m db = (Err e, db)"
  | cs db' where "claim_cleanup_batch w now cb rb d n m db = (Ok cs, db')"
      "cleanup_claim_valid w d n m" "lease_rows w (unix_timestamp now + int (as_secs d))
         (cleanup_rows (unix_timestamp now) (unix_timestamp cb) (unix_timestamp rb) n m db) db = Inr (cs, db')"
proof (cases "lease_rows w (unix_timestamp now + int (as_secs d))
    (cleanup_rows (unix_timestamp now) (unix_timestamp cb) (unix_timestamp rb) n m db) db")
  case (Inl e)
  then have "\<exists>e. claim_cleanup_batch w now cb rb d n m db = (Err e, db)"
    by (simp add: claim_cleanup_batch_def Let_def)
  then show ?thesis using that(1) by blast
next
  case (Inr r)
  obtain cs db' where r: "r = (cs, db')" by (cases r)
  have "(\<exists>e. claim_cleanup_batch w now cb rb d n m db = (Err e, db)) \<or>
      cleanup_claim_valid w d n m \<and> claim_cleanup_batch w now cb rb d n m db = (Ok cs, db')"
    using Inr r by (simp add: claim_cleanup_batch_def Let_def)
  then show ?thesis using that Inr r by blast
qed

lemma claim_cleanup_Ok:
  assumes "db_ok db" "claim_cleanup_batch w now cb rb d n m db = (Ok cs, db')"
  defines "rows \<equiv> cleanup_rows (unix_timestamp now) (unix_timestamp cb) (unix_timestamp rb) n m db"
  shows "uploads db' = update_rows (\<lambda>x. up_id x \<in> up_id ` set rows)
      (lease_cleanup w (unix_timestamp now + int (as_secs d))) (uploads db)"
    "derivatives db' = derivatives db" "site_policies db' = site_policies db"
    "list_all2 (candidate_of db) rows cs" "db_ok db'" "cleanup_claim_valid w d n m"
proof -
  have ids: "distinct (map up_id (uploads db))" using assms(1) by (simp add: db_ok_def unique_keys_ok_def)
  obtain *: "cleanup_claim_valid w d n m"
      "lease_rows w (unix_timestamp now + int (as_secs d)) rows db = Inr (cs, db')"
    by (rule claim_cleanup_cases[of w now cb rb d n m db]) (use assms(2) in \<open>auto simp: rows_def\<close>)
  note spec = lease_rows_spec[OF *(2)[unfolded rows_def] cleanup_rows_props(1)[OF ids], folded rows_def]
  note fields = rows_of_fields[OF conjunct1[OF spec]]
  show "uploads db' = update_rows (\<lambda>x. up_id x \<in> up_id ` set rows)
      (lease_cleanup w (unix_timestamp now + int (as_secs d))) (uploads db)"
    "derivatives db' = derivatives db" "site_policies db' = site_policies db"
    using fields by simp_all
  show "list_all2 (candidate_of db) rows cs" "db_ok db'" "cleanup_claim_valid w d n m"
    using spec assms(1) *(1) by auto
qed

section \<open>Well-formedness and lifecycle\<close>

lemma length_filter_key:
  "distinct (map key rows) \<Longrightarrow> k \<in> key ` set rows \<Longrightarrow> length (filter (\<lambda>x. key x = k) rows) = 1"
  by (induction rows) (auto simp: filter_empty_conv image_iff)


lemma request_deletion_cases:
  obtains res where "request_deletion t i now db = (res, db)" "res \<noteq> Ok Accepted"
  | r where "request_deletion t i now db = (Ok Accepted,
        update_uploads (requestable t i) (set_delete_requested (unix_timestamp now)) db)"
      "find_upload_row t i db = Some r" "deletable (up_state r)" "up_delete_requested r = None"
      "policy_references i db = 0"
proof (cases "find_upload_row t i db")
  case None
  then show ?thesis using that(1) by (simp add: request_deletion_def)
next
  case (Some r)
  then have "(\<exists>res. request_deletion t i now db = (res, db) \<and> res \<noteq> Ok Accepted) \<or>
      request_deletion t i now db = (Ok Accepted,
        update_uploads (requestable t i) (set_delete_requested (unix_timestamp now)) db) \<and>
      deletable (up_state r) \<and> up_delete_requested r = None \<and> policy_references i db = 0"
    by (simp add: request_deletion_def)
  then show ?thesis using that Some by blast
qed

lemma request_deletion_ok: "db_ok db \<Longrightarrow> db_ok (snd (request_deletion t i now db))"
  by (cases rule: request_deletion_cases[of t i now db])
    (auto intro!: db_ok_update_uploads simp: set_delete_requested_def upload_row_ok_def split: option.splits)

lemma claim_cleanup_batch_ok: "db_ok db \<Longrightarrow> db_ok (snd (claim_cleanup_batch w now cb rb d n m db))"
  by (cases rule: claim_cleanup_cases[of w now cb rb d n m db]) (auto dest: claim_cleanup_Ok(5))

lemma complete_cleanup_ok: "db_ok db \<Longrightarrow> db_ok (snd (complete_cleanup i w now db))"
  by (auto intro!: db_ok_update_uploads simp: complete_cleanup_def tombstone_def upload_row_ok_def
      split: option.splits)

lemma fail_cleanup_ok: "db_ok db \<Longrightarrow> db_ok (snd (fail_cleanup i w now retry e db))"
  by (auto intro!: db_ok_update_uploads simp: fail_cleanup_def release_cleanup_def upload_row_ok_def
      split: option.splits)

lemma purge_tombstones_ok:
  assumes "db_ok db"
  shows "db_ok (snd (purge_tombstones before limit db))"
proof -
  let ?gone = "purge_uploads (unix_timestamp before) limit db"
  have ids: "distinct (map up_id (uploads db))" using assms by (simp add: db_ok_def unique_keys_ok_def)
  have unpinned: "wm_upload w \<noteq> up_id r"
    if "r \<in> set (uploads db)" "up_id r \<in> up_id ` set ?gone" "q \<in> set (site_policies db)" "pol_watermark q = Some w"
    for r q w
  proof -
    note given = that
    obtain g where g: "g \<in> set ?gone" "up_id g = up_id r" using given(2) by auto
    then have "purgeable (unix_timestamp before) db g" by (auto simp: purge_uploads_def dest!: in_set_takeD)
    then show ?thesis using given(3,4) g(2) by (auto simp: purgeable_def list_all_iff)
  qed
  have "db_ok (delete_uploads (\<lambda>r. up_id r \<in> up_id ` set ?gone) db)"
    using assms unpinned by (rule db_ok_delete_uploads)
  then show ?thesis using assms by (auto simp: purge_tombstones_def Let_def intro!: db_ok_orphans(3))
qed

lemma cleanup_lifecycle:
  assumes "db_ok db"
  shows "follows_lifecycle db (snd (request_deletion t i now db))"
    "follows_lifecycle db (snd (claim_cleanup_batch w now cb rb d n m db))"
    "follows_lifecycle db (snd (complete_cleanup i w now db))"
    "follows_lifecycle db (snd (fail_cleanup i w now retry e db))"
    "follows_lifecycle db (snd (purge_tombstones before limit db))"
proof -
  have same: "follows_lifecycle db db" using assms by (rule follows_lifecycle_same) simp
  show "follows_lifecycle db (snd (request_deletion t i now db))"
    using same follows_lifecycle_update[OF assms update_uploads_rows(1)[of "requestable t i"
        "set_delete_requested (unix_timestamp now)" db]]
    by (cases rule: request_deletion_cases[of t i now db]) (auto simp: set_delete_requested_def)
  show "follows_lifecycle db (snd (claim_cleanup_batch w now cb rb d n m db))"
  proof (cases rule: claim_cleanup_cases[of w now cb rb d n m db])
    case (2 cs db')
    then show ?thesis
      using follows_lifecycle_update[OF assms claim_cleanup_Ok(1)[OF assms 2(1)]] by simp
  qed (use same in simp)
  have "can_transition_to\<^sup>*\<^sup>* (up_state r) Deleted" if "owned_cleanup i w r" for r
    using that by (cases "up_state r") (auto simp: owned_cleanup_def)
  then show "follows_lifecycle db (snd (complete_cleanup i w now db))"
    using same follows_lifecycle_update[OF assms update_uploads_rows(1)[of "owned_cleanup i w"
        "tombstone (unix_timestamp now)" db]]
    by (auto simp: complete_cleanup_def tombstone_def)
  show "follows_lifecycle db (snd (fail_cleanup i w now retry e db))"
    using same follows_lifecycle_update[OF assms update_uploads_rows(1)[of "owned_cleanup i w"
        "release_cleanup (unix_timestamp retry) e (unix_timestamp now)" db]]
    by (auto simp: fail_cleanup_def release_cleanup_def)
  let ?gone = "purge_uploads (unix_timestamp before) limit db"
  have ids: "distinct (map up_id (uploads db))" using assms by (simp add: db_ok_def unique_keys_ok_def)
  have gone: "set ?gone \<subseteq> set (uploads db)" "\<And>r. r \<in> set ?gone \<Longrightarrow> up_state r = Deleted"
    by (auto simp: purge_uploads_def purgeable_def dest!: in_set_takeD)
  have "follows_lifecycle db (delete_uploads (\<lambda>r. up_id r \<in> up_id ` set ?gone) db)"
  proof (rule follows_lifecycle_delete[OF assms, where p = "\<lambda>r. up_id r \<in> up_id ` set ?gone \<and> up_state r = Deleted"])
    show "uploads (delete_uploads (\<lambda>r. up_id r \<in> up_id ` set ?gone) db) =
        filter (\<lambda>r. \<not> (up_id r \<in> up_id ` set ?gone \<and> up_state r = Deleted)) (uploads db)"
      using gone ids by (auto simp: distinct_map inj_on_def intro!: filter_cong)
  qed simp
  then show "follows_lifecycle db (snd (purge_tombstones before limit db))"
    using same by (simp add: purge_tombstones_def Let_def follows_lifecycle_def)
qed

section \<open>Cleanup leases are exclusive\<close>

definition cleanup_holder :: "Database \<Rightarrow> uuid \<Rightarrow> (string \<times> int) option" where
  "cleanup_holder db i = (case lookup_row up_id i (uploads db) of
     None \<Rightarrow> None
   | Some r \<Rightarrow> if up_state r = Deleted then None
              else (case (up_cleanup_owner r, up_cleanup_until r) of
                  (Some w, Some t) \<Rightarrow> Some (w, t) | _ \<Rightarrow> None))"

datatype CleanupOp =
    OpRequest string uuid instant
  | OpClaimCleanup string instant instant instant duration nat nat
  | OpCompleteCleanup uuid string instant
  | OpFailCleanup uuid string instant instant string
  | OpPurge instant nat

fun cleanup_step :: "CleanupOp \<Rightarrow> Database \<Rightarrow> Database" where
  "cleanup_step (OpRequest t i now) db = snd (request_deletion t i now db)"
| "cleanup_step (OpClaimCleanup w now cb rb d n m) db = snd (claim_cleanup_batch w now cb rb d n m db)"
| "cleanup_step (OpCompleteCleanup i w now) db = snd (complete_cleanup i w now db)"
| "cleanup_step (OpFailCleanup i w now retry e) db = snd (fail_cleanup i w now retry e db)"
| "cleanup_step (OpPurge before n) db = snd (purge_tombstones before n db)"

fun cleanup_actor :: "CleanupOp \<Rightarrow> string option" where
  "cleanup_actor (OpRequest _ _ _) = None"
| "cleanup_actor (OpClaimCleanup w _ _ _ _ _ _) = Some w"
| "cleanup_actor (OpCompleteCleanup _ w _) = Some w"
| "cleanup_actor (OpFailCleanup _ w _ _ _) = Some w"
| "cleanup_actor (OpPurge _ _) = None"

fun cleanup_time :: "CleanupOp \<Rightarrow> int" where
  "cleanup_time (OpRequest _ _ now) = unix_timestamp now"
| "cleanup_time (OpClaimCleanup _ now _ _ _ _ _) = unix_timestamp now"
| "cleanup_time (OpCompleteCleanup _ _ now) = unix_timestamp now"
| "cleanup_time (OpFailCleanup _ _ now _ _) = unix_timestamp now"
| "cleanup_time (OpPurge before _) = unix_timestamp before"

lemma cleanup_step_ok: "db_ok db \<Longrightarrow> db_ok (cleanup_step op db)"
  by (cases op) (simp_all add: request_deletion_ok claim_cleanup_batch_ok complete_cleanup_ok
      fail_cleanup_ok purge_tombstones_ok)

lemma cleanup_holder_Some:
  "cleanup_holder db i = Some (w, t) \<longleftrightarrow> (\<exists>r. lookup_row up_id i (uploads db) = Some r \<and>
     up_state r \<noteq> Deleted \<and> up_cleanup_owner r = Some w \<and> up_cleanup_until r = Some t)"
  by (auto simp: cleanup_holder_def split: option.splits)

lemma cleanup_holder_update:
  assumes "cleanup_holder db i = Some (w, t)" "uploads db' = update_rows p f (uploads db)"
    and "\<And>r. p r \<Longrightarrow> up_id (f r) = up_id r"
    and "\<And>r. p r \<Longrightarrow> up_id r = i \<Longrightarrow> r \<in> set (uploads db) \<Longrightarrow> up_state r \<noteq> Deleted \<Longrightarrow> up_cleanup_owner r = Some w \<Longrightarrow>
      up_cleanup_until r = Some t \<Longrightarrow>
      up_state (f r) \<noteq> Deleted \<and> up_cleanup_owner (f r) = Some w \<and> up_cleanup_until (f r) = Some t"
  shows "cleanup_holder db' i = Some (w, t)"
proof -
  obtain r where r: "lookup_row up_id i (uploads db) = Some r" "up_state r \<noteq> Deleted"
      "up_cleanup_owner r = Some w" "up_cleanup_until r = Some t"
    using assms(1) by (auto simp: cleanup_holder_Some)
  note row = lookup_row_Some[OF r(1)]
  have "lookup_row up_id i (uploads db') = Some (if p r then f r else r)"
    using r(1) assms(3) by (simp add: assms(2) lookup_update_rows)
  then show ?thesis using r row assms(4)[of r] by (simp add: cleanup_holder_Some)
qed

lemma cleanup_holder_purge:
  assumes "db_ok db" "cleanup_holder db i = Some (w, t)"
  shows "cleanup_holder (snd (purge_tombstones before n db)) i = Some (w, t)"
proof -
  let ?gone = "purge_uploads (unix_timestamp before) n db"
  have ids: "distinct (map up_id (uploads db))" using assms(1) by (simp add: db_ok_def unique_keys_ok_def)
  obtain r where r: "lookup_row up_id i (uploads db) = Some r" "up_state r \<noteq> Deleted"
      "up_cleanup_owner r = Some w" "up_cleanup_until r = Some t"
    using assms(2) by (auto simp: cleanup_holder_Some)
  note row = lookup_row_Some[OF r(1)]
  have "up_id r \<notin> up_id ` set ?gone"
  proof
    assume "up_id r \<in> up_id ` set ?gone"
    then obtain g where "g \<in> set (uploads db)" "up_id g = up_id r" "up_state g = Deleted"
      by (auto simp: purge_uploads_def purgeable_def dest!: in_set_takeD)
    then show False using ids row r(2) by (auto simp: distinct_map inj_on_def)
  qed
  then have "lookup_row up_id i (filter (\<lambda>r. up_id r \<notin> up_id ` set ?gone) (uploads db)) = Some r"
    using row ids by (auto intro!: lookup_row_unique simp: distinct_map_filter)
  then show ?thesis
    using r assms(2) by (auto simp: purge_tombstones_def Let_def cleanup_holder_Some)
qed

lemma cleanup_holder_step:
  assumes "db_ok db" "cleanup_holder db i = Some (w, t)" "cleanup_time op < t" "cleanup_actor op \<noteq> Some w"
  shows "cleanup_holder (cleanup_step op db) i = Some (w, t)"
proof (cases op)
  case (OpRequest tenant j now)
  then show ?thesis
    using assms(2) cleanup_holder_update[OF assms(2) update_uploads_rows(1)[of "requestable tenant j"
        "set_delete_requested (unix_timestamp now)" db]]
    by (cases rule: request_deletion_cases[of tenant j now db]) (auto simp: set_delete_requested_def)
next
  case (OpClaimCleanup v now cb rb d n m)
  show ?thesis
  proof (cases rule: claim_cleanup_cases[of v now cb rb d n m db])
    case (2 cs db')
    let ?rows = "cleanup_rows (unix_timestamp now) (unix_timestamp cb) (unix_timestamp rb) n m db"
    have ids: "distinct (map up_id (uploads db))" using assms(1) by (simp add: db_ok_def unique_keys_ok_def)
    have unselected: "up_id r \<notin> up_id ` set ?rows"
      if "r \<in> set (uploads db)" "up_cleanup_until r = Some t" for r
    proof
      assume "up_id r \<in> up_id ` set ?rows"
      then obtain g where g: "g \<in> set ?rows" "up_id g = up_id r" by auto
      then have "g = r" using that cleanup_rows_props(3)[OF ids g(1)] ids by (auto simp: distinct_map inj_on_def)
      then show False
        using cleanup_rows_props(3)[OF ids g(1)] \<open>up_cleanup_until r = Some t\<close> assms(3) OpClaimCleanup
        by (simp add: cleanup_eligible_def)
    qed
    have "cleanup_holder db' i = Some (w, t)"
      by (rule cleanup_holder_update[OF assms(2) claim_cleanup_Ok(1)[OF assms(1) 2(1)]])
        (use unselected in auto)
    then show ?thesis using OpClaimCleanup 2(1) by simp
  qed (use assms(2) OpClaimCleanup in simp)
next
  case (OpCompleteCleanup j v now)
  then show ?thesis
    using assms(2,4) cleanup_holder_update[OF assms(2) update_uploads_rows(1)[of "owned_cleanup j v"
        "tombstone (unix_timestamp now)" db]]
    by (auto simp: complete_cleanup_def owned_cleanup_def tombstone_def)
next
  case (OpFailCleanup j v now retry e)
  then show ?thesis
    using assms(2,4) cleanup_holder_update[OF assms(2) update_uploads_rows(1)[of "owned_cleanup j v"
        "release_cleanup (unix_timestamp retry) e (unix_timestamp now)" db]]
    by (auto simp: fail_cleanup_def owned_cleanup_def release_cleanup_def)
next
  case (OpPurge before n)
  then show ?thesis using cleanup_holder_purge[OF assms(1,2)] by simp
qed

interpretation cleanup_leases: lease_protocol cleanup_step cleanup_actor cleanup_time cleanup_holder db_ok
  by unfold_locales (auto intro: cleanup_step_ok cleanup_holder_step)

lemma candidate_row:
  assumes "list_all2 (candidate_of db) rows cs" "c \<in> set cs"
  obtains r where "r \<in> set rows" "candidate_of db r c"
  using assms by (metis list_all2_conv_all_nth in_set_conv_nth nth_mem)

lemma claimed_cleanup_held:
  assumes "db_ok db" "claim_cleanup_batch w now cb rb d n m db = (Ok cs, db')" "c \<in> set cs"
  shows "cleanup_holder db' (cc_upload_id c) = Some (w, unix_timestamp now + int (as_secs d))"
proof -
  note claimed = claim_cleanup_Ok[OF assms(1,2)]
  have ids: "distinct (map up_id (uploads db))" using assms(1) by (simp add: db_ok_def unique_keys_ok_def)
  from claimed(4) assms(3) obtain r where
      r: "r \<in> set (cleanup_rows (unix_timestamp now) (unix_timestamp cb) (unix_timestamp rb) n m db)"
        "candidate_of db r c" by (rule candidate_row)
  note row = cleanup_rows_props(3)[OF ids r(1)]
  have "lookup_row up_id (up_id r) (uploads db) = Some r" using lookup_row_unique[OF ids] row by simp
  then have "lookup_row up_id (cc_upload_id c) (uploads db') =
      Some (lease_cleanup w (unix_timestamp now + int (as_secs d)) r)"
    using r by (simp add: claimed(1) lookup_update_rows candidate_of_def)
  then show ?thesis using row by (simp add: cleanup_holder_Some cleanup_eligible_def)
qed

text \<open>
  An upload handed to a maintenance run for cleanup stays leased to that run until the deadline:
  whatever deletions other runs and users request, claim, complete, fail or purge before it, in
  whatever order, the lease is still the run's own with the same deadline.
\<close>

theorem cleanup_lease_is_exclusive:
  assumes "db_ok db" "claim_cleanup_batch w now cb rb d n m db = (Ok cs, db')" "c \<in> set cs"
    and "list_all (\<lambda>op. cleanup_time op < unix_timestamp now + int (as_secs d) \<and>
           cleanup_actor op \<noteq> Some w) ops"
  shows "cleanup_holder (fold cleanup_step ops db') (cc_upload_id c) =
    Some (w, unix_timestamp now + int (as_secs d))"
  using cleanup_leases.lease_protected[OF _ claimed_cleanup_held[OF assms(1-3)] assms(4)]
    claim_cleanup_Ok(5)[OF assms(1,2)] by simp

text \<open>Two reservations of the samples are never confirmed, and a run claims the older one.\<close>

definition expired_row :: UploadRow where
  "expired_row = sample_upload 1 ''a'' ''raw/a/1/source'' Created"

lemma sample_cleanup_rows:
  "cleanup_rows 100 50 50 (Suc 0) 3 (sample_uploads_db Created) = [expired_row]"
  by (simp add: cleanup_rows_def cleanup_eligible_def expired_row_def sample_upload_def cleanup_order_def
      sort_key_def insort_key_def)

definition expired_stored :: StoredUploadReservation where
  "expired_stored = \<lparr>sur_upload_id = 1, sur_object_key = ''raw/a/1/source'', sur_expected_size = 1000,
     sur_state = Created, sur_transfer = SinglePut, sur_session = None\<rparr>"

lemma sample_stored: "stored_upload_from_row expired_row = Ok expired_stored"
  using key_bytes(1) by (simp add: stored_upload_from_row_def expired_row_def sample_upload_def
      ObjectKey_new_def valid_object_key_def expired_stored_def)

lemma sample_lease_rows:
  "lease_rows ''m1'' 130 [expired_row] (sample_uploads_db Created) =
     Inr ([cleanup_candidate expired_row expired_stored []],
      update_uploads (\<lambda>x. up_id x = 1) (lease_cleanup ''m1'' 130) (sample_uploads_db Created))"
proof -
  have "up_cleanup_attempts expired_row = 0" "sur_upload_id expired_stored = 1"
    by (simp_all add: expired_row_def sample_upload_def expired_stored_def)
  moreover have "length (filter (\<lambda>x. up_id x = 1) (uploads (sample_uploads_db Created))) = 1"
    by (simp add: sample_upload_def)
  ultimately show ?thesis by (simp add: sample_stored derivative_keys_def Let_def)
qed

lemma sample_cleanup_claim:
  "claim_cleanup_batch ''m1'' 100000000000 50000000000 50000000000 30000000000 1 3 (sample_uploads_db Created) =
     (Ok [cleanup_candidate expired_row expired_stored []],
      update_uploads (\<lambda>x. up_id x = 1) (lease_cleanup ''m1'' 130) (sample_uploads_db Created))"
  by (simp add: claim_cleanup_batch_def cleanup_claim_valid_def worker_id_byte_def is_ascii_alphanumeric_def
      is_ascii_lower_def is_ascii_digit_def is_ascii_upper_def byte_of_def seconds_def as_secs_def
      unix_timestamp_def i64_max_def sample_cleanup_rows sample_lease_rows del: lease_rows.simps)

theorem cleanup_lease_is_exclusive_witness:
  "cleanup_holder (fold cleanup_step
     [OpRequest ''a'' 1 110000000000,
      OpClaimCleanup ''m2'' 120000000000 60000000000 60000000000 30000000000 5 3,
      OpFailCleanup 1 ''m2'' 121000000000 125000000000 ''RAW_DELETE_FAILED'']
     (snd (claim_cleanup_batch ''m1'' 100000000000 50000000000 50000000000 30000000000 1 3
        (sample_uploads_db Created)))) 1 = Some (''m1'', 130)"
proof -
  let ?c = "cleanup_candidate expired_row expired_stored []"
  let ?ops = "[OpRequest ''a'' 1 110000000000,
    OpClaimCleanup ''m2'' 120000000000 60000000000 60000000000 30000000000 5 3,
    OpFailCleanup 1 ''m2'' 121000000000 125000000000 ''RAW_DELETE_FAILED'']"
  have c: "cc_upload_id ?c = 1" by (simp add: cleanup_candidate_def expired_stored_def)
  have t: "unix_timestamp 100000000000 + int (as_secs 30000000000) = 130"
    by (simp add: unix_timestamp_def as_secs_def)
  have "list_all (\<lambda>op. cleanup_time op < 130 \<and> cleanup_actor op \<noteq> Some ''m1'') ?ops"
    by (simp add: unix_timestamp_def)
  from cleanup_lease_is_exclusive[OF sample_uploads_db_ok sample_cleanup_claim, of ?c ?ops,
      unfolded t c, OF _ this]
  show ?thesis unfolding sample_cleanup_claim snd_conv by simp
qed

section \<open>Which uploads are cleaned up\<close>

definition deletion_accepted :: "string \<Rightarrow> uuid \<Rightarrow> Database \<Rightarrow> bool" where
  "deletion_accepted t i db \<longleftrightarrow>
     (case find_upload_row t i db of None \<Rightarrow> False
      | Some r \<Rightarrow> up_state r \<in> {Created, Ready, Rejected, Failed} \<and> up_delete_requested r = None) \<and>
     list_all (\<lambda>p. map_option wm_upload (pol_watermark p) \<noteq> Some i) (site_policies db)"

lemma policy_references_zero:
  "policy_references i db = 0 \<longleftrightarrow>
     list_all (\<lambda>p. map_option wm_upload (pol_watermark p) \<noteq> Some i) (site_policies db)"
  by (simp add: policy_references_def filter_empty_conv list_all_iff)

lemma request_deletion_accepts:
  assumes "db_ok db" "deletion_accepted t i db"
  shows "request_deletion t i now db = (Ok Accepted,
      update_uploads (requestable t i) (set_delete_requested (unix_timestamp now)) db)"
proof -
  obtain r where r: "find_upload_row t i db = Some r" "deletable (up_state r)" "up_delete_requested r = None"
    using assms(2) by (auto simp: deletion_accepted_def deletable_def split: option.splits)
  note row = find_upload_row_Some[OF r(1)]
  have "filter (requestable t i) (uploads db) = filter (\<lambda>x. up_id x = i) (uploads db)"
    using assms(1) row r by (auto simp: requestable_def db_ok_def unique_keys_ok_def distinct_map inj_on_def
        intro!: filter_cong)
  moreover have "length (filter (\<lambda>x. up_id x = i) (uploads db)) = 1"
    using assms(1) row by (intro length_filter_key) (auto simp: db_ok_def unique_keys_ok_def)
  ultimately show ?thesis
    using assms(2) r by (simp add: request_deletion_def deletion_accepted_def policy_references_zero)
      (auto simp: deletable_def)
qed

text \<open>
  A deletion request is accepted exactly for an existing upload of the tenant in a state from
  which it may be deleted, without a request so far and pinned by no site policy.  It then marks
  that upload and no other, and asking again changes nothing; refused, it changes nothing either.
\<close>

theorem request_deletion_outcome:
  assumes "db_ok db"
  shows "if deletion_accepted t i db
    then fst (request_deletion t i now db) = Ok Accepted \<and>
      uploads (snd (request_deletion t i now db)) =
        map (\<lambda>r. if up_id r = i then set_delete_requested (unix_timestamp now) r else r) (uploads db) \<and>
      jobs (snd (request_deletion t i now db)) = jobs db \<and>
      request_deletion t i later (snd (request_deletion t i now db)) =
        (Ok AlreadyPending, snd (request_deletion t i now db))
    else fst (request_deletion t i now db) \<noteq> Ok Accepted \<and> snd (request_deletion t i now db) = db"
proof (cases "deletion_accepted t i db")
  case True
  let ?db' = "update_uploads (requestable t i) (set_delete_requested (unix_timestamp now)) db"
  note eq = request_deletion_accepts[OF assms True, of now]
  obtain r where r: "find_upload_row t i db = Some r" "deletable (up_state r)" "up_delete_requested r = None"
    using True by (auto simp: deletion_accepted_def deletable_def split: option.splits)
  note row = find_upload_row_Some[OF r(1)]
  have same: "x = r" if "x \<in> set (uploads db)" "up_id x = i" for x
    using that row assms by (auto simp: db_ok_def unique_keys_ok_def distinct_map inj_on_def)
  have us: "uploads ?db' =
      map (\<lambda>r. if up_id r = i then set_delete_requested (unix_timestamp now) r else r) (uploads db)"
    unfolding update_uploads_rows update_rows_def
  proof (rule map_cong[OF refl])
    fix x assume "x \<in> set (uploads db)"
    then have "requestable t i x \<longleftrightarrow> up_id x = i"
      using same[of x] row r by (auto simp: requestable_def)
    then show "(if requestable t i x then set_delete_requested (unix_timestamp now) x else x) =
        (if up_id x = i then set_delete_requested (unix_timestamp now) x else x)" by simp
  qed
  have "set_delete_requested (unix_timestamp now) r \<in> set (uploads ?db')"
    unfolding us set_map by (rule image_eqI[of _ _ r]) (use row in auto)
  from find_upload_row_unique[OF _ this] have "find_upload_row t i ?db' = Some (set_delete_requested (unix_timestamp now) r)"
    using request_deletion_ok[OF assms, of t i now] row by (simp add: eq set_delete_requested_def)
  then have "request_deletion t i later ?db' = (Ok AlreadyPending, ?db')"
    using r(2) by (auto simp: request_deletion_def set_delete_requested_def deletable_def)
  then show ?thesis using True us by (simp add: eq)
next
  case False
  then show ?thesis
    by (cases rule: request_deletion_cases[of t i now db])
      (auto simp: deletion_accepted_def policy_references_zero deletable_def)
qed

theorem request_deletion_outcome_witness:
  "deletion_accepted ''a'' 1 (sample_uploads_db Ready) \<and> \<not> deletion_accepted ''a'' 2 (sample_uploads_db Ready) \<and>
   fst (request_deletion ''a'' 1 9000000000 (sample_uploads_db Ready)) = Ok Accepted"
proof -
  have acc: "deletion_accepted ''a'' 1 (sample_uploads_db Ready)"
    "\<not> deletion_accepted ''a'' 2 (sample_uploads_db Ready)"
    by (simp_all add: deletion_accepted_def find_upload_row_def sample_upload_def)
  show ?thesis
    using request_deletion_outcome[OF sample_uploads_db_ok[of Ready], where t = "''a''" and i = 1
        and now = 9000000000] acc by simp
qed

definition due_uploads :: "instant \<Rightarrow> instant \<Rightarrow> instant \<Rightarrow> nat \<Rightarrow> Database \<Rightarrow> UploadRow list" where
  "due_uploads now created_before rejected_before max_attempts db =
     filter (cleanup_eligible (unix_timestamp now) (unix_timestamp created_before)
       (unix_timestamp rejected_before) max_attempts) (uploads db)"

text \<open>
  A maintenance run claims only uploads that are due: requested for deletion, or reserved and
  never confirmed since the cut-off, or rejected since the cut-off; none is a tombstone, leased to
  another run or past the attempt ceiling.  It claims at most its limit, none twice, says of each
  what its row holds, and all that are due when they fit the limit.
\<close>

theorem cleanup_claims_exactly_due:
  assumes "db_ok db" "claim_cleanup_batch w now cb rb d n m db = (Ok cs, db')"
  shows "length cs \<le> n \<and> distinct (map cc_upload_id cs) \<and>
    (\<forall>c\<in>set cs. \<exists>r\<in>set (due_uploads now cb rb m db). candidate_of db r c) \<and>
    (length (due_uploads now cb rb m db) \<le> n \<longrightarrow>
       cc_upload_id ` set cs = up_id ` set (due_uploads now cb rb m db))"
proof -
  let ?rows = "cleanup_rows (unix_timestamp now) (unix_timestamp cb) (unix_timestamp rb) n m db"
  have ids: "distinct (map up_id (uploads db))" using assms(1) by (simp add: db_ok_def unique_keys_ok_def)
  note c = claim_cleanup_Ok(4)[OF assms]
  have map_ids: "map cc_upload_id cs = map up_id ?rows"
    using c by (induction rule: list_all2_induct) (simp_all add: candidate_of_def)
  have sub: "set ?rows \<subseteq> set (due_uploads now cb rb m db)"
    using cleanup_rows_props(3)[OF ids] by (auto simp: due_uploads_def)
  have "length cs \<le> n" using list_all2_lengthD[OF c] cleanup_rows_props(2)[OF ids] by metis
  moreover have "distinct (map cc_upload_id cs)" unfolding map_ids by (rule cleanup_rows_props(1)[OF ids])
  moreover have "\<forall>x\<in>set cs. \<exists>r\<in>set (due_uploads now cb rb m db). candidate_of db r x"
    using candidate_row[OF c] sub by blast
  moreover have "cc_upload_id ` set cs = up_id ` set (due_uploads now cb rb m db)"
    if "length (due_uploads now cb rb m db) \<le> n"
  proof -
    have "?rows = sort_key cleanup_order (due_uploads now cb rb m db)"
      using that by (simp add: cleanup_rows_def due_uploads_def)
    then show ?thesis using arg_cong[OF map_ids, of set] by simp
  qed
  ultimately show ?thesis by blast
qed

theorem cleanup_claims_exactly_due_witness:
  "due_uploads 100000000000 50000000000 50000000000 3 (sample_uploads_db Created) =
     uploads (sample_uploads_db Created) \<and>
   (\<exists>r\<in>set (uploads (sample_uploads_db Created)).
      candidate_of (sample_uploads_db Created) r (cleanup_candidate expired_row expired_stored []))"
proof -
  have due: "due_uploads 100000000000 50000000000 50000000000 3 (sample_uploads_db Created) =
      uploads (sample_uploads_db Created)"
    by (simp add: due_uploads_def cleanup_eligible_def sample_upload_def unix_timestamp_def)
  from cleanup_claims_exactly_due[OF sample_uploads_db_ok sample_cleanup_claim, unfolded due] due
  show ?thesis by simp
qed

section \<open>Purging\<close>

lemma limited_delete:
  assumes "distinct (map key rows)" "set gone \<subseteq> set rows" "length gone \<le> limit"
  shows "length rows - length (filter (\<lambda>r. key r \<notin> key ` set gone) rows) \<le> limit"
    "r \<in> set rows \<Longrightarrow> key r \<in> key ` set gone \<Longrightarrow> r \<in> set gone"
proof -
  have inj: "inj_on key (set rows)" and dist: "distinct rows" using assms(1) by (auto simp: distinct_map)
  show in_gone: "r \<in> set rows \<Longrightarrow> key r \<in> key ` set gone \<Longrightarrow> r \<in> set gone" for r
    using inj assms(2) by (auto simp: inj_on_def)
  have "length (filter (\<lambda>r. key r \<in> key ` set gone) rows) =
      card (set (filter (\<lambda>r. key r \<in> key ` set gone) rows))"
    using dist by (intro distinct_card[symmetric]) simp
  also have "\<dots> \<le> card (set gone)" by (rule card_mono) (auto intro: in_gone)
  also have "\<dots> \<le> limit" using card_length[of gone] assms(3) by linarith
  finally show "length rows - length (filter (\<lambda>r. key r \<notin> key ` set gone) rows) \<le> limit"
    using sum_length_filter_compl[of "\<lambda>r. key r \<in> key ` set gone" rows] by simp
qed

text \<open>
  A purge removes at most its limit of rows, uploads and orphans together, and reports how many;
  every upload it removes is a tombstone older than the cut-off that no site policy pins, and the
  database stays well formed.
\<close>

theorem purge_removes_only_old_tombstones:
  assumes "db_ok db" "purge_tombstones before limit db = (Ok n, db')"
  shows "n \<le> limit \<and> db_ok db' \<and>
    n = (length (uploads db) - length (uploads db')) + (length (orphans db) - length (orphans db')) \<and>
    set (uploads db') \<subseteq> set (uploads db) \<and>
    (\<forall>r\<in>set (uploads db) - set (uploads db'). purgeable (unix_timestamp before) db r) \<and>
    (\<forall>r\<in>set (orphans db) - set (orphans db'). purgeable_orphan (unix_timestamp before) r)"
proof -
  let ?t = "unix_timestamp before"
  let ?gone = "purge_uploads ?t limit db"
  let ?db1 = "delete_uploads (\<lambda>r. up_id r \<in> up_id ` set ?gone) db"
  let ?k = "\<lambda>r. (orp_namespace r, orp_key r)"
  let ?purged = "length (uploads db) - length (uploads ?db1)"
  let ?gone' = "purge_orphans ?t (limit - ?purged) ?db1"
  have ids: "distinct (map up_id (uploads db))" "distinct (map ?k (orphans db))"
    using assms(1) by (simp_all add: db_ok_def unique_keys_ok_def)
  have gone: "set ?gone \<subseteq> set (uploads db)" "length ?gone \<le> limit"
      "\<And>r. r \<in> set ?gone \<Longrightarrow> purgeable ?t db r"
    by (auto simp: purge_uploads_def dest!: in_set_takeD)
  have gone': "set ?gone' \<subseteq> set (orphans db)" "length ?gone' \<le> limit - ?purged"
      "\<And>r. r \<in> set ?gone' \<Longrightarrow> purgeable_orphan ?t r"
    by (auto simp: purge_orphans_def dest!: in_set_takeD)
  have bound: "?purged \<le> limit" using limited_delete(1)[OF ids(1) gone(1,2)] by simp
  have bound': "length (orphans db) - length (filter (\<lambda>r. ?k r \<notin> ?k ` set ?gone') (orphans db)) \<le> limit - ?purged"
    by (rule limited_delete(1)[OF ids(2) gone'(1,2)])
  have removed: "purgeable ?t db r" if "r \<in> set (uploads db) - set (uploads ?db1)" for r
    using that limited_delete(2)[OF ids(1) gone(1,2), of r] gone(3) by auto
  have removed': "purgeable_orphan ?t r"
    if "r \<in> set (orphans db) - set (filter (\<lambda>r. ?k r \<notin> ?k ` set ?gone') (orphans db))" for r
    using that limited_delete(2)[OF ids(2) gone'(1,2), of r] gone'(3) by auto
  have ok: "db_ok db'" using purge_tombstones_ok[OF assms(1), of before limit] assms(2) by simp
  have result: "if limit - ?purged > 0
      then n = ?purged + (length (orphans ?db1) - length (filter (\<lambda>r. ?k r \<notin> ?k ` set ?gone') (orphans db)))
        \<and> db' = delete_orphans (\<lambda>r. ?k r \<in> ?k ` set ?gone') ?db1
      else n = ?purged \<and> db' = ?db1"
    using assms(2) by (auto simp: purge_tombstones_def Let_def split: if_splits)
  have us: "uploads db' = uploads ?db1" using result by (simp split: if_splits)
  have subset: "set (uploads db') \<subseteq> set (uploads db)" unfolding us by auto
  show ?thesis
  proof (cases "limit - ?purged > 0")
    case True
    then have n: "n = ?purged + (length (orphans db) - length (orphans db'))"
      and os: "orphans db' = filter (\<lambda>r. ?k r \<notin> ?k ` set ?gone') (orphans db)"
      using result by simp_all
    have "n \<le> limit" using bound bound' unfolding n os by linarith
    then show ?thesis
      using ok subset removed removed' n unfolding us os by blast
  next
    case False
    then have "n = ?purged" "orphans db' = orphans db" using result by simp_all
    then show ?thesis using ok subset removed bound unfolding us by simp
  qed
qed

theorem purge_removes_only_old_tombstones_witness:
  "fst (purge_tombstones 10000000000 1 (sample_uploads_db Deleted)) = Ok 1 \<and>
   db_ok (snd (purge_tombstones 10000000000 1 (sample_uploads_db Deleted)))"
proof -
  have gone: "purge_uploads 10 (Suc 0) (sample_uploads_db Deleted) =
      [sample_upload 1 ''a'' ''raw/a/1/source'' Deleted]"
    by (simp add: purge_uploads_def purgeable_def sample_upload_def sort_key_def insort_key_def)
  have count: "fst (purge_tombstones 10000000000 1 (sample_uploads_db Deleted)) = Ok 1"
    by (simp add: purge_tombstones_def Let_def unix_timestamp_def gone) (simp add: sample_upload_def)
  then have "purge_tombstones 10000000000 1 (sample_uploads_db Deleted) =
      (Ok 1, snd (purge_tombstones 10000000000 1 (sample_uploads_db Deleted)))"
    by (metis prod.collapse)
  from purge_removes_only_old_tombstones[OF sample_uploads_db_ok this] count
  show ?thesis by blast
qed

end
