(* ===== verification/Lifecycle.thy ===== *)
theory Lifecycle
  imports Lifecycle_Repository Ports
begin

text \<open>
  \<open>LifecycleService\<close> of \<open>application/src/lifecycle.rs\<close>: one bounded maintenance run claims a batch,
  removes each candidate's objects from the two stores, records the outcome and purges old
  tombstones.  The stores are parameters over a common provider state, and the clock read for a
  candidate is the parameter \<open>clock\<close>.
\<close>

section \<open>Policy\<close>

record LifecyclePolicy =
  created_reservation_ttl :: duration
  rejected_source_retention :: duration
  cleanup_lease_for :: duration
  cleanup_retry_delay :: duration
  cleanup_batch_size :: nat
  cleanup_max_attempts :: nat
  tombstone_retention :: duration
  tombstone_purge_batch_size :: nat

definition default_lifecycle_policy :: LifecyclePolicy where
  "default_lifecycle_policy =
     \<lparr>created_reservation_ttl = seconds (24 * 60 * 60),
      rejected_source_retention = seconds (7 * 24 * 60 * 60), cleanup_lease_for = seconds (5 * 60),
      cleanup_retry_delay = seconds 60, cleanup_batch_size = 100, cleanup_max_attempts = 10,
      tombstone_retention = seconds (365 * 24 * 60 * 60), tombstone_purge_batch_size = 100\<rparr>"

definition lifecycle_policy_is_valid :: "LifecyclePolicy \<Rightarrow> bool" where
  "lifecycle_policy_is_valid p \<longleftrightarrow>
     created_reservation_ttl p \<noteq> 0 \<and> created_reservation_ttl p \<le> seconds (7 * 24 * 60 * 60) \<and>
     rejected_source_retention p \<noteq> 0 \<and> rejected_source_retention p \<le> seconds (90 * 24 * 60 * 60) \<and>
     cleanup_lease_for p \<noteq> 0 \<and> cleanup_lease_for p \<le> seconds (60 * 60) \<and>
     cleanup_retry_delay p \<noteq> 0 \<and> cleanup_retry_delay p \<le> seconds (24 * 60 * 60) \<and>
     1 \<le> cleanup_batch_size p \<and> cleanup_batch_size p \<le> 100 \<and>
     1 \<le> cleanup_max_attempts p \<and> cleanup_max_attempts p \<le> 100 \<and>
     seconds (30 * 24 * 60 * 60) \<le> tombstone_retention p \<and>
     tombstone_retention p \<le> seconds (10 * 365 * 24 * 60 * 60) \<and>
     1 \<le> tombstone_purge_batch_size p \<and> tombstone_purge_batch_size p \<le> 1000"

record LifecycleRunSummary =
  lrs_claimed :: nat
  lrs_completed :: nat
  lrs_failed :: nat
  lrs_dead_lettered :: nat
  lrs_tombstones_purged :: nat

datatype LifecycleRunError =
    InvalidOwner | InvalidLifecycleDuration | LRepository LifecycleRepositoryError

definition valid_identifier :: "nat \<Rightarrow> string \<Rightarrow> bool" where
  "valid_identifier max_length v \<longleftrightarrow> v \<noteq> [] \<and> length v \<le> max_length \<and> list_all worker_id_byte v"

text \<open>\<open>time::Duration::try_from\<close>: the seconds of a duration must fit an \<open>i64\<close>.\<close>

definition time_duration :: "duration \<Rightarrow> (LifecycleRunError, int) result" where
  "time_duration d = (if as_secs d > i64_max then Err InvalidLifecycleDuration else Ok (int d))"

section \<open>The service\<close>

definition LifecycleService_new :: "LifecyclePolicy \<Rightarrow> (LifecycleRunError, LifecyclePolicy) result" where
  "LifecycleService_new policy =
     (if \<not> lifecycle_policy_is_valid policy then Err InvalidLifecycleDuration else Ok policy)"

definition service_request_deletion :: "string \<Rightarrow> uuid \<Rightarrow> instant \<Rightarrow> Database
    \<Rightarrow> (DeletionRequestError, DeletionRequestOutcome) result \<times> Database" where
  "service_request_deletion tenant_id upload_id now db =
     (if \<not> valid_identifier 64 tenant_id then (Err DInvalidTenant, db)
      else request_deletion tenant_id upload_id now db)"

fun delete_derivatives :: "'o ObjectStore \<Rightarrow> string list \<Rightarrow> 'o \<Rightarrow> (string, unit) result \<times> 'o" where
  "delete_derivatives store [] o' = (Ok (), o')"
| "delete_derivatives store (k # ks) o' =
     (case delete_object store k o' of
        (Inl _, o1) \<Rightarrow> (Err ''DERIVATIVE_DELETE_FAILED'', o1)
      | (Inr _, o1) \<Rightarrow> delete_derivatives store ks o1)"

definition abort_session :: "'o ObjectStore \<Rightarrow> CleanupCandidate \<Rightarrow> 'o \<Rightarrow> (string, unit) result \<times> 'o" where
  "abort_session raw_store c o' =
     (if cc_state c = Created \<and> cc_transfer c \<noteq> SinglePut
      then (case cc_session c of
          None \<Rightarrow> (Err ''CLEANUP_STATE_INVALID'', o')
        | Some sid \<Rightarrow> (case store_abort_multipart raw_store \<lparr>am_key = cc_raw_key c, am_upload_id = sid\<rparr> o' of
            (Inl _, o1) \<Rightarrow> (Err ''MULTIPART_ABORT_FAILED'', o1) | (Inr _, o1) \<Rightarrow> (Ok (), o1)))
      else (Ok (), o'))"

definition cleanup_storage :: "'o ObjectStore \<Rightarrow> 'o ObjectStore \<Rightarrow> CleanupCandidate \<Rightarrow> 'o
    \<Rightarrow> (string, unit) result \<times> 'o" where
  "cleanup_storage raw_store derivative_store c o' =
     (case abort_session raw_store c o' of
        (Inl e, o1) \<Rightarrow> (Err e, o1)
      | (Inr _, o1) \<Rightarrow>
         (case delete_derivatives derivative_store (cc_derivative_keys c) o1 of
            (Inl e, o2) \<Rightarrow> (Err e, o2)
          | (Inr _, o2) \<Rightarrow>
             (case delete_object raw_store (cc_raw_key c) o2 of
                (Inl _, o3) \<Rightarrow> (Err ''RAW_DELETE_FAILED'', o3) | (Inr _, o3) \<Rightarrow> (Ok (), o3))))"

text \<open>The loop over the claimed candidates.\<close>

fun process_candidates :: "'o ObjectStore \<Rightarrow> 'o ObjectStore \<Rightarrow> LifecyclePolicy \<Rightarrow> string \<Rightarrow> (uuid \<Rightarrow> instant)
    \<Rightarrow> CleanupCandidate list \<Rightarrow> LifecycleRunSummary \<Rightarrow> 'o \<times> Database
    \<Rightarrow> (LifecycleRunError, LifecycleRunSummary) result \<times> 'o \<times> Database" where
  "process_candidates raw der policy owner clock [] summary s = (Ok summary, s)"
| "process_candidates raw der policy owner clock (c # cs) summary (o', db) =
     (case cleanup_storage raw der c o' of
        (Inr _, o1) \<Rightarrow>
          (case complete_cleanup (cc_upload_id c) owner (clock (cc_upload_id c)) db of
             (Inl e, db1) \<Rightarrow> (Err (LRepository e), o1, db1)
           | (Inr _, db1) \<Rightarrow> process_candidates raw der policy owner clock cs
               (summary\<lparr>lrs_completed := lrs_completed summary + 1\<rparr>) (o1, db1))
      | (Inl error_code, o1) \<Rightarrow>
          (case time_duration (cleanup_retry_delay policy) of
             Inl e \<Rightarrow> (Err e, o1, db)
           | Inr delay \<Rightarrow>
              (case fail_cleanup (cc_upload_id c) owner (clock (cc_upload_id c))
                  (clock (cc_upload_id c) + delay) error_code db of
                 (Inl e, db1) \<Rightarrow> (Err (LRepository e), o1, db1)
               | (Inr _, db1) \<Rightarrow> process_candidates raw der policy owner clock cs
                   (summary\<lparr>lrs_failed := lrs_failed summary + 1,
                      lrs_dead_lettered := lrs_dead_lettered summary +
                        (if cc_attempts c \<ge> cleanup_max_attempts policy then 1 else 0)\<rparr>) (o1, db1))))"

definition lifecycle_run_once :: "'o ObjectStore \<Rightarrow> 'o ObjectStore \<Rightarrow> LifecyclePolicy \<Rightarrow> string \<Rightarrow> instant
    \<Rightarrow> (uuid \<Rightarrow> instant) \<Rightarrow> instant \<Rightarrow> 'o \<times> Database
    \<Rightarrow> (LifecycleRunError, LifecycleRunSummary) result \<times> 'o \<times> Database" where
  "lifecycle_run_once raw der policy owner now clock later s =
     (case s of (o', db) \<Rightarrow>
      if \<not> valid_identifier 128 owner then (Err InvalidOwner, s)
      else (case (time_duration (created_reservation_ttl policy), time_duration (rejected_source_retention policy)) of
        (Inr created_ttl, Inr rejected_retention) \<Rightarrow>
          (case claim_cleanup_batch owner now (now - created_ttl) (now - rejected_retention)
              (cleanup_lease_for policy) (cleanup_batch_size policy) (cleanup_max_attempts policy) db of
            (Inl e, db1) \<Rightarrow> (Err (LRepository e), o', db1)
          | (Inr candidates, db1) \<Rightarrow>
              (case process_candidates raw der policy owner clock candidates
                  \<lparr>lrs_claimed = length candidates, lrs_completed = 0, lrs_failed = 0,
                   lrs_dead_lettered = 0, lrs_tombstones_purged = 0\<rparr> (o', db1) of
                (Inl e, s2) \<Rightarrow> (Err e, s2)
              | (Inr summary, o2, db2) \<Rightarrow>
                 (case time_duration (tombstone_retention policy) of
                    Inl e \<Rightarrow> (Err e, o2, db2)
                  | Inr retention \<Rightarrow>
                     (case purge_tombstones (later - retention) (tombstone_purge_batch_size policy) db2 of
                        (Inl e, db3) \<Rightarrow> (Err (LRepository e), o2, db3)
                      | (Inr n, db3) \<Rightarrow> (Ok (summary\<lparr>lrs_tombstones_purged := n\<rparr>), o2, db3)))))
      | _ \<Rightarrow> (Err InvalidLifecycleDuration, s)))"

section \<open>No tombstone without the objects gone\<close>

text \<open>\<open>gone\<close> reads off a provider state the keys whose deletion was acknowledged; it never shrinks.\<close>

definition acknowledges :: "'o ObjectStore \<Rightarrow> ('o \<Rightarrow> string set) \<Rightarrow> bool" where
  "acknowledges store gone \<longleftrightarrow>
     (\<forall>k s r s'. delete_object store k s = (r, s') \<longrightarrow> gone s \<subseteq> gone s' \<and> (r = Ok () \<longrightarrow> k \<in> gone s'))"

definition keeps_gone :: "'o ObjectStore \<Rightarrow> ('o \<Rightarrow> string set) \<Rightarrow> bool" where
  "keeps_gone store gone \<longleftrightarrow>
     (\<forall>k s. gone s \<subseteq> gone (snd (delete_object store k s))) \<and>
     (\<forall>q s. gone s \<subseteq> gone (snd (store_abort_multipart store q s)))"

text \<open>The raw object of upload \<open>i\<close> and all its derivatives are gone.\<close>

definition storage_gone :: "('o \<Rightarrow> string set) \<Rightarrow> ('o \<Rightarrow> string set) \<Rightarrow> Database \<Rightarrow> 'o \<Rightarrow> uuid \<Rightarrow> bool" where
  "storage_gone raw_gone der_gone db o' i \<longleftrightarrow>
     (\<forall>r\<in>set (uploads db). up_id r = i \<longrightarrow> up_key r \<in> raw_gone o') \<and>
     (\<forall>d\<in>set (derivatives db). drv_upload d = i \<longrightarrow> drv_key d \<in> der_gone o')"

definition live_ids :: "Database \<Rightarrow> uuid set" where
  "live_ids db = {up_id r |r. r \<in> set (uploads db) \<and> up_state r \<noteq> Deleted}"

lemma delete_derivatives_gone:
  assumes "acknowledges der der_gone" "keeps_gone der raw_gone"
    and "delete_derivatives der ks o' = (r, o1)"
  shows "der_gone o' \<subseteq> der_gone o1 \<and> raw_gone o' \<subseteq> raw_gone o1 \<and> (r = Ok () \<longrightarrow> set ks \<subseteq> der_gone o1)"
  using assms(3)
proof (induction ks arbitrary: o')
  case (Cons k ks)
  obtain d o2 where del: "delete_object der k o' = (d, o2)" by (cases "delete_object der k o'")
  have one: "der_gone o' \<subseteq> der_gone o2" "d = Ok () \<longrightarrow> k \<in> der_gone o2" "raw_gone o' \<subseteq> raw_gone o2"
    using assms(1,2) del unfolding acknowledges_def keeps_gone_def by (blast, blast, metis snd_conv)
  show ?case
  proof (cases d)
    case (Inl e)
    then show ?thesis using Cons.prems del one by auto
  next
    case (Inr u)
    then have "delete_derivatives der ks o2 = (r, o1)" using Cons.prems del by simp
    from Cons.IH[OF this] one Inr show ?thesis by auto
  qed
qed simp

lemma abort_session_gone:
  assumes "keeps_gone raw gone" "abort_session raw c o' = (r, o1)"
  shows "gone o' \<subseteq> gone o1"
  using assms unfolding abort_session_def keeps_gone_def
  by (auto split: if_splits option.splits prod.splits sum.splits) (metis snd_conv subsetD)+

lemma cleanup_storage_gone:
  assumes "acknowledges raw raw_gone" "acknowledges der der_gone" "keeps_gone raw raw_gone" "keeps_gone raw der_gone"
    "keeps_gone der raw_gone"
    and "cleanup_storage raw der c o' = (r, o1)"
  shows "raw_gone o' \<subseteq> raw_gone o1 \<and> der_gone o' \<subseteq> der_gone o1 \<and>
    (r = Ok () \<longrightarrow> cc_raw_key c \<in> raw_gone o1 \<and> set (cc_derivative_keys c) \<subseteq> der_gone o1)"
proof -
  obtain a oa where a: "abort_session raw c o' = (a, oa)" by (cases "abort_session raw c o'")
  have ga: "raw_gone o' \<subseteq> raw_gone oa" "der_gone o' \<subseteq> der_gone oa"
    using abort_session_gone[OF assms(3) a] abort_session_gone[OF assms(4) a] .
  show ?thesis
  proof (cases a)
    case (Inl e)
    then show ?thesis using assms(6) a ga by (auto simp: cleanup_storage_def)
  next
    case (Inr u)
    obtain d od where d: "delete_derivatives der (cc_derivative_keys c) oa = (d, od)"
      by (cases "delete_derivatives der (cc_derivative_keys c) oa")
    note gd = delete_derivatives_gone[OF assms(2,5) d]
    show ?thesis
    proof (cases d)
      case (Inl e)
      then show ?thesis using assms(6) a Inr d ga gd by (auto simp: cleanup_storage_def)
    next
      case derivatives_gone: (Inr v)
      obtain x ox where x: "delete_object raw (cc_raw_key c) od = (x, ox)"
        by (cases "delete_object raw (cc_raw_key c) od")
      have gx: "raw_gone od \<subseteq> raw_gone ox" "x = Ok () \<longrightarrow> cc_raw_key c \<in> raw_gone ox" "der_gone od \<subseteq> der_gone ox"
        using assms(1,4) x unfolding acknowledges_def keeps_gone_def by (blast, blast, metis snd_conv)
      have "o1 = ox \<and> (r = Ok () \<longrightarrow> x = Ok ())"
        using assms(6) a Inr d derivatives_gone x by (auto simp: cleanup_storage_def split: sum.splits)
      then show ?thesis using ga gd gx derivatives_gone by auto
    qed
  qed
qed

lemma storage_gone_mono:
  "storage_gone raw_gone der_gone db o' i \<Longrightarrow> raw_gone o' \<subseteq> raw_gone o1 \<Longrightarrow> der_gone o' \<subseteq> der_gone o1 \<Longrightarrow>
    storage_gone raw_gone der_gone db o1 i"
  by (auto simp: storage_gone_def)

section \<open>What the repository steps leave live\<close>

lemma live_ids_I: "r \<in> set (uploads db) \<Longrightarrow> up_state r \<noteq> Deleted \<Longrightarrow> up_id r \<in> live_ids db"
  by (auto simp: live_ids_def)

lemma live_ids_update:
  assumes "\<And>r. r \<in> set (uploads db) \<Longrightarrow> p r \<Longrightarrow>
    up_id (f r) = up_id r \<and> (up_state r \<noteq> Deleted \<longrightarrow> up_state (f r) \<noteq> Deleted \<or> up_id r \<in> S)"
  shows "live_ids db \<subseteq> live_ids (update_uploads p f db) \<union> S"
proof
  fix i assume "i \<in> live_ids db"
  then obtain r where r: "r \<in> set (uploads db)" "up_state r \<noteq> Deleted" "up_id r = i"
    by (auto simp: live_ids_def)
  let ?r = "if p r then f r else r"
  have stays: "?r \<in> set (uploads (update_uploads p f db))"
    using r(1) by (auto simp: update_uploads_rows update_rows_def)
  have same: "up_id ?r = i" using assms[OF r(1)] r(3) by simp
  have "up_state ?r \<noteq> Deleted \<or> i \<in> S" using assms[OF r(1)] r(2,3) by auto
  then show "i \<in> live_ids (update_uploads p f db) \<union> S"
    using live_ids_I[OF stays] same by auto
qed

lemma complete_cleanup_live: "live_ids db \<subseteq> live_ids (snd (complete_cleanup i w now db)) \<union> {i}"
  using live_ids_update[of db "owned_cleanup i w" "tombstone (unix_timestamp now)" "{i}"]
  by (auto simp: complete_cleanup_def owned_cleanup_def tombstone_def)

lemma fail_cleanup_live: "live_ids db \<subseteq> live_ids (snd (fail_cleanup i w now retry e db))"
  using live_ids_update[of db "owned_cleanup i w" "release_cleanup (unix_timestamp retry) e (unix_timestamp now)" "{}"]
  by (auto simp: fail_cleanup_def release_cleanup_def)

lemma claim_cleanup_live:
  assumes "db_ok db" "claim_cleanup_batch w now cb rb d n m db = (Ok cs, db')"
  shows "live_ids db \<subseteq> live_ids db'"
  using live_ids_update[of db _ "lease_cleanup w (unix_timestamp now + int (as_secs d))" "{}"]
    claim_cleanup_Ok(1)[OF assms]
  by (fastforce simp: live_ids_def update_uploads_rows)

lemma purge_live:
  assumes "db_ok db"
  shows "live_ids db \<subseteq> live_ids (snd (purge_tombstones before limit db))"
proof
  fix i assume "i \<in> live_ids db"
  then obtain r where r: "r \<in> set (uploads db)" "up_state r \<noteq> Deleted" "up_id r = i"
    by (auto simp: live_ids_def)
  have ids: "distinct (map up_id (uploads db))" using assms by (simp add: db_ok_def unique_keys_ok_def)
  have "up_id r \<notin> up_id ` set (purge_uploads (unix_timestamp before) limit db)"
  proof
    assume "up_id r \<in> up_id ` set (purge_uploads (unix_timestamp before) limit db)"
    then obtain g where "g \<in> set (uploads db)" "up_id g = up_id r" "up_state g = Deleted"
      by (auto simp: purge_uploads_def purgeable_def dest!: in_set_takeD)
    then show False using ids r by (auto simp: distinct_map inj_on_def)
  qed
  then have "r \<in> set (uploads (snd (purge_tombstones before limit db)))"
    using r(1) by (auto simp: purge_tombstones_def Let_def)
  then show "i \<in> live_ids (snd (purge_tombstones before limit db))" using r by (auto simp: live_ids_def)
qed

section \<open>The run\<close>

text \<open>What a candidate must say for its successful cleanup to leave nothing behind.\<close>

lemma candidate_storage_gone:
  assumes "db_ok db" "r \<in> set (uploads db)" "candidate_of db r c"
    and "cc_raw_key c \<in> raw_gone o'" "set (cc_derivative_keys c) \<subseteq> der_gone o'"
  shows "storage_gone raw_gone der_gone db o' (cc_upload_id c)"
proof -
  have "x = r" if "x \<in> set (uploads db)" "up_id x = up_id r" for x
    using that assms(1,2) by (auto simp: db_ok_def unique_keys_ok_def distinct_map inj_on_def)
  then show ?thesis using assms(3-5) by (auto simp: storage_gone_def candidate_of_def)
qed

definition stores_acknowledge :: "'o ObjectStore \<Rightarrow> 'o ObjectStore \<Rightarrow> ('o \<Rightarrow> string set) \<Rightarrow> ('o \<Rightarrow> string set) \<Rightarrow> bool" where
  "stores_acknowledge raw der raw_gone der_gone \<longleftrightarrow>
     acknowledges raw raw_gone \<and> acknowledges der der_gone \<and>
     keeps_gone raw raw_gone \<and> keeps_gone raw der_gone \<and> keeps_gone der raw_gone"

lemma process_candidates_gone:
  assumes "db_ok db0" "stores_acknowledge raw der raw_gone der_gone"
    and "process_candidates raw der policy owner clock cs summary (o', db) = (res, o1, db1)"
    and "\<And>c. c \<in> set cs \<Longrightarrow> \<exists>r\<in>set (uploads db0). candidate_of db0 r c"
    and "live_ids db0 \<subseteq> live_ids db \<union> {i. storage_gone raw_gone der_gone db0 o' i}" "db_ok db"
  shows "live_ids db0 \<subseteq> live_ids db1 \<union> {i. storage_gone raw_gone der_gone db0 o1 i} \<and> db_ok db1"
  using assms(3-6)
proof (induction cs arbitrary: summary o' db)
  case (Cons c cs)
  obtain s o2 where s: "cleanup_storage raw der c o' = (s, o2)" by (cases "cleanup_storage raw der c o'")
  have st: "raw_gone o' \<subseteq> raw_gone o2" "der_gone o' \<subseteq> der_gone o2"
      "s = Ok () \<Longrightarrow> cc_raw_key c \<in> raw_gone o2 \<and> set (cc_derivative_keys c) \<subseteq> der_gone o2"
    using cleanup_storage_gone[OF _ _ _ _ _ s] assms(2) unfolding stores_acknowledge_def by blast+
  have mono: "live_ids db0 \<subseteq> live_ids db \<union> {i. storage_gone raw_gone der_gone db0 o2 i}"
    using Cons.prems(3) storage_gone_mono[OF _ st(1,2)] by blast
  show ?case
  proof (cases s)
    case (Inr u)
    obtain x db2 where x: "complete_cleanup (cc_upload_id c) owner (clock (cc_upload_id c)) db = (x, db2)"
      by (cases "complete_cleanup (cc_upload_id c) owner (clock (cc_upload_id c)) db")
    obtain r where "r \<in> set (uploads db0)" "candidate_of db0 r c" using Cons.prems(2) by auto
    then have "storage_gone raw_gone der_gone db0 o2 (cc_upload_id c)"
      using st(3) Inr by (intro candidate_storage_gone[OF assms(1)]) simp_all
    then have live: "live_ids db0 \<subseteq> live_ids db2 \<union> {i. storage_gone raw_gone der_gone db0 o2 i}"
      using mono complete_cleanup_live[of db "cc_upload_id c" owner "clock (cc_upload_id c)"] x by auto
    have ok: "db_ok db2" using complete_cleanup_ok[OF Cons.prems(4)] x by (metis snd_conv)
    show ?thesis
    proof (cases x)
      case (Inl e)
      then show ?thesis using Cons.prems(1) s Inr x live ok by auto
    next
      case completed: (Inr v)
      have "process_candidates raw der policy owner clock cs
          (summary\<lparr>lrs_completed := lrs_completed summary + 1\<rparr>) (o2, db2) = (res, o1, db1)"
        using Cons.prems(1) s Inr x completed by simp
      from Cons.IH[OF this _ live ok] Cons.prems(2) show ?thesis by simp
    qed
  next
    case (Inl code)
    show ?thesis
    proof (cases "time_duration (cleanup_retry_delay policy)")
      case (Inl e)
      then show ?thesis using Cons.prems(1,4) s \<open>s = Inl code\<close> mono by auto
    next
      case (Inr delay)
      define now where "now = clock (cc_upload_id c)"
      obtain x db2 where x: "fail_cleanup (cc_upload_id c) owner now (now + delay) code db = (x, db2)"
        by (cases "fail_cleanup (cc_upload_id c) owner now (now + delay) code db")
      have live: "live_ids db0 \<subseteq> live_ids db2 \<union> {i. storage_gone raw_gone der_gone db0 o2 i}"
        using mono fail_cleanup_live[of db "cc_upload_id c" owner now "now + delay" code] x by auto
      have ok: "db_ok db2" using fail_cleanup_ok[OF Cons.prems(4)] x by (metis snd_conv)
      show ?thesis
      proof (cases x)
        case (Inl e)
        then show ?thesis using Cons.prems(1) s \<open>s = Inl code\<close> Inr x live ok by (auto simp: now_def)
      next
        case released: (Inr v)
        obtain summary' where "process_candidates raw der policy owner clock cs summary' (o2, db2) = (res, o1, db1)"
          using Cons.prems(1) s \<open>s = Inl code\<close> Inr x released by (simp add: now_def)
        from Cons.IH[OF this _ live ok] Cons.prems(2) show ?thesis by simp
      qed
    qed
  qed
qed simp

lemma list_all2_in_set2: "list_all2 P xs ys \<Longrightarrow> y \<in> set ys \<Longrightarrow> \<exists>x\<in>set xs. P x y"
  by (induction rule: list_all2_induct) auto

lemma lifecycle_run_cases:
  assumes "lifecycle_run_once raw der policy owner now clock later (o', db) = (res, o1, db1)"
  obtains "o1 = o'" "db1 = db"
  | cs dbc summary r2 o2 db2 created_before rejected_before where
      "claim_cleanup_batch owner now created_before rejected_before (cleanup_lease_for policy)
         (cleanup_batch_size policy) (cleanup_max_attempts policy) db = (Ok cs, dbc)"
      "process_candidates raw der policy owner clock cs summary (o', dbc) = (r2, o2, db2)" "o1 = o2"
      "db1 = db2 \<or> (\<exists>before limit. db1 = snd (purge_tombstones before limit db2))"
proof -
  let ?cb = "now - int (created_reservation_ttl policy)" and ?rb = "now - int (rejected_source_retention policy)"
  obtain claim dbc where claim: "claim_cleanup_batch owner now ?cb ?rb (cleanup_lease_for policy)
      (cleanup_batch_size policy) (cleanup_max_attempts policy) db = (claim, dbc)" by fastforce
  have refused: "dbc = db" if "claim = Inl e" for e
    using claim that by (cases rule: claim_cleanup_cases[of owner now ?cb ?rb "cleanup_lease_for policy"
        "cleanup_batch_size policy" "cleanup_max_attempts policy" db]) auto
  show ?thesis
  proof (cases "valid_identifier 128 owner \<and> as_secs (created_reservation_ttl policy) \<le> i64_max \<and>
      as_secs (rejected_source_retention policy) \<le> i64_max")
    case False
    then have "o1 = o' \<and> db1 = db"
      using assms by (auto simp: lifecycle_run_once_def time_duration_def split: if_splits)
    then show ?thesis using that(1) by blast
  next
    case valid: True
    show ?thesis
    proof (cases claim)
      case (Inl e)
      then have "o1 = o' \<and> db1 = db"
        using assms valid claim refused by (auto simp: lifecycle_run_once_def time_duration_def)
      then show ?thesis using that(1) by blast
    next
      case (Inr cs)
      obtain summary where summary: "summary = \<lparr>lrs_claimed = length cs, lrs_completed = 0, lrs_failed = 0,
          lrs_dead_lettered = 0, lrs_tombstones_purged = 0\<rparr>" by simp
      obtain r2 o2 db2 where run: "process_candidates raw der policy owner clock cs summary (o', dbc) = (r2, o2, db2)"
        by (cases "process_candidates raw der policy owner clock cs summary (o', dbc)") auto
      obtain r3 db3 where purge: "purge_tombstones (later - int (tombstone_retention policy))
          (tombstone_purge_batch_size policy) db2 = (r3, db3)" by fastforce
      have "o1 = o2 \<and> (db1 = db2 \<or> db1 = db3)"
        using assms valid claim Inr run[unfolded summary] purge
        by (cases r2; cases r3; cases "as_secs (tombstone_retention policy) > i64_max")
          (auto simp: lifecycle_run_once_def time_duration_def)
      then show ?thesis using that(2)[OF claim[unfolded Inr] run] purge by (metis snd_conv)
    qed
  qed
qed

lemma lifecycle_run_gone:
  assumes "db_ok db" "stores_acknowledge raw der raw_gone der_gone"
    and "lifecycle_run_once raw der policy owner now clock later (o', db) = (res, o1, db1)"
  shows "live_ids db \<subseteq> live_ids db1 \<union> {i. storage_gone raw_gone der_gone db o1 i} \<and> db_ok db1"
proof (cases rule: lifecycle_run_cases[OF assms(3)])
  case (2 cs dbc summary r2 o2 db2 cb rb)
  note claimed = claim_cleanup_Ok[OF assms(1) 2(1)]
  have ids: "distinct (map up_id (uploads db))" using assms(1) by (simp add: db_ok_def unique_keys_ok_def)
  have rows: "\<exists>r\<in>set (uploads db). candidate_of db r c" if "c \<in> set cs" for c
    using list_all2_in_set2[OF claimed(4) that] cleanup_rows_props(3)[OF ids] by blast
  have run: "live_ids db \<subseteq> live_ids db2 \<union> {i. storage_gone raw_gone der_gone db o2 i} \<and> db_ok db2"
    using claim_cleanup_live[OF assms(1) 2(1)] claimed(5)
    by (intro process_candidates_gone[OF assms(1,2) 2(2) rows]) auto
  then show ?thesis
    using 2(3,4) purge_live[of db2] purge_tombstones_ok[of db2] by blast
qed (use assms(1) in simp)


section \<open>A run on the samples\<close>

text \<open>A store that records the keys it deleted, raw and derivative apart.\<close>

definition recording_store :: "(string \<Rightarrow> string set \<times> string set \<Rightarrow> string set \<times> string set)
    \<Rightarrow> (string set \<times> string set) ObjectStore" where
  "recording_store record_key =
     \<lparr>presign_put = (\<lambda>_ s. (Err ObjectNotFound, s)), presign_get = (\<lambda>_ s. (Err ObjectNotFound, s)),
      create_multipart = (\<lambda>_ s. (Err ObjectNotFound, s)), store_presign_part = (\<lambda>_ s. (Err ObjectNotFound, s)),
      store_complete_multipart = (\<lambda>_ s. (Err ObjectNotFound, s)), store_abort_multipart = (\<lambda>_ s. (Ok (), s)),
      head_object = (\<lambda>_ s. (Err ObjectNotFound, s)), list_objects = (\<lambda>_ s. (Err ObjectNotFound, s)),
      delete_object = (\<lambda>k s. (Ok (), record_key k s))\<rparr>"

definition sample_raw_store :: "(string set \<times> string set) ObjectStore" where
  "sample_raw_store = recording_store (\<lambda>k s. (insert k (fst s), snd s))"

definition sample_derivative_store :: "(string set \<times> string set) ObjectStore" where
  "sample_derivative_store = recording_store (\<lambda>k s. (fst s, insert k (snd s)))"

lemma sample_stores_acknowledge: "stores_acknowledge sample_raw_store sample_derivative_store fst snd"
  by (auto simp: stores_acknowledge_def acknowledges_def keeps_gone_def sample_raw_store_def
      sample_derivative_store_def recording_store_def)

definition sample_lifecycle_policy :: LifecyclePolicy where
  "sample_lifecycle_policy = default_lifecycle_policy\<lparr>created_reservation_ttl := seconds 50,
     rejected_source_retention := seconds 50, cleanup_lease_for := seconds 30, cleanup_batch_size := 1,
     cleanup_max_attempts := 3\<rparr>"

lemma sample_policy_fields [simp]:
  "created_reservation_ttl sample_lifecycle_policy = 50000000000"
  "rejected_source_retention sample_lifecycle_policy = 50000000000"
  "cleanup_lease_for sample_lifecycle_policy = 30000000000" "cleanup_batch_size sample_lifecycle_policy = 1"
  "cleanup_max_attempts sample_lifecycle_policy = 3" "tombstone_purge_batch_size sample_lifecycle_policy = 100"
  "tombstone_retention sample_lifecycle_policy = 31536000000000000"
  by (simp_all add: sample_lifecycle_policy_def default_lifecycle_policy_def seconds_def)

definition sample_lifecycle_run ::
    "(LifecycleRunError, LifecycleRunSummary) result \<times> (string set \<times> string set) \<times> Database" where
  "sample_lifecycle_run = lifecycle_run_once sample_raw_store sample_derivative_store sample_lifecycle_policy
     ''m1'' 100000000000 (\<lambda>_. 101000000000) 102000000000 (({}, {}), sample_uploads_db Created)"


end
