(* ===== verification/Processing_Repository.thy ===== *)
theory Processing_Repository
  imports Upload_Repository Samples
begin

text \<open>
  \<open>ProcessingRepository\<close> of \<open>application/src/processing.rs\<close> as \<open>SqliteStore\<close> implements it: the facts
  a worker loads for a claimed job and the three state changes it may make, entering processing,
  publishing the derivatives and rejecting the source.
\<close>

section \<open>Types of the port\<close>

record ProcessingSource =
  ps_upload_id :: uuid
  ps_tenant_id :: string
  ps_object_key :: string
  ps_declared_kind :: MediaKind
  ps_expected_size :: u64
  ps_state :: UploadState
  ps_detected_content_type :: "string option"
  ps_sha256 :: "string option"

record PublishedDerivative =
  pd_object_key :: string
  pd_preset :: string
  pd_variant :: string
  pd_content_type :: string
  pd_byte_len :: u64
  pd_sha256 :: string

datatype ProcessingRepositoryError = ProcessingRepositoryError string

section \<open>Loading the source\<close>

definition processing_source_from_row :: "UploadRow \<Rightarrow> (ProcessingRepositoryError, ProcessingSource) result" where
  "processing_source_from_row r =
     (case up_declared r of
        None \<Rightarrow> Err (ProcessingRepositoryError ''SQLite backend: unexpected null'')
      | Some kind \<Rightarrow>
         (case ObjectKey_new (up_key r) of
            Inl _ \<Rightarrow> Err (ProcessingRepositoryError ''stored object key is invalid'')
          | Inr key \<Rightarrow> Ok \<lparr>ps_upload_id = up_id r, ps_tenant_id = up_tenant r, ps_object_key = key,
                           ps_declared_kind = kind, ps_expected_size = of_nat (up_expected r),
                           ps_state = up_state r, ps_detected_content_type = up_detected r,
                           ps_sha256 = up_sha256 r\<rparr>))"

definition find_processing_source :: "uuid \<Rightarrow> Database
    \<Rightarrow> (ProcessingRepositoryError, ProcessingSource option) result" where
  "find_processing_source upload_id db =
     (case lookup_row up_id upload_id (uploads db) of
        None \<Rightarrow> Ok None
      | Some r \<Rightarrow> and_then (processing_source_from_row r) (\<lambda>s. Ok (Some s)))"

section \<open>Entering processing\<close>

definition content_type_ok :: "string \<Rightarrow> bool" where
  "content_type_ok t \<longleftrightarrow> t \<noteq> [] \<and> length t \<le> 255 \<and> list_all (\<lambda>c. 33 \<le> byte_of c \<and> byte_of c \<le> 126) t"

definition digest_ok :: "string \<Rightarrow> bool" where
  "digest_ok d \<longleftrightarrow> length d = 64 \<and> list_all is_lower_hex d"

definition begin_processing :: "string \<Rightarrow> string \<Rightarrow> int \<Rightarrow> UploadRow \<Rightarrow> UploadRow" where
  "begin_processing detected sha256 ts r =
     r\<lparr>up_state := Processing, up_detected := Some detected, up_sha256 := Some sha256,
       up_error := None, up_updated := ts\<rparr>"

definition start_processing :: "uuid \<Rightarrow> string \<Rightarrow> string \<Rightarrow> instant \<Rightarrow> Database
    \<Rightarrow> (ProcessingRepositoryError, unit) result \<times> Database" where
  "start_processing upload_id detected sha256 now db =
     (let startable = (\<lambda>r. up_id r = upload_id \<and> up_state r = Quarantined);
          db1 = update_uploads startable (begin_processing detected sha256 (unix_timestamp now)) db in
      if \<not> content_type_ok detected \<or> \<not> digest_ok sha256
      then (Err (ProcessingRepositoryError ''detected source facts are invalid''), db)
      else if length (filter startable (uploads db)) = 1 then (Ok (), db1)
      else (case lookup_row up_id upload_id (uploads db1) of
          Some r \<Rightarrow>
            if up_state r = Processing \<and> up_detected r = Some detected \<and> up_sha256 r = Some sha256
            then (Ok (), db1)
            else (Err (ProcessingRepositoryError ''source is not startable from its current state''), db1)
        | None \<Rightarrow> (Err (ProcessingRepositoryError ''source is not startable from its current state''), db1)))"

section \<open>Publishing derivatives\<close>

definition narrow_token :: "nat \<Rightarrow> string \<Rightarrow> bool" where
  "narrow_token max_len v \<longleftrightarrow> v \<noteq> [] \<and> length v \<le> max_len \<and> list_all worker_id_byte v"

definition validate_derivative :: "PublishedDerivative \<Rightarrow> (ProcessingRepositoryError, unit) result" where
  "validate_derivative d =
     (if \<not> narrow_token 128 (pd_preset d) \<or> \<not> narrow_token 64 (pd_variant d) \<or>
         \<not> content_type_ok (pd_content_type d) \<or> pd_byte_len d = 0 \<or> \<not> digest_ok (pd_sha256 d)
      then Err (ProcessingRepositoryError ''published derivative facts are invalid'') else Ok ())"

definition derivative_identity :: "PublishedDerivative \<Rightarrow> string \<times> string" where
  "derivative_identity d = (pd_preset d, pd_variant d)"

text \<open>The first loop of \<open>publish_derivatives\<close>; \<open>seen\<close> is its set of identities.\<close>

fun validate_derivatives :: "(string \<times> string) list \<Rightarrow> PublishedDerivative list
    \<Rightarrow> (ProcessingRepositoryError, unit) result" where
  "validate_derivatives seen [] = Ok ()"
| "validate_derivatives seen (d # ds) =
     and_then (validate_derivative d) (\<lambda>_.
       if derivative_identity d \<in> set seen
       then Err (ProcessingRepositoryError ''published derivative set contains a duplicate identity'')
       else validate_derivatives (derivative_identity d # seen) ds)"

definition derivative_row :: "uuid \<Rightarrow> int \<Rightarrow> PublishedDerivative \<Rightarrow> DerivativeRow" where
  "derivative_row upload_id ts d =
     \<lparr>drv_upload = upload_id, drv_preset = pd_preset d, drv_variant = pd_variant d,
      drv_key = pd_object_key d, drv_type = pd_content_type d, drv_len = unat (pd_byte_len d),
      drv_sha256 = pd_sha256 d, drv_created = ts\<rparr>"

definition same_identity :: "uuid \<Rightarrow> PublishedDerivative \<Rightarrow> DerivativeRow \<Rightarrow> bool" where
  "same_identity upload_id d x \<longleftrightarrow>
     drv_upload x = upload_id \<and> drv_preset x = pd_preset d \<and> drv_variant x = pd_variant d"

definition same_facts :: "PublishedDerivative \<Rightarrow> DerivativeRow \<Rightarrow> bool" where
  "same_facts d x \<longleftrightarrow> drv_key x = pd_object_key d \<and> drv_type x = pd_content_type d \<and>
     drv_len x = unat (pd_byte_len d) \<and> drv_sha256 x = pd_sha256 d"

text \<open>\<open>INSERT ... ON CONFLICT(upload_id, preset_id, variant) DO UPDATE ... WHERE\<close> the facts agree: the
  update then writes what is there already.\<close>

definition upsert_derivative :: "uuid \<Rightarrow> int \<Rightarrow> PublishedDerivative \<Rightarrow> Database
    \<Rightarrow> (ProcessingRepositoryError, Database) result" where
  "upsert_derivative upload_id ts d db =
     (if unat (pd_byte_len d) > i64_max
      then Err (ProcessingRepositoryError ''derivative byte length exceeds SQLite range'')
      else (case find (same_identity upload_id d) (derivatives db) of
          Some x \<Rightarrow>
            if same_facts d x then Ok db
            else Err (ProcessingRepositoryError ''published derivative conflicts with immutable state'')
        | None \<Rightarrow>
            if pd_object_key d \<in> drv_key ` set (derivatives db)
            then Err (ProcessingRepositoryError ''SQLite backend: UNIQUE constraint failed'')
            else Ok (db\<lparr>derivatives := derivatives db @ [derivative_row upload_id ts d]\<rparr>)))"

fun upsert_derivatives :: "uuid \<Rightarrow> int \<Rightarrow> PublishedDerivative list \<Rightarrow> Database
    \<Rightarrow> (ProcessingRepositoryError, Database) result" where
  "upsert_derivatives upload_id ts [] db = Ok db"
| "upsert_derivatives upload_id ts (d # ds) db =
     and_then (upsert_derivative upload_id ts d db) (upsert_derivatives upload_id ts ds)"

definition publish_derivatives :: "uuid \<Rightarrow> PublishedDerivative list \<Rightarrow> instant \<Rightarrow> Database
    \<Rightarrow> (ProcessingRepositoryError, unit) result \<times> Database" where
  "publish_derivatives upload_id ds now db =
     (let processing = (\<lambda>r. up_id r = upload_id \<and> up_state r = Processing) in
      if ds = [] \<or> length ds > 16
      then (Err (ProcessingRepositoryError ''published derivative set size is invalid''), db)
      else (case validate_derivatives [] ds of Inl e \<Rightarrow> (Err e, db) | Inr _ \<Rightarrow>
      (case lookup_row up_id upload_id (uploads db) of
        None \<Rightarrow> (Err (ProcessingRepositoryError ''upload was not found''), db)
      | Some r \<Rightarrow>
        if up_state r \<noteq> Processing \<and> up_state r \<noteq> Ready
        then (Err (ProcessingRepositoryError ''source is not publishing from its current state''), db)
        else (case upsert_derivatives upload_id (unix_timestamp now) ds db of
            Inl e \<Rightarrow> (Err e, db)
          | Inr db1 \<Rightarrow>
            if up_state r = Processing
            then (if length (filter processing (uploads db1)) \<noteq> 1
                  then (Err (ProcessingRepositoryError ''source could not enter ready state''), db)
                  else (Ok (), update_uploads processing
                         (\<lambda>x. x\<lparr>up_state := Ready, up_updated := unix_timestamp now\<rparr>) db1))
            else (Ok (), db1)))))"

section \<open>Rejecting the source\<close>

definition rejectable :: "uuid \<Rightarrow> UploadRow \<Rightarrow> bool" where
  "rejectable upload_id r \<longleftrightarrow> up_id r = upload_id \<and> up_state r \<in> {Quarantined, Processing}"

definition mark_rejected :: "uuid \<Rightarrow> string \<Rightarrow> instant \<Rightarrow> Database
    \<Rightarrow> (ProcessingRepositoryError, unit) result \<times> Database" where
  "mark_rejected upload_id error_code now db =
     (let db1 = update_uploads (rejectable upload_id)
            (\<lambda>r. r\<lparr>up_state := Rejected, up_error := Some error_code, up_updated := unix_timestamp now\<rparr>) db in
      if error_code = [] \<or> length error_code > 64 \<or>
         \<not> list_all (\<lambda>c. is_ascii_upper c \<or> is_ascii_digit c \<or> c = CHR ''_'') error_code
      then (Err (ProcessingRepositoryError ''source rejection code is invalid''), db)
      else if length (filter (rejectable upload_id) (uploads db)) = 1 then (Ok (), db1)
      else (case lookup_row up_id upload_id (uploads db1) of
          Some r \<Rightarrow> if up_state r = Rejected \<and> up_error r = Some error_code then (Ok (), db1)
            else (Err (ProcessingRepositoryError ''source is not rejectable from its current state''), db1)
        | None \<Rightarrow> (Err (ProcessingRepositoryError ''source is not rejectable from its current state''), db1)))"

section \<open>Publishing is atomic, immutable and repeatable\<close>

lemma db_ok_insert_derivative:
  assumes "db_ok db" "derivative_row_ok x" "drv_upload x \<in> up_id ` set (uploads db)"
    "(drv_upload x, drv_preset x, drv_variant x) \<notin>
       (\<lambda>d. (drv_upload d, drv_preset d, drv_variant d)) ` set (derivatives db)"
    "drv_key x \<notin> drv_key ` set (derivatives db)"
  shows "db_ok (db\<lparr>derivatives := derivatives db @ [x]\<rparr>)"
  using assms by (simp add: db_ok_def unique_keys_ok_def foreign_keys_ok_def queue_ok_def)

definition derivative_input_ok :: "PublishedDerivative \<Rightarrow> bool" where
  "derivative_input_ok d \<longleftrightarrow> valid_object_key (pd_object_key d) \<and> pd_byte_len d \<noteq> 0"

definition published :: "uuid \<Rightarrow> PublishedDerivative \<Rightarrow> Database \<Rightarrow> bool" where
  "published upload_id d db \<longleftrightarrow>
     (\<exists>x\<in>set (derivatives db). same_identity upload_id d x \<and> same_facts d x)"

lemma same_identity_absent:
  "find (same_identity i d) xs = None \<Longrightarrow>
    (i, pd_preset d, pd_variant d) \<notin> (\<lambda>d. (drv_upload d, drv_preset d, drv_variant d)) ` set xs"
  by (auto simp: find_None_iff same_identity_def)

lemma same_row [simp]:
  "same_identity i d (derivative_row i ts d)" "same_facts d (derivative_row i ts d)"
  by (simp_all add: same_identity_def same_facts_def derivative_row_def)

lemma upsert_derivative_spec:
  assumes "upsert_derivative i ts d db = Inr db'" "db_ok db" "i \<in> up_id ` set (uploads db)"
    "derivative_input_ok d"
  shows "db_ok db' \<and> published i d db' \<and> unat (pd_byte_len d) \<le> i64_max \<and>
    (\<exists>extra. db' = db\<lparr>derivatives := derivatives db @ extra\<rparr> \<and> (\<forall>x\<in>set extra. drv_upload x = i))"
proof (cases "find (same_identity i d) (derivatives db)")
  case None
  then have new: "db' = db\<lparr>derivatives := derivatives db @ [derivative_row i ts d]\<rparr>"
      "pd_object_key d \<notin> drv_key ` set (derivatives db)" "unat (pd_byte_len d) \<le> i64_max"
    using assms(1) by (auto simp: upsert_derivative_def split: if_splits)
  have "db_ok db'"
    unfolding new(1)
    using assms(2-4) new(2,3) same_identity_absent[OF None]
    by (intro db_ok_insert_derivative)
      (auto simp: derivative_row_def derivative_row_ok_def derivative_input_ok_def unat_gt_0)
  moreover have "published i d db'" by (simp add: published_def new(1))
  moreover have "\<exists>extra. db' = db\<lparr>derivatives := derivatives db @ extra\<rparr> \<and> (\<forall>x\<in>set extra. drv_upload x = i)"
    unfolding new(1) by (rule exI[of _ "[derivative_row i ts d]"]) (simp add: derivative_row_def)
  ultimately show ?thesis using new(3) by blast
next
  case (Some x)
  then have "db' = db" "same_facts d x" "unat (pd_byte_len d) \<le> i64_max"
    using assms(1) by (auto simp: upsert_derivative_def split: if_splits)
  moreover have "x \<in> set (derivatives db)" "same_identity i d x" using Some by (auto simp: find_Some_iff)
  moreover have "db = db\<lparr>derivatives := derivatives db @ []\<rparr>" by simp
  ultimately show ?thesis using assms(2) unfolding published_def by (metis empty_iff list.set(1))
qed

lemma upsert_derivatives_spec:
  assumes "upsert_derivatives i ts ds db = Inr db'" "db_ok db" "i \<in> up_id ` set (uploads db)"
    "list_all derivative_input_ok ds"
  shows "db_ok db' \<and> list_all (\<lambda>d. published i d db' \<and> unat (pd_byte_len d) \<le> i64_max) ds \<and>
    (\<exists>extra. db' = db\<lparr>derivatives := derivatives db @ extra\<rparr> \<and> (\<forall>x\<in>set extra. drv_upload x = i))"
  using assms
proof (induction ds arbitrary: db)
  case Nil
  then show ?case by (auto intro: exI[of _ "[]"])
next
  case (Cons d ds)
  from Cons.prems(1) obtain db1 where step: "upsert_derivative i ts d db = Inr db1"
      "upsert_derivatives i ts ds db1 = Inr db'"
    by (auto simp: and_then_eq_Inr)
  have first: "db_ok db1 \<and> published i d db1 \<and> unat (pd_byte_len d) \<le> i64_max \<and>
      (\<exists>extra. db1 = db\<lparr>derivatives := derivatives db @ extra\<rparr> \<and> (\<forall>x\<in>set extra. drv_upload x = i))"
    by (rule upsert_derivative_spec[OF step(1)]) (use Cons.prems in simp_all)
  then obtain extra where extra: "db1 = db\<lparr>derivatives := derivatives db @ extra\<rparr>"
      "\<forall>x\<in>set extra. drv_upload x = i" by blast
  have rest: "db_ok db' \<and> list_all (\<lambda>d. published i d db' \<and> unat (pd_byte_len d) \<le> i64_max) ds \<and>
      (\<exists>extra'. db' = db1\<lparr>derivatives := derivatives db1 @ extra'\<rparr> \<and> (\<forall>x\<in>set extra'. drv_upload x = i))"
    by (rule Cons.IH[OF step(2)]) (use first extra(1) Cons.prems in simp_all)
  then obtain extra' where extra': "db' = db1\<lparr>derivatives := derivatives db1 @ extra'\<rparr>"
      "\<forall>x\<in>set extra'. drv_upload x = i" by blast
  have "published i d db'" using first extra'(1) by (auto simp: published_def)
  moreover have "db' = db\<lparr>derivatives := derivatives db @ (extra @ extra')\<rparr>"
    by (simp add: extra'(1) extra(1))
  moreover have "\<forall>x\<in>set (extra @ extra'). drv_upload x = i" using extra(2) extra'(2) by auto
  ultimately show ?case using rest first unfolding list.pred_inject(2) by blast
qed

lemma upsert_published:
  assumes "db_ok db" "list_all (\<lambda>d. published i d db \<and> unat (pd_byte_len d) \<le> i64_max) ds"
  shows "upsert_derivatives i ts ds db = Ok db"
  using assms(2)
proof (induction ds)
  case (Cons d ds)
  then obtain x where x: "x \<in> set (derivatives db)" "same_identity i d x" "same_facts d x"
    by (auto simp: published_def)
  have "distinct (map (\<lambda>d. (drv_upload d, drv_preset d, drv_variant d)) (derivatives db))"
    using assms(1) by (simp add: db_ok_def unique_keys_ok_def)
  then have "find (same_identity i d) (derivatives db) = Some x"
    by (rule find_unique_key) (use x in \<open>auto simp: same_identity_def\<close>)
  then show ?case using Cons x(3) by (simp add: upsert_derivative_def)
qed simp

lemma publish_cases:
  assumes "publish_derivatives i ds now db = (Inr u, db')"
  obtains r db1 where "lookup_row up_id i (uploads db) = Some r" "up_state r \<in> {Processing, Ready}"
    "upsert_derivatives i (unix_timestamp now) ds db = Inr db1"
    "db' = (if up_state r = Processing
            then update_uploads (\<lambda>r. up_id r = i \<and> up_state r = Processing)
              (\<lambda>x. x\<lparr>up_state := Ready, up_updated := unix_timestamp now\<rparr>) db1 else db1)"
    "ds \<noteq> []" "length ds \<le> 16" "validate_derivatives [] ds = Inr ()"
proof (cases "lookup_row up_id i (uploads db)")
  case None
  then show ?thesis
    using assms by (simp add: publish_derivatives_def Let_def split: if_splits sum.splits)
next
  case (Some r)
  then show ?thesis
    using assms that[of r]
    by (cases "upsert_derivatives i (unix_timestamp now) ds db")
      (simp_all add: publish_derivatives_def Let_def split: if_splits sum.splits)
qed

lemma publish_error: "publish_derivatives i ds now db = (Inl e, db') \<Longrightarrow> db' = db"
  by (cases "lookup_row up_id i (uploads db)")
    (simp_all add: publish_derivatives_def Let_def split: if_splits sum.splits)

lemma validate_derivatives_nonempty:
  "validate_derivatives seen ds = Inr u \<Longrightarrow> d \<in> set ds \<Longrightarrow> pd_byte_len d \<noteq> 0"
  by (induction seen ds rule: validate_derivatives.induct)
    (auto simp: and_then_eq_Inr validate_derivative_def split: if_splits)

lemma publish_Ok:
  assumes "db_ok db" "list_all (\<lambda>d. valid_object_key (pd_object_key d)) ds"
    "publish_derivatives i ds now db = (Inr u, db')"
  shows "db_ok db'" "follows_lifecycle db db'"
    "\<exists>r. lookup_row up_id i (uploads db') = Some r \<and> up_state r = Ready"
    "\<forall>d\<in>set ds. published i d db'"
    "\<exists>extra. derivatives db' = derivatives db @ extra \<and> (\<forall>x\<in>set extra. drv_upload x = i)"
    "j \<noteq> i \<Longrightarrow> lookup_row up_id j (uploads db') = lookup_row up_id j (uploads db)"
    "publish_derivatives i ds later db' = (Ok (), db')"
proof -
  obtain r db1 where p: "lookup_row up_id i (uploads db) = Some r" "up_state r \<in> {Processing, Ready}"
      "upsert_derivatives i (unix_timestamp now) ds db = Inr db1"
      "db' = (if up_state r = Processing
              then update_uploads (\<lambda>r. up_id r = i \<and> up_state r = Processing)
                (\<lambda>x. x\<lparr>up_state := Ready, up_updated := unix_timestamp now\<rparr>) db1 else db1)"
      "ds \<noteq> []" "length ds \<le> 16" "validate_derivatives [] ds = Inr ()"
    using assms(3) by (rule publish_cases)
  note row = lookup_row_Some[OF p(1)]
  have "list_all derivative_input_ok ds"
    using assms(2) validate_derivatives_nonempty[OF p(7)] by (auto simp: list_all_iff derivative_input_ok_def)
  note spec = upsert_derivatives_spec[OF p(3) assms(1) _ this]
  have upserted: "db_ok db1" "list_all (\<lambda>d. published i d db1 \<and> unat (pd_byte_len d) \<le> i64_max) ds"
      "\<exists>extra. db1 = db\<lparr>derivatives := derivatives db @ extra\<rparr> \<and> (\<forall>x\<in>set extra. drv_upload x = i)"
    using spec row by auto
  then obtain extra where extra: "db1 = db\<lparr>derivatives := derivatives db @ extra\<rparr>"
      "\<forall>x\<in>set extra. drv_upload x = i" by blast
  show ok: "db_ok db'"
    unfolding p(4) using upserted(1)
    by (auto intro!: db_ok_update_uploads simp: upload_row_ok_def split: option.splits)
  have us: "uploads db' = (if up_state r = Processing
      then update_rows (\<lambda>r. up_id r = i \<and> up_state r = Processing)
        (\<lambda>x. x\<lparr>up_state := Ready, up_updated := unix_timestamp now\<rparr>) (uploads db) else uploads db)"
    and ds: "derivatives db' = derivatives db @ extra"
    unfolding p(4) using extra(1) by simp_all
  show "follows_lifecycle db db'"
  proof (cases "up_state r = Processing")
    case True
    then show ?thesis
      using us
      by (intro follows_lifecycle_update[OF assms(1), where p = "\<lambda>r. up_id r = i \<and> up_state r = Processing"
            and f = "\<lambda>x. x\<lparr>up_state := Ready, up_updated := unix_timestamp now\<rparr>"]) auto
  next
    case False
    then show ?thesis using us by (intro follows_lifecycle_same[OF assms(1)]) simp
  qed
  show ready: "\<exists>r. lookup_row up_id i (uploads db') = Some r \<and> up_state r = Ready"
    using p(1,2) row by (auto simp: us lookup_update_rows)
  show pub: "\<forall>d\<in>set ds. published i d db'"
    using upserted(2) by (auto simp: list_all_iff published_def ds extra(1))
  show "\<exists>extra. derivatives db' = derivatives db @ extra \<and> (\<forall>x\<in>set extra. drv_upload x = i)"
    using ds extra(2) by blast
  show "j \<noteq> i \<Longrightarrow> lookup_row up_id j (uploads db') = lookup_row up_id j (uploads db)"
    by (cases "lookup_row up_id j (uploads db)") (auto simp: us lookup_update_rows dest: lookup_row_Some)
  have "upsert_derivatives i (unix_timestamp later) ds db' = Ok db'"
    using upserted(2) pub by (intro upsert_published[OF ok]) (auto simp: list_all_iff)
  then show "publish_derivatives i ds later db' = (Ok (), db')"
    using ready p(5,6,7) by (auto simp: publish_derivatives_def Let_def)
qed

text \<open>
  C8. Publishing is all or nothing.  Refused, it changes nothing.  Accepted, the upload is ready,
  every derivative of the set is stored with exactly the facts it was published with, the rows that
  were there are as they were, no other upload is touched, the database stays well formed, and
  publishing the same set again succeeds without changing anything.
\<close>

theorem publishing_is_atomic_and_immutable:
  assumes "db_ok db" "list_all (\<lambda>d. valid_object_key (pd_object_key d)) ds"
    "publish_derivatives i ds now db = (res, db')"
  shows "case res of Inl _ \<Rightarrow> db' = db
    | Inr _ \<Rightarrow> db_ok db' \<and>
        (\<exists>r. lookup_row up_id i (uploads db') = Some r \<and> up_state r = Ready) \<and>
        (\<forall>d\<in>set ds. \<exists>x\<in>set (derivatives db'). same_identity i d x \<and> same_facts d x) \<and>
        (\<exists>extra. derivatives db' = derivatives db @ extra \<and> (\<forall>x\<in>set extra. drv_upload x = i)) \<and>
        (\<forall>j. j \<noteq> i \<longrightarrow> lookup_row up_id j (uploads db') = lookup_row up_id j (uploads db)) \<and>
        publish_derivatives i ds later db' = (Ok (), db')"
proof (cases res)
  case (Inl e)
  then show ?thesis using publish_error assms(3) by simp
next
  case (Inr u)
  note ok = publish_Ok[OF assms(1,2) assms(3)[unfolded Inr]]
  show ?thesis using ok(1,3,5) ok(4)[unfolded published_def] ok(6) ok(7) Inr by simp
qed

definition sample_derivative :: PublishedDerivative where
  "sample_derivative = \<lparr>pd_object_key = ''media/a/1/x'', pd_preset = ''p'', pd_variant = ''master'',
     pd_content_type = ''image/webp'', pd_byte_len = 42, pd_sha256 = replicate 64 (CHR ''a'')\<rparr>"

lemmas byte_tests = worker_id_byte_def is_ascii_alphanumeric_def is_ascii_lower_def is_ascii_digit_def
  is_ascii_upper_def byte_of_def is_lower_hex_def

lemma sample_derivative_valid:
  "valid_object_key (pd_object_key sample_derivative)" "validate_derivatives [] [sample_derivative] = Ok ()"
  by (simp_all add: sample_derivative_def valid_object_key_def validate_object_key_def unsafe_segment_def
      key_byte_def validate_derivative_def narrow_token_def content_type_ok_def digest_ok_def byte_tests
      list_all_iff set_replicate_conv_if)

theorem publishing_is_atomic_and_immutable_witness:
  "\<exists>r. lookup_row up_id 1 (uploads (snd (publish_derivatives 1 [sample_derivative] 9000000000
      (sample_uploads_db Processing)))) = Some r \<and> up_state r = Ready"
proof -
  have "list_all (\<lambda>d. valid_object_key (pd_object_key d)) [sample_derivative]"
    using sample_derivative_valid(1) by simp
  note atomic = publishing_is_atomic_and_immutable[OF sample_uploads_db_ok[of Processing] this, where i = 1 and
      now = 9000000000 and res = "Ok ()" and db' = "snd (publish_derivatives 1 [sample_derivative]
        9000000000 (sample_uploads_db Processing))"]
  have "fst (publish_derivatives 1 [sample_derivative] 9000000000 (sample_uploads_db Processing)) = Ok ()"
    using sample_derivative_valid(2)
    by (simp add: publish_derivatives_def Let_def lookup_row_def upsert_derivative_def)
      (simp add: sample_derivative_def sample_upload_def i64_max_def)
  then have "publish_derivatives 1 [sample_derivative] 9000000000 (sample_uploads_db Processing) =
      (Ok (), snd (publish_derivatives 1 [sample_derivative] 9000000000 (sample_uploads_db Processing)))"
    by (metis prod.collapse)
  from atomic[OF this] show ?thesis by simp
qed

section \<open>Entering and rejecting\<close>

lemma update_uploads_none: "filter p (uploads db) = [] \<Longrightarrow> update_uploads p f db = db"
proof -
  assume none: "filter p (uploads db) = []"
  then have "update_rows p f (uploads db) = uploads db"
    unfolding update_rows_def by (intro map_idI) (auto simp: filter_empty_conv)
  then show ?thesis using none by (simp add: update_uploads_def)
qed

lemma filter_id_cases:
  assumes "db_ok db"
  shows "length (filter (\<lambda>r. up_id r = i \<and> q r) (uploads db)) =
    (case lookup_row up_id i (uploads db) of None \<Rightarrow> 0 | Some r \<Rightarrow> if q r then 1 else 0)"
proof -
  have "distinct (map up_id us) \<Longrightarrow> length (filter (\<lambda>r. up_id r = i \<and> q r) us) =
      (case lookup_row up_id i us of None \<Rightarrow> 0 | Some r \<Rightarrow> if q r then 1 else 0)" for us
  proof (induction us)
    case (Cons a us)
    have "up_id a = i \<Longrightarrow> filter (\<lambda>r. up_id r = i \<and> q r) us = []"
      using Cons.prems by (auto simp: filter_empty_conv image_iff)
    then show ?case using Cons by (auto simp: lookup_row_def)
  qed (simp add: lookup_row_def)
  then show ?thesis using assms by (simp add: db_ok_def unique_keys_ok_def)
qed

lemma start_processing_cases:
  assumes "db_ok db" "start_processing i t d now db = (res, db')"
  shows "db' = db \<and> (res = Ok () \<longrightarrow> content_type_ok t \<and> digest_ok d \<and> (\<exists>r. lookup_row up_id i (uploads db) = Some r \<and>
      up_state r = Processing \<and> up_detected r = Some t \<and> up_sha256 r = Some d)) \<or>
    res = Ok () \<and> db' = update_uploads (\<lambda>r. up_id r = i \<and> up_state r = Quarantined)
      (begin_processing t d (unix_timestamp now)) db \<and> content_type_ok t \<and> digest_ok d \<and>
      (\<exists>r. lookup_row up_id i (uploads db) = Some r \<and> up_state r = Quarantined)"
proof (cases "lookup_row up_id i (uploads db)")
  case None
  then have "filter (\<lambda>r. up_id r = i \<and> up_state r = Quarantined) (uploads db) = []"
    using filter_id_cases[OF assms(1), of i "\<lambda>r. up_state r = Quarantined"] by simp
  note none = update_uploads_none[OF this]
  show ?thesis using assms(2) None
    filter_id_cases[OF assms(1), of i "\<lambda>r. up_state r = Quarantined"]
    by (auto simp: start_processing_def Let_def none split: if_splits)
next
  case (Some r)
  show ?thesis
  proof (cases "up_state r = Quarantined")
    case True
    then show ?thesis
      using assms(2) Some filter_id_cases[OF assms(1), of i "\<lambda>r. up_state r = Quarantined"]
      by (auto simp: start_processing_def Let_def split: if_splits)
  next
    case False
    then have "filter (\<lambda>r. up_id r = i \<and> up_state r = Quarantined) (uploads db) = []"
      using Some filter_id_cases[OF assms(1), of i "\<lambda>r. up_state r = Quarantined"] by simp
    note none = update_uploads_none[OF this]
    show ?thesis
      using assms(2) Some False filter_id_cases[OF assms(1), of i "\<lambda>r. up_state r = Quarantined"]
      by (auto simp: start_processing_def Let_def none split: if_splits)
  qed
qed

lemma mark_rejected_cases:
  assumes "db_ok db" "mark_rejected i e now db = (res, db')"
  shows "db' = db \<or> res = Ok () \<and> db' = update_uploads (rejectable i)
      (\<lambda>r. r\<lparr>up_state := Rejected, up_error := Some e, up_updated := unix_timestamp now\<rparr>) db"
proof -
  have "filter (rejectable i) (uploads db) = [] \<or> length (filter (rejectable i) (uploads db)) = 1"
    using filter_id_cases[OF assms(1), of i "\<lambda>r. up_state r \<in> {Quarantined, Processing}"]
    by (auto simp: rejectable_def[abs_def] split: option.splits if_splits)
  then show ?thesis
    using assms(2) update_uploads_none[of "rejectable i" db]
    by (auto simp: mark_rejected_def Let_def split: if_splits option.splits)
qed

lemma start_processing_ok: "db_ok db \<Longrightarrow> db_ok (snd (start_processing i t d now db))"
  using start_processing_cases[of db i t d now]
  by (cases "start_processing i t d now db")
    (auto intro!: db_ok_update_uploads simp: begin_processing_def upload_row_ok_def split: option.splits)

lemma mark_rejected_ok: "db_ok db \<Longrightarrow> db_ok (snd (mark_rejected i e now db))"
  using mark_rejected_cases[of db i e now]
  by (cases "mark_rejected i e now db")
    (auto intro!: db_ok_update_uploads simp: rejectable_def upload_row_ok_def split: option.splits)

lemma publish_derivatives_ok:
  "db_ok db \<Longrightarrow> list_all (\<lambda>d. valid_object_key (pd_object_key d)) ds \<Longrightarrow>
    db_ok (snd (publish_derivatives i ds now db))"
  using publish_Ok(1)[of db ds i now] publish_error[of i ds now db]
  by (cases "publish_derivatives i ds now db"; cases "fst (publish_derivatives i ds now db)") auto

lemma processing_lifecycle:
  assumes "db_ok db"
  shows "follows_lifecycle db (snd (start_processing i t d now db))"
    "follows_lifecycle db (snd (mark_rejected i e now db))"
    "list_all (\<lambda>d. valid_object_key (pd_object_key d)) ds \<Longrightarrow>
      follows_lifecycle db (snd (publish_derivatives i ds now db))"
proof -
  have same: "follows_lifecycle db db" using assms by (rule follows_lifecycle_same) simp
  have moves: "can_transition_to\<^sup>*\<^sup>* Quarantined Processing" "can_transition_to\<^sup>*\<^sup>* Quarantined Rejected"
      "can_transition_to\<^sup>*\<^sup>* Processing Rejected"
    by (simp_all add: r_into_rtranclp)
  show "follows_lifecycle db (snd (start_processing i t d now db))"
    using moves start_processing_cases[OF assms, of i t d now] same
      follows_lifecycle_update[OF assms update_uploads_rows(1)[of "\<lambda>r. up_id r = i \<and> up_state r = Quarantined"
        "begin_processing t d (unix_timestamp now)" db]]
    by (cases "start_processing i t d now db") (auto simp: begin_processing_def)
  let ?reject = "\<lambda>r. r\<lparr>up_state := Rejected, up_error := Some e, up_updated := unix_timestamp now\<rparr>"
  have "follows_lifecycle db (update_uploads (rejectable i) ?reject db)"
    by (rule follows_lifecycle_update[OF assms update_uploads_rows(1)])
      (use moves in \<open>auto simp: rejectable_def\<close>)
  then show "follows_lifecycle db (snd (mark_rejected i e now db))"
    using mark_rejected_cases[OF assms, of i e now] same by (cases "mark_rejected i e now db") auto
  show "follows_lifecycle db (snd (publish_derivatives i ds now db))"
    if "list_all (\<lambda>d. valid_object_key (pd_object_key d)) ds"
    using publish_Ok(2)[OF assms that, of i now] publish_error[of i ds now db] same
    by (cases "publish_derivatives i ds now db"; cases "fst (publish_derivatives i ds now db)") auto
qed

text \<open>
  A source enters processing only from quarantine, with the detected facts recorded, and a
  worker that repeats the call after a crash, with the same facts, succeeds without any change.
\<close>

theorem start_processing_repeats:
  assumes "db_ok db" "start_processing i t d now db = (Ok (), db')"
  shows "\<exists>r r'. lookup_row up_id i (uploads db) = Some r \<and> lookup_row up_id i (uploads db') = Some r' \<and>
    (up_state r = Quarantined \<or> r' = r) \<and>
    up_state r' = Processing \<and> up_detected r' = Some t \<and> up_sha256 r' = Some d \<and>
    start_processing i t d later db' = (Ok (), db')"
proof -
  have ok: "db_ok db'" using start_processing_ok[OF assms(1), of i t d now] assms(2) by simp
  have again: "start_processing i t d later db' = (Ok (), db')"
    if "lookup_row up_id i (uploads db') = Some r" "up_state r = Processing" "up_detected r = Some t"
      "up_sha256 r = Some d" "content_type_ok t" "digest_ok d" for r
  proof -
    have "filter (\<lambda>r. up_id r = i \<and> up_state r = Quarantined) (uploads db') = []"
      using filter_id_cases[OF ok, of i "\<lambda>r. up_state r = Quarantined"] that(1,2) by simp
    from update_uploads_none[OF this] this show ?thesis
      using that by (simp add: start_processing_def Let_def)
  qed
  from start_processing_cases[OF assms] show ?thesis
  proof (elim disjE conjE exE)
    fix r assume r: "lookup_row up_id i (uploads db) = Some r" "up_state r = Quarantined"
      and db': "db' = update_uploads (\<lambda>r. up_id r = i \<and> up_state r = Quarantined)
        (begin_processing t d (unix_timestamp now)) db"
      and valid: "content_type_ok t" "digest_ok d"
    let ?r = "begin_processing t d (unix_timestamp now) r"
    have "lookup_row up_id i (uploads db') = Some ?r"
      using r lookup_row_Some[OF r(1)] by (simp add: db' lookup_update_rows begin_processing_def)
    then show ?thesis using r valid again[of ?r] by (auto simp: begin_processing_def)
  next
    assume "db' = db" "Ok () = Ok () \<longrightarrow> content_type_ok t \<and> digest_ok d \<and>
      (\<exists>r. lookup_row up_id i (uploads db) = Some r \<and> up_state r = Processing \<and>
        up_detected r = Some t \<and> up_sha256 r = Some d)"
    then show ?thesis using again by auto
  qed
qed

theorem start_processing_repeats_witness:
  "start_processing 1 ''image/png'' (replicate 64 (CHR ''0'')) 9000000000
     (snd (start_processing 1 ''image/png'' (replicate 64 (CHR ''0'')) 8000000000 sample_db)) =
   (Ok (), snd (start_processing 1 ''image/png'' (replicate 64 (CHR ''0'')) 8000000000 sample_db))"
proof -
  have "start_processing 1 ''image/png'' (replicate 64 (CHR ''0'')) 8000000000 sample_db =
      (Ok (), snd (start_processing 1 ''image/png'' (replicate 64 (CHR ''0'')) 8000000000 sample_db))"
    by (simp add: start_processing_def content_type_ok_def digest_ok_def byte_tests list_all_iff
        set_replicate_conv_if sample_upload_def)
  from start_processing_repeats[OF sample_db_ok this, of 9000000000] show ?thesis by blast
qed

end
