(* ===== verification/Site_Policy.thy ===== *)
theory Site_Policy
  imports Upload_Repository Samples
begin

text \<open>
  Site policies: \<open>SitePolicyRepository\<close> as \<open>SqliteStore\<close> implements it and \<open>SitePolicyService\<close> of
  \<open>application/src/policies.rs\<close>, which validates a requested policy, pins its watermark asset and
  publishes the next revision.  SHA-256 and the hex encoding of its digest are the parameter
  \<open>sha256_hex\<close>; the bytes that are hashed are modelled.
\<close>

section \<open>Types\<close>

record RequestedWatermarkPolicy =
  rw_asset :: uuid
  rw_position :: WatermarkPosition
  rw_margin :: u32
  rw_max_width :: u8
  rw_opacity :: u8

record PublishSitePolicy =
  psp_tenant_id :: string
  psp_schema :: u16
  psp_revision :: u64
  psp_issued_at :: instant
  psp_watermark :: "RequestedWatermarkPolicy option"

record PolicyAssetCandidate =
  pac_upload_id :: uuid
  pac_object_key :: string
  pac_declared_kind :: MediaKind
  pac_state :: UploadState
  pac_byte_len :: u64
  pac_content_type :: "string option"
  pac_sha256 :: "string option"

record StoredWatermarkPolicy =
  swp_asset :: uuid
  swp_object_key :: string
  swp_byte_len :: u64
  swp_sha256 :: string
  swp_position :: WatermarkPosition
  swp_margin :: u32
  swp_max_width :: u8
  swp_opacity :: u8

record SitePolicySnapshot =
  sps_tenant_id :: string
  sps_schema :: u16
  sps_revision :: u64
  sps_issued_at :: instant
  sps_sha256 :: string
  sps_watermark :: "StoredWatermarkPolicy option"

datatype PublishPolicyOutcome = Published | Unchanged

datatype SitePolicyRepositoryError = RevisionConflict | PolicyBackend string

datatype PublishSitePolicyError =
    PInvalidTenant | InvalidPolicy | AssetNotFound | AssetRejected | PRevisionConflict | PRepository

section \<open>The repository\<close>

definition policy_asset_from_row :: "UploadRow \<Rightarrow> (SitePolicyRepositoryError, PolicyAssetCandidate) result" where
  "policy_asset_from_row r =
     (case ObjectKey_new (up_key r) of
        Inl _ \<Rightarrow> Err (PolicyBackend ''SQLite backend: stored policy asset object key is invalid'')
      | Inr key \<Rightarrow>
         (case up_declared r of
            None \<Rightarrow> Err (PolicyBackend ''SQLite backend: unexpected null'')
          | Some kind \<Rightarrow>
             (case up_actual r of
                None \<Rightarrow> Err (PolicyBackend ''SQLite backend: stored policy asset has no confirmed length'')
              | Some n \<Rightarrow> Ok \<lparr>pac_upload_id = up_id r, pac_object_key = key, pac_declared_kind = kind,
                             pac_state = up_state r, pac_byte_len = of_nat n,
                             pac_content_type = up_detected r, pac_sha256 = up_sha256 r\<rparr>)))"

definition find_policy_asset :: "string \<Rightarrow> uuid \<Rightarrow> Database
    \<Rightarrow> (SitePolicyRepositoryError, PolicyAssetCandidate option) result" where
  "find_policy_asset tenant_id upload_id db =
     (case find_upload_row tenant_id upload_id db of
        None \<Rightarrow> Ok None | Some r \<Rightarrow> and_then (policy_asset_from_row r) (\<lambda>c. Ok (Some c)))"

definition stored_watermark :: "StoredWatermarkPolicy \<Rightarrow> StoredWatermark" where
  "stored_watermark w =
     \<lparr>wm_upload = swp_asset w, wm_key = swp_object_key w, wm_len = unat (swp_byte_len w),
      wm_sha256 = swp_sha256 w, wm_position = swp_position w, wm_margin = unat (swp_margin w),
      wm_max_width = unat (swp_max_width w), wm_opacity = unat (swp_opacity w)\<rparr>"

definition policy_row :: "instant \<Rightarrow> SitePolicySnapshot \<Rightarrow> PolicyRow" where
  "policy_row now s =
     \<lparr>pol_tenant = sps_tenant_id s, pol_revision = unat (sps_revision s), pol_schema = unat (sps_schema s),
      pol_issued = unix_timestamp (sps_issued_at s), pol_sha256 = sps_sha256 s,
      pol_watermark = map_option stored_watermark (sps_watermark s),
      pol_created = unix_timestamp now\<rparr>"

text \<open>The \<open>CHECK\<close> constraints of the table and its foreign key.\<close>

definition watermark_checks :: "StoredWatermark \<Rightarrow> bool" where
  "watermark_checks w \<longleftrightarrow> 1 \<le> wm_len w \<and> wm_len w \<le> 16777216 \<and> length (wm_sha256 w) = 64 \<and>
     wm_margin w \<le> 1024 \<and> 1 \<le> wm_max_width w \<and> wm_max_width w \<le> 50 \<and>
     1 \<le> wm_opacity w \<and> wm_opacity w \<le> 100"

definition policy_constraints :: "PolicyRow \<Rightarrow> Database \<Rightarrow> bool" where
  "policy_constraints p db \<longleftrightarrow> 1 \<le> length (pol_tenant p) \<and> length (pol_tenant p) \<le> 64 \<and>
     0 < pol_revision p \<and> pol_schema p = 1 \<and> length (pol_sha256 p) = 64 \<and>
     (case pol_watermark p of None \<Rightarrow> True
      | Some w \<Rightarrow> watermark_checks w \<and> wm_upload w \<in> up_id ` set (uploads db))"

definition next_revision :: "string \<Rightarrow> Database \<Rightarrow> nat" where
  "next_revision tenant_id db = (case latest_revision tenant_id db of None \<Rightarrow> 1 | Some m \<Rightarrow> m + 1)"

definition policy_key :: "PolicyRow \<Rightarrow> string \<times> nat" where
  "policy_key p = (pol_tenant p, pol_revision p)"

definition publish_site_policy :: "instant \<Rightarrow> SitePolicySnapshot \<Rightarrow> Database
    \<Rightarrow> (SitePolicyRepositoryError, PublishPolicyOutcome) result \<times> Database" where
  "publish_site_policy now s db =
     (let row = policy_row now s in
      if unat (sps_revision s) > i64_max then (Err RevisionConflict, db)
      else if (case sps_watermark s of None \<Rightarrow> False | Some w \<Rightarrow> unat (swp_byte_len w) > i64_max)
      then (Err (PolicyBackend ''watermark length exceeds SQLite range''), db)
      else if pol_revision row = next_revision (sps_tenant_id s) db
      then (if policy_constraints row db
            then (Ok Published, db\<lparr>site_policies := site_policies db @ [row]\<rparr>)
            else (Err (PolicyBackend ''SQLite backend: constraint failed''), db))
      else if map_option pol_sha256 (lookup_row policy_key (policy_key row) (site_policies db)) = Some (sps_sha256 s)
      then (Ok Unchanged, db)
      else (Err RevisionConflict, db))"

definition watermark_from_row :: "StoredWatermark \<Rightarrow> (SitePolicyRepositoryError, StoredWatermarkPolicy) result" where
  "watermark_from_row w =
     (case ObjectKey_new (wm_key w) of
        Inl _ \<Rightarrow> Err (PolicyBackend ''SQLite backend: stored watermark object key is invalid'')
      | Inr key \<Rightarrow>
          if wm_margin w \<ge> 2 ^ 32 then Err (PolicyBackend ''SQLite backend: stored watermark margin is invalid'')
          else if wm_max_width w \<ge> 2 ^ 8 then Err (PolicyBackend ''SQLite backend: stored watermark width is invalid'')
          else if wm_opacity w \<ge> 2 ^ 8 then Err (PolicyBackend ''SQLite backend: stored watermark opacity is invalid'')
          else Ok \<lparr>swp_asset = wm_upload w, swp_object_key = key, swp_byte_len = of_nat (wm_len w),
                   swp_sha256 = wm_sha256 w, swp_position = wm_position w,
                   swp_margin = of_nat (wm_margin w), swp_max_width = of_nat (wm_max_width w),
                   swp_opacity = of_nat (wm_opacity w)\<rparr>)"

definition site_policy_from_row :: "(int \<Rightarrow> bool) \<Rightarrow> PolicyRow
    \<Rightarrow> (SitePolicyRepositoryError, SitePolicySnapshot) result" where
  "site_policy_from_row representable p =
     (if \<not> representable (pol_issued p) then Err (PolicyBackend ''SQLite backend: timestamp out of range'')
      else and_then (case pol_watermark p of None \<Rightarrow> Ok None
                     | Some w \<Rightarrow> and_then (watermark_from_row w) (\<lambda>v. Ok (Some v)))
        (\<lambda>watermark.
          if pol_schema p \<ge> 2 ^ 16 then Err (PolicyBackend ''SQLite backend: stored policy schema version is invalid'')
          else Ok \<lparr>sps_tenant_id = pol_tenant p, sps_schema = of_nat (pol_schema p),
                   sps_revision = of_nat (pol_revision p), sps_issued_at = pol_issued p * 1000000000,
                   sps_sha256 = pol_sha256 p, sps_watermark = watermark\<rparr>))"

definition find_active_site_policy :: "(int \<Rightarrow> bool) \<Rightarrow> string \<Rightarrow> Database
    \<Rightarrow> (SitePolicyRepositoryError, SitePolicySnapshot option) result" where
  "find_active_site_policy representable tenant_id db =
     (case least_row (\<lambda>p. - int (pol_revision p)) (filter (\<lambda>p. pol_tenant p = tenant_id) (site_policies db)) of
        None \<Rightarrow> Ok None | Some p \<Rightarrow> and_then (site_policy_from_row representable p) (\<lambda>s. Ok (Some s)))"

definition find_site_policy_revision :: "(int \<Rightarrow> bool) \<Rightarrow> string \<Rightarrow> u64 \<Rightarrow> Database
    \<Rightarrow> (SitePolicyRepositoryError, SitePolicySnapshot option) result" where
  "find_site_policy_revision representable tenant_id revision db =
     (if unat revision > i64_max then Err RevisionConflict
      else (case lookup_row policy_key (tenant_id, unat revision) (site_policies db) of
          None \<Rightarrow> Ok None | Some p \<Rightarrow> and_then (site_policy_from_row representable p) (\<lambda>s. Ok (Some s))))"

section \<open>The settings digest\<close>

fun be_bytes :: "nat \<Rightarrow> nat \<Rightarrow> string" where
  "be_bytes 0 v = []"
| "be_bytes (Suc n) v = be_bytes n (v div 256) @ [char_of (v mod 256)]"

definition nul :: char where
  "nul = CHR 0x00"

fun watermark_position_name :: "WatermarkPosition \<Rightarrow> string" where
  "watermark_position_name Center = ''center''"
| "watermark_position_name TopLeft = ''top-left''"
| "watermark_position_name TopRight = ''top-right''"
| "watermark_position_name BottomLeft = ''bottom-left''"
| "watermark_position_name BottomRight = ''bottom-right''"

text \<open>The bytes \<open>normalized_settings_sha256\<close> feeds to the hasher.\<close>

fun settings_bytes :: "StoredWatermarkPolicy option \<Rightarrow> string" where
  "settings_bytes None = ''g7mb-site-policy-settings-v1'' @ [nul] @ ''watermark'' @ [nul] @ ''disabled'' @ [nul]"
| "settings_bytes (Some w) = ''g7mb-site-policy-settings-v1'' @ [nul] @ ''watermark'' @ [nul] @ ''enabled'' @ [nul] @
     be_bytes 16 (unat (swp_asset w)) @ [nul] @ swp_object_key w @ [nul] @ be_bytes 8 (unat (swp_byte_len w)) @
     swp_sha256 w @ watermark_position_name (swp_position w) @ be_bytes 4 (unat (swp_margin w)) @
     be_bytes 1 (unat (swp_max_width w)) @ be_bytes 1 (unat (swp_opacity w))"

definition normalized_settings_sha256 :: "(string \<Rightarrow> string) \<Rightarrow> StoredWatermarkPolicy option \<Rightarrow> string" where
  "normalized_settings_sha256 sha256_hex w = sha256_hex (settings_bytes w)"

section \<open>The service\<close>

definition site_policy_schema_version :: u16 where
  "site_policy_schema_version = 1"

definition max_watermark_asset_bytes :: u64 where
  "max_watermark_asset_bytes = 16 * 1024 * 1024"

definition policy_tenant_is_valid :: "string \<Rightarrow> bool" where
  "policy_tenant_is_valid t \<longleftrightarrow> t \<noteq> [] \<and> length t \<le> 64 \<and>
     list_all (\<lambda>c. is_ascii_alphanumeric c \<or> c = CHR ''-'' \<or> c = CHR ''_'') t"

definition validate_snapshot_envelope :: "PublishSitePolicy \<Rightarrow> instant \<Rightarrow> u64
    \<Rightarrow> (PublishSitePolicyError, unit) result" where
  "validate_snapshot_envelope request now max_skew_seconds =
     (let skew = nat \<bar>unix_timestamp now - unix_timestamp (psp_issued_at request)\<bar> in
      if \<not> policy_tenant_is_valid (psp_tenant_id request) \<or>
         psp_schema request \<noteq> site_policy_schema_version \<or> psp_revision request = 0 \<or>
         psp_revision request > 9223372036854775807 \<or> skew > unat max_skew_seconds
      then Err (if policy_tenant_is_valid (psp_tenant_id request) then InvalidPolicy else PInvalidTenant)
      else Ok ())"

definition validate_watermark_settings :: "RequestedWatermarkPolicy \<Rightarrow> (PublishSitePolicyError, unit) result" where
  "validate_watermark_settings w =
     (if rw_margin w > 1024 \<or> \<not> (1 \<le> rw_max_width w \<and> rw_max_width w \<le> 50) \<or>
         \<not> (1 \<le> rw_opacity w \<and> rw_opacity w \<le> 100)
      then Err InvalidPolicy else Ok ())"

definition is_lower_sha256 :: "string \<Rightarrow> bool" where
  "is_lower_sha256 v \<longleftrightarrow> length v = 64 \<and> list_all is_lower_hex v"

definition validate_asset :: "PolicyAssetCandidate \<Rightarrow> RequestedWatermarkPolicy
    \<Rightarrow> (PublishSitePolicyError, StoredWatermarkPolicy) result" where
  "validate_asset c requested =
     (case (pac_sha256 c, pac_content_type c) of
        (Some digest, Some content_type) \<Rightarrow>
          if \<not> is_lower_sha256 digest then Err AssetRejected
          else if pac_upload_id c \<noteq> rw_asset requested \<or> pac_declared_kind c \<noteq> Image \<or>
                  pac_state c \<noteq> Ready \<or> pac_byte_len c = 0 \<or>
                  pac_byte_len c > max_watermark_asset_bytes \<or>
                  content_type \<notin> {''image/jpeg'', ''image/png'', ''image/webp''}
          then Err AssetRejected
          else Ok \<lparr>swp_asset = pac_upload_id c, swp_object_key = pac_object_key c,
                   swp_byte_len = pac_byte_len c, swp_sha256 = digest,
                   swp_position = rw_position requested, swp_margin = rw_margin requested,
                   swp_max_width = rw_max_width requested, swp_opacity = rw_opacity requested\<rparr>
      | _ \<Rightarrow> Err AssetRejected)"

fun from_repository_error :: "SitePolicyRepositoryError \<Rightarrow> PublishSitePolicyError" where
  "from_repository_error RevisionConflict = PRevisionConflict"
| "from_repository_error (PolicyBackend _) = PRepository"

definition resolve_watermark :: "string \<Rightarrow> RequestedWatermarkPolicy option \<Rightarrow> Database
    \<Rightarrow> (PublishSitePolicyError, StoredWatermarkPolicy option) result" where
  "resolve_watermark tenant_id requested db =
     (case requested of
        None \<Rightarrow> Ok None
      | Some w \<Rightarrow> and_then (validate_watermark_settings w) (\<lambda>_.
         (case find_policy_asset tenant_id (rw_asset w) db of
            Inl e \<Rightarrow> Err (from_repository_error e)
          | Inr None \<Rightarrow> Err AssetNotFound
          | Inr (Some c) \<Rightarrow> and_then (validate_asset c w) (\<lambda>v. Ok (Some v)))))"

definition publish_policy :: "(string \<Rightarrow> string) \<Rightarrow> u64 \<Rightarrow> PublishSitePolicy \<Rightarrow> instant \<Rightarrow> instant \<Rightarrow> Database
    \<Rightarrow> (PublishSitePolicyError, SitePolicySnapshot \<times> PublishPolicyOutcome) result \<times> Database" where
  "publish_policy sha256_hex max_skew request now created_at db =
     (case validate_snapshot_envelope request now max_skew of Inl e \<Rightarrow> (Err e, db) | Inr _ \<Rightarrow>
     (case resolve_watermark (psp_tenant_id request) (psp_watermark request) db of
        Inl e \<Rightarrow> (Err e, db)
      | Inr watermark \<Rightarrow>
         (let snapshot = \<lparr>sps_tenant_id = psp_tenant_id request, sps_schema = psp_schema request,
                sps_revision = psp_revision request, sps_issued_at = psp_issued_at request,
                sps_sha256 = normalized_settings_sha256 sha256_hex watermark, sps_watermark = watermark\<rparr> in
          case publish_site_policy created_at snapshot db of
            (Inl e, db') \<Rightarrow> (Err (from_repository_error e), db')
          | (Inr outcome, db') \<Rightarrow> (Ok (snapshot, outcome), db'))))"

definition active_policy :: "(int \<Rightarrow> bool) \<Rightarrow> string \<Rightarrow> Database
    \<Rightarrow> (PublishSitePolicyError, SitePolicySnapshot option) result" where
  "active_policy representable tenant_id db =
     (if \<not> policy_tenant_is_valid tenant_id then Err PInvalidTenant
      else (case find_active_site_policy representable tenant_id db of
          Inl e \<Rightarrow> Err (from_repository_error e) | Inr s \<Rightarrow> Ok s))"

section \<open>The digest determines the settings\<close>

lemma length_be_bytes [simp]: "length (be_bytes n v) = n"
  by (induction n arbitrary: v) simp_all

lemma be_bytes_inj: "be_bytes n v = be_bytes n w \<Longrightarrow> v < 256 ^ n \<Longrightarrow> w < 256 ^ n \<Longrightarrow> v = w"
proof (induction n arbitrary: v w)
  case (Suc n)
  then have "be_bytes n (v div 256) = be_bytes n (w div 256)"
    "(char_of (v mod 256) :: char) = char_of (w mod 256)" by simp_all
  moreover have "v div 256 < 256 ^ n" "w div 256 < 256 ^ n"
    using Suc.prems(2,3) by (simp_all add: div_less_iff_less_mult mult.commute)
  ultimately have "v div 256 = w div 256" using Suc.IH by blast
  moreover have "v mod 256 = w mod 256"
    using arg_cong[OF \<open>(char_of (v mod 256) :: char) = char_of (w mod 256)\<close>, of "of_char :: char \<Rightarrow> nat"]
    by simp
  ultimately show ?case by (metis div_mult_mod_eq)
qed simp

lemma be_bytes_word_inj:
  fixes v w :: "'a::len word"
  assumes "be_bytes n (unat v) = be_bytes n (unat w)" "LENGTH('a) = 8 * n"
  shows "v = w"
proof -
  have "(256 :: nat) ^ n = 2 ^ LENGTH('a)" by (simp add: assms(2) power_mult)
  then have "unat v < 256 ^ n" "unat w < 256 ^ n" by simp_all
  then show ?thesis using be_bytes_inj[OF assms(1)] by (simp add: word_unat_eq_iff)
qed

lemma split_at_separator:
  "k @ c # u = l @ c # v \<Longrightarrow> c \<notin> set k \<Longrightarrow> c \<notin> set l \<Longrightarrow> k = l \<and> u = v"
proof (induction k arbitrary: l)
  case Nil
  then show ?case by (cases l) auto
next
  case (Cons a k)
  then show ?case by (cases l) auto
qed

lemma position_name_inj: "watermark_position_name p = watermark_position_name q \<Longrightarrow> p = q"
  by (cases p; cases q) simp_all

lemma settings_tail_inj:
  assumes "be_bytes 8 (unat (swp_byte_len v)) @ swp_sha256 v @ watermark_position_name (swp_position v) @
      be_bytes 4 (unat (swp_margin v)) @ be_bytes 1 (unat (swp_max_width v)) @ be_bytes 1 (unat (swp_opacity v)) =
    be_bytes 8 (unat (swp_byte_len w)) @ swp_sha256 w @ watermark_position_name (swp_position w) @
      be_bytes 4 (unat (swp_margin w)) @ be_bytes 1 (unat (swp_max_width w)) @ be_bytes 1 (unat (swp_opacity w))"
    and "length (swp_sha256 v) = 64" "length (swp_sha256 w) = 64"
  shows "swp_byte_len v = swp_byte_len w \<and> swp_sha256 v = swp_sha256 w \<and> swp_position v = swp_position w \<and>
    swp_margin v = swp_margin w \<and> swp_max_width v = swp_max_width w \<and> swp_opacity v = swp_opacity w"
proof -
  have parts: "be_bytes 8 (unat (swp_byte_len v)) = be_bytes 8 (unat (swp_byte_len w))"
      "swp_sha256 v = swp_sha256 w"
      "watermark_position_name (swp_position v) = watermark_position_name (swp_position w)"
      "be_bytes 4 (unat (swp_margin v)) = be_bytes 4 (unat (swp_margin w))"
      "be_bytes 1 (unat (swp_max_width v)) = be_bytes 1 (unat (swp_max_width w))"
      "be_bytes 1 (unat (swp_opacity v)) = be_bytes 1 (unat (swp_opacity w))"
    using assms by (simp_all add: append_eq_append_conv del: be_bytes.simps)
  show ?thesis
    using be_bytes_word_inj[OF parts(1)] be_bytes_word_inj[OF parts(4)] be_bytes_word_inj[OF parts(5)]
      be_bytes_word_inj[OF parts(6)] parts(2) position_name_inj[OF parts(3)] by simp
qed

text \<open>
  Different watermark settings are hashed from different bytes: the concatenation the digest is
  computed over determines the settings, so that only a collision of SHA-256 can make the repository
  answer that a changed policy is unchanged.
\<close>

theorem settings_bytes_determine_settings:
  assumes "settings_bytes v = settings_bytes w"
    and "\<And>x. v = Some x \<or> w = Some x \<Longrightarrow> valid_object_key (swp_object_key x) \<and> length (swp_sha256 x) = 64"
  shows "v = w"
proof (cases v; cases w)
  fix x y assume v: "v = Some x" and w: "w = Some y"
  have "\<not> key_byte nul"
    by (simp add: key_byte_def nul_def byte_of_def is_ascii_alphanumeric_def is_ascii_lower_def
        is_ascii_digit_def is_ascii_upper_def)
  then have no_nul: "nul \<notin> set (swp_object_key z)" if "v = Some z \<or> w = Some z" for z
    using assms(2)[OF that] by (auto simp: valid_object_key_iff list_all_iff)
  have "be_bytes 16 (unat (swp_asset x)) = be_bytes 16 (unat (swp_asset y))"
    and keys: "swp_object_key x @ nul # (be_bytes 8 (unat (swp_byte_len x)) @ swp_sha256 x @
        watermark_position_name (swp_position x) @ be_bytes 4 (unat (swp_margin x)) @
        be_bytes 1 (unat (swp_max_width x)) @ be_bytes 1 (unat (swp_opacity x))) =
      swp_object_key y @ nul # (be_bytes 8 (unat (swp_byte_len y)) @ swp_sha256 y @
        watermark_position_name (swp_position y) @ be_bytes 4 (unat (swp_margin y)) @
        be_bytes 1 (unat (swp_max_width y)) @ be_bytes 1 (unat (swp_opacity y)))"
    using assms(1) by (simp_all add: v w append_eq_append_conv del: be_bytes.simps)
  then have "swp_asset x = swp_asset y" by (intro be_bytes_word_inj) simp_all
  moreover have "swp_object_key x = swp_object_key y"
    and tails: "be_bytes 8 (unat (swp_byte_len x)) @ swp_sha256 x @
        watermark_position_name (swp_position x) @ be_bytes 4 (unat (swp_margin x)) @
        be_bytes 1 (unat (swp_max_width x)) @ be_bytes 1 (unat (swp_opacity x)) =
      be_bytes 8 (unat (swp_byte_len y)) @ swp_sha256 y @
        watermark_position_name (swp_position y) @ be_bytes 4 (unat (swp_margin y)) @
        be_bytes 1 (unat (swp_max_width y)) @ be_bytes 1 (unat (swp_opacity y))"
    using split_at_separator[OF keys] no_nul v w by blast+
  moreover have "length (swp_sha256 x) = 64" "length (swp_sha256 y) = 64"
    using assms(2) v w by blast+
  note rest = settings_tail_inj[OF tails this]
  ultimately have "x = y" using rest by (intro StoredWatermarkPolicy.equality) simp_all
  then show "v = w" using v w by simp
qed (use assms(1) in \<open>simp_all del: be_bytes.simps\<close>)

definition sample_watermark :: StoredWatermarkPolicy where
  "sample_watermark = \<lparr>swp_asset = 1, swp_object_key = ''raw/a/1/source'', swp_byte_len = 1000,
     swp_sha256 = replicate 64 (CHR ''a''), swp_position = TopLeft, swp_margin = 8, swp_max_width = 20,
     swp_opacity = 80\<rparr>"

theorem settings_bytes_determine_settings_witness:
  "settings_bytes (Some sample_watermark) \<noteq> settings_bytes (Some (sample_watermark\<lparr>swp_margin := 9\<rparr>))"
proof
  assume same: "settings_bytes (Some sample_watermark) = settings_bytes (Some (sample_watermark\<lparr>swp_margin := 9\<rparr>))"
  have "Some sample_watermark = Some (sample_watermark\<lparr>swp_margin := 9\<rparr>)"
    by (rule settings_bytes_determine_settings[OF same]) (use key_bytes(1) in \<open>auto simp: sample_watermark_def\<close>)
  then show False by (simp add: sample_watermark_def)
qed

section \<open>Publishing and reading back\<close>

lemma latest_revision_less:
  "p \<in> set (site_policies db) \<Longrightarrow> pol_tenant p = t \<Longrightarrow> pol_revision p < next_revision t db"
proof -
  assume p: "p \<in> set (site_policies db)" "pol_tenant p = t"
  let ?revs = "map pol_revision (filter (\<lambda>p. pol_tenant p = t) (site_policies db))"
  have mem: "pol_revision p \<in> set ?revs" using p by auto
  then obtain v vs where cons: "?revs = v # vs" by (cases ?revs) auto
  then have "latest_revision t db = Some (Max (set ?revs))"
    by (simp add: latest_revision_def Max.set_eq_fold del: list.set)
  moreover have "pol_revision p \<le> Max (set ?revs)" using mem by (intro Max_ge) auto
  ultimately show ?thesis by (simp add: next_revision_def)
qed

lemma unat_u8_less: "unat (a :: u8) < 256"
  using unsigned_less[of a] by simp

lemma watermark_roundtrip:
  "valid_object_key (swp_object_key w) \<Longrightarrow> watermark_from_row (stored_watermark w) = Ok w"
  using unat_u32_less[of "swp_margin w"] unat_u8_less[of "swp_max_width w"] unat_u8_less[of "swp_opacity w"]
  by (simp add: watermark_from_row_def stored_watermark_def ObjectKey_new_valid not_le)

lemma resolve_watermark_valid:
  assumes "resolve_watermark t req db = Ok (Some w)"
  shows "valid_object_key (swp_object_key w)"
proof -
  obtain q c where c: "find_policy_asset t (rw_asset q) db = Ok (Some c)" "validate_asset c q = Ok w"
    using assms by (auto simp: resolve_watermark_def and_then_eq_Inr split: option.splits sum.splits)
  then obtain r where "policy_asset_from_row r = Ok c"
    by (auto simp: find_policy_asset_def and_then_eq_Inr split: option.splits)
  then have "valid_object_key (pac_object_key c)"
    by (auto simp: policy_asset_from_row_def ObjectKey_new_def and_then_eq_Inr valid_object_key_def
        split: sum.splits option.splits)
  then show ?thesis using c(2) by (auto simp: validate_asset_def split: option.splits if_splits)
qed

lemma resolve_watermark_uploads:
  "uploads db' = uploads db \<Longrightarrow> resolve_watermark t req db' = resolve_watermark t req db"
  by (simp add: resolve_watermark_def find_policy_asset_def find_upload_row_def cong: option.case_cong)

lemma publish_policy_Ok:
  assumes "publish_policy hash skew request now created db = (Ok (s, outcome), db')"
  obtains watermark where "validate_snapshot_envelope request now skew = Ok ()"
    "resolve_watermark (psp_tenant_id request) (psp_watermark request) db = Ok watermark"
    "s = \<lparr>sps_tenant_id = psp_tenant_id request, sps_schema = psp_schema request,
       sps_revision = psp_revision request, sps_issued_at = psp_issued_at request,
       sps_sha256 = normalized_settings_sha256 hash watermark, sps_watermark = watermark\<rparr>"
    "publish_site_policy created s db = (Ok outcome, db')"
proof -
  obtain u where u: "validate_snapshot_envelope request now skew = Inr u"
    using assms by (cases "validate_snapshot_envelope request now skew") (simp_all add: publish_policy_def)
  obtain watermark where w: "resolve_watermark (psp_tenant_id request) (psp_watermark request) db = Inr watermark"
    using assms u by (cases "resolve_watermark (psp_tenant_id request) (psp_watermark request) db")
      (simp_all add: publish_policy_def)
  show ?thesis
    using that[OF _ w] assms u w by (auto simp: publish_policy_def Let_def split: sum.splits prod.splits)
qed

lemma policy_row_fields [simp]:
  "pol_tenant (policy_row created s) = sps_tenant_id s"
  "pol_revision (policy_row created s) = unat (sps_revision s)"
  "pol_sha256 (policy_row created s) = sps_sha256 s"
  "pol_schema (policy_row created s) = unat (sps_schema s)"
  "pol_issued (policy_row created s) = unix_timestamp (sps_issued_at s)"
  "pol_watermark (policy_row created s) = map_option stored_watermark (sps_watermark s)"
  "policy_key (policy_row created s) = (sps_tenant_id s, unat (sps_revision s))"
  by (simp_all add: policy_row_def policy_key_def)

lemma publish_site_policy_Published:
  assumes "publish_site_policy created s db = (Ok Published, db')"
  shows "db' = db\<lparr>site_policies := site_policies db @ [policy_row created s]\<rparr>"
    "pol_revision (policy_row created s) = next_revision (sps_tenant_id s) db"
    "policy_constraints (policy_row created s) db" "unat (sps_revision s) \<le> i64_max"
    "lookup_row policy_key (sps_tenant_id s, unat (sps_revision s)) (site_policies db') = Some (policy_row created s)"
    "publish_site_policy later s db' = (Ok Unchanged, db')"
proof -
  let ?row = "policy_row created s"
  show db': "db' = db\<lparr>site_policies := site_policies db @ [?row]\<rparr>"
    and rev: "pol_revision ?row = next_revision (sps_tenant_id s) db"
    and "policy_constraints ?row db" and bound: "unat (sps_revision s) \<le> i64_max"
    using assms by (auto simp: publish_site_policy_def Let_def split: if_splits option.splits)
  have len: "\<not> (case sps_watermark s of None \<Rightarrow> False | Some w \<Rightarrow> unat (swp_byte_len w) > i64_max)"
    using assms by (auto simp: publish_site_policy_def Let_def split: if_splits option.splits)
  have "(sps_tenant_id s, unat (sps_revision s)) \<notin> policy_key ` set (site_policies db)"
    using latest_revision_less[of _ db "sps_tenant_id s"] rev by (fastforce simp: policy_key_def)
  then show found: "lookup_row policy_key (sps_tenant_id s, unat (sps_revision s)) (site_policies db') = Some ?row"
    by (simp add: db' lookup_row_append lookup_row_None[THEN iffD2]) (simp add: lookup_row_def)
  have "unat (sps_revision s) < next_revision (sps_tenant_id s) db'"
    using latest_revision_less[of ?row db'] by (simp add: db')
  with found show "publish_site_policy later s db' = (Ok Unchanged, db')"
    using bound len by (simp add: publish_site_policy_def Let_def)
qed

lemma publish_site_policy_ok:
  assumes "db_ok db"
  shows "db_ok (snd (publish_site_policy created s db))"
proof (cases "fst (publish_site_policy created s db) = Ok Published")
  case True
  then have "publish_site_policy created s db = (Ok Published, snd (publish_site_policy created s db))"
    by (metis prod.collapse)
  note pub = publish_site_policy_Published[OF this]
  have "(sps_tenant_id s, unat (sps_revision s)) \<notin> (\<lambda>p. (pol_tenant p, pol_revision p)) ` set (site_policies db)"
    using latest_revision_less[of _ db "sps_tenant_id s"] pub(2) by fastforce
  then have "unique_keys_ok (snd (publish_site_policy created s db))"
    using db_ok_parts(3)[OF assms] by (simp add: pub(1) unique_keys_ok_def)
  moreover have "foreign_keys_ok (snd (publish_site_policy created s db))"
    using db_ok_parts(2)[OF assms] pub(3)
    by (auto simp: pub(1) foreign_keys_ok_def policy_constraints_def split: option.splits)
  ultimately show ?thesis using assms by (simp add: pub(1) db_ok_def queue_ok_def)
next
  case False
  then have "snd (publish_site_policy created s db) = db"
    by (auto simp: publish_site_policy_def Let_def)
  then show ?thesis using assms by simp
qed

text \<open>What a snapshot looks like when it comes back: the issue time is kept to the second.\<close>

definition to_second :: "SitePolicySnapshot \<Rightarrow> SitePolicySnapshot" where
  "to_second s = s\<lparr>sps_issued_at := unix_timestamp (sps_issued_at s) * 1000000000\<rparr>"

lemma policy_row_roundtrip:
  assumes "representable (unix_timestamp (sps_issued_at s))"
    and "\<And>w. sps_watermark s = Some w \<Longrightarrow> valid_object_key (swp_object_key w)"
  shows "site_policy_from_row representable (policy_row created s) = Ok (to_second s)"
proof -
  have schema: "unat (sps_schema s) < 2 ^ 16" using unsigned_less[of "sps_schema s"] by simp
  show ?thesis
  proof (cases "sps_watermark s")
    case None
    then show ?thesis using assms(1) schema by (cases s) (simp add: site_policy_from_row_def to_second_def)
  next
    case (Some w)
    then have "watermark_from_row (stored_watermark w) = Ok w" using assms(2) by (simp add: watermark_roundtrip)
    then show ?thesis using Some assms(1) schema
      by (cases s) (simp add: site_policy_from_row_def to_second_def)
  qed
qed

lemma newest_policy:
  assumes "\<And>p. p \<in> set ps \<Longrightarrow> pol_revision p < pol_revision row"
  shows "least_row (\<lambda>p. - int (pol_revision p)) (ps @ [row]) = Some row"
proof -
  obtain m where m: "least_row (\<lambda>p. - int (pol_revision p)) (ps @ [row]) = Some m"
    by (cases "least_row (\<lambda>p. - int (pol_revision p)) (ps @ [row])") (simp_all add: least_row_None)
  from least_row_Some[OF m] assms have "m = row" by fastforce
  with m show ?thesis by simp
qed

text \<open>
  A policy that was published is what the tenant's readers get: it is the active policy and the
  one found under its revision, with the issue time kept to the second; every earlier revision is
  kept as it was, the revision is one more than the highest before, the database stays well formed,
  and publishing the same request again is answered as unchanged and changes nothing.
\<close>

theorem published_policy_becomes_active:
  assumes "db_ok db" "publish_policy hash skew request now created db = (Ok (s, Published), db')"
    and "representable (unix_timestamp (psp_issued_at request))"
  shows "find_active_site_policy representable (psp_tenant_id request) db' = Ok (Some (to_second s)) \<and>
    find_site_policy_revision representable (psp_tenant_id request) (psp_revision request) db' =
      Ok (Some (to_second s)) \<and>
    (\<exists>row. site_policies db' = site_policies db @ [row]) \<and>
    unat (psp_revision request) = next_revision (psp_tenant_id request) db \<and> db_ok db' \<and>
    publish_policy hash skew request now later db' = (Ok (s, Unchanged), db')"
proof -
  obtain w where p: "validate_snapshot_envelope request now skew = Ok ()"
      "resolve_watermark (psp_tenant_id request) (psp_watermark request) db = Ok w"
      "s = \<lparr>sps_tenant_id = psp_tenant_id request, sps_schema = psp_schema request,
         sps_revision = psp_revision request, sps_issued_at = psp_issued_at request,
         sps_sha256 = normalized_settings_sha256 hash w, sps_watermark = w\<rparr>"
      "publish_site_policy created s db = (Ok Published, db')"
    using assms(2) by (rule publish_policy_Ok)
  let ?row = "policy_row created s"
  note pub = publish_site_policy_Published[OF p(4)]
  have s: "sps_tenant_id s = psp_tenant_id request" "sps_revision s = psp_revision request"
    "sps_issued_at s = psp_issued_at request" "sps_watermark s = w" by (simp_all add: p(3))
  have "site_policy_from_row representable ?row = Ok (to_second s)"
    using assms(3) p(2) by (intro policy_row_roundtrip) (auto simp: s intro: resolve_watermark_valid)
  note reread = this
  have "least_row (\<lambda>p. - int (pol_revision p))
      (filter (\<lambda>p. pol_tenant p = psp_tenant_id request) (site_policies db')) = Some ?row"
    using latest_revision_less[of _ db "psp_tenant_id request"] pub(2)
    by (simp add: pub(1) s) (intro newest_policy, simp add: s)
  then have active: "find_active_site_policy representable (psp_tenant_id request) db' = Ok (Some (to_second s))"
    by (simp add: find_active_site_policy_def reread)
  have revision: "find_site_policy_revision representable (psp_tenant_id request) (psp_revision request) db' =
      Ok (Some (to_second s))"
    using pub(4,5) by (simp add: find_site_policy_revision_def s reread)
  have "resolve_watermark (psp_tenant_id request) (psp_watermark request) db' = Ok w"
    using p(2) resolve_watermark_uploads[of db' db] by (simp add: pub(1))
  then have "publish_policy hash skew request now later db' = (Ok (s, Unchanged), db')"
    using p(1) pub(6) by (simp add: publish_policy_def p(3))
  moreover have "db_ok db'" using publish_site_policy_ok[OF assms(1), of created s] p(4) by simp
  ultimately show ?thesis using active revision pub(1,2) by (simp add: s)
qed

definition sample_policy_request :: PublishSitePolicy where
  "sample_policy_request = \<lparr>psp_tenant_id = ''a'', psp_schema = 1, psp_revision = 1,
     psp_issued_at = 9500000000, psp_watermark = None\<rparr>"

definition sample_policy :: SitePolicySnapshot where
  "sample_policy = \<lparr>sps_tenant_id = ''a'', sps_schema = 1, sps_revision = 1, sps_issued_at = 9500000000,
     sps_sha256 = replicate 64 (CHR ''0''), sps_watermark = None\<rparr>"

theorem published_policy_becomes_active_witness:
  "find_active_site_policy (\<lambda>_. True) ''a''
     (snd (publish_policy (\<lambda>_. replicate 64 (CHR ''0'')) 30 sample_policy_request 10000000000 10000000000 sample_db)) =
   Ok (Some (sample_policy\<lparr>sps_issued_at := 9000000000\<rparr>))"
proof -
  let ?run = "publish_policy (\<lambda>_. replicate 64 (CHR ''0'')) 30 sample_policy_request 10000000000 10000000000 sample_db"
  have "policy_tenant_is_valid ''a''"
    by (simp add: policy_tenant_is_valid_def is_ascii_alphanumeric_def is_ascii_lower_def byte_of_def)
  then have "fst ?run = Ok (sample_policy, Published)"
    by (simp add: publish_policy_def validate_snapshot_envelope_def sample_policy_request_def
        site_policy_schema_version_def unix_timestamp_def resolve_watermark_def normalized_settings_sha256_def
        publish_site_policy_def Let_def policy_row_def i64_max_def next_revision_def latest_revision_def
        policy_constraints_def sample_policy_def)
  then have "?run = (Ok (sample_policy, Published), snd ?run)" by (metis prod.collapse)
  from published_policy_becomes_active[OF sample_db_ok this, of "\<lambda>_. True"]
  have "find_active_site_policy (\<lambda>_. True) ''a'' (snd ?run) = Ok (Some (to_second sample_policy))"
    by (simp add: sample_policy_request_def)
  moreover have "to_second sample_policy = sample_policy\<lparr>sps_issued_at := 9000000000\<rparr>"
    by (simp add: to_second_def sample_policy_def unix_timestamp_def)
  ultimately show ?thesis by simp
qed

end
