(* ===== verification/Inventory.thy ===== *)
theory Inventory
  imports Upload_Repository Ports Samples
begin

text \<open>
  The reconciliation of the provider's objects with the database: \<open>InventoryRepository\<close> as
  \<open>SqliteStore\<close> implements it and \<open>InventoryService\<close> of \<open>application/src/inventory.rs\<close>, which scans both
  namespaces page by page and, in prune mode, deletes old orphans.  The provider is the parameter
  record of operations; the clock read before a deletion is recorded is the parameter \<open>clock\<close>.
\<close>

section \<open>Types\<close>

record InventoryObject =
  io_key :: string
  io_length :: u64

record OrphanCandidate =
  oc_key :: string
  oc_length :: u64

record InventoryReconcileResult =
  irr_known :: nat
  irr_suspected :: nat
  irr_eligible :: "OrphanCandidate list"

datatype InventoryRepositoryError = InventoryRepositoryError string

fun namespace_prefix :: "StorageNamespace \<Rightarrow> string" where
  "namespace_prefix Raw = ''raw/''"
| "namespace_prefix Derivative = ''media/''"

section \<open>The repository\<close>

definition inventory_cursor :: "StorageNamespace \<Rightarrow> Database \<Rightarrow> string option" where
  "inventory_cursor ns db = (case map_of (inventory_cursors db) ns of None \<Rightarrow> None | Some c \<Rightarrow> c)"

definition is_inventory_key_known :: "StorageNamespace \<Rightarrow> string \<Rightarrow> Database \<Rightarrow> bool" where
  "is_inventory_key_known ns key db =
     (case ns of
        Raw \<Rightarrow> list_ex (\<lambda>r. up_key r = key \<and> up_state r \<noteq> Deleted) (uploads db)
      | Derivative \<Rightarrow> list_ex (\<lambda>d. drv_key d = key \<and>
          (case lookup_row up_id (drv_upload d) (uploads db) of
             None \<Rightarrow> False | Some u \<Rightarrow> up_state u \<noteq> Deleted)) (derivatives db))"

definition observed_as :: "StorageNamespace \<Rightarrow> string \<Rightarrow> OrphanRow \<Rightarrow> bool" where
  "observed_as ns key r \<longleftrightarrow> orp_namespace r = ns \<and> orp_key r = key"

definition forget_orphan :: "StorageNamespace \<Rightarrow> string \<Rightarrow> Database \<Rightarrow> Database" where
  "forget_orphan ns key = delete_orphans (observed_as ns key)"

definition first_observation :: "StorageNamespace \<Rightarrow> InventoryObject \<Rightarrow> int \<Rightarrow> OrphanRow" where
  "first_observation ns obj ts =
     \<lparr>orp_namespace = ns, orp_key = io_key obj, orp_len = unat (io_length obj), orp_first_seen = ts,
      orp_last_seen = ts, orp_state = Suspected, orp_attempts = 0, orp_error = None, orp_deleted_at = None\<rparr>"

text \<open>\<open>ON CONFLICT DO UPDATE\<close>: a suspicion keeps its age, a tombstone starts again.\<close>

definition repeat_observation :: "InventoryObject \<Rightarrow> int \<Rightarrow> OrphanRow \<Rightarrow> OrphanRow" where
  "repeat_observation obj ts r =
     r\<lparr>orp_len := unat (io_length obj),
       orp_first_seen := (if orp_state r = OrphanDeleted then ts else orp_first_seen r),
       orp_last_seen := ts, orp_state := Suspected,
       orp_attempts := (if orp_state r = OrphanDeleted then 0 else orp_attempts r),
       orp_error := None, orp_deleted_at := None\<rparr>"

definition orphan_constraints :: "OrphanRow \<Rightarrow> bool" where
  "orphan_constraints r \<longleftrightarrow> 1 \<le> length (orp_key r) \<and> length (orp_key r) \<le> 1024 \<and>
     starts_with (namespace_prefix (orp_namespace r)) (orp_key r) \<and>
     orp_first_seen r \<le> orp_last_seen r"

text \<open>The upsert of one unknown object, and the row it leaves.\<close>

definition observe_orphan :: "StorageNamespace \<Rightarrow> InventoryObject \<Rightarrow> int \<Rightarrow> Database
    \<Rightarrow> (InventoryRepositoryError, OrphanRow \<times> Database) result" where
  "observe_orphan ns obj ts db =
     (case find (observed_as ns (io_key obj)) (orphans db) of
        None \<Rightarrow>
          (let r = first_observation ns obj ts in
           if orphan_constraints r then Ok (r, insert_orphan r db)
           else Err (InventoryRepositoryError ''SQLite backend: CHECK constraint failed''))
      | Some old \<Rightarrow>
          (let r = repeat_observation obj ts old in
           if orphan_constraints r
           then Ok (r, update_orphans (observed_as ns (io_key obj)) (repeat_observation obj ts) db)
           else Err (InventoryRepositoryError ''SQLite backend: CHECK constraint failed'')))"

fun reconcile_objects :: "StorageNamespace \<Rightarrow> int \<Rightarrow> int \<Rightarrow> InventoryObject list \<Rightarrow> InventoryReconcileResult
    \<Rightarrow> Database \<Rightarrow> (InventoryRepositoryError, InventoryReconcileResult \<times> Database) result" where
  "reconcile_objects ns ts before [] res db = Ok (res, db)"
| "reconcile_objects ns ts before (obj # objs) res db =
     (if is_inventory_key_known ns (io_key obj) db
      then reconcile_objects ns ts before objs (res\<lparr>irr_known := irr_known res + 1\<rparr>)
             (forget_orphan ns (io_key obj) db)
      else if unat (io_length obj) > i64_max
      then Err (InventoryRepositoryError ''inventory object length exceeds SQLite range'')
      else and_then (observe_orphan ns obj ts db) (\<lambda>(r, db1).
        reconcile_objects ns ts before objs
          (if orp_first_seen r \<le> before
           then res\<lparr>irr_eligible := irr_eligible res @ [\<lparr>oc_key = io_key obj, oc_length = io_length obj\<rparr>]\<rparr>
           else res\<lparr>irr_suspected := irr_suspected res + 1\<rparr>) db1))"

definition reconcile_inventory_page :: "StorageNamespace \<Rightarrow> InventoryObject list \<Rightarrow> instant \<Rightarrow> instant \<Rightarrow> Database
    \<Rightarrow> (InventoryRepositoryError, InventoryReconcileResult) result \<times> Database" where
  "reconcile_inventory_page ns objs observed_at eligible_before db =
     (if length objs > 1000 then (Err (InventoryRepositoryError ''inventory page exceeds the repository bound''), db)
      else (case reconcile_objects ns (unix_timestamp observed_at) (unix_timestamp eligible_before) objs
              \<lparr>irr_known = 0, irr_suspected = 0, irr_eligible = []\<rparr> db of
          Inl e \<Rightarrow> (Err e, db) | Inr (res, db') \<Rightarrow> (Ok res, db')))"

definition complete_orphan_deletion :: "StorageNamespace \<Rightarrow> string \<Rightarrow> instant \<Rightarrow> Database
    \<Rightarrow> (InventoryRepositoryError, unit) result \<times> Database" where
  "complete_orphan_deletion ns key deleted_at db =
     (let db1 = update_orphans (observed_as ns key)
            (\<lambda>r. r\<lparr>orp_state := OrphanDeleted, orp_deleted_at := Some (unix_timestamp deleted_at),
                   orp_error := None\<rparr>) db in
      if length (filter (observed_as ns key) (orphans db)) \<noteq> 1
      then (Err (InventoryRepositoryError ''orphan deletion has no durable observation''), db1)
      else (Ok (), db1))"

definition suspected_as :: "StorageNamespace \<Rightarrow> string \<Rightarrow> OrphanRow \<Rightarrow> bool" where
  "suspected_as ns key r \<longleftrightarrow> observed_as ns key r \<and> orp_state r = Suspected"

definition fail_orphan_deletion :: "StorageNamespace \<Rightarrow> string \<Rightarrow> string \<Rightarrow> instant \<Rightarrow> Database
    \<Rightarrow> (InventoryRepositoryError, unit) result \<times> Database" where
  "fail_orphan_deletion ns key error_code failed_at db =
     (let ts = unix_timestamp failed_at;
          f = (\<lambda>r. r\<lparr>orp_attempts := orp_attempts r + 1, orp_error := Some error_code, orp_last_seen := ts\<rparr>) in
      if error_code = [] \<or> length error_code > 64
      then (Err (InventoryRepositoryError ''orphan deletion error code is invalid''), db)
      else if list_ex (\<lambda>r. suspected_as ns key r \<and> ts < orp_first_seen r) (orphans db)
      then (Err (InventoryRepositoryError ''SQLite backend: CHECK constraint failed''), db)
      else if length (filter (suspected_as ns key) (orphans db)) \<noteq> 1
      then (Err (InventoryRepositoryError ''orphan deletion failure has no active observation''),
            update_orphans (suspected_as ns key) f db)
      else (Ok (), update_orphans (suspected_as ns key) f db))"

definition save_inventory_cursor :: "StorageNamespace \<Rightarrow> string option \<Rightarrow> Database
    \<Rightarrow> (InventoryRepositoryError, unit) result \<times> Database" where
  "save_inventory_cursor ns start_after db =
     (if (case start_after of None \<Rightarrow> False
          | Some c \<Rightarrow> length c > 1024 \<or> \<not> starts_with (namespace_prefix ns) c)
      then (Err (InventoryRepositoryError ''inventory cursor is invalid''), db)
      else (Ok (), db\<lparr>inventory_cursors := AList.update ns start_after (inventory_cursors db)\<rparr>))"

section \<open>The service\<close>

record InventoryPolicy =
  orphan_grace_period :: duration
  page_size :: u16
  max_pages_per_namespace :: nat

definition default_inventory_policy :: InventoryPolicy where
  "default_inventory_policy =
     \<lparr>orphan_grace_period = seconds (48 * 60 * 60), page_size = 1000, max_pages_per_namespace = 10\<rparr>"

definition inventory_policy_is_valid :: "InventoryPolicy \<Rightarrow> bool" where
  "inventory_policy_is_valid p \<longleftrightarrow>
     seconds (60 * 60) \<le> orphan_grace_period p \<and> orphan_grace_period p \<le> seconds (30 * 24 * 60 * 60) \<and>
     1 \<le> page_size p \<and> page_size p \<le> 1000 \<and>
     1 \<le> max_pages_per_namespace p \<and> max_pages_per_namespace p \<le> 100"

datatype InventoryMode = Audit | Prune

record InventoryRunSummary =
  is_pages :: nat
  is_listed :: nat
  is_invalid_keys :: nat
  is_known :: nat
  is_suspected :: nat
  is_eligible :: nat
  is_deleted :: nat
  is_delete_failed :: nat
  is_completed_namespaces :: nat

definition empty_summary :: InventoryRunSummary where
  "empty_summary = \<lparr>is_pages = 0, is_listed = 0, is_invalid_keys = 0, is_known = 0, is_suspected = 0,
     is_eligible = 0, is_deleted = 0, is_delete_failed = 0, is_completed_namespaces = 0\<rparr>"

datatype InventoryRunError =
    InvalidInventoryPolicy | InvalidDuration | InvalidPage | IObjectStore ObjectStoreError
  | IRepository InventoryRepositoryError

definition validate_cursor :: "StorageNamespace \<Rightarrow> string option \<Rightarrow> (InventoryRunError, unit) result" where
  "validate_cursor ns cursor =
     (if (case cursor of None \<Rightarrow> False
          | Some v \<Rightarrow> length v > 1024 \<or> \<not> starts_with (namespace_prefix ns) v)
      then Err InvalidPage else Ok ())"

fun strictly_increasing :: "string list \<Rightarrow> bool" where
  "strictly_increasing (a # b # ks) \<longleftrightarrow> a < b \<and> strictly_increasing (b # ks)"
| "strictly_increasing _ \<longleftrightarrow> True"

definition validate_page :: "StorageNamespace \<Rightarrow> string option \<Rightarrow> ListedObject list \<Rightarrow> string option
    \<Rightarrow> (InventoryRunError, unit) result" where
  "validate_page ns previous objects next_cursor =
     (if length objects > 1000 \<or> \<not> strictly_increasing (map lob_key objects) \<or>
         list_ex (\<lambda>x. length (lob_key x) > 1024 \<or> \<not> starts_with (namespace_prefix ns) (lob_key x) \<or>
           (case previous of None \<Rightarrow> False | Some cursor \<Rightarrow> lob_key x \<le> cursor)) objects \<or>
         (case next_cursor of None \<Rightarrow> False
          | Some cursor \<Rightarrow> (if objects = [] then None else Some (lob_key (last objects))) \<noteq> Some cursor)
      then Err InvalidPage else Ok ())"

definition valid_objects :: "StorageNamespace \<Rightarrow> ListedObject list \<Rightarrow> InventoryObject list" where
  "valid_objects ns objects = concat (map (\<lambda>x. case ObjectKey_new (lob_key x) of
       Inl _ \<Rightarrow> []
     | Inr key \<Rightarrow> if starts_with (namespace_prefix ns) (lob_key x)
                then [\<lparr>io_key = key, io_length = lob_content_length x\<rparr>] else []) objects)"

text \<open>The deletion loop of prune mode, with the final ownership check of each candidate.\<close>

fun prune_candidates :: "'o ObjectStore \<Rightarrow> StorageNamespace \<Rightarrow> (string \<Rightarrow> instant) \<Rightarrow> OrphanCandidate list
    \<Rightarrow> InventoryRunSummary \<Rightarrow> 'o \<times> Database \<Rightarrow> (InventoryRunError, InventoryRunSummary) result \<times> 'o \<times> Database" where
  "prune_candidates os ns clock [] summary s = (Ok summary, s)"
| "prune_candidates os ns clock (c # cs) summary (o', db) =
     (if is_inventory_key_known ns (oc_key c) db
      then prune_candidates os ns clock cs
             (summary\<lparr>is_known := is_known summary + 1, is_eligible := is_eligible summary - 1\<rparr>)
             (o', forget_orphan ns (oc_key c) db)
      else (case delete_object os (oc_key c) o' of
          (Inr _, o1) \<Rightarrow>
            (case complete_orphan_deletion ns (oc_key c) (clock (oc_key c)) db of
              (Inl e, db1) \<Rightarrow> (Err (IRepository e), o1, db1)
            | (Inr _, db1) \<Rightarrow>
                prune_candidates os ns clock cs (summary\<lparr>is_deleted := is_deleted summary + 1\<rparr>) (o1, db1))
        | (Inl _, o1) \<Rightarrow>
            (case fail_orphan_deletion ns (oc_key c) ''PROVIDER_DELETE_FAILED'' (clock (oc_key c)) db of
              (Inl e, db1) \<Rightarrow> (Err (IRepository e), o1, db1)
            | (Inr _, db1) \<Rightarrow>
                prune_candidates os ns clock cs (summary\<lparr>is_delete_failed := is_delete_failed summary + 1\<rparr>)
                  (o1, db1))))"

text \<open>After a page is reconciled: prune its old orphans and save the cursor.\<close>

definition settle_page :: "'o ObjectStore \<Rightarrow> StorageNamespace \<Rightarrow> InventoryMode \<Rightarrow> (string \<Rightarrow> instant)
    \<Rightarrow> OrphanCandidate list \<Rightarrow> string option \<Rightarrow> InventoryRunSummary \<Rightarrow> 'o \<times> Database
    \<Rightarrow> (InventoryRunError, InventoryRunSummary \<times> string option) result \<times> 'o \<times> Database" where
  "settle_page os ns mode clock eligible next_start_after summary s =
     (case (if mode = Prune then prune_candidates os ns clock eligible summary s else (Ok summary, s)) of
        (Inl e, s1) \<Rightarrow> (Err e, s1)
      | (Inr summary1, o1, db1) \<Rightarrow>
         (case save_inventory_cursor ns next_start_after db1 of
            (Inl e, db2) \<Rightarrow> (Err (IRepository e), o1, db2)
          | (Inr _, db2) \<Rightarrow> (Ok (summary1, next_start_after), o1, db2)))"

text \<open>One page: list, validate, reconcile, settle.\<close>

definition scan_page :: "'o ObjectStore \<Rightarrow> StorageNamespace \<Rightarrow> InventoryPolicy \<Rightarrow> InventoryMode \<Rightarrow> instant
    \<Rightarrow> (string \<Rightarrow> instant) \<Rightarrow> string option \<Rightarrow> InventoryRunSummary \<Rightarrow> 'o \<times> Database
    \<Rightarrow> (InventoryRunError, InventoryRunSummary \<times> string option) result \<times> 'o \<times> Database" where
  "scan_page os ns policy mode now clock cursor summary s =
     (case s of (o', db) \<Rightarrow>
      (case list_objects os \<lparr>lo_prefix = namespace_prefix ns, lo_start_after = cursor,
          lo_max_keys = page_size policy\<rparr> o' of
        (Inl e, o1) \<Rightarrow> (Err (IObjectStore e), o1, db)
      | (Inr page, o1) \<Rightarrow>
        (case validate_page ns cursor (lop_objects page) (lop_next_start_after page) of
          Inl e \<Rightarrow> (Err e, o1, db)
        | Inr _ \<Rightarrow>
          (let valid = valid_objects ns (lop_objects page) in
           case reconcile_inventory_page ns valid now (now - int (orphan_grace_period policy)) db of
             (Inl e, db1) \<Rightarrow> (Err (IRepository e), o1, db1)
           | (Inr res, db1) \<Rightarrow>
               settle_page os ns mode clock (irr_eligible res) (lop_next_start_after page)
                 (summary\<lparr>is_pages := is_pages summary + 1,
                    is_listed := is_listed summary + length (lop_objects page),
                    is_invalid_keys := is_invalid_keys summary + (length (lop_objects page) - length valid),
                    is_known := is_known summary + irr_known res,
                    is_suspected := is_suspected summary + irr_suspected res,
                    is_eligible := is_eligible summary + length (irr_eligible res)\<rparr>) (o1, db1)))))"

fun scan_pages :: "nat \<Rightarrow> 'o ObjectStore \<Rightarrow> StorageNamespace \<Rightarrow> InventoryPolicy \<Rightarrow> InventoryMode \<Rightarrow> instant
    \<Rightarrow> (string \<Rightarrow> instant) \<Rightarrow> string option \<Rightarrow> InventoryRunSummary \<Rightarrow> 'o \<times> Database
    \<Rightarrow> (InventoryRunError, InventoryRunSummary) result \<times> 'o \<times> Database" where
  "scan_pages 0 os ns policy mode now clock cursor summary s = (Ok summary, s)"
| "scan_pages (Suc n) os ns policy mode now clock cursor summary s =
     (case scan_page os ns policy mode now clock cursor summary s of
        (Inl e, s1) \<Rightarrow> (Err e, s1)
      | (Inr (summary1, None), s1) \<Rightarrow>
          (Ok (summary1\<lparr>is_completed_namespaces := is_completed_namespaces summary1 + 1\<rparr>), s1)
      | (Inr (summary1, Some c), s1) \<Rightarrow> scan_pages n os ns policy mode now clock (Some c) summary1 s1)"

definition scan_namespace :: "'o ObjectStore \<Rightarrow> StorageNamespace \<Rightarrow> InventoryPolicy \<Rightarrow> InventoryMode \<Rightarrow> instant
    \<Rightarrow> (string \<Rightarrow> instant) \<Rightarrow> InventoryRunSummary \<Rightarrow> 'o \<times> Database
    \<Rightarrow> (InventoryRunError, InventoryRunSummary) result \<times> 'o \<times> Database" where
  "scan_namespace os ns policy mode now clock summary s =
     (let cursor = inventory_cursor ns (snd s) in
      case validate_cursor ns cursor of
        Inl e \<Rightarrow> (Err e, s)
      | Inr _ \<Rightarrow> scan_pages (max_pages_per_namespace policy) os ns policy mode now clock cursor summary s)"

definition inventory_run_once :: "'o ObjectStore \<Rightarrow> 'o ObjectStore \<Rightarrow> InventoryPolicy \<Rightarrow> InventoryMode \<Rightarrow> instant
    \<Rightarrow> (string \<Rightarrow> instant) \<Rightarrow> 'o \<times> Database \<Rightarrow> (InventoryRunError, InventoryRunSummary) result \<times> 'o \<times> Database" where
  "inventory_run_once raw_store derivative_store policy mode now clock s =
     (case scan_namespace raw_store Raw policy mode now clock empty_summary s of
        (Inl e, s1) \<Rightarrow> (Err e, s1)
      | (Inr summary, s1) \<Rightarrow> scan_namespace derivative_store Derivative policy mode now clock summary s1)"

section \<open>What a run may delete\<close>

text \<open>\<open>deleted\<close> reads off a provider state the keys whose deletion was asked for; only \<open>delete_object\<close>
  adds to it.\<close>

definition logs_deletions :: "'o ObjectStore \<Rightarrow> ('o \<Rightarrow> string set) \<Rightarrow> bool" where
  "logs_deletions os deleted \<longleftrightarrow>
     (\<forall>q s. deleted (snd (list_objects os q s)) = deleted s) \<and>
     (\<forall>k s. deleted (snd (delete_object os k s)) = insert k (deleted s))"

text \<open>The suspicions of a database that are old enough, and what a run leaves alone.\<close>

definition old_suspects :: "StorageNamespace \<Rightarrow> int \<Rightarrow> Database \<Rightarrow> string set" where
  "old_suspects ns before db = {orp_key r |r. r \<in> set (orphans db) \<and> orp_namespace r = ns \<and>
     orp_state r = Suspected \<and> orp_first_seen r \<le> before}"

definition same_media :: "Database \<Rightarrow> Database \<Rightarrow> bool" where
  "same_media db db' \<longleftrightarrow> uploads db' = uploads db \<and> derivatives db' = derivatives db \<and>
     jobs db' = jobs db \<and> site_policies db' = site_policies db"

text \<open>A database a run may have reached: the media tables are untouched, the database is well formed,
  and nothing became an old suspect.\<close>

definition run_safe :: "int \<Rightarrow> Database \<Rightarrow> Database \<Rightarrow> bool" where
  "run_safe before db db' \<longleftrightarrow> same_media db db' \<and> (db_ok db \<longrightarrow> db_ok db') \<and>
     (\<forall>ns. old_suspects ns before db' \<subseteq> old_suspects ns before db)"

lemma run_safe_refl: "run_safe before db db"
  by (simp add: run_safe_def same_media_def)

lemma run_safe_trans: "run_safe before db db1 \<Longrightarrow> run_safe before db1 db2 \<Longrightarrow> run_safe before db db2"
  by (auto simp: run_safe_def same_media_def)

lemma known_same_media:
  "same_media db db' \<Longrightarrow> is_inventory_key_known ns key db' = is_inventory_key_known ns key db"
  by (cases ns) (simp_all add: same_media_def is_inventory_key_known_def)

lemma run_safe_forget: "run_safe before db (forget_orphan ns key db)"
  by (auto simp: run_safe_def same_media_def forget_orphan_def old_suspects_def intro: db_ok_orphans(3))

lemma run_safe_complete: "run_safe before db (snd (complete_orphan_deletion ns key t db))"
  by (auto simp: run_safe_def same_media_def complete_orphan_deletion_def Let_def old_suspects_def
      set_update_rows orphan_row_ok_def intro!: db_ok_orphans(2))

lemma run_safe_fail: "run_safe before db (snd (fail_orphan_deletion ns key e t db))"
  by (auto simp: run_safe_def same_media_def fail_orphan_deletion_def Let_def old_suspects_def
      set_update_rows orphan_row_ok_def suspected_as_def intro!: db_ok_orphans(2) split: if_splits)

lemma run_safe_cursor: "run_safe before db (snd (save_inventory_cursor ns c db))"
  by (auto simp: run_safe_def same_media_def save_inventory_cursor_def old_suspects_def db_ok_def
      foreign_keys_ok_def unique_keys_ok_def queue_ok_def)

lemma observe_orphan_spec:
  assumes "observe_orphan ns obj ts db = Inr (r, db1)" "before < ts"
  shows "run_safe before db db1"
    "orp_first_seen r \<le> before \<Longrightarrow> io_key obj \<in> old_suspects ns before db"
proof -
  have both: "run_safe before db db1 \<and>
      (orp_first_seen r \<le> before \<longrightarrow> io_key obj \<in> old_suspects ns before db)"
  proof (cases "find (observed_as ns (io_key obj)) (orphans db)")
    case None
    then have new: "r = first_observation ns obj ts" "db1 = insert_orphan r db"
      using assms(1) by (auto simp: observe_orphan_def Let_def split: if_splits)
    have "(ns, io_key obj) \<notin> (\<lambda>r. (orp_namespace r, orp_key r)) ` set (orphans db)"
      using None by (auto simp: find_None_iff observed_as_def)
    then have "db_ok db \<longrightarrow> db_ok db1"
      by (auto simp: new first_observation_def orphan_row_ok_def intro!: db_ok_orphans(1))
    then show ?thesis
      using assms(2) by (auto simp: run_safe_def same_media_def old_suspects_def new first_observation_def)
  next
    case (Some old)
    then have new: "r = repeat_observation obj ts old"
        "db1 = update_orphans (observed_as ns (io_key obj)) (repeat_observation obj ts) db"
      using assms(1) by (auto simp: observe_orphan_def Let_def split: if_splits)
    have old: "old \<in> set (orphans db)" "observed_as ns (io_key obj) old" using Some by (auto simp: find_Some_iff)
    have "db_ok db \<longrightarrow> db_ok db1"
      by (auto simp: new repeat_observation_def orphan_row_ok_def intro!: db_ok_orphans(2))
    moreover have aged: "orp_state x = Suspected \<and> orp_first_seen x \<le> before"
      if "orp_first_seen (repeat_observation obj ts x) \<le> before" for x
      using that assms(2) by (cases "orp_state x") (auto simp: repeat_observation_def)
    moreover have "old_suspects m before db1 \<subseteq> old_suspects m before db" for m
      using aged by (fastforce simp: old_suspects_def new set_update_rows repeat_observation_def split: if_splits)
    moreover have "same_media db db1" by (simp add: same_media_def new)
    moreover have "io_key obj \<in> old_suspects ns before db" if "orp_first_seen r \<le> before"
      unfolding old_suspects_def
      by (intro CollectI exI[of _ old]) (use aged[of old] that old new(1) in \<open>simp add: observed_as_def\<close>)
    ultimately show ?thesis unfolding run_safe_def by blast
  qed
  then show "run_safe before db db1"
    "orp_first_seen r \<le> before \<Longrightarrow> io_key obj \<in> old_suspects ns before db" by blast+
qed

lemma reconcile_objects_spec:
  assumes "reconcile_objects ns ts before objs res db = Inr (res', db')" "before < ts"
  shows "run_safe before db db' \<and> (\<exists>found. irr_eligible res' = irr_eligible res @ found \<and>
    (\<forall>c\<in>set found. oc_key c \<in> old_suspects ns before db \<and> \<not> is_inventory_key_known ns (oc_key c) db))"
  using assms(1)
proof (induction objs arbitrary: res db)
  case Nil
  then show ?case by (simp add: run_safe_refl)
next
  case (Cons obj objs)
  show ?case
  proof (cases "is_inventory_key_known ns (io_key obj) db")
    case True
    let ?db1 = "forget_orphan ns (io_key obj) db"
    have safe: "run_safe before db ?db1" by (rule run_safe_forget)
    from Cons.IH[of "res\<lparr>irr_known := irr_known res + 1\<rparr>" ?db1] Cons.prems True
    obtain found where found: "run_safe before ?db1 db'" "irr_eligible res' = irr_eligible res @ found"
        "\<forall>c\<in>set found. oc_key c \<in> old_suspects ns before ?db1 \<and> \<not> is_inventory_key_known ns (oc_key c) ?db1"
      by auto
    have "old_suspects ns before ?db1 \<subseteq> old_suspects ns before db" "same_media db ?db1"
      using safe by (simp_all add: run_safe_def)
    then have "\<forall>c\<in>set found. oc_key c \<in> old_suspects ns before db \<and> \<not> is_inventory_key_known ns (oc_key c) db"
      using found(3) known_same_media[of db ?db1 ns] by blast
    then show ?thesis using run_safe_trans[OF safe found(1)] found(2) by blast
  next
    case False
    then obtain r db1 where step: "observe_orphan ns obj ts db = Inr (r, db1)"
      using Cons.prems by (auto simp: and_then_eq_Inr split: if_splits)
    let ?res = "if orp_first_seen r \<le> before
        then res\<lparr>irr_eligible := irr_eligible res @ [\<lparr>oc_key = io_key obj, oc_length = io_length obj\<rparr>]\<rparr>
        else res\<lparr>irr_suspected := irr_suspected res + 1\<rparr>"
    have rest: "reconcile_objects ns ts before objs ?res db1 = Inr (res', db')"
      using Cons.prems False step by (simp split: if_splits)
    note safe = observe_orphan_spec(1)[OF step assms(2)]
    from Cons.IH[OF rest] obtain found where found: "run_safe before db1 db'"
        "irr_eligible res' = irr_eligible ?res @ found"
        "\<forall>c\<in>set found. oc_key c \<in> old_suspects ns before db1 \<and> \<not> is_inventory_key_known ns (oc_key c) db1"
      by blast
    have rest_ok: "\<forall>c\<in>set found. oc_key c \<in> old_suspects ns before db \<and> \<not> is_inventory_key_known ns (oc_key c) db"
    proof -
      have "old_suspects ns before db1 \<subseteq> old_suspects ns before db" "same_media db db1"
        using safe by (simp_all add: run_safe_def)
      then show ?thesis using found(3) known_same_media[of db db1 ns] by blast
    qed
    show ?thesis
    proof (cases "orp_first_seen r \<le> before")
      case True
      then have "io_key obj \<in> old_suspects ns before db" by (rule observe_orphan_spec(2)[OF step assms(2)])
      then show ?thesis
        using True False rest_ok found(2) run_safe_trans[OF safe found(1)]
        by (intro conjI exI[of _ "\<lparr>oc_key = io_key obj, oc_length = io_length obj\<rparr> # found"]) auto
    next
      case fresh: False
      then show ?thesis using rest_ok found(2) run_safe_trans[OF safe found(1)] by auto
    qed
  qed
qed

text \<open>A step of a run in one namespace: the deletions it adds are of old suspects nobody owns.\<close>

definition safe_step :: "('o \<Rightarrow> string set) \<Rightarrow> StorageNamespace \<Rightarrow> int \<Rightarrow> 'o \<times> Database \<Rightarrow> 'o \<times> Database \<Rightarrow> bool" where
  "safe_step deleted ns before s s' \<longleftrightarrow> run_safe before (snd s) (snd s') \<and>
     deleted (fst s) \<subseteq> deleted (fst s') \<and>
     (\<forall>k\<in>deleted (fst s') - deleted (fst s).
        k \<in> old_suspects ns before (snd s) \<and> \<not> is_inventory_key_known ns k (snd s))"

lemma safe_step_same: "deleted o1 = deleted o' \<Longrightarrow> run_safe before db db1 \<Longrightarrow> safe_step deleted ns before (o', db) (o1, db1)"
  by (simp add: safe_step_def)

lemma safe_step_trans:
  assumes "safe_step deleted ns before s s1" "safe_step deleted ns before s1 s2"
  shows "safe_step deleted ns before s s2"
proof -
  have "same_media (snd s) (snd s1)" "old_suspects ns before (snd s1) \<subseteq> old_suspects ns before (snd s)"
    using assms(1) by (simp_all add: safe_step_def run_safe_def)
  then show ?thesis
    using assms run_safe_trans known_same_media[of "snd s" "snd s1" ns] unfolding safe_step_def by blast
qed

lemma prune_candidates_safe:
  assumes "logs_deletions os deleted"
    and "\<forall>c\<in>set cs. oc_key c \<in> old_suspects ns before db0"
    and "safe_step deleted ns before (o0, db0) (o', db)"
    and "prune_candidates os ns clock cs summary (o', db) = (res, s')"
  shows "safe_step deleted ns before (o0, db0) s'"
  using assms(2-4)
proof (induction cs arbitrary: summary o' db)
  case Nil
  then show ?case by simp
next
  case (Cons c cs)
  have start: "same_media db0 db" "run_safe before db0 db" using Cons.prems(2) by (simp_all add: safe_step_def run_safe_def)
  show ?case
  proof (cases "is_inventory_key_known ns (oc_key c) db")
    case True
    have "safe_step deleted ns before (o0, db0) (o', forget_orphan ns (oc_key c) db)"
      using Cons.prems(2) run_safe_trans[OF start(2) run_safe_forget] by (simp add: safe_step_def)
    from Cons.IH[OF _ this] show ?thesis using Cons.prems(1,3) True by simp
  next
    case False
    obtain d o1 where del: "delete_object os (oc_key c) o' = (d, o1)" by (cases "delete_object os (oc_key c) o'")
    have "deleted o1 = insert (oc_key c) (deleted o')"
      using assms(1) del unfolding logs_deletions_def by (metis snd_conv)
    then have step: "safe_step deleted ns before (o0, db0) (o1, db1)" if "run_safe before db db1" for db1
      using Cons.prems(1,2) False known_same_media[OF start(1), of ns "oc_key c"] run_safe_trans[OF start(2) that]
      by (auto simp: safe_step_def)
    show ?thesis
    proof (cases d)
      case (Inl e)
      obtain r db1 where f: "fail_orphan_deletion ns (oc_key c) ''PROVIDER_DELETE_FAILED'' (clock (oc_key c)) db = (r, db1)"
        by (cases "fail_orphan_deletion ns (oc_key c) ''PROVIDER_DELETE_FAILED'' (clock (oc_key c)) db")
      have "run_safe before db db1"
        using run_safe_fail[of before db ns "oc_key c" "''PROVIDER_DELETE_FAILED''" "clock (oc_key c)"] f by simp
      from step[OF this] show ?thesis
        using Cons.IH[of o1 db1] Cons.prems(1,3) False del Inl f by (cases r) auto
    next
      case (Inr u)
      obtain r db1 where f: "complete_orphan_deletion ns (oc_key c) (clock (oc_key c)) db = (r, db1)"
        by (cases "complete_orphan_deletion ns (oc_key c) (clock (oc_key c)) db")
      have "run_safe before db db1"
        using run_safe_complete[of before db ns "oc_key c" "clock (oc_key c)"] f by simp
      from step[OF this] show ?thesis
        using Cons.IH[of o1 db1] Cons.prems(1,3) False del Inr f by (cases r) auto
    qed
  qed
qed

lemma settle_page_safe:
  assumes "logs_deletions os deleted" "\<forall>c\<in>set cs. oc_key c \<in> old_suspects ns before db0"
    and "safe_step deleted ns before (o0, db0) (o', db)"
    and "settle_page os ns mode clock cs c summary (o', db) = (res, s')"
  shows "safe_step deleted ns before (o0, db0) s' \<and> (mode = Audit \<longrightarrow> deleted (fst s') = deleted o')"
proof -
  let ?m = "if mode = Prune then prune_candidates os ns clock cs summary (o', db) else (Ok summary, o', db)"
  obtain r o1 db1 where m: "?m = (r, o1, db1)" by (metis prod.collapse)
  have pruned: "safe_step deleted ns before (o0, db0) (o1, db1)"
    using prune_candidates_safe[OF assms(1-3)] assms(3) m by (cases mode) auto
  have audit: "mode = Audit \<Longrightarrow> o1 = o'" using m by auto
  have saved: "safe_step deleted ns before (o0, db0) (o1, snd (save_inventory_cursor ns c db1))"
    using safe_step_trans[OF pruned safe_step_same[OF refl run_safe_cursor]] .
  show ?thesis
  proof (cases r)
    case (Inl e)
    then have "s' = (o1, db1)" using assms(4) m by (simp add: settle_page_def)
    then show ?thesis using pruned audit by auto
  next
    case (Inr u)
    then have "s' = (o1, snd (save_inventory_cursor ns c db1))"
      using assms(4) m by (auto simp: settle_page_def split: prod.splits sum.splits)
    then show ?thesis using saved audit by auto
  qed
qed

lemma reconcile_page_spec:
  assumes "reconcile_inventory_page ns objs now before_at db = (r, db1)"
    "unix_timestamp before_at < unix_timestamp now"
  shows "run_safe (unix_timestamp before_at) db db1"
    "r = Inr res \<Longrightarrow> \<forall>c\<in>set (irr_eligible res). oc_key c \<in> old_suspects ns (unix_timestamp before_at) db"
proof -
  let ?start = "\<lparr>irr_known = 0, irr_suspected = 0, irr_eligible = []\<rparr>"
  have "(\<exists>e. r = Inl e \<and> db1 = db) \<or> (\<exists>res. r = Inr res \<and>
      reconcile_objects ns (unix_timestamp now) (unix_timestamp before_at) objs ?start db = Inr (res, db1))"
    using assms(1)
    by (cases "reconcile_objects ns (unix_timestamp now) (unix_timestamp before_at) objs ?start db")
      (auto simp: reconcile_inventory_page_def split: if_splits)
  then have "run_safe (unix_timestamp before_at) db db1 \<and> (\<forall>res. r = Inr res \<longrightarrow>
      (\<forall>c\<in>set (irr_eligible res). oc_key c \<in> old_suspects ns (unix_timestamp before_at) db))"
    using reconcile_objects_spec[OF _ assms(2)] by (fastforce intro: run_safe_refl)
  then show "run_safe (unix_timestamp before_at) db db1"
    "r = Inr res \<Longrightarrow> \<forall>c\<in>set (irr_eligible res). oc_key c \<in> old_suspects ns (unix_timestamp before_at) db"
    by blast+
qed

lemma scan_page_safe:
  assumes "logs_deletions os deleted" "unix_timestamp (now - int (orphan_grace_period policy)) < unix_timestamp now"
    and "scan_page os ns policy mode now clock cursor summary s = (res, s')"
  shows "safe_step deleted ns (unix_timestamp (now - int (orphan_grace_period policy))) s s' \<and>
    (mode = Audit \<longrightarrow> deleted (fst s') = deleted (fst s))"
proof -
  let ?before = "unix_timestamp (now - int (orphan_grace_period policy))"
  obtain o' db where s: "s = (o', db)" by (cases s)
  let ?q = "\<lparr>lo_prefix = namespace_prefix ns, lo_start_after = cursor, lo_max_keys = page_size policy\<rparr>"
  obtain p o1 where list: "list_objects os ?q o' = (p, o1)" by (cases "list_objects os ?q o'")
  have o1: "deleted o1 = deleted o'"
    using assms(1) list unfolding logs_deletions_def by (metis snd_conv)
  show ?thesis
  proof (cases "\<exists>page. p = Inr page \<and> validate_page ns cursor (lop_objects page) (lop_next_start_after page) = Inr ()")
    case False
    then have "s' = (o1, db)"
      using assms(3) list by (cases p) (auto simp: scan_page_def s split: sum.splits)
    then show ?thesis using o1 by (simp add: s safe_step_def run_safe_refl)
  next
    case True
    then obtain page where page: "p = Inr page"
      "validate_page ns cursor (lop_objects page) (lop_next_start_after page) = Inr ()" by blast
    let ?objs = "valid_objects ns (lop_objects page)"
    obtain r db1 where rec: "reconcile_inventory_page ns ?objs now (now - int (orphan_grace_period policy)) db = (r, db1)"
      by (cases "reconcile_inventory_page ns ?objs now (now - int (orphan_grace_period policy)) db")
    note spec = reconcile_page_spec[OF rec assms(2)]
    have step: "safe_step deleted ns ?before (o', db) (o1, db1)"
      using safe_step_same[of deleted, OF o1 spec(1)] .
    show ?thesis
    proof (cases r)
      case (Inl e)
      then have "s' = (o1, db1)" using assms(3) list page rec by (simp add: scan_page_def s Let_def)
      then show ?thesis using step o1 by (simp add: s)
    next
      case (Inr found)
      obtain summary' where "settle_page os ns mode clock (irr_eligible found) (lop_next_start_after page)
          summary' (o1, db1) = (res, s')"
        using assms(3) list page rec Inr that by (simp add: scan_page_def s Let_def)
      from settle_page_safe[OF assms(1) spec(2)[OF Inr] step this] show ?thesis using o1 by (simp add: s)
    qed
  qed
qed

lemma scan_pages_safe:
  assumes "logs_deletions os deleted" "unix_timestamp (now - int (orphan_grace_period policy)) < unix_timestamp now"
    and "scan_pages n os ns policy mode now clock cursor summary s = (res, s')"
  shows "safe_step deleted ns (unix_timestamp (now - int (orphan_grace_period policy))) s s' \<and>
    (mode = Audit \<longrightarrow> deleted (fst s') = deleted (fst s))"
  using assms(3)
proof (induction n arbitrary: cursor summary s)
  case 0
  then show ?case by (simp add: safe_step_def run_safe_refl)
next
  case (Suc n)
  obtain r s1 where page: "scan_page os ns policy mode now clock cursor summary s = (r, s1)"
    by (cases "scan_page os ns policy mode now clock cursor summary s")
  note first = scan_page_safe[OF assms(1,2) page]
  show ?case
  proof (cases "\<exists>summary1 c. r = Inr (summary1, Some c)")
    case True
    then obtain summary1 c where "scan_pages n os ns policy mode now clock (Some c) summary1 s1 = (res, s')"
      using Suc.prems page by auto
    from Suc.IH[OF this] first show ?thesis by (auto intro: safe_step_trans)
  next
    case False
    then have "s' = s1"
      using Suc.prems page by (auto split: sum.splits option.splits prod.splits)
    then show ?thesis using first by simp
  qed
qed

lemma scan_namespace_safe:
  assumes "logs_deletions os deleted" "unix_timestamp (now - int (orphan_grace_period policy)) < unix_timestamp now"
    and "scan_namespace os ns policy mode now clock summary s = (res, s')"
  shows "safe_step deleted ns (unix_timestamp (now - int (orphan_grace_period policy))) s s' \<and>
    (mode = Audit \<longrightarrow> deleted (fst s') = deleted (fst s))"
proof (cases "validate_cursor ns (inventory_cursor ns (snd s))")
  case (Inl e)
  then have "s' = s" using assms(3) by (simp add: scan_namespace_def Let_def)
  then show ?thesis by (simp add: safe_step_def run_safe_refl)
next
  case (Inr u)
  then show ?thesis
    using scan_pages_safe[OF assms(1,2)] assms(3) by (simp add: scan_namespace_def Let_def)
qed

lemma inventory_run_safe:
  assumes "logs_deletions raw_store deleted" "logs_deletions derivative_store deleted"
    and "unix_timestamp (now - int (orphan_grace_period policy)) < unix_timestamp now"
    and "inventory_run_once raw_store derivative_store policy mode now clock s = (res, s')"
  shows "\<exists>s1. safe_step deleted Raw (unix_timestamp (now - int (orphan_grace_period policy))) s s1 \<and>
    safe_step deleted Derivative (unix_timestamp (now - int (orphan_grace_period policy))) s1 s' \<and>
    (mode = Audit \<longrightarrow> deleted (fst s') = deleted (fst s))"
proof -
  obtain r s1 where raw: "scan_namespace raw_store Raw policy mode now clock empty_summary s = (r, s1)"
    by (cases "scan_namespace raw_store Raw policy mode now clock empty_summary s")
  note first = scan_namespace_safe[OF assms(1,3) raw]
  show ?thesis
  proof (cases r)
    case (Inl e)
    then have "s' = s1" using assms(4) raw by (simp add: inventory_run_once_def)
    moreover have "safe_step deleted Derivative (unix_timestamp (now - int (orphan_grace_period policy))) s1 s1"
      by (simp add: safe_step_def run_safe_refl)
    ultimately show ?thesis using first by blast
  next
    case (Inr summary)
    then have "scan_namespace derivative_store Derivative policy mode now clock summary s1 = (res, s')"
      using assms(4) raw by (simp add: inventory_run_once_def)
    from scan_namespace_safe[OF assms(2,3) this] first show ?thesis by (intro exI[of _ s1]) auto
  qed
qed

lemma grace_before_now:
  assumes "inventory_policy_is_valid policy"
  shows "unix_timestamp (now - int (orphan_grace_period policy)) < unix_timestamp now"
proof -
  have "int (orphan_grace_period policy) \<ge> 1000000000"
    using assms by (simp add: inventory_policy_is_valid_def seconds_def)
  then have "(now - int (orphan_grace_period policy)) div 1000000000 \<le> (now - 1000000000) div 1000000000"
    by (intro zdiv_mono1) simp_all
  also have "(now - 1000000000) div 1000000000 = now div 1000000000 - 1"
    using div_mult_self1[of 1000000000 now "-1"] by simp
  finally show ?thesis by (simp add: unix_timestamp_def)
qed


text \<open>A provider that lists one private object and remembers what it was told to delete.\<close>

definition sample_inventory_store :: "string list ObjectStore" where
  "sample_inventory_store =
     \<lparr>presign_put = (\<lambda>_ s. (Err ObjectNotFound, s)), presign_get = (\<lambda>_ s. (Err ObjectNotFound, s)),
      create_multipart = (\<lambda>_ s. (Err ObjectNotFound, s)), store_presign_part = (\<lambda>_ s. (Err ObjectNotFound, s)),
      store_complete_multipart = (\<lambda>_ s. (Err ObjectNotFound, s)), store_abort_multipart = (\<lambda>_ s. (Err ObjectNotFound, s)),
      head_object = (\<lambda>_ s. (Err ObjectNotFound, s)),
      list_objects = (\<lambda>q s. (Ok \<lparr>lop_objects =
          (if lo_prefix q = ''raw/'' then [\<lparr>lob_key = ''raw/lost'', lob_content_length = 7\<rparr>] else []),
        lop_next_start_after = None\<rparr>, s)),
      delete_object = (\<lambda>k s. (Ok (), k # s))\<rparr>"

definition sample_orphan :: OrphanRow where
  "sample_orphan = \<lparr>orp_namespace = Raw, orp_key = ''raw/lost'', orp_len = 7, orp_first_seen = 10,
     orp_last_seen = 10, orp_state = Suspected, orp_attempts = 0, orp_error = None, orp_deleted_at = None\<rparr>"

lemmas scan_ten = scan_pages.simps(2)[of 9, unfolded Suc_numeral, simplified]

lemma sample_prune:
  "fst (snd (inventory_run_once sample_inventory_store sample_inventory_store default_inventory_policy Prune
      1000000000000000 (\<lambda>_. 1000000000000000) ([], insert_orphan sample_orphan empty_database))) = [''raw/lost'']"
proof -
  have key: "ObjectKey_new ''raw/lost'' = Ok ''raw/lost''"
    by (simp add: ObjectKey_new_def validate_object_key_def unsafe_segment_def key_byte_def
        is_ascii_alphanumeric_def is_ascii_lower_def is_ascii_digit_def is_ascii_upper_def byte_of_def)
  show ?thesis
    by (simp add: inventory_run_once_def scan_namespace_def inventory_cursor_def validate_cursor_def
        default_inventory_policy_def scan_ten scan_page_def sample_inventory_store_def validate_page_def
        starts_with_def valid_objects_def key reconcile_inventory_page_def is_inventory_key_known_def
        i64_max_def observe_orphan_def sample_orphan_def observed_as_def repeat_observation_def
        orphan_constraints_def Let_def seconds_def unix_timestamp_def settle_page_def
        complete_orphan_deletion_def save_inventory_cursor_def empty_database_def update_rows_def
        empty_summary_def)
qed


end
