(* ===== verification/Observability.thy ===== *)
theory Observability
  imports Upload_Repository Samples
begin

text \<open>
  The scrape-time gauges of \<open>application/src/operations.rs\<close>, read by \<open>SqliteStore\<close> from the counter
  tables the triggers keep, and their meaning in terms of the rows.
\<close>

record OperationalSnapshot =
  os_queued_jobs :: nat
  os_leased_jobs :: nat
  os_dead_letter_jobs :: nat
  os_oldest_queued_age_seconds :: nat
  os_processing_uploads :: nat
  os_cleanup_pending_uploads :: nat
  os_upload_tombstones :: nat
  os_orphan_suspects :: nat
  os_orphan_delete_failures :: nat
  os_reserved_source_bytes :: nat

datatype OperationalSnapshotError = OperationalSnapshotError string

definition operational_u64 :: "int \<Rightarrow> (OperationalSnapshotError, nat) result" where
  "operational_u64 value =
     (if value < 0 then Err (OperationalSnapshotError ''stored operational counter is invalid'')
      else Ok (nat value))"

text \<open>\<open>i64::saturating_sub\<close>.\<close>

definition saturating_sub :: "int \<Rightarrow> int \<Rightarrow> int" where
  "saturating_sub a b = max (- (2 ^ 63)) (min (2 ^ 63 - 1) (a - b))"

definition oldest_queued_at :: "Database \<Rightarrow> int option" where
  "oldest_queued_at db = (case map job_created (filter (\<lambda>j. job_state j = Queued) (jobs db)) of
     [] \<Rightarrow> None | t # ts \<Rightarrow> Some (fold min ts t))"

definition oldest_queued_age :: "instant \<Rightarrow> Database \<Rightarrow> int" where
  "oldest_queued_age now db =
     max 0 (case oldest_queued_at db of None \<Rightarrow> 0 | Some t \<Rightarrow> saturating_sub (unix_timestamp now) t)"

definition operational_snapshot :: "instant \<Rightarrow> Database
    \<Rightarrow> (OperationalSnapshotError, OperationalSnapshot) result" where
  "operational_snapshot now db = (let c = operational db in
     and_then (operational_u64 (queued_jobs c)) (\<lambda>queued.
     and_then (operational_u64 (leased_jobs c)) (\<lambda>leased.
     and_then (operational_u64 (dead_letter_jobs c)) (\<lambda>dead.
     and_then (operational_u64 (oldest_queued_age now db)) (\<lambda>age.
     and_then (operational_u64 (processing_uploads c)) (\<lambda>processing.
     and_then (operational_u64 (cleanup_pending_uploads c)) (\<lambda>pending.
     and_then (operational_u64 (upload_tombstones c)) (\<lambda>tombstones.
     and_then (operational_u64 (orphan_suspects c)) (\<lambda>suspects.
     and_then (operational_u64 (orphan_delete_failures c)) (\<lambda>failures.
     and_then (operational_u64 (global_reserved db)) (\<lambda>reserved.
       Ok \<lparr>os_queued_jobs = queued, os_leased_jobs = leased, os_dead_letter_jobs = dead,
           os_oldest_queued_age_seconds = age, os_processing_uploads = processing,
           os_cleanup_pending_uploads = pending, os_upload_tombstones = tombstones,
           os_orphan_suspects = suspects, os_orphan_delete_failures = failures,
           os_reserved_source_bytes = reserved\<rparr>)))))))))))"

text \<open>What the gauges mean: counts of rows and a sum of reserved bytes.\<close>

definition snapshot_of_rows :: "instant \<Rightarrow> Database \<Rightarrow> OperationalSnapshot" where
  "snapshot_of_rows now db = (let count = (\<lambda>s. length (filter (\<lambda>j. job_state j = s) (jobs db))) in
     \<lparr>os_queued_jobs = count Queued, os_leased_jobs = count Leased, os_dead_letter_jobs = count DeadLetter,
      os_oldest_queued_age_seconds = nat (oldest_queued_age now db),
      os_processing_uploads = length (filter (\<lambda>r. up_state r = Processing) (uploads db)),
      os_cleanup_pending_uploads = length (filter cleanup_pending (uploads db)),
      os_upload_tombstones = length (filter (\<lambda>r. up_state r = Deleted) (uploads db)),
      os_orphan_suspects = length (filter (\<lambda>r. orp_state r = Suspected) (orphans db)),
      os_orphan_delete_failures = length (filter delete_failed (orphans db)),
      os_reserved_source_bytes = sum_list (map (\<lambda>r. if live r then up_expected r else 0) (uploads db))\<rparr>)"

lemma sum_live_bytes: "sum_list (map live_bytes us) = int (sum_list (map (\<lambda>r. if live r then up_expected r else 0) us))"
  by (induction us) (simp_all add: live_bytes_def)

text \<open>
  On a well-formed database the gauges a scrape reads from the counter tables always succeed and
  are exactly the counts of the rows they stand for, however the rows came about.
\<close>

theorem operational_snapshot_counts_rows:
  assumes "db_ok db"
  shows "operational_snapshot now db = Ok (snapshot_of_rows now db)"
proof -
  have "operational db = operational_of (uploads db) (jobs db) (orphans db)"
    "global_reserved db = sum_list (map live_bytes (uploads db))"
    using db_ok_parts(1)[OF assms] by (simp_all add: counters_ok_def counters_agree_def)
  moreover have "0 \<le> oldest_queued_age now db" by (simp add: oldest_queued_age_def)
  ultimately show ?thesis
    by (simp add: operational_snapshot_def operational_u64_def operational_of_def snapshot_of_rows_def
        tally_def sum_live_bytes Let_def)
qed

theorem operational_snapshot_counts_rows_witness:
  "operational_snapshot 9000000000 sample_db = Ok
     \<lparr>os_queued_jobs = 2, os_leased_jobs = 0, os_dead_letter_jobs = 0, os_oldest_queued_age_seconds = 4,
      os_processing_uploads = 0, os_cleanup_pending_uploads = 0, os_upload_tombstones = 0,
      os_orphan_suspects = 0, os_orphan_delete_failures = 0, os_reserved_source_bytes = 2000\<rparr>"
  unfolding operational_snapshot_counts_rows[OF sample_db_ok]
  by (simp add: snapshot_of_rows_def sample_job_def sample_upload_def cleanup_pending_def live_def
      oldest_queued_age_def oldest_queued_at_def saturating_sub_def unix_timestamp_def)

end
