(* ===== verification/Store.thy ===== *)
theory Store
  imports Job_Queue Nonce_Store Lifecycle_Repository Processing_Repository Site_Policy Inventory
begin

text \<open>
  \<open>SqliteStore\<close> as one state machine: the inductive relation \<open>store_step\<close> has a rule for every
  operation of every port the store implements, so a path of steps is an arbitrary interleaving of
  what the API, the worker and the maintenance runs do to the database.  The invariant of all the
  reachable databases is proved once, by rule induction, from the facts of the components.
\<close>

section \<open>Machines with an invariant and a promise about each step\<close>

locale guarded_machine =
  fixes machine_step :: "'s \<Rightarrow> 's \<Rightarrow> bool" and initial :: 's
    and inv :: "'s \<Rightarrow> bool" and promise :: "'s \<Rightarrow> 's \<Rightarrow> bool"
  assumes inv_initial: "inv initial"
    and inv_step: "inv s \<Longrightarrow> machine_step s t \<Longrightarrow> inv t"
    and promise_step: "inv s \<Longrightarrow> machine_step s t \<Longrightarrow> promise s t"
begin

lemma reachable_inv: "machine_step\<^sup>*\<^sup>* initial s \<Longrightarrow> inv s"
  by (induction rule: rtranclp_induct) (auto intro: inv_initial inv_step)

lemma reachable_promise: "machine_step\<^sup>*\<^sup>* initial s \<Longrightarrow> machine_step s t \<Longrightarrow> promise s t"
  using reachable_inv promise_step by blast

end

section \<open>The steps of the store\<close>

text \<open>
  Where an argument has a type whose constructor checks it (an \<open>ObjectKey\<close>, a planned positive size),
  the rule has that check as its premise; the eligibility bound of a reconciliation lies before the
  observation, since the grace period is positive.
\<close>

inductive store_step :: "Database \<Rightarrow> Database \<Rightarrow> bool" where
  queue: "store_step db (queue_step rep op db)"
| nonce: "store_step db (snd (consume_nonce k n now until db))"
| save: "list_all reservation_ok (ubr_uploads batch) \<Longrightarrow> store_step db (snd (save_batch batch c db))"
| confirm: "store_step db (snd (mark_quarantined_and_enqueue fresh t i n preset now db))"
| drop: "store_step db (snd (mark_deleted t i now db))"
| cleanup: "store_step db (cleanup_step cop db)"
| start: "store_step db (snd (start_processing i ct d now db))"
| publish: "list_all (\<lambda>d. valid_object_key (pd_object_key d)) ds \<Longrightarrow>
    store_step db (snd (publish_derivatives i ds now db))"
| reject: "store_step db (snd (mark_rejected i e now db))"
| policy: "store_step db (snd (publish_site_policy now s db))"
| reconcile: "unix_timestamp before < unix_timestamp now \<Longrightarrow>
    store_step db (snd (reconcile_inventory_page ns objs now before db))"
| forget: "store_step db (forget_orphan ns key db)"
| orphan_deleted: "store_step db (snd (complete_orphan_deletion ns key now db))"
| orphan_failed: "store_step db (snd (fail_orphan_deletion ns key e now db))"
| cursor: "store_step db (snd (save_inventory_cursor ns start db))"

abbreviation reachable_database :: "Database \<Rightarrow> bool" where
  "reachable_database \<equiv> store_step\<^sup>*\<^sup>* empty_database"

section \<open>Every step keeps the database well formed and follows the lifecycle\<close>

lemma queue_step_uploads: "uploads (queue_step rep op db) = uploads db"
proof (cases op)
  case (OpClaim w now d)
  then show ?thesis by (cases rule: claim_next_cases[of rep w now d db]) (auto simp: take_claim_sequence_def)
qed (auto simp: enqueue_def renew_def complete_def fail_def Let_def split: sum.splits option.splits)

lemma cleanup_step_follows: "db_ok db \<Longrightarrow> follows_lifecycle db (cleanup_step op db)"
  by (cases op) (simp_all add: cleanup_lifecycle)

lemma run_safe_keeps:
  assumes "db_ok db" "run_safe before db db'"
  shows "db_ok db'" "follows_lifecycle db db'"
  using assms follows_lifecycle_same[OF assms(1)] by (auto simp: run_safe_def same_media_def)

lemma store_step_ok: "store_step db db' \<Longrightarrow> db_ok db \<Longrightarrow> db_ok db' \<and> follows_lifecycle db db'"
proof (induction rule: store_step.induct)
  case (queue db rep op)
  then show ?case using queue_step_ok follows_lifecycle_same queue_step_uploads by blast
next
  case (nonce db k n now until)
  then show ?case using consume_nonce_ok follows_lifecycle_same[OF nonce]
    by (auto simp: consume_nonce_def Let_def)
next
  case (policy db now s)
  then show ?case using publish_site_policy_ok follows_lifecycle_same[OF policy]
    by (auto simp: publish_site_policy_def Let_def)
next
  case (reconcile before now db ns objs)
  obtain r db1 where page: "reconcile_inventory_page ns objs now before db = (r, db1)" by fastforce
  then show ?case using run_safe_keeps[OF reconcile(2) reconcile_page_spec(1)[OF page reconcile(1)]] by simp
qed (simp_all add: save_batch_lifecycle mark_quarantined_ok mark_quarantined_lifecycle mark_deleted_ok
    mark_deleted_lifecycle cleanup_step_ok cleanup_step_follows start_processing_ok mark_rejected_ok
    publish_derivatives_ok processing_lifecycle run_safe_keeps[OF _ run_safe_forget]
    run_safe_keeps[OF _ run_safe_complete] run_safe_keeps[OF _ run_safe_fail] run_safe_keeps[OF _ run_safe_cursor])

interpretation store: guarded_machine store_step empty_database db_ok follows_lifecycle
  by unfold_locales (simp_all add: db_ok_empty store_step_ok)

text \<open>
  C1. Every database the store can reach from the empty one, by any interleaving of the operations of
  all its ports, is well formed -- its usage and operational counters agree with the rows, its foreign
  keys hold, its keys are unique -- and whatever operation comes next moves every upload only along
  the permitted state changes and drops the row of none but a tombstone.
\<close>

theorem reachable_databases_well_formed:
  assumes "reachable_database db"
  shows "db_ok db \<and> (\<forall>db'. store_step db db' \<longrightarrow> follows_lifecycle db db')"
  using store.reachable_inv[OF assms] store.reachable_promise[OF assms] by blast

theorem reachable_databases_well_formed_witness:
  "uploads (snd (save_batch sample_batch default_capacity empty_database)) \<noteq> [] \<and>
   db_ok (snd (save_batch sample_batch default_capacity empty_database))"
proof -
  let ?db = "snd (save_batch sample_batch default_capacity empty_database)"
  have eq: "save_batch sample_batch default_capacity empty_database = (Ok (), ?db)"
    using sample_batch_saved by (metis prod.collapse)
  have "store_step empty_database ?db" by (rule store_step.save[OF sample_batch_ok])
  then have "reachable_database ?db" by (rule r_into_rtranclp)
  note reachable_databases_well_formed[OF this]
  moreover have "uploads ?db \<noteq> []"
    using save_batch_effect[OF db_ok_empty sample_batch_ok eq] by (simp add: sample_batch_def empty_database_def)
  ultimately show ?thesis by blast
qed

section \<open>Published rows last as long as their upload\<close>

lemma save_uploads_derivatives: "save_uploads batch us db = Ok db' \<Longrightarrow> derivatives db' = derivatives db"
  by (induction us arbitrary: db) (auto split: if_splits UploadTransfer.splits)

lemma save_batch_derivatives: "derivatives (snd (save_batch batch c db)) = derivatives db"
  by (auto simp: save_batch_def dest!: save_uploads_derivatives split: option.splits sum.splits bool.splits)

lemma queue_step_derivatives: "derivatives (queue_step rep op db) = derivatives db"
proof (cases op)
  case (OpClaim w now d)
  then show ?thesis by (cases rule: claim_next_cases[of rep w now d db]) (auto simp: take_claim_sequence_def)
qed (auto simp: enqueue_def renew_def complete_def fail_def Let_def split: sum.splits option.splits)

lemma cleanup_step_derivatives:
  assumes "db_ok db" "x \<in> set (derivatives db)" "drv_upload x \<in> up_id ` set (uploads (cleanup_step op db))"
  shows "x \<in> set (derivatives (cleanup_step op db))"
proof (cases op)
  case (OpClaimCleanup w now cb rb d n m)
  then show ?thesis
    using assms(2) claim_cleanup_Ok(2)[OF assms(1)]
    by (cases rule: claim_cleanup_cases[of w now cb rb d n m db]) auto
next
  case (OpRequest t i now)
  then show ?thesis
    using assms(2) by (cases rule: request_deletion_cases[of t i now db]) auto
next
  case (OpPurge before n)
  show ?thesis
    using assms(2,3) unfolding OpPurge cleanup_step.simps purge_tombstones_def Let_def
    by (fastforce split: if_splits)
qed (use assms in \<open>auto simp: complete_cleanup_def fail_cleanup_def Let_def split: option.splits\<close>)

lemma processing_derivatives:
  assumes "db_ok db"
  shows "derivatives (snd (start_processing i ct d now db)) = derivatives db"
    "derivatives (snd (mark_rejected i e now db)) = derivatives db"
    "list_all (\<lambda>d. valid_object_key (pd_object_key d)) ds \<Longrightarrow>
      set (derivatives db) \<subseteq> set (derivatives (snd (publish_derivatives i ds now db)))"
proof -
  show "derivatives (snd (start_processing i ct d now db)) = derivatives db"
    by (auto simp: start_processing_def Let_def split: option.splits)
  show "derivatives (snd (mark_rejected i e now db)) = derivatives db"
    by (auto simp: mark_rejected_def Let_def split: option.splits)
  assume keys: "list_all (\<lambda>d. valid_object_key (pd_object_key d)) ds"
  obtain r db' where p: "publish_derivatives i ds now db = (r, db')" by fastforce
  then show "set (derivatives db) \<subseteq> set (derivatives (snd (publish_derivatives i ds now db)))"
    using publish_Ok(5)[OF assms keys] publish_error by (cases r) fastforce+
qed

lemma derivatives_kept:
  assumes "store_step db db'" "db_ok db" "x \<in> set (derivatives db)" "drv_upload x \<in> up_id ` set (uploads db')"
  shows "x \<in> set (derivatives db')"
  using assms
proof (induction rule: store_step.induct)
  case (reconcile before now db ns objs)
  obtain r db1 where page: "reconcile_inventory_page ns objs now before db = (r, db1)" by fastforce
  then show ?case
    using reconcile_page_spec(1)[OF page reconcile(1)] reconcile(3) by (simp add: run_safe_def same_media_def)
qed (auto simp: queue_step_derivatives save_batch_derivatives consume_nonce_def mark_quarantined_and_enqueue_def
    set_quarantined_def set_uploaded_def     mark_deleted_def publish_site_policy_def processing_derivatives forget_orphan_def complete_orphan_deletion_def
    fail_orphan_deletion_def save_inventory_cursor_def Let_def cleanup_step_derivatives split: option.splits
    dest: processing_derivatives(3)[THEN subsetD, rotated 2])

end
