(* ===== verification/Journey.thy ===== *)
theory Journey
  imports Store
begin

text \<open>
  One upload's way through the store, from the empty database to a ready asset, as concrete steps of
  \<open>store_step\<close>: the reachable databases the witnesses of the delivery and worker theories run on.
\<close>

definition reserved_db :: Database where
  "reserved_db = snd (save_batch sample_batch default_capacity empty_database)"

definition queued_db :: Database where
  "queued_db = snd (mark_quarantined_and_enqueue 9 ''a'' 1 1000 ''source-validation-v1'' 6000000000 reserved_db)"

definition sample_digest :: string where
  "sample_digest = replicate 64 (CHR ''a'')"

definition processing_db :: Database where
  "processing_db = snd (start_processing 1 ''image/png'' sample_digest 7000000000 queued_db)"

definition sample_master :: PublishedDerivative where
  "sample_master = \<lparr>pd_object_key = ''media/a/1/p/master.jpg'', pd_preset = ''p'', pd_variant = ''master'',
     pd_content_type = ''image/jpeg'', pd_byte_len = 500, pd_sha256 = sample_digest\<rparr>"

definition sample_thumbnail :: PublishedDerivative where
  "sample_thumbnail = \<lparr>pd_object_key = ''media/a/1/p/thumbnail.jpg'', pd_preset = ''p'', pd_variant = ''thumbnail'',
     pd_content_type = ''image/jpeg'', pd_byte_len = 42, pd_sha256 = sample_digest\<rparr>"

definition ready_db :: Database where
  "ready_db = snd (publish_derivatives 1 [sample_master, sample_thumbnail] 8000000000 processing_db)"

lemma reserved_rows:
  "uploads reserved_db = [reservation_row sample_batch (hd (ubr_uploads sample_batch))]"
  "jobs reserved_db = []" "derivatives reserved_db = []"
proof -
  have eq: "save_batch sample_batch default_capacity empty_database = (Ok (), reserved_db)"
    using sample_batch_saved unfolding reserved_db_def by (metis prod.collapse)
  show "uploads reserved_db = [reservation_row sample_batch (hd (ubr_uploads sample_batch))]"
    "jobs reserved_db = []"
    using save_batch_effect[OF db_ok_empty sample_batch_ok eq] by (simp_all add: empty_database_def) (simp add: sample_batch_def)
  show "derivatives reserved_db = []"
    unfolding reserved_db_def save_batch_derivatives by (simp add: empty_database_def)
qed

text \<open>The row of the upload on its way.\<close>

definition quarantined_row :: UploadRow where
  "quarantined_row = (reservation_row sample_batch (hd (ubr_uploads sample_batch)))
     \<lparr>up_state := Quarantined, up_actual := Some 1000, up_updated := 6\<rparr>"

definition processing_row :: UploadRow where
  "processing_row = quarantined_row
     \<lparr>up_state := Processing, up_detected := Some ''image/png'', up_sha256 := Some sample_digest, up_updated := 7\<rparr>"

lemmas row_defs = reservation_row_def sample_batch_def quarantined_row_def processing_row_def Let_def

lemma sample_digest_ok: "digest_ok sample_digest" "content_type_ok ''image/png''" "content_type_ok ''image/jpeg''"
  by (simp_all add: digest_ok_def sample_digest_def content_type_ok_def byte_tests list_all_iff set_replicate_conv_if)

lemma queued:
  "mark_quarantined_and_enqueue 9 ''a'' 1 1000 ''source-validation-v1'' 6000000000 reserved_db = (Ok (), queued_db)"
  "uploads queued_db = [quarantined_row]" "derivatives queued_db = []"
proof -
  have "fst (mark_quarantined_and_enqueue 9 ''a'' 1 1000 ''source-validation-v1'' 6000000000 reserved_db) = Ok () \<and>
      uploads queued_db = [quarantined_row] \<and> derivatives queued_db = []"
    using reserved_rows
    by (simp add: queued_db_def mark_quarantined_and_enqueue_def set_uploaded_def set_quarantined_def
        owned_in_state_def update_rows_def i64_max_def row_defs unix_timestamp_def)
  then show "mark_quarantined_and_enqueue 9 ''a'' 1 1000 ''source-validation-v1'' 6000000000 reserved_db = (Ok (), queued_db)"
    "uploads queued_db = [quarantined_row]" "derivatives queued_db = []"
    unfolding queued_db_def by (metis prod.collapse, blast, blast)
qed

lemma processing:
  "start_processing 1 ''image/png'' sample_digest 7000000000 queued_db = (Ok (), processing_db)"
  "uploads processing_db = [processing_row]" "derivatives processing_db = []"
proof -
  have "fst (start_processing 1 ''image/png'' sample_digest 7000000000 queued_db) = Ok () \<and>
      uploads processing_db = [processing_row] \<and> derivatives processing_db = []"
    using queued(2,3) sample_digest_ok
    by (simp add: processing_db_def start_processing_def begin_processing_def update_rows_def row_defs unix_timestamp_def)
  then show "start_processing 1 ''image/png'' sample_digest 7000000000 queued_db = (Ok (), processing_db)"
    "uploads processing_db = [processing_row]" "derivatives processing_db = []"
    unfolding processing_db_def by (metis prod.collapse, blast, blast)
qed

lemma sample_set_valid:
  "validate_derivatives [] [sample_master, sample_thumbnail] = Ok ()"
  "list_all (\<lambda>d. valid_object_key (pd_object_key d)) [sample_master, sample_thumbnail]"
  using sample_digest_ok
  by (simp_all add: sample_master_def sample_thumbnail_def valid_object_key_def validate_object_key_def
      unsafe_segment_def key_byte_def validate_derivative_def narrow_token_def derivative_identity_def byte_tests)

lemma ready:
  "publish_derivatives 1 [sample_master, sample_thumbnail] 8000000000 processing_db = (Ok (), ready_db)"
  "uploads ready_db = [processing_row\<lparr>up_state := Ready, up_updated := 8\<rparr>]"
  "derivatives ready_db = [derivative_row 1 8 sample_master, derivative_row 1 8 sample_thumbnail]"
proof -
  have "fst (publish_derivatives 1 [sample_master, sample_thumbnail] 8000000000 processing_db) = Ok () \<and>
      uploads ready_db = [processing_row\<lparr>up_state := Ready, up_updated := 8\<rparr>] \<and>
      derivatives ready_db = [derivative_row 1 8 sample_master, derivative_row 1 8 sample_thumbnail]"
    using processing(2,3) sample_set_valid(1)
    by (simp add: ready_db_def publish_derivatives_def lookup_row_def upsert_derivative_def update_rows_def
        unix_timestamp_def derivative_row_def same_identity_def row_defs i64_max_def)
      (simp add: sample_master_def sample_thumbnail_def)
  then show "publish_derivatives 1 [sample_master, sample_thumbnail] 8000000000 processing_db = (Ok (), ready_db)"
    "uploads ready_db = [processing_row\<lparr>up_state := Ready, up_updated := 8\<rparr>]"
    "derivatives ready_db = [derivative_row 1 8 sample_master, derivative_row 1 8 sample_thumbnail]"
    unfolding ready_db_def by (metis prod.collapse, blast, blast)
qed

lemma journey_steps:
  "store_step empty_database reserved_db" "store_step reserved_db queued_db"
  "store_step queued_db processing_db" "store_step processing_db ready_db"
  unfolding reserved_db_def queued_db_def processing_db_def ready_db_def
  by (rule store_step.save[OF sample_batch_ok] store_step.confirm store_step.start
      store_step.publish[OF sample_set_valid(2)])+

lemma reachable_journey:
  "reachable_database reserved_db" "reachable_database queued_db" "reachable_database processing_db"
  "reachable_database ready_db"
  by (meson journey_steps rtranclp.rtrancl_into_rtrancl rtranclp.rtrancl_refl)+

end
