(* ===== verification/Races.thy ===== *)
theory Races
  imports Store
begin

text \<open>
  What happens when the components interleave on one upload.  The holder of a cleanup lease completes
  the cleanup whatever has become of the upload since the claim: the statement checks the lease and
  nothing else.  Three consequences are stated as theorems, each with a witness that takes the store
  from a reachable database to the outcome by its own operations.
\<close>

section \<open>Completing a cleanup\<close>

lemma complete_cleanup_of_holder:
  assumes "db_ok db" "cleanup_holder db i = Some (w, t)"
  obtains r where "lookup_row up_id i (uploads db) = Some r"
    "complete_cleanup i w now db = (Ok (), update_uploads (owned_cleanup i w) (tombstone (unix_timestamp now)) db)"
    "lookup_row up_id i (uploads (snd (complete_cleanup i w now db))) = Some (tombstone (unix_timestamp now) r)"
proof -
  obtain r where r: "lookup_row up_id i (uploads db) = Some r" "up_state r \<noteq> Deleted" "up_cleanup_owner r = Some w"
    using assms(2) by (auto simp: cleanup_holder_Some)
  note row = lookup_row_Some[OF r(1)]
  have ids: "distinct (map up_id (uploads db))" using assms(1) by (simp add: db_ok_def unique_keys_ok_def)
  have "filter (owned_cleanup i w) (uploads db) = filter (\<lambda>x. up_id x = i) (uploads db)"
    using ids row r by (auto simp: owned_cleanup_def distinct_map inj_on_def intro!: filter_cong)
  moreover have "length (filter (\<lambda>x. up_id x = i) (uploads db)) = 1"
    using ids row by (intro length_filter_key) auto
  ultimately have completed: "complete_cleanup i w now db =
      (Ok (), update_uploads (owned_cleanup i w) (tombstone (unix_timestamp now)) db)"
    by (simp add: complete_cleanup_def)
  then have "lookup_row up_id i (uploads (snd (complete_cleanup i w now db))) = Some (tombstone (unix_timestamp now) r)"
    using r row by (simp add: lookup_update_rows tombstone_def owned_cleanup_def)
  with that r(1) completed show ?thesis by blast
qed

lemma tombstone_state [simp]: "up_state (tombstone ts r) = Deleted"
  by (simp add: tombstone_def)

lemma holder_completes:
  assumes "db_ok db" "cleanup_holder db i = Some (w, t)"
  shows "fst (complete_cleanup i w now db) = Ok () \<and>
    map_option up_state (lookup_row up_id i (uploads (snd (complete_cleanup i w now db)))) = Some Deleted"
  by (rule complete_cleanup_of_holder[OF assms, of now]) simp

lemma publish_needs_processing:
  assumes "lookup_row up_id i (uploads db) = Some r" "up_state r = Deleted"
  shows "fst (publish_derivatives i ds now db) \<noteq> Ok ()"
  using assms by (auto simp: publish_derivatives_def Let_def split: sum.splits)

section \<open>A deletion overtakes the processing\<close>

text \<open>
  C13. Deletion during processing.  The port says that an upload in processing cannot be deleted for want
  of a protocol to cancel the worker, but a request made before the confirmation stays: a maintenance
  run that claims the upload while it is quarantined or processed completes the cleanup, the upload
  becomes a tombstone, and the worker can publish nothing for it any more.
\<close>

theorem deletion_overtakes_processing:
  assumes "db_ok db" "claim_cleanup_batch w now cb rb d n m db = (Ok cs, db1)" "c \<in> set cs"
    and "lookup_row up_id (cc_upload_id c) (uploads db) = Some r" "up_state r \<in> {Quarantined, Processing}"
  shows "case complete_cleanup (cc_upload_id c) w later db1 of (res, db2) \<Rightarrow> res = Ok () \<and>
    map_option up_state (lookup_row up_id (cc_upload_id c) (uploads db2)) = Some Deleted \<and>
    fst (publish_derivatives (cc_upload_id c) ds after db2) \<noteq> Ok ()"
proof -
  note completed = holder_completes[OF claim_cleanup_Ok(5)[OF assms(1,2)] claimed_cleanup_held[OF assms(1-3)], of later]
  obtain res x where x: "complete_cleanup (cc_upload_id c) w later db1 = (res, x)"
    by (cases "complete_cleanup (cc_upload_id c) w later db1")
  from completed x obtain r' where "lookup_row up_id (cc_upload_id c) (uploads x) = Some r'" "up_state r' = Deleted"
    by auto
  from publish_needs_processing[OF this] completed x show ?thesis by simp
qed

text \<open>A request for a reservation, its confirmation and the start of its processing, on the samples.\<close>

definition overtaken_db :: Database where
  "overtaken_db =
     (let db1 = snd (request_deletion ''a'' 1 10000000000 (sample_uploads_db Created));
          db2 = snd (mark_quarantined_and_enqueue 21 ''a'' 1 1000 ''thumbnail-320'' 11000000000 db1)
      in snd (start_processing 1 ''image/jpeg'' (replicate 64 (CHR ''0'')) 12000000000 db2))"

definition overtaken_row :: UploadRow where
  "overtaken_row = (sample_upload 1 ''a'' ''raw/a/1/source'' Processing)
     \<lparr>up_delete_requested := Some 10, up_cleanup_retry := Some 10, up_detected := Some ''image/jpeg'',
      up_sha256 := Some (replicate 64 (CHR ''0'')), up_updated := 12\<rparr>"

lemma request_step: "store_step db (snd (request_deletion t i now db))"
  using store_step.cleanup[of db "OpRequest t i now"] by simp

lemma overtaken_steps:
  "store_step\<^sup>*\<^sup>* (sample_uploads_db Created) overtaken_db"
  unfolding overtaken_db_def Let_def
  using rtranclp.rtrancl_into_rtrancl[of store_step] request_step store_step.confirm store_step.start
  by (meson r_into_rtranclp)

lemma overtaken_uploads:
  "uploads overtaken_db = [overtaken_row, sample_upload 2 ''b'' ''raw/b/2/source'' Created]"
  "derivatives overtaken_db = []"
proof -
  have "uploads overtaken_db = [overtaken_row, sample_upload 2 ''b'' ''raw/b/2/source'' Created] \<and> derivatives overtaken_db = []"
    by (simp add: overtaken_db_def Let_def overtaken_row_def sample_upload_def request_deletion_def find_upload_row_def
        deletable_def policy_references_def requestable_def set_delete_requested_def unix_timestamp_def
        mark_quarantined_and_enqueue_def set_uploaded_def set_quarantined_def owned_in_state_def i64_max_def
        start_processing_def content_type_ok_def digest_ok_def begin_processing_def update_rows_def byte_of_def
        is_lower_hex_def is_ascii_digit_def list_all_iff)
  then show "uploads overtaken_db = [overtaken_row, sample_upload 2 ''b'' ''raw/b/2/source'' Created]"
    "derivatives overtaken_db = []" by simp_all
qed

lemma overtaken_db_ok: "db_ok overtaken_db"
  unfolding overtaken_db_def Let_def
  by (intro start_processing_ok mark_quarantined_ok request_deletion_ok sample_uploads_db_ok)

definition overtaken_candidate :: CleanupCandidate where
  "overtaken_candidate = \<lparr>cc_tenant_id = ''a'', cc_upload_id = 1, cc_raw_key = ''raw/a/1/source'',
     cc_state = Processing, cc_transfer = SinglePut, cc_session = None, cc_derivative_keys = [],
     cc_reason = UserRequested, cc_attempts = 1\<rparr>"

lemma overtaken_claim:
  "fst (claim_cleanup_batch ''m1'' 100000000000 50000000000 50000000000 30000000000 1 3 overtaken_db) =
     Ok [overtaken_candidate]"
proof -
  have rows: "cleanup_rows 100 50 50 (Suc 0) 3 overtaken_db = [overtaken_row]"
    by (simp add: cleanup_rows_def overtaken_uploads cleanup_eligible_def overtaken_row_def sample_upload_def
        cleanup_order_def sort_key_def insort_key_def)
  have stored: "stored_upload_from_row overtaken_row = Ok \<lparr>sur_upload_id = 1, sur_object_key = ''raw/a/1/source'',
      sur_expected_size = 1000, sur_state = Processing, sur_transfer = SinglePut, sur_session = None\<rparr>"
    using key_bytes(1) by (simp add: stored_upload_from_row_def overtaken_row_def sample_upload_def
        ObjectKey_new_def valid_object_key_def)
  have fields: "up_cleanup_attempts overtaken_row = 0" "up_id overtaken_row = 1"
    by (simp_all add: overtaken_row_def sample_upload_def)
  have leased: "lease_rows ''m1'' 130 [overtaken_row] overtaken_db = Inr ([overtaken_candidate],
      update_uploads (\<lambda>x. up_id x = 1) (lease_cleanup ''m1'' 130) overtaken_db)"
    using fields by (simp add: stored derivative_keys_def Let_def overtaken_uploads sample_upload_def
        cleanup_candidate_def overtaken_candidate_def cleanup_reason_def)
      (simp add: overtaken_row_def sample_upload_def)
  show ?thesis
    by (simp add: claim_cleanup_batch_def cleanup_claim_valid_def worker_id_byte_def is_ascii_alphanumeric_def
      is_ascii_lower_def is_ascii_digit_def is_ascii_upper_def byte_of_def seconds_def as_secs_def
      unix_timestamp_def i64_max_def rows leased del: lease_rows.simps)
qed

theorem deletion_overtakes_processing_witness:
  "store_step\<^sup>*\<^sup>* (sample_uploads_db Created) overtaken_db \<and>
   map_option up_state (lookup_row up_id 1 (uploads overtaken_db)) = Some Processing \<and>
   fst (complete_cleanup 1 ''m1'' 101000000000
     (snd (claim_cleanup_batch ''m1'' 100000000000 50000000000 50000000000 30000000000 1 3 overtaken_db))) = Ok ()"
proof -
  let ?run = "claim_cleanup_batch ''m1'' 100000000000 50000000000 50000000000 30000000000 1 3 overtaken_db"
  have claim: "?run = (Ok [overtaken_candidate], snd ?run)" using overtaken_claim by (metis prod.collapse)
  have row: "lookup_row up_id (cc_upload_id overtaken_candidate) (uploads overtaken_db) = Some overtaken_row"
    by (simp add: overtaken_uploads overtaken_candidate_def lookup_row_def) (simp add: overtaken_row_def sample_upload_def)
  have state: "up_state overtaken_row = Processing" by (simp add: overtaken_row_def sample_upload_def)
  from deletion_overtakes_processing[OF overtaken_db_ok claim _ row, where later = 101000000000 and ds = "[]" and after = 0] state
  have "fst (complete_cleanup (cc_upload_id overtaken_candidate) ''m1'' 101000000000 (snd ?run)) = Ok ()"
    by (simp del: One_nat_def add: split_beta)
  then show ?thesis using overtaken_steps row state by (simp add: overtaken_candidate_def)
qed

section \<open>A cleanup overtakes a confirmation\<close>

text \<open>
  A reservation claimed as expired may be confirmed before the run gets to it.  The confirmation
  succeeds and queues the job, and the run still completes its cleanup: the confirmed upload becomes
  a tombstone.
\<close>

theorem cleanup_overtakes_confirmation:
  assumes "db_ok db" "cleanup_holder db i = Some (w, lease_until)"
    and "mark_quarantined_and_enqueue fresh t i n preset now db = (Ok (), db1)"
  shows "map_option up_state (lookup_row up_id i (uploads db1)) = Some Quarantined \<and>
    fst (complete_cleanup i w later db1) = Ok () \<and>
    map_option up_state (lookup_row up_id i (uploads (snd (complete_cleanup i w later db1)))) = Some Deleted"
proof -
  have ok: "db_ok db1" using mark_quarantined_ok[OF assms(1)] assms(3) by (metis snd_conv)
  obtain r where r: "find_upload_row t i db = Some r"
      "find_upload_row t i db1 = Some (r\<lparr>up_state := Quarantined, up_actual := Some (unat n),
         up_updated := unix_timestamp now\<rparr>)"
    using mark_quarantined_success(1)[OF assms(1,3)] by blast
  note before = find_upload_lookup[OF assms(1) r(1)] and after = find_upload_lookup[OF ok r(2)]
  have "cleanup_holder db1 i = Some (w, lease_until)"
    using assms(2) before after by (simp add: cleanup_holder_Some)
  from holder_completes[OF ok this, of later] after show ?thesis by simp
qed

theorem cleanup_overtakes_confirmation_witness:
  "fst (complete_cleanup 1 ''m1'' 102000000000 (snd (mark_quarantined_and_enqueue 21 ''a'' 1 1000 ''thumbnail-320''
     101000000000 (snd (claim_cleanup_batch ''m1'' 100000000000 50000000000 50000000000 30000000000 1 3
       (sample_uploads_db Created)))))) = Ok ()"
proof -
  let ?leased = "update_uploads (\<lambda>x. up_id x = 1) (lease_cleanup ''m1'' 130) (sample_uploads_db Created)"
  let ?run = "mark_quarantined_and_enqueue 21 ''a'' 1 1000 ''thumbnail-320'' 101000000000 ?leased"
  note ok = claim_cleanup_Ok(5)[OF sample_uploads_db_ok sample_cleanup_claim]
  have holder: "cleanup_holder ?leased 1 = Some (''m1'', 130)"
    using claimed_cleanup_held[OF sample_uploads_db_ok sample_cleanup_claim,
        of "cleanup_candidate expired_row expired_stored []"]
    by (simp add: cleanup_candidate_def expired_stored_def unix_timestamp_def as_secs_def)
  have "fst ?run = Ok ()"
    by (simp add: mark_quarantined_and_enqueue_def Let_def set_uploaded_def set_quarantined_def owned_in_state_def
        i64_max_def update_rows_def sample_upload_def lease_cleanup_def)
  then have "?run = (Ok (), snd ?run)" by (metis prod.collapse)
  from cleanup_overtakes_confirmation[OF ok holder this, of 102000000000] show ?thesis
    unfolding sample_cleanup_claim snd_conv by blast
qed

section \<open>A policy pins an asset that is being deleted\<close>

text \<open>
  An upload a site policy pins cannot be requested for deletion, but a policy can pin an upload
  whose deletion is already running: publishing does not look at the request.  The cleanup completes
  and the active policy refers to a tombstone.
\<close>

theorem policy_pins_upload_being_deleted:
  assumes "db_ok db" "cleanup_holder db (swp_asset wm) = Some (w, lease_until)"
    and "publish_policy hash skew request now created db = (Ok (s, Published), db1)" "sps_watermark s = Some wm"
  shows "policy_references (swp_asset wm) db1 \<noteq> 0 \<and>
    fst (complete_cleanup (swp_asset wm) w later db1) = Ok () \<and>
    map_option up_state (lookup_row up_id (swp_asset wm)
      (uploads (snd (complete_cleanup (swp_asset wm) w later db1)))) = Some Deleted"
proof -
  obtain watermark where s: "publish_site_policy created s db = (Ok Published, db1)"
    by (rule publish_policy_Ok[OF assms(3)])
  note pub = publish_site_policy_Published[OF s]
  have ok: "db_ok db1" using publish_site_policy_ok[OF assms(1), of created s] s by simp
  have holder: "cleanup_holder db1 (swp_asset wm) = Some (w, lease_until)"
    using assms(2) by (simp add: pub(1) cleanup_holder_Some)
  have "policy_references (swp_asset wm) db1 \<noteq> 0"
    by (simp add: pub(1) policy_references_def assms(4) stored_watermark_def)
  with holder_completes[OF ok holder, of later] show ?thesis by blast
qed

text \<open>An image of the samples whose deletion is under way, and a policy that asks for it.\<close>

definition doomed_asset_db :: Database where
  "doomed_asset_db = update_uploads (\<lambda>r. up_id r = 1) (\<lambda>r. (lease_cleanup ''m1'' 130 r)
     \<lparr>up_delete_requested := Some 10, up_detected := Some ''image/png'', up_sha256 := Some (replicate 64 (CHR ''0''))\<rparr>)
     (sample_uploads_db Ready)"

definition doomed_request :: PublishSitePolicy where
  "doomed_request = sample_policy_request\<lparr>psp_watermark := Some \<lparr>rw_asset = 1, rw_position = TopLeft,
     rw_margin = 8, rw_max_width = 20, rw_opacity = 80\<rparr>\<rparr>"

lemma doomed_asset_db_ok: "db_ok doomed_asset_db"
  unfolding doomed_asset_db_def
  by (rule db_ok_update_uploads[OF sample_uploads_db_ok])
    (simp_all add: upload_row_ok_def lease_cleanup_def split: option.splits)

definition doomed_snapshot :: SitePolicySnapshot where
  "doomed_snapshot = sample_policy\<lparr>sps_watermark := Some \<lparr>swp_asset = 1, swp_object_key = ''raw/a/1/source'',
     swp_byte_len = 1000, swp_sha256 = replicate 64 (CHR ''0''), swp_position = TopLeft, swp_margin = 8,
     swp_max_width = 20, swp_opacity = 80\<rparr>\<rparr>"

lemma doomed_row: "find_upload_row ''a'' 1 doomed_asset_db = Some ((lease_cleanup ''m1'' 130
    (sample_upload 1 ''a'' ''raw/a/1/source'' Ready))\<lparr>up_delete_requested := Some 10,
    up_detected := Some ''image/png'', up_sha256 := Some (replicate 64 (CHR ''0''))\<rparr>)"
  by (simp add: doomed_asset_db_def find_upload_row_def update_rows_def) (simp add: sample_upload_def lease_cleanup_def)

lemma doomed_publish:
  "fst (publish_policy (\<lambda>_. replicate 64 (CHR ''0'')) 30 doomed_request 10000000000 10000000000 doomed_asset_db) =
     Ok (doomed_snapshot, Published)"
proof -
  have tenant: "policy_tenant_is_valid ''a''"
    by (simp add: policy_tenant_is_valid_def is_ascii_alphanumeric_def is_ascii_lower_def byte_of_def)
  have resolved: "resolve_watermark ''a'' (psp_watermark doomed_request) doomed_asset_db = Ok (sps_watermark doomed_snapshot)"
    using key_bytes(1)
    by (simp add: resolve_watermark_def doomed_request_def validate_watermark_settings_def find_policy_asset_def doomed_row
        policy_asset_from_row_def ObjectKey_new_def valid_object_key_def sample_upload_def lease_cleanup_def
        validate_asset_def is_lower_sha256_def is_ascii_digit_def byte_of_def list_all_iff
        max_watermark_asset_bytes_def doomed_snapshot_def sample_policy_def is_lower_hex_def)
  have envelope: "validate_snapshot_envelope doomed_request 10000000000 30 = Ok ()"
    using tenant by (simp add: validate_snapshot_envelope_def doomed_request_def sample_policy_request_def
        site_policy_schema_version_def unix_timestamp_def)
  have fields: "psp_tenant_id doomed_request = ''a''" "psp_schema doomed_request = 1" "psp_revision doomed_request = 1"
      "psp_issued_at doomed_request = 9500000000"
    by (simp_all add: doomed_request_def sample_policy_request_def)
  have snapshot: "\<lparr>sps_tenant_id = ''a'', sps_schema = 1, sps_revision = 1, sps_issued_at = 9500000000,
      sps_sha256 = replicate 64 (CHR ''0''), sps_watermark = sps_watermark doomed_snapshot\<rparr> = doomed_snapshot"
    by (simp add: doomed_snapshot_def sample_policy_def)
  have ids: "1 \<in> up_id ` set (uploads doomed_asset_db)" "site_policies doomed_asset_db = []"
    by (simp_all add: doomed_asset_db_def image_update_rows lease_cleanup_def)
      (simp add: sample_upload_def)
  have published: "fst (publish_site_policy 10000000000 doomed_snapshot doomed_asset_db) = Ok Published"
    using ids by (simp add: publish_site_policy_def Let_def policy_row_def i64_max_def next_revision_def
        latest_revision_def policy_constraints_def doomed_snapshot_def sample_policy_def stored_watermark_def
        watermark_checks_def)
  then obtain db' where "publish_site_policy 10000000000 doomed_snapshot doomed_asset_db = (Ok Published, db')"
    by (cases "publish_site_policy 10000000000 doomed_snapshot doomed_asset_db") simp
  then show ?thesis
    by (simp add: publish_policy_def envelope fields resolved normalized_settings_sha256_def snapshot)
qed

theorem policy_pins_upload_being_deleted_witness:
  "fst (complete_cleanup 1 ''m1'' 20000000000
     (snd (publish_policy (\<lambda>_. replicate 64 (CHR ''0'')) 30 doomed_request 10000000000 10000000000 doomed_asset_db))) = Ok ()"
proof -
  let ?run = "publish_policy (\<lambda>_. replicate 64 (CHR ''0'')) 30 doomed_request 10000000000 10000000000 doomed_asset_db"
  let ?wm = "the (sps_watermark doomed_snapshot)"
  have run: "?run = (Ok (doomed_snapshot, Published), snd ?run)" using doomed_publish by (metis prod.collapse)
  have wm: "sps_watermark doomed_snapshot = Some ?wm" "swp_asset ?wm = 1" by (simp_all add: doomed_snapshot_def)
  have "cleanup_holder doomed_asset_db 1 = Some (''m1'', 130)"
    using find_upload_lookup[OF doomed_asset_db_ok doomed_row] by (simp add: cleanup_holder_Some sample_upload_def)
  then have "cleanup_holder doomed_asset_db (swp_asset ?wm) = Some (''m1'', 130)" by (simp add: wm(2))
  from policy_pins_upload_being_deleted[OF doomed_asset_db_ok this run wm(1), of 20000000000]
  show ?thesis unfolding wm(2) by blast
qed

end
