(* ===== verification/Text.thy ===== *)
theory Text
  imports Prelude
begin

text \<open>
  Printing and parsing of numbers and the case folding the HTTP-facing components share: the
  \<open>Display\<close> of integers, \<open>str::parse::<i64>\<close> and \<open>to_ascii_lowercase\<close>.
\<close>

section \<open>Printing\<close>

definition digit_char :: "nat \<Rightarrow> char" where
  "digit_char d = char_of (48 + d)"

fun show_nat :: "nat \<Rightarrow> string" where
  "show_nat n = (if n < 10 then [digit_char n] else show_nat (n div 10) @ [digit_char (n mod 10)])"

declare show_nat.simps [simp del]

definition show_int :: "int \<Rightarrow> string" where
  "show_int i = (if i < 0 then CHR ''-'' # show_nat (nat (- i)) else show_nat (nat i))"

lemma digit_char: "d < 10 \<Longrightarrow> is_ascii_digit (digit_char d) \<and> digit (digit_char d) = d"
  by (simp add: digit_char_def is_ascii_digit_def digit_def byte_of_def of_char_of)

lemma show_nat_digits: "list_all is_ascii_digit (show_nat n)"
proof (induction n rule: show_nat.induct)
  case (1 n)
  then show ?case by (subst show_nat.simps) (auto simp: digit_char)
qed

lemma show_nat_not_Nil [simp]: "show_nat n \<noteq> []"
  by (subst show_nat.simps) auto

lemma decimal_value_show [simp]: "decimal_value (show_nat n) = n"
proof (induction n rule: show_nat.induct)
  case (1 n)
  have single: "decimal_value [digit_char d] = d" if "d < 10" for d
    using that by (simp add: decimal_value_def digit_char)
  show ?case
  proof (cases "n < 10")
    case True
    then show ?thesis by (subst show_nat.simps) (simp add: single)
  next
    case False
    then have "decimal_value (show_nat n) = n div 10 * 10 + n mod 10"
      using 1 by (subst show_nat.simps) (simp add: decimal_value_append single)
    then show ?thesis by simp
  qed
qed

lemma show_nat_inj: "show_nat m = show_nat n \<Longrightarrow> m = n"
  by (metis decimal_value_show)

lemma show_int_bytes: "c \<in> set (show_int i) \<Longrightarrow> is_ascii_digit c \<or> c = CHR ''-''"
  using show_nat_digits by (auto simp: show_int_def list_all_iff split: if_splits)

lemma show_int_inj: "show_int i = show_int j \<Longrightarrow> i = j"
proof -
  have no_sign: "show_nat n \<noteq> CHR ''-'' # ds" for n ds
  proof
    assume "show_nat n = CHR ''-'' # ds"
    then have "is_ascii_digit (CHR ''-'')" using show_nat_digits[of n] by simp
    then show False by (simp add: is_ascii_digit_def byte_of_def)
  qed
  assume "show_int i = show_int j"
  then show "i = j"
    using no_sign[of "nat i"] no_sign[of "nat j"] no_sign[of "nat i", THEN not_sym] no_sign[of "nat j", THEN not_sym]
    by (auto simp: show_int_def dest!: show_nat_inj split: if_splits)
qed

section \<open>Parsing\<close>

text \<open>\<open>str::parse::<i64>\<close>: an optional sign, at least one digit, and a value in range.\<close>

definition parse_digits :: "string \<Rightarrow> nat option" where
  "parse_digits ds = (if ds \<noteq> [] \<and> list_all is_ascii_digit ds then Some (decimal_value ds) else None)"

definition parse_i64 :: "string \<Rightarrow> int option" where
  "parse_i64 v = (case v of
     [] \<Rightarrow> None
   | c # ds \<Rightarrow>
      Option.bind (if c = CHR ''-'' then map_option (\<lambda>n. - int n) (parse_digits ds)
                   else if c = CHR ''+'' then map_option int (parse_digits ds)
                   else map_option int (parse_digits v))
        (\<lambda>i. if - (2 ^ 63) \<le> i \<and> i < 2 ^ 63 then Some i else None))"

lemma parse_show_i64:
  assumes "- (2 ^ 63) \<le> i" "i < 2 ^ 63"
  shows "parse_i64 (show_int i) = Some i"
proof (cases "i < 0")
  case True
  then have "parse_digits (show_nat (nat (- i))) = Some (nat (- i))"
    by (simp add: parse_digits_def show_nat_digits)
  then show ?thesis using True assms by (simp add: show_int_def parse_i64_def)
next
  case False
  obtain c ds where cons: "show_nat (nat i) = c # ds" by (cases "show_nat (nat i)") auto
  have "is_ascii_digit c" using show_nat_digits[of "nat i"] by (simp add: cons)
  then have "c \<noteq> CHR ''-''" "c \<noteq> CHR ''+''" by (auto simp: is_ascii_digit_def byte_of_def)
  moreover have "parse_digits (show_nat (nat i)) = Some (nat i)"
    by (simp add: parse_digits_def show_nat_digits)
  ultimately show ?thesis using False assms cons by (simp add: show_int_def parse_i64_def)
qed

section \<open>Case folding and byte classes\<close>

definition ascii_lower :: "char \<Rightarrow> char" where
  "ascii_lower c = (if is_ascii_upper c then char_of (byte_of c + 32) else c)"

definition to_ascii_lowercase :: "string \<Rightarrow> string" where
  "to_ascii_lowercase = map ascii_lower"

definition bounded_token :: "nat \<Rightarrow> string \<Rightarrow> bool" where
  "bounded_token n v \<longleftrightarrow> v \<noteq> [] \<and> length v \<le> n \<and> list_all token_byte v"

definition newline :: char where
  "newline = CHR 0x0A"

lemma newline_classes:
  "\<not> is_ascii_graphic newline" "\<not> token_byte newline" "\<not> is_ascii_upper newline" "\<not> is_lower_hex newline"
  "\<not> is_ascii_digit newline" "newline \<noteq> CHR ''-''"
  by (simp_all add: newline_def is_ascii_graphic_def token_byte_def is_ascii_alphanumeric_def is_ascii_upper_def
      is_ascii_lower_def is_ascii_digit_def is_lower_hex_def byte_of_def)

end
