(* ===== verification/Media.thy ===== *)
theory Media
  imports Database Text
begin

text \<open>
  The media checks of \<open>crates/g7mb-media/src/lib.rs\<close>: signature detection over a bounded prefix, the
  validation of what FFprobe reported, the arguments and the two attempts of a thumbnail extraction,
  the placement of a watermark, and the integer computations around libvips.  The processes, libvips,
  the JSON parser and the formatting of a float are arguments.
\<close>

section \<open>Formats\<close>

datatype MediaFormat = Jpeg | Png | Gif | Webp | Avif | Heif | Mp4 | QuickTime | Webm

fun kind :: "MediaFormat \<Rightarrow> MediaKind" where
  "kind Jpeg = Image" | "kind Png = Image" | "kind Gif = Image" | "kind Webp = Image"
| "kind Avif = Image" | "kind Heif = Image"
| "kind Mp4 = Video" | "kind QuickTime = Video" | "kind Webm = Video"

fun content_type :: "MediaFormat \<Rightarrow> string" where
  "content_type Jpeg = ''image/jpeg''"
| "content_type Png = ''image/png''"
| "content_type Gif = ''image/gif''"
| "content_type Webp = ''image/webp''"
| "content_type Avif = ''image/avif''"
| "content_type Heif = ''image/heif''"
| "content_type Mp4 = ''video/mp4''"
| "content_type QuickTime = ''video/quicktime''"
| "content_type Webm = ''video/webm''"

definition image_limits_for_format :: "MediaFormat \<Rightarrow> ImageLimits" where
  "image_limits_for_format format =
     (if format \<in> {Avif, Heif} then default_image_limits\<lparr>il_max_pixels := 64000000\<rparr>
      else default_image_limits)"

datatype MediaError =
    InvalidMediaRequest string | MediaInput string | UnsupportedSignature | DeclaredKindMismatch
  | ContainerMismatch | UnsupportedCodec string | ProbeOutputTooLarge | ProbeJson string | InvalidProbe
  | Spawn string string | ProcessWait string string | ProcessTimeout string | ExitStatus string string
  | MediaOutput string | InvalidOutput | FallbackUnsupported | FallbackLimit | FallbackDecode
  | Vips string | NonUtf8Path

section \<open>Signatures\<close>

definition bytes :: "nat list \<Rightarrow> string" where
  "bytes = map char_of"

text \<open>\<open>windows(4).any(..)\<close>: some four consecutive bytes are the given ones.\<close>

fun contains_window :: "string \<Rightarrow> string \<Rightarrow> bool" where
  "contains_window w [] = (w = [])"
| "contains_window w (c # cs) = (starts_with w (c # cs) \<or> contains_window w cs)"

definition be_value :: "string \<Rightarrow> nat" where
  "be_value bs = fold (\<lambda>c v. 256 * v + byte_of c) bs 0"

text \<open>\<open>chunks_exact(4)\<close>: an incomplete last chunk is dropped.\<close>

fun chunks4 :: "string \<Rightarrow> string list" where
  "chunks4 (a # b # c # d # r) = [a, b, c, d] # chunks4 r"
| "chunks4 _ = []"

definition brand_format :: "MediaFormat option \<Rightarrow> string \<Rightarrow> MediaFormat option" where
  "brand_format detected brand =
     (if brand \<in> {''avif'', ''avis''} then Some Avif
      else if brand \<in> {''heic'', ''heix'', ''hevc'', ''hevx'', ''mif1'', ''msf1''} then Some Heif
      else if brand = ''qt  '' \<and> detected = None then Some QuickTime
      else if brand \<in> {''isom'', ''iso2'', ''mp41'', ''mp42'', ''avc1'', ''dash'', ''M4V ''} \<and> detected = None
      then Some Mp4
      else detected)"

fun scan_brands :: "MediaFormat option \<Rightarrow> string list \<Rightarrow> MediaFormat option" where
  "scan_brands detected [] = detected"
| "scan_brands detected (brand # brands) =
     (let found = brand_format detected brand in
      if found = Some Avif then found else scan_brands found brands)"

definition detect_iso_bmff :: "string \<Rightarrow> (MediaError, MediaFormat) result" where
  "detect_iso_bmff prefix =
     (let box_size = min (be_value (slice 0 4 prefix)) (length prefix) in
      if box_size < 12 \<or> box_size mod 4 \<noteq> 0 then Err UnsupportedSignature
      else (case scan_brands None (chunks4 (slice 8 box_size prefix)) of
          None \<Rightarrow> Err UnsupportedSignature | Some f \<Rightarrow> Ok f))"

definition detect_media_format :: "string \<Rightarrow> (MediaError, MediaFormat) result" where
  "detect_media_format prefix =
     (if starts_with (bytes [255, 216, 255]) prefix then Ok Jpeg
      else if starts_with (bytes [137, 80, 78, 71, 13, 10, 26, 10]) prefix then Ok Png
      else if starts_with ''GIF87a'' prefix \<or> starts_with ''GIF89a'' prefix then Ok Gif
      else if length prefix \<ge> 12 \<and> starts_with ''RIFF'' prefix \<and> slice 8 12 prefix = ''WEBP'' then Ok Webp
      else if length prefix \<ge> 12 \<and> slice 4 8 prefix = ''ftyp'' then detect_iso_bmff prefix
      else if starts_with (bytes [26, 69, 223, 163]) prefix \<and> contains_window ''webm'' prefix then Ok Webm
      else Err UnsupportedSignature)"

definition signature_prefix_bytes :: nat where
  "signature_prefix_bytes = 4096"

text \<open>\<open>detect_file\<close>: \<open>content\<close> is the file, or the reason it cannot be read.\<close>

definition detect_file :: "(string, string) result \<Rightarrow> MediaKind \<Rightarrow> (MediaError, MediaFormat) result" where
  "detect_file content declared =
     (case content of
        Inl e \<Rightarrow> Err (MediaInput e)
      | Inr file \<Rightarrow> and_then (detect_media_format (take signature_prefix_bytes file)) (\<lambda>format.
          if kind format \<noteq> declared then Err DeclaredKindMismatch else Ok format))"

section \<open>What FFprobe reported\<close>

record VideoProbeRequest =
  vpr_byte_len :: u64
  vpr_format :: MediaFormat

record VideoInspection =
  vi_probe :: VideoProbe
  vi_codec :: string
  vi_container :: string

record RawFfprobeStream =
  rfs_codec_type :: "string option"
  rfs_codec_name :: "string option"
  rfs_width :: "u32 option"
  rfs_height :: "u32 option"
  rfs_duration :: "string option"

record RawFfprobeFormat =
  rff_format_name :: "string option"
  rff_duration :: "string option"

record RawFfprobeOutput =
  rfo_streams :: "RawFfprobeStream list"
  rfo_format :: "RawFfprobeFormat option"

definition codec_allowed :: "MediaFormat \<Rightarrow> string \<Rightarrow> bool" where
  "codec_allowed format codec =
     (if format \<in> {Mp4, QuickTime}
      then codec \<in> {''h264'', ''hevc'', ''av1'', ''vp9'', ''mjpeg'', ''prores''}
      else if format = Webm then codec \<in> {''vp8'', ''vp9'', ''av1''}
      else False)"

text \<open>The loop over the first three digits of the fraction; its sum is below a thousand.\<close>

fun millis_loop :: "nat \<Rightarrow> nat \<Rightarrow> string \<Rightarrow> nat" where
  "millis_loop index millis [] = millis"
| "millis_loop index millis (c # cs) = millis_loop (index + 1) (millis + digit c * 10 ^ (2 - index)) cs"

definition fraction_millis :: "string \<Rightarrow> nat" where
  "fraction_millis fraction =
     (let millis = millis_loop 0 0 (take 3 fraction) in
      if list_ex (\<lambda>c. c \<noteq> CHR ''0'') (drop 3 fraction) then millis + 1 else millis)"

definition parse_duration_ms :: "string \<Rightarrow> (MediaError, u64) result" where
  "parse_duration_ms value =
     (case (case split_once (CHR ''.'') value of None \<Rightarrow> (value, []) | Some p \<Rightarrow> p) of
        (secs, fraction) \<Rightarrow>
          if secs = [] \<or> \<not> list_all is_ascii_digit secs \<or> \<not> list_all is_ascii_digit fraction
          then Err InvalidProbe
          else (case parse_digits_u64 secs of
              None \<Rightarrow> Err InvalidProbe
            | Some s \<Rightarrow>
                (case Option.bind (checked_mul s 1000) (\<lambda>base. checked_add base (of_nat (fraction_millis fraction))) of
                   None \<Rightarrow> Err InvalidProbe
                 | Some d \<Rightarrow> if d > 0 then Ok d else Err InvalidProbe)))"

definition u32_of_len :: "'a list \<Rightarrow> (MediaError, u32) result" where
  "u32_of_len xs = (if length xs < 2 ^ 32 then Ok (of_nat (length xs)) else Err InvalidProbe)"

definition required :: "'a option \<Rightarrow> (MediaError, 'a) result" where
  "required v = (case v of None \<Rightarrow> Err InvalidProbe | Some a \<Rightarrow> Ok a)"

definition is_video_stream :: "RawFfprobeStream \<Rightarrow> bool" where
  "is_video_stream s \<longleftrightarrow> rfs_codec_type s = Some ''video''"

definition container_matches :: "MediaFormat \<Rightarrow> string \<Rightarrow> bool" where
  "container_matches format container =
     (if format \<in> {Mp4, QuickTime}
      then list_ex (\<lambda>name. name = ''mov'' \<or> name = ''mp4'') (split_on (CHR '','') container)
      else if format = Webm then list_ex (\<lambda>name. name = ''webm'') (split_on (CHR '','') container)
      else False)"

definition video_inspection_from_raw :: "VideoProbeRequest \<Rightarrow> RawFfprobeOutput
    \<Rightarrow> (MediaError, VideoInspection) result" where
  "video_inspection_from_raw request raw =
     and_then (required (rfo_format raw)) (\<lambda>format.
     and_then (required (rff_format_name format)) (\<lambda>container.
     if \<not> container_matches (vpr_format request) container then Err ContainerMismatch
     else
     and_then (u32_of_len (rfo_streams raw)) (\<lambda>total_streams.
     and_then (u32_of_len (filter is_video_stream (rfo_streams raw))) (\<lambda>video_streams.
     and_then (required (find is_video_stream (rfo_streams raw))) (\<lambda>primary.
     and_then (required (rfs_codec_name primary)) (\<lambda>codec.
     if \<not> codec_allowed (vpr_format request) codec then Err (UnsupportedCodec codec)
     else
     and_then (required (case rff_duration format of Some d \<Rightarrow> Some d | None \<Rightarrow> rfs_duration primary)) (\<lambda>duration.
     and_then (parse_duration_ms duration) (\<lambda>duration_ms.
     and_then (required (rfs_width primary)) (\<lambda>width.
     and_then (required (rfs_height primary)) (\<lambda>height.
       Ok \<lparr>vi_probe = \<lparr>vp_byte_len = vpr_byte_len request, vp_duration_ms = duration_ms, vp_width = width,
             vp_height = height, vp_video_streams = video_streams, vp_total_streams = total_streams\<rparr>,
           vi_codec = codec, vi_container = container\<rparr>))))))))))"

text \<open>How a native process ended, within its wall-clock limit or not.\<close>

record ProcessOutput =
  po_success :: bool
  po_status :: string
  po_stdout :: string
  po_stderr :: string

datatype ProcessOutcome = TimedOut | NotStarted string | WaitFailed string | Exited ProcessOutput

definition max_probe_output_bytes :: nat where
  "max_probe_output_bytes = 64 * 1024"

definition FfprobeInspector_new :: "duration \<Rightarrow> (MediaError, duration) result" where
  "FfprobeInspector_new limit =
     (if limit = 0 then Err (InvalidMediaRequest ''FFprobe timeout must be non-zero'') else Ok limit)"

definition inspect :: "(string \<Rightarrow> (string, RawFfprobeOutput) result) \<Rightarrow> ProcessOutcome \<Rightarrow> VideoProbeRequest
    \<Rightarrow> (MediaError, VideoInspection) result" where
  "inspect from_json outcome request =
     (if vpr_format request \<notin> {Mp4, QuickTime, Webm}
      then Err (InvalidMediaRequest ''FFprobe input is not a supported video signature'')
      else (case outcome of
          TimedOut \<Rightarrow> Err (ProcessTimeout ''ffprobe'')
        | NotStarted e \<Rightarrow> Err (Spawn ''ffprobe'' e)
        | WaitFailed e \<Rightarrow> Err (Spawn ''ffprobe'' e)
        | Exited out \<Rightarrow>
            if \<not> po_success out then Err (ExitStatus ''ffprobe'' (po_status out))
            else if length (po_stdout out) > max_probe_output_bytes \<or> length (po_stderr out) > max_probe_output_bytes
            then Err ProbeOutputTooLarge
            else (case from_json (po_stdout out) of
                Inl e \<Rightarrow> Err (ProbeJson e) | Inr raw \<Rightarrow> video_inspection_from_raw request raw)))"

section \<open>Watermark placement\<close>

record WatermarkSpec =
  ws_input :: string
  ws_position :: WatermarkPosition
  ws_margin :: u32
  ws_max_width :: u8
  ws_opacity :: u8

record WatermarkPlacement =
  wp_x :: u32
  wp_y :: u32
  wp_width :: u32
  wp_height :: u32

text \<open>\<open>u32::try_from\<close> of a \<open>u64\<close>.\<close>

definition narrow_u32 :: "u64 \<Rightarrow> u32 option" where
  "narrow_u32 v = (if v < 4294967296 then Some (ucast v) else None)"

definition watermark_width_cap :: "u32 \<Rightarrow> u32 \<Rightarrow> u32 \<Rightarrow> u32 \<Rightarrow> u32 \<Rightarrow> u8 \<Rightarrow> u64" where
  "watermark_width_cap base_width available_width available_height watermark_width watermark_height percent =
     min (ucast watermark_width) (min (ucast available_width)
       (min (max 1 (widening_mul base_width (ucast percent) div 100))
         (widening_mul watermark_width available_height div ucast watermark_height)))"

definition place_watermark :: "u32 \<Rightarrow> u32 \<Rightarrow> WatermarkSpec \<Rightarrow> u32 \<Rightarrow> u32 \<Rightarrow> WatermarkPlacement" where
  "place_watermark base_width base_height spec width height =
     (let right = base_width - width - ws_margin spec;
          bottom = base_height - height - ws_margin spec;
          (x, y) = (case ws_position spec of
              Center \<Rightarrow> ((base_width - width) div 2, (base_height - height) div 2)
            | TopLeft \<Rightarrow> (ws_margin spec, ws_margin spec)
            | TopRight \<Rightarrow> (right, ws_margin spec)
            | BottomLeft \<Rightarrow> (ws_margin spec, bottom)
            | BottomRight \<Rightarrow> (right, bottom))
      in \<lparr>wp_x = x, wp_y = y, wp_width = width, wp_height = height\<rparr>)"

definition plan_watermark :: "u32 \<Rightarrow> u32 \<Rightarrow> u32 \<Rightarrow> u32 \<Rightarrow> WatermarkSpec
    \<Rightarrow> (MediaError, WatermarkPlacement) result" where
  "plan_watermark base_width base_height watermark_width watermark_height spec =
     (if base_width = 0 \<or> base_height = 0 \<or> watermark_width = 0 \<or> watermark_height = 0 \<or>
         \<not> (1 \<le> ws_max_width spec \<and> ws_max_width spec \<le> 50) \<or>
         \<not> (1 \<le> ws_opacity spec \<and> ws_opacity spec \<le> 100) \<or> ws_margin spec > 1024
      then Err (InvalidMediaRequest ''watermark dimensions or preset limits are invalid'')
      else if unat (ws_margin spec) * 2 \<ge> 2 ^ 32
      then Err (InvalidMediaRequest ''watermark margin overflow'')
      else (let doubled_margin = ws_margin spec * 2 in
        if base_width \<le> doubled_margin \<or> base_height \<le> doubled_margin
        then Err (InvalidMediaRequest ''watermark margin leaves no drawable area'')
        else (let available_width = base_width - doubled_margin;
                  available_height = base_height - doubled_margin;
                  cap = watermark_width_cap base_width available_width available_height
                          watermark_width watermark_height (ws_max_width spec) in
          case (if cap > 0 then narrow_u32 cap else None) of
            None \<Rightarrow> Err (InvalidMediaRequest ''watermark cannot fit the derivative'')
          | Some width \<Rightarrow>
             (case narrow_u32 (max 1 (widening_mul watermark_height width div ucast watermark_width)) of
                None \<Rightarrow> Err (InvalidMediaRequest ''watermark height overflow'')
              | Some height \<Rightarrow>
                  if height > available_height
                  then Err (InvalidMediaRequest ''watermark cannot fit the derivative'')
                  else Ok (place_watermark base_width base_height spec width height)))))"

section \<open>Extracting a thumbnail\<close>

record VideoThumbnailRequest =
  vtr_input :: string
  vtr_output :: string
  vtr_timestamp_ms :: u64
  vtr_duration_ms :: u64
  vtr_max_width :: u32

record FfmpegThumbnailer =
  ft_binary :: string
  ft_timeout :: duration
  ft_threads :: u32

datatype FfmpegSeekMode = Fast | Exact

definition FfmpegThumbnailer_new :: "string \<Rightarrow> duration \<Rightarrow> u32 \<Rightarrow> (MediaError, FfmpegThumbnailer) result" where
  "FfmpegThumbnailer_new binary limit threads =
     (if limit < seconds 2 \<or> \<not> (1 \<le> threads \<and> threads \<le> 16)
      then Err (InvalidMediaRequest ''timeout must be at least two seconds and thread count must be between 1 and 16'')
      else Ok \<lparr>ft_binary = binary, ft_timeout = limit, ft_threads = threads\<rparr>)"

text \<open>The command line: \<open>show_u32\<close> prints a number and \<open>seek_text\<close> the seconds with three decimals.\<close>

definition ffmpeg_arguments :: "(u32 \<Rightarrow> string) \<Rightarrow> (u64 \<Rightarrow> string) \<Rightarrow> FfmpegThumbnailer \<Rightarrow> VideoThumbnailRequest
    \<Rightarrow> u64 \<Rightarrow> FfmpegSeekMode \<Rightarrow> string list" where
  "ffmpeg_arguments show_u32 seek_text self request timestamp_ms mode =
     (let threads = show_u32 (ft_threads self);
          seek = [''-ss'', seek_text timestamp_ms];
          scale = ''scale=w='' @ [CHR 0x27] @ ''min('' @ show_u32 (vtr_max_width request) @ '',iw)'' @ [CHR 0x27]
                    @ '':h=-2:flags=lanczos'' in
      [''-hide_banner'', ''-loglevel'', ''error'', ''-nostdin'', ''-protocol_whitelist'', ''file,crypto,data'',
       ''-threads'', threads] @
      (if mode = Fast then seek else []) @ [''-i'', vtr_input request] @ (if mode = Exact then seek else []) @
      [''-map'', ''0:v:0'', ''-frames:v'', ''1'', ''-an'', ''-sn'', ''-dn'', ''-vf'', scale, ''-c:v'', ''mjpeg'',
       ''-q:v'', ''3'', ''-threads'', threads, ''-y'', vtr_output request])"

text \<open>How one attempt ends: \<open>written\<close> is the length of the output file, or why it cannot be read.\<close>

definition attempt_result :: "ProcessOutcome \<Rightarrow> (string, nat) result \<Rightarrow> (MediaError, unit) result" where
  "attempt_result outcome written =
     (case outcome of
        NotStarted e \<Rightarrow> Err (Spawn ''ffmpeg'' e)
      | WaitFailed e \<Rightarrow> Err (ProcessWait ''ffmpeg'' e)
      | TimedOut \<Rightarrow> Err (ProcessTimeout ''ffmpeg'')
      | Exited out \<Rightarrow>
          if \<not> po_success out then Err (ExitStatus ''ffmpeg'' (po_status out))
          else (case written of Inl e \<Rightarrow> Err (MediaOutput e)
            | Inr n \<Rightarrow> if n = 0 then Err InvalidOutput else Ok ()))"

text \<open>
  \<open>extract\<close> over a machine state \<open>'p\<close>: \<open>attempt\<close> runs the command with a seek time, a mode and half
  the time limit, \<open>remove_output\<close> deletes the output file, and its failure is ignored.
\<close>

definition fallback_timestamp :: "VideoThumbnailRequest \<Rightarrow> u64" where
  "fallback_timestamp request = min (vtr_duration_ms request div 2) (vtr_duration_ms request - 1)"

definition extract_thumbnail :: "(u64 \<Rightarrow> FfmpegSeekMode \<Rightarrow> duration \<Rightarrow> 'p \<Rightarrow> (MediaError, unit) result \<times> 'p) \<Rightarrow> ('p \<Rightarrow> 'p)
    \<Rightarrow> FfmpegThumbnailer \<Rightarrow> VideoThumbnailRequest \<Rightarrow> 'p \<Rightarrow> (MediaError, unit) result \<times> 'p" where
  "extract_thumbnail attempt remove_output self request p =
     (if \<not> (1 \<le> vtr_max_width request \<and> vtr_max_width request \<le> 4096) \<or> vtr_duration_ms request = 0 \<or>
         vtr_timestamp_ms request \<ge> vtr_duration_ms request
      then (Err (InvalidMediaRequest ''thumbnail width, duration, or timestamp is outside its safe range''), p)
      else (let limit = ft_timeout self div 2 in
        case attempt (vtr_timestamp_ms request) Fast limit p of
          (Inr _, p1) \<Rightarrow> (Ok (), p1)
        | (Inl _, p1) \<Rightarrow> attempt (fallback_timestamp request) Exact limit (remove_output p1)))"

section \<open>Native tools\<close>

record NativeToolReport =
  ntr_tool :: string
  ntr_version :: string
  ntr_healthy :: bool
  ntr_warning :: "string option"

definition probe_tool :: "(string \<Rightarrow> string list) \<Rightarrow> (string \<Rightarrow> bool) \<Rightarrow> string \<Rightarrow> ProcessOutcome
    \<Rightarrow> (MediaError, NativeToolReport) result" where
  "probe_tool text_lines blank tool outcome =
     (case outcome of
        TimedOut \<Rightarrow> Err (ProcessTimeout tool)
      | NotStarted e \<Rightarrow> Err (Spawn tool e)
      | WaitFailed e \<Rightarrow> Err (Spawn tool e)
      | Exited out \<Rightarrow>
          if \<not> po_success out then Err (ExitStatus tool (po_status out))
          else Ok \<lparr>ntr_tool = tool,
             ntr_version = (case text_lines (po_stdout out) of [] \<Rightarrow> [] | l # _ \<Rightarrow> l),
             ntr_healthy = (\<not> contains_window ''unable to load'' (po_stderr out) \<and>
               \<not> contains_window ''Library not loaded'' (po_stderr out)),
             ntr_warning = find (\<lambda>l. \<not> blank l) (text_lines (po_stderr out))\<rparr>)"

section \<open>Around libvips\<close>

text \<open>The header facts libvips reports, as signed numbers.\<close>

record VipsHeader =
  vh_width :: int
  vh_height :: int
  vh_page_height :: int
  vh_pages :: int

definition int_u32 :: "int \<Rightarrow> (MediaError, u32) result" where
  "int_u32 v = (if 0 \<le> v \<and> v < 2 ^ 32 then Ok (of_int v) else Err InvalidProbe)"

definition frame_height :: "VipsHeader \<Rightarrow> int" where
  "frame_height h = (if vh_page_height h > 0 then vh_page_height h else vh_height h)"

definition vips_probe :: "VipsHeader \<Rightarrow> u64 \<Rightarrow> (MediaError, ImageProbe) result" where
  "vips_probe h len =
     and_then (int_u32 (vh_width h)) (\<lambda>width.
     and_then (int_u32 (frame_height h)) (\<lambda>height.
     and_then (int_u32 (max (vh_pages h) 1)) (\<lambda>frames.
       Ok \<lparr>ip_byte_len = len, ip_width = width, ip_height = height, ip_frames = frames\<rparr>)))"

text \<open>The width asked of libvips: a thumbnail is never larger than the source.\<close>

definition thumbnail_target_width :: "u32 \<Rightarrow> VipsHeader \<Rightarrow> (MediaError, int) result" where
  "thumbnail_target_width max_edge h =
     (if unat max_edge \<ge> 2 ^ 31 then Err (InvalidMediaRequest ''image edge exceeds native range'')
      else if \<not> (1 \<le> unat max_edge \<and> unat max_edge \<le> 8192)
      then Err (InvalidMediaRequest ''image edge must be between 1 and 8192'')
      else if vh_width h < 0 \<or> frame_height h < 0 \<or> vh_width h = 0 \<or> frame_height h = 0 then Err InvalidProbe
      else (let source_max_edge = max (vh_width h) (frame_height h);
                target = (if source_max_edge \<le> int (unat max_edge) then vh_width h
                          else max 1 (vh_width h * int (unat max_edge) div source_max_edge)) in
        if target \<ge> 2 ^ 31 then Err (InvalidMediaRequest ''image width exceeds native range'') else Ok target))"

text \<open>\<open>Path::extension\<close>: what follows the last dot of the file name, unless only that dot precedes it.\<close>

definition file_name :: "string \<Rightarrow> string option" where
  "file_name path = (case rev (filter (\<lambda>s. s \<noteq> [] \<and> s \<noteq> ''.'') (split_on (CHR ''/'') path)) of
     [] \<Rightarrow> None | name # _ \<Rightarrow> if name = ''..'' then None else Some name)"

definition extension :: "string \<Rightarrow> string option" where
  "extension path = Option.bind (file_name path) (\<lambda>name.
     let parts = split_on (CHR ''.'') name in
     if length parts = 1 \<or> join_with (CHR ''.'') (butlast parts) = [] then None else Some (last parts))"

definition filename_with_options :: "string \<Rightarrow> string \<Rightarrow> string \<Rightarrow> (MediaError, string) result" where
  "filename_with_options output expected_extension options =
     (case extension output of
        None \<Rightarrow> Err (InvalidMediaRequest ''image output extension is required'')
      | Some e \<Rightarrow>
          if to_ascii_lowercase e \<noteq> to_ascii_lowercase expected_extension
          then Err (InvalidMediaRequest (''image output extension must be .'' @ expected_extension))
          else if CHR ''['' \<in> set output \<or> CHR '']'' \<in> set output
          then Err (InvalidMediaRequest ''image output path contains libvips option delimiters'')
          else Ok (output @ ''['' @ options @ '']''))"

text \<open>The asset bounds a watermark passes before it is placed on the base image.\<close>

definition admit_watermark :: "VipsHeader \<Rightarrow> VipsHeader \<Rightarrow> WatermarkSpec \<Rightarrow> (MediaError, WatermarkPlacement) result" where
  "admit_watermark base watermark spec =
     (case (int_u32 (vh_width watermark), int_u32 (vh_height watermark)) of
        (Inr ww, Inr wh) \<Rightarrow>
          if ww > 4096 \<or> wh > 4096 \<or> widening_mul ww wh > 16777216
          then Err (InvalidMediaRequest ''watermark exceeds the 4096px or 16MP asset limit'')
          else (case (int_u32 (vh_width base), int_u32 (vh_height base)) of
              (Inr bw, Inr bh) \<Rightarrow> plan_watermark bw bh ww wh spec
            | (Inl _, _) \<Rightarrow> Err (InvalidMediaRequest ''base width is invalid'')
            | (Inr _, Inl _) \<Rightarrow> Err (InvalidMediaRequest ''base height is invalid''))
      | (Inl _, _) \<Rightarrow> Err (InvalidMediaRequest ''watermark width is invalid'')
      | (Inr _, Inl _) \<Rightarrow> Err (InvalidMediaRequest ''watermark height is invalid''))"

text \<open>A thumbnail's longer edge stays within the requested bound and the width is never enlarged.\<close>

lemma thumbnail_target_bounds:
  assumes "thumbnail_target_width max_edge h = Ok target"
  shows "1 \<le> target" "target \<le> vh_width h" "target \<le> max 1 (uint max_edge)"
proof -
  let ?e = "uint max_edge" and ?s = "max (vh_width h) (frame_height h)"
  have size: "0 < vh_width h" "0 < frame_height h" and edge_nat: "1 \<le> unat max_edge"
    and t: "target = (if ?s \<le> ?e then vh_width h else max 1 (vh_width h * ?e div ?s))"
    using assms by (auto simp: thumbnail_target_width_def Let_def split: if_splits)
  have edge: "1 \<le> ?e" using edge_nat of_nat_mono[of 1 "unat max_edge", where ?'a = int] by simp
  have "vh_width h * ?e div ?s \<le> ?s * ?e div ?s"
    using size edge by (intro zdiv_mono1 mult_right_mono) auto
  then have by_edge: "vh_width h * ?e div ?s \<le> ?e" using size by simp
  have by_width: "vh_width h * ?e div ?s \<le> vh_width h" if "?e < ?s"
  proof -
    have "vh_width h * ?e \<le> vh_width h * ?s" using that size by (intro mult_left_mono) auto
    then have "vh_width h * ?e div ?s \<le> vh_width h * ?s div ?s" using size by (intro zdiv_mono1) auto
    then show ?thesis using size by simp
  qed
  show "1 \<le> target" "target \<le> vh_width h" "target \<le> max 1 ?e"
    using t size by_edge by_width by (auto split: if_splits)
qed

text \<open>The second attempt seeks inside the file.\<close>

lemma fallback_inside: "vtr_duration_ms request \<noteq> 0 \<Longrightarrow> fallback_timestamp request < vtr_duration_ms request"
  using measure_unat[of "vtr_duration_ms request"]
  by (simp add: fallback_timestamp_def min_less_iff_disj word_less_nat_alt[of "_ - 1"])

section \<open>Durations are rounded up\<close>

lemma millis_loop_value:
  "millis_loop 0 0 (take 3 ds) = decimal_value (take 3 ds) * 10 ^ (3 - length (take 3 ds))"
proof -
  consider "ds = []" | a where "ds = [a]" | a b where "ds = [a, b]" | a b c r where "ds = a # b # c # r"
    by (metis neq_Nil_conv)
  then show ?thesis
    by cases (simp_all add: decimal_value_def numeral_3_eq_3 algebra_simps)
qed

text \<open>The milliseconds of a fraction are the least number of them that is not below it.\<close>

lemma fraction_millis_ceiling:
  assumes "list_all is_ascii_digit ds"
  shows "1000 * decimal_value ds \<le> fraction_millis ds * 10 ^ length ds"
    "fraction_millis ds * 10 ^ length ds < 1000 * decimal_value ds + 10 ^ length ds"
proof -
  let ?a = "take 3 ds" and ?b = "drop 3 ds"
  have digits: "list_all is_ascii_digit ?b" using assms by (simp add: list_all_iff) (meson in_set_dropD)
  have split_value: "decimal_value ds = decimal_value ?a * 10 ^ length ?b + decimal_value ?b"
    using decimal_value_append[of ?a ?b] by simp
  have tail: "list_ex (\<lambda>c. c \<noteq> CHR ''0'') ?b \<longleftrightarrow> decimal_value ?b \<noteq> 0"
    using decimal_value_zero[OF digits] by (auto simp: list_all_iff list_ex_iff)
  have bound: "decimal_value ?b < 10 ^ length ?b" by (rule decimal_value_bound[OF digits])
  have both: "1000 * decimal_value ds \<le> fraction_millis ds * 10 ^ length ds \<and>
      fraction_millis ds * 10 ^ length ds < 1000 * decimal_value ds + 10 ^ length ds"
  proof (cases "length ds \<le> 3")
    case True
    then have "fraction_millis ds = decimal_value ds * 10 ^ (3 - length ds)"
      using millis_loop_value[of ds] by (simp add: fraction_millis_def)
    moreover have "(10::nat) ^ (3 - length ds) * 10 ^ length ds = 1000"
      using True by (simp add: power_add[symmetric])
    ultimately have "fraction_millis ds * 10 ^ length ds = 1000 * decimal_value ds"
      by (metis mult.assoc mult.commute)
    then show ?thesis by simp
  next
    case False
    then have millis: "fraction_millis ds = decimal_value ?a + (if decimal_value ?b \<noteq> 0 then 1 else 0)"
      using millis_loop_value[of ds] tail by (simp add: fraction_millis_def)
    have "length ds = 3 + length ?b" using False by simp
    then have pow: "(10::nat) ^ length ds = 1000 * 10 ^ length ?b" using power_add[of "10::nat" 3 "length ?b"] by simp
    show ?thesis using bound unfolding split_value millis pow by (auto simp: algebra_simps)
  qed
  then show "1000 * decimal_value ds \<le> fraction_millis ds * 10 ^ length ds"
    "fraction_millis ds * 10 ^ length ds < 1000 * decimal_value ds + 10 ^ length ds" by simp_all
qed

lemma fraction_millis_less: "list_all is_ascii_digit ds \<Longrightarrow> fraction_millis ds \<le> 1000"
proof -
  assume digits: "list_all is_ascii_digit ds"
  have "fraction_millis ds * 10 ^ length ds < 1000 * decimal_value ds + 10 ^ length ds"
    by (rule fraction_millis_ceiling(2)[OF digits])
  also have "\<dots> \<le> 1000 * 10 ^ length ds + 10 ^ length ds"
    using decimal_value_bound[OF digits] by simp
  finally have "fraction_millis ds * 10 ^ length ds < 1001 * 10 ^ length ds" by simp
  then show "fraction_millis ds \<le> 1000" by (simp add: mult_less_cancel2)
qed

lemma split_once_SomeD:
  assumes "split_once sep v = Some (a, b)"
  shows "v = a @ sep # b"
proof -
  have sep: "sep \<in> set v" and ab: "a = takeWhile (\<lambda>c. c \<noteq> sep) v" "b = tl (dropWhile (\<lambda>c. c \<noteq> sep) v)"
    using assms by (auto simp: split_once_def split: if_splits)
  from sep have rest: "dropWhile (\<lambda>c. c \<noteq> sep) v \<noteq> []" by (auto simp: dropWhile_eq_Nil_conv)
  then have "dropWhile (\<lambda>c. c \<noteq> sep) v = sep # b" using hd_dropWhile[OF rest] by (simp add: ab list.expand)
  then show ?thesis using takeWhile_dropWhile_id[of "\<lambda>c. c \<noteq> sep" v] by (simp add: ab(1))
qed

text \<open>
  A duration FFprobe printed is read without floating point and rounded up: the result is the least
  number of milliseconds that is not below the decimal number in the text, and it is not zero.
\<close>

theorem parse_duration_rounds_up:
  assumes "parse_duration_ms v = Ok ms"
  shows "\<exists>secs fraction. (v = secs \<and> fraction = [] \<or> v = secs @ CHR ''.'' # fraction) \<and> secs \<noteq> [] \<and>
    list_all is_ascii_digit (secs @ fraction) \<and> 0 < unat ms \<and>
    1000 * decimal_value (secs @ fraction) \<le> unat ms * 10 ^ length fraction \<and>
    unat ms * 10 ^ length fraction < 1000 * decimal_value (secs @ fraction) + 10 ^ length fraction"
proof -
  obtain secs fraction where parts: "(case split_once (CHR ''.'') v of None \<Rightarrow> (v, []) | Some p \<Rightarrow> p) = (secs, fraction)"
    by fastforce
  have shape: "v = secs \<and> fraction = [] \<or> v = secs @ CHR ''.'' # fraction"
    using parts by (auto split: option.splits dest: split_once_SomeD)
  have digits: "secs \<noteq> []" "list_all is_ascii_digit secs" "list_all is_ascii_digit fraction"
    using assms unfolding parse_duration_ms_def parts by (simp_all split: if_splits)
  then obtain s base where s: "parse_digits_u64 secs = Some s" "checked_mul s 1000 = Some base"
      "checked_add base (of_nat (fraction_millis fraction)) = Some ms" "0 < ms"
    using assms unfolding parse_duration_ms_def parts
    by (auto split: option.splits if_splits simp: bind_eq_Some_conv)
  have "unat (of_nat (fraction_millis fraction) :: u64) = fraction_millis fraction"
    using fraction_millis_less[OF digits(3)] by (simp add: unat_of_nat)
  moreover have "unat s = decimal_value secs"
    using s(1) by (auto simp: parse_digits_u64_def unat_of_nat split: if_splits)
  ultimately have ms: "unat ms = decimal_value secs * 1000 + fraction_millis fraction"
    using s(2,3) by (simp add: checked_mul_Some checked_add_Some)
  show ?thesis
    using shape digits s(4) fraction_millis_ceiling[OF digits(3)]
    by (intro exI[of _ secs] exI[of _ fraction])
      (simp add: ms decimal_value_append algebra_simps word_less_nat_alt)
qed

theorem parse_duration_rounds_up_witness:
  "parse_duration_ms ''12.0001'' = Ok 12001 \<and> 0 < unat (12001 :: u64)"
proof -
  have "parse_duration_ms ''12.0001'' = Ok 12001"
    by (simp add: parse_duration_ms_def split_once_def is_ascii_digit_def byte_of_def parse_digits_u64_def
        decimal_value_def digit_def fraction_millis_def numeral_3_eq_3 checked_mul_def checked_add_def)
  with parse_duration_rounds_up[OF this] show ?thesis by blast
qed

section \<open>Watermarks stay inside the image\<close>

definition watermark_settings_ok :: "u32 \<Rightarrow> u32 \<Rightarrow> u32 \<Rightarrow> u32 \<Rightarrow> WatermarkSpec \<Rightarrow> bool" where
  "watermark_settings_ok bw bh ww wh spec \<longleftrightarrow> 0 < unat bw \<and> 0 < unat bh \<and> 0 < unat ww \<and> 0 < unat wh \<and>
     unat (ws_max_width spec) \<in> {1..50} \<and> unat (ws_opacity spec) \<in> {1..100} \<and> unat (ws_margin spec) \<le> 1024"

text \<open>A watermark of the asset's shape, at least one pixel wide, fits between the margins.\<close>

definition watermark_feasible :: "u32 \<Rightarrow> u32 \<Rightarrow> u32 \<Rightarrow> u32 \<Rightarrow> WatermarkSpec \<Rightarrow> bool" where
  "watermark_feasible bw bh ww wh spec \<longleftrightarrow> watermark_settings_ok bw bh ww wh spec \<and>
     2 * unat (ws_margin spec) < unat bw \<and> 2 * unat (ws_margin spec) < unat bh \<and>
     unat wh \<le> unat ww * (unat bh - 2 * unat (ws_margin spec))"

definition watermark_inside :: "u32 \<Rightarrow> u32 \<Rightarrow> u32 \<Rightarrow> u32 \<Rightarrow> WatermarkSpec \<Rightarrow> WatermarkPlacement \<Rightarrow> bool" where
  "watermark_inside bw bh ww wh spec p \<longleftrightarrow>
     (let m = unat (ws_margin spec); x = unat (wp_x p); y = unat (wp_y p); w = unat (wp_width p); h = unat (wp_height p) in
      m \<le> x \<and> x + w + m \<le> unat bw \<and> m \<le> y \<and> y + h + m \<le> unat bh \<and> 1 \<le> w \<and> w \<le> unat ww \<and> 1 \<le> h \<and> h \<le> unat wh \<and>
      100 * w \<le> max 100 (unat bw * unat (ws_max_width spec)))"

lemma unat_narrow_u32: "narrow_u32 v = Some w \<longleftrightarrow> unat v < 2 ^ 32 \<and> unat w = unat v"
proof -
  have "unat (ucast v :: u32) = unat v" if "unat v < 2 ^ 32"
    using that by (simp add: unsigned_ucast_eq take_bit_nat_eq_self_iff)
  then show ?thesis
    by (auto simp: narrow_u32_def word_less_nat_alt intro: word_unat_eq_iff[THEN iffD2])
qed

lemma unat_ucast_u32 [simp]: "unat (ucast (a :: u32) :: u64) = unat a"
  using unat_u32_less[of a] by (simp add: unsigned_ucast_eq take_bit_nat_eq_self_iff)

lemma unat_ucast_u8 [simp]: "unat (ucast (a :: u8) :: u32) = unat a"
  using unsigned_less[of a, where ?'a = nat] by (simp add: unsigned_ucast_eq take_bit_nat_eq_self_iff)

lemma unat_word_min: "unat (min a b :: 'a::len word) = min (unat a) (unat b)"
  by (simp add: min_def word_le_nat_alt)

lemma unat_word_max: "unat (max a b :: 'a::len word) = max (unat a) (unat b)"
  by (simp add: max_def word_le_nat_alt)

lemma unat_watermark_width_cap:
  "unat (watermark_width_cap bw aw ah ww wh percent) =
     min (unat ww) (min (unat aw) (min (max 1 (unat bw * unat percent div 100)) (unat ww * unat ah div unat wh)))"
  by (simp add: watermark_width_cap_def unat_word_min unat_word_max unat_div)

lemma watermark_settings_iff:
  "watermark_settings_ok bw bh ww wh spec \<longleftrightarrow> \<not> (bw = 0 \<or> bh = 0 \<or> ww = 0 \<or> wh = 0 \<or>
     \<not> (1 \<le> ws_max_width spec \<and> ws_max_width spec \<le> 50) \<or> \<not> (1 \<le> ws_opacity spec \<and> ws_opacity spec \<le> 100) \<or>
     ws_margin spec > 1024)"
  by (auto simp: watermark_settings_ok_def word_le_nat_alt word_less_nat_alt unat_gt_0)

lemma place_watermark_inside:
  assumes "2 * unat (ws_margin spec) < unat bw" "2 * unat (ws_margin spec) < unat bh"
    and "unat w + 2 * unat (ws_margin spec) \<le> unat bw" "unat h + 2 * unat (ws_margin spec) \<le> unat bh"
    and "1 \<le> unat w" "unat w \<le> unat ww" "1 \<le> unat h" "unat h \<le> unat wh"
    and "100 * unat w \<le> max 100 (unat bw * unat (ws_max_width spec))"
  shows "watermark_inside bw bh ww wh spec (place_watermark bw bh spec w h)"
proof -
  have sub: "unat (b - v) = unat b - unat v" if "unat v \<le> unat b" for b v :: u32
    using that by (simp add: unat_sub word_le_nat_alt)
  have right: "unat (bw - w - ws_margin spec) = unat bw - unat w - unat (ws_margin spec)"
    and bottom: "unat (bh - h - ws_margin spec) = unat bh - unat h - unat (ws_margin spec)"
    and centre: "unat ((bw - w) div 2) = (unat bw - unat w) div 2" "unat ((bh - h) div 2) = (unat bh - unat h) div 2"
    using assms(3,4) by (simp_all add: sub unat_div)
  have half: "m \<le> (b - v) div 2 \<and> (b - v) div 2 + v + m \<le> b \<and> m \<le> b - (v + m)" if "v + 2 * m \<le> b" for b v m :: nat
    using that by linarith
  show ?thesis
    using assms half[OF assms(3)] half[OF assms(4)]
    by (cases "ws_position spec")
      (simp_all add: watermark_inside_def place_watermark_def Let_def right bottom centre)
qed

text \<open>
  C14. A watermark is placed exactly when one of the asset's shape and at least one pixel fits between
  the margins, and then it lies inside the image with the margin on every side, is never enlarged and
  respects the width percentage; none of the 32-bit computations wraps.
\<close>

theorem watermark_placed_inside:
  "case plan_watermark bw bh ww wh spec of
     Inl _ \<Rightarrow> \<not> watermark_feasible bw bh ww wh spec
   | Inr p \<Rightarrow> watermark_feasible bw bh ww wh spec \<and> watermark_inside bw bh ww wh spec p"
proof (cases "watermark_settings_ok bw bh ww wh spec")
  case False
  then show ?thesis
    using watermark_settings_iff[of bw bh ww wh spec] by (simp add: plan_watermark_def watermark_feasible_def)
next
  case ok: True
  define m where "m = unat (ws_margin spec)"
  have bounds: "0 < unat bw" "0 < unat bh" "0 < unat ww" "0 < unat wh" "m \<le> 1024" "unat (ws_max_width spec) \<le> 50"
    using ok by (auto simp: watermark_settings_ok_def m_def)
  have doubled: "unat (ws_margin spec * 2) = 2 * m"
    using bounds(5) by (simp add: m_def unat_mult_lem[THEN iffD1])
  show ?thesis
  proof (cases "2 * m < unat bw \<and> 2 * m < unat bh")
    case False
    then show ?thesis
      using ok[unfolded watermark_settings_iff] doubled bounds(5)
      by (auto simp: plan_watermark_def watermark_feasible_def Let_def word_le_nat_alt m_def)
  next
    case area: True
    let ?aw = "bw - ws_margin spec * 2" and ?ah = "bh - ws_margin spec * 2"
    let ?cap = "watermark_width_cap bw ?aw ?ah ww wh (ws_max_width spec)"
    have available: "unat ?aw = unat bw - 2 * m" "unat ?ah = unat bh - 2 * m"
      using area doubled by (simp_all add: unat_sub word_le_nat_alt)
    have cap: "unat ?cap = min (unat ww) (min (unat bw - 2 * m) (min (max 1 (unat bw * unat (ws_max_width spec) div 100))
        (unat ww * (unat bh - 2 * m) div unat wh)))"
      by (simp add: unat_watermark_width_cap available)
    have feasible: "watermark_feasible bw bh ww wh spec \<longleftrightarrow> 0 < unat ?cap"
      using ok area bounds by (auto simp: watermark_feasible_def cap m_def div_greater_zero_iff)
    show ?thesis
    proof (cases "0 < unat ?cap")
      case False
      then show ?thesis
        using feasible ok[unfolded watermark_settings_iff] area doubled bounds(5)
        by (simp add: plan_watermark_def Let_def word_le_nat_alt word_less_nat_alt m_def)
    next
      case positive: True
      have cap_le: "unat ?cap \<le> unat ww" "unat ?cap \<le> unat bw - 2 * m"
          "unat ?cap \<le> max 1 (unat bw * unat (ws_max_width spec) div 100)"
          "unat ?cap \<le> unat ww * (unat bh - 2 * m) div unat wh"
        unfolding cap by (intro min.coboundedI1 min.coboundedI2 order.refl)+
      obtain w where w: "narrow_u32 ?cap = Some w" "unat w = unat ?cap"
        using unat_narrow_u32[of ?cap] cap_le(1) unat_u32_less[of ww] by (auto simp: narrow_u32_def word_less_nat_alt)
      let ?h = "max 1 (widening_mul wh w div ucast ww)"
      have h_value: "unat ?h = max 1 (unat wh * unat w div unat ww)" by (simp add: unat_word_max unat_div)
      have "unat wh * unat w \<le> unat ww * (unat bh - 2 * m)"
        using cap_le(4) bounds(4) by (simp add: w(2) less_eq_div_iff_mult_less_eq mult.commute)
      then have fits: "unat wh * unat w div unat ww \<le> unat bh - 2 * m"
        using bounds(3) by (metis div_le_mono nonzero_mult_div_cancel_left less_not_refl2)
      have "unat wh * unat w \<le> unat wh * unat ww" using cap_le(1) by (simp add: w(2))
      then have small: "unat wh * unat w div unat ww \<le> unat wh"
        using bounds(3) by (metis div_le_mono nonzero_mult_div_cancel_right less_not_refl2)
      then obtain h where h: "narrow_u32 ?h = Some h" "unat h = unat ?h"
        using unat_narrow_u32[of ?h] unat_u32_less[of wh] bounds(4) h_value
        by (auto simp: narrow_u32_def word_less_nat_alt)
      have low: "unat h \<le> unat bh - 2 * m" using fits area unfolding h(2) h_value by linarith
      have "plan_watermark bw bh ww wh spec = Ok (place_watermark bw bh spec w h)"
        using ok[unfolded watermark_settings_iff] area doubled bounds(5) positive w(1) h(1) low available
        by (simp add: plan_watermark_def Let_def word_le_nat_alt word_less_nat_alt m_def)
      moreover have "watermark_inside bw bh ww wh spec (place_watermark bw bh spec w h)"
      proof (rule place_watermark_inside)
        show "100 * unat w \<le> max 100 (unat bw * unat (ws_max_width spec))" using cap_le(3) w(2) by linarith
        show "unat h \<le> unat wh" using small bounds(4) by (simp add: h(2) h_value)
        show "2 * unat (ws_margin spec) < unat bw" "2 * unat (ws_margin spec) < unat bh"
          using area by (simp_all add: m_def)
        show "unat w + 2 * unat (ws_margin spec) \<le> unat bw" using cap_le(2) area unfolding w(2) m_def by linarith
        show "unat h + 2 * unat (ws_margin spec) \<le> unat bh" using low area unfolding m_def by linarith
        show "1 \<le> unat w" "unat w \<le> unat ww" using positive cap_le(1) unfolding w(2) by linarith+
        show "1 \<le> unat h" unfolding h(2) h_value by linarith
      qed
      ultimately show ?thesis using feasible positive by simp
    qed
  qed
qed

end
