(* ===== verification/Auth.thy ===== *)
theory Auth
  imports Text
begin

text \<open>
  Request and media-URL signatures: \<open>crates/g7mb-auth/src/lib.rs\<close>.  HMAC-SHA256, the base64url codec
  and SHA-256 are crates outside the program: the record \<open>crypto\<close> holds them as functions, and the
  lemmas that rely on the codec name the law they use.  Timestamps are the \<open>i64\<close> values as integers.
\<close>

section \<open>What is signed\<close>

record crypto =
  hmac :: "string \<Rightarrow> string \<Rightarrow> string"
  b64_encode :: "string \<Rightarrow> string"
  b64_decode :: "string \<Rightarrow> string option"
  sha256_hex :: "string \<Rightarrow> string"

definition b64_roundtrip :: "crypto \<Rightarrow> bool" where
  "b64_roundtrip c \<longleftrightarrow> (\<forall>v. b64_decode c (b64_encode c v) = Some v)"

record SignedRequest =
  sr_key_id :: string
  sr_timestamp :: int
  sr_nonce :: string
  sr_method :: string
  sr_path_and_query :: string
  sr_body_sha256 :: string
  sr_signature :: string

definition request_payload :: "SignedRequest \<Rightarrow> string" where
  "request_payload r = join_with newline
     [''G7MB-HMAC-SHA256'', sr_key_id r, show_int (sr_timestamp r), sr_nonce r, sr_method r,
      sr_path_and_query r, sr_body_sha256 r]"

record SignedMediaUrl =
  smu_path :: string
  smu_expires_at :: int
  smu_signature :: string

definition media_payload :: "SignedMediaUrl \<Rightarrow> string" where
  "media_payload m = join_with newline
     [''G7MB-MEDIA-HMAC-SHA256'', ''GET'', smu_path m, show_int (smu_expires_at m)]"

datatype VerificationError = StaleTimestamp | InvalidField | InvalidEncoding | InvalidSignature | InvalidKey

datatype MediaUrlVerificationError =
    UrlInvalidField | UrlExpired | ExcessiveLifetime | UrlInvalidEncoding | UrlInvalidSignature | UrlInvalidKey

section \<open>Signing and verifying requests\<close>

definition valid_field :: "SignedRequest \<Rightarrow> bool" where
  "valid_field r \<longleftrightarrow>
     bounded_token 128 (sr_key_id r) \<and>
     16 \<le> length (sr_nonce r) \<and> length (sr_nonce r) \<le> 128 \<and> list_all is_ascii_graphic (sr_nonce r) \<and>
     sr_method r \<noteq> [] \<and> list_all is_ascii_upper (sr_method r) \<and>
     starts_with ''/'' (sr_path_and_query r) \<and> length (sr_path_and_query r) \<le> 8192 \<and>
     list_all is_ascii_graphic (sr_path_and_query r) \<and>
     length (sr_body_sha256 r) = 64 \<and> list_all is_lower_hex (sr_body_sha256 r)"

definition secret_ok :: "string \<Rightarrow> bool" where
  "secret_ok secret \<longleftrightarrow> 32 \<le> length secret \<and> length secret \<le> 256"

definition verify :: "crypto \<Rightarrow> SignedRequest \<Rightarrow> string \<Rightarrow> int \<Rightarrow> int \<Rightarrow> (VerificationError, unit) result" where
  "verify c request secret now allowed_skew =
     (if allowed_skew < 0 \<or> \<bar>now - sr_timestamp request\<bar> > allowed_skew then Err StaleTimestamp
      else if \<not> valid_field request then Err InvalidField
      else if \<not> secret_ok secret then Err InvalidKey
      else (case b64_decode c (sr_signature request) of
          None \<Rightarrow> Err InvalidEncoding
        | Some signature \<Rightarrow>
            if hmac c secret (request_payload request) = signature then Ok () else Err InvalidSignature))"

definition sign :: "crypto \<Rightarrow> SignedRequest \<Rightarrow> string \<Rightarrow> (VerificationError, string) result" where
  "sign c request secret =
     (if \<not> valid_field request then Err InvalidField
      else if \<not> secret_ok secret then Err InvalidKey
      else Ok (b64_encode c (hmac c secret (request_payload request))))"

section \<open>Signing and verifying media URLs\<close>

definition validate_media_url_fields :: "SignedMediaUrl \<Rightarrow> (MediaUrlVerificationError, unit) result" where
  "validate_media_url_fields m =
     (if \<not> starts_with ''/media/v1/'' (smu_path m) \<or> length (smu_path m) > 2048 \<or>
         \<not> list_all is_ascii_graphic (smu_path m) \<or> smu_expires_at m \<le> 0
      then Err UrlInvalidField else Ok ())"

definition media_url_mac :: "crypto \<Rightarrow> string \<Rightarrow> string \<Rightarrow> (MediaUrlVerificationError, string) result" where
  "media_url_mac c secret payload = (if secret_ok secret then Ok (hmac c secret payload) else Err UrlInvalidKey)"

definition sign_media_url :: "crypto \<Rightarrow> SignedMediaUrl \<Rightarrow> string \<Rightarrow> (MediaUrlVerificationError, string) result" where
  "sign_media_url c media secret =
     and_then (validate_media_url_fields media) (\<lambda>_.
     and_then (media_url_mac c secret (media_payload media)) (\<lambda>mac. Ok (b64_encode c mac)))"

definition verify_media_url :: "crypto \<Rightarrow> SignedMediaUrl \<Rightarrow> string \<Rightarrow> int \<Rightarrow> nat
    \<Rightarrow> (MediaUrlVerificationError, unit) result" where
  "verify_media_url c media secret now max_lifetime =
     and_then (validate_media_url_fields media) (\<lambda>_.
     if smu_expires_at media < now then Err UrlExpired
     else if \<bar>smu_expires_at media - now\<bar> > int max_lifetime then Err ExcessiveLifetime
     else (case b64_decode c (smu_signature media) of
         None \<Rightarrow> Err UrlInvalidEncoding
       | Some signature \<Rightarrow>
           and_then (media_url_mac c secret (media_payload media)) (\<lambda>mac.
             if mac = signature then Ok () else Err UrlInvalidSignature)))"

section \<open>Payloads\<close>

lemma no_newline:
  "list_all token_byte v \<Longrightarrow> newline \<notin> set v" "list_all is_ascii_graphic v \<Longrightarrow> newline \<notin> set v"
  "list_all is_ascii_upper v \<Longrightarrow> newline \<notin> set v" "list_all is_lower_hex v \<Longrightarrow> newline \<notin> set v"
  "newline \<notin> set (show_int i)"
  using newline_classes show_int_bytes[of newline i] by (auto simp: list_all_iff)

lemma literals_no_newline:
  "newline \<notin> set ''G7MB-HMAC-SHA256''" "newline \<notin> set ''G7MB-MEDIA-HMAC-SHA256''" "newline \<notin> set ''GET''"
  by (simp_all add: newline_def)

lemma valid_field_lines:
  "valid_field r \<Longrightarrow> list_all (\<lambda>s. newline \<notin> set s)
     [''G7MB-HMAC-SHA256'', sr_key_id r, show_int (sr_timestamp r), sr_nonce r, sr_method r, sr_path_and_query r, sr_body_sha256 r]"
  using literals_no_newline(1) by (simp add: valid_field_def bounded_token_def no_newline)

lemma media_field_lines:
  "validate_media_url_fields m = Ok () \<Longrightarrow> list_all (\<lambda>s. newline \<notin> set s)
     [''G7MB-MEDIA-HMAC-SHA256'', ''GET'', smu_path m, show_int (smu_expires_at m)]"
  using literals_no_newline(2,3) by (simp add: validate_media_url_fields_def no_newline split: if_splits)

lemma request_payload_inj:
  assumes "valid_field r" "valid_field s" "request_payload r = request_payload s"
  shows "s = r\<lparr>sr_signature := sr_signature s\<rparr>"
proof -
  have "[sr_key_id r, show_int (sr_timestamp r), sr_nonce r, sr_method r, sr_path_and_query r, sr_body_sha256 r]
      = [sr_key_id s, show_int (sr_timestamp s), sr_nonce s, sr_method s, sr_path_and_query s, sr_body_sha256 s]"
    using join_with_inj[OF valid_field_lines[OF assms(1)] valid_field_lines[OF assms(2)]] assms(3)
    unfolding request_payload_def by blast
  then show ?thesis by (auto dest: show_int_inj)
qed

lemma media_payload_inj:
  assumes "validate_media_url_fields m = Ok ()" "validate_media_url_fields n = Ok ()" "media_payload m = media_payload n"
  shows "n = m\<lparr>smu_signature := smu_signature n\<rparr>"
proof -
  have "[smu_path m, show_int (smu_expires_at m)] = [smu_path n, show_int (smu_expires_at n)]"
    using join_with_inj[OF media_field_lines[OF assms(1)] media_field_lines[OF assms(2)]] assms(3)
    unfolding media_payload_def by blast
  then show ?thesis by (auto dest: show_int_inj)
qed

lemma payloads_differ:
  assumes "valid_field r" "validate_media_url_fields m = Ok ()"
  shows "request_payload r \<noteq> media_payload m"
proof
  assume "request_payload r = media_payload m"
  from join_with_inj[OF valid_field_lines[OF assms(1)] media_field_lines[OF assms(2)] _ _
      this[unfolded request_payload_def media_payload_def]]
  show False by simp
qed

lemma verify_accepts:
  "verify c r secret now skew = Ok () \<longleftrightarrow> 0 \<le> skew \<and> \<bar>now - sr_timestamp r\<bar> \<le> skew \<and> valid_field r \<and>
     secret_ok secret \<and> b64_decode c (sr_signature r) = Some (hmac c secret (request_payload r))"
  by (auto simp: verify_def split: option.splits)

lemma verify_media_accepts:
  "verify_media_url c m secret now lifetime = Ok () \<longleftrightarrow> validate_media_url_fields m = Ok () \<and>
     now \<le> smu_expires_at m \<and> smu_expires_at m - now \<le> int lifetime \<and> secret_ok secret \<and>
     b64_decode c (smu_signature m) = Some (hmac c secret (media_payload m))"
  by (cases "validate_media_url_fields m")
    (auto simp: verify_media_url_def media_url_mac_def split: option.splits)

section \<open>Signatures bind requests\<close>

text \<open>A codec and a mac to evaluate the definitions with.\<close>

definition sample_crypto :: crypto where
  "sample_crypto = \<lparr>hmac = (\<lambda>key message. key @ message), b64_encode = (\<lambda>v. v), b64_decode = Some,
     sha256_hex = (\<lambda>_. replicate 64 (CHR ''0''))\<rparr>"

definition sample_secret :: string where
  "sample_secret = replicate 32 (CHR ''k'')"

definition sample_signed_request :: SignedRequest where
  "sample_signed_request = \<lparr>sr_key_id = ''php-site'', sr_timestamp = 1000, sr_nonce = ''nonce-0123456789'',
     sr_method = ''PUT'', sr_path_and_query = ''/v1/site-policy'', sr_body_sha256 = replicate 64 (CHR ''0''),
     sr_signature = []\<rparr>"

lemma sample_request_valid: "valid_field sample_signed_request" "secret_ok sample_secret"
  by (simp_all add: valid_field_def sample_signed_request_def bounded_token_def token_byte_def secret_ok_def
      sample_secret_def is_ascii_alphanumeric_def is_ascii_digit_def is_ascii_upper_def is_ascii_lower_def
      is_ascii_graphic_def is_lower_hex_def byte_of_def starts_with_def list_all_iff)

lemma valid_field_signature [simp]:
  "valid_field (r\<lparr>sr_signature := v\<rparr>) = valid_field r" "request_payload (r\<lparr>sr_signature := v\<rparr>) = request_payload r"
  by (simp_all add: valid_field_def request_payload_def)

text \<open>
  A request signed with a secret verifies under the same secret at every clock reading within the
  allowed skew of its timestamp, and with no other signature than one that decodes to the same bytes.
\<close>

theorem signed_request_verifies:
  assumes "b64_roundtrip c" "sign c r secret = Ok sig"
  shows "verify c (r\<lparr>sr_signature := sig'\<rparr>) secret now skew = Ok () \<longleftrightarrow>
    0 \<le> skew \<and> \<bar>now - sr_timestamp r\<bar> \<le> skew \<and> b64_decode c sig' = b64_decode c sig"
  using assms by (auto simp: sign_def verify_accepts b64_roundtrip_def split: if_splits)

theorem signed_request_verifies_witness:
  "verify sample_crypto (sample_signed_request\<lparr>sr_signature :=
     sample_secret @ request_payload sample_signed_request\<rparr>) sample_secret 1200 300 = Ok ()"
proof -
  have "b64_roundtrip sample_crypto" by (simp add: b64_roundtrip_def sample_crypto_def)
  moreover have "sign sample_crypto sample_signed_request sample_secret =
      Ok (sample_secret @ request_payload sample_signed_request)"
    using sample_request_valid by (simp add: sign_def sample_crypto_def)
  ultimately show ?thesis by (subst signed_request_verifies) (simp_all add: sample_signed_request_def)
qed

text \<open>
  C15. The signed bytes determine what is signed: two accepted requests over the same bytes agree in the
  key, the timestamp, the nonce, the method, the path and the body digest, and no media URL is signed
  over the bytes of a request, so a signature of one kind is none of the other.
\<close>

theorem signed_payload_determines_request:
  assumes "verify c r secret now skew = Ok ()" "verify c s secret' now' skew' = Ok ()"
    and "request_payload r = request_payload s"
  shows "s = r\<lparr>sr_signature := sr_signature s\<rparr> \<and>
    (\<forall>m. validate_media_url_fields m = Ok () \<longrightarrow> media_payload m \<noteq> request_payload r)"
proof -
  have "valid_field r" "valid_field s" using assms(1,2) by (simp_all add: verify_accepts)
  then show ?thesis using request_payload_inj assms(3) payloads_differ by metis
qed

theorem signed_payload_determines_request_witness:
  "verify sample_crypto (sample_signed_request\<lparr>sr_signature :=
     sample_secret @ request_payload sample_signed_request\<rparr>) sample_secret 1000 300 = Ok () \<and>
   media_payload \<lparr>smu_path = ''/media/v1/t'', smu_expires_at = 5, smu_signature = []\<rparr>
     \<noteq> request_payload sample_signed_request"
proof -
  let ?r = "sample_signed_request\<lparr>sr_signature := sample_secret @ request_payload sample_signed_request\<rparr>"
  let ?m = "\<lparr>smu_path = ''/media/v1/t'', smu_expires_at = 5, smu_signature = []\<rparr>"
  have ok: "verify sample_crypto ?r sample_secret 1000 300 = Ok ()"
    using sample_request_valid
    by (simp add: verify_accepts) (simp add: sample_crypto_def sample_signed_request_def)
  have "validate_media_url_fields ?m = Ok ()"
    by (simp add: validate_media_url_fields_def starts_with_def is_ascii_graphic_def byte_of_def)
  with signed_payload_determines_request[OF ok ok refl] have "media_payload ?m \<noteq> request_payload ?r" by blast
  then show ?thesis using ok by simp
qed

end
