(* ===== verification/Net.thy ===== *)
theory Net
  imports Text
begin

text \<open>
  The part of \<open>std::net\<close> and of \<open>str\<close> the configuration and the redirect check use: addresses, their
  parser (\<open>str::parse::<IpAddr>\<close>, a reader of dotted quads and of colon groups with one elision and an
  embedded quad), loopback addresses, UTF-8 validity and trimming.  A reader yields the value and the
  rest of the text.
\<close>

section \<open>Addresses\<close>

datatype IpAddr = V4 u32 | V6 "128 word"

datatype SocketAddr = SocketV4 u32 u16 | SocketV6 "128 word" u16 u32 u32

fun socket_ip :: "SocketAddr \<Rightarrow> IpAddr" where
  "socket_ip (SocketV4 ip _) = V4 ip"
| "socket_ip (SocketV6 ip _ _ _) = V6 ip"

text \<open>The first octet of a quad is 127; the only loopback of the longer form is 1.\<close>

fun is_loopback :: "IpAddr \<Rightarrow> bool" where
  "is_loopback (V4 ip) \<longleftrightarrow> unat ip div 2 ^ 24 = 127"
| "is_loopback (V6 ip) \<longleftrightarrow> ip = 1"

section \<open>Readers\<close>

type_synonym 'a reader = "string \<Rightarrow> ('a \<times> string) option"

definition hex_digit :: "char \<Rightarrow> nat option" where
  "hex_digit c =
     (if is_ascii_digit c then Some (byte_of c - 48)
      else if 97 \<le> byte_of c \<and> byte_of c \<le> 102 then Some (byte_of c - 87)
      else if 65 \<le> byte_of c \<and> byte_of c \<le> 70 then Some (byte_of c - 55) else None)"

definition to_digit :: "nat \<Rightarrow> char \<Rightarrow> nat option" where
  "to_digit radix c = Option.bind (hex_digit c) (\<lambda>d. if d < radix then Some d else None)"

fun read_digits :: "nat \<Rightarrow> string \<Rightarrow> nat list \<times> string" where
  "read_digits radix [] = ([], [])"
| "read_digits radix (c # s) =
     (case to_digit radix c of
        None \<Rightarrow> ([], c # s)
      | Some d \<Rightarrow> (case read_digits radix s of (ds, rest) \<Rightarrow> (d # ds, rest)))"

definition read_number :: "nat \<Rightarrow> nat \<Rightarrow> bool \<Rightarrow> nat \<Rightarrow> nat reader" where
  "read_number radix max_digits allow_zero_prefix largest s =
     (case read_digits radix s of
        (ds, rest) \<Rightarrow>
          let v = foldl (\<lambda>v d. v * radix + d) 0 ds in
          if ds = [] \<or> length ds > max_digits \<or> v > largest \<or>
             \<not> allow_zero_prefix \<and> hd ds = 0 \<and> length ds > 1
          then None else Some (v, rest))"

definition read_separator :: "char \<Rightarrow> bool \<Rightarrow> 'a reader \<Rightarrow> 'a reader" where
  "read_separator sep first inner s =
     (if first then inner s else case s of [] \<Rightarrow> None | c # rest \<Rightarrow> if c = sep then inner rest else None)"

fun read_octets :: "nat \<Rightarrow> bool \<Rightarrow> nat list reader" where
  "read_octets 0 first s = Some ([], s)"
| "read_octets (Suc n) first s =
     (case read_separator CHR ''.'' first (read_number 10 3 False 255) s of
        None \<Rightarrow> None
      | Some (d, s') \<Rightarrow> map_option (\<lambda>(ds, rest). (d # ds, rest)) (read_octets n False s'))"

definition read_ipv4 :: "nat list reader" where
  "read_ipv4 = read_octets 4 True"

text \<open>At most \<open>n\<close> groups; a quad counts as two, needs room for both and ends them.\<close>

fun read_groups :: "nat \<Rightarrow> bool \<Rightarrow> string \<Rightarrow> nat list \<times> bool \<times> string" where
  "read_groups 0 first s = ([], False, s)"
| "read_groups (Suc n) first s =
     (case (if n > 0 then read_separator CHR '':'' first read_ipv4 s else None) of
        Some (quad, s') \<Rightarrow> ([quad ! 0 * 256 + quad ! 1, quad ! 2 * 256 + quad ! 3], True, s')
      | None \<Rightarrow>
          (case read_separator CHR '':'' first (read_number 16 4 True 65535) s of
             None \<Rightarrow> ([], False, s)
           | Some (g, s') \<Rightarrow> (case read_groups n False s' of (gs, quad, rest) \<Rightarrow> (g # gs, quad, rest))))"

definition read_ipv6 :: "nat list reader" where
  "read_ipv6 s =
     (case read_groups 8 True s of
        (head, quad, s1) \<Rightarrow>
          if length head = 8 then Some (head, s1)
          else if quad \<or> take 2 s1 \<noteq> ''::'' then None
          else (case read_groups (8 - (length head + 1)) True (drop 2 s1) of
              (tail, _, rest) \<Rightarrow> Some (head @ replicate (8 - length head - length tail) 0 @ tail, rest)))"

definition parse_ip :: "string \<Rightarrow> IpAddr option" where
  "parse_ip s =
     (case read_ipv4 s of
        Some (quad, rest) \<Rightarrow> if rest = [] then Some (V4 (of_nat (foldl (\<lambda>v d. v * 256 + d) 0 quad))) else None
      | None \<Rightarrow>
          (case read_ipv6 s of
             Some (groups, rest) \<Rightarrow>
               if rest = [] then Some (V6 (of_nat (foldl (\<lambda>v d. v * 65536 + d) 0 groups))) else None
           | None \<Rightarrow> None))"

definition loopback_ip :: "string \<Rightarrow> bool" where
  "loopback_ip host \<longleftrightarrow> (case parse_ip host of None \<Rightarrow> False | Some ip \<Rightarrow> is_loopback ip)"

section \<open>UTF-8 and white space\<close>

definition continuation :: "char \<Rightarrow> bool" where
  "continuation c \<longleftrightarrow> 128 \<le> byte_of c \<and> byte_of c \<le> 191"

fun utf8_valid :: "string \<Rightarrow> bool" where
  "utf8_valid [] \<longleftrightarrow> True"
| "utf8_valid (a # s) \<longleftrightarrow>
     (let x = byte_of a in
      if x < 128 then utf8_valid s
      else (case s of [] \<Rightarrow> False | b # s2 \<Rightarrow>
        if x \<le> 223 then 194 \<le> x \<and> continuation b \<and> utf8_valid s2
        else (case s2 of [] \<Rightarrow> False | c # s3 \<Rightarrow>
          if x \<le> 239
          then continuation b \<and> continuation c \<and> (x = 224 \<longrightarrow> 160 \<le> byte_of b) \<and> (x = 237 \<longrightarrow> byte_of b \<le> 159) \<and>
               utf8_valid s3
          else (case s3 of [] \<Rightarrow> False | d # s4 \<Rightarrow>
               x \<le> 244 \<and> continuation b \<and> continuation c \<and> continuation d \<and>
               (x = 240 \<longrightarrow> 144 \<le> byte_of b) \<and> (x = 244 \<longrightarrow> byte_of b \<le> 143) \<and> utf8_valid s4))))"

lemma utf8_valid_ascii: "(\<And>c. c \<in> set s \<Longrightarrow> byte_of c < 128) \<Longrightarrow> utf8_valid s"
  by (induction s) (auto simp: Let_def)

text \<open>The encodings of the characters \<open>str::trim\<close> removes.\<close>

definition white_space :: "string list" where
  "white_space = map (map char_of)
     ([[9], [10], [11], [12], [13], [32], [194, 133], [194, 160], [225, 154, 128 :: nat],
       [226, 128, 168], [226, 128, 169], [226, 128, 175], [226, 129, 159], [227, 128, 128]] @
      map (\<lambda>n. [226, 128, n]) [128 ..< 139])"

definition is_trimmed :: "string \<Rightarrow> bool" where
  "is_trimmed v \<longleftrightarrow> list_all (\<lambda>w. take (length w) v \<noteq> w \<and> drop (length v - length w) v \<noteq> w) white_space"

definition trim_newlines :: "string \<Rightarrow> string" where
  "trim_newlines v = rev (dropWhile (\<lambda>c. c = CHR 0x0D \<or> c = CHR 0x0A) (rev v))"

lemma trim_newlines_prefix: "\<exists>s. v = trim_newlines v @ s \<and> list_all (\<lambda>c. c = CHR 0x0D \<or> c = CHR 0x0A) s"
proof -
  let ?p = "\<lambda>c. c = CHR 0x0D \<or> c = CHR 0x0A"
  have "v = rev (dropWhile ?p (rev v)) @ rev (takeWhile ?p (rev v))"
    by (metis rev_append rev_rev_ident takeWhile_dropWhile_id)
  moreover have "list_all ?p (rev (takeWhile ?p (rev v)))"
    by (auto simp: list_all_iff dest: set_takeWhileD)
  ultimately show ?thesis unfolding trim_newlines_def by blast
qed

section \<open>Examples\<close>

text \<open>The counts the readers start from are numerals.\<close>

lemmas read_octets_numeral = read_octets.simps(2)[of "pred_numeral k" for k, folded numeral_eq_Suc]

lemmas read_groups_numeral = read_groups.simps(2)[of "pred_numeral k" for k, folded numeral_eq_Suc]

lemma replicate_numeral: "replicate (numeral k) x = x # replicate (pred_numeral k) x"
  by (simp add: numeral_eq_Suc)

lemmas reader_defs = read_ipv4_def read_ipv6_def read_separator_def read_number_def to_digit_def hex_digit_def
  is_ascii_digit_def byte_of_def read_octets_numeral read_groups_numeral replicate_numeral

lemma parse_ip_examples:
  "parse_ip ''127.0.0.1'' = Some (V4 2130706433)" "parse_ip ''256.0.0.1'' = None" "parse_ip ''127.0.0.01'' = None"
  "parse_ip ''::1'' = Some (V6 1)" "parse_ip ''[::1]'' = None" "parse_ip ''localhost'' = None"
  "parse_ip ''::ffff:127.0.0.1'' = Some (V6 0xffff7f000001)" "parse_ip ''1::2::3'' = None"
  by (simp_all add: parse_ip_def reader_defs)

lemma loopback_examples: "loopback_ip ''127.0.0.1''" "loopback_ip ''::1''" "\<not> loopback_ip ''[::1]''" "\<not> loopback_ip ''localhost''"
  by (simp_all add: loopback_ip_def parse_ip_examples)

end
