(* ===== verification/Delivery.thy ===== *)
theory Delivery
  imports Journey Ports Net
begin

text \<open>
  Private derivative delivery: \<open>DerivativeDeliveryService\<close> of
  \<open>crates/g7mb-application/src/delivery.rs\<close> and the bounds of \<open>delivery_security.rs\<close>.  The manifest cache
  is a partial map (its entries may be dropped at any time, which the proofs allow for); the \<open>url\<close>
  crate is an argument.
\<close>

section \<open>Policy and redirects\<close>

record DerivativeDeliveryPolicy =
  ddp_signed_url_ttl :: duration
  ddp_manifest_cache_ttl :: duration
  ddp_manifest_cache_max_bytes :: u64
  ddp_redirect_allowed_authorities :: "string list"

definition default_delivery_policy :: DerivativeDeliveryPolicy where
  "default_delivery_policy =
     \<lparr>ddp_signed_url_ttl = seconds (5 * 60), ddp_manifest_cache_ttl = seconds 60,
      ddp_manifest_cache_max_bytes = 4 * 1024 * 1024,
      ddp_redirect_allowed_authorities = [''private.invalid'']\<rparr>"

definition authority_byte :: "char \<Rightarrow> bool" where
  "authority_byte c \<longleftrightarrow> is_ascii_lower c \<or> is_ascii_digit c \<or> c \<in> {CHR ''.'', CHR ''-'', CHR '':'', CHR ''['', CHR '']''}"

definition delivery_policy_is_valid :: "DerivativeDeliveryPolicy \<Rightarrow> bool" where
  "delivery_policy_is_valid p \<longleftrightarrow>
     seconds 30 \<le> ddp_signed_url_ttl p \<and> ddp_signed_url_ttl p \<le> seconds (15 * 60) \<and>
     seconds 1 \<le> ddp_manifest_cache_ttl p \<and> ddp_manifest_cache_ttl p \<le> seconds (5 * 60) \<and>
     ddp_manifest_cache_ttl p \<le> ddp_signed_url_ttl p \<and>
     64 * 1024 \<le> ddp_manifest_cache_max_bytes p \<and> ddp_manifest_cache_max_bytes p \<le> 64 * 1024 * 1024 \<and>
     ddp_redirect_allowed_authorities p \<noteq> [] \<and> length (ddp_redirect_allowed_authorities p) \<le> 8 \<and>
     list_all (\<lambda>a. a \<noteq> [] \<and> length a \<le> 512 \<and> a = to_ascii_lowercase a \<and> list_all authority_byte a)
       (ddp_redirect_allowed_authorities p)"

definition valid_preset :: "string \<Rightarrow> bool" where
  "valid_preset v \<longleftrightarrow> v \<noteq> [] \<and> length v \<le> 128 \<and> list_all token_byte v"

definition valid_tenant :: "string \<Rightarrow> bool" where
  "valid_tenant v \<longleftrightarrow> v \<noteq> [] \<and> length v \<le> 64 \<and> list_all token_byte v"

text \<open>What the \<open>url\<close> crate reports of a parsed URL.\<close>

record Url =
  url_scheme :: string
  url_username :: string
  url_password :: "string option"
  url_host :: "string option"
  url_port :: "u16 option"
  url_path :: string
  url_query :: "string option"
  url_fragment :: "string option"

text \<open>The outside function \<open>Url::parse\<close>.\<close>

record url_world =
  parse_url :: "string \<Rightarrow> Url option"

definition url_authority :: "string \<Rightarrow> u16 option \<Rightarrow> string" where
  "url_authority host port =
     (case port of
        Some p \<Rightarrow>
          if CHR '':'' \<in> set host
          then ''['' @ to_ascii_lowercase host @ '']:'' @ show_nat (unat p)
          else to_ascii_lowercase host @ '':'' @ show_nat (unat p)
      | None \<Rightarrow> to_ascii_lowercase host)"

definition trusted_redirect :: "url_world \<Rightarrow> string \<Rightarrow> string list \<Rightarrow> bool" where
  "trusted_redirect world v allowed =
     (case parse_url world v of
        None \<Rightarrow> False
      | Some url \<Rightarrow>
          let loopback = (case url_host url of None \<Rightarrow> False
                | Some host \<Rightarrow> to_ascii_lowercase host = ''localhost'' \<or> loopback_ip host) in
          if url_username url \<noteq> [] \<or> url_password url \<noteq> None \<or> url_fragment url \<noteq> None \<or>
             \<not> (url_scheme url = ''https'' \<or> url_scheme url = ''http'' \<and> loopback)
          then False
          else (case url_host url of None \<Rightarrow> False
            | Some host \<Rightarrow> url_authority host (url_port url) \<in> set allowed))"

section \<open>Manifests\<close>

record DerivativeDelivery =
  dd_preset :: string
  dd_variant :: string
  dd_content_type :: string
  dd_byte_len :: u64
  dd_url :: string
  dd_expires_at :: instant

datatype DerivativeDeliveryError =
    DdInvalidPolicy | DdInvalidTenant | DdInvalidVariant | DdNotFound | DdNotReady
  | DdRepository UploadRepositoryError | DdObjectStore ObjectStoreError | DdUntrustedRedirect

datatype ManifestLoadError = ManifestNotFound | ManifestNotReady | ManifestRepository

type_synonym ManifestKey = "string \<times> uuid"
type_synonym DerivativeManifest = "StoredDerivative list"
type_synonym ManifestCache = "ManifestKey \<rightharpoonup> DerivativeManifest"

definition manifest_entry_ok :: "string option \<Rightarrow> StoredDerivative \<Rightarrow> bool" where
  "manifest_entry_ok preset d \<longleftrightarrow>
     sd_byte_len d > 0 \<and> valid_preset (sd_preset d) \<and> preset = Some (sd_preset d) \<and>
     (if sd_variant d = ''master''
      then sd_content_type d \<in> {''image/jpeg'', ''video/mp4'', ''video/quicktime''}
      else if sd_variant d = ''thumbnail'' then sd_content_type d = ''image/jpeg''
      else False)"

definition manifest_from_status :: "UploadStatusSnapshot \<Rightarrow> (ManifestLoadError, DerivativeManifest) result" where
  "manifest_from_status status =
     (let ds = us_derivatives status;
          preset = (case ds of [] \<Rightarrow> None | d # _ \<Rightarrow> Some (sd_preset d)) in
      if us_state status \<noteq> Ready \<or> us_deletion_pending status \<or> length ds \<noteq> 2 then Err ManifestNotReady
      else if length (filter (\<lambda>d. sd_variant d = ''master'') ds) = 1 \<and>
              length (filter (\<lambda>d. sd_variant d = ''thumbnail'') ds) = 1 \<and>
              list_all (manifest_entry_ok preset) ds
      then Ok ds else Err ManifestNotReady)"

definition manifest_derivative :: "DerivativeManifest \<Rightarrow> string \<Rightarrow> StoredDerivative option" where
  "manifest_derivative manifest variant = find (\<lambda>d. sd_variant d = variant) manifest"

definition load_manifest :: "ManifestKey \<Rightarrow> Database \<Rightarrow> (ManifestLoadError, DerivativeManifest) result" where
  "load_manifest key db =
     (case find_status (fst key) (snd key) db of
        Inl _ \<Rightarrow> Err ManifestRepository
      | Inr None \<Rightarrow> Err ManifestNotFound
      | Inr (Some status) \<Rightarrow>
          if us_upload_id status \<noteq> snd key then Err ManifestNotReady else manifest_from_status status)"

definition map_manifest_load_error :: "ManifestLoadError \<Rightarrow> DerivativeDeliveryError" where
  "map_manifest_load_error e =
     (case e of
        ManifestNotFound \<Rightarrow> DdNotFound
      | ManifestNotReady \<Rightarrow> DdNotReady
      | ManifestRepository \<Rightarrow> DdRepository (RepositoryBackend ''delivery manifest lookup failed''))"

text \<open>The weight of a cache entry; \<open>row_size\<close> is \<open>size_of::<StoredDerivative>()\<close>.  The saturating
  additions stay below \<open>usize::MAX\<close> for any text in memory, and the result saturates at \<open>u32::MAX\<close>.\<close>

definition manifest_weight :: "nat \<Rightarrow> ManifestKey \<Rightarrow> DerivativeManifest \<Rightarrow> nat" where
  "manifest_weight row_size key manifest =
     min (2 ^ 32 - 1) (128 + length (fst key) +
       sum_list (map (\<lambda>d. length (sd_preset d) + length (sd_variant d) + length (sd_object_key d) +
         length (sd_content_type d) + row_size) manifest))"

section \<open>The service\<close>

definition DerivativeDeliveryService_new :: "DerivativeDeliveryPolicy
    \<Rightarrow> (DerivativeDeliveryError, DerivativeDeliveryPolicy \<times> ManifestCache) result" where
  "DerivativeDeliveryService_new policy =
     (if \<not> delivery_policy_is_valid policy then Err DdInvalidPolicy else Ok (policy, Map.empty))"

definition invalidate_upload :: "string \<Rightarrow> uuid \<Rightarrow> ManifestCache \<Rightarrow> ManifestCache" where
  "invalidate_upload tenant_id upload_id cache = cache((tenant_id, upload_id) := None)"

text \<open>\<open>manifests.get\<close> and \<open>try_get_with\<close>: a hit, or a load whose success is cached.\<close>

definition cached_manifest :: "ManifestKey \<Rightarrow> Database \<Rightarrow> ManifestCache
    \<Rightarrow> (DerivativeDeliveryError, DerivativeManifest) result \<times> ManifestCache" where
  "cached_manifest key db cache =
     (case cache key of
        Some m \<Rightarrow> (Ok m, cache)
      | None \<Rightarrow> (case load_manifest key db of
            Inl e \<Rightarrow> (Err (map_manifest_load_error e), cache)
          | Inr m \<Rightarrow> (Ok m, cache(key \<mapsto> m))))"

text \<open>The signed URL of one manifest entry, once the delivery is allowed.\<close>

definition sign_derivative :: "url_world \<Rightarrow> 'o ObjectStore \<Rightarrow> DerivativeDeliveryPolicy \<Rightarrow> string option
    \<Rightarrow> StoredDerivative option \<Rightarrow> 'o \<Rightarrow> (DerivativeDeliveryError, DerivativeDelivery) result \<times> 'o" where
  "sign_derivative world store policy preset_id found o' =
     (case found of
        None \<Rightarrow> (Err DdNotFound, o')
      | Some d \<Rightarrow>
          if (case preset_id of None \<Rightarrow> False | Some expected \<Rightarrow> sd_preset d \<noteq> expected) then (Err DdNotFound, o')
          else (case presign_get store \<lparr>pg_key = sd_object_key d, pg_expires_in = ddp_signed_url_ttl policy\<rparr> o' of
              (Inl e, o1) \<Rightarrow> (Err (DdObjectStore e), o1)
            | (Inr answer, o1) \<Rightarrow>
                if \<not> trusted_redirect world (pd_url answer) (ddp_redirect_allowed_authorities policy)
                then (Err DdUntrustedRedirect, o1)
                else (Ok \<lparr>dd_preset = sd_preset d, dd_variant = sd_variant d, dd_content_type = sd_content_type d,
                        dd_byte_len = sd_byte_len d, dd_url = pd_url answer, dd_expires_at = pd_expires_at answer\<rparr>, o1)))"

text \<open>\<open>presign_inner\<close> reads the database twice, and other operations may come in between: \<open>db_load\<close> is
  what a manifest load sees, \<open>db_check\<close> what the authorization sees.\<close>

definition presign_inner :: "url_world \<Rightarrow> 'o ObjectStore \<Rightarrow> DerivativeDeliveryPolicy \<Rightarrow> string \<Rightarrow> uuid
    \<Rightarrow> string option \<Rightarrow> string \<Rightarrow> Database \<Rightarrow> Database \<Rightarrow> ManifestCache \<times> 'o
    \<Rightarrow> (DerivativeDeliveryError, DerivativeDelivery) result \<times> ManifestCache \<times> 'o" where
  "presign_inner world store policy tenant_id upload_id preset_id variant db_load db_check s =
     (let key = (tenant_id, upload_id) in
      case s of (cache, o') \<Rightarrow>
      if \<not> valid_tenant tenant_id then (Err DdInvalidTenant, s)
      else if variant \<notin> {''master'', ''thumbnail''} then (Err DdInvalidVariant, s)
      else (case cached_manifest key db_load cache of
          (Inl e, cache1) \<Rightarrow> (Err e, cache1, o')
        | (Inr manifest, cache1) \<Rightarrow>
            (case is_delivery_allowed tenant_id upload_id db_check of
              Inl e \<Rightarrow> (Err (DdRepository e), cache1, o')
            | Inr (Some False) \<Rightarrow> (Err DdNotReady, cache1(key := None), o')
            | Inr None \<Rightarrow> (Err DdNotFound, cache1(key := None), o')
            | Inr (Some True) \<Rightarrow>
                (case sign_derivative world store policy preset_id (manifest_derivative manifest variant) o' of
                  (r, o1) \<Rightarrow> (r, cache1, o1)))))"

definition presign :: "url_world \<Rightarrow> 'o ObjectStore \<Rightarrow> DerivativeDeliveryPolicy \<Rightarrow> string \<Rightarrow> uuid
    \<Rightarrow> string \<Rightarrow> Database \<Rightarrow> Database \<Rightarrow> ManifestCache \<times> 'o
    \<Rightarrow> (DerivativeDeliveryError, DerivativeDelivery) result \<times> ManifestCache \<times> 'o" where
  "presign world store policy tenant_id upload_id variant =
     presign_inner world store policy tenant_id upload_id None variant"

definition presign_exact :: "url_world \<Rightarrow> 'o ObjectStore \<Rightarrow> DerivativeDeliveryPolicy \<Rightarrow> string \<Rightarrow> uuid
    \<Rightarrow> string \<Rightarrow> string \<Rightarrow> Database \<Rightarrow> Database \<Rightarrow> ManifestCache \<times> 'o
    \<Rightarrow> (DerivativeDeliveryError, DerivativeDelivery) result \<times> ManifestCache \<times> 'o" where
  "presign_exact world store policy tenant_id upload_id preset_id variant db_load db_check s =
     (if \<not> valid_preset preset_id then (Err DdInvalidVariant, s)
      else presign_inner world store policy tenant_id upload_id (Some preset_id) variant db_load db_check s)"

section \<open>Delivery next to everything else\<close>

text \<open>
  The manifests some process has loaded, whether cached, in flight or dropped again, beside the
  database.  A step is any operation of the store -- a new reservation takes an identifier no manifest
  was loaded for -- or the load of one more manifest.
\<close>

type_synonym loaded_manifests = "(string \<times> uuid \<times> DerivativeManifest) set"

inductive delivery_step :: "Database \<times> loaded_manifests \<Rightarrow> Database \<times> loaded_manifests \<Rightarrow> bool" where
  other: "store_step db db' \<Longrightarrow>
     \<forall>r\<in>set (uploads db'). up_id r \<notin> up_id ` set (uploads db) \<longrightarrow> up_id r \<notin> (\<lambda>(t, u, m). u) ` K \<Longrightarrow>
     delivery_step (db, K) (db', K)"
| load: "load_manifest (t, u) db = Ok m \<Longrightarrow> delivery_step (db, K) (db, insert (t, u, m) K)"

definition manifest_stored :: "uuid \<Rightarrow> DerivativeManifest \<Rightarrow> Database \<Rightarrow> bool" where
  "manifest_stored u m db \<longleftrightarrow>
     (\<forall>d\<in>set m. \<exists>x\<in>set (derivatives db). drv_upload x = u \<and> stored_derivative_from_row x = Ok d)"

definition loaded_sound :: "Database \<times> loaded_manifests \<Rightarrow> bool" where
  "loaded_sound s \<longleftrightarrow> (case s of (db, K) \<Rightarrow> db_ok db \<and>
     (\<forall>(t, u, m)\<in>K. case lookup_row up_id u (uploads db) of
        None \<Rightarrow> True
      | Some r \<Rightarrow> up_state r \<in> {Ready, Deleted} \<and> (up_state r = Ready \<longrightarrow> manifest_stored u m db)))"

lemma load_manifest_Ok:
  assumes "db_ok db" "load_manifest (t, u) db = Ok m"
  shows "\<exists>r. lookup_row up_id u (uploads db) = Some r \<and> up_state r = Ready" "manifest_stored u m db"
    "list_all (\<lambda>d. sd_byte_len d > 0 \<and> valid_preset (sd_preset d)) m"
proof -
  obtain r where r: "find_upload_row t u db = Some r"
    using assms(2) by (cases "find_upload_row t u db") (auto simp: load_manifest_def find_status_def)
  let ?pending = "up_delete_requested r \<noteq> None \<and> up_state r \<noteq> Deleted"
  obtain ds where ds: "collect_results stored_derivative_from_row (derivative_rows u db) = Ok ds"
    using assms(2) r
    by (cases "collect_results stored_derivative_from_row (derivative_rows u db)")
      (auto simp: load_manifest_def find_status_def Let_def)
  have ready: "up_state r = Ready" "m = ds" "list_all (\<lambda>d. sd_byte_len d > 0 \<and> valid_preset (sd_preset d)) m"
    using assms(2) r ds
    by (auto simp: load_manifest_def find_status_def manifest_from_status_def manifest_entry_ok_def Let_def
        list_all_iff split: if_splits)
  show "\<exists>r. lookup_row up_id u (uploads db) = Some r \<and> up_state r = Ready"
    using find_upload_lookup[OF assms(1) r] ready(1) by blast
  show "manifest_stored u m db"
    unfolding manifest_stored_def
  proof
    fix d assume "d \<in> set m"
    then obtain x where "x \<in> set (derivative_rows u db)" "stored_derivative_from_row x = Ok d"
      using collect_results_member[OF ds] ready(2) by auto
    then show "\<exists>x\<in>set (derivatives db). drv_upload x = u \<and> stored_derivative_from_row x = Ok d"
      by (auto simp: derivative_rows_def)
  qed
  show "list_all (\<lambda>d. sd_byte_len d > 0 \<and> valid_preset (sd_preset d)) m" by (rule ready(3))
qed

lemma reach_from_Ready: "can_transition_to\<^sup>*\<^sup>* s t \<Longrightarrow> s \<in> {Ready, Deleted} \<Longrightarrow> t \<in> {Ready, Deleted}"
  by (induction rule: rtranclp_induct) (auto elim: can_transition_to.elims)

lemma reach_from_Deleted: "can_transition_to\<^sup>*\<^sup>* Deleted t \<Longrightarrow> t = Deleted"
  by (induction rule: rtranclp_induct) (auto elim: can_transition_to.elims)

lemma loaded_sound_step:
  assumes "delivery_step s s'" "loaded_sound s"
  shows "loaded_sound s'"
  using assms
proof (induction rule: delivery_step.induct)
  case (load t u db m K)
  then show ?case using load_manifest_Ok[OF _ load(1)] by (auto simp: loaded_sound_def)
next
  case (other db db' K)
  have db: "db_ok db" using other(3) by (simp add: loaded_sound_def)
  note next_ok = store_step_ok[OF other(1) db]
  have "case lookup_row up_id u (uploads db') of None \<Rightarrow> True
      | Some r' \<Rightarrow> up_state r' \<in> {Ready, Deleted} \<and> (up_state r' = Ready \<longrightarrow> manifest_stored u m db')"
    if K: "(t, u, m) \<in> K" for t u m
  proof (cases "lookup_row up_id u (uploads db')")
    case (Some r')
    note row' = lookup_row_Some[OF Some]
    have "u \<in> up_id ` set (uploads db)" using other(2) row' K by force
    then obtain r where r: "lookup_row up_id u (uploads db) = Some r"
      by (metis lookup_row_None option.exhaust)
    note row = lookup_row_Some[OF r]
    have before: "up_state r \<in> {Ready, Deleted}" "up_state r = Ready \<Longrightarrow> manifest_stored u m db"
      using other(3) K r by (force simp: loaded_sound_def)+
    have moved: "can_transition_to\<^sup>*\<^sup>* (up_state r) (up_state r')"
      using next_ok row Some by (auto simp: follows_lifecycle_def split: option.splits)
    have after: "up_state r' \<in> {Ready, Deleted}" by (rule reach_from_Ready[OF moved before(1)])
    moreover have "manifest_stored u m db'" if ready: "up_state r' = Ready"
    proof -
      have "up_state r = Ready" using before(1) moved ready reach_from_Deleted by force
      then have "manifest_stored u m db" by (rule before(2))
      moreover have "x \<in> set (derivatives db')" if "x \<in> set (derivatives db)" "drv_upload x = u" for x
        by (rule derivatives_kept[OF other(1) db that(1)]) (use that row' in \<open>metis image_eqI\<close>)
      ultimately show ?thesis unfolding manifest_stored_def by blast
    qed
    ultimately show ?thesis using Some by simp
  qed simp
  then show ?case using next_ok by (force simp: loaded_sound_def)
qed

interpretation delivery: guarded_machine delivery_step "(empty_database, {})" loaded_sound
    "\<lambda>s s'. follows_lifecycle (fst s) (fst s') \<and> snd s \<subseteq> snd s'"
proof
  show "loaded_sound (empty_database, {})" by (simp add: loaded_sound_def db_ok_empty)
  show "loaded_sound s \<Longrightarrow> delivery_step s t \<Longrightarrow> loaded_sound t" for s t by (rule loaded_sound_step)
  show "follows_lifecycle (fst s) (fst t) \<and> snd s \<subseteq> snd t" if "loaded_sound s" "delivery_step s t" for s t
    using that(2,1)
    by (cases rule: delivery_step.cases)
      (auto simp: loaded_sound_def store_step_ok intro: follows_lifecycle_same)
qed

abbreviation reachable_delivery :: "Database \<times> loaded_manifests \<Rightarrow> bool" where
  "reachable_delivery \<equiv> delivery_step\<^sup>*\<^sup>* (empty_database, {})"

lemma sign_derivative_Ok:
  assumes "sign_derivative world store policy preset found o' = (Ok delivery, o1)"
  obtains d answer where "found = Some d" "\<forall>p. preset = Some p \<longrightarrow> sd_preset d = p"
    "presign_get store \<lparr>pg_key = sd_object_key d, pg_expires_in = ddp_signed_url_ttl policy\<rparr> o' = (Ok answer, o1)"
    "trusted_redirect world (pd_url answer) (ddp_redirect_allowed_authorities policy)"
    "delivery = \<lparr>dd_preset = sd_preset d, dd_variant = sd_variant d, dd_content_type = sd_content_type d,
       dd_byte_len = sd_byte_len d, dd_url = pd_url answer, dd_expires_at = pd_expires_at answer\<rparr>"
  using assms by (auto simp: sign_derivative_def split: option.splits if_splits prod.splits sum.splits)

lemma presign_inner_Ok:
  assumes "presign_inner world store policy t u preset variant db_load db (cache, o') = (Ok delivery, cache', o1)"
  obtains m where "cache (t, u) = Some m \<or> load_manifest (t, u) db_load = Ok m"
    "is_delivery_allowed t u db = Ok (Some True)" "valid_tenant t" "variant \<in> {''master'', ''thumbnail''}"
    "sign_derivative world store policy preset (manifest_derivative m variant) o' = (Ok delivery, o1)"
  using assms
  by (auto simp: presign_inner_def cached_manifest_def Let_def
      split: if_splits option.splits sum.splits prod.splits bool.splits)

lemma stored_derivative_Ok:
  assumes "stored_derivative_from_row x = Ok d" "derivative_row_ok x"
  shows "sd_preset d = drv_preset x" "sd_variant d = drv_variant x" "sd_object_key d = drv_key x"
    "sd_content_type d = drv_type x" "unat (sd_byte_len d) = drv_len x"
proof -
  have "ObjectKey_new (drv_key x) = Ok (drv_key x)" using assms(2) by (simp add: derivative_row_ok_def ObjectKey_new_valid)
  then show "sd_preset d = drv_preset x" "sd_variant d = drv_variant x" "sd_object_key d = drv_key x"
    "sd_content_type d = drv_type x"
    using assms(1) by (auto simp: stored_derivative_from_row_def)
  show "unat (sd_byte_len d) = drv_len x"
    using assms \<open>ObjectKey_new (drv_key x) = Ok (drv_key x)\<close>
    by (auto simp: stored_derivative_from_row_def derivative_row_ok_def i64_max_def unat_of_nat take_bit_nat_eq_self_iff)
qed

text \<open>A delivery of variant \<open>variant\<close> (and preset, where one is asked for) of upload \<open>u\<close> of tenant \<open>t\<close>
  that the database backs: the upload is ready and not requested for deletion, and the delivered facts
  are those of one of its published rows, for whose key the store gave the URL.\<close>

definition backed_delivery :: "'o ObjectStore \<Rightarrow> DerivativeDeliveryPolicy \<Rightarrow> string \<Rightarrow> uuid \<Rightarrow> string option \<Rightarrow> string
    \<Rightarrow> Database \<Rightarrow> 'o \<Rightarrow> DerivativeDelivery \<Rightarrow> bool" where
  "backed_delivery store policy t u preset variant db o' delivery \<longleftrightarrow>
     (\<exists>r. find_upload_row t u db = Some r \<and> up_state r = Ready \<and> up_delete_requested r = None) \<and>
     (\<exists>x\<in>set (derivatives db). drv_upload x = u \<and> drv_variant x = variant \<and>
        (\<forall>p. preset = Some p \<longrightarrow> drv_preset x = p) \<and>
        dd_content_type delivery = drv_type x \<and> unat (dd_byte_len delivery) = drv_len x \<and>
        map_sum id pd_url (fst (presign_get store
          \<lparr>pg_key = drv_key x, pg_expires_in = ddp_signed_url_ttl policy\<rparr> o')) = Ok (dd_url delivery))"

lemma presign_backed:
  assumes "reachable_delivery (db, K)"
    and "\<forall>m. cache (t, u) = Some m \<longrightarrow> (t, u, m) \<in> K"
    and "\<forall>m. load_manifest (t, u) db_load = Ok m \<longrightarrow> (t, u, m) \<in> K"
    and "presign_inner world store policy t u preset variant db_load db (cache, o') = (Ok delivery, cache', o1)"
  shows "backed_delivery store policy t u preset variant db o' delivery"
    "trusted_redirect world (dd_url delivery) (ddp_redirect_allowed_authorities policy)"
proof -
  have sound: "loaded_sound (db, K)" using delivery.reachable_inv[OF assms(1)] .
  then have db: "db_ok db" by (simp add: loaded_sound_def)
  obtain m where m: "cache (t, u) = Some m \<or> load_manifest (t, u) db_load = Ok m"
      "is_delivery_allowed t u db = Ok (Some True)"
      "sign_derivative world store policy preset (manifest_derivative m variant) o' = (Ok delivery, o1)"
    using assms(4) by (rule presign_inner_Ok)
  obtain r where r: "find_upload_row t u db = Some r" "up_state r = Ready" "up_delete_requested r = None"
    using m(2) by (auto simp: is_delivery_allowed_def)
  have "(t, u, m) \<in> K" using m(1) assms(2,3) by blast
  then have stored: "manifest_stored u m db"
    using sound find_upload_lookup[OF db r(1)] r(2) by (force simp: loaded_sound_def)
  obtain d answer where d: "manifest_derivative m variant = Some d" "\<forall>p. preset = Some p \<longrightarrow> sd_preset d = p"
      "presign_get store \<lparr>pg_key = sd_object_key d, pg_expires_in = ddp_signed_url_ttl policy\<rparr> o' = (Ok answer, o1)"
      "trusted_redirect world (pd_url answer) (ddp_redirect_allowed_authorities policy)"
      "delivery = \<lparr>dd_preset = sd_preset d, dd_variant = sd_variant d, dd_content_type = sd_content_type d,
         dd_byte_len = sd_byte_len d, dd_url = pd_url answer, dd_expires_at = pd_expires_at answer\<rparr>"
    using m(3) by (rule sign_derivative_Ok)
  have "d \<in> set m" "sd_variant d = variant" using d(1) by (auto simp: manifest_derivative_def find_Some_iff)
  then obtain x where x: "x \<in> set (derivatives db)" "drv_upload x = u" "stored_derivative_from_row x = Ok d"
    using stored by (auto simp: manifest_stored_def)
  have "derivative_row_ok x" using db_ok_parts(8)[OF db] x(1) by (simp add: list_all_iff)
  note facts = stored_derivative_Ok[OF x(3) this]
  show "backed_delivery store policy t u preset variant db o' delivery"
    unfolding backed_delivery_def
    using r x(1,2) d(2,3,5) facts \<open>sd_variant d = variant\<close> by (intro conjI exI[of _ r] bexI[of _ x]) simp_all
  show "trusted_redirect world (dd_url delivery) (ddp_redirect_allowed_authorities policy)"
    using d(4,5) by simp
qed

text \<open>
  C16. What is delivered is published.  Whatever the API, the workers and the maintenance runs did, and
  however old the cached manifest is: a delivery is given out only while the upload is the tenant's,
  ready and not requested for deletion; its variant, preset, type and length are those of a published
  row of that upload; and its URL is the store's answer for that row's key and lies on an allowed
  authority.
\<close>

theorem delivered_derivative_is_published:
  assumes "reachable_delivery (db, K)"
    and "\<forall>m. cache (t, u) = Some m \<longrightarrow> (t, u, m) \<in> K"
    and "\<forall>m. load_manifest (t, u) db_load = Ok m \<longrightarrow> (t, u, m) \<in> K"
    and "presign_inner world store policy t u preset variant db_load db (cache, o') = (Ok delivery, cache', o1)"
  shows "backed_delivery store policy t u preset variant db o' delivery \<and>
    trusted_redirect world (dd_url delivery) (ddp_redirect_allowed_authorities policy)"
  using presign_backed[OF assms] by blast

text \<open>A provider that signs every key, and a parser that knows its URLs.\<close>

definition sample_url :: string where
  "sample_url = ''https://private.invalid/signed''"

definition sample_world :: url_world where
  "sample_world = \<lparr>parse_url = (\<lambda>_. Some \<lparr>url_scheme = ''https'', url_username = [], url_password = None,
      url_host = Some ''private.invalid'', url_port = None, url_path = ''/signed'', url_query = None, url_fragment = None\<rparr>)\<rparr>"

definition signing_store :: "unit ObjectStore" where
  "signing_store = \<lparr>presign_put = (\<lambda>_ o'. (Err ObjectNotFound, o')),
     presign_get = (\<lambda>_ o'. (Ok \<lparr>pd_url = sample_url, pd_expires_at = 0\<rparr>, o')),
     create_multipart = (\<lambda>_ o'. (Err ObjectNotFound, o')), store_presign_part = (\<lambda>_ o'. (Err ObjectNotFound, o')),
     store_complete_multipart = (\<lambda>_ o'. (Err ObjectNotFound, o')),
     store_abort_multipart = (\<lambda>_ o'. (Err ObjectNotFound, o')), head_object = (\<lambda>_ o'. (Err ObjectNotFound, o')),
     list_objects = (\<lambda>_ o'. (Err ObjectNotFound, o')), delete_object = (\<lambda>_ o'. (Err ObjectNotFound, o'))\<rparr>"

definition sample_manifest :: DerivativeManifest where
  "sample_manifest = [
     \<lparr>sd_preset = ''p'', sd_variant = ''master'', sd_object_key = ''media/a/1/p/master.jpg'',
      sd_content_type = ''image/jpeg'', sd_byte_len = 500\<rparr>,
     \<lparr>sd_preset = ''p'', sd_variant = ''thumbnail'', sd_object_key = ''media/a/1/p/thumbnail.jpg'',
      sd_content_type = ''image/jpeg'', sd_byte_len = 42\<rparr>]"

lemma sample_manifest_loaded: "load_manifest (''a'', 1) ready_db = Ok sample_manifest"
proof -
  have keys: "ObjectKey_new ''media/a/1/p/master.jpg'' = Ok ''media/a/1/p/master.jpg''"
      "ObjectKey_new ''media/a/1/p/thumbnail.jpg'' = Ok ''media/a/1/p/thumbnail.jpg''"
    using sample_set_valid(2) by (simp_all add: sample_master_def sample_thumbnail_def ObjectKey_new_valid)
  have rows: "derivative_rows 1 ready_db = [derivative_row 1 8 sample_master, derivative_row 1 8 sample_thumbnail]"
    by (simp add: derivative_rows_def ready(3) derivative_row_def sample_master_def sample_thumbnail_def
        less_list_code less_char_def)
  show ?thesis
    by (simp add: load_manifest_def find_status_def find_upload_row_def ready(2) rows row_defs
        stored_derivative_from_row_def derivative_row_def sample_master_def sample_thumbnail_def keys)
      (simp add: manifest_from_status_def manifest_entry_ok_def valid_preset_def token_byte_def byte_tests sample_manifest_def)
qed

lemma reachable_without_loads: "reachable_database db \<Longrightarrow> reachable_delivery (db, {})"
proof (induction rule: rtranclp_induct)
  case (step db db')
  have "delivery_step (db, {}) (db', {})" using step(2) by (rule delivery_step.other) simp
  with step(3) show ?case by (rule rtranclp.rtrancl_into_rtrancl)
qed simp

lemma sample_loaded_reachable: "reachable_delivery (ready_db, {(''a'', 1, sample_manifest)})"
  by (rule rtranclp.rtrancl_into_rtrancl[OF reachable_without_loads[OF reachable_journey(4)]])
    (rule delivery_step.load[OF sample_manifest_loaded])

definition sample_delivery :: DerivativeDelivery where
  "sample_delivery = \<lparr>dd_preset = ''p'', dd_variant = ''thumbnail'', dd_content_type = ''image/jpeg'',
     dd_byte_len = 42, dd_url = sample_url, dd_expires_at = 0\<rparr>"

lemma sample_presigned:
  "presign_inner sample_world signing_store default_delivery_policy ''a'' 1 (Some ''p'') ''thumbnail'' ready_db ready_db
     (Map.empty, ()) = (Ok sample_delivery, [(''a'', 1) \<mapsto> sample_manifest], ())"
proof -
  have "is_delivery_allowed ''a'' 1 ready_db = Ok (Some True)"
    by (simp add: is_delivery_allowed_def find_upload_row_def ready(2) row_defs)
  moreover have "trusted_redirect sample_world sample_url [''private.invalid'']"
    by (simp add: trusted_redirect_def sample_world_def url_authority_def to_ascii_lowercase_def ascii_lower_def byte_tests)
  ultimately show ?thesis
    by (simp add: presign_inner_def cached_manifest_def sample_manifest_loaded sign_derivative_def default_delivery_policy_def
        valid_tenant_def token_byte_def byte_tests)
      (simp add: manifest_derivative_def sample_manifest_def sample_delivery_def signing_store_def)
qed

theorem delivered_derivative_is_published_witness:
  "\<exists>x\<in>set (derivatives ready_db). drv_variant x = ''thumbnail'' \<and> drv_preset x = ''p'' \<and> drv_len x = 42"
proof -
  have "\<forall>m. load_manifest (''a'', 1) ready_db = Ok m \<longrightarrow> (''a'', 1, m) \<in> {(''a'', 1, sample_manifest)}"
    by (simp add: sample_manifest_loaded)
  from delivered_derivative_is_published[OF sample_loaded_reachable _ this sample_presigned]
  show ?thesis by (fastforce simp: sample_delivery_def backed_delivery_def)
qed

end
