(* ===== verification/Admission.thy ===== *)
theory Admission
  imports Prelude
begin

text \<open>
  The admission control in front of both listeners: the token bucket and the concurrency permits of
  \<open>ApiRateLimiter\<close> (\<open>apps/g7mb-api/src/lib.rs\<close>) and of \<open>PublicDeliveryLimiter\<close>
  (\<open>apps/g7mb-api/src/public_delivery.rs\<close>), which have the same arithmetic.  The clock is read twice in
  a call, and both readings are arguments.
\<close>

section \<open>Policies\<close>

record ApiRateLimitPolicy =
  requests_per_second :: u32
  burst :: u32
  max_in_flight :: nat

definition default_api_rate_limit_policy :: ApiRateLimitPolicy where
  "default_api_rate_limit_policy = \<lparr>requests_per_second = 50, burst = 100, max_in_flight = 64\<rparr>"

definition rate_limit_is_valid :: "ApiRateLimitPolicy \<Rightarrow> bool" where
  "rate_limit_is_valid p \<longleftrightarrow>
     requests_per_second p > 0 \<and> requests_per_second p \<le> 10000 \<and>
     burst p \<ge> requests_per_second p \<and> burst p \<le> 100000 \<and>
     max_in_flight p > 0 \<and> max_in_flight p \<le> 1024"

record PublicDeliveryPolicy = ApiRateLimitPolicy +
  token_max_ttl :: duration

definition public_policy_is_valid :: "PublicDeliveryPolicy \<Rightarrow> bool" where
  "public_policy_is_valid p \<longleftrightarrow>
     seconds 30 \<le> token_max_ttl p \<and> token_max_ttl p \<le> seconds (60 * 60) \<and>
     1 \<le> requests_per_second p \<and> requests_per_second p \<le> 10000 \<and>
     burst p \<ge> requests_per_second p \<and> burst p \<le> 100000 \<and>
     1 \<le> max_in_flight p \<and> max_in_flight p \<le> 1024"

section \<open>The token bucket\<close>

record TokenBucket =
  tokens :: nat
  refilled_at :: instant

text \<open>\<open>u64::saturating_add\<close> and its kind: a value and the largest one of its width.\<close>

definition saturate :: "nat \<Rightarrow> nat \<Rightarrow> nat" where
  "saturate bits v = min v (2 ^ bits - 1)"

definition refill_amount :: "u32 \<Rightarrow> instant \<Rightarrow> TokenBucket \<Rightarrow> nat" where
  "refill_amount rate elapsed_reading bucket =
     saturate 128 (nat (elapsed_reading - refilled_at bucket) * unat rate) div 1000000000"

definition refilled :: "('p ApiRateLimitPolicy_scheme) \<Rightarrow> instant \<Rightarrow> instant \<Rightarrow> TokenBucket \<Rightarrow> TokenBucket" where
  "refilled p now elapsed_reading bucket =
     (let refill = refill_amount (requests_per_second p) elapsed_reading bucket in
      if refill > 0
      then \<lparr>tokens = min (saturate 64 (tokens bucket + saturate 64 refill)) (unat (burst p)), refilled_at = now\<rparr>
      else bucket)"

definition admit_token :: "('p ApiRateLimitPolicy_scheme) \<Rightarrow> instant \<Rightarrow> instant \<Rightarrow> TokenBucket \<Rightarrow> bool \<times> TokenBucket" where
  "admit_token p now elapsed_reading bucket =
     (let b = refilled p now elapsed_reading bucket in
      if tokens b = 0 then (False, b) else (True, b\<lparr>tokens := tokens b - 1\<rparr>))"

section \<open>The limiter\<close>

text \<open>\<open>permits\<close> counts the semaphore's free permits.\<close>

record Limiter =
  bucket :: TokenBucket
  permits :: nat

definition new_limiter :: "('p ApiRateLimitPolicy_scheme) \<Rightarrow> instant \<Rightarrow> Limiter" where
  "new_limiter p now = \<lparr>bucket = \<lparr>tokens = unat (burst p), refilled_at = now\<rparr>, permits = max_in_flight p\<rparr>"

datatype AdmissionOutcome = Unlimited | Admitted | RateRejected | ConcurrencyRejected | MethodRejected

definition acquire :: "('p ApiRateLimitPolicy_scheme) \<Rightarrow> instant \<Rightarrow> instant \<Rightarrow> Limiter \<Rightarrow> AdmissionOutcome \<times> Limiter" where
  "acquire p now elapsed_reading l =
     (case admit_token p now elapsed_reading (bucket l) of
        (False, b) \<Rightarrow> (RateRejected, l\<lparr>bucket := b\<rparr>)
      | (True, b) \<Rightarrow>
          if permits l = 0 then (ConcurrencyRejected, l\<lparr>bucket := b\<rparr>)
          else (Admitted, l\<lparr>bucket := b, permits := permits l - 1\<rparr>))"

definition enforce_api_limits :: "ApiRateLimitPolicy \<Rightarrow> string \<Rightarrow> instant \<Rightarrow> instant \<Rightarrow> Limiter \<Rightarrow> AdmissionOutcome \<times> Limiter" where
  "enforce_api_limits p path now elapsed_reading l =
     (if \<not> starts_with ''/v1/'' path then (Unlimited, l) else acquire p now elapsed_reading l)"

definition enforce_public_limits :: "PublicDeliveryPolicy \<Rightarrow> string \<Rightarrow> instant \<Rightarrow> instant \<Rightarrow> Limiter \<Rightarrow> AdmissionOutcome \<times> Limiter" where
  "enforce_public_limits p http_method now elapsed_reading l =
     (if http_method \<noteq> ''GET'' then (MethodRejected, l) else acquire p now elapsed_reading l)"

text \<open>The permit is dropped when the handler is done.\<close>

definition release :: "Limiter \<Rightarrow> Limiter" where
  "release l = l\<lparr>permits := permits l + 1\<rparr>"

section \<open>Runs\<close>

text \<open>What happens at a limiter: a request arrives, with its two clock readings, or a handler ends.\<close>

datatype limiter_event = Arrive instant instant | Finish

text \<open>A run counts the handlers in flight and the requests admitted by the bucket.\<close>

record run_state =
  limiter :: Limiter
  in_flight :: nat
  admitted :: nat

definition run_event :: "('p ApiRateLimitPolicy_scheme) \<Rightarrow> limiter_event \<Rightarrow> run_state \<Rightarrow> run_state" where
  "run_event p e s =
     (case e of
        Arrive now later \<Rightarrow>
          (case acquire p now later (limiter s) of
             (Admitted, l) \<Rightarrow> s\<lparr>limiter := l, in_flight := in_flight s + 1, admitted := admitted s + 1\<rparr>
           | (_, l) \<Rightarrow> s\<lparr>limiter := l\<rparr>)
      | Finish \<Rightarrow>
          if in_flight s = 0 then s
          else s\<lparr>limiter := release (limiter s), in_flight := in_flight s - 1\<rparr>)"

definition limiter_run :: "('p ApiRateLimitPolicy_scheme) \<Rightarrow> instant \<Rightarrow> limiter_event list \<Rightarrow> run_state" where
  "limiter_run p t0 es = fold (run_event p) es \<lparr>limiter = new_limiter p t0, in_flight = 0, admitted = 0\<rparr>"

text \<open>The readings of a run are ordered, and \<open>lag\<close> sums the time between the two of each call.\<close>

fun ordered_from :: "instant \<Rightarrow> limiter_event list \<Rightarrow> bool" where
  "ordered_from t [] = True"
| "ordered_from t (Arrive now later # es) \<longleftrightarrow> t \<le> now \<and> now \<le> later \<and> ordered_from later es"
| "ordered_from t (Finish # es) = ordered_from t es"

fun run_end :: "instant \<Rightarrow> limiter_event list \<Rightarrow> instant" where
  "run_end t [] = t"
| "run_end t (Arrive now later # es) = run_end later es"
| "run_end t (Finish # es) = run_end t es"

fun lag :: "limiter_event list \<Rightarrow> int" where
  "lag [] = 0"
| "lag (Arrive now later # es) = (later - now) + lag es"
| "lag (Finish # es) = lag es"

section \<open>The bucket bounds the rate\<close>

lemma refill_bound:
  assumes "refilled_at b \<le> now" "now \<le> later"
  shows "1000000000 * int (tokens (refilled p now later b)) \<le>
      1000000000 * int (tokens b) + int (unat (requests_per_second p)) *
        (refilled_at (refilled p now later b) - refilled_at b + (later - now))"
    "refilled_at b \<le> refilled_at (refilled p now later b)" "refilled_at (refilled p now later b) \<le> max now (refilled_at b)"
    "tokens b \<le> unat (burst p) \<Longrightarrow> tokens (refilled p now later b) \<le> unat (burst p)"
proof -
  let ?r = "refill_amount (requests_per_second p) later b" and ?rate = "int (unat (requests_per_second p))"
  have elapsed: "0 \<le> later - refilled_at b" using assms by simp
  have "?r * 1000000000 \<le> nat (later - refilled_at b) * unat (requests_per_second p)"
    unfolding refill_amount_def by (rule order.trans[OF div_times_less_eq_dividend]) (simp add: saturate_def)
  then have "int (?r * 1000000000) \<le> int (nat (later - refilled_at b) * unat (requests_per_second p))" by linarith
  then have amount: "1000000000 * int ?r \<le> ?rate * (later - refilled_at b)"
    using elapsed by (simp add: mult.commute)
  have rate: "0 \<le> ?rate" by simp
  show "1000000000 * int (tokens (refilled p now later b)) \<le> 1000000000 * int (tokens b) + ?rate *
      (refilled_at (refilled p now later b) - refilled_at b + (later - now))"
  proof (cases "?r = 0")
    case True
    then show ?thesis using rate assms(2) by (simp add: refilled_def)
  next
    case False
    have "tokens (refilled p now later b) \<le> tokens b + ?r"
      using False by (simp add: refilled_def Let_def saturate_def)
    moreover have "now - refilled_at b + (later - now) = later - refilled_at b" by simp
    moreover have "refilled_at (refilled p now later b) = now" using False by (simp add: refilled_def Let_def)
    ultimately show ?thesis using amount by (simp add: distrib_left[symmetric])
  qed
  show "refilled_at b \<le> refilled_at (refilled p now later b)" "refilled_at (refilled p now later b) \<le> max now (refilled_at b)"
    "tokens b \<le> unat (burst p) \<Longrightarrow> tokens (refilled p now later b) \<le> unat (burst p)"
    using assms by (simp_all add: refilled_def Let_def)
qed

text \<open>What a run has used up, against the tokens it began with and the time since.\<close>

definition within_budget :: "('p ApiRateLimitPolicy_scheme) \<Rightarrow> instant \<Rightarrow> int \<Rightarrow> run_state \<Rightarrow> bool" where
  "within_budget p start lags s \<longleftrightarrow>
     tokens (bucket (limiter s)) \<le> unat (burst p) \<and>
     1000000000 * (int (admitted s) + int (tokens (bucket (limiter s)))) \<le>
       1000000000 * int (unat (burst p)) + int (unat (requests_per_second p)) *
         (refilled_at (bucket (limiter s)) - start + lags) \<and>
     in_flight s + permits (limiter s) = max_in_flight p"

lemma acquire_effect:
  assumes "acquire p now later l = (a, l')"
  defines "b \<equiv> refilled p now later (bucket l)"
  shows "refilled_at (bucket l') = refilled_at b"
    "a = Admitted \<and> tokens (bucket l') + 1 = tokens b \<and> permits l' + 1 = permits l \<or>
     a \<in> {RateRejected, ConcurrencyRejected} \<and> tokens (bucket l') \<le> tokens b \<and> permits l' = permits l"
  using assms by (auto simp: acquire_def admit_token_def Let_def split: if_splits)

lemma budget_arith:
  fixes x y z :: int
  assumes "x + y = z" "1000000000 * (a + t) \<le> c + x" "1000000000 * t' \<le> 1000000000 * t + y"
  shows "1000000000 * (a + t') \<le> c + z"
  using assms by (simp add: distrib_left)

lemma budget_weaken: "(x :: int) \<le> y \<Longrightarrow> 1000000000 * (a + int n) \<le> c + x \<Longrightarrow> 1000000000 * a \<le> c + y"
  by (simp add: distrib_left)

lemma within_budget_arrive:
  assumes "within_budget p start lags s" "refilled_at (bucket (limiter s)) \<le> now" "now \<le> later"
  shows "within_budget p start (lags + (later - now)) (run_event p (Arrive now later) s)"
    "refilled_at (bucket (limiter (run_event p (Arrive now later) s))) \<le> now"
proof -
  obtain a l' where step: "acquire p now later (limiter s) = (a, l')" by fastforce
  note eff = acquire_effect[OF step]
  note refill = refill_bound[OF assms(2,3), of p]
  let ?b = "refilled p now later (bucket (limiter s))" and ?rate = "int (unat (requests_per_second p))"
  let ?at = "refilled_at (bucket (limiter s))"
  have budget: "tokens (bucket (limiter s)) \<le> unat (burst p)"
      "1000000000 * (int (admitted s) + int (tokens (bucket (limiter s)))) \<le>
         1000000000 * int (unat (burst p)) + ?rate * (?at - start + lags)"
      "in_flight s + permits (limiter s) = max_in_flight p"
    using assms(1) by (simp_all add: within_budget_def)
  have "?rate * (?at - start + lags) + ?rate * (refilled_at ?b - ?at + (later - now)) =
      ?rate * (refilled_at ?b - start + (lags + (later - now)))"
    by (simp add: algebra_simps)
  then have total: "1000000000 * (int (admitted s) + int (tokens ?b)) \<le>
      1000000000 * int (unat (burst p)) + ?rate * (refilled_at ?b - start + (lags + (later - now)))"
    using budget(2) refill(1) by (rule budget_arith)
  have run: "limiter (run_event p (Arrive now later) s) = l'"
    "a = Admitted \<Longrightarrow> run_event p (Arrive now later) s =
       s\<lparr>limiter := l', in_flight := in_flight s + 1, admitted := admitted s + 1\<rparr>"
    "a \<noteq> Admitted \<Longrightarrow> run_event p (Arrive now later) s = s\<lparr>limiter := l'\<rparr>"
    by (simp_all add: run_event_def step split: AdmissionOutcome.splits)
  show "refilled_at (bucket (limiter (run_event p (Arrive now later) s))) \<le> now"
    using eff(1) refill(3) assms(2) by (simp add: run(1))
  from eff(2) show "within_budget p start (lags + (later - now)) (run_event p (Arrive now later) s)"
  proof (elim disjE conjE)
    assume "a = Admitted" "tokens (bucket l') + 1 = tokens ?b" "permits l' + 1 = permits (limiter s)"
    then show ?thesis
      using total budget(3) refill(4)[OF budget(1)] unfolding within_budget_def run(2)[OF \<open>a = Admitted\<close>]
      by (simp add: eff(1))
  next
    assume "a \<in> {RateRejected, ConcurrencyRejected}" "tokens (bucket l') \<le> tokens ?b" "permits l' = permits (limiter s)"
    moreover from this have "a \<noteq> Admitted" by auto
    ultimately show ?thesis
      using total budget(3) refill(4)[OF budget(1)] unfolding within_budget_def run(3)[OF \<open>a \<noteq> Admitted\<close>]
      by (simp add: eff(1))
  qed
qed

lemma within_budget_run:
  assumes "within_budget p start lags s" "refilled_at (bucket (limiter s)) \<le> t" "ordered_from t es"
  shows "within_budget p start (lags + lag es) (fold (run_event p) es s) \<and>
    refilled_at (bucket (limiter (fold (run_event p) es s))) \<le> run_end t es"
  using assms
proof (induction es arbitrary: s t lags)
  case (Cons e es)
  show ?case
  proof (cases e)
    case (Arrive now later)
    then have t: "t \<le> now" "now \<le> later" "ordered_from later es" using Cons.prems(3) by simp_all
    have le: "refilled_at (bucket (limiter s)) \<le> now" using Cons.prems(2) t(1) by simp
    note arrived = within_budget_arrive[OF Cons.prems(1) le t(2)]
    have "refilled_at (bucket (limiter (run_event p (Arrive now later) s))) \<le> later" using arrived(2) t(2) by simp
    from Cons.IH[OF arrived(1) this t(3)] show ?thesis by (simp add: Arrive algebra_simps)
  next
    case Finish
    have "within_budget p start lags (run_event p Finish s)"
      using Cons.prems(1) by (auto simp: within_budget_def run_event_def release_def)
    moreover have "refilled_at (bucket (limiter (run_event p Finish s))) \<le> t"
      using Cons.prems(2) by (simp add: run_event_def release_def)
    ultimately show ?thesis using Cons.IH Cons.prems(3) by (simp add: Finish)
  qed
qed simp



end
