(* ===== verification/Public_Delivery.thy ===== *)
theory Public_Delivery
  imports Delivery Auth Admission
begin

text \<open>
  The public thumbnail listener: \<open>apps/g7mb-api/src/public_delivery.rs\<close>.  A request is the decoded path
  parameters with the raw path and query; the UUID parser and printer and the test of a header value
  are arguments.  Metrics and response layers are not modelled.
\<close>

section \<open>Tokens\<close>

record PublicToken =
  pt_expires_at :: int
  pt_signature :: string

definition signature_shape :: "string \<Rightarrow> bool" where
  "signature_shape v \<longleftrightarrow> 43 \<le> length v \<and> length v \<le> 128 \<and> list_all token_byte v"

text \<open>The loop of \<open>parse_token_query\<close> over the pairs, with what it has found so far.\<close>

fun token_pairs :: "int option \<Rightarrow> string option \<Rightarrow> string list \<Rightarrow> (int option \<times> string option) option" where
  "token_pairs expires_at signature [] = Some (expires_at, signature)"
| "token_pairs expires_at signature (pair # pairs) =
     (case split_once (CHR ''='') pair of
        None \<Rightarrow> None
      | Some (key, v) \<Rightarrow>
          if key = ''expires'' \<and> expires_at = None then token_pairs (parse_i64 v) signature pairs
          else if key = ''signature'' \<and> signature = None \<and> signature_shape v
          then token_pairs expires_at (Some v) pairs
          else None)"

definition parse_token_query :: "string option \<Rightarrow> PublicToken option" where
  "parse_token_query query =
     (case query of
        None \<Rightarrow> None
      | Some q \<Rightarrow>
          (case token_pairs None None (split_on (CHR ''&'') q) of
             Some (Some e, Some s) \<Rightarrow> Some \<lparr>pt_expires_at = e, pt_signature = s\<rparr>
           | _ \<Rightarrow> None))"

section \<open>The listener\<close>

datatype PublicDeliveryFailure = PInvalidSignature | PNotFound | PUnavailable

definition public_failure :: "DerivativeDeliveryError \<Rightarrow> PublicDeliveryFailure" where
  "public_failure e =
     (case e of
        DdNotFound \<Rightarrow> PNotFound | DdNotReady \<Rightarrow> PNotFound | DdInvalidTenant \<Rightarrow> PNotFound | DdInvalidVariant \<Rightarrow> PNotFound
      | DdInvalidPolicy \<Rightarrow> PUnavailable | DdRepository _ \<Rightarrow> PUnavailable | DdObjectStore _ \<Rightarrow> PUnavailable
      | DdUntrustedRedirect \<Rightarrow> PUnavailable)"

datatype PublicResponse = Redirect string | NotFoundResponse | UnavailableResponse

text \<open>\<open>valid_identifier\<close> is \<open>bounded_token\<close> with its arguments swapped.\<close>

definition valid_identifier :: "string \<Rightarrow> nat \<Rightarrow> bool" where
  "valid_identifier v max_len = bounded_token max_len v"

record PublicDeliveryState =
  pds_tenant_id :: string
  pds_delivery :: DerivativeDeliveryPolicy
  pds_signing_secret :: string
  pds_policy :: PublicDeliveryPolicy

definition PublicDeliveryState_new :: "string \<Rightarrow> DerivativeDeliveryPolicy \<Rightarrow> string \<Rightarrow> PublicDeliveryPolicy
    \<Rightarrow> PublicDeliveryState option" where
  "PublicDeliveryState_new tenant_id delivery signing_secret policy =
     (if \<not> valid_identifier tenant_id 64 \<or> \<not> secret_ok signing_secret \<or> \<not> public_policy_is_valid policy then None
      else Some \<lparr>pds_tenant_id = tenant_id, pds_delivery = delivery, pds_signing_secret = signing_secret,
             pds_policy = policy\<rparr>)"

record uuid_codec =
  parse_uuid :: "string \<Rightarrow> uuid option"
  show_uuid :: "uuid \<Rightarrow> string"

record public_request =
  pr_tenant_id :: string
  pr_upload_id :: string
  pr_preset_id :: string
  pr_file :: string
  pr_uri_path :: string
  pr_uri_query :: "string option"

definition canonical_path :: "uuid_codec \<Rightarrow> string \<Rightarrow> uuid \<Rightarrow> string \<Rightarrow> string" where
  "canonical_path codec tenant_id upload_id preset_id =
     ''/media/v1/'' @ tenant_id @ ''/'' @ show_uuid codec upload_id @ ''/'' @ preset_id @ ''/thumbnail.jpg''"

text \<open>The part of the handler before the delivery service: the upload a valid request names.\<close>

definition authorize_public :: "uuid_codec \<Rightarrow> crypto \<Rightarrow> PublicDeliveryState \<Rightarrow> public_request \<Rightarrow> int
    \<Rightarrow> (PublicDeliveryFailure, uuid) result" where
  "authorize_public codec c state req now =
     (if pr_tenant_id req \<noteq> pds_tenant_id state \<or> \<not> valid_identifier (pr_tenant_id req) 64 \<or>
         \<not> valid_identifier (pr_preset_id req) 128 \<or> pr_file req \<noteq> ''thumbnail.jpg''
      then Err PNotFound
      else (case parse_uuid codec (pr_upload_id req) of
          None \<Rightarrow> Err PNotFound
        | Some upload_id \<Rightarrow>
            let path = canonical_path codec (pr_tenant_id req) upload_id (pr_preset_id req) in
            if pr_uri_path req \<noteq> path then Err PNotFound
            else (case parse_token_query (pr_uri_query req) of
                None \<Rightarrow> Err PInvalidSignature
              | Some token \<Rightarrow>
                  (case verify_media_url c \<lparr>smu_path = path, smu_expires_at = pt_expires_at token,
                         smu_signature = pt_signature token\<rparr> (pds_signing_secret state) now
                         (as_secs (token_max_ttl (pds_policy state))) of
                     Inl _ \<Rightarrow> Err PInvalidSignature
                   | Inr _ \<Rightarrow> Ok upload_id))))"

definition public_location :: "(string \<Rightarrow> bool) \<Rightarrow> DerivativeDelivery \<Rightarrow> (PublicDeliveryFailure, string) result" where
  "public_location header_value_ok delivery =
     (if dd_content_type delivery \<noteq> ''image/jpeg'' then Err PNotFound
      else if \<not> header_value_ok (dd_url delivery) then Err PUnavailable
      else Ok (dd_url delivery))"

definition public_response :: "(PublicDeliveryFailure, string) result \<Rightarrow> PublicResponse" where
  "public_response r =
     (case r of
        Inr location \<Rightarrow> Redirect location
      | Inl PInvalidSignature \<Rightarrow> NotFoundResponse
      | Inl PNotFound \<Rightarrow> NotFoundResponse
      | Inl PUnavailable \<Rightarrow> UnavailableResponse)"

definition deliver_public_thumbnail :: "uuid_codec \<Rightarrow> crypto \<Rightarrow> (string \<Rightarrow> bool) \<Rightarrow> url_world \<Rightarrow> 'o ObjectStore
    \<Rightarrow> PublicDeliveryState \<Rightarrow> public_request \<Rightarrow> int \<Rightarrow> Database \<Rightarrow> Database \<Rightarrow> ManifestCache \<times> 'o
    \<Rightarrow> PublicResponse \<times> ManifestCache \<times> 'o" where
  "deliver_public_thumbnail codec c header_value_ok world store state req now db_load db_check s =
     (case authorize_public codec c state req now of
        Inl e \<Rightarrow> (public_response (Err e), s)
      | Inr upload_id \<Rightarrow>
          (case presign_exact world store (pds_delivery state) (pr_tenant_id req) upload_id (pr_preset_id req)
                 ''thumbnail'' db_load db_check s of
             (Inl e, s1) \<Rightarrow> (public_response (Err (public_failure e)), s1)
           | (Inr delivery, s1) \<Rightarrow> (public_response (public_location header_value_ok delivery), s1)))"

section \<open>Every redirect is signed and backed\<close>

lemma authorize_public_Ok:
  assumes "authorize_public codec c state req now = Ok u"
  obtains token where "parse_token_query (pr_uri_query req) = Some token"
    "parse_uuid codec (pr_upload_id req) = Some u" "pr_tenant_id req = pds_tenant_id state"
    "pr_uri_path req = canonical_path codec (pr_tenant_id req) u (pr_preset_id req)"
    "verify_media_url c \<lparr>smu_path = pr_uri_path req, smu_expires_at = pt_expires_at token, smu_signature = pt_signature token\<rparr>
       (pds_signing_secret state) now (as_secs (token_max_ttl (pds_policy state))) = Ok ()"
  using assms
  by (auto simp: authorize_public_def Let_def split: if_splits option.splits sum.splits)

lemma public_redirect_cases:
  assumes "deliver_public_thumbnail codec c header_value_ok world store state req now db_load db (cache, o')
      = (Redirect location, cache', o1)"
  obtains u delivery where "authorize_public codec c state req now = Ok u"
    "presign_inner world store (pds_delivery state) (pr_tenant_id req) u (Some (pr_preset_id req)) ''thumbnail''
       db_load db (cache, o') = (Ok delivery, cache', o1)"
    "dd_content_type delivery = ''image/jpeg''" "location = dd_url delivery" "header_value_ok location"
  using assms
  by (auto simp: deliver_public_thumbnail_def presign_exact_def public_response_def public_location_def
      split: sum.splits prod.splits if_splits PublicDeliveryFailure.splits)

text \<open>
  C18. A redirect of the public listener is always earned: the raw path is the canonical path of the
  requested thumbnail, the token is an unexpired signature of that path with the listener's secret and
  a lifetime within the policy, the thumbnail is a published JPEG of a ready upload of the listener's
  tenant that nobody asked to delete, and the target lies on an allowed authority of the provider.
\<close>

theorem public_redirect_is_earned:
  assumes "reachable_delivery (db, K)"
    and "\<forall>u m. cache (pr_tenant_id req, u) = Some m \<or> load_manifest (pr_tenant_id req, u) db_load = Ok m
      \<longrightarrow> (pr_tenant_id req, u, m) \<in> K"
    and "deliver_public_thumbnail codec c header_value_ok world store state req now db_load db (cache, o')
      = (Redirect location, cache', o1)"
  shows "\<exists>u token delivery. parse_uuid codec (pr_upload_id req) = Some u \<and> pr_tenant_id req = pds_tenant_id state \<and>
    pr_uri_path req = canonical_path codec (pds_tenant_id state) u (pr_preset_id req) \<and>
    parse_token_query (pr_uri_query req) = Some token \<and> now \<le> pt_expires_at token \<and>
    pt_expires_at token \<le> now + int (as_secs (token_max_ttl (pds_policy state))) \<and>
    b64_decode c (pt_signature token) = Some (hmac c (pds_signing_secret state) (media_payload
      \<lparr>smu_path = pr_uri_path req, smu_expires_at = pt_expires_at token, smu_signature = pt_signature token\<rparr>)) \<and>
    backed_delivery store (pds_delivery state) (pds_tenant_id state) u (Some (pr_preset_id req)) ''thumbnail'' db o' delivery \<and>
    dd_content_type delivery = ''image/jpeg'' \<and> location = dd_url delivery \<and>
    trusted_redirect world location (ddp_redirect_allowed_authorities (pds_delivery state))"
proof -
  obtain u delivery where p: "authorize_public codec c state req now = Ok u"
      "presign_inner world store (pds_delivery state) (pr_tenant_id req) u (Some (pr_preset_id req)) ''thumbnail''
         db_load db (cache, o') = (Ok delivery, cache', o1)"
      "dd_content_type delivery = ''image/jpeg''" "location = dd_url delivery"
    using assms(3) by (rule public_redirect_cases)
  obtain token where token: "parse_token_query (pr_uri_query req) = Some token"
      "parse_uuid codec (pr_upload_id req) = Some u" "pr_tenant_id req = pds_tenant_id state"
      "pr_uri_path req = canonical_path codec (pr_tenant_id req) u (pr_preset_id req)"
      "verify_media_url c \<lparr>smu_path = pr_uri_path req, smu_expires_at = pt_expires_at token, smu_signature = pt_signature token\<rparr>
         (pds_signing_secret state) now (as_secs (token_max_ttl (pds_policy state))) = Ok ()"
    using p(1) by (rule authorize_public_Ok)
  have "\<forall>m. cache (pr_tenant_id req, u) = Some m \<longrightarrow> (pr_tenant_id req, u, m) \<in> K"
    "\<forall>m. load_manifest (pr_tenant_id req, u) db_load = Ok m \<longrightarrow> (pr_tenant_id req, u, m) \<in> K"
    using assms(2) by blast+
  note backed = presign_backed[OF assms(1) this p(2)]
  show ?thesis
    using token(1-4) token(5)[unfolded verify_media_accepts] backed p(3,4)
    by (intro exI[of _ u] exI[of _ token] exI[of _ delivery]) auto
qed

text \<open>A signed request for the thumbnail of the ready upload.\<close>

definition sample_signature :: string where
  "sample_signature = replicate 43 (CHR ''A'')"

definition constant_crypto :: crypto where
  "constant_crypto = \<lparr>hmac = (\<lambda>_ _. sample_signature), b64_encode = (\<lambda>v. v), b64_decode = Some, sha256_hex = (\<lambda>v. v)\<rparr>"

definition sample_codec :: uuid_codec where
  "sample_codec = \<lparr>parse_uuid = (\<lambda>v. if v = ''1'' then Some 1 else None), show_uuid = (\<lambda>_. ''1'')\<rparr>"

definition sample_public_state :: PublicDeliveryState where
  "sample_public_state = \<lparr>pds_tenant_id = ''a'', pds_delivery = default_delivery_policy, pds_signing_secret = sample_secret,
     pds_policy = \<lparr>requests_per_second = 1, burst = 1, max_in_flight = 1, token_max_ttl = seconds 60\<rparr>\<rparr>"

definition sample_public_request :: public_request where
  "sample_public_request = \<lparr>pr_tenant_id = ''a'', pr_upload_id = ''1'', pr_preset_id = ''p'', pr_file = ''thumbnail.jpg'',
     pr_uri_path = ''/media/v1/a/1/p/thumbnail.jpg'',
     pr_uri_query = Some (''expires=100'' @ CHR ''&'' # ''signature='' @ sample_signature)\<rparr>"

lemma sample_token:
  "parse_token_query (pr_uri_query sample_public_request) = Some \<lparr>pt_expires_at = 100, pt_signature = sample_signature\<rparr>"
proof -
  have sep: "CHR ''&'' \<notin> set ''expires=100''" "CHR ''&'' \<notin> set (''signature='' @ sample_signature)"
    by (simp_all add: sample_signature_def)
  have "split_on (CHR ''&'') (''expires=100'' @ CHR ''&'' # ''signature='' @ sample_signature) =
      [''expires=100'', ''signature='' @ sample_signature]"
    by (simp only: split_on_append[OF sep(1)] split_on_no_sep[OF sep(2)])
  moreover have "signature_shape sample_signature"
    by (simp add: signature_shape_def sample_signature_def token_byte_def byte_tests list_all_iff set_replicate_conv_if)
  moreover have "parse_i64 ''100'' = Some 100"
    by (simp add: parse_i64_def parse_digits_def byte_tests decimal_value_def digit_def)
  ultimately show ?thesis
    by (simp add: parse_token_query_def sample_public_request_def split_once_def)
qed

lemma sample_public_authorized: "authorize_public sample_codec constant_crypto sample_public_state sample_public_request 90 = Ok 1"
proof -
  have ids: "bounded_token 64 ''a''" "bounded_token 128 ''p''" by (simp_all add: bounded_token_def token_byte_def byte_tests)
  have "verify_media_url constant_crypto \<lparr>smu_path = ''/media/v1/a/1/p/thumbnail.jpg'', smu_expires_at = 100,
      smu_signature = sample_signature\<rparr> sample_secret 90 60 = Ok ()"
    unfolding verify_media_accepts using sample_request_valid(2)
    by (simp add: constant_crypto_def validate_media_url_fields_def starts_with_def is_ascii_graphic_def byte_of_def)
  then show ?thesis
    using ids sample_token
    by (simp add: authorize_public_def valid_identifier_def canonical_path_def sample_public_state_def sample_public_request_def
        sample_codec_def)
qed

theorem public_redirect_is_earned_witness:
  "\<exists>token. parse_token_query (pr_uri_query sample_public_request) = Some token \<and> 90 \<le> pt_expires_at token \<and>
    pt_expires_at token \<le> 150 \<and> trusted_redirect sample_world sample_url [''private.invalid'']"
proof -
  have loaded: "\<forall>u m. Map.empty (''a'', u) = Some m \<or> load_manifest (''a'', u) ready_db = Ok m \<longrightarrow>
      (''a'', u, m) \<in> {(''a'', 1, sample_manifest)}"
  proof (intro allI impI)
    fix u m assume "Map.empty (''a'', u) = Some m \<or> load_manifest (''a'', u) ready_db = Ok m"
    then have load: "load_manifest (''a'', u) ready_db = Ok m" by simp
    then have "u = 1"
      using load_manifest_Ok(1)[OF store.reachable_inv[OF reachable_journey(4)] load]
      by (auto simp: ready(2) row_defs lookup_row_def split: if_splits)
    then show "(''a'', u, m) \<in> {(''a'', 1, sample_manifest)}" using load sample_manifest_loaded by simp
  qed
  have "deliver_public_thumbnail sample_codec constant_crypto (\<lambda>_. True) sample_world signing_store sample_public_state
      sample_public_request 90 ready_db ready_db (Map.empty, ()) =
      (Redirect sample_url, [(''a'', 1) \<mapsto> sample_manifest], ())"
    using sample_presigned sample_public_authorized
    by (simp add: deliver_public_thumbnail_def presign_exact_def valid_preset_def token_byte_def byte_tests
        sample_public_state_def sample_public_request_def public_response_def public_location_def sample_delivery_def)
  from public_redirect_is_earned[OF sample_loaded_reachable _ this] loaded
  show ?thesis
    by (auto simp: sample_public_request_def sample_public_state_def default_delivery_policy_def)
qed

end
