(* ===== verification/Contracts.thy ===== *)
theory Contracts
  imports Database
begin

text \<open>
  The data transfer objects of \<open>crates/g7mb-contracts/src/lib.rs\<close>, as records with the source's fields,
  and the capability test the API runs before it serves them.  Their JSON form is that of \<open>serde\<close>.
\<close>

record HealthResponse =
  hr_status :: string
  hr_version :: string

definition HealthResponse_new :: "string \<Rightarrow> string \<Rightarrow> HealthResponse" where
  "HealthResponse_new status version = \<lparr>hr_status = status, hr_version = version\<rparr>"

record ErrorResponse =
  er_code :: string
  er_message :: string
  er_request_id :: string

record CapabilitiesResponse =
  cr_image_inputs :: "string list"
  cr_image_outputs :: "string list"
  cr_video_inputs :: "string list"
  cr_mp4_thumbnail :: bool
  cr_mp4_h264_fallback :: bool
  cr_native_versions :: "string \<rightharpoonup> string"

definition satisfies_v1 :: "CapabilitiesResponse \<Rightarrow> bool" where
  "satisfies_v1 c \<longleftrightarrow>
     list_all (\<lambda>r. r \<in> set (cr_image_inputs c)) [''jpeg'', ''png'', ''gif'', ''webp'', ''avif'', ''heif''] \<and>
     list_all (\<lambda>r. r \<in> set (cr_image_outputs c)) [''jpeg'', ''webp'', ''avif'', ''png''] \<and>
     list_all (\<lambda>r. r \<in> set (cr_video_inputs c)) [''mp4'', ''mov''] \<and>
     cr_mp4_thumbnail c \<and> cr_mp4_h264_fallback c \<and>
     list_all (\<lambda>tool. case cr_native_versions c tool of None \<Rightarrow> False | Some v \<Rightarrow> v \<noteq> [])
       [''vips'', ''ffmpeg'', ''ffprobe'']"

section \<open>Site policies\<close>

datatype SitePolicyWatermarkPosition = PosCenter | PosTopLeft | PosTopRight | PosBottomLeft | PosBottomRight

record SitePolicyWatermarkRequest =
  swr_asset_upload_id :: uuid
  swr_position :: SitePolicyWatermarkPosition
  swr_margin_px :: u32
  swr_max_width_percent :: u8
  swr_opacity_percent :: u8

record PublishSitePolicyRequest =
  psr_schema_version :: u16
  psr_revision :: u64
  psr_issued_at :: int
  psr_watermark :: "SitePolicyWatermarkRequest option"

record SitePolicyWatermarkResponse =
  swo_asset_upload_id :: uuid
  swo_asset_sha256 :: string
  swo_position :: SitePolicyWatermarkPosition
  swo_margin_px :: u32
  swo_max_width_percent :: u8
  swo_opacity_percent :: u8

record SitePolicySnapshotResponse =
  spr_schema_version :: u16
  spr_revision :: u64
  spr_issued_at :: int
  spr_settings_sha256 :: string
  spr_watermark :: "SitePolicyWatermarkResponse option"

section \<open>Uploads\<close>

datatype UploadKind = KindImage | KindVideo

record UploadFileIntentRequest =
  ufr_client_ref :: string
  ufr_declared_kind :: UploadKind
  ufr_content_length :: u64
  ufr_content_type_hint :: string

record CreateUploadBatchRequest =
  cubr_files :: "UploadFileIntentRequest list"

datatype UploadMethod = MethodSinglePut | MethodMultipart

record UploadIntentResponse =
  uir_client_ref :: string
  uir_upload_id :: uuid
  uir_method :: UploadMethod
  uir_part_size_bytes :: "u64 option"
  uir_upload_url :: "string option"
  uir_required_headers :: "(string \<times> string) list"
  uir_expires_at :: instant

record CreateUploadBatchResponse =
  cubs_batch_id :: uuid
  cubs_uploads :: "UploadIntentResponse list"

record PresignUploadPartRequest =
  pupr_content_length :: u64

record PresignUploadPartResponse =
  pups_part_number :: u16
  pups_upload_url :: string
  pups_required_headers :: "(string \<times> string) list"
  pups_expires_at :: instant

record CompletedUploadPart =
  cupt_part_number :: u16
  cupt_etag :: string

record CompleteMultipartUploadRequest =
  cmur_parts :: "CompletedUploadPart list"

datatype UploadStatusValue =
    StatusCreated | StatusUploaded | StatusQuarantined | StatusProcessing | StatusReady | StatusRejected
  | StatusFailed | StatusDeleted

record UploadDerivativeResponse =
  udr_preset_id :: string
  udr_variant :: string
  udr_url_path :: string
  udr_content_type :: string
  udr_byte_len :: u64

record DerivativeDeliveryResponse =
  ddr_upload_id :: uuid
  ddr_preset_id :: string
  ddr_variant :: string
  ddr_delivery_url :: string
  ddr_expires_at :: instant
  ddr_content_type :: string
  ddr_byte_len :: u64

record UploadStatusResponse =
  usr_upload_id :: uuid
  usr_state :: UploadStatusValue
  usr_detected_content_type :: "string option"
  usr_error_code :: "string option"
  usr_deletion_pending :: bool
  usr_derivatives :: "UploadDerivativeResponse list"

end
