(* ===== verification/Api.thy ===== *)
theory Api
  imports Uploads Lifecycle Site_Policy Delivery Public_Delivery Contracts
begin

text \<open>
  The control plane: the request authentication, the failures and the \<open>/v1\<close> handlers of
  \<open>apps/g7mb-api/src/lib.rs\<close>, composed of the services of the other theories.  A handler is a function
  from the request and the world -- object stores, manifest cache, database -- to the response and the
  world after it.  Header and JSON decoding, UUIDs and the cryptography are arguments; the clock
  readings and generated identifiers of a request are an argument too.  Routing layers, metrics and
  tracing are not modelled.
\<close>

section \<open>State\<close>

record ApiAuth =
  aa_key_id :: string
  aa_tenant_id :: string
  aa_secret :: string
  aa_allowed_skew_seconds :: int

record 'o UploadService =
  us_store :: "'o ObjectStore"
  us_policy :: UploadBatchPolicy
  us_capacity :: UploadCapacityPolicy

record 'o DeliveryService =
  ds_store :: "'o ObjectStore"
  ds_policy :: DerivativeDeliveryPolicy

text \<open>A service that was not installed is \<open>None\<close> (or \<open>False\<close>, when it has no settings of its own).\<close>

record 'o ApiState =
  st_ready :: bool
  st_upload_service :: "'o UploadService option"
  st_nonce_store :: bool
  st_auth :: "ApiAuth option"
  st_policy_service :: "u64 option"
  st_capabilities :: "CapabilitiesResponse option"
  st_lifecycle_service :: bool
  st_delivery_service :: "'o DeliveryService option"

definition ApiState_new :: "bool \<Rightarrow> 'o ApiState" where
  "ApiState_new is_ready =
     \<lparr>st_ready = is_ready, st_upload_service = None, st_nonce_store = False, st_auth = None, st_policy_service = None,
      st_capabilities = None, st_lifecycle_service = False, st_delivery_service = None\<rparr>"

definition with_upload_control :: "'o UploadService \<Rightarrow> ApiAuth \<Rightarrow> 'o ApiState \<Rightarrow> 'o ApiState" where
  "with_upload_control service auth st =
     st\<lparr>st_upload_service := Some service, st_nonce_store := True, st_auth := Some auth\<rparr>"

record 'o api_world =
  aw_objects :: 'o
  aw_cache :: ManifestCache
  aw_db :: Database

text \<open>What the handlers use of other crates.\<close>

record outside =
  out_crypto :: crypto
  out_uuid :: uuid_codec
  out_url :: url_world
  header_to_str :: "string \<Rightarrow> string option"
  json_batch :: "string \<Rightarrow> CreateUploadBatchRequest option"
  json_part :: "string \<Rightarrow> PresignUploadPartRequest option"
  json_complete :: "string \<Rightarrow> CompleteMultipartUploadRequest option"
  json_policy :: "string \<Rightarrow> PublishSitePolicyRequest option"
  representable :: "int \<Rightarrow> bool"

text \<open>One request: headers by lower-case name, path parameters decoded by the router, and the clock
  readings and fresh identifiers its handling consumes.\<close>

record api_request =
  rq_headers :: "string \<rightharpoonup> string"
  rq_body :: string
  rq_path_and_query :: string
  rq_upload_id :: string
  rq_part_number :: u16
  rq_variant :: string
  rq_verify_clock :: instant
  rq_nonce_clock :: instant
  rq_service_clock :: instant
  rq_store_clock :: instant
  rq_batch_id :: uuid
  rq_fresh :: "nat \<Rightarrow> uuid"
  rq_generated_id :: string

section \<open>Failures\<close>

record ApiFailure =
  af_status :: nat
  af_code :: string
  af_message :: string

definition not_ready :: ApiFailure where
  "not_ready = \<lparr>af_status = 503, af_code = ''UPLOAD_CONTROL_NOT_READY'', af_message = ''Upload control is not ready.''\<rparr>"

definition invalid_auth_field :: ApiFailure where
  "invalid_auth_field = \<lparr>af_status = 400, af_code = ''INVALID_AUTH_FIELD'', af_message = ''A signing header is malformed.''\<rparr>"

definition unauthorized :: ApiFailure where
  "unauthorized = \<lparr>af_status = 401, af_code = ''AUTHENTICATION_FAILED'', af_message = ''Request authentication failed.''\<rparr>"

definition invalid_json :: ApiFailure where
  "invalid_json = \<lparr>af_status = 400, af_code = ''INVALID_JSON'', af_message = ''Request JSON is invalid.''\<rparr>"

definition invalid_path :: ApiFailure where
  "invalid_path = \<lparr>af_status = 400, af_code = ''INVALID_PATH'', af_message = ''A path parameter is malformed.''\<rparr>"

definition site_policy_not_found :: ApiFailure where
  "site_policy_not_found = \<lparr>af_status = 404, af_code = ''SITE_POLICY_NOT_FOUND'',
     af_message = ''No site policy has been published.''\<rparr>"

definition from_nonce :: "NonceStoreError \<Rightarrow> ApiFailure" where
  "from_nonce e = (case e of
     Replay \<Rightarrow> \<lparr>af_status = 409, af_code = ''NONCE_REPLAY'', af_message = ''Request nonce was already used.''\<rparr>
   | NonceBackend _ \<Rightarrow> not_ready)"

definition from_batch :: "CreateUploadBatchError \<Rightarrow> ApiFailure" where
  "from_batch e = (case e of
     CInvalidTenant \<Rightarrow> not_ready
   | GeneratedObjectKey \<Rightarrow> not_ready
   | Backpressure \<Rightarrow> \<lparr>af_status = 429, af_code = ''UPLOAD_CAPACITY_EXHAUSTED'',
       af_message = ''Active upload capacity is exhausted. Retry later.''\<rparr>
   | CObjectStore _ \<Rightarrow> not_ready
   | CRepository _ \<Rightarrow> not_ready
   | CleanupRequired \<Rightarrow> not_ready
   | _ \<Rightarrow> \<lparr>af_status = 422, af_code = ''UPLOAD_POLICY_REJECTED'', af_message = ''Upload batch violates server policy.''\<rparr>)"

definition from_site_policy :: "PublishSitePolicyError \<Rightarrow> ApiFailure" where
  "from_site_policy e = (case e of
     Site_Policy.PInvalidTenant \<Rightarrow> not_ready
   | PRepository \<Rightarrow> not_ready
   | InvalidPolicy \<Rightarrow> \<lparr>af_status = 422, af_code = ''SITE_POLICY_REJECTED'',
       af_message = ''Site policy violates server hard limits.''\<rparr>
   | AssetNotFound \<Rightarrow> \<lparr>af_status = 404, af_code = ''POLICY_ASSET_NOT_FOUND'',
       af_message = ''Selected watermark upload was not found.''\<rparr>
   | AssetRejected \<Rightarrow> \<lparr>af_status = 422, af_code = ''POLICY_ASSET_REJECTED'',
       af_message = ''Selected watermark upload is not a validated supported image.''\<rparr>
   | PRevisionConflict \<Rightarrow> \<lparr>af_status = 409, af_code = ''SITE_POLICY_REVISION_CONFLICT'',
       af_message = ''Site policy revision conflicts with durable state.''\<rparr>)"

definition upload_not_found :: ApiFailure where
  "upload_not_found = \<lparr>af_status = 404, af_code = ''UPLOAD_NOT_FOUND'', af_message = ''Upload reservation was not found.''\<rparr>"

definition from_multipart :: "MultipartControlError \<Rightarrow> ApiFailure" where
  "from_multipart e = (case e of
     InvalidTenant \<Rightarrow> not_ready
   | NotFound \<Rightarrow> upload_not_found
   | InvalidState \<Rightarrow> \<lparr>af_status = 409, af_code = ''UPLOAD_STATE_CONFLICT'',
       af_message = ''Upload is not in the required state.''\<rparr>
   | StoredSizeMismatch \<Rightarrow> \<lparr>af_status = 409, af_code = ''STORED_SIZE_MISMATCH'',
       af_message = ''Stored object size does not match the reservation.''\<rparr>
   | MObjectStore _ \<Rightarrow> not_ready
   | MRepository _ \<Rightarrow> not_ready
   | _ \<Rightarrow> \<lparr>af_status = 422, af_code = ''MULTIPART_LAYOUT_REJECTED'',
       af_message = ''Multipart data does not match the reserved layout.''\<rparr>)"

definition from_delivery :: "DerivativeDeliveryError \<Rightarrow> ApiFailure" where
  "from_delivery e = (case e of
     DdInvalidVariant \<Rightarrow> invalid_path
   | DdNotFound \<Rightarrow> \<lparr>af_status = 404, af_code = ''DERIVATIVE_NOT_FOUND'',
       af_message = ''Requested derivative was not found.''\<rparr>
   | DdNotReady \<Rightarrow> \<lparr>af_status = 409, af_code = ''DERIVATIVE_NOT_READY'',
       af_message = ''Requested derivative is not deliverable.''\<rparr>
   | _ \<Rightarrow> not_ready)"

definition from_deletion :: "DeletionRequestError \<Rightarrow> ApiFailure" where
  "from_deletion e = (case e of
     DInvalidTenant \<Rightarrow> not_ready
   | DBackend _ \<Rightarrow> not_ready
   | DNotFound \<Rightarrow> upload_not_found
   | StateConflict \<Rightarrow> \<lparr>af_status = 409, af_code = ''UPLOAD_DELETE_STATE_CONFLICT'',
       af_message = ''Upload cannot be deleted while processing is active.''\<rparr>
   | ReferencedByPolicy \<Rightarrow> \<lparr>af_status = 409, af_code = ''UPLOAD_REFERENCED_BY_POLICY'',
       af_message = ''Upload is pinned by a site policy revision.''\<rparr>)"

section \<open>Authentication\<close>

definition required_header :: "outside \<Rightarrow> (string \<rightharpoonup> string) \<Rightarrow> string \<Rightarrow> (ApiFailure, string) result" where
  "required_header out headers name =
     (case headers name of
        None \<Rightarrow> Err invalid_auth_field
      | Some raw \<Rightarrow> (case header_to_str out raw of None \<Rightarrow> Err invalid_auth_field | Some v \<Rightarrow> Ok v))"

text \<open>The checks before the nonce is consumed: the key and nonce of an authentic request.\<close>

definition check_signature :: "outside \<Rightarrow> ApiAuth \<Rightarrow> api_request \<Rightarrow> string \<Rightarrow> string \<Rightarrow> string
    \<Rightarrow> (ApiFailure, SignedRequest) result" where
  "check_signature out auth rq body http_method path =
     and_then (required_header out (rq_headers rq) ''x-g7mb-key-id'') (\<lambda>key_id.
     if key_id \<noteq> aa_key_id auth then Err unauthorized
     else
     and_then (required_header out (rq_headers rq) ''x-g7mb-timestamp'') (\<lambda>timestamp_text.
     case parse_i64 timestamp_text of None \<Rightarrow> Err invalid_auth_field | Some timestamp \<Rightarrow>
     and_then (required_header out (rq_headers rq) ''x-g7mb-nonce'') (\<lambda>nonce.
     and_then (required_header out (rq_headers rq) ''x-g7mb-content-sha256'') (\<lambda>body_sha256.
     and_then (required_header out (rq_headers rq) ''x-g7mb-signature'') (\<lambda>signature.
     if body_sha256 \<noteq> sha256_hex (out_crypto out) body then Err unauthorized
     else
       let signed_request = \<lparr>sr_key_id = key_id, sr_timestamp = timestamp, sr_nonce = nonce, sr_method = http_method,
             sr_path_and_query = path, sr_body_sha256 = body_sha256, sr_signature = signature\<rparr> in
       case verify (out_crypto out) signed_request (aa_secret auth) (unix_timestamp (rq_verify_clock rq))
              (aa_allowed_skew_seconds auth) of
         Inl _ \<Rightarrow> Err unauthorized
       | Inr _ \<Rightarrow> Ok signed_request)))))"

definition authenticate_request :: "outside \<Rightarrow> 'o ApiState \<Rightarrow> api_request \<Rightarrow> string \<Rightarrow> string \<Rightarrow> string
    \<Rightarrow> Database \<Rightarrow> (ApiFailure, string) result \<times> Database" where
  "authenticate_request out st rq body http_method path db =
     (case st_auth st of
        None \<Rightarrow> (Err not_ready, db)
      | Some auth \<Rightarrow>
          if \<not> st_nonce_store st then (Err not_ready, db)
          else (case check_signature out auth rq body http_method path of
              Inl e \<Rightarrow> (Err e, db)
            | Inr signed_request \<Rightarrow>
                (case consume_nonce (sr_key_id signed_request) (sr_nonce signed_request) (rq_nonce_clock rq)
                    (rq_nonce_clock rq + aa_allowed_skew_seconds auth * 1000000000) db of
                   (Inl e, db1) \<Rightarrow> (Err (from_nonce e), db1)
                 | (Inr _, db1) \<Rightarrow> (Ok (aa_tenant_id auth), db1))))"

section \<open>Handlers\<close>

datatype ResponseBody =
    EmptyBody | ErrorBody ErrorResponse | HealthBody HealthResponse | CapabilitiesBody CapabilitiesResponse
  | PolicyBody SitePolicySnapshotResponse | BatchBody CreateUploadBatchResponse | PartBody PresignUploadPartResponse
  | StatusBody UploadStatusResponse | DeliveryBody DerivativeDeliveryResponse

record Response =
  rs_status :: nat
  rs_body :: ResponseBody

text \<open>The correlation identifier is the caller's, or a generated one.\<close>

definition failure_response :: "outside \<Rightarrow> api_request \<Rightarrow> ApiFailure \<Rightarrow> Response" where
  "failure_response out rq f =
     \<lparr>rs_status = af_status f, rs_body = ErrorBody \<lparr>er_code = af_code f, er_message = af_message f,
        er_request_id = (case Option.bind (rq_headers rq ''x-request-id'') (header_to_str out) of
           Some v \<Rightarrow> v | None \<Rightarrow> rq_generated_id rq)\<rparr>\<rparr>"

definition respond :: "outside \<Rightarrow> api_request \<Rightarrow> ('a \<Rightarrow> Response) \<Rightarrow> (ApiFailure, 'a) result \<times> 'o api_world
    \<Rightarrow> Response \<times> 'o api_world" where
  "respond out rq ok r = (case r of (Inl f, w) \<Rightarrow> (failure_response out rq f, w) | (Inr a, w) \<Rightarrow> (ok a, w))"

text \<open>Every \<open>/v1\<close> handler authenticates and continues with the tenant of the key; where the path carries
  an upload identifier, it is parsed first.\<close>

definition authenticated :: "outside \<Rightarrow> 'o ApiState \<Rightarrow> api_request \<Rightarrow> string \<Rightarrow> string \<Rightarrow> string \<Rightarrow> 'o api_world
    \<Rightarrow> (string \<Rightarrow> 'o api_world \<Rightarrow> (ApiFailure, 'a) result \<times> 'o api_world) \<Rightarrow> (ApiFailure, 'a) result \<times> 'o api_world" where
  "authenticated out st rq body http_method path w k =
     (case authenticate_request out st rq body http_method path (aw_db w) of
        (Inl f, db) \<Rightarrow> (Err f, w\<lparr>aw_db := db\<rparr>)
      | (Inr tenant_id, db) \<Rightarrow> k tenant_id (w\<lparr>aw_db := db\<rparr>))"

definition for_upload :: "outside \<Rightarrow> 'o ApiState \<Rightarrow> api_request \<Rightarrow> string \<Rightarrow> 'o api_world
    \<Rightarrow> (string \<Rightarrow> uuid \<Rightarrow> 'o api_world \<Rightarrow> (ApiFailure, 'a) result \<times> 'o api_world) \<Rightarrow> (ApiFailure, 'a) result \<times> 'o api_world" where
  "for_upload out st rq http_method w k =
     (case parse_uuid (out_uuid out) (rq_upload_id rq) of
        None \<Rightarrow> (Err invalid_path, w)
      | Some upload_id \<Rightarrow> authenticated out st rq (rq_body rq) http_method (rq_path_and_query rq) w
          (\<lambda>tenant_id. k tenant_id upload_id))"

text \<open>Running an upload service operation on the world.\<close>

definition upload_op :: "'o ApiState \<Rightarrow> ('o UploadService \<Rightarrow> 'o \<times> Database \<Rightarrow> ('e, 'a) result \<times> 'o \<times> Database) \<Rightarrow> ('e \<Rightarrow> ApiFailure)
    \<Rightarrow> 'o api_world \<Rightarrow> (ApiFailure, 'a) result \<times> 'o api_world" where
  "upload_op st run failure w =
     (case st_upload_service st of
        None \<Rightarrow> (Err not_ready, w)
      | Some service \<Rightarrow>
          (case run service (aw_objects w, aw_db w) of
             (Inl e, o', db) \<Rightarrow> (Err (failure e), w\<lparr>aw_objects := o', aw_db := db\<rparr>)
           | (Inr a, o', db) \<Rightarrow> (Ok a, w\<lparr>aw_objects := o', aw_db := db\<rparr>)))"

definition liveness :: "string \<Rightarrow> Response" where
  "liveness version = \<lparr>rs_status = 200, rs_body = HealthBody (HealthResponse_new ''live'' version)\<rparr>"

definition readiness :: "string \<Rightarrow> 'o ApiState \<Rightarrow> Response" where
  "readiness version st =
     (if st_ready st then \<lparr>rs_status = 200, rs_body = HealthBody (HealthResponse_new ''ready'' version)\<rparr>
      else \<lparr>rs_status = 503, rs_body = HealthBody (HealthResponse_new ''not_ready'' version)\<rparr>)"

definition capabilities :: "outside \<Rightarrow> 'o ApiState \<Rightarrow> api_request \<Rightarrow> 'o api_world \<Rightarrow> Response \<times> 'o api_world" where
  "capabilities out st rq w =
     respond out rq (\<lambda>c. \<lparr>rs_status = 200, rs_body = CapabilitiesBody c\<rparr>)
       (authenticated out st rq [] ''GET'' (rq_path_and_query rq) w (\<lambda>_ w.
          (case st_capabilities st of None \<Rightarrow> (Err not_ready, w) | Some c \<Rightarrow> (Ok c, w))))"

section \<open>Site policy handlers\<close>

fun policy_position :: "SitePolicyWatermarkPosition \<Rightarrow> WatermarkPosition" where
  "policy_position PosCenter = Center" | "policy_position PosTopLeft = TopLeft"
| "policy_position PosTopRight = TopRight" | "policy_position PosBottomLeft = BottomLeft"
| "policy_position PosBottomRight = BottomRight"

fun response_policy_position :: "WatermarkPosition \<Rightarrow> SitePolicyWatermarkPosition" where
  "response_policy_position Center = PosCenter" | "response_policy_position TopLeft = PosTopLeft"
| "response_policy_position TopRight = PosTopRight" | "response_policy_position BottomLeft = PosBottomLeft"
| "response_policy_position BottomRight = PosBottomRight"

definition site_policy_response :: "SitePolicySnapshot \<Rightarrow> SitePolicySnapshotResponse" where
  "site_policy_response s =
     \<lparr>spr_schema_version = sps_schema s, spr_revision = sps_revision s,
      spr_issued_at = unix_timestamp (sps_issued_at s), spr_settings_sha256 = sps_sha256 s,
      spr_watermark = map_option (\<lambda>m. \<lparr>swo_asset_upload_id = swp_asset m, swo_asset_sha256 = swp_sha256 m,
        swo_position = response_policy_position (swp_position m), swo_margin_px = swp_margin m,
        swo_max_width_percent = swp_max_width m, swo_opacity_percent = swp_opacity m\<rparr>) (sps_watermark s)\<rparr>"

text \<open>A UUID of the JSON body is printed and parsed again, which gives the same identifier.\<close>

definition requested_watermark :: "SitePolicyWatermarkRequest \<Rightarrow> RequestedWatermarkPolicy" where
  "requested_watermark m =
     \<lparr>rw_asset = swr_asset_upload_id m, rw_position = policy_position (swr_position m), rw_margin = swr_margin_px m,
      rw_max_width = swr_max_width_percent m, rw_opacity = swr_opacity_percent m\<rparr>"

definition publish_site_policy_handler :: "outside \<Rightarrow> 'o ApiState \<Rightarrow> api_request \<Rightarrow> 'o api_world \<Rightarrow> Response \<times> 'o api_world" where
  "publish_site_policy_handler out st rq w =
     respond out rq
       (\<lambda>(snapshot, outcome). \<lparr>rs_status = (case outcome of Published \<Rightarrow> 201 | Unchanged \<Rightarrow> 200),
          rs_body = PolicyBody (site_policy_response snapshot)\<rparr>)
       (authenticated out st rq (rq_body rq) ''PUT'' ''/v1/site-policy'' w (\<lambda>tenant_id w.
          case st_policy_service st of None \<Rightarrow> (Err not_ready, w) | Some max_skew \<Rightarrow>
          (case json_policy out (rq_body rq) of None \<Rightarrow> (Err invalid_json, w) | Some request \<Rightarrow>
            if \<not> representable out (psr_issued_at request) then (Err invalid_json, w)
            else (case publish_policy (sha256_hex (out_crypto out)) max_skew
                \<lparr>psp_tenant_id = tenant_id, psp_schema = psr_schema_version request, psp_revision = psr_revision request,
                 psp_issued_at = psr_issued_at request * 1000000000,
                 psp_watermark = map_option requested_watermark (psr_watermark request)\<rparr>
                (rq_service_clock rq) (rq_store_clock rq) (aw_db w) of
              (Inl e, db) \<Rightarrow> (Err (from_site_policy e), w\<lparr>aw_db := db\<rparr>)
            | (Inr r, db) \<Rightarrow> (Ok r, w\<lparr>aw_db := db\<rparr>)))))"

definition get_site_policy :: "outside \<Rightarrow> 'o ApiState \<Rightarrow> api_request \<Rightarrow> 'o api_world \<Rightarrow> Response \<times> 'o api_world" where
  "get_site_policy out st rq w =
     respond out rq (\<lambda>s. \<lparr>rs_status = 200, rs_body = PolicyBody (site_policy_response s)\<rparr>)
       (authenticated out st rq [] ''GET'' (rq_path_and_query rq) w (\<lambda>tenant_id w.
          case st_policy_service st of None \<Rightarrow> (Err not_ready, w) | Some _ \<Rightarrow>
          (case active_policy (representable out) tenant_id (aw_db w) of
             Inl e \<Rightarrow> (Err (from_site_policy e), w)
           | Inr None \<Rightarrow> (Err site_policy_not_found, w)
           | Inr (Some s) \<Rightarrow> (Ok s, w))))"

section \<open>Upload handlers\<close>

definition file_intent :: "UploadFileIntentRequest \<Rightarrow> UploadFileIntent" where
  "file_intent f =
     \<lparr>uf_client_ref = ufr_client_ref f,
      uf_declared_kind = (case ufr_declared_kind f of KindImage \<Rightarrow> Image | KindVideo \<Rightarrow> Video),
      uf_content_length = ufr_content_length f, uf_content_type_hint = ufr_content_type_hint f\<rparr>"

definition intent_response :: "CreatedUploadIntent \<Rightarrow> UploadIntentResponse" where
  "intent_response u =
     \<lparr>uir_client_ref = ci_client_ref u, uir_upload_id = ci_upload_id u,
      uir_method = (case ci_transfer u of SinglePut \<Rightarrow> MethodSinglePut | Multipart _ \<Rightarrow> MethodMultipart),
      uir_part_size_bytes = (case ci_transfer u of SinglePut \<Rightarrow> None | Multipart n \<Rightarrow> Some n),
      uir_upload_url = map_option pu_url (ci_presigned_put u),
      uir_required_headers = (case ci_presigned_put u of None \<Rightarrow> [] | Some p \<Rightarrow> pu_required_headers p),
      uir_expires_at = ci_expires_at u\<rparr>"

definition create_upload_batch :: "outside \<Rightarrow> 'o ApiState \<Rightarrow> api_request \<Rightarrow> 'o api_world \<Rightarrow> Response \<times> 'o api_world" where
  "create_upload_batch out st rq w =
     respond out rq (\<lambda>created. \<lparr>rs_status = 201, rs_body = BatchBody
         \<lparr>cubs_batch_id = cub_batch_id created, cubs_uploads = map intent_response (cub_uploads created)\<rparr>\<rparr>)
       (authenticated out st rq (rq_body rq) ''POST'' ''/v1/upload-batches'' w (\<lambda>tenant_id w.
          case st_upload_service st of None \<Rightarrow> (Err not_ready, w) | Some _ \<Rightarrow>
          (case json_batch out (rq_body rq) of None \<Rightarrow> (Err invalid_json, w) | Some request \<Rightarrow>
            upload_op st (\<lambda>service. create_batch (us_store service) (show_uuid (out_uuid out)) (us_policy service)
                (us_capacity service) (rq_batch_id rq) (rq_fresh rq) (rq_service_clock rq)
                \<lparr>cb_tenant_id = tenant_id, cb_files = map file_intent (cubr_files request)\<rparr>) from_batch w)))"

definition presign_upload_part :: "outside \<Rightarrow> 'o ApiState \<Rightarrow> api_request \<Rightarrow> 'o api_world \<Rightarrow> Response \<times> 'o api_world" where
  "presign_upload_part out st rq w =
     respond out rq (\<lambda>p. \<lparr>rs_status = 200, rs_body = PartBody \<lparr>pups_part_number = rq_part_number rq,
         pups_upload_url = pu_url p, pups_required_headers = pu_required_headers p, pups_expires_at = pu_expires_at p\<rparr>\<rparr>)
       (for_upload out st rq ''POST'' w (\<lambda>tenant_id upload_id w.
          case json_part out (rq_body rq) of None \<Rightarrow> (Err invalid_json, w) | Some request \<Rightarrow>
            upload_op st (\<lambda>service. presign_part (us_store service) tenant_id upload_id (rq_part_number rq)
              (pupr_content_length request)) from_multipart w))"

definition no_content :: "unit \<Rightarrow> Response" where
  "no_content _ = \<lparr>rs_status = 204, rs_body = EmptyBody\<rparr>"

definition complete_multipart_handler :: "outside \<Rightarrow> 'o ApiState \<Rightarrow> api_request \<Rightarrow> 'o api_world \<Rightarrow> Response \<times> 'o api_world" where
  "complete_multipart_handler out st rq w =
     respond out rq no_content
       (for_upload out st rq ''POST'' w (\<lambda>tenant_id upload_id w.
          case json_complete out (rq_body rq) of None \<Rightarrow> (Err invalid_json, w) | Some request \<Rightarrow>
            upload_op st (\<lambda>service. complete_multipart_upload (us_store service) (rq_fresh rq 0) (rq_service_clock rq)
              tenant_id upload_id (map (\<lambda>p. \<lparr>cp_part_number = cupt_part_number p, cp_etag = cupt_etag p\<rparr>)
              (cmur_parts request))) from_multipart w))"

definition abort_multipart_handler :: "outside \<Rightarrow> 'o ApiState \<Rightarrow> api_request \<Rightarrow> 'o api_world \<Rightarrow> Response \<times> 'o api_world" where
  "abort_multipart_handler out st rq w =
     respond out rq no_content
       (for_upload out st rq ''DELETE'' w (\<lambda>tenant_id upload_id.
          upload_op st (\<lambda>service. abort_multipart_upload (us_store service) (rq_service_clock rq) tenant_id upload_id)
            from_multipart))"

definition confirm_single_handler :: "outside \<Rightarrow> 'o ApiState \<Rightarrow> api_request \<Rightarrow> 'o api_world \<Rightarrow> Response \<times> 'o api_world" where
  "confirm_single_handler out st rq w =
     respond out rq no_content
       (for_upload out st rq ''POST'' w (\<lambda>tenant_id upload_id.
          upload_op st (\<lambda>service. confirm_single_upload (us_store service) (rq_fresh rq 0) (rq_service_clock rq)
            tenant_id upload_id) from_multipart))"

fun upload_status_value :: "UploadState \<Rightarrow> UploadStatusValue" where
  "upload_status_value Created = StatusCreated" | "upload_status_value Uploaded = StatusUploaded"
| "upload_status_value Quarantined = StatusQuarantined" | "upload_status_value Processing = StatusProcessing"
| "upload_status_value Ready = StatusReady" | "upload_status_value Rejected = StatusRejected"
| "upload_status_value Failed = StatusFailed" | "upload_status_value Deleted = StatusDeleted"

definition status_response :: "UploadStatusSnapshot \<Rightarrow> UploadStatusResponse" where
  "status_response s =
     \<lparr>usr_upload_id = us_upload_id s, usr_state = upload_status_value (us_state s),
      usr_detected_content_type = us_detected_content_type s, usr_error_code = us_error_code s,
      usr_deletion_pending = us_deletion_pending s,
      usr_derivatives = map (\<lambda>d. \<lparr>udr_preset_id = sd_preset d, udr_variant = sd_variant d,
        udr_url_path = CHR ''/'' # sd_object_key d, udr_content_type = sd_content_type d, udr_byte_len = sd_byte_len d\<rparr>)
        (us_derivatives s)\<rparr>"

definition get_upload_status :: "outside \<Rightarrow> 'o ApiState \<Rightarrow> api_request \<Rightarrow> 'o api_world \<Rightarrow> Response \<times> 'o api_world" where
  "get_upload_status out st rq w =
     respond out rq (\<lambda>s. \<lparr>rs_status = 200, rs_body = StatusBody (status_response s)\<rparr>)
       (for_upload out st rq ''GET'' w (\<lambda>tenant_id upload_id.
          upload_op st (\<lambda>_ (o', db). (upload_status tenant_id upload_id db, o', db)) from_multipart))"

section \<open>Delivery and deletion handlers\<close>

definition get_derivative_delivery :: "outside \<Rightarrow> 'o ApiState \<Rightarrow> api_request \<Rightarrow> 'o api_world \<Rightarrow> Response \<times> 'o api_world" where
  "get_derivative_delivery out st rq w =
     respond out rq (\<lambda>(upload_id, d). \<lparr>rs_status = 200, rs_body = DeliveryBody
         \<lparr>ddr_upload_id = upload_id, ddr_preset_id = dd_preset d, ddr_variant = dd_variant d, ddr_delivery_url = dd_url d,
          ddr_expires_at = dd_expires_at d, ddr_content_type = dd_content_type d, ddr_byte_len = dd_byte_len d\<rparr>\<rparr>)
       (for_upload out st rq ''GET'' w (\<lambda>tenant_id upload_id w.
          case st_delivery_service st of None \<Rightarrow> (Err not_ready, w) | Some service \<Rightarrow>
          (case presign (out_url out) (ds_store service) (ds_policy service) tenant_id upload_id (rq_variant rq)
              (aw_db w) (aw_db w) (aw_cache w, aw_objects w) of
             (Inl e, cache, o') \<Rightarrow> (Err (from_delivery e), w\<lparr>aw_cache := cache, aw_objects := o'\<rparr>)
           | (Inr d, cache, o') \<Rightarrow> (Ok (upload_id, d), w\<lparr>aw_cache := cache, aw_objects := o'\<rparr>))))"

definition request_upload_deletion :: "outside \<Rightarrow> 'o ApiState \<Rightarrow> api_request \<Rightarrow> 'o api_world \<Rightarrow> Response \<times> 'o api_world" where
  "request_upload_deletion out st rq w =
     respond out rq (\<lambda>outcome. \<lparr>rs_status = (case outcome of AlreadyDeleted \<Rightarrow> 204 | _ \<Rightarrow> 202), rs_body = EmptyBody\<rparr>)
       (for_upload out st rq ''DELETE'' w (\<lambda>tenant_id upload_id w.
          if \<not> st_lifecycle_service st then (Err not_ready, w)
          else (case service_request_deletion tenant_id upload_id (rq_service_clock rq) (aw_db w) of
              (Inl e, db) \<Rightarrow> (Err (from_deletion e), w\<lparr>aw_db := db\<rparr>)
            | (Inr outcome, db) \<Rightarrow>
                (Ok outcome, w\<lparr>aw_db := db, aw_cache := (case st_delivery_service st of None \<Rightarrow> aw_cache w
                    | Some _ \<Rightarrow> invalidate_upload tenant_id upload_id (aw_cache w))\<rparr>))))"

section \<open>The route table\<close>

datatype api_call =
    CallCapabilities | CallPublishPolicy | CallGetPolicy | CallCreateBatch | CallPresignPart | CallCompleteMultipart
  | CallAbortMultipart | CallConfirmSingle | CallStatus | CallDelivery | CallDelete

fun handle :: "outside \<Rightarrow> 'o ApiState \<Rightarrow> api_call \<Rightarrow> api_request \<Rightarrow> 'o api_world \<Rightarrow> Response \<times> 'o api_world" where
  "handle out st CallCapabilities rq w = capabilities out st rq w"
| "handle out st CallPublishPolicy rq w = publish_site_policy_handler out st rq w"
| "handle out st CallGetPolicy rq w = get_site_policy out st rq w"
| "handle out st CallCreateBatch rq w = create_upload_batch out st rq w"
| "handle out st CallPresignPart rq w = presign_upload_part out st rq w"
| "handle out st CallCompleteMultipart rq w = complete_multipart_handler out st rq w"
| "handle out st CallAbortMultipart rq w = abort_multipart_handler out st rq w"
| "handle out st CallConfirmSingle rq w = confirm_single_handler out st rq w"
| "handle out st CallStatus rq w = get_upload_status out st rq w"
| "handle out st CallDelivery rq w = get_derivative_delivery out st rq w"
| "handle out st CallDelete rq w = request_upload_deletion out st rq w"

text \<open>The body, the method and the path a call's signature must cover.\<close>

fun signed_parts :: "api_call \<Rightarrow> api_request \<Rightarrow> string \<times> string \<times> string" where
  "signed_parts CallCapabilities rq = ([], ''GET'', rq_path_and_query rq)"
| "signed_parts CallPublishPolicy rq = (rq_body rq, ''PUT'', ''/v1/site-policy'')"
| "signed_parts CallGetPolicy rq = ([], ''GET'', rq_path_and_query rq)"
| "signed_parts CallCreateBatch rq = (rq_body rq, ''POST'', ''/v1/upload-batches'')"
| "signed_parts CallPresignPart rq = (rq_body rq, ''POST'', rq_path_and_query rq)"
| "signed_parts CallCompleteMultipart rq = (rq_body rq, ''POST'', rq_path_and_query rq)"
| "signed_parts CallAbortMultipart rq = (rq_body rq, ''DELETE'', rq_path_and_query rq)"
| "signed_parts CallConfirmSingle rq = (rq_body rq, ''POST'', rq_path_and_query rq)"
| "signed_parts CallStatus rq = (rq_body rq, ''GET'', rq_path_and_query rq)"
| "signed_parts CallDelivery rq = (rq_body rq, ''GET'', rq_path_and_query rq)"
| "signed_parts CallDelete rq = (rq_body rq, ''DELETE'', rq_path_and_query rq)"

end
