(* ===== verification/Tenancy.thy ===== *)
theory Tenancy
  imports Api
begin

text \<open>
  Tenant isolation of the control plane.  A database change is confined to a tenant when the other
  tenants' uploads, batches and policies and every published derivative stay as they were.  Each
  operation a handler runs is confined to the tenant it is given, which is the one the authenticated
  key belongs to.
\<close>

section \<open>Confined changes\<close>

definition confined :: "string \<Rightarrow> Database \<Rightarrow> Database \<Rightarrow> bool" where
  "confined tenant_id db db' \<longleftrightarrow>
     filter (\<lambda>r. up_tenant r \<noteq> tenant_id) (uploads db') = filter (\<lambda>r. up_tenant r \<noteq> tenant_id) (uploads db) \<and>
     filter (\<lambda>b. batch_tenant b \<noteq> tenant_id) (upload_batches db') =
       filter (\<lambda>b. batch_tenant b \<noteq> tenant_id) (upload_batches db) \<and>
     filter (\<lambda>p. pol_tenant p \<noteq> tenant_id) (site_policies db') = filter (\<lambda>p. pol_tenant p \<noteq> tenant_id) (site_policies db) \<and>
     derivatives db' = derivatives db"

lemma confined_refl [simp]: "confined t db db"
  by (simp add: confined_def)

lemma confined_trans: "confined t db1 db2 \<Longrightarrow> confined t db2 db3 \<Longrightarrow> confined t db1 db3"
  by (simp add: confined_def)

lemma confined_jobs: "confined t db db' \<Longrightarrow> confined t db (insert_job j db')"
  by (simp add: confined_def)

lemma confined_update:
  assumes "\<And>r. p r \<Longrightarrow> up_tenant r = t" "\<And>r. up_tenant (f r) = up_tenant r"
  shows "confined t db (update_uploads p f db)"
proof -
  have "filter (\<lambda>r. up_tenant r \<noteq> t) (update_rows p f rows) = filter (\<lambda>r. up_tenant r \<noteq> t) rows" for rows
    using assms by (induction rows) (auto simp: update_rows_def)
  then show ?thesis by (simp add: confined_def)
qed

lemma consume_nonce_media: "same_media db (snd (consume_nonce k n now until db))"
  by (simp add: consume_nonce_def same_media_def Let_def)

lemma save_uploads_rows: "save_uploads batch us db = Ok db' \<Longrightarrow>
    uploads db' = uploads db @ map (reservation_row batch) us \<and> site_policies db' = site_policies db \<and>
    upload_batches db' = upload_batches db \<and> derivatives db' = derivatives db"
  by (induction us arbitrary: db) (auto split: if_splits UploadTransfer.splits)

lemma save_batch_confined: "confined (ubr_tenant_id batch) db (snd (save_batch batch c db))"
proof (cases "fst (save_batch batch c db) = Ok ()")
  case True
  then have "save_batch batch c db = (Ok (), snd (save_batch batch c db))" by (simp add: prod_eq_iff)
  then obtain total where
    "save_uploads batch (ubr_uploads batch) (db\<lparr>upload_batches := upload_batches db @ [batch_row batch total]\<rparr>) =
      Ok (snd (save_batch batch c db))"
    by (metis save_batch_Ok)
  note rows = save_uploads_rows[OF this]
  have "filter (\<lambda>r. up_tenant r \<noteq> ubr_tenant_id batch) (map (reservation_row batch) us) = []" for us
    by (simp add: filter_empty_conv reservation_row_def Let_def)
  then show ?thesis using rows by (simp add: confined_def batch_row_def)
next
  case False
  then show ?thesis using save_batch_rollback[OF False] by simp
qed

lemma set_state_confined: "confined t db (set_uploaded t i m ts db)" "confined t db (set_quarantined t i ts db)"
  unfolding set_uploaded_def set_quarantined_def by (rule confined_update; simp add: owned_in_state_def)+

lemma mark_quarantined_confined: "confined t db (snd (mark_quarantined_and_enqueue fresh t i n preset now db))"
proof -
  have "confined t db (set_quarantined t i ts (set_uploaded t i m ts db))" for m ts
    using set_state_confined by (rule confined_trans)
  then show ?thesis by (simp add: mark_quarantined_and_enqueue_def Let_def confined_jobs)
qed

lemma mark_deleted_confined: "confined t db (snd (mark_deleted t i now db))"
proof -
  have "snd (mark_deleted t i now db) = update_uploads (owned_in_state t i Created)
      (\<lambda>r. r\<lparr>up_state := Deleted, up_deleted_at := Some (unix_timestamp now), up_updated := unix_timestamp now\<rparr>) db"
    by (simp add: mark_deleted_def Let_def)
  then show ?thesis by (simp only:) (rule confined_update; simp add: owned_in_state_def)
qed

lemma service_request_deletion_confined: "confined t db (snd (service_request_deletion t i now db))"
proof -
  have "confined t db (snd (request_deletion t i now db))"
    by (cases rule: request_deletion_cases[of t i now db])
      (auto intro!: confined_update simp: requestable_def set_delete_requested_def)
  then show ?thesis by (simp add: service_request_deletion_def)
qed

lemma publish_site_policy_confined: "publish_site_policy now s db = (r, db') \<Longrightarrow> confined (sps_tenant_id s) db db'"
  by (auto simp: publish_site_policy_def Let_def confined_def policy_row_def split: if_splits)

lemma publish_policy_confined: "confined (psp_tenant_id request) db (snd (publish_policy hash skew request now created db))"
  unfolding publish_policy_def Let_def
  by (auto split: sum.splits prod.splits dest!: publish_site_policy_confined)

section \<open>The upload service\<close>

lemma save_or_clean_confined: "confined (ubr_tenant_id batch) (snd s) (snd (snd (save_or_clean os c batch outs s)))"
  using save_batch_confined[of batch "snd s" c]
  by (auto simp: save_or_clean_def split: prod.splits sum.splits bool.splits)

lemma create_batch_confined:
  "confined (cb_tenant_id request) (snd s) (snd (snd (create_batch os show p c b fresh now request s)))"
proof (cases s)
  case (Pair o' db)
  have "confined (cb_tenant_id request) db (snd (snd (save_or_clean os c \<lparr>ubr_batch_id = b,
      ubr_tenant_id = cb_tenant_id request, ubr_created_at = now, ubr_uploads = rs\<rparr> outs (o1, db))))" for rs outs o1
    using save_or_clean_confined[of "\<lparr>ubr_batch_id = b, ubr_tenant_id = cb_tenant_id request, ubr_created_at = now,
      ubr_uploads = rs\<rparr>" "(o1, db)"] by simp
  then show ?thesis
    unfolding create_batch_def Pair by (simp split: prod.split sum.split option.split bool.split)
qed

lemma verify_and_enqueue_confined: "confined t (snd s) (snd (snd (verify_and_enqueue os fresh now t i stored s)))"
  using mark_quarantined_confined[of t "snd s" fresh i "sur_expected_size stored" initial_processing_preset now]
  by (auto simp: verify_and_enqueue_def split: prod.splits sum.splits)

lemma complete_multipart_confined: "confined t (snd s) (snd (snd (complete_multipart_upload os fresh now t i parts s)))"
proof -
  have "confined t db (snd (snd (verify_and_enqueue os fresh now t i stored (o', db))))" for o' db stored
    using verify_and_enqueue_confined[of t "(o', db)"] by simp
  then show ?thesis
    unfolding complete_multipart_upload_def by (simp split: prod.split sum.split)
qed

lemma confirm_single_confined: "confined t (snd s) (snd (snd (confirm_single_upload os fresh now t i s)))"
proof -
  have "confined t db (snd (snd (verify_and_enqueue os fresh now t i stored (o', db))))" for o' db stored
    using verify_and_enqueue_confined[of t "(o', db)"] by simp
  then show ?thesis
    unfolding confirm_single_upload_def by (simp split: prod.split sum.split)
qed

lemma abort_multipart_confined: "confined t (snd s) (snd (snd (abort_multipart_upload os now t i s)))"
proof -
  have "mark_deleted t i now db = (r, db') \<Longrightarrow> confined t db db'" for db r db'
    using mark_deleted_confined[of t db i now] by simp
  then show ?thesis
    unfolding abort_multipart_upload_def by (simp split: prod.split sum.split)
qed

lemma presign_part_confined: "snd (snd (presign_part os t i n len s)) = snd s"
  unfolding presign_part_def by (simp split: prod.split sum.split)

text \<open>The same facts over the components of a world.\<close>

lemmas service_confined =
  create_batch_confined[where s = "(o', db)" for o' db, simplified]
  complete_multipart_confined[where s = "(o', db)" for o' db, simplified]
  confirm_single_confined[where s = "(o', db)" for o' db, simplified]
  abort_multipart_confined[where s = "(o', db)" for o' db, simplified]

section \<open>Handlers\<close>

text \<open>What the combinators of the handlers leave in the world.\<close>

lemma respond_world [simp]: "snd (respond out rq f r) = snd r"
  by (simp add: respond_def split: prod.split sum.split)

lemma upload_op_world:
  assumes "\<And>service s. st_upload_service st = Some service \<Longrightarrow> confined t (snd s) (snd (snd (run service s)))"
  shows "confined t (aw_db w) (aw_db (snd (upload_op st run f w)))"
proof (cases "st_upload_service st")
  case None
  then show ?thesis by (simp add: upload_op_def)
next
  case (Some service)
  then show ?thesis
    using assms[OF Some, of "(aw_objects w, aw_db w)"]
    by (auto simp: upload_op_def split: prod.split sum.split)
qed

text \<open>Whether the signing headers of a request are those of the given body, method and path.\<close>

definition signed_with :: "outside \<Rightarrow> ApiAuth \<Rightarrow> api_request \<Rightarrow> string \<times> string \<times> string \<Rightarrow> bool" where
  "signed_with out auth rq parts =
     (case parts of (body, http_method, path) \<Rightarrow>
        (case check_signature out auth rq body http_method path of Inl _ \<Rightarrow> False | Inr _ \<Rightarrow> True))"

text \<open>The result of a handler's work: refused with nothing changed, or done for the tenant of a key whose
  signature was checked.\<close>

definition guarded :: "outside \<Rightarrow> 'o ApiState \<Rightarrow> api_request \<Rightarrow> string \<times> string \<times> string \<Rightarrow> 'o api_world
    \<Rightarrow> (ApiFailure, 'a) result \<times> 'o api_world \<Rightarrow> bool" where
  "guarded out st rq parts w r \<longleftrightarrow>
     (\<exists>f. r = (Err f, w)) \<or>
     (\<exists>auth. st_auth st = Some auth \<and> st_nonce_store st \<and> signed_with out auth rq parts \<and>
        confined (aa_tenant_id auth) (aw_db w) (aw_db (snd r)))"

lemma authenticate_request_Ok:
  assumes "authenticate_request out st rq body http_method path db = (Ok t, db')"
  obtains auth sr where "st_auth st = Some auth" "st_nonce_store st" "t = aa_tenant_id auth"
    "check_signature out auth rq body http_method path = Ok sr"
    "consume_nonce (sr_key_id sr) (sr_nonce sr) (rq_nonce_clock rq)
       (rq_nonce_clock rq + aa_allowed_skew_seconds auth * 1000000000) db = (Ok (), db')"
  using assms by (auto simp: authenticate_request_def split: option.splits if_splits sum.splits prod.splits)

lemma authenticate_request_Err:
  assumes "authenticate_request out st rq body http_method path db = (Err f, db')"
  shows "db' = db"
proof -
  have "consume_nonce k n now until db = (Err e, db') \<Longrightarrow> db' = db" for k n now until e
    by (simp add: consume_nonce_def Let_def split: if_splits)
  then show ?thesis
    using assms by (auto simp: authenticate_request_def split: option.splits if_splits sum.splits prod.splits)
qed

lemma authenticated_guarded:
  assumes "\<And>t w'. confined t (aw_db w') (aw_db (snd (k t w')))"
  shows "guarded out st rq (body, http_method, path) w (authenticated out st rq body http_method path w k)"
proof (cases "authenticate_request out st rq body http_method path (aw_db w)")
  case (Pair r db)
  show ?thesis
  proof (cases r)
    case (Inl f)
    then have "db = aw_db w" using Pair authenticate_request_Err by metis
    then show ?thesis using Pair Inl by (simp add: authenticated_def guarded_def)
  next
    case (Inr t)
    then obtain auth sr where a: "st_auth st = Some auth" "st_nonce_store st" "t = aa_tenant_id auth"
        "check_signature out auth rq body http_method path = Ok sr"
        "consume_nonce (sr_key_id sr) (sr_nonce sr) (rq_nonce_clock rq)
           (rq_nonce_clock rq + aa_allowed_skew_seconds auth * 1000000000) (aw_db w) = (Ok (), db)"
      using authenticate_request_Ok[of out st rq body http_method path "aw_db w" t db] Pair by blast
    have "confined t (aw_db w) db"
      using arg_cong[OF a(5), of snd] by (simp add: consume_nonce_def Let_def confined_def split: if_splits) auto
    then have "confined t (aw_db w) (aw_db (snd (k t (w\<lparr>aw_db := db\<rparr>))))"
      using assms[of t "w\<lparr>aw_db := db\<rparr>"] by (auto intro: confined_trans)
    then show ?thesis using Pair Inr a by (simp add: authenticated_def guarded_def signed_with_def)
  qed
qed

lemma for_upload_guarded:
  assumes "\<And>t i w'. confined t (aw_db w') (aw_db (snd (k t i w')))"
  shows "guarded out st rq (rq_body rq, http_method, rq_path_and_query rq) w (for_upload out st rq http_method w k)"
  using authenticated_guarded[of "\<lambda>t. k t i" for i] assms
  by (auto simp: for_upload_def guarded_def split: option.split)

lemma respond_guarded:
  assumes "guarded out st rq parts w r"
  shows "(case respond out rq ok r of (response, w') \<Rightarrow>
     w' = w \<and> (\<exists>e. rs_body response = ErrorBody e) \<or>
     (\<exists>auth. st_auth st = Some auth \<and> st_nonce_store st \<and> signed_with out auth rq parts \<and>
        confined (aa_tenant_id auth) (aw_db w) (aw_db w')))"
  using assms by (auto simp: respond_def guarded_def failure_response_def split: prod.split sum.split)

text \<open>The work of every route is guarded by the body, method and path its signature covers.\<close>

definition answered :: "outside \<Rightarrow> 'o ApiState \<Rightarrow> api_call \<Rightarrow> api_request \<Rightarrow> 'o api_world \<Rightarrow> Response \<times> 'o api_world \<Rightarrow> bool" where
  "answered out st call rq w answer \<longleftrightarrow>
     (case answer of (response, w') \<Rightarrow>
       w' = w \<and> (\<exists>e. rs_body response = ErrorBody e) \<or>
       (\<exists>auth. st_auth st = Some auth \<and> st_nonce_store st \<and> signed_with out auth rq (signed_parts call rq) \<and>
          confined (aa_tenant_id auth) (aw_db w) (aw_db w')))"

lemma respond_answered:
  "guarded out st rq (signed_parts call rq) w r \<Longrightarrow> answered out st call rq w (respond out rq ok r)"
  unfolding answered_def by (rule respond_guarded)

lemma reading_calls_answered:
  "answered out st CallCapabilities rq w (handle out st CallCapabilities rq w)"
  "answered out st CallGetPolicy rq w (handle out st CallGetPolicy rq w)"
  "answered out st CallDelivery rq w (handle out st CallDelivery rq w)"
  "answered out st CallStatus rq w (handle out st CallStatus rq w)"
     apply (simp_all only: handle.simps capabilities_def get_site_policy_def get_derivative_delivery_def get_upload_status_def)
     apply (rule respond_answered, simp only: signed_parts.simps, rule authenticated_guarded,
      simp split: option.split)
    apply (rule respond_answered, simp only: signed_parts.simps, rule authenticated_guarded,
      simp split: option.split sum.split)
   apply (rule respond_answered, simp only: signed_parts.simps, rule for_upload_guarded,
      simp split: option.split sum.split prod.split)
  apply (rule respond_answered, simp only: signed_parts.simps, rule for_upload_guarded, rule upload_op_world,
      simp split: prod.split)
  done

lemma upload_calls_answered:
  "answered out st CallPresignPart rq w (handle out st CallPresignPart rq w)"
  "answered out st CallCompleteMultipart rq w (handle out st CallCompleteMultipart rq w)"
  "answered out st CallAbortMultipart rq w (handle out st CallAbortMultipart rq w)"
  "answered out st CallConfirmSingle rq w (handle out st CallConfirmSingle rq w)"
  unfolding handle.simps presign_upload_part_def complete_multipart_handler_def abort_multipart_handler_def
    confirm_single_handler_def
  by (rule respond_answered, simp only: signed_parts.simps, rule for_upload_guarded,
      auto intro!: upload_op_world simp: presign_part_confined service_confined split: option.split)+

lemma create_answered: "answered out st CallCreateBatch rq w (handle out st CallCreateBatch rq w)"
  using service_confined(1)[where request = "\<lparr>cb_tenant_id = t, cb_files = fs\<rparr>" for t fs, simplified]
  unfolding handle.simps create_upload_batch_def
  by (intro respond_answered, simp only: signed_parts.simps, intro authenticated_guarded)
    (auto intro!: upload_op_world split: option.split)

lemma publish_answered: "answered out st CallPublishPolicy rq w (handle out st CallPublishPolicy rq w)"
proof -
  have "publish_policy hash skew request now created db = (r, db') \<Longrightarrow> confined (psp_tenant_id request) db db'"
    for hash skew request now created db r db'
    using publish_policy_confined[of request db hash skew now created] by simp
  note published = this[where request = "\<lparr>psp_tenant_id = t, psp_schema = a, psp_revision = b, psp_issued_at = c,
      psp_watermark = e\<rparr>" for t a b c e, simplified]
  show ?thesis
    unfolding handle.simps publish_site_policy_handler_def
    by (intro respond_answered, simp only: signed_parts.simps, intro authenticated_guarded)
      (auto dest: published split: option.split sum.split prod.split)
qed

lemma delete_answered: "answered out st CallDelete rq w (handle out st CallDelete rq w)"
proof -
  have "service_request_deletion t i now db = (r, db') \<Longrightarrow> confined t db db'" for t i now db r db'
    using service_request_deletion_confined[of t db i now] by simp
  then show ?thesis
    unfolding handle.simps request_upload_deletion_def
    by (intro respond_answered, simp only: signed_parts.simps, intro for_upload_guarded)
      (auto split: option.split sum.split prod.split)
qed


end
