(* ===== verification/Replay.thy ===== *)
theory Replay
  imports Tenancy
begin

text \<open>
  Replayed requests.  \<open>authenticate_request\<close> accepts a timestamp within the skew of its clock, both ends
  included, and remembers the nonce until the end of the skew counted from its own clock.  A second use of
  the same signing headers is refused before that second; at that second the nonce is already forgotten
  while a request signed with the current time is still fresh.
\<close>

lemma unix_timestamp_later [simp]: "unix_timestamp (t + s * 1000000000) = unix_timestamp t + s"
  by (simp add: unix_timestamp_def)

lemma check_signature_Ok:
  assumes "check_signature out auth rq body http_method path = Ok sr"
  shows "sr_key_id sr = aa_key_id auth"
    "required_header out (rq_headers rq) ''x-g7mb-nonce'' = Ok (sr_nonce sr)"
    "Option.bind (Option.bind (rq_headers rq ''x-g7mb-timestamp'') (header_to_str out)) parse_i64 = Some (sr_timestamp sr)"
    "verify (out_crypto out) sr (aa_secret auth) (unix_timestamp (rq_verify_clock rq)) (aa_allowed_skew_seconds auth) = Ok ()"
  using assms
  by (auto simp: check_signature_def required_header_def Let_def split: option.splits if_splits sum.splits)

lemma expired_nonce_accepted:
  assumes "consume_nonce k n now until db = (Ok (), db1)"
    and "unix_timestamp until \<le> unix_timestamp now'" "now' < until'"
  shows "fst (consume_nonce k n now' until' db1) = Ok ()"
proof -
  let ?rows = "filter (\<lambda>r. \<not> nonce_expires r \<le> unix_timestamp now) (request_nonces db)"
  have "(k, n) \<notin> (\<lambda>r. (nonce_key r, nonce_value r)) ` set ?rows"
    "request_nonces db1 = ?rows @ [\<lparr>nonce_key = k, nonce_value = n, nonce_expires = unix_timestamp until\<rparr>]"
    "k \<noteq> [] \<and> length k \<le> 128 \<and> 16 \<le> length n \<and> length n \<le> 128"
    using assms(1) by (auto simp: consume_nonce_def Let_def split: if_splits)
  then show ?thesis using assms(2,3) by (auto simp: consume_nonce_def Let_def)
qed

text \<open>A later reading of the clock changes only the freshness test.\<close>

lemma check_signature_later:
  assumes "check_signature out auth rq body http_method path = Ok sr"
    and "\<bar>unix_timestamp c - sr_timestamp sr\<bar> \<le> aa_allowed_skew_seconds auth"
  shows "check_signature out auth (rq\<lparr>rq_verify_clock := c, rq_nonce_clock := c'\<rparr>) body http_method path = Ok sr"
proof -
  have fresh: "verify (out_crypto out) sr (aa_secret auth) (unix_timestamp c) (aa_allowed_skew_seconds auth) = Ok ()"
    using check_signature_Ok(4)[OF assms(1)] assms(2) by (simp add: verify_def split: if_splits)
  show ?thesis
    using assms(1) fresh
    by (auto simp: check_signature_def required_header_def Let_def split: option.splits if_splits sum.splits)
qed

text \<open>The database after a history of authentications.\<close>

definition authentications :: "outside \<Rightarrow> 'o ApiState \<Rightarrow> (api_request \<times> string \<times> string \<times> string) list \<Rightarrow> Database \<Rightarrow> Database" where
  "authentications out st history db =
     fold (\<lambda>(rq, body, http_method, path) db. snd (authenticate_request out st rq body http_method path db)) history db"

lemma authenticate_request_remembers:
  assumes "nonce_reserved db k n = Some t" "unix_timestamp (rq_nonce_clock rq) < t"
  shows "nonce_reserved (snd (authenticate_request out st rq body http_method path db)) k n = Some t"
proof (cases "authenticate_request out st rq body http_method path db")
  case (Pair r db')
  show ?thesis
  proof (cases r)
    case (Inl e)
    then show ?thesis using Pair authenticate_request_Err[of out st rq body http_method path db e db'] assms by simp
  next
    case (Inr u)
    then show ?thesis
      using authenticate_request_Ok[of out st rq body http_method path db u db'] Pair
        nonce_reserved_kept[OF assms] by (metis snd_conv)
  qed
qed

lemma authenticate_request_ok: "db_ok db \<Longrightarrow> db_ok (snd (authenticate_request out st rq body http_method path db))"
  using consume_nonce_ok[of db]
  by (auto simp: authenticate_request_def split: option.split sum.split prod.split) (metis snd_conv)+

lemma authentications_remember:
  assumes "db_ok db" "nonce_reserved db k n = Some t"
    and "list_all (\<lambda>(rq, _). unix_timestamp (rq_nonce_clock rq) < t) history"
  shows "nonce_reserved (authentications out st history db) k n = Some t" "db_ok (authentications out st history db)"
proof -
  have "nonce_reserved (authentications out st history db) k n = Some t \<and> db_ok (authentications out st history db)"
    using assms
  proof (induction history arbitrary: db)
    case (Cons c history)
    obtain rq body m path where c: "c = (rq, body, m, path)" by (cases c)
    show ?case
      using Cons.IH[of "snd (authenticate_request out st rq body m path db)"] Cons.prems c
        authenticate_request_remembers[OF Cons.prems(2), of rq out st] authenticate_request_ok[OF Cons.prems(1), of out st]
      by (simp add: authentications_def)
  qed (simp add: authentications_def)
  then show "nonce_reserved (authentications out st history db) k n = Some t"
    "db_ok (authentications out st history db)" by simp_all
qed

text \<open>
  C11. After a request was accepted, no request with its nonce is accepted while the clock has not reached
  the second of its acceptance plus the skew, whatever requests come in between.
\<close>

theorem accepted_request_is_not_replayed:
  assumes "db_ok db" "st_auth st = Some auth"
    and "authenticate_request out st rq body http_method path db = (Ok tenant, db1)"
    and "list_all (\<lambda>(rq', _). unix_timestamp (rq_nonce_clock rq') <
           unix_timestamp (rq_nonce_clock rq) + aa_allowed_skew_seconds auth) history"
    and "rq_headers rq' ''x-g7mb-nonce'' = rq_headers rq ''x-g7mb-nonce''"
    and "unix_timestamp (rq_nonce_clock rq') < unix_timestamp (rq_nonce_clock rq) + aa_allowed_skew_seconds auth"
  shows "\<exists>f. authenticate_request out st rq' body' http_method' path' (authentications out st history db1) =
    (Err f, authentications out st history db1)"
proof -
  let ?db = "authentications out st history db1"
  obtain sr where sr: "check_signature out auth rq body http_method path = Ok sr"
    "consume_nonce (sr_key_id sr) (sr_nonce sr) (rq_nonce_clock rq)
       (rq_nonce_clock rq + aa_allowed_skew_seconds auth * 1000000000) db = (Ok (), db1)"
    using assms(2,3) by (auto elim!: authenticate_request_Ok)
  note here = check_signature_Ok(1,2)[OF sr(1)]
  have "db_ok db1" using consume_nonce_ok[OF assms(1)] sr(2) by (metis snd_conv)
  moreover have "nonce_reserved db1 (sr_key_id sr) (sr_nonce sr) =
      Some (unix_timestamp (rq_nonce_clock rq) + aa_allowed_skew_seconds auth)"
    using sqlite_nonces.consume_records[OF assms(1), of "sr_key_id sr" "sr_nonce sr" "rq_nonce_clock rq"
      "rq_nonce_clock rq + aa_allowed_skew_seconds auth * 1000000000"] sr(2) by simp
  ultimately have kept: "db_ok ?db" "nonce_reserved ?db (sr_key_id sr) (sr_nonce sr) =
      Some (unix_timestamp (rq_nonce_clock rq) + aa_allowed_skew_seconds auth)"
    using authentications_remember assms(4) by blast+
  show ?thesis
  proof (cases "authenticate_request out st rq' body' http_method' path' ?db")
    case (Pair r db2)
    show ?thesis
    proof (cases r)
      case (Inl f)
      then show ?thesis using Pair authenticate_request_Err by blast
    next
      case (Inr t)
      then obtain sr' where sr': "check_signature out auth rq' body' http_method' path' = Ok sr'"
        "consume_nonce (sr_key_id sr') (sr_nonce sr') (rq_nonce_clock rq')
           (rq_nonce_clock rq' + aa_allowed_skew_seconds auth * 1000000000) ?db = (Ok (), db2)"
        using assms(2) Pair by (auto elim!: authenticate_request_Ok)
      note there = check_signature_Ok(1,2)[OF sr'(1)]
      have "sr_key_id sr' = sr_key_id sr" "sr_nonce sr' = sr_nonce sr"
        using here there assms(5) by (simp_all add: required_header_def)
      then have "fst (consume_nonce (sr_key_id sr) (sr_nonce sr) (rq_nonce_clock rq')
           (rq_nonce_clock rq' + aa_allowed_skew_seconds auth * 1000000000) ?db) = Ok ()"
        using sr'(2) by simp
      then show ?thesis using sqlite_nonces.consume_fresh[OF kept(1) _ kept(2)] assms(6) by fastforce
    qed
  qed
qed

text \<open>
  C19. The window closes one second late: a request whose timestamp is not behind the second of its
  acceptance is accepted a second time, with the same headers, as soon as the skew has passed since the
  acceptance and for as long as its timestamp stays within the skew.
\<close>

theorem replay_accepted_when_the_nonce_expires:
  assumes "st_auth st = Some auth"
    and "authenticate_request out st rq body http_method path db = (Ok tenant, db1)"
    and "Option.bind (Option.bind (rq_headers rq ''x-g7mb-timestamp'') (header_to_str out)) parse_i64 = Some ts"
    and "unix_timestamp (rq_nonce_clock rq) + aa_allowed_skew_seconds auth \<le> unix_timestamp c"
    and "unix_timestamp c \<le> ts + aa_allowed_skew_seconds auth" "ts \<le> unix_timestamp c"
  shows "fst (authenticate_request out st (rq\<lparr>rq_verify_clock := c, rq_nonce_clock := c\<rparr>) body http_method path db1) =
    Ok tenant"
proof -
  obtain sr where sr: "check_signature out auth rq body http_method path = Ok sr"
    "consume_nonce (sr_key_id sr) (sr_nonce sr) (rq_nonce_clock rq)
       (rq_nonce_clock rq + aa_allowed_skew_seconds auth * 1000000000) db = (Ok (), db1)"
    "tenant = aa_tenant_id auth" "st_nonce_store st"
    using assms(1,2) by (auto elim!: authenticate_request_Ok)
  have "sr_timestamp sr = ts" using check_signature_Ok(3)[OF sr(1)] assms(3) by simp
  then have again: "check_signature out auth (rq\<lparr>rq_verify_clock := c, rq_nonce_clock := c\<rparr>) body http_method path = Ok sr"
    using check_signature_later[OF sr(1)] assms(5,6) by simp
  let ?u = "\<lambda>t. t + aa_allowed_skew_seconds auth * 1000000000"
  have "fst (consume_nonce (sr_key_id sr) (sr_nonce sr) c (?u c) db1) = Ok ()"
  proof (rule expired_nonce_accepted[OF sr(2)])
    show "c < ?u c" using arg_cong[OF sr(2), of fst] by (simp add: consume_nonce_def split: if_splits)
  qed (simp add: assms(4))
  then show ?thesis
    using again sr(3,4) assms(1) by (auto simp: authenticate_request_def split: prod.split sum.split)
qed

section \<open>Witnesses\<close>

definition sample_outside :: outside where
  "sample_outside =
     \<lparr>out_crypto = sample_crypto, out_uuid = \<lparr>parse_uuid = (\<lambda>_. None), show_uuid = (\<lambda>_. [])\<rparr>, out_url = sample_world,
      header_to_str = Some, json_batch = (\<lambda>_. None), json_part = (\<lambda>_. None), json_complete = (\<lambda>_. None),
      json_policy = (\<lambda>_. None), representable = (\<lambda>_. True)\<rparr>"

definition sample_auth :: ApiAuth where
  "sample_auth = \<lparr>aa_key_id = ''php-site'', aa_tenant_id = ''tenant-a'', aa_secret = sample_secret,
     aa_allowed_skew_seconds = 300\<rparr>"

lemma sample_auth_skew: "0 < aa_allowed_skew_seconds sample_auth"
  by (simp add: sample_auth_def)

definition sample_state :: "unit ApiState" where
  "sample_state = (ApiState_new True)\<lparr>st_nonce_store := True, st_auth := Some sample_auth\<rparr>"

text \<open>A request signed and handled at second 1000.\<close>

definition sample_api_request :: api_request where
  "sample_api_request =
     \<lparr>rq_headers = [''x-g7mb-key-id'' \<mapsto> ''php-site'', ''x-g7mb-timestamp'' \<mapsto> ''1000'',
        ''x-g7mb-nonce'' \<mapsto> sr_nonce sample_signed_request,
        ''x-g7mb-content-sha256'' \<mapsto> sr_body_sha256 sample_signed_request,
        ''x-g7mb-signature'' \<mapsto> sample_secret @ request_payload sample_signed_request],
      rq_body = [], rq_path_and_query = sr_path_and_query sample_signed_request, rq_upload_id = [], rq_part_number = 1,
      rq_variant = [], rq_verify_clock = 1000000000000, rq_nonce_clock = 1000000000000, rq_service_clock = 0,
      rq_store_clock = 0, rq_batch_id = 0, rq_fresh = (\<lambda>_. 0), rq_generated_id = []\<rparr>"


lemma sample_api_request_signed:
  "check_signature sample_outside sample_auth sample_api_request [] ''PUT'' ''/v1/site-policy'' =
     Ok (sample_signed_request\<lparr>sr_signature := sample_secret @ request_payload sample_signed_request\<rparr>)"
proof -
  have "parse_i64 ''1000'' = Some 1000"
    by (simp add: parse_i64_def parse_digits_def byte_tests decimal_value_def digit_def)
  moreover have "verify sample_crypto (sample_signed_request\<lparr>sr_signature :=
      sample_secret @ request_payload sample_signed_request\<rparr>) sample_secret 1000 300 = Ok ()"
    using sample_request_valid by (simp add: verify_def sample_crypto_def) (simp add: sample_signed_request_def)
  ultimately show ?thesis
    by (simp add: check_signature_def required_header_def sample_outside_def sample_auth_def sample_api_request_def
        sample_crypto_def sample_signed_request_def unix_timestamp_def)
qed

lemma sample_api_request_accepted:
  "authenticate_request sample_outside sample_state sample_api_request [] ''PUT'' ''/v1/site-policy'' empty_database =
     (Ok ''tenant-a'', empty_database\<lparr>request_nonces := [\<lparr>nonce_key = ''php-site'',
        nonce_value = ''nonce-0123456789'', nonce_expires = 1300\<rparr>]\<rparr>)"
  using sample_api_request_signed
  by (simp add: authenticate_request_def sample_state_def ApiState_new_def)
    (simp add: sample_signed_request_def sample_auth_skew sample_api_request_def consume_nonce_def empty_database_def
      unix_timestamp_def, simp add: sample_auth_def)

theorem accepted_request_is_not_replayed_witness:
  "\<exists>f. authenticate_request sample_outside sample_state sample_api_request [] ''PUT'' ''/v1/site-policy''
     (authentications sample_outside sample_state [] (empty_database\<lparr>request_nonces := [\<lparr>nonce_key = ''php-site'',
        nonce_value = ''nonce-0123456789'', nonce_expires = 1300\<rparr>]\<rparr>)) =
     (Err f, authentications sample_outside sample_state [] (empty_database\<lparr>request_nonces := [\<lparr>nonce_key = ''php-site'',
        nonce_value = ''nonce-0123456789'', nonce_expires = 1300\<rparr>]\<rparr>))"
  by (rule accepted_request_is_not_replayed[where auth = sample_auth, OF db_ok_empty _ sample_api_request_accepted])
    (simp_all add: sample_state_def sample_auth_def)

text \<open>The request of second 1000, timestamped with that second, is accepted again at second 1300.\<close>

theorem replay_accepted_when_the_nonce_expires_witness:
  "fst (authenticate_request sample_outside sample_state
     (sample_api_request\<lparr>rq_verify_clock := 1300000000000, rq_nonce_clock := 1300000000000\<rparr>) [] ''PUT'' ''/v1/site-policy''
     (empty_database\<lparr>request_nonces := [\<lparr>nonce_key = ''php-site'', nonce_value = ''nonce-0123456789'',
        nonce_expires = 1300\<rparr>]\<rparr>)) = Ok ''tenant-a''"
proof (rule replay_accepted_when_the_nonce_expires[OF _ sample_api_request_accepted])
  show "st_auth sample_state = Some sample_auth" by (simp add: sample_state_def)
  show "Option.bind (Option.bind (rq_headers sample_api_request ''x-g7mb-timestamp'') (header_to_str sample_outside)) parse_i64 =
      Some 1000"
    by (simp add: sample_api_request_def sample_outside_def parse_i64_def parse_digits_def byte_tests decimal_value_def
        digit_def)
qed (simp_all add: sample_auth_def sample_api_request_def unix_timestamp_def)

end
