(* ===== verification/Sandbox_Probe.thy ===== *)
theory Sandbox_Probe
  imports Media
begin

text \<open>
  The sandbox boundary of \<open>apps/g7mb-worker/src/lib.rs\<close>: the watermark policy a worker hands over, the
  \<open>SandboxProbe\<close> port, and its implementation by a subprocess -- the arguments it is started with and
  how the ways it may end are classified.  The process itself is an argument: a function from its
  arguments and the files of the job to the way it ended and the files it left.  A path is a name in the
  job's private directory.
\<close>

section \<open>Watermark policy\<close>

record WatermarkPolicy =
  wp_asset_path :: string
  wp_asset_sha256 :: string
  wp_preset_revision :: string
  wp_position :: WatermarkPosition
  wp_margin_px :: u32
  wp_max_width_percent :: u8
  wp_opacity_percent :: u8

definition watermark_policy_is_valid :: "WatermarkPolicy \<Rightarrow> bool" where
  "watermark_policy_is_valid p \<longleftrightarrow>
     wp_asset_path p \<noteq> [] \<and>
     length (wp_asset_sha256 p) = 64 \<and> list_all is_lower_hex (wp_asset_sha256 p) \<and>
     1 \<le> length (wp_preset_revision p) \<and> length (wp_preset_revision p) \<le> 32 \<and>
     list_all (\<lambda>c. is_ascii_alphanumeric c \<or> c = CHR ''-'' \<or> c = CHR ''_'') (wp_preset_revision p) \<and>
     wp_margin_px p \<le> 1024 \<and>
     1 \<le> wp_max_width_percent p \<and> wp_max_width_percent p \<le> 50 \<and>
     1 \<le> wp_opacity_percent p \<and> wp_opacity_percent p \<le> 100"

definition default_derivative_preset :: string where
  "default_derivative_preset = ''board-default-v1''"

definition preset_id :: "WatermarkPolicy \<Rightarrow> string" where
  "preset_id p = default_derivative_preset @ ''-wm-'' @ wp_preset_revision p @ ''-'' @ wp_asset_sha256 p"

section \<open>The port\<close>

datatype MediaInspection =
    ImageInspected MediaFormat string ImageProbe | VideoInspected MediaFormat string VideoInspection

fun inspected_content_type :: "MediaInspection \<Rightarrow> string" where
  "inspected_content_type (ImageInspected _ t _) = t"
| "inspected_content_type (VideoInspected _ t _) = t"

datatype SandboxProbeError =
    SandboxInvalidConfiguration | SandboxOperational | SandboxSpawn string | SandboxTimeout | SandboxRejected
  | SandboxOutputTooLarge | SandboxInvalidJson string | SandboxOutput string | SandboxInvalidOutput

type_synonym files = "string \<rightharpoonup> string"

record Sandbox =
  sb_inspect :: "string \<Rightarrow> MediaKind \<Rightarrow> u64 \<Rightarrow> files \<Rightarrow> (SandboxProbeError, MediaInspection) result"
  sb_image_master :: "string \<Rightarrow> string \<Rightarrow> WatermarkPolicy option \<Rightarrow> files \<Rightarrow> (SandboxProbeError, unit) result \<times> files"
  sb_thumbnail :: "string \<Rightarrow> MediaInspection \<Rightarrow> string \<Rightarrow> WatermarkPolicy option \<Rightarrow> files
    \<Rightarrow> (SandboxProbeError, unit) result \<times> files"

section \<open>The subprocess\<close>

record ProcessSandboxProbe =
  psb_binary :: string
  psb_image_timeout :: duration
  psb_video_timeout :: duration
  psb_native_threads :: nat
  psb_max_output_bytes :: nat

definition ProcessSandboxProbe_new :: "string \<Rightarrow> duration \<Rightarrow> duration \<Rightarrow> nat \<Rightarrow> nat
    \<Rightarrow> (SandboxProbeError, ProcessSandboxProbe) result" where
  "ProcessSandboxProbe_new binary image_timeout video_timeout native_threads max_output_bytes =
     (if binary = [] \<or> image_timeout = 0 \<or> video_timeout = 0 \<or> native_threads = 0 \<or> native_threads > 16 \<or>
         max_output_bytes < 1024 \<or> max_output_bytes > 1048576
      then Err SandboxInvalidConfiguration
      else Ok \<lparr>psb_binary = binary, psb_image_timeout = image_timeout, psb_video_timeout = video_timeout,
              psb_native_threads = native_threads, psb_max_output_bytes = max_output_bytes\<rparr>)"

definition sanitized_master_max_edge :: u32 where
  "sanitized_master_max_edge = 8192"

definition allows_openh264_fallback :: "MediaFormat \<Rightarrow> string \<Rightarrow> bool" where
  "allows_openh264_fallback format codec \<longleftrightarrow> format = Mp4 \<and> codec = ''h264''"

fun video_master_extension :: "MediaFormat \<Rightarrow> string option" where
  "video_master_extension Mp4 = Some ''mp4''"
| "video_master_extension QuickTime = Some ''mov''"
| "video_master_extension Webm = Some ''webm''"
| "video_master_extension _ = None"

fun watermark_position_name :: "WatermarkPosition \<Rightarrow> string" where
  "watermark_position_name Center = ''center''"
| "watermark_position_name TopLeft = ''top-left''"
| "watermark_position_name TopRight = ''top-right''"
| "watermark_position_name BottomLeft = ''bottom-left''"
| "watermark_position_name BottomRight = ''bottom-right''"

definition watermark_arguments :: "WatermarkPolicy option \<Rightarrow> string list" where
  "watermark_arguments watermark =
     (case watermark of None \<Rightarrow> [] | Some p \<Rightarrow>
        [''--watermark'', wp_asset_path p, ''--watermark-position'', watermark_position_name (wp_position p),
         ''--watermark-margin-px'', show_nat (unat (wp_margin_px p)),
         ''--watermark-max-width-percent'', show_nat (unat (wp_max_width_percent p)),
         ''--watermark-opacity-percent'', show_nat (unat (wp_opacity_percent p))])"

definition image_arguments :: "ProcessSandboxProbe \<Rightarrow> string \<Rightarrow> string \<Rightarrow> u32 \<Rightarrow> WatermarkPolicy option \<Rightarrow> string list" where
  "image_arguments probe source output max_edge watermark =
     [''image-thumbnail'', ''--input'', source, ''--output'', output,
      ''--max-edge'', show_nat (unat max_edge), ''--format'', ''jpeg''] @
     watermark_arguments watermark @ [''--threads'', show_nat (psb_native_threads probe)]"

definition video_arguments :: "ProcessSandboxProbe \<Rightarrow> string \<Rightarrow> string \<Rightarrow> MediaFormat \<Rightarrow> VideoInspection
    \<Rightarrow> WatermarkPolicy option \<Rightarrow> string list" where
  "video_arguments probe source output format inspection watermark =
     [''video-thumbnail'', ''--input'', source, ''--output'', output,
      ''--timestamp-ms'', show_nat (unat (min (vp_duration_ms (vi_probe inspection) div 10) 1000)),
      ''--duration-ms'', show_nat (unat (vp_duration_ms (vi_probe inspection))),
      ''--max-width'', ''1280'',
      ''--timeout-seconds'', show_nat (max (as_secs (psb_video_timeout probe)) 1)] @
     (if allows_openh264_fallback format (vi_codec inspection) then [''--allow-openh264-fallback''] else []) @
     watermark_arguments watermark @ [''--threads'', show_nat (psb_native_threads probe)]"

definition inspect_arguments :: "ProcessSandboxProbe \<Rightarrow> string \<Rightarrow> MediaKind \<Rightarrow> u64 \<Rightarrow> string list" where
  "inspect_arguments probe source declared len =
     [''probe'', ''--input'', source,
      ''--declared-kind'', (case declared of Image \<Rightarrow> ''image'' | Video \<Rightarrow> ''video''),
      ''--byte-len'', show_nat (unat len),
      ''--timeout-seconds'', show_nat (as_secs (case declared of
         Image \<Rightarrow> psb_image_timeout probe | Video \<Rightarrow> psb_video_timeout probe)),
      ''--threads'', show_nat (psb_native_threads probe)]"

text \<open>A renderer's end: \<open>blame_worker\<close> holds where a failure is not the source's fault.\<close>

definition output_too_large :: "ProcessSandboxProbe \<Rightarrow> ProcessOutput \<Rightarrow> bool" where
  "output_too_large probe out \<longleftrightarrow>
     length (po_stdout out) > psb_max_output_bytes probe \<or> length (po_stderr out) > psb_max_output_bytes probe"

definition render_result :: "ProcessSandboxProbe \<Rightarrow> bool \<Rightarrow> ProcessOutcome \<Rightarrow> string option
    \<Rightarrow> (SandboxProbeError, unit) result" where
  "render_result probe blame_worker outcome generated =
     (case outcome of
        TimedOut \<Rightarrow> Err SandboxTimeout
      | NotStarted e \<Rightarrow> Err (SandboxSpawn e)
      | WaitFailed e \<Rightarrow> Err (SandboxSpawn e)
      | Exited out \<Rightarrow>
          if \<not> po_success out then Err (if blame_worker then SandboxOperational else SandboxRejected)
          else if output_too_large probe out then Err SandboxOutputTooLarge
          else (case generated of
              None \<Rightarrow> Err (SandboxOutput ''No such file or directory'')
            | Some content \<Rightarrow>
                if content = [] then Err (if blame_worker then SandboxOperational else SandboxInvalidOutput)
                else Ok ()))"

type_synonym spawn = "string list \<Rightarrow> files \<Rightarrow> ProcessOutcome \<times> files"

definition render_image :: "spawn \<Rightarrow> ProcessSandboxProbe \<Rightarrow> string \<Rightarrow> string \<Rightarrow> u32 \<Rightarrow> WatermarkPolicy option \<Rightarrow> files
    \<Rightarrow> (SandboxProbeError, unit) result \<times> files" where
  "render_image run probe source output max_edge watermark fs =
     (case run (image_arguments probe source output max_edge watermark) fs of (outcome, fs') \<Rightarrow>
        (render_result probe (watermark \<noteq> None) outcome (fs' output), fs'))"

definition process_thumbnail :: "spawn \<Rightarrow> ProcessSandboxProbe \<Rightarrow> string \<Rightarrow> MediaInspection \<Rightarrow> string
    \<Rightarrow> WatermarkPolicy option \<Rightarrow> files \<Rightarrow> (SandboxProbeError, unit) result \<times> files" where
  "process_thumbnail run probe source inspection output watermark fs =
     (case inspection of
        ImageInspected _ _ _ \<Rightarrow> render_image run probe source output 1280 watermark fs
      | VideoInspected format _ facts \<Rightarrow>
          (case run (video_arguments probe source output format facts watermark) fs of (outcome, fs') \<Rightarrow>
             (render_result probe True outcome (fs' output), fs')))"

definition process_inspect :: "spawn \<Rightarrow> (string \<Rightarrow> (string, MediaInspection) result) \<Rightarrow> ProcessSandboxProbe \<Rightarrow> string
    \<Rightarrow> MediaKind \<Rightarrow> u64 \<Rightarrow> files \<Rightarrow> (SandboxProbeError, MediaInspection) result" where
  "process_inspect run from_json probe source declared len fs =
     (case fst (run (inspect_arguments probe source declared len) fs) of
        TimedOut \<Rightarrow> Err SandboxTimeout
      | NotStarted e \<Rightarrow> Err (SandboxSpawn e)
      | WaitFailed e \<Rightarrow> Err (SandboxSpawn e)
      | Exited out \<Rightarrow>
          if \<not> po_success out then Err SandboxRejected
          else if output_too_large probe out then Err SandboxOutputTooLarge
          else (case from_json (po_stdout out) of Inl e \<Rightarrow> Err (SandboxInvalidJson e) | Inr i \<Rightarrow> Ok i))"

definition process_sandbox :: "spawn \<Rightarrow> (string \<Rightarrow> (string, MediaInspection) result) \<Rightarrow> ProcessSandboxProbe \<Rightarrow> Sandbox" where
  "process_sandbox run from_json probe =
     \<lparr>sb_inspect = process_inspect run from_json probe,
      sb_image_master = (\<lambda>source output watermark. render_image run probe source output sanitized_master_max_edge watermark),
      sb_thumbnail = process_thumbnail run probe\<rparr>"

text \<open>A renderer that reports success has left a non-empty file.\<close>

lemma render_result_Ok: "render_result probe b outcome generated = Ok () \<Longrightarrow> \<exists>content. generated = Some content \<and> content \<noteq> []"
  by (auto simp: render_result_def split: ProcessOutcome.splits if_splits option.splits)

lemma render_image_Ok:
  "render_image run probe source output edge watermark fs = (Ok (), fs') \<Longrightarrow> \<exists>content. fs' output = Some content \<and> content \<noteq> []"
  by (auto simp: render_image_def split: prod.splits dest: render_result_Ok)

lemma process_thumbnail_Ok:
  "process_thumbnail run probe source inspection output watermark fs = (Ok (), fs') \<Longrightarrow>
     \<exists>content. fs' output = Some content \<and> content \<noteq> []"
  by (auto simp: process_thumbnail_def split: prod.splits MediaInspection.splits dest: render_result_Ok render_image_Ok)

text \<open>The frame asked for lies inside the video.\<close>

lemma thumbnail_timestamp_inside: "d \<noteq> 0 \<Longrightarrow> min (d div 10) 1000 < (d :: u64)"
proof -
  assume "d \<noteq> 0"
  then have "unat d \<noteq> 0" by (simp add: unat_eq_zero)
  then have "unat (d div 10) < unat d" by (simp add: unat_div)
  then show ?thesis by (auto simp: word_less_nat_alt word_le_nat_alt min_def)
qed

end
