(* ===== verification/Worker.thy ===== *)
theory Worker
  imports Sandbox_Probe Ports Job_Queue Processing_Repository Site_Policy
begin

text \<open>
  The source-validation worker of \<open>apps/g7mb-worker/src/lib.rs\<close>: its resource policy, the reservation of
  temporary disk, and \<open>run_one\<close> -- claim a job, validate and transform the source, publish, and settle
  the lease.  A run is a function of the worker's ports, the world and an agenda.  Wherever the code
  awaits, the agenda says what other actors have done to the database meanwhile, which heartbeats fell
  due, what the clock reads and whether a local file operation succeeds; a heartbeat that cannot renew
  the lease drops the processing at that point.  Metrics are not modelled.
\<close>

section \<open>Policy\<close>

definition source_validation_preset :: string where
  "source_validation_preset = ''source-validation-v1''"

definition max_watermark_bytes :: u64 where
  "max_watermark_bytes = 16 * 1024 * 1024"

definition temp_disk_permit_bytes :: u64 where
  "temp_disk_permit_bytes = 1024 * 1024"

definition max_temp_disk_limit :: u64 where
  "max_temp_disk_limit = 1024 * 1024 * 1024 * 1024"

definition required_temp_disk_bytes :: "u64 \<Rightarrow> u64 \<Rightarrow> u64 option" where
  "required_temp_disk_bytes max_image max_video =
     Option.bind (checked_mul max_image 2) (\<lambda>twice.
     Option.bind (checked_add twice (max max_image max_video)) (\<lambda>v.
     checked_add v max_watermark_bytes))"

definition temp_disk_permits :: "u64 \<Rightarrow> u32 option" where
  "temp_disk_permits amount =
     (let n = (unat amount + unat temp_disk_permit_bytes - 1) div unat temp_disk_permit_bytes in
      if n < 2 ^ 32 then Some (of_nat n) else None)"

record WorkerPolicy =
  wpo_lease_for :: duration
  wpo_heartbeat_every :: duration
  wpo_retry_delay :: duration
  wpo_max_attempts :: u32
  wpo_max_heavy_images :: nat
  wpo_max_videos :: nat
  wpo_max_image_bytes :: u64
  wpo_max_video_bytes :: u64
  wpo_max_temp_disk_bytes :: u64
  wpo_temp_directory :: string
  wpo_watermark :: "WatermarkPolicy option"

datatype WorkerError =
    WInvalidPolicy | WQueue JobQueueError | WRepository ProcessingRepositoryError | WOperational string

text \<open>\<open>Duration::saturating_mul\<close> saturates at the largest duration.\<close>

definition max_duration :: duration where
  "max_duration = (2 ^ 64 - 1) * 1000000000 + 999999999"

definition validate_worker_policy :: "WorkerPolicy \<Rightarrow> (WorkerError, unit) result" where
  "validate_worker_policy p =
     (if wpo_lease_for p = 0 \<or> wpo_heartbeat_every p = 0 \<or>
         wpo_lease_for p \<le> min (wpo_heartbeat_every p * 2) max_duration \<or>
         wpo_retry_delay p = 0 \<or> wpo_max_attempts p = 0 \<or>
         wpo_max_heavy_images p = 0 \<or> wpo_max_heavy_images p > 32 \<or>
         wpo_max_videos p = 0 \<or> wpo_max_videos p > 32 \<or>
         wpo_max_image_bytes p = 0 \<or> wpo_max_video_bytes p = 0 \<or>
         (case required_temp_disk_bytes (wpo_max_image_bytes p) (wpo_max_video_bytes p) of
            None \<Rightarrow> True | Some needed \<Rightarrow> wpo_max_temp_disk_bytes p < needed) \<or>
         wpo_max_temp_disk_bytes p > max_temp_disk_limit \<or>
         temp_disk_permits (wpo_max_temp_disk_bytes p) = None \<or>
         wpo_temp_directory p = [] \<or>
         (case wpo_watermark p of None \<Rightarrow> False | Some wm \<Rightarrow> \<not> watermark_policy_is_valid wm)
      then Err WInvalidPolicy else Ok ())"

section \<open>Ports and world\<close>

record DownloadObjectRequest =
  dor_key :: string
  dor_destination :: string
  dor_expected_length :: u64
  dor_max_length :: u64

record PutFileRequest =
  pfr_key :: string
  pfr_source :: string
  pfr_content_type :: string

text \<open>The two operations of the object-store port that touch local files.\<close>

record 'o FileStore =
  download_to :: "DownloadObjectRequest \<Rightarrow> 'o \<times> files \<Rightarrow> (ObjectStoreError, ObjectMetadata) result \<times> 'o \<times> files"
  put_file :: "PutFileRequest \<Rightarrow> files \<Rightarrow> 'o \<Rightarrow> (ObjectStoreError, ObjectMetadata) result \<times> 'o"

text \<open>The worker: \<open>host_files\<close> are files outside the job directories, \<open>sha256\<close> and the printing of
  identifiers are other crates'.\<close>

record ('r, 'd) SourceValidationWorker =
  raw_files :: "'r FileStore"
  derivative_files :: "'d FileStore"
  worker_sandbox :: Sandbox
  worker_policy :: WorkerPolicy
  host_files :: files
  worker_sha256 :: "string \<Rightarrow> string"
  worker_show_uuid :: "uuid \<Rightarrow> string"
  worker_representable :: "int \<Rightarrow> bool"

record ('r, 'd) worker_world =
  wk_raw :: 'r
  wk_derivatives :: 'd
  wk_files :: files
  wk_db :: Database
  wk_awaits :: nat

record agenda =
  ag_others :: "nat \<Rightarrow> Database \<Rightarrow> Database"
  ag_heartbeats :: "nat \<Rightarrow> instant list"
  ag_clock :: "nat \<Rightarrow> instant"
  ag_io :: "nat \<Rightarrow> bool"

datatype ProcessingFailure = Permanent string | Transient string | OperationalFailure string

text \<open>Why processing stops early: its own failure, a lost lease, or a reservation larger than the
  semaphore, which is waited for without end.\<close>

datatype interruption = Failed ProcessingFailure | Dropped WorkerError | Stuck

type_synonym ('r, 'd, 'a) work = "('r, 'd) worker_world \<Rightarrow> (interruption, 'a) result \<times> ('r, 'd) worker_world"

definition work_bind :: "('r, 'd, 'a) work \<Rightarrow> ('a \<Rightarrow> ('r, 'd, 'b) work) \<Rightarrow> ('r, 'd, 'b) work" where
  "work_bind m f w = (case m w of (Inl e, w') \<Rightarrow> (Err e, w') | (Inr a, w') \<Rightarrow> f a w')"

definition work_return :: "'a \<Rightarrow> ('r, 'd, 'a) work" where
  "work_return a w = (Ok a, w)"

definition work_fail :: "ProcessingFailure \<Rightarrow> ('r, 'd, 'a) work" where
  "work_fail f w = (Err (Failed f), w)"

text \<open>A durable operation outside the processing loop.\<close>

definition call :: "agenda \<Rightarrow> (instant \<Rightarrow> Database \<Rightarrow> ('e, 'a) result \<times> Database) \<Rightarrow> ('r, 'd) worker_world
    \<Rightarrow> ('e, 'a) result \<times> ('r, 'd) worker_world" where
  "call ag op w =
     (case op (ag_clock ag (wk_awaits w)) (ag_others ag (wk_awaits w) (wk_db w)) of
        (r, db) \<Rightarrow> (r, w\<lparr>wk_db := db, wk_awaits := Suc (wk_awaits w)\<rparr>))"

text \<open>The heartbeats that fall due while an operation is awaited, and an await that yields its number.\<close>

type_synonym renewal = "instant \<Rightarrow> Database \<Rightarrow> (JobQueueError, int) result \<times> Database"

fun heartbeats :: "renewal \<Rightarrow> instant list \<Rightarrow> Database \<Rightarrow> (JobQueueError, unit) result \<times> Database" where
  "heartbeats lease [] db = (Ok (), db)"
| "heartbeats lease (now # ticks) db =
     (case lease now db of (Inl e, db') \<Rightarrow> (Err e, db') | (Inr _, db') \<Rightarrow> heartbeats lease ticks db')"

definition await :: "agenda \<Rightarrow> renewal \<Rightarrow> ('r, 'd, nat) work" where
  "await ag lease w =
     (let n = wk_awaits w in
      case heartbeats lease (ag_heartbeats ag n) (ag_others ag n (wk_db w)) of
        (Inl e, db) \<Rightarrow> (Err (Dropped (WQueue e)), w\<lparr>wk_db := db, wk_awaits := Suc n\<rparr>)
      | (Inr _, db) \<Rightarrow> (Ok n, w\<lparr>wk_db := db, wk_awaits := Suc n\<rparr>))"

text \<open>A durable operation, a storage operation and a local file operation of the processing.\<close>

definition durable :: "agenda \<Rightarrow> renewal \<Rightarrow> ('e \<Rightarrow> ProcessingFailure) \<Rightarrow> (instant \<Rightarrow> Database \<Rightarrow> ('e, 'a) result \<times> Database)
    \<Rightarrow> ('r, 'd, 'a) work" where
  "durable ag lease failure op = work_bind (await ag lease) (\<lambda>n w.
     case op (ag_clock ag n) (wk_db w) of
       (Inl e, db) \<Rightarrow> (Err (Failed (failure e)), w\<lparr>wk_db := db\<rparr>) | (Inr a, db) \<Rightarrow> (Ok a, w\<lparr>wk_db := db\<rparr>))"

definition download :: "agenda \<Rightarrow> renewal \<Rightarrow> ('r, 'd) SourceValidationWorker \<Rightarrow> (ObjectStoreError \<Rightarrow> ProcessingFailure)
    \<Rightarrow> DownloadObjectRequest \<Rightarrow> ('r, 'd, unit) work" where
  "download ag lease worker failure request = work_bind (await ag lease) (\<lambda>n w.
     case download_to (raw_files worker) request (wk_raw w, wk_files w) of
       (Inl e, r, fs) \<Rightarrow> (Err (Failed (failure e)), w\<lparr>wk_raw := r, wk_files := fs\<rparr>)
     | (Inr _, r, fs) \<Rightarrow> (Ok (), w\<lparr>wk_raw := r, wk_files := fs\<rparr>))"

definition local_file :: "agenda \<Rightarrow> renewal \<Rightarrow> ProcessingFailure \<Rightarrow> string \<Rightarrow> ('r, 'd, string) work" where
  "local_file ag lease failure path = work_bind (await ag lease) (\<lambda>n w.
     case wk_files w path of
       None \<Rightarrow> (Err (Failed failure), w)
     | Some content \<Rightarrow> (if ag_io ag n then Ok content else Err (Failed failure), w))"

section \<open>Classification of failures\<close>

fun classify_storage_error :: "ObjectStoreError \<Rightarrow> ProcessingFailure" where
  "classify_storage_error ContentLengthMismatch = Permanent ''SOURCE_LENGTH_REJECTED''"
| "classify_storage_error (InvalidRequest _) = Permanent ''SOURCE_LENGTH_REJECTED''"
| "classify_storage_error ObjectNotFound = Transient ''SOURCE_NOT_FOUND''"
| "classify_storage_error (StoreBackend _) = Transient ''STORAGE_UNAVAILABLE''"

fun classify_sandbox_error :: "SandboxProbeError \<Rightarrow> ProcessingFailure" where
  "classify_sandbox_error SandboxOperational = OperationalFailure ''MEDIA_RENDERER_UNAVAILABLE''"
| "classify_sandbox_error SandboxRejected = Permanent ''MEDIA_DECODER_REJECTED''"
| "classify_sandbox_error SandboxTimeout = Transient ''MEDIA_PROBE_TIMEOUT''"
| "classify_sandbox_error SandboxInvalidConfiguration = Transient ''SANDBOX_UNAVAILABLE''"
| "classify_sandbox_error (SandboxSpawn _) = Transient ''SANDBOX_UNAVAILABLE''"
| "classify_sandbox_error SandboxOutputTooLarge = Transient ''SANDBOX_UNAVAILABLE''"
| "classify_sandbox_error (SandboxInvalidJson _) = Transient ''SANDBOX_UNAVAILABLE''"
| "classify_sandbox_error (SandboxOutput _) = Transient ''SANDBOX_UNAVAILABLE''"
| "classify_sandbox_error SandboxInvalidOutput = Permanent ''THUMBNAIL_REJECTED''"

text \<open>A renderer, and the inspection of the source.\<close>

definition render :: "agenda \<Rightarrow> renewal \<Rightarrow> (files \<Rightarrow> (SandboxProbeError, unit) result \<times> files) \<Rightarrow> ('r, 'd, unit) work" where
  "render ag lease run = work_bind (await ag lease) (\<lambda>n w.
     case run (wk_files w) of
       (Inl e, fs) \<Rightarrow> (Err (Failed (classify_sandbox_error e)), w\<lparr>wk_files := fs\<rparr>)
     | (Inr _, fs) \<Rightarrow> (Ok (), w\<lparr>wk_files := fs\<rparr>))"

definition inspect_source :: "agenda \<Rightarrow> renewal \<Rightarrow> Sandbox \<Rightarrow> ProcessingSource \<Rightarrow> ('r, 'd, MediaInspection) work" where
  "inspect_source ag lease sandbox source = work_bind (await ag lease) (\<lambda>n w.
     case sb_inspect sandbox ''source'' (ps_declared_kind source) (ps_expected_size source) (wk_files w) of
       Inl e \<Rightarrow> (Err (Failed (classify_sandbox_error e)), w) | Inr i \<Rightarrow> (Ok i, w))"

section \<open>Resource permits\<close>

definition temp_disk_reservation :: "WorkerPolicy \<Rightarrow> u64 \<Rightarrow> (ProcessingFailure, u32) result" where
  "temp_disk_reservation policy source_bytes =
     (let invalid = OperationalFailure ''TEMP_DISK_RESERVATION_INVALID'' in
      case checked_mul (wpo_max_image_bytes policy) 2 of None \<Rightarrow> Err invalid | Some twice \<Rightarrow>
      (case Option.bind (checked_add source_bytes twice) (\<lambda>b. checked_add b max_watermark_bytes) of
         None \<Rightarrow> Err invalid
       | Some reservation \<Rightarrow>
           (case temp_disk_permits reservation of None \<Rightarrow> Err invalid | Some permits \<Rightarrow> Ok permits)))"

definition acquire_temp_disk_permit :: "agenda \<Rightarrow> renewal \<Rightarrow> WorkerPolicy \<Rightarrow> u64 \<Rightarrow> ('r, 'd, u32) work" where
  "acquire_temp_disk_permit ag lease policy source_bytes =
     (case temp_disk_reservation policy source_bytes of
        Inl f \<Rightarrow> work_fail f
      | Inr permits \<Rightarrow>
          if (case temp_disk_permits (wpo_max_temp_disk_bytes policy) of
                None \<Rightarrow> True | Some available \<Rightarrow> available < permits)
          then (\<lambda>w. (Err Stuck, w))
          else work_bind (await ag lease) (\<lambda>n. work_return permits))"

datatype lane = HeavyImageLane | VideoLane

fun transform_lane :: "MediaInspection \<Rightarrow> lane option" where
  "transform_lane (ImageInspected _ _ probe) = (if work_class probe = Heavy then Some HeavyImageLane else None)"
| "transform_lane (VideoInspected _ _ _) = Some VideoLane"

definition acquire_transform_permit :: "agenda \<Rightarrow> renewal \<Rightarrow> MediaInspection \<Rightarrow> ('r, 'd, lane option) work" where
  "acquire_transform_permit ag lease inspection =
     (case transform_lane inspection of
        None \<Rightarrow> work_return None
      | Some l \<Rightarrow> work_bind (await ag lease) (\<lambda>n. work_return (Some l)))"

section \<open>Preparing the watermark\<close>

text \<open>The private directory of a job.\<close>

definition private_directory :: "agenda \<Rightarrow> renewal \<Rightarrow> ('r, 'd, unit) work" where
  "private_directory ag lease = work_bind (await ag lease) (\<lambda>n w.
     if ag_io ag n then (Ok (), w\<lparr>wk_files := Map.empty\<rparr>)
     else (Err (Failed (Transient ''TEMP_STORAGE_UNAVAILABLE'')), w))"

definition registered_watermark :: string where
  "registered_watermark = ''registered-watermark''"

definition copy_configured_watermark :: "agenda \<Rightarrow> renewal \<Rightarrow> ('r, 'd) SourceValidationWorker \<Rightarrow> WatermarkPolicy
    \<Rightarrow> ('r, 'd, unit) work" where
  "copy_configured_watermark ag lease worker configured = work_bind (await ag lease) (\<lambda>n w.
     let unavailable = (Err (Failed (OperationalFailure ''WATERMARK_ASSET_UNAVAILABLE'')), w) in
     if \<not> ag_io ag n then unavailable
     else (case host_files worker (wp_asset_path configured) of
         None \<Rightarrow> unavailable
       | Some asset \<Rightarrow>
           if asset = [] \<or> length asset > unat max_watermark_bytes
           then (Err (Failed (OperationalFailure ''WATERMARK_ASSET_INVALID'')), w)
           else if wk_files w registered_watermark \<noteq> None then unavailable
           else (Ok (), w\<lparr>wk_files := (wk_files w)(registered_watermark \<mapsto> asset)\<rparr>)))"

definition prepare_object_watermark :: "agenda \<Rightarrow> renewal \<Rightarrow> ('r, 'd) SourceValidationWorker \<Rightarrow> nat \<Rightarrow> StoredWatermarkPolicy
    \<Rightarrow> ('r, 'd, WatermarkPolicy) work" where
  "prepare_object_watermark ag lease worker revision stored =
     work_bind (download ag lease worker (\<lambda>_. OperationalFailure ''WATERMARK_ASSET_UNAVAILABLE'')
       \<lparr>dor_key = swp_object_key stored, dor_destination = registered_watermark,
        dor_expected_length = swp_byte_len stored, dor_max_length = max_watermark_bytes\<rparr>) (\<lambda>_.
     work_bind (local_file ag lease (OperationalFailure ''WATERMARK_ASSET_UNAVAILABLE'') registered_watermark) (\<lambda>content.
       if worker_sha256 worker content \<noteq> swp_sha256 stored
       then work_fail (OperationalFailure ''WATERMARK_DIGEST_MISMATCH'')
       else work_return
         \<lparr>wp_asset_path = registered_watermark, wp_asset_sha256 = swp_sha256 stored,
          wp_preset_revision = ''g7-r'' @ show_nat revision, wp_position = swp_position stored,
          wp_margin_px = swp_margin stored, wp_max_width_percent = swp_max_width stored,
          wp_opacity_percent = swp_opacity stored\<rparr>))"

definition prepare_watermark :: "agenda \<Rightarrow> renewal \<Rightarrow> ('r, 'd) SourceValidationWorker \<Rightarrow> string \<Rightarrow> nat option
    \<Rightarrow> ('r, 'd, WatermarkPolicy option) work" where
  "prepare_watermark ag lease worker tenant_id site_policy_revision =
     (case site_policy_revision of
        Some revision \<Rightarrow>
          work_bind (durable ag lease (\<lambda>_. OperationalFailure ''SITE_POLICY_UNAVAILABLE'') (\<lambda>_ db.
              (find_site_policy_revision (worker_representable worker) tenant_id (of_nat revision) db, db))) (\<lambda>found.
          case found of
            None \<Rightarrow> work_fail (OperationalFailure ''SITE_POLICY_UNAVAILABLE'')
          | Some snapshot \<Rightarrow>
              if sps_revision snapshot \<noteq> of_nat revision \<or> sps_tenant_id snapshot \<noteq> tenant_id
              then work_fail (OperationalFailure ''SITE_POLICY_INVALID'')
              else (case sps_watermark snapshot of
                  Some stored \<Rightarrow> work_bind (prepare_object_watermark ag lease worker revision stored) (\<lambda>p. work_return (Some p))
                | None \<Rightarrow> work_return None))
      | None \<Rightarrow>
          (case wpo_watermark (worker_policy worker) of
             None \<Rightarrow> work_return None
           | Some configured \<Rightarrow>
               work_bind (copy_configured_watermark ag lease worker configured) (\<lambda>_.
               work_bind (local_file ag lease (OperationalFailure ''WATERMARK_ASSET_UNAVAILABLE'') registered_watermark)
                 (\<lambda>content.
               if worker_sha256 worker content \<noteq> wp_asset_sha256 configured
               then work_fail (OperationalFailure ''WATERMARK_DIGEST_MISMATCH'')
               else work_return (Some (configured\<lparr>wp_asset_path := registered_watermark\<rparr>))))))"

section \<open>Uploading the derivatives\<close>

definition derivative_key :: "('r, 'd) SourceValidationWorker \<Rightarrow> ProcessingSource \<Rightarrow> string \<Rightarrow> string \<Rightarrow> string
    \<Rightarrow> ('r, 'd, string) work" where
  "derivative_key worker source digest preset filename =
     (case ObjectKey_new (''media/'' @ ps_tenant_id source @ ''/'' @ worker_show_uuid worker (ps_upload_id source) @ ''/'' @
         digest @ ''/'' @ preset @ ''/'' @ filename) of
        Inl _ \<Rightarrow> work_fail (Transient ''DERIVATIVE_KEY_INVALID'')
      | Inr key \<Rightarrow> work_return key)"

text \<open>\<open>put_file\<close> and the comparison of the stored length.\<close>

definition put_derivative :: "agenda \<Rightarrow> renewal \<Rightarrow> ('r, 'd) SourceValidationWorker \<Rightarrow> PutFileRequest \<Rightarrow> u64
    \<Rightarrow> ('r, 'd, unit) work" where
  "put_derivative ag lease worker request len = work_bind (await ag lease) (\<lambda>n w.
     case put_file (derivative_files worker) request (wk_files w) (wk_derivatives w) of
       (Inl e, d) \<Rightarrow> (Err (Failed (classify_storage_error e)), w\<lparr>wk_derivatives := d\<rparr>)
     | (Inr m, d) \<Rightarrow>
         (if om_content_length m \<noteq> len then Err (Failed (Transient ''DERIVATIVE_LENGTH_MISMATCH'')) else Ok (),
          w\<lparr>wk_derivatives := d\<rparr>))"

definition upload_generated_derivative :: "agenda \<Rightarrow> renewal \<Rightarrow> ('r, 'd) SourceValidationWorker \<Rightarrow> string \<Rightarrow> string \<Rightarrow> string
    \<Rightarrow> string \<Rightarrow> string \<Rightarrow> ('r, 'd, PublishedDerivative) work" where
  "upload_generated_derivative ag lease worker path object_key preset variant media_type =
     work_bind (local_file ag lease (Transient ''TEMP_STORAGE_UNAVAILABLE'') path) (\<lambda>metadata.
     let len = of_nat (length metadata) in
     if len = 0 \<or> len > wpo_max_image_bytes (worker_policy worker)
     then work_fail (Permanent ''DERIVATIVE_SIZE_EXCEEDED'')
     else
     work_bind (local_file ag lease (Transient ''TEMP_STORAGE_UNAVAILABLE'') path) (\<lambda>content.
     work_bind (put_derivative ag lease worker \<lparr>pfr_key = object_key, pfr_source = path, pfr_content_type = media_type\<rparr> len)
       (\<lambda>_.
     work_return \<lparr>pd_object_key = object_key, pd_preset = preset, pd_variant = variant, pd_content_type = media_type,
        pd_byte_len = len, pd_sha256 = worker_sha256 worker content\<rparr>)))"

definition publish_master :: "agenda \<Rightarrow> renewal \<Rightarrow> ('r, 'd) SourceValidationWorker \<Rightarrow> ProcessingSource \<Rightarrow> MediaInspection
    \<Rightarrow> string \<Rightarrow> WatermarkPolicy option \<Rightarrow> string \<Rightarrow> ('r, 'd, PublishedDerivative) work" where
  "publish_master ag lease worker source inspection digest watermark preset =
     (case inspection of
        ImageInspected _ _ _ \<Rightarrow>
          work_bind (render ag lease (sb_image_master (worker_sandbox worker) ''source'' ''master.jpg'' watermark)) (\<lambda>_.
          work_bind (derivative_key worker source digest preset ''master.jpg'') (\<lambda>key.
          upload_generated_derivative ag lease worker ''master.jpg'' key preset ''master'' ''image/jpeg''))
      | VideoInspected format detected _ \<Rightarrow>
          (case video_master_extension format of
             None \<Rightarrow> work_fail (Permanent ''VIDEO_CONTAINER_UNSUPPORTED'')
           | Some suffix \<Rightarrow>
               work_bind (derivative_key worker source digest preset (''master.'' @ suffix)) (\<lambda>key.
               work_bind (put_derivative ag lease worker
                 \<lparr>pfr_key = key, pfr_source = ''source'', pfr_content_type = detected\<rparr> (ps_expected_size source)) (\<lambda>_.
               work_return \<lparr>pd_object_key = key, pd_preset = preset, pd_variant = ''master'', pd_content_type = detected,
                 pd_byte_len = ps_expected_size source, pd_sha256 = digest\<rparr>))))"

definition publish_thumbnail :: "agenda \<Rightarrow> renewal \<Rightarrow> ('r, 'd) SourceValidationWorker \<Rightarrow> ProcessingSource \<Rightarrow> MediaInspection
    \<Rightarrow> string \<Rightarrow> WatermarkPolicy option \<Rightarrow> string \<Rightarrow> ('r, 'd, PublishedDerivative) work" where
  "publish_thumbnail ag lease worker source inspection digest watermark preset =
     work_bind (render ag lease (sb_thumbnail (worker_sandbox worker) ''source'' inspection ''thumbnail.jpg'' watermark)) (\<lambda>_.
     work_bind (derivative_key worker source digest preset ''thumbnail.jpg'') (\<lambda>key.
     upload_generated_derivative ag lease worker ''thumbnail.jpg'' key preset ''thumbnail'' ''image/jpeg''))"

section \<open>Validating a source\<close>

definition database_unavailable :: "'e \<Rightarrow> ProcessingFailure" where
  "database_unavailable _ = Transient ''DATABASE_UNAVAILABLE''"

text \<open>Entering processing, or checking that a retried source is still the same.\<close>

definition begin_or_check :: "agenda \<Rightarrow> renewal \<Rightarrow> ProcessingSource \<Rightarrow> string \<Rightarrow> string \<Rightarrow> ('r, 'd, unit) work" where
  "begin_or_check ag lease source detected digest =
     (if ps_state source = Quarantined
      then durable ag lease database_unavailable (\<lambda>now. start_processing (ps_upload_id source) detected digest now)
      else if ps_sha256 source \<noteq> Some digest \<or> ps_detected_content_type source \<noteq> Some detected
      then work_fail (Permanent ''SOURCE_DIGEST_CHANGED'')
      else work_return ())"

definition check_signature_of_file :: "agenda \<Rightarrow> renewal \<Rightarrow> MediaKind \<Rightarrow> ('r, 'd, unit) work" where
  "check_signature_of_file ag lease declared = work_bind (await ag lease) (\<lambda>n w.
     case detect_file (case wk_files w ''source'' of None \<Rightarrow> Err ''missing''
         | Some content \<Rightarrow> if ag_io ag n then Ok content else Err ''unreadable'') declared of
       Inl _ \<Rightarrow> (Err (Failed (Permanent ''MEDIA_SIGNATURE_REJECTED'')), w) | Inr _ \<Rightarrow> (Ok (), w))"

definition transform_and_publish :: "agenda \<Rightarrow> renewal \<Rightarrow> ('r, 'd) SourceValidationWorker \<Rightarrow> ProcessingSource \<Rightarrow> nat option
    \<Rightarrow> MediaInspection \<Rightarrow> string \<Rightarrow> ('r, 'd, unit) work" where
  "transform_and_publish ag lease worker source site_policy_revision inspection digest =
     work_bind (prepare_watermark ag lease worker (ps_tenant_id source) site_policy_revision) (\<lambda>watermark.
     let preset = (case watermark of None \<Rightarrow> default_derivative_preset | Some p \<Rightarrow> preset_id p) in
     work_bind (publish_master ag lease worker source inspection digest watermark preset) (\<lambda>master.
     work_bind (publish_thumbnail ag lease worker source inspection digest watermark preset) (\<lambda>thumbnail.
     durable ag lease database_unavailable (\<lambda>now. publish_derivatives (ps_upload_id source) [master, thumbnail] now))))"

definition validate_downloaded_source :: "agenda \<Rightarrow> renewal \<Rightarrow> ('r, 'd) SourceValidationWorker \<Rightarrow> ProcessingSource
    \<Rightarrow> nat option \<Rightarrow> ('r, 'd, unit) work" where
  "validate_downloaded_source ag lease worker source site_policy_revision =
     (let max_length = (case ps_declared_kind source of
            Image \<Rightarrow> wpo_max_image_bytes (worker_policy worker) | Video \<Rightarrow> wpo_max_video_bytes (worker_policy worker)) in
      if ps_expected_size source > max_length then work_fail (Permanent ''MEDIA_SIZE_EXCEEDED'')
      else
      work_bind (acquire_temp_disk_permit ag lease (worker_policy worker) (ps_expected_size source)) (\<lambda>_.
      work_bind (private_directory ag lease) (\<lambda>_.
      work_bind (download ag lease worker classify_storage_error
        \<lparr>dor_key = ps_object_key source, dor_destination = ''source'',
         dor_expected_length = ps_expected_size source, dor_max_length = max_length\<rparr>) (\<lambda>_.
      work_bind (check_signature_of_file ag lease (ps_declared_kind source)) (\<lambda>_.
      work_bind (local_file ag lease (Transient ''TEMP_STORAGE_UNAVAILABLE'') ''source'') (\<lambda>content.
      let digest = worker_sha256 worker content in
      work_bind (inspect_source ag lease (worker_sandbox worker) source) (\<lambda>inspection.
      work_bind (acquire_transform_permit ag lease inspection) (\<lambda>_.
      work_bind (begin_or_check ag lease source (inspected_content_type inspection) digest) (\<lambda>_.
      transform_and_publish ag lease worker source site_policy_revision inspection digest)))))))))"

definition validate_source :: "agenda \<Rightarrow> renewal \<Rightarrow> ('r, 'd) SourceValidationWorker \<Rightarrow> uuid \<Rightarrow> nat option
    \<Rightarrow> ('r, 'd, unit) work" where
  "validate_source ag lease worker upload_id site_policy_revision =
     work_bind (durable ag lease database_unavailable (\<lambda>_ db. (find_processing_source upload_id db, db))) (\<lambda>found.
     case found of
       None \<Rightarrow> work_fail (Transient ''SOURCE_NOT_FOUND'')
     | Some source \<Rightarrow>
         if ps_state source \<in> {Rejected, Ready} then work_return ()
         else if ps_state source \<notin> {Quarantined, Processing} then work_fail (Transient ''SOURCE_STATE_CONFLICT'')
         else validate_downloaded_source ag lease worker source site_policy_revision)"

section \<open>Running one job\<close>

datatype RunOutcome = RunIdle | RunCompleted | RunRejected | RunRetryScheduled | RunDeadLetter

fun disposition_outcome :: "JobFailureDisposition \<Rightarrow> RunOutcome" where
  "disposition_outcome RetryScheduled = RunRetryScheduled"
| "disposition_outcome DeadLettered = RunDeadLetter"

type_synonym ('r, 'd) run_result = "(WorkerError, RunOutcome) result option \<times> ('r, 'd) worker_world"

text \<open>Completing the job, after rejecting its source where there is a code.\<close>

definition complete_job :: "agenda \<Rightarrow> string \<Rightarrow> LeasedProcessingJob \<Rightarrow> RunOutcome \<Rightarrow> ('r, 'd) worker_world \<Rightarrow> ('r, 'd) run_result" where
  "complete_job ag worker_id leased outcome w =
     (case call ag (\<lambda>now. complete (lj_job_id leased) worker_id now) w of
        (Inl e, w') \<Rightarrow> (Some (Err (WQueue e)), w') | (Inr _, w') \<Rightarrow> (Some (Ok outcome), w'))"

definition fail_job :: "agenda \<Rightarrow> WorkerPolicy \<Rightarrow> string \<Rightarrow> LeasedProcessingJob \<Rightarrow> string \<Rightarrow> ('r, 'd) worker_world
    \<Rightarrow> ('r, 'd) run_result" where
  "fail_job ag policy worker_id leased code w =
     (if as_secs (wpo_retry_delay policy) > i64_max then (Some (Err WInvalidPolicy), w)
      else (case call ag (\<lambda>now. fail (lj_job_id leased) worker_id now (now + int (wpo_retry_delay policy))
              (wpo_max_attempts policy) code) w of
          (Inl e, w') \<Rightarrow> (Some (Err (WQueue e)), w')
        | (Inr d, w') \<Rightarrow> (Some (Ok (disposition_outcome d)), w')))"

definition settle :: "agenda \<Rightarrow> WorkerPolicy \<Rightarrow> string \<Rightarrow> LeasedProcessingJob \<Rightarrow> (interruption, unit) result
    \<Rightarrow> ('r, 'd) worker_world \<Rightarrow> ('r, 'd) run_result" where
  "settle ag policy worker_id leased result w =
     (let reject = (\<lambda>code now. mark_rejected (pj_upload (lj_job leased)) code now) in
      case result of
        Inr _ \<Rightarrow> complete_job ag worker_id leased RunCompleted w
      | Inl Stuck \<Rightarrow> (None, w)
      | Inl (Dropped e) \<Rightarrow> (Some (Err e), w)
      | Inl (Failed (Permanent code)) \<Rightarrow>
          (case call ag (reject code) w of
             (Inl e, w') \<Rightarrow> (Some (Err (WRepository e)), w')
           | (Inr _, w') \<Rightarrow> complete_job ag worker_id leased RunRejected w')
      | Inl (Failed (Transient code)) \<Rightarrow>
          if lj_attempts leased \<ge> unat (wpo_max_attempts policy)
          then (case call ag (reject code) w of
                  (Inl e, w') \<Rightarrow> (Some (Err (WRepository e)), w')
                | (Inr _, w') \<Rightarrow> fail_job ag policy worker_id leased code w')
          else fail_job ag policy worker_id leased code w
      | Inl (Failed (OperationalFailure code)) \<Rightarrow> (Some (Err (WOperational code)), w))"

definition run_one :: "agenda \<Rightarrow> ('r, 'd) SourceValidationWorker \<Rightarrow> string \<Rightarrow> ('r, 'd) worker_world \<Rightarrow> ('r, 'd) run_result" where
  "run_one ag worker worker_id w =
     (let policy = worker_policy worker; rep = worker_representable worker in
      case call ag (\<lambda>now. claim_next rep worker_id now (wpo_lease_for policy)) w of
        (Inl e, w1) \<Rightarrow> (Some (Err (WQueue e)), w1)
      | (Inr None, w1) \<Rightarrow> (Some (Ok RunIdle), w1)
      | (Inr (Some leased), w1) \<Rightarrow>
          if pj_preset (lj_job leased) \<noteq> source_validation_preset
          then (case call ag (\<lambda>now. fail (lj_job_id leased) worker_id now now 1 ''UNSUPPORTED_PRESET'') w1 of
                  (Inl e, w2) \<Rightarrow> (Some (Err (WQueue e)), w2)
                | (Inr d, w2) \<Rightarrow> (Some (Ok (disposition_outcome d)), w2))
          else
            let lease = (\<lambda>now. renew rep (lj_job_id leased) worker_id now (wpo_lease_for policy)) in
            (case validate_source ag lease worker (pj_upload (lj_job leased)) (pj_revision (lj_job leased)) w1 of
               (result, w2) \<Rightarrow> settle ag policy worker_id leased result w2))"

end
