(* ===== verification/Worker_Runs.thy ===== *)
theory Worker_Runs
  imports Worker
begin

text \<open>
  What a run of the worker costs and how it ends: the temporary disk a job reserves always fits the
  validated budget, so a run comes to an end whatever else happens, and the way a job ends whose source
  can no longer be processed.
\<close>

section \<open>The reservation of temporary disk\<close>

lemma temp_disk_permits_eq:
  "temp_disk_permits a =
     (let n = (unat a + 1048575) div 1048576 in if n < 2 ^ 32 then Some (of_nat n) else None)"
proof -
  have "unat temp_disk_permit_bytes = 1048576" by (simp add: temp_disk_permit_bytes_def)
  then show ?thesis by (simp only: temp_disk_permits_def) (simp add: Let_def add.commute)
qed

lemma temp_disk_permits_Some:
  "temp_disk_permits a = Some n \<longleftrightarrow>
     (unat a + 1048575) div 1048576 < 2 ^ 32 \<and> unat n = (unat a + 1048575) div 1048576"
proof -
  have "unat (of_nat k :: u32) = k" if "k < 2 ^ 32" for k
    using that by (simp add: unat_of_nat take_bit_nat_eq_self)
  then show ?thesis
    by (auto simp: temp_disk_permits_eq Let_def intro: word_unat_eq_iff[THEN iffD2])
qed

lemma valid_policy_facts:
  assumes "validate_worker_policy p = Ok ()"
  shows "\<exists>needed. required_temp_disk_bytes (wpo_max_image_bytes p) (wpo_max_video_bytes p) = Some needed \<and>
      needed \<le> wpo_max_temp_disk_bytes p"
    "\<exists>available. temp_disk_permits (wpo_max_temp_disk_bytes p) = Some available"
    "0 < wpo_max_attempts p"
  using assms
  by (auto simp: validate_worker_policy_def word_gt_0 not_less split: if_splits option.splits)

lemma required_temp_disk_bytes_Some:
  "required_temp_disk_bytes i v = Some n \<Longrightarrow>
     unat i * 2 + max (unat i) (unat v) + 16777216 < 2 ^ 64 \<and>
     unat n = unat i * 2 + max (unat i) (unat v) + 16777216"
  by (auto simp: required_temp_disk_bytes_def bind_eq_Some_conv checked_mul_Some checked_add_Some max_watermark_bytes_def
      unat_word_max)

lemma temp_disk_reservation_facts:
  assumes "validate_worker_policy p = Ok ()"
    and "source \<le> max (wpo_max_image_bytes p) (wpo_max_video_bytes p)"
  shows "\<exists>n available. temp_disk_reservation p source = Ok n \<and>
    temp_disk_permits (wpo_max_temp_disk_bytes p) = Some available \<and> n \<le> available \<and>
    unat source + 2 * unat (wpo_max_image_bytes p) + 16 * 1024 * 1024 \<le> unat n * 1048576 \<and>
    unat n * 1048576 < unat source + 2 * unat (wpo_max_image_bytes p) + 16 * 1024 * 1024 + 1048576"
proof -
  let ?i = "wpo_max_image_bytes p" and ?v = "wpo_max_video_bytes p"
  obtain needed available where pol: "required_temp_disk_bytes ?i ?v = Some needed" "needed \<le> wpo_max_temp_disk_bytes p"
    "temp_disk_permits (wpo_max_temp_disk_bytes p) = Some available"
    using valid_policy_facts[OF assms(1)] by blast
  note need = required_temp_disk_bytes_Some[OF pol(1)]
  have src: "unat source \<le> max (unat ?i) (unat ?v)"
    using assms(2) by (simp add: word_le_nat_alt unat_word_max)
  obtain twice where twice: "checked_mul ?i 2 = Some twice" "unat twice = unat ?i * 2"
    using need checked_mul_Some[of ?i 2] by (cases "checked_mul ?i 2") (auto simp: checked_mul_None)
  obtain partial where part: "checked_add source twice = Some partial" "unat partial = unat source + unat ?i * 2"
    using need src twice(2) checked_add_Some[of source twice]
    by (cases "checked_add source twice") (auto simp: checked_add_None)
  obtain reservation where res: "checked_add partial max_watermark_bytes = Some reservation"
    "unat reservation = unat source + unat ?i * 2 + 16777216"
    using need src part(2) checked_add_Some[of partial max_watermark_bytes]
    by (cases "checked_add partial max_watermark_bytes") (auto simp: checked_add_None max_watermark_bytes_def)
  note have_permits = pol(3)[unfolded temp_disk_permits_Some]
  have le: "unat reservation \<le> unat (wpo_max_temp_disk_bytes p)"
    using res(2) src need pol(2) by (simp add: word_le_nat_alt)
  then have small: "(unat reservation + 1048575) div 1048576 \<le> (unat (wpo_max_temp_disk_bytes p) + 1048575) div 1048576"
    by (intro div_le_mono) simp
  then have "(unat reservation + 1048575) div 1048576 < 2 ^ 32" using have_permits by linarith
  then obtain n where n: "temp_disk_permits reservation = Some n"
    by (simp add: temp_disk_permits_eq Let_def)
  have un: "unat n = (unat reservation + 1048575) div 1048576" using n by (simp add: temp_disk_permits_Some)
  have "temp_disk_reservation p source = Ok n"
    using twice(1) part(1) res(1) n by (simp add: temp_disk_reservation_def)
  moreover have "n \<le> available" using un small have_permits by (simp add: word_le_nat_alt)
  moreover have "unat reservation \<le> unat n * 1048576" "unat n * 1048576 < unat reservation + 1048576"
    unfolding un by linarith+
  ultimately show ?thesis using pol(3) res(2) by (intro exI conjI) (simp_all add: mult.commute)
qed

text \<open>
  C20. Every source within the policy's limits reserves, without overflow, at least its own bytes, two
  largest images and a watermark, in whole permits, and never more permits than a validated policy gives
  the semaphore: no reservation of the worker can wait forever for permits that do not exist.
\<close>

theorem temp_disk_reservation_fits:
  assumes "validate_worker_policy p = Ok ()"
    and "source \<le> max (wpo_max_image_bytes p) (wpo_max_video_bytes p)"
  shows "\<exists>n available. temp_disk_reservation p source = Ok n \<and>
    temp_disk_permits (wpo_max_temp_disk_bytes p) = Some available \<and> n \<le> available \<and>
    unat source + 2 * unat (wpo_max_image_bytes p) + 16 * 1024 * 1024 \<le> unat n * 1048576 \<and>
    unat n * 1048576 < unat source + 2 * unat (wpo_max_image_bytes p) + 16 * 1024 * 1024 + 1048576"
  using assms by (rule temp_disk_reservation_facts)

definition sample_worker_policy :: WorkerPolicy where
  "sample_worker_policy =
     \<lparr>wpo_lease_for = 60000000000, wpo_heartbeat_every = 20000000000, wpo_retry_delay = 5000000000, wpo_max_attempts = 3,
      wpo_max_heavy_images = 1, wpo_max_videos = 1, wpo_max_image_bytes = 67108864, wpo_max_video_bytes = 1073741824,
      wpo_max_temp_disk_bytes = 2147483648, wpo_temp_directory = ''/tmp/g7mb'', wpo_watermark = None\<rparr>"

lemma sample_worker_policy_valid: "validate_worker_policy sample_worker_policy = Ok ()"
  by (simp add: validate_worker_policy_def sample_worker_policy_def required_temp_disk_bytes_def checked_mul_def
      checked_add_def max_watermark_bytes_def max_temp_disk_limit_def temp_disk_permits_def temp_disk_permit_bytes_def
      max_duration_def Let_def)

theorem temp_disk_reservation_fits_witness:
  "\<exists>n available. temp_disk_reservation sample_worker_policy 1000 = Ok n \<and>
    temp_disk_permits (wpo_max_temp_disk_bytes sample_worker_policy) = Some available \<and> n \<le> available \<and>
    unat (1000 :: u64) + 2 * unat (wpo_max_image_bytes sample_worker_policy) + 16 * 1024 * 1024 \<le> unat n * 1048576 \<and>
    unat n * 1048576 < unat (1000 :: u64) + 2 * unat (wpo_max_image_bytes sample_worker_policy) + 16 * 1024 * 1024 + 1048576"
  by (rule temp_disk_reservation_fits[OF sample_worker_policy_valid]) (simp add: sample_worker_policy_def)

section \<open>A run comes to an end\<close>

text \<open>Processing that is never left waiting for permits that do not exist.\<close>

definition never_stuck :: "('r, 'd, 'a) work \<Rightarrow> bool" where
  "never_stuck m \<longleftrightarrow> (\<forall>w. fst (m w) \<noteq> Err Stuck)"

named_theorems work_steps

lemma never_stuck_bind [work_steps]: "never_stuck m \<Longrightarrow> (\<And>a. never_stuck (f a)) \<Longrightarrow> never_stuck (work_bind m f)"
  by (auto simp: never_stuck_def work_bind_def split: prod.split sum.split) (metis fst_conv)

lemma never_stuck_return [work_steps]: "never_stuck (work_return a)"
  by (simp add: never_stuck_def work_return_def)

lemma never_stuck_fail [work_steps]: "never_stuck (work_fail f)"
  by (simp add: never_stuck_def work_fail_def)

lemma never_stuck_await [work_steps]: "never_stuck (await ag lease)"
  by (simp add: never_stuck_def await_def Let_def split: prod.split sum.split)

lemma never_stuck_durable [work_steps]: "never_stuck (durable ag lease failure op)"
  unfolding durable_def
  by (intro work_steps) (simp add: never_stuck_def split: prod.split sum.split)

lemma never_stuck_operations [work_steps]:
  "never_stuck (download ag lease worker cf request)" "never_stuck (local_file ag lease f path)"
  "never_stuck (render ag lease run)" "never_stuck (inspect_source ag lease sandbox source)"
  "never_stuck (private_directory ag lease)" "never_stuck (put_derivative ag lease worker put len)"
  "never_stuck (check_signature_of_file ag lease k)" "never_stuck (copy_configured_watermark ag lease worker p)"
  unfolding download_def local_file_def render_def inspect_source_def private_directory_def put_derivative_def
    check_signature_of_file_def copy_configured_watermark_def
  by (intro work_steps; simp add: never_stuck_def Let_def split: prod.split sum.split option.split)+

lemma never_stuck_key [work_steps]: "never_stuck (derivative_key worker source digest preset filename)"
  unfolding derivative_key_def by (auto intro: work_steps split: sum.split)

lemma never_stuck_permit [work_steps]: "never_stuck (acquire_transform_permit ag lease inspection)"
  unfolding acquire_transform_permit_def by (auto intro: work_steps split: option.split)

lemma never_stuck_begin [work_steps]: "never_stuck (begin_or_check ag lease source detected digest)"
  unfolding begin_or_check_def by (auto intro: work_steps)

lemma never_stuck_watermark [work_steps]:
  "never_stuck (prepare_object_watermark ag lease worker revision stored)"
  "never_stuck (prepare_watermark ag lease worker t policy_revision)"
  unfolding prepare_object_watermark_def prepare_watermark_def
  by (auto intro!: work_steps split: option.split)

lemma never_stuck_generated [work_steps]:
  "never_stuck (upload_generated_derivative ag lease worker path key preset variant media_type)"
  unfolding upload_generated_derivative_def Let_def by (auto intro!: work_steps)

lemma never_stuck_publish [work_steps]:
  "never_stuck (publish_master ag lease worker source inspection digest watermark preset)"
  "never_stuck (publish_thumbnail ag lease worker source inspection digest watermark preset)"
  unfolding publish_master_def publish_thumbnail_def
  by (auto intro!: work_steps split: MediaInspection.split option.split)

lemma never_stuck_transform [work_steps]:
  "never_stuck (transform_and_publish ag lease worker source revision inspection digest)"
  unfolding transform_and_publish_def Let_def by (intro work_steps)

lemma never_stuck_temp_disk:
  assumes "validate_worker_policy p = Ok ()" "source \<le> max (wpo_max_image_bytes p) (wpo_max_video_bytes p)"
  shows "never_stuck (acquire_temp_disk_permit ag lease p source)"
proof -
  obtain n available where "temp_disk_reservation p source = Ok n"
    "temp_disk_permits (wpo_max_temp_disk_bytes p) = Some available" "n \<le> available"
    using temp_disk_reservation_facts[OF assms] by blast
  then show ?thesis by (auto simp: acquire_temp_disk_permit_def intro!: work_steps)
qed

lemma never_stuck_validate_source:
  assumes "validate_worker_policy (worker_policy worker) = Ok ()"
  shows "never_stuck (validate_source ag lease worker i revision)"
proof -
  have "never_stuck (validate_downloaded_source ag lease worker source revision)" for source
  proof (cases "ps_expected_size source > (case ps_declared_kind source of
      Image \<Rightarrow> wpo_max_image_bytes (worker_policy worker) | Video \<Rightarrow> wpo_max_video_bytes (worker_policy worker))")
    case True
    then show ?thesis by (simp add: validate_downloaded_source_def work_steps)
  next
    case False
    then have "ps_expected_size source \<le>
        max (wpo_max_image_bytes (worker_policy worker)) (wpo_max_video_bytes (worker_policy worker))"
      by (auto simp: le_max_iff_disj not_less split: MediaKind.splits)
    note disk = never_stuck_temp_disk[OF assms this]
    show ?thesis
      using False unfolding validate_downloaded_source_def Let_def
      by (auto intro!: work_steps disk)
  qed
  then show ?thesis unfolding validate_source_def by (auto intro!: work_steps split: option.split)
qed

text \<open>No job is left leased to the worker by a completion or a failure.\<close>

definition gave_up :: "string \<Rightarrow> LeasedProcessingJob \<Rightarrow> Database \<Rightarrow> bool" where
  "gave_up worker_id leased db \<longleftrightarrow> list_all (\<lambda>j. \<not> owned_lease (lj_job_id leased) worker_id j) (jobs db)"

lemma update_jobs_gives_up:
  assumes "\<And>j. job_state (f j) \<noteq> Leased"
  shows "list_all (\<lambda>j. \<not> owned_lease i worker_id j) (jobs (update_jobs (owned_lease i worker_id) f db))"
  using assms by (auto simp: list_all_iff update_rows_def owned_lease_def)

lemma complete_gives_up:
  "complete (lj_job_id leased) worker_id now db = (Ok u, db') \<Longrightarrow> gave_up worker_id leased db'"
  by (auto simp: complete_def gave_up_def split: sum.splits if_splits intro: update_jobs_gives_up)

lemma fail_gives_up:
  "fail (lj_job_id leased) worker_id now retry n code db = (Ok d, db') \<Longrightarrow> gave_up worker_id leased db'"
  by (auto simp: fail_def gave_up_def Let_def failed_job_def split: sum.splits if_splits option.splits
      intro!: update_jobs_gives_up)

lemma settled:
  assumes "(r, w') = complete_job ag worker_id leased outcome w \<or> (r, w') = fail_job ag policy worker_id leased code w"
  shows "\<exists>result. r = Some result \<and> (\<forall>o'. result = Ok o' \<longrightarrow> gave_up worker_id leased (wk_db w'))"
  using assms
  by (auto simp: complete_job_def fail_job_def call_def split: prod.splits sum.splits if_splits
      dest: complete_gives_up fail_gives_up)

lemma settle_returns:
  assumes "result \<noteq> Err Stuck"
  shows "\<exists>r. fst (settle ag policy worker_id leased result w) = Some r \<and>
    (\<forall>o'. r = Ok o' \<longrightarrow> gave_up worker_id leased (wk_db (snd (settle ag policy worker_id leased result w))))"
proof -
  have completed: "\<exists>r. fst (complete_job ag worker_id leased outcome w) = Some r \<and>
      (\<forall>o'. r = Ok o' \<longrightarrow> gave_up worker_id leased (wk_db (snd (complete_job ag worker_id leased outcome w))))" for outcome w
    using settled[where ag = ag and worker_id = worker_id and leased = leased and outcome = outcome and w = w]
    by (metis prod.collapse)
  have failed: "\<exists>r. fst (fail_job ag policy worker_id leased code w) = Some r \<and>
      (\<forall>o'. r = Ok o' \<longrightarrow> gave_up worker_id leased (wk_db (snd (fail_job ag policy worker_id leased code w))))" for code w
    using settled[where ag = ag and worker_id = worker_id and leased = leased and policy = policy and code = code and w = w]
    by (metis prod.collapse)
  show ?thesis
  proof (cases result)
    case (Inl stop)
    show ?thesis
    proof (cases stop)
      case (Failed f)
      then show ?thesis using Inl completed failed
        by (cases f) (auto simp: settle_def Let_def split: prod.splits sum.splits)
    next
      case (Dropped e)
      then show ?thesis using Inl by (simp add: settle_def)
    next
      case Stuck
      then show ?thesis using Inl assms by simp
    qed
  next
    case (Inr u)
    then show ?thesis using completed by (simp add: settle_def)
  qed
qed


section \<open>A job whose source is gone\<close>

text \<open>An agenda in which no other actor touches the database and no heartbeat falls due.\<close>

definition quiet :: "agenda \<Rightarrow> bool" where
  "quiet ag \<longleftrightarrow> (\<forall>n. ag_others ag n = id \<and> ag_heartbeats ag n = [])"

lemma quiet_await: "quiet ag \<Longrightarrow> await ag lease w = (Ok (wk_awaits w), w\<lparr>wk_awaits := Suc (wk_awaits w)\<rparr>)"
  by (simp add: quiet_def await_def Let_def)

lemma quiet_call: "quiet ag \<Longrightarrow> call ag op w = (case op (ag_clock ag (wk_awaits w)) (wk_db w) of
    (r, db) \<Rightarrow> (r, w\<lparr>wk_db := db, wk_awaits := Suc (wk_awaits w)\<rparr>))"
  by (simp add: quiet_def call_def)

lemma quiet_durable: "quiet ag \<Longrightarrow> durable ag lease failure op w =
    (case op (ag_clock ag (wk_awaits w)) (wk_db w) of
       (Inl e, db) \<Rightarrow> (Err (Failed (failure e)), w\<lparr>wk_awaits := Suc (wk_awaits w), wk_db := db\<rparr>)
     | (Inr a, db) \<Rightarrow> (Ok a, w\<lparr>wk_awaits := Suc (wk_awaits w), wk_db := db\<rparr>))"
  by (simp add: durable_def work_bind_def quiet_await)

lemma claimed_attempts:
  assumes "db_ok db" "claim_next rep w now d db = (Ok (Some l), db')"
  shows "\<exists>j. lookup_row job_id (lj_job_id l) (jobs db') = Some j \<and> job_attempts j = lj_attempts l \<and>
    job_state j = Leased \<and> job_until j = Some (lj_lease_until l) \<and> uploads db' = uploads db"
proof -
  obtain j t where claimed:
    "least_row (claim_order db) (claim_candidates (unix_timestamp now) db) = Some (j, t)"
    "db' = take_claim_sequence t (update_jobs (\<lambda>x. job_id x = job_id j)
       (lease_job w (unix_timestamp now + int (as_secs d)) (unix_timestamp now)) db)"
    "and_then (leased_from_row rep
       (lease_job w (unix_timestamp now + int (as_secs d)) (unix_timestamp now) j)) (\<lambda>l. Ok (Some l)) = Ok (Some l)"
    by (cases rule: claim_next_cases[of rep w now d db]) (use assms(2) in auto)
  have "j \<in> set (jobs db)" using claim_least[OF claimed(1)] by simp
  then have "lookup_row job_id (job_id j) (jobs db) = Some j" by (rule lookup_in_jobs[OF assms(1)])
  moreover have "lj_job_id l = job_id j" "lj_attempts l = job_attempts j + 1"
      "lj_lease_until l = unix_timestamp now + int (as_secs d)"
    using claimed(3) by (auto simp: leased_from_row_def lease_job_def and_then_eq_Inr split: if_splits)
  ultimately show ?thesis
    by (simp add: claimed(2) take_claim_sequence_def lookup_update_rows) (simp add: lease_job_def)
qed

text \<open>A processing attempt on an upload that left the processable states fails as transient.\<close>

lemma validate_gone_source:
  assumes "quiet ag" "lookup_row up_id i (uploads (wk_db w)) = Some r"
    and "up_state r \<notin> {Quarantined, Processing, Ready, Rejected}"
  shows "\<exists>code\<in>{''DATABASE_UNAVAILABLE'', ''SOURCE_STATE_CONFLICT''}. \<exists>n.
    validate_source ag lease worker i revision w = (Err (Failed (Transient code)), w\<lparr>wk_awaits := n\<rparr>)"
proof (cases "processing_source_from_row r")
  case (Inl e)
  then show ?thesis
    using assms(1,2)
    by (simp add: validate_source_def work_bind_def quiet_durable find_processing_source_def database_unavailable_def) auto
next
  case (Inr source)
  then have "ps_state source = up_state r"
    by (auto simp: processing_source_from_row_def split: option.splits sum.splits)
  then show ?thesis
    using assms Inr
    by (simp add: validate_source_def work_bind_def quiet_durable find_processing_source_def work_fail_def) auto
qed

lemma mark_rejected_gone:
  assumes "db_ok db" "lookup_row up_id i (uploads db) = Some r" "up_state r \<notin> {Quarantined, Processing, Rejected}"
    and "code \<in> {''DATABASE_UNAVAILABLE'', ''SOURCE_STATE_CONFLICT''}"
  shows "\<exists>e. mark_rejected i code now db = (Err e, db)"
proof -
  have none: "filter (rejectable i) (uploads db) = []"
    using filter_id_cases[OF assms(1), of i "\<lambda>r. up_state r \<in> {Quarantined, Processing}"] assms(2,3)
    by (simp add: rejectable_def[abs_def])
  have "list_all (\<lambda>c. is_ascii_upper c \<or> is_ascii_digit c \<or> c = CHR ''_'') code" "code \<noteq> []" "length code \<le> 64"
    using assms(4) by (auto simp: byte_tests)
  then show ?thesis
    using none assms(2,3) by (simp add: mark_rejected_def Let_def update_uploads_none)
qed

text \<open>
  C22. A job may outlive its upload's processable states (a deletion that overtook it leaves the job in
  the queue).  At its last attempt the source can be neither processed nor rejected, so the run reports
  an error and changes nothing after the claim: the job is neither completed nor moved to the dead
  letters, and it is claimable again, with one attempt more, as soon as the lease runs out.
\<close>

theorem gone_source_is_claimed_forever:
  assumes "db_ok (wk_db w)" "quiet ag"
    and "claim_next (worker_representable worker) worker_id (ag_clock ag (wk_awaits w))
           (wpo_lease_for (worker_policy worker)) (wk_db w) = (Ok (Some leased), db1)"
    and "pj_preset (lj_job leased) = source_validation_preset"
    and "lookup_row up_id (pj_upload (lj_job leased)) (uploads (wk_db w)) = Some r"
    and "up_state r \<notin> {Quarantined, Processing, Ready, Rejected}"
    and "unat (wpo_max_attempts (worker_policy worker)) \<le> lj_attempts leased"
  shows "\<exists>e w' j. run_one ag worker worker_id w = (Some (Err (WRepository e)), w') \<and> wk_db w' = db1 \<and>
    lookup_row job_id (lj_job_id leased) (jobs db1) = Some j \<and> job_state j = Leased \<and>
    job_attempts j = lj_attempts leased \<and> (\<forall>t. job_eligible t j \<longleftrightarrow> lj_lease_until leased \<le> t)"
proof -
  let ?i = "pj_upload (lj_job leased)" and ?revision = "pj_revision (lj_job leased)"
  let ?lease = "\<lambda>now. renew (worker_representable worker) (lj_job_id leased) worker_id now
      (wpo_lease_for (worker_policy worker))"
  obtain j where j: "lookup_row job_id (lj_job_id leased) (jobs db1) = Some j" "job_attempts j = lj_attempts leased"
    "job_state j = Leased" "job_until j = Some (lj_lease_until leased)" "uploads db1 = uploads (wk_db w)"
    using claimed_attempts[OF assms(1,3)] by blast
  let ?w1 = "w\<lparr>wk_db := db1, wk_awaits := Suc (wk_awaits w)\<rparr>"
  have row: "lookup_row up_id ?i (uploads (wk_db ?w1)) = Some r" using assms(5) j(5) by simp
  obtain code n where code: "code \<in> {''DATABASE_UNAVAILABLE'', ''SOURCE_STATE_CONFLICT''}"
    "validate_source ag ?lease worker ?i ?revision ?w1 = (Err (Failed (Transient code)), ?w1\<lparr>wk_awaits := n\<rparr>)"
    using validate_gone_source[OF assms(2) row assms(6), of ?lease worker ?revision] by (elim bexE exE)
  have ok: "db_ok db1" using claim_next_ok[OF assms(1)] assms(3) by (metis snd_conv)
  obtain e where e: "mark_rejected ?i code (ag_clock ag n) db1 = (Err e, db1)"
    using mark_rejected_gone[OF ok _ _ code(1)] row assms(6) by fastforce
  have "run_one ag worker worker_id w = (Some (Err (WRepository e)), ?w1\<lparr>wk_awaits := Suc n\<rparr>)"
    using code(2) e assms(4,7)
    by (simp add: run_one_def Let_def quiet_call[OF assms(2)] assms(3) settle_def)
  moreover have "job_eligible t j \<longleftrightarrow> lj_lease_until leased \<le> t" for t using j(3,4) by (simp add: job_eligible_def)
  ultimately show ?thesis using j by auto
qed

section \<open>Witnesses\<close>

definition sample_worker :: "(unit, unit) SourceValidationWorker" where
  "sample_worker =
     \<lparr>raw_files = \<lparr>download_to = (\<lambda>_ s. (Err ObjectNotFound, s)), put_file = (\<lambda>_ _ o'. (Err ObjectNotFound, o'))\<rparr>,
      derivative_files = \<lparr>download_to = (\<lambda>_ s. (Err ObjectNotFound, s)), put_file = (\<lambda>_ _ o'. (Err ObjectNotFound, o'))\<rparr>,
      worker_sandbox = \<lparr>sb_inspect = (\<lambda>_ _ _ _. Err SandboxTimeout), sb_image_master = (\<lambda>_ _ _ fs. (Err SandboxTimeout, fs)),
        sb_thumbnail = (\<lambda>_ _ _ _ fs. (Err SandboxTimeout, fs))\<rparr>,
      worker_policy = sample_worker_policy, host_files = Map.empty, worker_sha256 = (\<lambda>_. []), worker_show_uuid = (\<lambda>_. []),
      worker_representable = (\<lambda>_. True)\<rparr>"

definition sample_agenda :: agenda where
  "sample_agenda = \<lparr>ag_others = (\<lambda>_. id), ag_heartbeats = (\<lambda>_. []), ag_clock = (\<lambda>n. 10000000000 + int n), ag_io = (\<lambda>_. True)\<rparr>"

text \<open>A tombstone whose job was claimed twice before.\<close>

definition orphaned_job :: JobRow where
  "orphaned_job = (sample_job 11 1)\<lparr>job_preset := source_validation_preset, job_attempts := 2\<rparr>"

definition orphaned_world :: "(unit, unit) worker_world" where
  "orphaned_world = \<lparr>wk_raw = (), wk_derivatives = (), wk_files = Map.empty,
     wk_db = insert_job orphaned_job (sample_uploads_db Deleted), wk_awaits = 0\<rparr>"

lemma orphaned_world_ok: "db_ok (wk_db orphaned_world)"
  by (auto simp: orphaned_world_def orphaned_job_def sample_job_def job_row_ok_def sample_upload_def
      source_validation_preset_def intro!: db_ok_insert_job sample_uploads_db_ok)

lemma orphaned_claim:
  "\<exists>db1. claim_next (worker_representable sample_worker) ''worker-1'' (ag_clock sample_agenda (wk_awaits orphaned_world))
     (wpo_lease_for (worker_policy sample_worker)) (wk_db orphaned_world) =
     (Ok (Some \<lparr>lj_job_id = 11, lj_job = \<lparr>pj_upload = 1, pj_preset = source_validation_preset, pj_revision = None\<rparr>,
        lj_attempts = 3, lj_lease_until = 70, lj_enqueued_at = 5\<rparr>), db1)"
  by (simp add: claim_next_def validate_worker_id_def worker_id_byte_def is_ascii_alphanumeric_def
      is_ascii_lower_def is_ascii_digit_def is_ascii_upper_def byte_of_def as_secs_def unix_timestamp_def
      i64_max_def claim_candidates_def lookup_row_def sample_job_def sample_upload_def job_eligible_def
      claim_order_def last_claim_def tenant_column_ok_def lease_job_def leased_from_row_def sample_worker_def
      sample_agenda_def orphaned_world_def orphaned_job_def sample_worker_policy_def)

theorem gone_source_is_claimed_forever_witness:
  "\<exists>e w'. run_one sample_agenda sample_worker ''worker-1'' orphaned_world = (Some (Err (WRepository e)), w')"
proof -
  obtain db1 where claim: "claim_next (worker_representable sample_worker) ''worker-1''
     (ag_clock sample_agenda (wk_awaits orphaned_world)) (wpo_lease_for (worker_policy sample_worker)) (wk_db orphaned_world) =
     (Ok (Some \<lparr>lj_job_id = 11, lj_job = \<lparr>pj_upload = 1, pj_preset = source_validation_preset, pj_revision = None\<rparr>,
        lj_attempts = 3, lj_lease_until = 70, lj_enqueued_at = 5\<rparr>), db1)"
    using orphaned_claim by blast
  have "quiet sample_agenda" by (simp add: quiet_def sample_agenda_def)
  from gone_source_is_claimed_forever[OF orphaned_world_ok this claim,
      of "sample_upload 1 ''a'' ''raw/a/1/source'' Deleted"]
  show ?thesis
    by (auto simp: orphaned_world_def lookup_row_def sample_upload_def sample_worker_def sample_worker_policy_def)
qed


end
