(* ===== verification/Worker_Publication.thy ===== *)
theory Worker_Publication
  imports Worker Uploads
begin

text \<open>
  What the worker publishes.  A small logic of successful processing -- an assertion about the local
  files and the derivative store holds after every successful operation -- shows that a published
  derivative was stored before, under a key of its upload, with the length and digest that are published,
  whatever other actors do to the database and whenever heartbeats fall due.
\<close>

section \<open>Assertions about successful processing\<close>

definition yields :: "(('r, 'd) worker_world \<Rightarrow> bool) \<Rightarrow> ('r, 'd, 'a) work \<Rightarrow> ('a \<Rightarrow> ('r, 'd) worker_world \<Rightarrow> bool) \<Rightarrow> bool" where
  "yields P m Q \<longleftrightarrow> (\<forall>w a w'. P w \<longrightarrow> m w = (Ok a, w') \<longrightarrow> Q a w')"

definition here :: "(files \<Rightarrow> 'd \<Rightarrow> bool) \<Rightarrow> ('r, 'd) worker_world \<Rightarrow> bool" where
  "here P w \<longleftrightarrow> P (wk_files w) (wk_derivatives w)"

lemma yields_bind:
  assumes "yields P m Q" "\<And>a. yields (Q a) (f a) R"
  shows "yields P (work_bind m f) R"
  using assms unfolding yields_def work_bind_def by (fastforce split: prod.splits sum.splits)

lemma yields_return: "(\<And>w. P w \<Longrightarrow> Q a w) \<Longrightarrow> yields P (work_return a) Q"
  by (simp add: yields_def work_return_def)

lemma yields_fail [simp]: "yields P (work_fail f) Q"
  by (simp add: yields_def work_fail_def)

lemma yields_mono:
  "yields P m Q \<Longrightarrow> (\<And>w. P' w \<Longrightarrow> P w) \<Longrightarrow> (\<And>a w. Q a w \<Longrightarrow> Q' a w) \<Longrightarrow> yields P' m Q'"
  unfolding yields_def by blast

lemma yields_await: "yields (here P) (await ag lease) (\<lambda>_. here P)"
  by (auto simp: yields_def here_def await_def Let_def split: prod.splits sum.splits)

lemma yields_after_await:
  assumes "\<And>n. yields (here P) (f n) Q"
  shows "yields (here P) (work_bind (await ag lease) f) Q"
  using yields_await assms by (rule yields_bind)

lemma yields_durable: "yields (here P) (durable ag lease failure op) (\<lambda>_. here P)"
  unfolding durable_def
  by (rule yields_after_await) (auto simp: yields_def here_def split: prod.splits sum.splits)

lemma yields_local_file:
  "yields (here P) (local_file ag lease f path) (\<lambda>c. here (\<lambda>fs d. P fs d \<and> fs path = Some c))"
  unfolding local_file_def
  by (rule yields_after_await) (auto simp: yields_def here_def split: option.splits if_splits)

text \<open>A renderer may leave any files; the store is as before.\<close>

lemma yields_render: "yields (here (\<lambda>fs d. P d)) (render ag lease run) (\<lambda>_. here (\<lambda>fs d. P d))"
  unfolding render_def
  by (rule yields_after_await) (auto simp: yields_def here_def split: prod.splits sum.splits)

lemma yields_inspect: "yields (here P) (inspect_source ag lease sandbox source) (\<lambda>_. here P)"
  unfolding inspect_source_def
  by (rule yields_after_await) (auto simp: yields_def here_def split: sum.splits)

lemma yields_signature: "yields (here P) (check_signature_of_file ag lease k) (\<lambda>_. here P)"
  unfolding check_signature_of_file_def
  by (rule yields_after_await) (auto simp: yields_def here_def split: sum.splits)

lemma yields_permit: "yields (here P) (acquire_transform_permit ag lease inspection) (\<lambda>_. here P)"
  unfolding acquire_transform_permit_def
  by (cases "transform_lane inspection") (auto intro!: yields_return yields_after_await)

lemma yields_temp_disk: "yields (here P) (acquire_temp_disk_permit ag lease p n) (\<lambda>_. here P)"
  unfolding acquire_temp_disk_permit_def
  by (auto intro!: yields_return yields_after_await split: sum.split) (simp add: yields_def)

lemma yields_begin: "yields (here P) (begin_or_check ag lease source detected digest) (\<lambda>_. here P)"
  unfolding begin_or_check_def by (auto intro!: yields_return yields_durable)

lemma yields_directory: "yields (here (\<lambda>fs d. P d)) (private_directory ag lease) (\<lambda>_. here (\<lambda>fs d. P d))"
  unfolding private_directory_def
  by (rule yields_after_await) (auto simp: yields_def here_def split: if_splits)

section \<open>What is asked of the stores\<close>

text \<open>A successful put has stored the bytes of the local file and reports their number; a put touches no
  other key.\<close>

definition durable_put :: "(PutFileRequest \<Rightarrow> files \<Rightarrow> 'd \<Rightarrow> (ObjectStoreError, ObjectMetadata) result \<times> 'd)
    \<Rightarrow> ('d \<Rightarrow> string \<Rightarrow> string option) \<Rightarrow> bool" where
  "durable_put put stored \<longleftrightarrow>
     (\<forall>request fs d m d'. put request fs d = (Ok m, d') \<longrightarrow>
        (\<exists>c. fs (pfr_source request) = Some c \<and> stored d' (pfr_key request) = Some c \<and>
           om_content_length m = of_nat (length c))) \<and>
     (\<forall>request fs d r d' k. put request fs d = (r, d') \<longrightarrow> k \<noteq> pfr_key request \<longrightarrow> stored d' k = stored d k)"

text \<open>A download writes its destination and no other file.\<close>

definition contained_download :: "(DownloadObjectRequest \<Rightarrow> 'r \<times> files \<Rightarrow> (ObjectStoreError, ObjectMetadata) result \<times> 'r \<times> files)
    \<Rightarrow> bool" where
  "contained_download fetch \<longleftrightarrow>
     (\<forall>request r fs res r' fs' f. fetch request (r, fs) = (res, r', fs') \<longrightarrow> f \<noteq> dor_destination request \<longrightarrow> fs' f = fs f)"

lemma yields_put:
  fixes worker :: "('r, 'd) SourceValidationWorker"
  assumes "durable_put (put_file (derivative_files worker)) stored"
  shows "yields (here (\<lambda>fs d. fs (pfr_source request) = Some c \<and> (\<forall>k v. (k, v) \<in> kept \<longrightarrow> stored d k = Some v)))
    (put_derivative ag lease worker request len)
    (\<lambda>_. here (\<lambda>fs d. len = of_nat (length c) \<and> stored d (pfr_key request) = Some c \<and>
       (\<forall>k v. (k, v) \<in> kept \<longrightarrow> k \<noteq> pfr_key request \<longrightarrow> stored d k = Some v)))"
  unfolding put_derivative_def
proof (rule yields_after_await, unfold yields_def, intro allI impI)
  fix n a and w w' :: "('r, 'd) worker_world"
  let ?put = "put_file (derivative_files worker) request (wk_files w) (wk_derivatives w)"
  assume pre: "here (\<lambda>fs d. fs (pfr_source request) = Some c \<and> (\<forall>k v. (k, v) \<in> kept \<longrightarrow> stored d k = Some v)) w"
    and run: "(case ?put of
       (Inl e, d) \<Rightarrow> (Err (Failed (classify_storage_error e)), w\<lparr>wk_derivatives := d\<rparr>)
     | (Inr m, d) \<Rightarrow>
         (if om_content_length m \<noteq> len then Err (Failed (Transient ''DERIVATIVE_LENGTH_MISMATCH'')) else Ok (),
          w\<lparr>wk_derivatives := d\<rparr>)) = (Ok a, w')"
  obtain m where put: "?put = (Ok m, wk_derivatives w')" and len: "om_content_length m = len"
    and w': "w' = w\<lparr>wk_derivatives := wk_derivatives w'\<rparr>"
    using run by (auto split: prod.splits sum.splits if_splits)
  obtain c' where c': "wk_files w (pfr_source request) = Some c'" "stored (wk_derivatives w') (pfr_key request) = Some c'"
    "om_content_length m = of_nat (length c')"
    using assms put unfolding durable_put_def by blast
  have "c' = c" using c'(1) pre by (simp add: here_def)
  moreover have "stored (wk_derivatives w') k = stored (wk_derivatives w) k" if "k \<noteq> pfr_key request" for k
    using assms put that unfolding durable_put_def by blast
  ultimately show "here (\<lambda>fs d. len = of_nat (length c) \<and> stored d (pfr_key request) = Some c \<and>
       (\<forall>k v. (k, v) \<in> kept \<longrightarrow> k \<noteq> pfr_key request \<longrightarrow> stored d k = Some v)) w'"
    using c' len pre by (auto simp: here_def)
qed

lemma yields_download:
  fixes worker :: "('r, 'd) SourceValidationWorker"
  assumes "contained_download (download_to (raw_files worker))"
    and "\<And>fs fs' d. P fs d \<Longrightarrow> (\<And>f. f \<noteq> dor_destination request \<Longrightarrow> fs' f = fs f) \<Longrightarrow> Q fs' d"
  shows "yields (here P) (download ag lease worker failure request) (\<lambda>_. here Q)"
  unfolding download_def
proof (rule yields_after_await, unfold yields_def, intro allI impI)
  fix n a and w w' :: "('r, 'd) worker_world"
  let ?fetch = "download_to (raw_files worker) request (wk_raw w, wk_files w)"
  assume pre: "here P w"
    and run: "(case ?fetch of
       (Inl e, r, fs) \<Rightarrow> (Err (Failed (failure e)), w\<lparr>wk_raw := r, wk_files := fs\<rparr>)
     | (Inr _, r, fs) \<Rightarrow> (Ok (), w\<lparr>wk_raw := r, wk_files := fs\<rparr>)) = (Ok a, w')"
  obtain res r where fetch: "?fetch = (res, r, wk_files w')" and same: "wk_derivatives w' = wk_derivatives w"
    using run by (auto split: prod.splits sum.splits)
  have "wk_files w' f = wk_files w f" if "f \<noteq> dor_destination request" for f
    using assms(1) fetch that unfolding contained_download_def by blast
  then show "here Q w'" using assms(2)[of "wk_files w" "wk_derivatives w" "wk_files w'"] pre same by (simp add: here_def)
qed

section \<open>The steps of a publication\<close>

definition backed :: "(string \<Rightarrow> string) \<Rightarrow> ('d \<Rightarrow> string \<Rightarrow> string option) \<Rightarrow> 'd \<Rightarrow> PublishedDerivative \<Rightarrow> bool" where
  "backed sha256 stored d p \<longleftrightarrow>
     (\<exists>c. stored d (pd_object_key p) = Some c \<and> pd_byte_len p = of_nat (length c) \<and> pd_sha256 p = sha256 c)"

definition source_kept :: "string \<Rightarrow> files \<Rightarrow> 'd \<Rightarrow> bool" where
  "source_kept c fs d \<longleftrightarrow> fs ''source'' = Some c"

lemma yields_watermark:
  assumes "contained_download (download_to (raw_files worker))"
  shows "yields (here (source_kept c)) (prepare_watermark ag lease worker t policy_revision) (\<lambda>_. here (source_kept c))"
proof -
  have copy: "yields (here (source_kept c)) (copy_configured_watermark ag lease worker p) (\<lambda>_. here (source_kept c))" for p
    unfolding copy_configured_watermark_def
    by (rule yields_after_await)
      (auto simp: yields_def here_def source_kept_def registered_watermark_def Let_def split: if_splits option.splits)
  have local: "yields (here (source_kept c)) (local_file ag lease f path) (\<lambda>_. here (source_kept c))" for f path
    by (rule yields_mono[OF yields_local_file[where P = "source_kept c"]]) (auto simp: here_def)
  have object: "yields (here (source_kept c)) (prepare_object_watermark ag lease worker n stored) (\<lambda>_. here (source_kept c))"
    for n stored
    unfolding prepare_object_watermark_def
    by (rule yields_bind[OF yields_download[OF assms, where Q = "source_kept c"]])
      (auto simp: source_kept_def registered_watermark_def intro!: yields_bind[OF local] yields_return)
  show ?thesis
    unfolding prepare_watermark_def
    by (auto intro!: yields_bind[OF yields_durable] yields_bind[OF object] yields_bind[OF copy] yields_bind[OF local]
        yields_return split: option.split)
qed

definition derivative_path :: "('r, 'd) SourceValidationWorker \<Rightarrow> ProcessingSource \<Rightarrow> string \<Rightarrow> string \<Rightarrow> string \<Rightarrow> string" where
  "derivative_path worker source digest preset filename =
     ''media/'' @ ps_tenant_id source @ ''/'' @ worker_show_uuid worker (ps_upload_id source) @ ''/'' @
     digest @ ''/'' @ preset @ ''/'' @ filename"

lemma derivative_path_inj [simp]:
  "derivative_path worker source digest preset f = derivative_path worker source digest preset g \<longleftrightarrow> f = g"
  by (simp add: derivative_path_def)

lemma yields_key:
  "yields P (derivative_key worker source digest preset filename)
     (\<lambda>key w. P w \<and> key = derivative_path worker source digest preset filename \<and> valid_object_key key)"
  unfolding derivative_key_def derivative_path_def[symmetric]
  by (auto simp: yields_def ObjectKey_new_def and_then_eq_Inr valid_object_key_def work_return_def work_fail_def
      split: sum.splits)

lemma yields_generated:
  assumes "durable_put (put_file (derivative_files worker)) stored"
  shows "yields (here (\<lambda>fs d. \<forall>k v. (k, v) \<in> kept \<longrightarrow> stored d k = Some v))
    (upload_generated_derivative ag lease worker path key preset variant media_type)
    (\<lambda>p. here (\<lambda>fs d. backed (worker_sha256 worker) stored d p \<and> pd_object_key p = key \<and> pd_preset p = preset \<and>
       pd_variant p = variant \<and> pd_content_type p = media_type \<and>
       (\<forall>k v. (k, v) \<in> kept \<longrightarrow> k \<noteq> key \<longrightarrow> stored d k = Some v)))"
  unfolding upload_generated_derivative_def Let_def
proof (rule yields_bind[OF yields_local_file])
  fix metadata :: string
  let ?len = "of_nat (length metadata) :: u64"
  let ?P = "\<lambda>fs d. (\<forall>k v. (k, v) \<in> kept \<longrightarrow> stored d k = Some v) \<and> fs path = Some metadata"
  let ?request = "\<lparr>pfr_key = key, pfr_source = path, pfr_content_type = media_type\<rparr>"
  have "yields (here (\<lambda>fs d. ?P fs d \<and> fs path = Some content))
    (work_bind (put_derivative ag lease worker ?request ?len) (\<lambda>_. work_return
       \<lparr>pd_object_key = key, pd_preset = preset, pd_variant = variant, pd_content_type = media_type,
        pd_byte_len = ?len, pd_sha256 = worker_sha256 worker content\<rparr>))
    (\<lambda>p. here (\<lambda>fs d. backed (worker_sha256 worker) stored d p \<and> pd_object_key p = key \<and> pd_preset p = preset \<and>
       pd_variant p = variant \<and> pd_content_type p = media_type \<and>
       (\<forall>k v. (k, v) \<in> kept \<longrightarrow> k \<noteq> key \<longrightarrow> stored d k = Some v)))" for content
  proof (rule yields_bind)
    show "yields (here (\<lambda>fs d. ?P fs d \<and> fs path = Some content)) (put_derivative ag lease worker ?request ?len)
      (\<lambda>_. here (\<lambda>fs d. ?len = of_nat (length content) \<and> stored d key = Some content \<and>
         (\<forall>k v. (k, v) \<in> kept \<longrightarrow> k \<noteq> key \<longrightarrow> stored d k = Some v)))"
      by (rule yields_mono[OF yields_put[OF assms, where kept = kept and c = content]]) (auto simp: here_def)
  qed (rule yields_return, auto simp: here_def backed_def)
  then show "yields (here ?P)
    (if ?len = 0 \<or> ?len > wpo_max_image_bytes (worker_policy worker) then work_fail (Permanent ''DERIVATIVE_SIZE_EXCEEDED'')
     else work_bind (local_file ag lease (Transient ''TEMP_STORAGE_UNAVAILABLE'') path) (\<lambda>content.
       work_bind (put_derivative ag lease worker ?request ?len) (\<lambda>_. work_return
       \<lparr>pd_object_key = key, pd_preset = preset, pd_variant = variant, pd_content_type = media_type,
        pd_byte_len = ?len, pd_sha256 = worker_sha256 worker content\<rparr>)))
    (\<lambda>p. here (\<lambda>fs d. backed (worker_sha256 worker) stored d p \<and> pd_object_key p = key \<and> pd_preset p = preset \<and>
       pd_variant p = variant \<and> pd_content_type p = media_type \<and>
       (\<forall>k v. (k, v) \<in> kept \<longrightarrow> k \<noteq> key \<longrightarrow> stored d k = Some v)))"
    by (simp add: yields_bind[OF yields_local_file])
qed

text \<open>The published derivative is backed, and is the named variant of the source under its key.\<close>

definition variant_of :: "('r, 'd) SourceValidationWorker \<Rightarrow> ('d \<Rightarrow> string \<Rightarrow> string option) \<Rightarrow> ProcessingSource \<Rightarrow> string
    \<Rightarrow> string \<Rightarrow> string \<Rightarrow> string \<Rightarrow> PublishedDerivative \<Rightarrow> 'd \<Rightarrow> bool" where
  "variant_of worker stored source digest preset variant filename p d \<longleftrightarrow>
     backed (worker_sha256 worker) stored d p \<and> pd_variant p = variant \<and> pd_preset p = preset \<and>
     pd_object_key p = derivative_path worker source digest preset filename \<and> valid_object_key (pd_object_key p)"

lemma yields_thumbnail:
  fixes worker :: "('r, 'd) SourceValidationWorker"
  assumes "durable_put (put_file (derivative_files worker)) stored"
    and "variant_of worker stored source digest preset ''master'' mfile master d0" "mfile \<noteq> ''thumbnail.jpg''"
  shows "yields (here (\<lambda>fs d. variant_of worker stored source digest preset ''master'' mfile master d))
    (publish_thumbnail ag lease worker source inspection digest watermark preset)
    (\<lambda>p. here (\<lambda>fs d. variant_of worker stored source digest preset ''master'' mfile master d \<and>
       variant_of worker stored source digest preset ''thumbnail'' ''thumbnail.jpg'' p d))"
proof -
  let ?key = "derivative_path worker source digest preset ''thumbnail.jpg''"
  let ?master = "\<lambda>d. variant_of worker stored source digest preset ''master'' mfile master d"
  have key: "pd_object_key master = derivative_path worker source digest preset mfile"
    using assms(2) by (simp add: variant_of_def)
  have generated: "yields (here (\<lambda>fs d. ?master d))
    (upload_generated_derivative ag lease worker ''thumbnail.jpg'' ?key preset ''thumbnail'' ''image/jpeg'')
    (\<lambda>p. here (\<lambda>fs d. ?master d \<and> (valid_object_key ?key \<longrightarrow>
       variant_of worker stored source digest preset ''thumbnail'' ''thumbnail.jpg'' p d)))"
    unfolding yields_def
  proof (intro allI impI)
    fix p and w w' :: "('r, 'd) worker_world"
    assume pre: "here (\<lambda>fs d. ?master d) w"
      and run: "upload_generated_derivative ag lease worker ''thumbnail.jpg'' ?key preset ''thumbnail'' ''image/jpeg'' w =
        (Ok p, w')"
    obtain c where c: "stored (wk_derivatives w) (pd_object_key master) = Some c" "pd_byte_len master = of_nat (length c)"
      "pd_sha256 master = worker_sha256 worker c"
      using pre by (auto simp: here_def variant_of_def backed_def)
    have "here (\<lambda>fs d. backed (worker_sha256 worker) stored d p \<and> pd_object_key p = ?key \<and> pd_preset p = preset \<and>
       pd_variant p = ''thumbnail'' \<and> pd_content_type p = ''image/jpeg'' \<and>
       (\<forall>k v. (k, v) \<in> {(pd_object_key master, c)} \<longrightarrow> k \<noteq> ?key \<longrightarrow> stored d k = Some v)) w'"
      using yields_generated[OF assms(1), where kept = "{(pd_object_key master, c)}", unfolded yields_def,
        rule_format, of w ag lease "''thumbnail.jpg''" ?key preset "''thumbnail''" "''image/jpeg''" p w'] run c(1)
      by (simp add: here_def)
    then show "here (\<lambda>fs d. ?master d \<and> (valid_object_key ?key \<longrightarrow>
       variant_of worker stored source digest preset ''thumbnail'' ''thumbnail.jpg'' p d)) w'"
      using pre c key assms(3) by (auto simp: here_def variant_of_def backed_def)
  qed
  show ?thesis
    unfolding publish_thumbnail_def
  proof (rule yields_bind[OF yields_render], rule yields_bind[OF yields_key])
    fix u :: unit and k
    show "yields (\<lambda>w. here (\<lambda>fs d. ?master d) w \<and> k = ?key \<and> valid_object_key k)
      (upload_generated_derivative ag lease worker ''thumbnail.jpg'' k preset ''thumbnail'' ''image/jpeg'')
      (\<lambda>p. here (\<lambda>fs d. ?master d \<and> variant_of worker stored source digest preset ''thumbnail'' ''thumbnail.jpg'' p d))"
      using generated by (fastforce simp: yields_def here_def)
  qed
qed

definition master_file :: "MediaInspection \<Rightarrow> string option" where
  "master_file inspection =
     (case inspection of
        ImageInspected _ _ _ \<Rightarrow> Some ''master.jpg''
      | VideoInspected format _ _ \<Rightarrow> map_option (\<lambda>e. ''master.'' @ e) (video_master_extension format))"

lemma master_file_other: "master_file inspection = Some f \<Longrightarrow> f \<noteq> ''thumbnail.jpg''"
  by (auto simp: master_file_def split: MediaInspection.splits)

lemma yields_master:
  fixes worker :: "('r, 'd) SourceValidationWorker"
  assumes "durable_put (put_file (derivative_files worker)) stored" "digest = worker_sha256 worker c"
  shows "yields (here (source_kept c)) (publish_master ag lease worker source inspection digest watermark preset)
    (\<lambda>p. here (\<lambda>fs d. \<exists>f. master_file inspection = Some f \<and> variant_of worker stored source digest preset ''master'' f p d))"
proof (cases inspection)
  case (ImageInspected a b facts)
  let ?key = "derivative_path worker source digest preset ''master.jpg''"
  have "yields (\<lambda>w. here (\<lambda>fs d. True) w \<and> k = ?key \<and> valid_object_key k)
      (upload_generated_derivative ag lease worker ''master.jpg'' k preset ''master'' ''image/jpeg'')
      (\<lambda>p. here (\<lambda>fs d. variant_of worker stored source digest preset ''master'' ''master.jpg'' p d))" for k
    using yields_generated[OF assms(1), where kept = "{}" and key = ?key and ag = ag and lease = lease and
        path = "''master.jpg''" and preset = preset and variant = "''master''" and media_type = "''image/jpeg''"]
    by (fastforce simp: yields_def here_def variant_of_def)
  then have "yields (here (\<lambda>fs d. True)) (publish_master ag lease worker source inspection digest watermark preset)
      (\<lambda>p. here (\<lambda>fs d. variant_of worker stored source digest preset ''master'' ''master.jpg'' p d))"
    unfolding publish_master_def ImageInspected MediaInspection.case
    by (intro yields_bind[OF yields_render] yields_bind[OF yields_key])
  then show ?thesis
    by (rule yields_mono) (auto simp: here_def master_file_def ImageInspected)
next
  case (VideoInspected format detected facts)
  show ?thesis
  proof (cases "video_master_extension format")
    case None
    then show ?thesis by (simp add: publish_master_def VideoInspected)
  next
    case (Some suffix)
    let ?f = "''master.'' @ suffix"
    let ?key = "derivative_path worker source digest preset ?f"
    have put: "yields (\<lambda>w. here (source_kept c) w \<and> k = ?key \<and> valid_object_key k)
        (put_derivative ag lease worker \<lparr>pfr_key = k, pfr_source = ''source'', pfr_content_type = detected\<rparr>
           (ps_expected_size source))
        (\<lambda>_. here (\<lambda>fs d. ps_expected_size source = of_nat (length c) \<and> k = ?key \<and> valid_object_key k \<and>
           stored d k = Some c))" for k
      using yields_put[OF assms(1), where kept = "{}" and c = c and ag = ag and lease = lease and
          request = "\<lparr>pfr_key = k, pfr_source = ''source'', pfr_content_type = detected\<rparr>" and
          len = "ps_expected_size source"]
      by (fastforce simp: yields_def here_def source_kept_def)
    show ?thesis
      unfolding publish_master_def VideoInspected MediaInspection.case Some option.case
      by (rule yields_bind[OF yields_key], rule yields_bind[OF put], rule yields_return)
        (auto simp: here_def master_file_def Some variant_of_def backed_def assms(2))
  qed
qed

text \<open>The end of a processing: both variants are stored when they are published.\<close>

lemma transform_published:
  fixes worker :: "('r, 'd) SourceValidationWorker"
  assumes "durable_put (put_file (derivative_files worker)) stored"
    and "contained_download (download_to (raw_files worker))" "digest = worker_sha256 worker c"
    and "source_kept c (wk_files w) (wk_derivatives w)"
    and "transform_and_publish ag lease worker source policy_revision inspection digest w = (Ok (), w')"
  shows "\<exists>now db preset f master thumbnail. publish_derivatives (ps_upload_id source) [master, thumbnail] now db = (Ok (), wk_db w') \<and>
    master_file inspection = Some f \<and>
    variant_of worker stored source digest preset ''master'' f master (wk_derivatives w') \<and>
    variant_of worker stored source digest preset ''thumbnail'' ''thumbnail.jpg'' thumbnail (wk_derivatives w')"
proof -
  define Q where "Q = (\<lambda>w' :: ('r, 'd) worker_world. \<exists>now db preset f master thumbnail.
    publish_derivatives (ps_upload_id source) [master, thumbnail] now db = (Ok (), wk_db w') \<and>
    master_file inspection = Some f \<and>
    variant_of worker stored source digest preset ''master'' f master (wk_derivatives w') \<and>
    variant_of worker stored source digest preset ''thumbnail'' ''thumbnail.jpg'' thumbnail (wk_derivatives w'))"
  have publish: "yields (here (\<lambda>fs d. \<exists>f. master_file inspection = Some f \<and>
        variant_of worker stored source digest preset ''master'' f master d \<and>
        variant_of worker stored source digest preset ''thumbnail'' ''thumbnail.jpg'' thumbnail d))
      (durable ag lease database_unavailable (\<lambda>now. publish_derivatives (ps_upload_id source) [master, thumbnail] now))
      (\<lambda>_. Q)" for preset master thumbnail
    unfolding durable_def
  proof (rule yields_after_await, unfold yields_def, intro allI impI)
    fix n and a :: unit and v v' :: "('r, 'd) worker_world"
    let ?publish = "publish_derivatives (ps_upload_id source) [master, thumbnail] (ag_clock ag n) (wk_db v)"
    assume pre: "here (\<lambda>fs d. \<exists>f. master_file inspection = Some f \<and>
        variant_of worker stored source digest preset ''master'' f master d \<and>
        variant_of worker stored source digest preset ''thumbnail'' ''thumbnail.jpg'' thumbnail d) v"
      and run: "(case ?publish of
         (Inl e, db) \<Rightarrow> (Err (Failed (database_unavailable e)), v\<lparr>wk_db := db\<rparr>)
       | (Inr a, db) \<Rightarrow> (Ok a, v\<lparr>wk_db := db\<rparr>)) = (Ok a, v')"
    have "?publish = (Ok (), wk_db v')" "wk_derivatives v' = wk_derivatives v"
      using run by (auto split: prod.splits sum.splits)
    moreover obtain f where "master_file inspection = Some f"
        "variant_of worker stored source digest preset ''master'' f master (wk_derivatives v)"
        "variant_of worker stored source digest preset ''thumbnail'' ''thumbnail.jpg'' thumbnail (wk_derivatives v)"
      using pre by (auto simp: here_def)
    ultimately show "Q v'" unfolding Q_def by metis
  qed
  have thumb: "yields (here (\<lambda>fs d. \<exists>f. master_file inspection = Some f \<and>
        variant_of worker stored source digest preset ''master'' f master d))
      (publish_thumbnail ag lease worker source inspection digest watermark preset)
      (\<lambda>p. here (\<lambda>fs d. \<exists>f. master_file inspection = Some f \<and>
        variant_of worker stored source digest preset ''master'' f master d \<and>
        variant_of worker stored source digest preset ''thumbnail'' ''thumbnail.jpg'' p d))" for preset master watermark
    unfolding yields_def
  proof (intro allI impI)
    fix p and v v' :: "('r, 'd) worker_world"
    assume pre: "here (\<lambda>fs d. \<exists>f. master_file inspection = Some f \<and>
        variant_of worker stored source digest preset ''master'' f master d) v"
      and run: "publish_thumbnail ag lease worker source inspection digest watermark preset v = (Ok p, v')"
    obtain f where f: "master_file inspection = Some f"
      "variant_of worker stored source digest preset ''master'' f master (wk_derivatives v)"
      using pre by (auto simp: here_def)
    have "here (\<lambda>fs d. variant_of worker stored source digest preset ''master'' f master d \<and>
        variant_of worker stored source digest preset ''thumbnail'' ''thumbnail.jpg'' p d) v'"
      using yields_thumbnail[OF assms(1) f(2) master_file_other[OF f(1)], unfolded yields_def, rule_format] run f(2)
      by (simp add: here_def)
    then show "here (\<lambda>fs d. \<exists>f. master_file inspection = Some f \<and>
        variant_of worker stored source digest preset ''master'' f master d \<and>
        variant_of worker stored source digest preset ''thumbnail'' ''thumbnail.jpg'' p d) v'"
      using f(1) by (auto simp: here_def)
  qed
  have "yields (here (source_kept c)) (transform_and_publish ag lease worker source policy_revision inspection digest) (\<lambda>_. Q)"
    unfolding transform_and_publish_def Let_def
    by (rule yields_bind[OF yields_watermark[OF assms(2)]], rule yields_bind[OF yields_master[OF assms(1,3)]],
        rule yields_bind[OF thumb], rule publish)
  then show ?thesis using assms(4,5) unfolding Q_def by (simp add: yields_def here_def)
qed

lemma validate_downloaded_published:
  fixes worker :: "('r, 'd) SourceValidationWorker"
  assumes "durable_put (put_file (derivative_files worker)) stored"
    and "contained_download (download_to (raw_files worker))"
    and "validate_downloaded_source ag lease worker source policy_revision w = (Ok (), w')"
  shows "\<exists>now db digest preset inspection f master thumbnail.
    publish_derivatives (ps_upload_id source) [master, thumbnail] now db = (Ok (), wk_db w') \<and>
    master_file inspection = Some f \<and>
    variant_of worker stored source digest preset ''master'' f master (wk_derivatives w') \<and>
    variant_of worker stored source digest preset ''thumbnail'' ''thumbnail.jpg'' thumbnail (wk_derivatives w')"
proof -
  define Q where "Q = (\<lambda>w' :: ('r, 'd) worker_world. \<exists>now db digest preset inspection f master thumbnail.
    publish_derivatives (ps_upload_id source) [master, thumbnail] now db = (Ok (), wk_db w') \<and>
    master_file inspection = Some f \<and>
    variant_of worker stored source digest preset ''master'' f master (wk_derivatives w') \<and>
    variant_of worker stored source digest preset ''thumbnail'' ''thumbnail.jpg'' thumbnail (wk_derivatives w'))"
  have transform: "yields (here (source_kept c))
      (transform_and_publish ag lease worker source policy_revision inspection (worker_sha256 worker c)) (\<lambda>_. Q)" for c inspection
    unfolding yields_def
  proof (intro allI impI)
    fix a :: unit and v v' :: "('r, 'd) worker_world"
    assume pre: "here (source_kept c) v"
      and run: "transform_and_publish ag lease worker source policy_revision inspection (worker_sha256 worker c) v = (Ok a, v')"
    have kept: "source_kept c (wk_files v) (wk_derivatives v)" using pre by (simp add: here_def)
    have "transform_and_publish ag lease worker source policy_revision inspection (worker_sha256 worker c) v = (Ok (), v')"
      using run by (cases a) simp
    from transform_published[OF assms(1,2) refl kept this] show "Q v'" unfolding Q_def by blast
  qed
  have local: "yields (here (\<lambda>fs d. True)) (local_file ag lease failure ''source'') (\<lambda>c. here (source_kept c))" for failure
    by (rule yields_mono[OF yields_local_file[where P = "\<lambda>fs d. True"]]) (auto simp: here_def source_kept_def)
  have fetch: "yields (here (\<lambda>fs d. True)) (download ag lease worker failure request) (\<lambda>_. here (\<lambda>fs d. True))"
    for failure request by (rule yields_download[OF assms(2)]) simp
  have "yields (here (\<lambda>fs d. True)) (validate_downloaded_source ag lease worker source policy_revision) (\<lambda>_. Q)"
    unfolding validate_downloaded_source_def Let_def
    by (simp, intro impI yields_bind[OF yields_temp_disk] yields_bind[OF yields_directory] yields_bind[OF fetch]
        yields_bind[OF yields_signature] yields_bind[OF local] yields_bind[OF yields_inspect] yields_bind[OF yields_permit]
        yields_bind[OF yields_begin] transform)
  then show ?thesis using assms(3) unfolding Q_def by (simp add: yields_def here_def)
qed

lemma found_source_id: "find_processing_source i db = Ok (Some source) \<Longrightarrow> ps_upload_id source = i"
proof (cases "lookup_row up_id i (uploads db)")
  case (Some r)
  assume "find_processing_source i db = Ok (Some source)"
  then have "processing_source_from_row r = Ok source" using Some by (auto simp: find_processing_source_def and_then_eq_Inr)
  then show ?thesis
    using lookup_row_Some[OF Some] by (auto simp: processing_source_from_row_def split: option.splits sum.splits)
qed (simp add: find_processing_source_def)


section \<open>A worker to evaluate\<close>

text \<open>Stores that are maps from keys to bytes, and a renderer that leaves two bytes.\<close>

definition map_files :: "(string \<rightharpoonup> string) FileStore" where
  "map_files =
     \<lparr>download_to = (\<lambda>request (o', fs). case o' (dor_key request) of
          None \<Rightarrow> (Err ObjectNotFound, o', fs)
        | Some c \<Rightarrow> (Ok \<lparr>om_content_length = of_nat (length c), om_content_type = None, om_etag = None\<rparr>, o',
            fs(dor_destination request \<mapsto> c))),
      put_file = (\<lambda>request fs o'. case fs (pfr_source request) of
          None \<Rightarrow> (Err (InvalidRequest ''source''), o')
        | Some c \<Rightarrow> (Ok \<lparr>om_content_length = of_nat (length c), om_content_type = Some (pfr_content_type request), om_etag = None\<rparr>,
            o'(pfr_key request \<mapsto> c)))\<rparr>"

lemma map_files_ok: "durable_put (put_file map_files) id" "contained_download (download_to map_files)"
  by (auto simp: durable_put_def contained_download_def map_files_def split: option.splits prod.splits)

definition jpeg_bytes :: string where
  "jpeg_bytes = bytes [255, 216, 255, 224]"

definition rendering_worker :: "((string \<rightharpoonup> string), (string \<rightharpoonup> string)) SourceValidationWorker" where
  "rendering_worker =
     \<lparr>raw_files = map_files, derivative_files = map_files,
      worker_sandbox =
        \<lparr>sb_inspect = (\<lambda>_ _ n _. Ok (ImageInspected Jpeg ''image/jpeg''
           \<lparr>ip_byte_len = n, ip_width = 640, ip_height = 480, ip_frames = 1\<rparr>)),
         sb_image_master = (\<lambda>_ output _ fs. (Ok (), fs(output \<mapsto> ''mm''))),
         sb_thumbnail = (\<lambda>_ _ output _ fs. (Ok (), fs(output \<mapsto> ''tt'')))\<rparr>,
      worker_policy =
        \<lparr>wpo_lease_for = 60000000000, wpo_heartbeat_every = 20000000000, wpo_retry_delay = 5000000000, wpo_max_attempts = 3,
         wpo_max_heavy_images = 1, wpo_max_videos = 1, wpo_max_image_bytes = 67108864, wpo_max_video_bytes = 1073741824,
         wpo_max_temp_disk_bytes = 2147483648, wpo_temp_directory = ''/tmp/g7mb'', wpo_watermark = None\<rparr>,
      host_files = Map.empty, worker_sha256 = (\<lambda>_. replicate 64 (CHR ''0'')), worker_show_uuid = (\<lambda>_. replicate 36 (CHR ''0'')),
      worker_representable = (\<lambda>_. True)\<rparr>"

definition calm_agenda :: agenda where
  "calm_agenda = \<lparr>ag_others = (\<lambda>_. id), ag_heartbeats = (\<lambda>_. []), ag_clock = (\<lambda>n. 10000000000), ag_io = (\<lambda>_. True)\<rparr>"

definition quarantined_world :: "((string \<rightharpoonup> string), (string \<rightharpoonup> string)) worker_world" where
  "quarantined_world = \<lparr>wk_raw = [''raw/a/1/source'' \<mapsto> jpeg_bytes], wk_derivatives = Map.empty, wk_files = Map.empty,
     wk_db = sample_uploads_db Quarantined, wk_awaits = 0\<rparr>"

lemma calm_await: "await calm_agenda lease w = (Ok (wk_awaits w), w\<lparr>wk_awaits := Suc (wk_awaits w)\<rparr>)"
  by (simp add: await_def calm_agenda_def Let_def)

lemma calm_agenda_fields [simp]: "ag_io calm_agenda n" "ag_clock calm_agenda n = 10000000000"
  by (simp_all add: calm_agenda_def)

lemma loaded_source:
  "find_processing_source 1 (sample_uploads_db Quarantined) = Ok (Some
     \<lparr>ps_upload_id = 1, ps_tenant_id = ''a'', ps_object_key = ''raw/a/1/source'', ps_declared_kind = Image,
      ps_expected_size = 1000, ps_state = Quarantined, ps_detected_content_type = None, ps_sha256 = None\<rparr>)"
  using key_bytes
  by (simp add: find_processing_source_def lookup_row_def processing_source_from_row_def sample_upload_def ObjectKey_new_def
      valid_object_key_def)

definition rendered_source :: ProcessingSource where
  "rendered_source =
     \<lparr>ps_upload_id = 1, ps_tenant_id = ''a'', ps_object_key = ''raw/a/1/source'', ps_declared_kind = Image,
      ps_expected_size = 1000, ps_state = Quarantined, ps_detected_content_type = None, ps_sha256 = None\<rparr>"

definition rendered_inspection :: MediaInspection where
  "rendered_inspection =
     ImageInspected Jpeg ''image/jpeg'' \<lparr>ip_byte_len = 1000, ip_width = 640, ip_height = 480, ip_frames = 1\<rparr>"

definition started_db :: Database where
  "started_db = snd (start_processing 1 ''image/jpeg'' (replicate 64 (CHR ''0'')) 10000000000 (sample_uploads_db Quarantined))"

lemma start_rendered:
  "start_processing 1 ''image/jpeg'' (replicate 64 (CHR ''0'')) 10000000000 (sample_uploads_db Quarantined) = (Ok (), started_db)"
  "map_option up_state (lookup_row up_id 1 (uploads started_db)) = Some Processing" "derivatives started_db = []"
  "length (filter (\<lambda>r. up_id r = 1 \<and> up_state r = Processing) (uploads started_db)) = 1"
  unfolding started_db_def
  by (simp_all add: start_processing_def Let_def content_type_ok_def digest_ok_def is_lower_hex_def byte_of_def sample_upload_def
        is_ascii_digit_def list_all_iff prod_eq_iff update_rows_def begin_processing_def lookup_row_def)

lemma validation_reaches_transform:
  "\<exists>w'. validate_source calm_agenda lease rendering_worker 1 None quarantined_world =
     transform_and_publish calm_agenda lease rendering_worker rendered_source None rendered_inspection
       (replicate 64 (CHR ''0'')) w' \<and> wk_db w' = started_db \<and> wk_derivatives w' = Map.empty"
proof -
  have jpeg: "detect_media_format jpeg_bytes = Ok Jpeg" "take signature_prefix_bytes jpeg_bytes = jpeg_bytes"
    by (simp_all add: detect_media_format_def jpeg_bytes_def bytes_def starts_with_def signature_prefix_bytes_def)
  show ?thesis
    by (simp add: jpeg start_rendered validate_source_def work_bind_def durable_def calm_await quarantined_world_def loaded_source
        validate_downloaded_source_def rendering_worker_def acquire_temp_disk_permit_def temp_disk_reservation_def
        checked_mul_def checked_add_def max_watermark_bytes_def temp_disk_permits_def temp_disk_permit_bytes_def Let_def
        work_return_def private_directory_def download_def map_files_def check_signature_of_file_def detect_file_def
        local_file_def inspect_source_def acquire_transform_permit_def work_class_def image_pixels_def widening_mul_def
        begin_or_check_def rendered_source_def rendered_inspection_def) (rule exI, rule conjI, rule refl, simp)
qed

text \<open>The keys of the two derivatives, and the publication.\<close>

definition rendered_derivative :: "string \<Rightarrow> string \<Rightarrow> PublishedDerivative" where
  "rendered_derivative variant filename =
     \<lparr>pd_object_key = derivative_path rendering_worker rendered_source (replicate 64 (CHR ''0'')) default_derivative_preset filename,
      pd_preset = default_derivative_preset, pd_variant = variant, pd_content_type = ''image/jpeg'', pd_byte_len = 2,
      pd_sha256 = replicate 64 (CHR ''0'')\<rparr>"

lemma rendered_fields [simp]:
  "pd_object_key (rendered_derivative v f) =
     derivative_path rendering_worker rendered_source (replicate 64 (CHR ''0'')) default_derivative_preset f"
  "pd_preset (rendered_derivative v f) = default_derivative_preset" "pd_variant (rendered_derivative v f) = v"
  "pd_content_type (rendered_derivative v f) = ''image/jpeg''" "pd_byte_len (rendered_derivative v f) = 2"
  "pd_sha256 (rendered_derivative v f) = replicate 64 (CHR ''0'')"
  by (simp_all add: rendered_derivative_def)

lemma rendered_publishes:
  "\<exists>db'. publish_derivatives 1 [rendered_derivative ''master'' ''master.jpg'', rendered_derivative ''thumbnail'' ''thumbnail.jpg'']
     10000000000 started_db = (Ok (), db')"
proof -
  have valid: "validate_derivatives [] [rendered_derivative ''master'' ''master.jpg'', rendered_derivative ''thumbnail'' ''thumbnail.jpg'']
      = Ok ()"
    by (simp add: validate_derivative_def derivative_identity_def narrow_token_def default_derivative_preset_def
        byte_tests content_type_ok_def digest_ok_def is_lower_hex_def list_all_iff)
  obtain r where r: "lookup_row up_id 1 (uploads started_db) = Some r" "up_state r = Processing"
    using start_rendered(2) by auto
  show ?thesis
    using start_rendered(3,4)
    by (simp add: publish_derivatives_def valid r Let_def upsert_derivative_def same_identity_def derivative_row_def
        i64_max_def del: validate_derivatives.simps)
qed

text \<open>Keys are valid wherever tenant, identifier, digest and preset are what the other parts make them.\<close>

lemma derivative_path_valid:
  assumes "tenant_is_valid (ps_tenant_id source)" "uuid_text (worker_show_uuid worker)"
    and "list_all is_lower_hex digest" "length digest = 64" "list_all token_byte preset" "preset \<noteq> []" "length preset \<le> 128"
    and "filename \<in> {''master.jpg'', ''master.mp4'', ''master.mov'', ''master.webm'', ''thumbnail.jpg''}"
  shows "valid_object_key (derivative_path worker source digest preset filename)"
proof -
  let ?u = "worker_show_uuid worker (ps_upload_id source)"
  have printed: "length ?u = 36" "list_all (\<lambda>c. is_lower_hex c \<or> c = CHR ''-'') ?u"
    using assms(2) by (simp_all add: uuid_text_def)
  have uuid: "list_all token_byte ?u" "?u \<noteq> []"
    using printed(1) by (auto intro: list.pred_mono_strong[OF printed(2)] hex_byte_token)
  have tenant: "list_all token_byte (ps_tenant_id source)" "ps_tenant_id source \<noteq> []" "length (ps_tenant_id source) \<le> 64"
    using assms(1) by (simp_all add: tenant_is_valid_def)
  have sha: "list_all token_byte digest" "digest \<noteq> []"
    using assms(4) by (auto intro: list.pred_mono_strong[OF assms(3)] hex_byte_token)
  note segments = token_segment[OF uuid] token_segment[OF tenant(1,2)] token_segment[OF sha] token_segment[OF assms(5,6)]
  have file_segment: "\<not> unsafe_segment filename" "CHR ''/'' \<notin> set filename" "list_all key_byte filename" "length filename \<le> 13"
    using assms(8) by (auto simp: unsafe_segment_def key_byte_def byte_tests)
  have media: "\<not> unsafe_segment ''media''" "list_all key_byte ''media''" "key_byte CHR ''/''"
    by (simp_all add: unsafe_segment_def key_byte_def byte_tests)
  have path: "derivative_path worker source digest preset filename =
      join_with CHR ''/'' [''media'', ps_tenant_id source, ?u, digest, preset, filename]"
    by (simp add: derivative_path_def)
  have "split_on CHR ''/'' (derivative_path worker source digest preset filename) =
      [''media'', ps_tenant_id source, ?u, digest, preset, filename]"
    unfolding path by (rule split_join) (use segments file_segment in simp_all)
  then show ?thesis
    using segments file_segment media printed(1) tenant(3) assms(4,7)
    by (simp add: valid_object_key_iff) (simp add: derivative_path_def)
qed

lemma rendered_key:
  assumes "f \<in> {''master.jpg'', ''thumbnail.jpg''}"
  shows "derivative_key rendering_worker rendered_source (replicate 64 (CHR ''0'')) default_derivative_preset f w =
    (Ok (derivative_path rendering_worker rendered_source (replicate 64 (CHR ''0'')) default_derivative_preset f), w)"
proof -
  have tokens: "tenant_is_valid (ps_tenant_id rendered_source)" "list_all is_lower_hex (replicate 64 (CHR ''0''))"
    "list_all token_byte default_derivative_preset" "uuid_text (worker_show_uuid rendering_worker)"
    by (simp_all add: tenant_is_valid_def rendered_source_def token_byte_def byte_tests list_all_iff is_lower_hex_def
        default_derivative_preset_def uuid_text_def rendering_worker_def)
  have "valid_object_key (derivative_path rendering_worker rendered_source (replicate 64 (CHR ''0'')) default_derivative_preset f)"
    by (rule derivative_path_valid[OF tokens(1,4,2) _ tokens(3)]) (use assms in \<open>auto simp: default_derivative_preset_def\<close>)
  then show ?thesis
    unfolding derivative_key_def derivative_path_def[symmetric]
    by (simp add: ObjectKey_new_def valid_object_key_def work_return_def)
qed

lemma rendered_generated:
  assumes "wk_files w path = Some c" "c = ''mm'' \<or> c = ''tt''"
  shows "\<exists>n. upload_generated_derivative calm_agenda lease rendering_worker path
      (derivative_path rendering_worker rendered_source (replicate 64 (CHR ''0'')) default_derivative_preset f)
      default_derivative_preset variant ''image/jpeg'' w =
    (Ok (rendered_derivative variant f), w\<lparr>wk_awaits := n, wk_derivatives := (wk_derivatives w)
       (derivative_path rendering_worker rendered_source (replicate 64 (CHR ''0'')) default_derivative_preset f \<mapsto> c)\<rparr>)"
  using assms
  by (auto simp: upload_generated_derivative_def work_bind_def local_file_def calm_await Let_def put_derivative_def
      map_files_def work_return_def rendered_derivative_def rendering_worker_def)

lemma rendering_succeeds:
  "\<exists>w'. validate_source calm_agenda lease rendering_worker 1 None quarantined_world = (Ok (), w') \<and> wk_derivatives w' \<noteq> Map.empty"
proof -
  obtain w where w: "validate_source calm_agenda lease rendering_worker 1 None quarantined_world =
     transform_and_publish calm_agenda lease rendering_worker rendered_source None rendered_inspection
       (replicate 64 (CHR ''0'')) w" "wk_db w = started_db" "wk_derivatives w = Map.empty"
    using validation_reaches_transform by blast
  let ?key = "derivative_path rendering_worker rendered_source (replicate 64 (CHR ''0'')) default_derivative_preset"
  let ?preset = default_derivative_preset
  have watermark: "prepare_watermark calm_agenda lease rendering_worker (ps_tenant_id rendered_source) None w = (Ok None, w)"
    by (simp add: prepare_watermark_def rendering_worker_def work_return_def)
  have master: "\<exists>n fs. publish_master calm_agenda lease rendering_worker rendered_source rendered_inspection
      (replicate 64 (CHR ''0'')) None ?preset w =
      (Ok (rendered_derivative ''master'' ''master.jpg''),
       w\<lparr>wk_files := fs, wk_awaits := n, wk_derivatives := [?key ''master.jpg'' \<mapsto> ''mm'']\<rparr>)"
  proof -
    have "render calm_agenda lease (sb_image_master (worker_sandbox rendering_worker) ''source'' ''master.jpg'' None) w =
        (Ok (), w\<lparr>wk_awaits := Suc (wk_awaits w), wk_files := (wk_files w)(''master.jpg'' \<mapsto> ''mm'')\<rparr>)"
      by (simp add: render_def work_bind_def calm_await rendering_worker_def)
    moreover obtain n where "upload_generated_derivative calm_agenda lease rendering_worker ''master.jpg'' (?key ''master.jpg'')
        ?preset ''master'' ''image/jpeg'' (w\<lparr>wk_awaits := Suc (wk_awaits w), wk_files := (wk_files w)(''master.jpg'' \<mapsto> ''mm'')\<rparr>) =
        (Ok (rendered_derivative ''master'' ''master.jpg''), w\<lparr>wk_awaits := Suc (wk_awaits w),
           wk_files := (wk_files w)(''master.jpg'' \<mapsto> ''mm''), wk_awaits := n,
           wk_derivatives := [?key ''master.jpg'' \<mapsto> ''mm'']\<rparr>)"
      using rendered_generated[of "w\<lparr>wk_awaits := Suc (wk_awaits w), wk_files := (wk_files w)(''master.jpg'' \<mapsto> ''mm'')\<rparr>"
        "''master.jpg''" "''mm''" lease "''master.jpg''" "''master''"] w(3) by auto
    ultimately have "publish_master calm_agenda lease rendering_worker rendered_source rendered_inspection
      (replicate 64 (CHR ''0'')) None ?preset w =
      (Ok (rendered_derivative ''master'' ''master.jpg''), w\<lparr>wk_files := (wk_files w)(''master.jpg'' \<mapsto> ''mm''), wk_awaits := n,
           wk_derivatives := [?key ''master.jpg'' \<mapsto> ''mm'']\<rparr>)"
      by (simp add: publish_master_def rendered_inspection_def work_bind_def rendered_key)
    then show ?thesis by blast
  qed
  then obtain w1 where w1: "publish_master calm_agenda lease rendering_worker rendered_source rendered_inspection
      (replicate 64 (CHR ''0'')) None ?preset w = (Ok (rendered_derivative ''master'' ''master.jpg''), w1)"
      "wk_db w1 = started_db" "wk_derivatives w1 = [?key ''master.jpg'' \<mapsto> ''mm'']"
    using w(2) by fastforce
  have thumbnail: "\<exists>w2. publish_thumbnail calm_agenda lease rendering_worker rendered_source rendered_inspection
      (replicate 64 (CHR ''0'')) None ?preset w1 = (Ok (rendered_derivative ''thumbnail'' ''thumbnail.jpg''), w2) \<and>
      wk_db w2 = started_db \<and> wk_derivatives w2 \<noteq> Map.empty"
  proof -
    let ?w = "w1\<lparr>wk_awaits := Suc (wk_awaits w1), wk_files := (wk_files w1)(''thumbnail.jpg'' \<mapsto> ''tt'')\<rparr>"
    have "render calm_agenda lease (sb_thumbnail (worker_sandbox rendering_worker) ''source'' rendered_inspection
        ''thumbnail.jpg'' None) w1 = (Ok (), ?w)"
      by (simp add: render_def work_bind_def calm_await rendering_worker_def)
    then show ?thesis
      using rendered_generated[of ?w "''thumbnail.jpg''" "''tt''" lease "''thumbnail.jpg''" "''thumbnail''"] w1(2)
      by (auto simp: publish_thumbnail_def work_bind_def rendered_key dest: fun_cong)
  qed
  then obtain w2 where w2: "publish_thumbnail calm_agenda lease rendering_worker rendered_source rendered_inspection
      (replicate 64 (CHR ''0'')) None ?preset w1 = (Ok (rendered_derivative ''thumbnail'' ''thumbnail.jpg''), w2)"
      "wk_db w2 = started_db" "wk_derivatives w2 \<noteq> Map.empty"
    by blast
  have "ps_upload_id rendered_source = 1" by (simp add: rendered_source_def)
  then show ?thesis
    using rendered_publishes w1(1) w2 watermark
    by (auto simp: w(1) transform_and_publish_def work_bind_def Let_def durable_def calm_await)
qed


end
