(* ===== verification/Config.thy ===== *)
theory Config
  imports Delivery
begin

text \<open>
  The configuration crate: \<open>crates/g7mb-config/src/lib.rs\<close> and \<open>delivery_settings.rs\<close>.  The settings are
  what deserialization yields (the \<open>config\<close> crate's merging of TOML and environment is an argument of
  \<open>load\<close>); secrets are read from files through an argument that answers \<open>symlink_metadata\<close> and
  \<open>read\<close>; every check and message of the source is kept.
\<close>

section \<open>Settings\<close>

record ServerSettings =
  srv_bind_addr :: SocketAddr
  srv_request_body_limit_bytes :: nat
  srv_rate_limit_requests_per_second :: u32
  srv_rate_limit_burst :: u32
  srv_max_in_flight_requests :: nat

record AuthSettings =
  aus_key_id :: string
  aus_tenant_id :: string
  aus_hmac_secret :: string
  aus_hmac_secret_file :: "string option"
  aus_allowed_skew_seconds :: u64

record UploadSettings =
  ups_max_batch_files :: nat
  ups_max_batch_bytes :: u64
  ups_max_image_bytes :: u64
  ups_max_video_bytes :: u64
  ups_multipart_threshold_bytes :: u64
  ups_multipart_part_size_bytes :: u64
  ups_max_browser_connections :: nat
  ups_max_parts_per_file :: nat
  ups_max_active_uploads_global :: nat
  ups_max_active_uploads_per_tenant :: nat
  ups_max_reserved_bytes_global :: u64
  ups_max_reserved_bytes_per_tenant :: u64

datatype StorageProvider = R2 | AwsS3 | Lightsail | Generic

record StorageSettings =
  sto_provider :: StorageProvider
  sto_endpoint_url :: "string option"
  sto_region :: string
  sto_raw_bucket :: string
  sto_derivative_bucket :: string
  sto_access_key_id :: string
  sto_access_key_id_file :: "string option"
  sto_secret_access_key :: string
  sto_secret_access_key_file :: "string option"
  sto_force_path_style :: bool

record DatabaseSettings =
  dbs_url :: string
  dbs_max_connections :: u32
  dbs_backup_directory :: string
  dbs_backup_retention_count :: nat

record WorkerSettings =
  wks_max_concurrent_jobs :: nat
  wks_max_concurrent_heavy_images :: nat
  wks_max_concurrent_videos :: nat
  wks_native_threads_per_job :: nat
  wks_image_timeout_seconds :: u64
  wks_video_timeout_seconds :: u64
  wks_sandbox_binary :: string
  wks_temp_directory :: string
  wks_max_temp_disk_bytes :: u64
  wks_lease_seconds :: u64
  wks_heartbeat_seconds :: u64
  wks_poll_interval_ms :: u64
  wks_retry_delay_seconds :: u64
  wks_max_attempts :: u32
  wks_max_sandbox_output_bytes :: nat
  wks_metrics_bind_addr :: SocketAddr

record LifecycleSettings =
  lcs_created_reservation_ttl_seconds :: u64
  lcs_rejected_source_retention_seconds :: u64
  lcs_cleanup_lease_seconds :: u64
  lcs_cleanup_retry_seconds :: u64
  lcs_cleanup_batch_size :: nat
  lcs_cleanup_max_attempts :: u32
  lcs_orphan_grace_period_seconds :: u64
  lcs_inventory_page_size :: u16
  lcs_inventory_max_pages_per_run :: nat
  lcs_tombstone_retention_seconds :: u64
  lcs_tombstone_purge_batch_size :: nat

record DeliverySettings =
  dls_signed_url_ttl_seconds :: u64
  dls_manifest_cache_ttl_seconds :: u64
  dls_manifest_cache_max_bytes :: u64
  dls_public_enabled :: bool
  dls_public_bind_addr :: SocketAddr
  dls_public_signing_secret :: string
  dls_public_signing_secret_file :: "string option"
  dls_public_token_max_ttl_seconds :: u64
  dls_public_rate_limit_requests_per_second :: u32
  dls_public_rate_limit_burst :: u32
  dls_public_max_in_flight_requests :: nat

datatype WatermarkPositionSetting =
    CenterSetting | TopLeftSetting | TopRightSetting | BottomLeftSetting | BottomRightSetting

record WatermarkSettings =
  wms_enabled :: bool
  wms_asset_path :: string
  wms_asset_sha256 :: string
  wms_preset_revision :: string
  wms_position :: WatermarkPositionSetting
  wms_margin_px :: u32
  wms_max_width_percent :: u8
  wms_opacity_percent :: u8

record Settings =
  set_server :: ServerSettings
  set_auth :: AuthSettings
  set_upload :: UploadSettings
  set_storage :: StorageSettings
  set_database :: DatabaseSettings
  set_worker :: WorkerSettings
  set_lifecycle :: LifecycleSettings
  set_delivery :: DeliverySettings
  set_watermark :: WatermarkSettings

datatype ConfigError = Message string

text \<open>\<open>ensure\<close> is an \<open>if\<close> that returns the error and falls through otherwise.\<close>

definition ensure :: "bool \<Rightarrow> string \<Rightarrow> (ConfigError, unit) result" where
  "ensure ok message = (if ok then Ok () else Err (Message message))"

lemma ensure_Ok [simp]: "ensure ok m = Ok () \<longleftrightarrow> ok"
  by (simp add: ensure_def)

section \<open>The storage contract\<close>

definition is_ascii_hexdigit :: "char \<Rightarrow> bool" where
  "is_ascii_hexdigit c \<longleftrightarrow> is_ascii_digit c \<or> 97 \<le> byte_of c \<and> byte_of c \<le> 102 \<or> 65 \<le> byte_of c \<and> byte_of c \<le> 70"

definition strip_suffix :: "string \<Rightarrow> string \<Rightarrow> string option" where
  "strip_suffix s v =
     (if length s \<le> length v \<and> drop (length v - length s) v = s then Some (take (length v - length s) v) else None)"

definition parse_storage_endpoint :: "url_world \<Rightarrow> string \<Rightarrow> (ConfigError, Url) result" where
  "parse_storage_endpoint world v =
     (case parse_url world v of
        None \<Rightarrow> Err (Message ''storage endpoint URL is invalid'')
      | Some url \<Rightarrow>
          (case url_host url of
             None \<Rightarrow> Err (Message ''storage endpoint URL has no host'')
           | Some host \<Rightarrow>
               let loopback = (host = ''localhost'' \<or> host = ''::1'' \<or> loopback_ip host) in
               if url_username url \<noteq> [] \<or> url_password url \<noteq> None \<or> url_query url \<noteq> None \<or>
                  url_fragment url \<noteq> None \<or> \<not> (url_path url = [] \<or> url_path url = ''/'') \<or>
                  \<not> (url_scheme url = ''https'' \<or> url_scheme url = ''http'' \<and> loopback)
               then Err (Message ''storage endpoint must be path-free HTTPS or loopback HTTP'')
               else Ok url))"

definition is_canonical_r2_endpoint :: "Url \<Rightarrow> bool" where
  "is_canonical_r2_endpoint url =
     (case url_host url of
        None \<Rightarrow> False
      | Some host \<Rightarrow>
          (case strip_suffix ''.r2.cloudflarestorage.com'' host of
             None \<Rightarrow> False
           | Some account_id \<Rightarrow>
               url_scheme url = ''https'' \<and> url_port url = None \<and> length account_id = 32 \<and>
               list_all is_ascii_hexdigit account_id))"

definition valid_region :: "string \<Rightarrow> bool" where
  "valid_region v \<longleftrightarrow> v \<noteq> [] \<and> length v \<le> 128 \<and> list_all (\<lambda>c. is_ascii_alphanumeric c \<or> c = CHR ''-'') v"

text \<open>\<open>as_deref().map(parse_storage_endpoint).transpose()\<close>.\<close>

definition parsed_endpoint :: "url_world \<Rightarrow> StorageSettings \<Rightarrow> (ConfigError, Url option) result" where
  "parsed_endpoint world s =
     (case sto_endpoint_url s of
        None \<Rightarrow> Ok None | Some v \<Rightarrow> and_then (parse_storage_endpoint world v) (\<lambda>url. Ok (Some url)))"

definition validate_provider_contract :: "url_world \<Rightarrow> StorageSettings \<Rightarrow> (ConfigError, unit) result" where
  "validate_provider_contract world s =
     and_then (parsed_endpoint world s) (\<lambda>endpoint.
       let concrete_aws_region = (sto_region s \<noteq> ''auto'' \<and> valid_region (sto_region s)) in
       ensure
         (case sto_provider s of
            R2 \<Rightarrow> (case endpoint of None \<Rightarrow> False | Some url \<Rightarrow> is_canonical_r2_endpoint url) \<and>
                  sto_region s = ''auto'' \<and> \<not> sto_force_path_style s
          | AwsS3 \<Rightarrow> endpoint = None \<and> concrete_aws_region \<and> \<not> sto_force_path_style s
          | Lightsail \<Rightarrow> endpoint = None \<and> concrete_aws_region \<and> \<not> sto_force_path_style s \<and>
                  sto_raw_bucket s = sto_derivative_bucket s
          | Generic \<Rightarrow> endpoint \<noteq> None)
         ''storage settings do not match the declared provider contract'')"

section \<open>Redirect authorities\<close>

definition canonical_authority :: "Url \<Rightarrow> (ConfigError, string) result" where
  "canonical_authority url =
     (case url_host url of
        None \<Rightarrow> Err (Message ''storage endpoint URL has no host'')
      | Some h \<Rightarrow>
          let host = to_ascii_lowercase h in
          Ok (case url_port url of
                Some port \<Rightarrow>
                  if CHR '':'' \<in> set host then ''['' @ host @ '']:'' @ show_nat (unat port)
                  else host @ '':'' @ show_nat (unat port)
              | None \<Rightarrow> host))"

definition custom_authorities :: "url_world \<Rightarrow> StorageSettings \<Rightarrow> (ConfigError, string list) result" where
  "custom_authorities world s =
     and_then (case sto_endpoint_url s of
                 None \<Rightarrow> Err (Message ''custom storage provider has no redirect authority'')
               | Some v \<Rightarrow> parse_storage_endpoint world v) (\<lambda>endpoint.
     and_then (canonical_authority endpoint) (\<lambda>endpoint_authority.
       if sto_force_path_style s then Ok [endpoint_authority]
       else (case url_host endpoint of
           None \<Rightarrow> Err (Message ''storage endpoint URL has no host'')
         | Some host \<Rightarrow>
             let virtual_host = sto_derivative_bucket s @ ''.'' @ host in
             Ok [endpoint_authority,
                 (case url_port endpoint of
                    Some port \<Rightarrow> virtual_host @ '':'' @ show_nat (unat port) | None \<Rightarrow> virtual_host)])))"

definition derive_redirect_authorities :: "url_world \<Rightarrow> StorageSettings \<Rightarrow> (ConfigError, string list) result" where
  "derive_redirect_authorities world s =
     and_then
       (case sto_provider s of
          R2 \<Rightarrow> custom_authorities world s
        | Generic \<Rightarrow> custom_authorities world s
        | _ \<Rightarrow> Ok [sto_derivative_bucket s @ ''.s3.'' @ sto_region s @ ''.amazonaws.com'',
                   ''s3.'' @ sto_region s @ ''.amazonaws.com''])
       (\<lambda>authorities.
          if authorities = [] \<or> length authorities > 4 \<or>
             list_ex (\<lambda>a. a = [] \<or> length a > 512 \<or> \<not> list_all authority_byte a) authorities
          then Err (Message ''derived storage redirect authority is invalid'')
          else Ok authorities)"

section \<open>Secret files\<close>

datatype file_kind = RegularFile | SymlinkFile | OtherFile

record file_metadata =
  fm_kind :: file_kind
  fm_len :: nat
  fm_mode :: u32

text \<open>What the host answers of a path: \<open>fs::symlink_metadata\<close> and \<open>fs::read\<close>, whose bytes need not
  agree with the metadata read before; a failure is the text of the I/O error.\<close>

record secret_host =
  host_metadata :: "string \<Rightarrow> (string, file_metadata) result"
  host_read :: "string \<Rightarrow> (string, string) result"

definition is_absolute :: "string \<Rightarrow> bool" where
  "is_absolute path = starts_with ''/'' path"

definition secret_value_ok :: "string \<Rightarrow> bool" where
  "secret_value_ok v \<longleftrightarrow>
     v \<noteq> [] \<and> length v \<le> 4096 \<and> CHR 0x0D \<notin> set v \<and> CHR 0x0A \<notin> set v \<and> CHR 0x00 \<notin> set v \<and> is_trimmed v"

definition secret_metadata_ok :: "string \<Rightarrow> file_metadata \<Rightarrow> (ConfigError, unit) result" where
  "secret_metadata_ok setting_name m =
     and_then (ensure (fm_kind m = RegularFile) (setting_name @ ''_file must be a regular non-symlink file'')) (\<lambda>_.
     and_then (ensure (fm_len m \<noteq> 0 \<and> fm_len m \<le> 4096) (setting_name @ ''_file violates the 1..=4096 byte limit'')) (\<lambda>_.
     ensure (and (fm_mode m) 31 = 0)
       (setting_name @ ''_file must not be writable by group or accessible by others'')))"

definition resolve_secret :: "secret_host \<Rightarrow> string \<Rightarrow> string option \<Rightarrow> string \<Rightarrow> (ConfigError, string) result" where
  "resolve_secret host inline_value path setting_name =
     (case path of
        None \<Rightarrow> Ok inline_value
      | Some p \<Rightarrow>
          and_then (ensure (inline_value = []) (setting_name @ '' and '' @ setting_name @ ''_file are mutually exclusive'')) (\<lambda>_.
          and_then (ensure (is_absolute p) (setting_name @ ''_file must be an absolute path'')) (\<lambda>_.
          case host_metadata host p of
            Inl error \<Rightarrow> Err (Message (''failed to inspect '' @ setting_name @ ''_file: '' @ error))
          | Inr m \<Rightarrow>
              and_then (secret_metadata_ok setting_name m) (\<lambda>_.
              case host_read host p of
                Inl error \<Rightarrow> Err (Message (''failed to read '' @ setting_name @ ''_file: '' @ error))
              | Inr content \<Rightarrow>
                  and_then (ensure (utf8_valid content) (setting_name @ ''_file must contain UTF-8 text'')) (\<lambda>_.
                  and_then (ensure (secret_value_ok (trim_newlines content))
                      (setting_name @ ''_file contains an invalid secret value'')) (\<lambda>_.
                  Ok (trim_newlines content)))))))"

definition resolve_public_secret :: "secret_host \<Rightarrow> DeliverySettings \<Rightarrow> (ConfigError, DeliverySettings) result" where
  "resolve_public_secret host d =
     (if dls_public_enabled d
      then and_then (resolve_secret host (dls_public_signing_secret d) (dls_public_signing_secret_file d)
             ''delivery.public_signing_secret'') (\<lambda>v. Ok (d\<lparr>dls_public_signing_secret := v\<rparr>))
      else Ok d)"

definition resolve_secret_files :: "secret_host \<Rightarrow> Settings \<Rightarrow> (ConfigError, Settings) result" where
  "resolve_secret_files host s =
     (let auth = set_auth s; storage = set_storage s in
      and_then (resolve_secret host (aus_hmac_secret auth) (aus_hmac_secret_file auth) ''auth.hmac_secret'') (\<lambda>hmac.
      and_then (resolve_secret host (sto_access_key_id storage) (sto_access_key_id_file storage) ''storage.access_key_id'')
        (\<lambda>access.
      and_then (resolve_secret host (sto_secret_access_key storage) (sto_secret_access_key_file storage)
          ''storage.secret_access_key'') (\<lambda>secret.
      and_then (resolve_public_secret host (set_delivery s)) (\<lambda>delivery.
      Ok (s\<lparr>set_auth := auth\<lparr>aus_hmac_secret := hmac\<rparr>,
             set_storage := storage\<lparr>sto_access_key_id := access, sto_secret_access_key := secret\<rparr>,
             set_delivery := delivery\<rparr>))))))"

section \<open>Validation\<close>

definition within :: "'a::linorder \<Rightarrow> 'a \<Rightarrow> 'a \<Rightarrow> bool" where
  "within low v high \<longleftrightarrow> low \<le> v \<and> v \<le> high"

definition saturating_add :: "u64 \<Rightarrow> u64 \<Rightarrow> u64" where
  "saturating_add a b = (case checked_add a b of None \<Rightarrow> - 1 | Some c \<Rightarrow> c)"

definition saturating_mul :: "u64 \<Rightarrow> u64 \<Rightarrow> u64" where
  "saturating_mul a b = (case checked_mul a b of None \<Rightarrow> - 1 | Some c \<Rightarrow> c)"

definition server_settings_ok :: "ServerSettings \<Rightarrow> bool" where
  "server_settings_ok s \<longleftrightarrow>
     srv_request_body_limit_bytes s \<noteq> 0 \<and> srv_request_body_limit_bytes s \<le> 16 * 1024 * 1024 \<and>
     within 1 (srv_rate_limit_requests_per_second s) 10000 \<and>
     srv_rate_limit_burst s \<ge> srv_rate_limit_requests_per_second s \<and> srv_rate_limit_burst s \<le> 100000 \<and>
     within 1 (srv_max_in_flight_requests s) 1024"

definition auth_settings_ok :: "AuthSettings \<Rightarrow> bool" where
  "auth_settings_ok a \<longleftrightarrow>
     aus_key_id a \<noteq> [] \<and> length (aus_key_id a) \<le> 128 \<and> aus_tenant_id a \<noteq> [] \<and> length (aus_tenant_id a) \<le> 64 \<and>
     within 32 (length (aus_hmac_secret a)) 256 \<and> aus_allowed_skew_seconds a \<le> 900"

definition storage_settings_ok :: "StorageSettings \<Rightarrow> bool" where
  "storage_settings_ok s \<longleftrightarrow>
     sto_raw_bucket s \<noteq> [] \<and> length (sto_raw_bucket s) \<le> 255 \<and>
     sto_derivative_bucket s \<noteq> [] \<and> length (sto_derivative_bucket s) \<le> 255 \<and>
     sto_region s \<noteq> [] \<and> length (sto_region s) \<le> 128 \<and>
     sto_access_key_id s \<noteq> [] \<and> length (sto_access_key_id s) \<le> 256 \<and>
     sto_secret_access_key s \<noteq> [] \<and> length (sto_secret_access_key s) \<le> 1024"

definition upload_settings_ok :: "UploadSettings \<Rightarrow> bool" where
  "upload_settings_ok u \<longleftrightarrow>
     ups_max_batch_files u \<noteq> 0 \<and> ups_max_batch_files u \<le> 100 \<and> ups_max_batch_bytes u \<noteq> 0 \<and>
     ups_max_image_bytes u \<noteq> 0 \<and> ups_max_video_bytes u \<noteq> 0 \<and> ups_multipart_threshold_bytes u \<noteq> 0 \<and>
     \<not> ups_multipart_part_size_bytes u < 5 * 1024 * 1024 \<and>
     ups_max_browser_connections u \<noteq> 0 \<and> ups_max_parts_per_file u \<noteq> 0 \<and>
     \<not> ups_max_active_uploads_global u < ups_max_batch_files u \<and>
     \<not> ups_max_active_uploads_per_tenant u < ups_max_batch_files u \<and>
     ups_max_active_uploads_per_tenant u \<le> ups_max_active_uploads_global u \<and>
     \<not> ups_max_reserved_bytes_global u < ups_max_batch_bytes u \<and>
     \<not> ups_max_reserved_bytes_per_tenant u < ups_max_batch_bytes u \<and>
     ups_max_reserved_bytes_per_tenant u \<le> ups_max_reserved_bytes_global u \<and>
     ups_max_reserved_bytes_global u \<le> 9223372036854775807"

definition minimum_temp_disk_bytes :: "UploadSettings \<Rightarrow> u64" where
  "minimum_temp_disk_bytes u =
     saturating_add
       (saturating_add (max (ups_max_video_bytes u) (ups_max_image_bytes u)) (saturating_mul (ups_max_image_bytes u) 2))
       (16 * 1024 * 1024)"

definition worker_settings_ok :: "UploadSettings \<Rightarrow> WorkerSettings \<Rightarrow> bool" where
  "worker_settings_ok u w \<longleftrightarrow>
     wks_max_concurrent_jobs w \<noteq> 0 \<and> wks_max_concurrent_jobs w \<le> 32 \<and>
     wks_max_concurrent_heavy_images w \<noteq> 0 \<and> wks_max_concurrent_heavy_images w \<le> wks_max_concurrent_jobs w \<and>
     wks_max_concurrent_videos w \<noteq> 0 \<and> wks_max_concurrent_videos w \<le> wks_max_concurrent_jobs w \<and>
     wks_native_threads_per_job w \<noteq> 0 \<and> wks_native_threads_per_job w \<le> 16 \<and>
     wks_image_timeout_seconds w \<noteq> 0 \<and> wks_video_timeout_seconds w \<noteq> 0 \<and> wks_heartbeat_seconds w \<noteq> 0 \<and>
     \<not> wks_lease_seconds w \<le> saturating_mul (wks_heartbeat_seconds w) 2 \<and>
     wks_poll_interval_ms w \<noteq> 0 \<and> wks_retry_delay_seconds w \<noteq> 0 \<and> wks_max_attempts w \<noteq> 0 \<and>
     within 1024 (wks_max_sandbox_output_bytes w) 1048576 \<and>
     is_loopback (socket_ip (wks_metrics_bind_addr w)) \<and>
     wks_sandbox_binary w \<noteq> [] \<and> wks_temp_directory w \<noteq> [] \<and>
     \<not> wks_max_temp_disk_bytes w < minimum_temp_disk_bytes u \<and>
     wks_max_temp_disk_bytes w \<le> 1024 * 1024 * 1024 * 1024"

definition database_settings_ok :: "DatabaseSettings \<Rightarrow> bool" where
  "database_settings_ok d \<longleftrightarrow>
     dbs_url d \<noteq> [] \<and> within 1 (dbs_max_connections d) 16 \<and> is_absolute (dbs_backup_directory d) \<and>
     within 2 (dbs_backup_retention_count d) 365"

definition watermark_config_ok :: "WorkerSettings \<Rightarrow> WatermarkSettings \<Rightarrow> bool" where
  "watermark_config_ok w m \<longleftrightarrow>
     \<not> (wms_enabled m \<and>
        (wks_video_timeout_seconds w < 4 \<or> wms_asset_path m = [] \<or> length (wms_asset_sha256 m) \<noteq> 64 \<or>
         \<not> list_all is_lower_hex (wms_asset_sha256 m) \<or>
         \<not> within 1 (length (wms_preset_revision m)) 32 \<or>
         \<not> list_all (\<lambda>c. is_ascii_alphanumeric c \<or> c = CHR ''-'' \<or> c = CHR ''_'') (wms_preset_revision m) \<or>
         wms_margin_px m > 1024 \<or> \<not> within 1 (wms_max_width_percent m) 50 \<or> \<not> within 1 (wms_opacity_percent m) 100))"

definition lifecycle_settings_ok :: "LifecycleSettings \<Rightarrow> bool" where
  "lifecycle_settings_ok l \<longleftrightarrow>
     lcs_created_reservation_ttl_seconds l \<noteq> 0 \<and> lcs_created_reservation_ttl_seconds l \<le> 7 * 24 * 60 * 60 \<and>
     lcs_rejected_source_retention_seconds l \<noteq> 0 \<and> lcs_rejected_source_retention_seconds l \<le> 90 * 24 * 60 * 60 \<and>
     lcs_cleanup_lease_seconds l \<noteq> 0 \<and> lcs_cleanup_lease_seconds l \<le> 60 * 60 \<and>
     lcs_cleanup_retry_seconds l \<noteq> 0 \<and> lcs_cleanup_retry_seconds l \<le> 24 * 60 * 60 \<and>
     within 1 (lcs_cleanup_batch_size l) 100 \<and> within 1 (lcs_cleanup_max_attempts l) 100 \<and>
     within (60 * 60) (lcs_orphan_grace_period_seconds l) (30 * 24 * 60 * 60) \<and>
     within 1 (lcs_inventory_page_size l) 1000 \<and> within 1 (lcs_inventory_max_pages_per_run l) 100 \<and>
     within (30 * 24 * 60 * 60) (lcs_tombstone_retention_seconds l) (10 * 365 * 24 * 60 * 60) \<and>
     within 1 (lcs_tombstone_purge_batch_size l) 1000"

definition validate_delivery_settings :: "DeliverySettings \<Rightarrow> SocketAddr \<Rightarrow> (ConfigError, unit) result" where
  "validate_delivery_settings d control_bind_addr =
     (let secret_len = length (dls_public_signing_secret d);
          invalid_secret = (if dls_public_enabled d then \<not> within 32 secret_len 256
                            else secret_len \<noteq> 0 \<and> \<not> within 32 secret_len 256) in
      ensure (within 30 (dls_signed_url_ttl_seconds d) (15 * 60) \<and>
              within 1 (dls_manifest_cache_ttl_seconds d) (5 * 60) \<and>
              dls_manifest_cache_ttl_seconds d \<le> dls_signed_url_ttl_seconds d \<and>
              within (64 * 1024) (dls_manifest_cache_max_bytes d) (64 * 1024 * 1024) \<and>
              is_loopback (socket_ip (dls_public_bind_addr d)) \<and>
              \<not> (dls_public_enabled d \<and> dls_public_bind_addr d = control_bind_addr) \<and>
              within 30 (dls_public_token_max_ttl_seconds d) (60 * 60) \<and>
              within 1 (dls_public_rate_limit_requests_per_second d) 10000 \<and>
              \<not> dls_public_rate_limit_burst d < dls_public_rate_limit_requests_per_second d \<and>
              dls_public_rate_limit_burst d \<le> 100000 \<and>
              within 1 (dls_public_max_in_flight_requests d) 1024 \<and> \<not> invalid_secret)
        ''delivery settings violate listener, signature, rate, manifest TTL, or cache limits'')"

definition validate_settings :: "url_world \<Rightarrow> Settings \<Rightarrow> (ConfigError, unit) result" where
  "validate_settings world s =
     and_then (ensure (server_settings_ok (set_server s))
       ''server settings violate body, rate, burst, or in-flight limits'') (\<lambda>_.
     and_then (ensure (auth_settings_ok (set_auth s))
       ''auth settings violate identifier, secret, or clock-skew limits'') (\<lambda>_.
     and_then (ensure (storage_settings_ok (set_storage s))
       ''storage settings violate bucket, region, or credential limits'') (\<lambda>_.
     and_then (validate_provider_contract world (set_storage s)) (\<lambda>_.
     and_then (ensure (upload_settings_ok (set_upload s))
       ''upload settings violate bounded multi-upload limits'') (\<lambda>_.
     and_then (ensure (worker_settings_ok (set_upload s) (set_worker s))
       ''worker settings violate concurrency, lease, timeout, or output limits'') (\<lambda>_.
     and_then (ensure (database_settings_ok (set_database s))
       ''database settings violate URL, pool, backup path, or retention limits'') (\<lambda>_.
     and_then (ensure (watermark_config_ok (set_worker s) (set_watermark s))
       ''watermark settings violate asset pin, revision, size, or opacity limits'') (\<lambda>_.
     and_then (ensure (lifecycle_settings_ok (set_lifecycle s))
       ''lifecycle settings violate retention, lease, retry, batch, or attempt limits'') (\<lambda>_.
     and_then (validate_delivery_settings (set_delivery s) (srv_bind_addr (set_server s))) (\<lambda>_.
     and_then (derive_redirect_authorities world (set_storage s)) (\<lambda>_. Ok ())))))))))))"

section \<open>Defaults\<close>

text \<open>The values \<open>load\<close> starts from; the storage account, the buckets and the control client have none.\<close>

definition loopback_port :: "u16 \<Rightarrow> SocketAddr" where
  "loopback_port port = SocketV4 2130706433 port"

definition default_server_settings :: ServerSettings where
  "default_server_settings =
     \<lparr>srv_bind_addr = loopback_port 8088, srv_request_body_limit_bytes = 1048576, srv_rate_limit_requests_per_second = 50,
      srv_rate_limit_burst = 100, srv_max_in_flight_requests = 64\<rparr>"

definition default_upload_settings :: UploadSettings where
  "default_upload_settings =
     \<lparr>ups_max_batch_files = 100, ups_max_batch_bytes = 21474836480, ups_max_image_bytes = 134217728,
      ups_max_video_bytes = 5368709120, ups_multipart_threshold_bytes = 104857600, ups_multipart_part_size_bytes = 33554432,
      ups_max_browser_connections = 8, ups_max_parts_per_file = 4, ups_max_active_uploads_global = 1000,
      ups_max_active_uploads_per_tenant = 200, ups_max_reserved_bytes_global = 1099511627776,
      ups_max_reserved_bytes_per_tenant = 107374182400\<rparr>"

definition default_database_settings :: DatabaseSettings where
  "default_database_settings =
     \<lparr>dbs_url = ''sqlite://data/g7mb.db'', dbs_max_connections = 4,
      dbs_backup_directory = ''/var/lib/g7mediabooster/backups'', dbs_backup_retention_count = 14\<rparr>"

definition default_worker_settings :: WorkerSettings where
  "default_worker_settings =
     \<lparr>wks_max_concurrent_jobs = 2, wks_max_concurrent_heavy_images = 1, wks_max_concurrent_videos = 1,
      wks_native_threads_per_job = 2, wks_image_timeout_seconds = 30, wks_video_timeout_seconds = 45,
      wks_sandbox_binary = ''g7mb-sandbox'', wks_temp_directory = ''/tmp/g7mb'', wks_max_temp_disk_bytes = 12884901888,
      wks_lease_seconds = 120, wks_heartbeat_seconds = 30, wks_poll_interval_ms = 250, wks_retry_delay_seconds = 10,
      wks_max_attempts = 3, wks_max_sandbox_output_bytes = 65536, wks_metrics_bind_addr = loopback_port 9091\<rparr>"

definition default_lifecycle_settings :: LifecycleSettings where
  "default_lifecycle_settings =
     \<lparr>lcs_created_reservation_ttl_seconds = 86400, lcs_rejected_source_retention_seconds = 604800,
      lcs_cleanup_lease_seconds = 300, lcs_cleanup_retry_seconds = 60, lcs_cleanup_batch_size = 100,
      lcs_cleanup_max_attempts = 10, lcs_orphan_grace_period_seconds = 172800, lcs_inventory_page_size = 1000,
      lcs_inventory_max_pages_per_run = 10, lcs_tombstone_retention_seconds = 31536000,
      lcs_tombstone_purge_batch_size = 100\<rparr>"

definition default_delivery_settings :: DeliverySettings where
  "default_delivery_settings =
     \<lparr>dls_signed_url_ttl_seconds = 300, dls_manifest_cache_ttl_seconds = 60, dls_manifest_cache_max_bytes = 4194304,
      dls_public_enabled = False, dls_public_bind_addr = loopback_port 8089, dls_public_signing_secret = [],
      dls_public_signing_secret_file = None, dls_public_token_max_ttl_seconds = 300,
      dls_public_rate_limit_requests_per_second = 100, dls_public_rate_limit_burst = 200,
      dls_public_max_in_flight_requests = 128\<rparr>"

definition default_watermark_settings :: WatermarkSettings where
  "default_watermark_settings =
     \<lparr>wms_enabled = False, wms_asset_path = [], wms_asset_sha256 = [], wms_preset_revision = ''v1'',
      wms_position = BottomRightSetting, wms_margin_px = 24, wms_max_width_percent = 20, wms_opacity_percent = 80\<rparr>"

definition default_settings :: "AuthSettings \<Rightarrow> StorageSettings \<Rightarrow> Settings" where
  "default_settings auth storage =
     \<lparr>set_server = default_server_settings, set_auth = auth, set_upload = default_upload_settings, set_storage = storage,
      set_database = default_database_settings, set_worker = default_worker_settings,
      set_lifecycle = default_lifecycle_settings, set_delivery = default_delivery_settings,
      set_watermark = default_watermark_settings\<rparr>"

section \<open>Loading\<close>

text \<open>\<open>deserialized\<close> is what the \<open>config\<close> crate makes of the defaults, the file and the environment.\<close>

definition load :: "url_world \<Rightarrow> secret_host \<Rightarrow> (ConfigError, Settings) result \<Rightarrow> (ConfigError, Settings) result" where
  "load world host deserialized =
     and_then deserialized (\<lambda>raw.
     and_then (resolve_secret_files host raw) (\<lambda>s.
     and_then (validate_settings world s) (\<lambda>_. Ok s)))"

lemmas default_settings_defs = default_settings_def default_server_settings_def default_upload_settings_def
  default_database_settings_def default_worker_settings_def default_lifecycle_settings_def default_delivery_settings_def
  default_watermark_settings_def loopback_port_def

text \<open>The defaults pass every check once the account and the client do.\<close>

lemma default_settings_valid:
  assumes "auth_settings_ok auth" "storage_settings_ok storage" "validate_provider_contract world storage = Ok ()"
    and "derive_redirect_authorities world storage = Ok authorities"
  shows "validate_settings world (default_settings auth storage) = Ok ()"
  using assms
  by (simp add: validate_settings_def default_settings_defs server_settings_ok_def upload_settings_ok_def worker_settings_ok_def
      database_settings_ok_def watermark_config_ok_def lifecycle_settings_ok_def validate_delivery_settings_def within_def
      minimum_temp_disk_bytes_def saturating_add_def saturating_mul_def checked_add_def checked_mul_def is_absolute_def
      starts_with_def max_def ensure_def)

section \<open>Loaded secrets\<close>

text \<open>What a resolved secret is: the inline value when no file is named, else the checked content.\<close>

lemma resolve_secret_Ok:
  "resolve_secret host inline_value path name = Ok v \<longleftrightarrow>
     (case path of
        None \<Rightarrow> v = inline_value
      | Some p \<Rightarrow> inline_value = [] \<and> is_absolute p \<and>
          (\<exists>m content. host_metadata host p = Ok m \<and> fm_kind m = RegularFile \<and> fm_len m \<noteq> 0 \<and> fm_len m \<le> 4096 \<and>
             and (fm_mode m) 31 = 0 \<and> host_read host p = Ok content \<and> utf8_valid content \<and>
             secret_value_ok v \<and> v = trim_newlines content))"
  by (auto simp: resolve_secret_def secret_metadata_ok_def and_then_eq_Inr split: option.split sum.splits)

text \<open>Where a secret of the loaded settings comes from.\<close>

definition from_one_source :: "secret_host \<Rightarrow> string \<Rightarrow> string option \<Rightarrow> string \<Rightarrow> bool" where
  "from_one_source host inline_value path v \<longleftrightarrow>
     (case path of
        None \<Rightarrow> v = inline_value
      | Some p \<Rightarrow> inline_value = [] \<and> is_absolute p \<and>
          (\<exists>m content. host_metadata host p = Ok m \<and> fm_kind m = RegularFile \<and> fm_len m \<noteq> 0 \<and> fm_len m \<le> 4096 \<and>
             and (fm_mode m) 31 = 0 \<and> host_read host p = Ok content \<and> utf8_valid content \<and>
             secret_value_ok v \<and> (\<exists>newlines. content = v @ newlines \<and> set newlines \<subseteq> {CHR 0x0D, CHR 0x0A})))"

lemma resolve_secret_source: "resolve_secret host inline_value path name = Ok v \<Longrightarrow> from_one_source host inline_value path v"
proof -
  assume "resolve_secret host inline_value path name = Ok v"
  moreover have "\<exists>newlines. content = trim_newlines content @ newlines \<and> set newlines \<subseteq> {CHR 0x0D, CHR 0x0A}" for content
    using trim_newlines_prefix[of content] by (fastforce simp: list_all_iff)
  ultimately show ?thesis
    by (auto simp: resolve_secret_Ok from_one_source_def split: option.splits)
qed


text \<open>A host with one secret file, and an account that needs no URL.\<close>

definition sample_host :: secret_host where
  "sample_host =
     \<lparr>host_metadata = (\<lambda>p. if p = ''/etc/g7mb/hmac'' then Ok \<lparr>fm_kind = RegularFile, fm_len = 33, fm_mode = 416\<rparr> else Err ''missing''),
      host_read = (\<lambda>p. Ok (replicate 32 (CHR ''k'') @ [CHR 0x0A]))\<rparr>"

definition sample_auth :: AuthSettings where
  "sample_auth = \<lparr>aus_key_id = ''key'', aus_tenant_id = ''site'', aus_hmac_secret = [],
     aus_hmac_secret_file = Some ''/etc/g7mb/hmac'', aus_allowed_skew_seconds = 300\<rparr>"

definition sample_account :: StorageSettings where
  "sample_account = \<lparr>sto_provider = Lightsail, sto_endpoint_url = None, sto_region = ''eu-west-1'', sto_raw_bucket = ''bucket'',
     sto_derivative_bucket = ''bucket'', sto_access_key_id = ''a'', sto_access_key_id_file = None,
     sto_secret_access_key = ''s'', sto_secret_access_key_file = None, sto_force_path_style = False\<rparr>"

lemma sample_account_ok:
  "storage_settings_ok sample_account" "validate_provider_contract world sample_account = Ok ()"
  "\<exists>authorities. derive_redirect_authorities world sample_account = Ok authorities"
  by (simp_all add: storage_settings_ok_def sample_account_def validate_provider_contract_def parsed_endpoint_def valid_region_def
      derive_redirect_authorities_def authority_byte_def is_ascii_alphanumeric_def is_ascii_lower_def is_ascii_upper_def
      is_ascii_digit_def byte_of_def)

definition sample_settings :: Settings where
  "sample_settings = default_settings (sample_auth\<lparr>aus_hmac_secret := replicate 32 (CHR ''k'')\<rparr>) sample_account"

lemma sample_settings_valid: "validate_settings world sample_settings = Ok ()"
proof -
  obtain authorities where "derive_redirect_authorities world sample_account = Ok authorities"
    using sample_account_ok(3) by blast
  moreover have "auth_settings_ok (sample_auth\<lparr>aus_hmac_secret := replicate 32 (CHR ''k'')\<rparr>)"
    by (simp add: auth_settings_ok_def sample_auth_def within_def)
  ultimately show ?thesis
    unfolding sample_settings_def using default_settings_valid sample_account_ok by blast
qed

lemma sample_loaded: "load world sample_host (Ok (default_settings sample_auth sample_account)) = Ok sample_settings"
proof -
  have "resolve_secret sample_host [] (Some ''/etc/g7mb/hmac'') ''auth.hmac_secret'' = Ok (replicate 32 (CHR ''k''))"
    by (simp add: resolve_secret_Ok is_absolute_def starts_with_def sample_host_def)
      (simp add: replicate_numeral byte_of_def secret_value_ok_def is_trimmed_def white_space_def trim_newlines_def upt_rec char_of_def)
  then have "resolve_secret_files sample_host (default_settings sample_auth sample_account) = Ok sample_settings"
    by (simp add: resolve_secret_files_def resolve_public_secret_def sample_settings_def default_settings_def
        default_delivery_settings_def sample_auth_def sample_account_def resolve_secret_def[of _ _ None])
  then show ?thesis by (simp add: load_def sample_settings_valid)
qed


end
