(* ===== verification/Effects.thy ===== *)
theory Effects
  imports Prelude
begin

text \<open>
  Fallible operations over a state, for the components that issue many calls in sequence: \<open>op_bind\<close> is
  the \<open>?\<close> operator after an awaited call, \<open>op_check\<close> an early return.  \<open>touches_only\<close> says that whatever
  an operation answers, what it changes of the state (seen through \<open>view\<close>) lies in a set of keys.
\<close>

type_synonym ('s, 'e, 'a) op = "'s \<Rightarrow> ('e, 'a) result \<times> 's"

definition op_bind :: "('s, 'e, 'a) op \<Rightarrow> ('a \<Rightarrow> ('s, 'e, 'b) op) \<Rightarrow> ('s, 'e, 'b) op" where
  "op_bind m k s = (case m s of (Inl e, s') \<Rightarrow> (Err e, s') | (Inr a, s') \<Rightarrow> k a s')"

definition op_return :: "'a \<Rightarrow> ('s, 'e, 'a) op" where
  "op_return a s = (Ok a, s)"

definition op_check :: "bool \<Rightarrow> 'e \<Rightarrow> ('s, 'e, unit) op" where
  "op_check ok e s = (if ok then Ok () else Err e, s)"

text \<open>An operation whose failure the caller inspects, one with another error, and one on a part of the state.\<close>

definition op_try :: "('s, 'e, 'a) op \<Rightarrow> ('s, 'f, 'a option) op" where
  "op_try m s = (case m s of (Inl e, s') \<Rightarrow> (Ok None, s') | (Inr a, s') \<Rightarrow> (Ok (Some a), s'))"

definition op_map_err :: "('e \<Rightarrow> 'f) \<Rightarrow> ('s, 'e, 'a) op \<Rightarrow> ('s, 'f, 'a) op" where
  "op_map_err f m s = (case m s of (Inl e, s') \<Rightarrow> (Err (f e), s') | (Inr a, s') \<Rightarrow> (Ok a, s'))"

definition op_within :: "('w \<Rightarrow> 's) \<Rightarrow> ('s \<Rightarrow> 'w \<Rightarrow> 'w) \<Rightarrow> ('s, 'e, 'a) op \<Rightarrow> ('w, 'e, 'a) op" where
  "op_within get put m w = (case m (get w) of (r, s) \<Rightarrow> (r, put s w))"

definition op_of_result :: "('e, 'a) result \<Rightarrow> ('s, 'e, 'a) op" where
  "op_of_result r s = (r, s)"

lemma op_bind_Ok: "op_bind m k s = (Ok c, s'') \<longleftrightarrow> (\<exists>a s'. m s = (Ok a, s') \<and> k a s' = (Ok c, s''))"
  by (auto simp: op_bind_def split: prod.split sum.split)

lemma op_bind_cases:
  assumes "op_bind m k s = (r, s'')"
  obtains e where "m s = (Err e, s'')" "r = Err e" | a s' where "m s = (Ok a, s')" "k a s' = (r, s'')"
  using assms by (auto simp: op_bind_def split: prod.splits sum.splits)

lemma op_check_Ok [simp]: "op_check ok e s = (Ok u, s') \<longleftrightarrow> ok \<and> s' = s"
  by (auto simp: op_check_def)

lemma op_return_Ok [simp]: "op_return a s = (Ok c, s') \<longleftrightarrow> c = a \<and> s' = s"
  by (auto simp: op_return_def)

definition touches_only :: "('s \<Rightarrow> 'k \<Rightarrow> 'v) \<Rightarrow> 'k set \<Rightarrow> ('s, 'e, 'a) op \<Rightarrow> bool" where
  "touches_only view K m \<longleftrightarrow> (\<forall>s r s' p. m s = (r, s') \<longrightarrow> p \<notin> K \<longrightarrow> view s' p = view s p)"

lemma touches_onlyD: "touches_only view K m \<Longrightarrow> m s = (r, s') \<Longrightarrow> p \<notin> K \<Longrightarrow> view s' p = view s p"
  unfolding touches_only_def by blast

lemma touches_nothing: "touches_only view {} m \<Longrightarrow> m s = (r, s') \<Longrightarrow> view s' = view s"
  unfolding touches_only_def by blast

lemma touches_only_bind:
  assumes "touches_only view K m" "\<And>a. touches_only view K (k a)"
  shows "touches_only view K (op_bind m k)"
  using assms unfolding touches_only_def op_bind_def
  by (fastforce split: prod.splits sum.splits)

lemma touches_only_simple [simp]:
  "touches_only view K (op_return a)" "touches_only view K (op_check ok e)" "touches_only view K (\<lambda>s. (Err e, s))"
  by (simp_all add: touches_only_def op_return_def op_check_def)

lemma touches_only_mono: "touches_only view K m \<Longrightarrow> K \<subseteq> L \<Longrightarrow> touches_only view L m"
  unfolding touches_only_def by blast

text \<open>\<open>keeps\<close>: whatever the operation answers, it preserves a property of every key's value.\<close>

definition keeps :: "('s \<Rightarrow> 'k \<Rightarrow> 'v) \<Rightarrow> ('k \<Rightarrow> 'v \<Rightarrow> bool) \<Rightarrow> ('s, 'e, 'a) op \<Rightarrow> bool" where
  "keeps view P m \<longleftrightarrow> (\<forall>s r s' p. m s = (r, s') \<longrightarrow> P p (view s p) \<longrightarrow> P p (view s' p))"

lemma keepsD: "keeps view P m \<Longrightarrow> m s = (r, s') \<Longrightarrow> P p (view s p) \<Longrightarrow> P p (view s' p)"
  unfolding keeps_def by blast

lemma keeps_bind: "keeps view P m \<Longrightarrow> (\<And>a. keeps view P (k a)) \<Longrightarrow> keeps view P (op_bind m k)"
  unfolding keeps_def op_bind_def by (auto split: prod.splits sum.splits)

lemma keeps_simple [simp]:
  "keeps view P (op_return a)" "keeps view P (op_check ok e)" "keeps view P (\<lambda>s. (Err e, s))"
  by (simp_all add: keeps_def op_return_def op_check_def)

text \<open>\<open>ensures\<close>: from a state with \<open>P\<close>, a success leaves \<open>Q\<close> and an error leaves \<open>E\<close>.\<close>

definition ensures :: "('s \<Rightarrow> bool) \<Rightarrow> ('s, 'e, 'a) op \<Rightarrow> ('a \<Rightarrow> 's \<Rightarrow> bool) \<Rightarrow> ('e \<Rightarrow> 's \<Rightarrow> bool) \<Rightarrow> bool" where
  "ensures P m Q E \<longleftrightarrow> (\<forall>s r s'. P s \<longrightarrow> m s = (r, s') \<longrightarrow> (case r of Inl e \<Rightarrow> E e s' | Inr a \<Rightarrow> Q a s'))"

lemma ensuresD: "ensures P m Q E \<Longrightarrow> P s \<Longrightarrow> m s = (r, s') \<Longrightarrow> (case r of Inl e \<Rightarrow> E e s' | Inr a \<Rightarrow> Q a s')"
  unfolding ensures_def by blast

lemma ensures_bind:
  assumes "ensures P m Q E" "\<And>a. ensures (Q a) (k a) R E"
  shows "ensures P (op_bind m k) R E"
  using assms unfolding ensures_def op_bind_def by (auto split: prod.splits sum.splits) (metis sum.simps(5,6))+

lemma ensures_weaken:
  assumes "ensures P m Q E" "\<And>s. P' s \<Longrightarrow> P s" "\<And>a s. Q a s \<Longrightarrow> Q' a s" "\<And>e s. E e s \<Longrightarrow> E' e s"
  shows "ensures P' m Q' E'"
  using assms unfolding ensures_def by (metis (no_types, lifting) sum.case_eq_if)

lemma ensures_check: "(\<And>s. P s \<Longrightarrow> E e s) \<Longrightarrow> ensures P (op_check ok e) (\<lambda>_ s. ok \<and> P s) E"
  by (simp add: ensures_def op_check_def)

lemma ensures_unchanged:
  assumes "touches_only view {} m" "\<And>e s. view s = v \<Longrightarrow> E e s"
  shows "ensures (\<lambda>s. view s = v) m (\<lambda>_ s. view s = v) E"
  using assms touches_nothing[OF assms(1)] unfolding ensures_def by (auto split: sum.split)

lemma keeps_unchanged: "touches_only view {} m \<Longrightarrow> keeps view P m"
  unfolding keeps_def touches_only_def by (metis empty_iff)

text \<open>\<open>succeeds\<close>: from a state with \<open>P\<close> the operation does not fail, and leaves \<open>Q\<close>.\<close>

definition succeeds :: "('s \<Rightarrow> bool) \<Rightarrow> ('s, 'e, 'a) op \<Rightarrow> ('a \<Rightarrow> 's \<Rightarrow> bool) \<Rightarrow> bool" where
  "succeeds P m Q \<longleftrightarrow> (\<forall>s. P s \<longrightarrow> (\<exists>a s'. m s = (Ok a, s') \<and> Q a s'))"

lemma succeedsD: "succeeds P m Q \<Longrightarrow> P s \<Longrightarrow> \<exists>a s'. m s = (Ok a, s') \<and> Q a s'"
  unfolding succeeds_def by blast

lemma succeeds_bind:
  assumes "succeeds P m Q" "\<And>a. succeeds (Q a) (k a) R"
  shows "succeeds P (op_bind m k) R"
  unfolding succeeds_def
proof (intro allI impI)
  fix s assume "P s"
  then obtain a s' where "m s = (Ok a, s')" "Q a s'" using assms(1) unfolding succeeds_def by blast
  then show "\<exists>a s'. op_bind m k s = (Ok a, s') \<and> R a s'"
    using assms(2)[of a] unfolding succeeds_def by (simp add: op_bind_def)
qed

lemma succeeds_weaken:
  assumes "succeeds P m Q" "\<And>s. P' s \<Longrightarrow> P s" "\<And>a s. Q a s \<Longrightarrow> Q' a s"
  shows "succeeds P' m Q'"
  using assms unfolding succeeds_def by blast

lemma succeeds_if_pre: "(\<And>s. P s \<Longrightarrow> succeeds (\<lambda>t. t = s) m Q) \<Longrightarrow> succeeds P m Q"
  unfolding succeeds_def by blast

lemma succeeds_simple [simp]:
  "succeeds P (op_return a) Q \<longleftrightarrow> (\<forall>s. P s \<longrightarrow> Q a s)"
  "succeeds P (op_check ok e) R \<longleftrightarrow> (\<forall>s. P s \<longrightarrow> ok \<and> R () s)"
  by (auto simp: succeeds_def op_return_def op_check_def)

end
