(* ===== verification/Object_Store_S3.thy ===== *)
theory Object_Store_S3
  imports Config Worker
begin

text \<open>
  The S3 adapter: \<open>crates/g7mb-object-store-s3/src/lib.rs\<close>.  The AWS SDK is a record of its operations
  over the state of the service (\<open>'b\<close>); a failed call yields what the adapter asks of an SDK error.
  An adapter is the SDK and a bucket, and its operations make up the ports' \<open>ObjectStore\<close> and
  \<open>FileStore\<close>.
\<close>

section \<open>The SDK\<close>

text \<open>The classifications of a service error, its code, and its \<open>to_string\<close>.\<close>

record sdk_error =
  se_no_such_upload :: bool
  se_not_found :: bool
  se_no_such_key :: bool
  se_code :: "string option"
  se_text :: string

datatype presign_target =
    PresignPutObject string string u64 string
  | PresignGetObject string string
  | PresignUploadPart string string string u16 u64

text \<open>The lengths the service reports are \<open>i64\<close>.\<close>

record object_output =
  oo_content_length :: "int option"
  oo_content_type :: "string option"
  oo_etag :: "string option"

record listed_output =
  lio_contents :: "(string option \<times> int option) list"
  lio_is_truncated :: "bool option"

record CorsRule =
  cr_id :: "string option"
  cr_allowed_headers :: "string list"
  cr_allowed_methods :: "string list"
  cr_allowed_origins :: "string list"
  cr_expose_headers :: "string list"
  cr_max_age_seconds :: "int option"

text \<open>The local disk under a download: the failure of creating the file, of the \<open>n\<close>-th write (with what
  it wrote of the chunk), of the flush, and whether a removal succeeds.\<close>

record disk =
  dk_exists :: string
  dk_create :: "string option"
  dk_write :: "nat \<Rightarrow> (nat \<times> string) option"
  dk_flush :: "string option"
  dk_remove :: bool

type_synonym ('b, 'a) sdk_op = "'b \<Rightarrow> (sdk_error, 'a) result \<times> 'b"

text \<open>A body is the results of the reads from it, until its end.\<close>

type_synonym body = "(string, string) result list"

record 'b sdk =
  aws_expires_in :: "duration \<Rightarrow> (string, unit) result"
  aws_presigned :: "presign_target \<Rightarrow> duration \<Rightarrow> ('b, string) sdk_op"
  aws_now :: "'b \<Rightarrow> instant"
  aws_create_multipart :: "string \<Rightarrow> string \<Rightarrow> string option \<Rightarrow> ('b, string option) sdk_op"
  aws_upload_part :: "string \<Rightarrow> string \<Rightarrow> string \<Rightarrow> int \<Rightarrow> string \<Rightarrow> ('b, string option) sdk_op"
  aws_complete_multipart :: "string \<Rightarrow> string \<Rightarrow> string \<Rightarrow> (int \<times> string) list \<Rightarrow> ('b, unit) sdk_op"
  aws_abort_multipart :: "string \<Rightarrow> string \<Rightarrow> string \<Rightarrow> ('b, unit) sdk_op"
  aws_head_object :: "string \<Rightarrow> string \<Rightarrow> ('b, object_output) sdk_op"
  aws_get_object :: "string \<Rightarrow> string \<Rightarrow> ('b, object_output \<times> body) sdk_op"
  aws_put_object :: "string \<Rightarrow> string \<Rightarrow> string \<Rightarrow> int option \<Rightarrow> string \<Rightarrow> ('b, string option) sdk_op"
  aws_list_objects :: "string \<Rightarrow> string \<Rightarrow> string option \<Rightarrow> int \<Rightarrow> ('b, listed_output) sdk_op"
  aws_delete_object :: "string \<Rightarrow> string \<Rightarrow> ('b, unit) sdk_op"
  aws_head_bucket :: "string \<Rightarrow> ('b, unit) sdk_op"
  aws_create_bucket :: "string \<Rightarrow> string option \<Rightarrow> ('b, unit) sdk_op"
  aws_get_bucket_cors :: "string \<Rightarrow> ('b, CorsRule list option) sdk_op"
  aws_put_bucket_cors :: "string \<Rightarrow> CorsRule list \<Rightarrow> ('b, unit) sdk_op"
  aws_disk :: "'b \<Rightarrow> string \<Rightarrow> disk"
  aws_io_error :: "string \<Rightarrow> string"

text \<open>\<open>map_err\<close> after a call, and a call whose result goes through a function that may fail.\<close>

definition backend :: "(sdk_error, 'a) result \<times> 'b \<Rightarrow> ('a \<Rightarrow> (ObjectStoreError, 'c) result) \<Rightarrow> (ObjectStoreError, 'c) result \<times> 'b" where
  "backend outcome f = (case outcome of (Inl e, b) \<Rightarrow> (Err (StoreBackend (se_text e)), b) | (Inr a, b) \<Rightarrow> (f a, b))"

definition to_i64 :: "nat \<Rightarrow> string \<Rightarrow> (ObjectStoreError, int) result" where
  "to_i64 n message = (if n \<le> i64_max then Ok (int n) else Err (InvalidRequest message))"

section \<open>Construction\<close>

record 'b S3CompatibleStore =
  s3_client :: "'b sdk"
  s3_bucket :: string

definition contract_error :: ObjectStoreError where
  "contract_error = InvalidRequest ''storage settings do not match the declared provider''"

definition S3CompatibleStore_new :: "url_world \<Rightarrow> 'b sdk \<Rightarrow> StorageSettings \<Rightarrow> string
    \<Rightarrow> (ObjectStoreError, 'b S3CompatibleStore) result" where
  "S3CompatibleStore_new world client settings bucket =
     (case validate_provider_contract world settings of
        Inl _ \<Rightarrow> Err contract_error
      | Inr _ \<Rightarrow>
          if bucket = [] then Err (InvalidRequest ''bucket must not be empty'')
          else Ok \<lparr>s3_client = client, s3_bucket = bucket\<rparr>)"

definition for_raw_bucket :: "url_world \<Rightarrow> 'b sdk \<Rightarrow> StorageSettings \<Rightarrow> (ObjectStoreError, 'b S3CompatibleStore) result" where
  "for_raw_bucket world client settings = S3CompatibleStore_new world client settings (sto_raw_bucket settings)"

definition for_derivative_bucket :: "url_world \<Rightarrow> 'b sdk \<Rightarrow> StorageSettings
    \<Rightarrow> (ObjectStoreError, 'b S3CompatibleStore) result" where
  "for_derivative_bucket world client settings = S3CompatibleStore_new world client settings (sto_derivative_bucket settings)"

section \<open>Presigning\<close>

definition presigned :: "'b sdk \<Rightarrow> presign_target \<Rightarrow> duration \<Rightarrow> 'b
    \<Rightarrow> (string \<Rightarrow> instant \<Rightarrow> 'a) \<Rightarrow> (ObjectStoreError, 'a) result \<times> 'b" where
  "presigned client target expires_in b answer =
     (case aws_expires_in client expires_in of
        Inl e \<Rightarrow> (Err (InvalidRequest (''invalid presign expiry: '' @ e)), b)
      | Inr _ \<Rightarrow>
          (case aws_presigned client target expires_in b of
             (Inl e, b1) \<Rightarrow> (Err (StoreBackend (se_text e)), b1)
           | (Inr url, b1) \<Rightarrow> (Ok (answer url (aws_now client b1 + int expires_in)), b1)))"

definition s3_presign_put :: "'b S3CompatibleStore \<Rightarrow> PresignPutRequest \<Rightarrow> ('b, PresignedUpload) store_op" where
  "s3_presign_put st request b =
     (case to_i64 (unat (pp_content_length request)) ''content length exceeds S3 range'' of
        Inl e \<Rightarrow> (Err e, b)
      | Inr content_length \<Rightarrow>
          presigned (s3_client st)
            (PresignPutObject (s3_bucket st) (pp_key request) (pp_content_length request) (pp_content_type request))
            (pp_expires_in request) b
            (\<lambda>url expires_at.
               \<lparr>pu_url = url,
                pu_required_headers = [(''content-length'', show_int content_length), (''content-type'', pp_content_type request)],
                pu_expires_at = expires_at\<rparr>))"

definition s3_presign_get :: "'b S3CompatibleStore \<Rightarrow> PresignGetRequest \<Rightarrow> ('b, PresignedDownload) store_op" where
  "s3_presign_get st request b =
     presigned (s3_client st) (PresignGetObject (s3_bucket st) (pg_key request)) (pg_expires_in request) b
       (\<lambda>url expires_at. \<lparr>pd_url = url, pd_expires_at = expires_at\<rparr>)"

definition s3_presign_part :: "'b S3CompatibleStore \<Rightarrow> PresignPartRequest \<Rightarrow> ('b, PresignedUpload) store_op" where
  "s3_presign_part st request b =
     (if ppr_part_number request = 0 \<or> ppr_part_number request > 10000
      then (Err (InvalidRequest ''multipart part number is outside 1..=10000''), b)
      else if ppr_content_length request = 0
      then (Err (InvalidRequest ''multipart part length must be positive''), b)
      else (case to_i64 (unat (ppr_content_length request)) ''part length exceeds S3 range'' of
          Inl e \<Rightarrow> (Err e, b)
        | Inr content_length \<Rightarrow>
            presigned (s3_client st)
              (PresignUploadPart (s3_bucket st) (ppr_key request) (ppr_upload_id request) (ppr_part_number request)
                 (ppr_content_length request))
              (ppr_expires_in request) b
              (\<lambda>url expires_at. \<lparr>pu_url = url, pu_required_headers = [(''content-length'', show_int content_length)],
                 pu_expires_at = expires_at\<rparr>)))"

section \<open>Multipart sessions\<close>

definition s3_create_multipart :: "'b S3CompatibleStore \<Rightarrow> CreateMultipartRequest \<Rightarrow> ('b, string) store_op" where
  "s3_create_multipart st request b =
     backend (aws_create_multipart (s3_client st) (s3_bucket st) (cm_key request) (Some (cm_content_type request)) b)
       (\<lambda>upload_id. case upload_id of
          None \<Rightarrow> Err (StoreBackend ''storage returned no multipart upload id'') | Some u \<Rightarrow> Ok u)"

fun parts_ordered :: "u16 \<Rightarrow> CompletedPart list \<Rightarrow> (ObjectStoreError, unit) result" where
  "parts_ordered previous [] = Ok ()"
| "parts_ordered previous (p # ps) =
     (if cp_part_number p = 0 \<or> cp_part_number p \<le> previous \<or> cp_etag p = [] \<or> length (cp_etag p) > 1024
      then Err (InvalidRequest ''multipart parts must be ordered, unique, and have an ETag'')
      else parts_ordered (cp_part_number p) ps)"

definition validate_completed_parts :: "CompletedPart list \<Rightarrow> (ObjectStoreError, unit) result" where
  "validate_completed_parts parts =
     (if parts = [] \<or> length parts > 10000
      then Err (InvalidRequest ''multipart completion has an invalid part count'')
      else parts_ordered 0 parts)"

definition s3_complete_multipart :: "'b S3CompatibleStore \<Rightarrow> CompleteMultipartRequest \<Rightarrow> ('b, unit) store_op" where
  "s3_complete_multipart st request b =
     (case validate_completed_parts (cmr_parts request) of
        Inl e \<Rightarrow> (Err e, b)
      | Inr _ \<Rightarrow>
          backend (aws_complete_multipart (s3_client st) (s3_bucket st) (cmr_key request) (cmr_upload_id request)
            (map (\<lambda>p. (int (unat (cp_part_number p)), cp_etag p)) (cmr_parts request)) b) (\<lambda>_. Ok ()))"

definition s3_abort_multipart :: "'b S3CompatibleStore \<Rightarrow> AbortMultipartRequest \<Rightarrow> ('b, unit) store_op" where
  "s3_abort_multipart st request b =
     (case aws_abort_multipart (s3_client st) (s3_bucket st) (am_key request) (am_upload_id request) b of
        (Inr _, b1) \<Rightarrow> (Ok (), b1)
      | (Inl e, b1) \<Rightarrow> (if se_no_such_upload e then Ok () else Err (StoreBackend (se_text e)), b1))"

section \<open>Objects\<close>

definition to_u64 :: "int \<Rightarrow> u64 option" where
  "to_u64 i = (if i < 0 then None else Some (of_int i))"

definition s3_head :: "'b S3CompatibleStore \<Rightarrow> string \<Rightarrow> ('b, ObjectMetadata) store_op" where
  "s3_head st key b =
     (case aws_head_object (s3_client st) (s3_bucket st) key b of
        (Inl e, b1) \<Rightarrow> (if se_not_found e then Err ObjectNotFound else Err (StoreBackend (se_text e)), b1)
      | (Inr output, b1) \<Rightarrow>
          (case to_u64 (case oo_content_length output of None \<Rightarrow> 0 | Some n \<Rightarrow> n) of
             None \<Rightarrow> (Err (StoreBackend ''storage returned a negative content length''), b1)
           | Some n \<Rightarrow> (Ok \<lparr>om_content_length = n, om_content_type = oo_content_type output, om_etag = oo_etag output\<rparr>, b1)))"

text \<open>The loop of \<open>stream_body_to_new_file\<close>; \<open>n\<close> counts the writes, \<open>written\<close> is the content of the file.\<close>

fun copy_chunks :: "disk \<Rightarrow> nat \<Rightarrow> u64 \<Rightarrow> u64 \<Rightarrow> u64 \<Rightarrow> string \<Rightarrow> body \<Rightarrow> (ObjectStoreError, u64) result \<times> string" where
  "copy_chunks d n received expected_length max_length written [] = (Ok received, written)"
| "copy_chunks d n received expected_length max_length written (r # rs) =
     (case r of
        Inl e \<Rightarrow> (Err (StoreBackend e), written)
      | Inr chunk \<Rightarrow>
          if chunk = [] then (Ok received, written)
          else if length chunk \<ge> 2 ^ 64 then (Err (StoreBackend ''download chunk length overflow''), written)
          else (case checked_add received (of_nat (length chunk)) of
              None \<Rightarrow> (Err (StoreBackend ''download length overflow''), written)
            | Some received' \<Rightarrow>
                if received' > max_length \<or> received' > expected_length then (Err ContentLengthMismatch, written)
                else (case dk_write d n of
                    Some (m, e) \<Rightarrow> (Err (StoreBackend e), written @ take m chunk)
                  | None \<Rightarrow> copy_chunks d (Suc n) received' expected_length max_length (written @ chunk) rs)))"

definition stream_body_to_new_file :: "disk \<Rightarrow> body \<Rightarrow> string \<Rightarrow> u64 \<Rightarrow> u64 \<Rightarrow> files
    \<Rightarrow> (ObjectStoreError, unit) result \<times> files" where
  "stream_body_to_new_file d reader destination expected_length max_length fs =
     (if fs destination \<noteq> None then (Err (StoreBackend (dk_exists d)), fs)
      else (case dk_create d of
          Some e \<Rightarrow> (Err (StoreBackend e), fs)
        | None \<Rightarrow>
            (case copy_chunks d 0 0 expected_length max_length [] reader of
               (Inl e, written) \<Rightarrow> (Err e, fs(destination \<mapsto> written))
             | (Inr received, written) \<Rightarrow>
                 (if received \<noteq> expected_length then Err ContentLengthMismatch
                  else (case dk_flush d of Some e \<Rightarrow> Err (StoreBackend e) | None \<Rightarrow> Ok ()), fs(destination \<mapsto> written)))))"

definition s3_download_to :: "'b S3CompatibleStore \<Rightarrow> DownloadObjectRequest \<Rightarrow> 'b \<times> files
    \<Rightarrow> (ObjectStoreError, ObjectMetadata) result \<times> 'b \<times> files" where
  "s3_download_to st request w = (case w of (b, fs) \<Rightarrow>
     if dor_expected_length request = 0 \<or> dor_expected_length request > dor_max_length request
     then (Err (InvalidRequest ''download length violates the worker byte cap''), b, fs)
     else (case aws_get_object (s3_client st) (s3_bucket st) (dor_key request) b of
         (Inl e, b1) \<Rightarrow> (if se_no_such_key e then Err ObjectNotFound else Err (StoreBackend (se_text e)), b1, fs)
       | (Inr (output, reader), b1) \<Rightarrow>
           if Option.bind (oo_content_length output) to_u64 \<noteq> Some (dor_expected_length request)
           then (Err ContentLengthMismatch, b1, fs)
           else let d = aws_disk (s3_client st) b1 (dor_destination request) in
             (case stream_body_to_new_file d reader (dor_destination request) (dor_expected_length request)
                 (dor_max_length request) fs of
                (Inl e, fs1) \<Rightarrow> (Err e, b1, if dk_remove d then fs1(dor_destination request := None) else fs1)
              | (Inr _, fs1) \<Rightarrow>
                  (Ok \<lparr>om_content_length = dor_expected_length request, om_content_type = oo_content_type output,
                     om_etag = oo_etag output\<rparr>, b1, fs1))))"

definition s3_put_file :: "'b S3CompatibleStore \<Rightarrow> PutFileRequest \<Rightarrow> files \<Rightarrow> ('b, ObjectMetadata) store_op" where
  "s3_put_file st request fs b =
     (if pfr_content_type request = [] \<or> length (pfr_content_type request) > 255
      then (Err (InvalidRequest ''derivative content type is invalid''), b)
      else (case fs (pfr_source request) of
          None \<Rightarrow> (Err (StoreBackend (aws_io_error (s3_client st) (pfr_source request))), b)
        | Some content \<Rightarrow>
            if length content = 0
            then (Err (InvalidRequest ''derivative source must be a non-empty regular file''), b)
            else (case to_i64 (length content) ''derivative length exceeds S3 range'' of
                Inl e \<Rightarrow> (Err e, b)
              | Inr content_length \<Rightarrow>
                  backend (aws_put_object (s3_client st) (s3_bucket st) (pfr_key request) (pfr_content_type request)
                      (Some content_length) content b)
                    (\<lambda>etag. Ok \<lparr>om_content_length = of_nat (length content),
                       om_content_type = Some (pfr_content_type request), om_etag = etag\<rparr>))))"

definition listed_object :: "string option \<times> int option \<Rightarrow> (ObjectStoreError, ListedObject) result" where
  "listed_object entry =
     (case fst entry of
        None \<Rightarrow> Err (StoreBackend ''storage inventory returned no object key'')
      | Some key \<Rightarrow>
          (case to_u64 (case snd entry of None \<Rightarrow> 0 | Some n \<Rightarrow> n) of
             None \<Rightarrow> Err (StoreBackend ''storage inventory returned a negative object length'')
           | Some n \<Rightarrow> Ok \<lparr>lob_key = key, lob_content_length = n\<rparr>))"

definition listed_page :: "listed_output \<Rightarrow> (ObjectStoreError, ListedObjectsPage) result" where
  "listed_page output =
     and_then (collect_results listed_object (lio_contents output)) (\<lambda>objects.
     if lio_is_truncated output = Some True
     then if objects = [] then Err (StoreBackend ''storage returned an empty truncated inventory page'')
       else Ok \<lparr>lop_objects = objects, lop_next_start_after = Some (lob_key (last objects))\<rparr>
     else Ok \<lparr>lop_objects = objects, lop_next_start_after = None\<rparr>)"

definition list_request_ok :: "ListObjectsRequest \<Rightarrow> bool" where
  "list_request_ok request \<longleftrightarrow>
     (lo_prefix request = ''raw/'' \<or> lo_prefix request = ''media/'') \<and>
     lo_max_keys request \<noteq> 0 \<and> lo_max_keys request \<le> 1000 \<and>
     (case lo_start_after request of None \<Rightarrow> True
      | Some cursor \<Rightarrow> length cursor \<le> 1024 \<and> starts_with (lo_prefix request) cursor)"

definition s3_list_objects :: "'b S3CompatibleStore \<Rightarrow> ListObjectsRequest \<Rightarrow> ('b, ListedObjectsPage) store_op" where
  "s3_list_objects st request b =
     (if \<not> list_request_ok request
      then (Err (InvalidRequest ''inventory request violates prefix, cursor, or page bounds''), b)
      else backend (aws_list_objects (s3_client st) (s3_bucket st) (lo_prefix request) (lo_start_after request)
             (int (unat (lo_max_keys request))) b) listed_page)"

definition s3_delete :: "'b S3CompatibleStore \<Rightarrow> string \<Rightarrow> ('b, unit) store_op" where
  "s3_delete st key b = backend (aws_delete_object (s3_client st) (s3_bucket st) key b) (\<lambda>_. Ok ())"

text \<open>The port's operations.\<close>

definition s3_object_store :: "'b S3CompatibleStore \<Rightarrow> 'b ObjectStore" where
  "s3_object_store st =
     \<lparr>presign_put = s3_presign_put st, presign_get = s3_presign_get st, create_multipart = s3_create_multipart st,
      store_presign_part = s3_presign_part st, store_complete_multipart = s3_complete_multipart st,
      store_abort_multipart = s3_abort_multipart st, head_object = s3_head st, list_objects = s3_list_objects st,
      delete_object = s3_delete st\<rparr>"

definition s3_file_store :: "'b S3CompatibleStore \<Rightarrow> 'b FileStore" where
  "s3_file_store st = \<lparr>download_to = s3_download_to st, put_file = s3_put_file st\<rparr>"

end
