(* ===== verification/Storage_Admin.thy ===== *)
theory Storage_Admin
  imports Object_Store_S3 Effects
begin

text \<open>
  The installation's control-plane helper of the S3 adapter: \<open>S3StorageAdmin\<close> of
  \<open>crates/g7mb-object-store-s3/src/lib.rs\<close>, with the bucket and CORS bootstrap and the live canary.
  The identifiers drawn by the canary are an argument.
\<close>

text \<open>An SDK call whose error is reported behind a message.\<close>

definition attempt :: "string \<Rightarrow> ('b, 'a) sdk_op \<Rightarrow> ('b, 'a) store_op" where
  "attempt message op b = (case op b of (Inl e, b') \<Rightarrow> (Err (StoreBackend (message @ se_text e)), b') | (Inr a, b') \<Rightarrow> (Ok a, b'))"

lemma attempt_Ok: "attempt message op b = (Ok a, b') \<longleftrightarrow> op b = (Ok a, b')"
  by (auto simp: attempt_def split: prod.split sum.split)

section \<open>The helper\<close>

record 'b S3StorageAdmin =
  ad_client :: "'b sdk"
  ad_provider :: StorageProvider
  ad_region :: string
  ad_custom_endpoint :: bool

record BucketBootstrapReport =
  bbr_bucket :: string
  bbr_created :: bool
  bbr_cors_configured :: bool

record StorageCanaryReport =
  scr_buckets_checked :: nat
  scr_single_object :: bool
  scr_multipart :: bool

definition S3StorageAdmin_new :: "url_world \<Rightarrow> 'b sdk \<Rightarrow> StorageSettings \<Rightarrow> (ObjectStoreError, 'b S3StorageAdmin) result" where
  "S3StorageAdmin_new world client settings =
     (case validate_provider_contract world settings of
        Inl _ \<Rightarrow> Err contract_error
      | Inr _ \<Rightarrow> Ok \<lparr>ad_client = client, ad_provider = sto_provider settings, ad_region = sto_region settings,
                   ad_custom_endpoint = (sto_endpoint_url settings \<noteq> None)\<rparr>)"

text \<open>The set of the two buckets, in byte order.\<close>

definition unique_buckets :: "StorageSettings \<Rightarrow> (ObjectStoreError, string list) result" where
  "unique_buckets settings =
     (let raw = sto_raw_bucket settings; derivative = sto_derivative_bucket settings;
          buckets = (if raw = derivative then [raw] else if raw < derivative then [raw, derivative] else [derivative, raw]) in
      if list_ex (\<lambda>b. b = []) buckets then Err (InvalidRequest ''bucket must not be empty'') else Ok buckets)"

section \<open>The managed CORS rule\<close>

definition managed_rule_id :: string where
  "managed_rule_id = ''g7mediabooster-browser-v1''"

definition managed_cors_rule :: "string list \<Rightarrow> CorsRule" where
  "managed_cors_rule origins =
     \<lparr>cr_id = Some managed_rule_id, cr_allowed_headers = [''content-type'', ''x-amz-*''],
      cr_allowed_methods = [''GET'', ''PUT'', ''HEAD''], cr_allowed_origins = origins, cr_expose_headers = [''ETag''],
      cr_max_age_seconds = Some 3600\<rparr>"

definition merge_managed_cors_rules :: "CorsRule list \<Rightarrow> string list \<Rightarrow> (ObjectStoreError, CorsRule list) result" where
  "merge_managed_cors_rules rules origins =
     (let others = filter (\<lambda>rule. cr_id rule \<noteq> Some managed_rule_id) rules in
      if length others \<ge> 100 then Err (InvalidRequest ''provider already has the maximum 100 CORS rules'')
      else Ok (others @ [managed_cors_rule origins]))"

definition cors_rule_complete :: "string list \<Rightarrow> CorsRule \<Rightarrow> bool" where
  "cors_rule_complete origins rule \<longleftrightarrow>
     cr_allowed_origins rule = origins \<and>
     list_all (\<lambda>m. list_ex (\<lambda>v. v = m) (cr_allowed_methods rule)) [''GET'', ''PUT'', ''HEAD''] \<and>
     list_ex (\<lambda>h. to_ascii_lowercase h = ''etag'') (cr_expose_headers rule)"

definition current_cors_rules :: "'b sdk \<Rightarrow> string \<Rightarrow> ('b, CorsRule list) store_op" where
  "current_cors_rules client bucket b =
     (case aws_get_bucket_cors client bucket b of
        (Inr rules, b1) \<Rightarrow> (Ok (case rules of None \<Rightarrow> [] | Some rs \<Rightarrow> rs), b1)
      | (Inl e, b1) \<Rightarrow>
          (if se_code e = Some ''NoSuchCORSConfiguration'' \<or> se_code e = Some ''NoSuchCORS'' then Ok []
           else Err (StoreBackend (''failed to read CORS for bucket '' @ bucket @ '': '' @ se_text e)), b1))"

definition merge_cors :: "'b sdk \<Rightarrow> string \<Rightarrow> string list \<Rightarrow> ('b, unit) store_op" where
  "merge_cors client bucket origins =
     op_bind (current_cors_rules client bucket) (\<lambda>rules.
     case merge_managed_cors_rules rules origins of
       Inl e \<Rightarrow> (\<lambda>b. (Err (case e of
           InvalidRequest message \<Rightarrow> InvalidRequest (''bucket '' @ bucket @ '' CORS cannot be updated: '' @ message)
         | other \<Rightarrow> other), b))
     | Inr merged \<Rightarrow>
         op_bind (attempt (''failed to configure CORS for bucket '' @ bucket @ '': '') (aws_put_bucket_cors client bucket merged)) (\<lambda>_.
         op_bind (attempt (''failed to verify CORS for bucket '' @ bucket @ '': '') (aws_get_bucket_cors client bucket)) (\<lambda>verified.
         case find (\<lambda>rule. cr_id rule = Some managed_rule_id) (case verified of None \<Rightarrow> [] | Some rs \<Rightarrow> rs) of
           None \<Rightarrow> (\<lambda>b. (Err (StoreBackend (''bucket '' @ bucket @ '' did not retain the managed CORS rule'')), b))
         | Some managed \<Rightarrow>
             op_check (cors_rule_complete origins managed)
               (StoreBackend (''bucket '' @ bucket @ '' retained an incomplete managed CORS rule'')))))"

section \<open>Bootstrap\<close>

definition ensure_bucket :: "'b S3StorageAdmin \<Rightarrow> string \<Rightarrow> bool \<Rightarrow> ('b, bool) store_op" where
  "ensure_bucket admin bucket create_missing b =
     (case aws_head_bucket (ad_client admin) bucket b of
        (Inr _, b1) \<Rightarrow> (Ok False, b1)
      | (Inl e, b1) \<Rightarrow>
          if \<not> create_missing
          then (Err (StoreBackend (''bucket '' @ bucket @ '' is unavailable: '' @ se_text e)), b1)
          else op_bind (attempt (''failed to create bucket '' @ bucket @ '': '')
                   (aws_create_bucket (ad_client admin) bucket
                      (if \<not> ad_custom_endpoint admin \<and> ad_region admin \<noteq> ''us-east-1'' then Some (ad_region admin) else None)))
                 (\<lambda>_. op_bind (attempt (''created bucket '' @ bucket @ '' did not pass HEAD: '')
                        (aws_head_bucket (ad_client admin) bucket))
                 (\<lambda>_. op_return True)) b1)"

fun bootstrap_buckets :: "'b S3StorageAdmin \<Rightarrow> bool \<Rightarrow> string list \<Rightarrow> string list \<Rightarrow> ('b, BucketBootstrapReport list) store_op" where
  "bootstrap_buckets admin create_missing origins [] = op_return []"
| "bootstrap_buckets admin create_missing origins (bucket # buckets) =
     op_bind (ensure_bucket admin bucket create_missing) (\<lambda>created.
     op_bind (if origins = [] then op_return False
              else op_bind (merge_cors (ad_client admin) bucket origins) (\<lambda>_. op_return True)) (\<lambda>configured.
     op_bind (bootstrap_buckets admin create_missing origins buckets) (\<lambda>reports.
     op_return (\<lparr>bbr_bucket = bucket, bbr_created = created, bbr_cors_configured = configured\<rparr> # reports))))"

definition settings_changed :: ObjectStoreError where
  "settings_changed = InvalidRequest ''storage admin settings changed after client construction''"

definition bootstrap :: "'b S3StorageAdmin \<Rightarrow> StorageSettings \<Rightarrow> bool \<Rightarrow> string list \<Rightarrow> ('b, BucketBootstrapReport list) store_op" where
  "bootstrap admin settings create_missing cors_origins b =
     (if sto_provider settings \<noteq> ad_provider admin then (Err settings_changed, b)
      else if ad_provider admin = Lightsail \<and> create_missing
      then (Err (InvalidRequest (''Lightsail bucket access keys cannot create buckets; '' @
             ''create the bucket with the Lightsail API or console first'')), b)
      else if ad_provider admin = Lightsail \<and> cors_origins \<noteq> []
      then (Err (InvalidRequest (''Lightsail CORS is managed by the Lightsail UpdateBucket API; '' @
             ''configure it first and retry with --skip-cors'')), b)
      else if length cors_origins > 32 then (Err (InvalidRequest ''CORS origin count exceeds 32''), b)
      else (case unique_buckets settings of
          Inl e \<Rightarrow> (Err e, b)
        | Inr buckets \<Rightarrow> bootstrap_buckets admin create_missing cors_origins buckets b))"

section \<open>The canary\<close>

definition canary_body :: string where
  "canary_body = ''g7mediabooster-storage-canary-v1''"

definition canary_parts :: "string list" where
  "canary_parts = [replicate (5 * 1024 * 1024) (CHR ''G''), ''g7mb-final-part'']"

definition octet_stream :: string where
  "octet_stream = ''application/octet-stream''"

fun upload_canary_parts :: "'b sdk \<Rightarrow> string \<Rightarrow> string \<Rightarrow> string \<Rightarrow> int \<Rightarrow> string list \<Rightarrow> ('b, (int \<times> string) list) store_op" where
  "upload_canary_parts client bucket key upload_id number [] = op_return []"
| "upload_canary_parts client bucket key upload_id number (content # contents) =
     op_bind (attempt (''canary multipart part '' @ show_int number @ '' failed: '')
       (aws_upload_part client bucket key upload_id number content)) (\<lambda>etag.
     case etag of
       None \<Rightarrow> (\<lambda>b. (Err (StoreBackend (''canary multipart part '' @ show_int number @ '' returned no ETag'')), b))
     | Some tag \<Rightarrow>
         op_bind (upload_canary_parts client bucket key upload_id (number + 1) contents) (\<lambda>parts.
         op_return ((number, tag) # parts)))"

definition fill_canary_multipart :: "'b sdk \<Rightarrow> string \<Rightarrow> string \<Rightarrow> string \<Rightarrow> ('b, unit) store_op" where
  "fill_canary_multipart client bucket key upload_id =
     op_bind (upload_canary_parts client bucket key upload_id 1 canary_parts) (\<lambda>parts.
     op_bind (attempt ''canary multipart complete failed: '' (aws_complete_multipart client bucket key upload_id parts)) (\<lambda>_.
     op_bind (attempt ''canary multipart HEAD failed: '' (aws_head_object client bucket key)) (\<lambda>head.
     op_check (oo_content_length head = Some (sum_list (map (\<lambda>part. int (length part)) canary_parts))) ContentLengthMismatch)))"

definition complete_canary_multipart :: "'b sdk \<Rightarrow> string \<Rightarrow> string \<Rightarrow> ('b, unit) store_op" where
  "complete_canary_multipart client bucket key =
     op_bind (attempt ''canary multipart create failed: '' (aws_create_multipart client bucket key (Some octet_stream))) (\<lambda>created.
     case created of
       None \<Rightarrow> (\<lambda>b. (Err (StoreBackend ''canary multipart returned no upload id''), b))
     | Some upload_id \<Rightarrow>
         (\<lambda>b. case fill_canary_multipart client bucket key upload_id b of
            (Inr _, b1) \<Rightarrow> (Ok (), b1)
          | (Inl e, b1) \<Rightarrow> (Err e, snd (aws_abort_multipart client bucket key upload_id b1))))"

definition abort_canary_multipart :: "'b sdk \<Rightarrow> string \<Rightarrow> string \<Rightarrow> ('b, unit) store_op" where
  "abort_canary_multipart client bucket key =
     op_bind (attempt ''canary multipart abort create failed: '' (aws_create_multipart client bucket key None)) (\<lambda>created.
     case created of
       None \<Rightarrow> (\<lambda>b. (Err (StoreBackend ''canary abort returned no upload id''), b))
     | Some upload_id \<Rightarrow> attempt ''canary multipart abort failed: '' (aws_abort_multipart client bucket key upload_id))"

fun collect_body :: "body \<Rightarrow> (string, string) result" where
  "collect_body [] = Ok []"
| "collect_body (r # rs) = and_then r (\<lambda>chunk. and_then (collect_body rs) (\<lambda>rest. Ok (chunk @ rest)))"

definition canary_checks :: "'b sdk \<Rightarrow> string \<Rightarrow> string \<Rightarrow> string \<Rightarrow> string \<Rightarrow> string \<Rightarrow> ('b, unit) store_op" where
  "canary_checks client bucket root single_key multipart_key abort_key =
     op_bind (attempt ''canary HEAD failed: '' (aws_head_object client bucket single_key)) (\<lambda>head.
     op_bind (op_check (oo_content_length head = Some (int (length canary_body))) ContentLengthMismatch) (\<lambda>_.
     op_bind (attempt ''canary GET failed: '' (aws_get_object client bucket single_key)) (\<lambda>got.
     case collect_body (snd got) of
       Inl e \<Rightarrow> (\<lambda>b. (Err (StoreBackend (''canary GET body failed: '' @ e)), b))
     | Inr content \<Rightarrow>
         op_bind (op_check (content = canary_body) ContentLengthMismatch) (\<lambda>_.
         op_bind (attempt ''canary LIST failed: '' (aws_list_objects client bucket root None 10)) (\<lambda>listed.
         op_bind (op_check (list_ex (\<lambda>entry. fst entry = Some single_key) (lio_contents listed))
             (StoreBackend ''canary LIST did not return the uploaded object'')) (\<lambda>_.
         op_bind (complete_canary_multipart client bucket multipart_key) (\<lambda>_.
         abort_canary_multipart client bucket abort_key)))))))"

text \<open>The deletions all run; the last failure is kept.\<close>

fun canary_cleanup :: "'b sdk \<Rightarrow> string \<Rightarrow> string list \<Rightarrow> ObjectStoreError option \<Rightarrow> 'b \<Rightarrow> ObjectStoreError option \<times> 'b" where
  "canary_cleanup client bucket [] failure b = (failure, b)"
| "canary_cleanup client bucket (key # keys) failure b =
     (case aws_delete_object client bucket key b of
        (Inl e, b1) \<Rightarrow>
          canary_cleanup client bucket keys (Some (StoreBackend (''canary cleanup DELETE failed: '' @ se_text e))) b1
      | (Inr _, b1) \<Rightarrow> canary_cleanup client bucket keys failure b1)"

definition canary_bucket :: "'b sdk \<Rightarrow> string \<Rightarrow> string \<Rightarrow> string \<Rightarrow> ('b, unit) store_op" where
  "canary_bucket client run_id bucket prefix =
     (let root = prefix @ ''g7mb-canary/'' @ run_id; single_key = root @ ''/single''; multipart_key = root @ ''/multipart'';
          abort_key = root @ ''/abort'' in
      op_bind (attempt ''canary PUT failed: '' (aws_put_object client bucket single_key octet_stream None canary_body)) (\<lambda>_ b.
      case canary_checks client bucket root single_key multipart_key abort_key b of
        (outcome, b1) \<Rightarrow>
          (case canary_cleanup client bucket [single_key, multipart_key, abort_key] None b1 of
             (failure, b2) \<Rightarrow>
               (case outcome of
                  Inl e \<Rightarrow> (Err e, b2)
                | Inr _ \<Rightarrow> (case failure of None \<Rightarrow> (Ok (), b2) | Some e \<Rightarrow> (Err e, b2))))))"

fun canary_buckets :: "'b sdk \<Rightarrow> (nat \<Rightarrow> string) \<Rightarrow> nat \<Rightarrow> string list \<Rightarrow> ('b, unit) store_op" where
  "canary_buckets client run_ids index [] = op_return ()"
| "canary_buckets client run_ids index (bucket # buckets) =
     op_bind (canary_bucket client (run_ids index) bucket (if index = 0 then ''raw/'' else ''media/'')) (\<lambda>_.
     canary_buckets client run_ids (index + 1) buckets)"

definition canary :: "'b S3StorageAdmin \<Rightarrow> (nat \<Rightarrow> string) \<Rightarrow> StorageSettings \<Rightarrow> ('b, StorageCanaryReport) store_op" where
  "canary admin run_ids settings b =
     (if sto_provider settings \<noteq> ad_provider admin then (Err settings_changed, b)
      else (case unique_buckets settings of
          Inl e \<Rightarrow> (Err e, b)
        | Inr buckets \<Rightarrow>
            op_bind (canary_buckets (ad_client admin) run_ids 0 buckets) (\<lambda>_.
              op_return \<lparr>scr_buckets_checked = length buckets, scr_single_object = True, scr_multipart = True\<rparr>) b))"

end
