(* ===== verification/S3_Contracts.thy ===== *)
theory S3_Contracts
  imports Storage_Admin Worker_Publication
begin

text \<open>
  What the S3 adapter promises, given what the service documents.  The locale \<open>s3_service\<close> states the
  documented behaviour of the SDK's calls over an abstraction of the service to its objects; the adapter
  then downloads exactly the bytes of an object, stores exactly the bytes of a file, lists exactly the
  objects of an interval, and meets the contract the worker's publication rests on.
\<close>

section \<open>The documented service\<close>

definition namespace_keys :: "(string \<times> string \<rightharpoonup> string) \<Rightarrow> string \<Rightarrow> string \<Rightarrow> string option \<Rightarrow> string list" where
  "namespace_keys objs bucket prefix start_after =
     sorted_list_of_set {k. objs (bucket, k) \<noteq> None \<and> starts_with prefix k \<and>
       (case start_after of None \<Rightarrow> True | Some cursor \<Rightarrow> cursor < k)}"

definition listed_entry :: "(string \<times> string \<rightharpoonup> string) \<Rightarrow> string \<Rightarrow> string \<Rightarrow> string option \<times> int option" where
  "listed_entry objs bucket k = (Some k, Some (int (length (the (objs (bucket, k))))))"

locale s3_service =
  fixes client :: "'b sdk" and objects :: "'b \<Rightarrow> string \<times> string \<rightharpoonup> string"
  assumes finite_objects: "finite (dom (objects b))"
    and put_stores: "aws_put_object client bucket k ct len content b = (Ok etag, b') \<Longrightarrow>
      objects b' = (objects b)((bucket, k) \<mapsto> content)"
    and put_frame: "aws_put_object client bucket k ct len content b = (res5, b') \<Longrightarrow> p \<noteq> (bucket, k) \<Longrightarrow>
      objects b' p = objects b p"
    and get_reads: "aws_get_object client bucket k b = (Ok (out, reader), b') \<Longrightarrow>
      list_all (\<lambda>r. r \<noteq> Ok []) reader \<and>
      (\<forall>chunks. reader = map Inr chunks \<longrightarrow> objects b (bucket, k) = Some (concat chunks))"
    and get_frame: "aws_get_object client bucket k b = (res0, b') \<Longrightarrow> objects b' = objects b"
    and head_reports: "aws_head_object client bucket k b = (Ok out, b') \<Longrightarrow>
      \<exists>c. objects b (bucket, k) = Some c \<and> oo_content_length out = Some (int (length c))"
    and head_frame: "aws_head_object client bucket k b = (res1, b') \<Longrightarrow> objects b' = objects b"
    and list_reports: "aws_list_objects client bucket prefix start_after (int n) b = (Ok page, b') \<Longrightarrow> 0 < n \<Longrightarrow>
      lio_contents page = map (listed_entry (objects b) bucket) (take n (namespace_keys (objects b) bucket prefix start_after)) \<and>
      (lio_is_truncated page = Some True \<longleftrightarrow> n < length (namespace_keys (objects b) bucket prefix start_after))"
    and list_frame: "aws_list_objects client bucket prefix start_after m b = (res2, b') \<Longrightarrow> objects b' = objects b"
    and delete_removes: "aws_delete_object client bucket k b = (Ok u, b') \<Longrightarrow> objects b' = (objects b)((bucket, k) := None)"
    and delete_frame: "aws_delete_object client bucket k b = (res3, b') \<Longrightarrow> p \<noteq> (bucket, k) \<Longrightarrow> objects b' p = objects b p"
    and session_frame: "aws_create_multipart client bucket k ct' b = (res6, b') \<Longrightarrow> objects b' = objects b"
      "aws_upload_part client bucket k upload_id i content b = (res7, b') \<Longrightarrow> objects b' = objects b"
      "aws_abort_multipart client bucket k upload_id b = (res8, b') \<Longrightarrow> objects b' = objects b"
    and complete_frame: "aws_complete_multipart client bucket k upload_id parts b = (res4, b') \<Longrightarrow> p \<noteq> (bucket, k) \<Longrightarrow>
      objects b' p = objects b p"

lemma sorted_last: "sorted xs \<Longrightarrow> x \<in> set xs \<Longrightarrow> x \<le> last (xs :: 'a::linorder list)"
  by (induction xs) (auto split: if_splits)

section \<open>Downloads\<close>

text \<open>The loop has written as many bytes as it counted, never past either bound, and what it wrote of a
  body that was read to its end is the body.\<close>

lemma copy_chunks_step:
  assumes "copy_chunks d n received expected max_length written (r # rs) = (Ok received', written')"
  obtains "r = Ok []" "received' = received" "written' = written"
  | chunk received1 where "r = Ok chunk" "chunk \<noteq> []" "unat received1 = unat received + length chunk"
      "received1 \<le> max_length" "received1 \<le> expected"
      "copy_chunks d (Suc n) received1 expected max_length (written @ chunk) rs = (Ok received', written')"
  using assms
  by (auto split: sum.splits if_splits option.splits prod.splits simp: checked_add_Some unat_of_nat not_less)

lemma copy_chunks_counts:
  assumes "copy_chunks d n received expected max_length written reader = (Ok received', written')"
    and "unat received = length written"
  shows "unat received' = length written'"
  using assms
proof (induction reader arbitrary: n received written)
  case (Cons r rs)
  from Cons.prems(1) show ?case
    by (rule copy_chunks_step) (use Cons in \<open>auto simp: Cons.prems(2)\<close>)
qed simp

lemma copy_chunks_whole:
  assumes "copy_chunks d n received expected max_length written reader = (Ok received', written')"
    and "list_all (\<lambda>r. r \<noteq> Ok []) reader"
  shows "\<exists>chunks. reader = map Inr chunks \<and> written' = written @ concat chunks"
  using assms
proof (induction reader arbitrary: n received written)
  case (Cons r rs)
  from Cons.prems(1) show ?case
  proof (rule copy_chunks_step)
    fix chunk received1
    assume step: "r = Ok chunk" "copy_chunks d (Suc n) received1 expected max_length (written @ chunk) rs = (Ok received', written')"
    then obtain chunks where "rs = map Inr chunks" "written' = (written @ chunk) @ concat chunks"
      using Cons.IH Cons.prems(2) by fastforce
    then show ?thesis using step(1) by (intro exI[of _ "chunk # chunks"]) simp
  qed (use Cons.prems(2) in simp)
qed simp

lemma copy_chunks_bound:
  assumes "copy_chunks d n received expected max_length written reader = (res, written')"
    and "unat received = length written" "length written \<le> unat expected"
  shows "length written' \<le> unat expected"
  using assms
proof (induction reader arbitrary: n received written)
  case (Cons r rs)
  show ?case
  proof (cases "\<exists>chunk received1. r = Ok chunk \<and> chunk \<noteq> [] \<and> unat received1 = unat received + length chunk \<and>
      received1 \<le> expected \<and> copy_chunks d (Suc n) received1 expected max_length (written @ chunk) rs = (res, written')")
    case True
    then show ?thesis using Cons.IH Cons.prems(2) by (auto simp: word_le_nat_alt)
  next
    case False
    then show ?thesis
      using Cons.prems
      by (auto split: sum.splits if_splits option.splits prod.splits simp: checked_add_Some unat_of_nat not_less word_le_nat_alt)
  qed
qed simp

lemma stream_body_cases:
  assumes "stream_body_to_new_file d reader dest expected max_length fs = (r, fs')"
  obtains "\<exists>e. r = Err e" "fs' = fs"
  | written where "fs dest = None" "fs' = fs(dest \<mapsto> written)" "length written \<le> unat expected"
      "r = Ok () \<Longrightarrow> length written = unat expected"
      "r = Ok () \<Longrightarrow> list_all (\<lambda>r. r \<noteq> Ok []) reader \<Longrightarrow> \<exists>chunks. reader = map Inr chunks \<and> written = concat chunks"
proof -
  obtain outcome written where copy: "copy_chunks d 0 0 expected max_length [] reader = (outcome, written)"
    by (cases "copy_chunks d 0 0 expected max_length [] reader")
  have bound: "length written \<le> unat expected"
    using copy_chunks_bound[OF copy] by simp
  show thesis
  proof (cases "fs dest \<noteq> None \<or> dk_create d \<noteq> None")
    case True
    then show ?thesis using assms that(1) by (auto simp: stream_body_to_new_file_def split: if_splits)
  next
    case False
    then have new: "fs dest = None" "fs' = fs(dest \<mapsto> written)"
      using assms copy by (auto simp: stream_body_to_new_file_def split: sum.splits)
    have ok: "copy_chunks d 0 0 expected max_length [] reader = (Ok expected, written)" if "r = Ok ()"
      using that False assms copy by (auto simp: stream_body_to_new_file_def split: sum.splits if_splits option.splits)
    show ?thesis
    proof (rule that(2)[OF new bound])
      assume "r = Ok ()"
      then show "length written = unat expected"
        using copy_chunks_counts[OF ok] by simp
    next
      assume "r = Ok ()" "list_all (\<lambda>r. r \<noteq> Ok []) reader"
      then show "\<exists>chunks. reader = map Inr chunks \<and> written = concat chunks"
        using copy_chunks_whole[OF ok] by simp
    qed
  qed
qed

text \<open>What a download leaves in the local files, whatever the service does.\<close>

lemma download_contained:
  assumes "s3_download_to st request (b, fs) = (r, b', fs')" "f \<noteq> dor_destination request"
  shows "fs' f = fs f"
  using assms
  by (auto simp: s3_download_to_def Let_def split: if_splits prod.splits sum.splits elim!: stream_body_cases)

lemma download_is_contained: "contained_download (s3_download_to st)"
  unfolding contained_download_def using download_contained by (metis (no_types))

lemma download_failed:
  assumes "s3_download_to st request (b, fs) = (Inl e, b', fs')"
  shows "fs' = fs \<or> fs' = fs(dor_destination request := None) \<or>
    fs (dor_destination request) = None \<and> \<not> dk_remove (aws_disk (s3_client st) b' (dor_destination request)) \<and>
    (\<exists>written. fs' = fs(dor_destination request \<mapsto> written) \<and> length written \<le> unat (dor_expected_length request))"
  using assms
  by (auto simp: s3_download_to_def Let_def split: if_splits prod.splits sum.splits elim!: stream_body_cases)

context s3_service
begin

lemma download_exact:
  assumes "s3_download_to \<lparr>s3_client = client, s3_bucket = bucket\<rparr> request (b, fs) = (Inr m, b', fs')"
  shows "0 < dor_expected_length request \<and> dor_expected_length request \<le> dor_max_length request \<and>
    om_content_length m = dor_expected_length request \<and> objects b' = objects b \<and> fs (dor_destination request) = None \<and>
    (\<exists>c. objects b (bucket, dor_key request) = Some c \<and> length c = unat (dor_expected_length request) \<and>
       fs' = fs(dor_destination request \<mapsto> c))"
proof -
  obtain out reader where get: "aws_get_object client bucket (dor_key request) b = (Ok (out, reader), b')"
    and stream: "stream_body_to_new_file (aws_disk client b' (dor_destination request)) reader (dor_destination request)
      (dor_expected_length request) (dor_max_length request) fs = (Ok (), fs')"
    and rest: "\<not> (dor_expected_length request = 0 \<or> dor_max_length request < dor_expected_length request)"
      "om_content_length m = dor_expected_length request"
    using assms by (auto simp: s3_download_to_def Let_def split: if_splits prod.splits sum.splits)
  from get_reads[OF get] obtain reads: "list_all (\<lambda>r. r \<noteq> Ok []) reader"
    and whole: "\<And>chunks. reader = map Inr chunks \<Longrightarrow> objects b (bucket, dor_key request) = Some (concat chunks)"
    by blast
  from stream show ?thesis
  proof (rule stream_body_cases)
    fix written
    assume written: "fs (dor_destination request) = None" "fs' = fs(dor_destination request \<mapsto> written)"
      "Ok () = Ok () \<Longrightarrow> length written = unat (dor_expected_length request)"
      "Ok () = Ok () \<Longrightarrow> list_all (\<lambda>r. r \<noteq> Ok []) reader \<Longrightarrow> \<exists>chunks. reader = map Inr chunks \<and> written = concat chunks"
    then have "objects b (bucket, dor_key request) = Some written" using whole reads by blast
    with written show ?thesis using written rest get_frame[OF get] by (auto simp: word_neq_0_conv not_less)
  qed simp
qed

text \<open>Stored files.\<close>

lemma put_durable: "durable_put (s3_put_file \<lparr>s3_client = client, s3_bucket = bucket\<rparr>) (\<lambda>b k. objects b (bucket, k))"
  unfolding durable_put_def
proof (intro conjI allI impI)
  fix request fs b m b'
  assume put: "s3_put_file \<lparr>s3_client = client, s3_bucket = bucket\<rparr> request fs b = (Ok m, b')"
  then obtain c etag where "fs (pfr_source request) = Some c"
    "aws_put_object client bucket (pfr_key request) (pfr_content_type request) (Some (int (length c))) c b = (Ok etag, b')"
    "om_content_length m = of_nat (length c)"
    by (auto simp: s3_put_file_def backend_def to_i64_def split: if_splits option.splits prod.splits sum.splits)
  then show "\<exists>c. fs (pfr_source request) = Some c \<and> objects b' (bucket, pfr_key request) = Some c \<and>
      om_content_length m = of_nat (length c)"
    using put_stores by fastforce
next
  fix request fs b r b' k
  assume put: "s3_put_file \<lparr>s3_client = client, s3_bucket = bucket\<rparr> request fs b = (r, b')" and "k \<noteq> pfr_key request"
  then show "objects b' (bucket, k) = objects b (bucket, k)"
    using put_frame[where p = "(bucket, k)"]
    by (fastforce simp: s3_put_file_def backend_def to_i64_def split: if_splits option.splits prod.splits sum.splits)
qed

text \<open>Listed pages.\<close>

lemma finite_namespace: "finite {k. objects b (bucket, k) \<noteq> None \<and> P k}"
proof (rule finite_subset)
  show "{k. objects b (bucket, k) \<noteq> None \<and> P k} \<subseteq> snd ` dom (objects b)" by force
qed (simp add: finite_objects)

lemma namespace_keys_after:
  fixes n :: nat and start_after :: "string option" and prefix bucket :: string and b :: 'b
  defines "all \<equiv> namespace_keys (objects b) bucket prefix start_after"
  assumes "n < length all" "0 < n"
  shows "namespace_keys (objects b) bucket prefix (Some (last (take n all))) = drop n all"
proof -
  let ?S = "{k. objects b (bucket, k) \<noteq> None \<and> starts_with prefix k \<and>
       (case start_after of None \<Rightarrow> True | Some cursor \<Rightarrow> cursor < k)}"
  have all: "set all = ?S" "sorted all" "distinct all"
    using finite_namespace by (simp_all add: all_def namespace_keys_def)
  let ?c = "last (take n all)"
  have split: "all = take n all @ drop n all" by simp
  have c: "?c \<in> set (take n all)" using assms(2,3) by (intro last_in_set) auto
  have strict: "sorted_wrt (<) all" using all by (simp add: strict_sorted_iff)
  have before: "k \<le> ?c" if "k \<in> set (take n all)" for k
    using sorted_last[OF sorted_wrt_take[OF all(2)] that] .
  have after: "?c < k" if "k \<in> set (drop n all)" for k
  proof -
    have "sorted_wrt (<) (take n all @ drop n all)" using strict by simp
    then show ?thesis using that c unfolding sorted_wrt_append by blast
  qed
  have cursor: "case start_after of None \<Rightarrow> True | Some cursor \<Rightarrow> cursor < ?c"
    using c all(1) by (blast dest: in_set_takeD)
  have "{k. objects b (bucket, k) \<noteq> None \<and> starts_with prefix k \<and> ?c < k} = {k \<in> ?S. ?c < k}"
    using cursor by (auto split: option.splits)
  also have "\<dots> = {k \<in> set all. ?c < k}" using all(1) by simp
  also have "\<dots> = set (drop n all)"
  proof -
    have "k \<in> set all \<longleftrightarrow> k \<in> set (take n all) \<or> k \<in> set (drop n all)" for k
      by (metis split set_append Un_iff)
    then show ?thesis using before after by (auto simp: not_less dest: leD)
  qed
  finally have "sorted_list_of_set {k. objects b (bucket, k) \<noteq> None \<and> starts_with prefix k \<and> ?c < k} =
      sorted_list_of_set (set (drop n all))" by simp
  also have "\<dots> = drop n all"
    using all by (simp add: sorted_list_of_set.idem_if_sorted_distinct sorted_wrt_drop)
  finally show ?thesis by (simp add: namespace_keys_def)
qed

lemma listed_objects:
  assumes "collect_results listed_object (map (listed_entry objs bucket) ks) = Ok os"
    and "\<And>k. k \<in> set ks \<Longrightarrow> objs (bucket, k) \<noteq> None"
  shows "map lob_key os = ks \<and>
    (\<forall>x\<in>set os. \<exists>c. objs (bucket, lob_key x) = Some c \<and> lob_content_length x = of_nat (length c))"
  using assms
proof (induction ks arbitrary: os)
  case (Cons k ks)
  obtain c where c: "objs (bucket, k) = Some c" using Cons.prems(2)[of k] by auto
  have "listed_object (listed_entry objs bucket k) = Ok \<lparr>lob_key = k, lob_content_length = of_nat (length c)\<rparr>"
    using c by (simp add: listed_object_def listed_entry_def to_u64_def)
  then obtain rest where "os = \<lparr>lob_key = k, lob_content_length = of_nat (length c)\<rparr> # rest"
    "collect_results listed_object (map (listed_entry objs bucket) ks) = Ok rest"
    using Cons.prems(1) by (auto simp: and_then_eq_Inr)
  then show ?case using Cons.IH[of rest] Cons.prems(2) c by auto
qed simp

lemma page_is_interval:
  assumes "s3_list_objects \<lparr>s3_client = client, s3_bucket = bucket\<rparr> request b = (Ok page, b')"
  defines "all \<equiv> namespace_keys (objects b) bucket (lo_prefix request)"
  shows "objects b' = objects b \<and>
    (\<exists>rest. all (lo_start_after request) = map lob_key (lop_objects page) @ rest \<and>
       length (lop_objects page) \<le> unat (lo_max_keys request) \<and>
       (\<forall>x\<in>set (lop_objects page). \<exists>c. objects b (bucket, lob_key x) = Some c \<and> lob_content_length x = of_nat (length c)) \<and>
       (case lop_next_start_after page of
          None \<Rightarrow> rest = []
        | Some cursor \<Rightarrow> lop_objects page \<noteq> [] \<and> cursor = lob_key (last (lop_objects page)) \<and> all (Some cursor) = rest))"
proof -
  let ?n = "unat (lo_max_keys request)" and ?all = "all (lo_start_after request)"
  obtain out where list: "aws_list_objects client bucket (lo_prefix request) (lo_start_after request) (int ?n) b = (Ok out, b')"
    and page: "listed_page out = Ok page" and "list_request_ok request"
    using assms(1) by (auto simp: s3_list_objects_def backend_def split: if_splits prod.splits sum.splits)
  then have n: "0 < ?n" by (simp add: list_request_ok_def unat_gt_0)
  note reports = list_reports[OF list n, folded all_def]
  from page obtain os where collected: "collect_results listed_object (lio_contents out) = Ok os"
    and os: "lop_objects page = os"
      "lop_next_start_after page = (if lio_is_truncated out = Some True then Some (lob_key (last os)) else None)"
      "lio_is_truncated out = Some True \<Longrightarrow> os \<noteq> []"
    by (auto simp: listed_page_def and_then_eq_Inr split: if_splits)
  have present: "k \<in> set (take ?n ?all) \<Longrightarrow> objects b (bucket, k) \<noteq> None" for k
    using finite_namespace by (auto simp: all_def namespace_keys_def dest!: in_set_takeD)
  from listed_objects[OF collected[unfolded conjunct1[OF reports]] present]
  have keys: "map lob_key os = take ?n ?all"
    and lengths: "\<forall>x\<in>set os. \<exists>c. objects b (bucket, lob_key x) = Some c \<and> lob_content_length x = of_nat (length c)"
    by blast+
  show ?thesis
  proof (intro conjI exI)
    show "?all = map lob_key (lop_objects page) @ drop ?n ?all" by (simp add: os keys)
    show "length (lop_objects page) \<le> ?n" using arg_cong[OF keys, of length] by (simp add: os)
    show "case lop_next_start_after page of None \<Rightarrow> drop ?n ?all = []
        | Some cursor \<Rightarrow> lop_objects page \<noteq> [] \<and> cursor = lob_key (last (lop_objects page)) \<and> all (Some cursor) = drop ?n ?all"
    proof (cases "lio_is_truncated out = Some True")
      case True
      then have more: "?n < length ?all" and "os \<noteq> []" using reports os(3) by blast+
      then have "lob_key (last os) = last (take ?n ?all)" by (metis keys last_map)
      then show ?thesis
        using namespace_keys_after[OF more[unfolded all_def] n] True \<open>os \<noteq> []\<close> by (simp add: os all_def)
    next
      case False
      then show ?thesis using reports by (simp add: os)
    qed
  qed (use list_frame[OF list] lengths os in auto)
qed

end

section \<open>The canary\<close>

lemma touches_only_attempt:
  assumes "\<And>b r b' p. op b = (r, b') \<Longrightarrow> p \<notin> K \<Longrightarrow> objects b' p = objects b p"
  shows "touches_only objects K (attempt message op)"
  using assms unfolding touches_only_def attempt_def by (fastforce split: prod.splits sum.splits)

context s3_service
begin

lemma sdk_frames:
  "touches_only objects {(bucket, k)} (attempt message (aws_put_object client bucket k ct len content))"
  "touches_only objects K (attempt message (aws_head_object client bucket k))"
  "touches_only objects K (attempt message (aws_get_object client bucket k))"
  "touches_only objects K (attempt message (aws_list_objects client bucket prefix after n))"
  "touches_only objects K (attempt message (aws_create_multipart client bucket k ct'))"
  "touches_only objects K (attempt message (aws_upload_part client bucket k upload_id number content))"
  "touches_only objects K (attempt message (aws_abort_multipart client bucket k upload_id))"
  "touches_only objects {(bucket, k)} (attempt message (aws_complete_multipart client bucket k upload_id parts))"
  by (rule touches_only_attempt;
      simp add: put_frame head_frame get_frame list_frame session_frame complete_frame)+

lemma touches_parts: "touches_only objects K (upload_canary_parts client bucket key upload_id number contents)"
  by (induction contents arbitrary: number) (auto intro!: touches_only_bind sdk_frames split: option.split)

lemma touches_complete: "touches_only objects {(bucket, key)} (complete_canary_multipart client bucket key)"
proof -
  have fill: "touches_only objects {(bucket, key)} (fill_canary_multipart client bucket key upload_id)" for upload_id
    unfolding fill_canary_multipart_def by (intro touches_only_bind touches_parts sdk_frames) auto
  have "touches_only objects {(bucket, key)}
      (\<lambda>b. case fill_canary_multipart client bucket key upload_id b of
            (Inr _, b1) \<Rightarrow> (Ok (), b1)
          | (Inl e, b1) \<Rightarrow> (Err e, snd (aws_abort_multipart client bucket key upload_id b1)))" for upload_id
    using fill[of upload_id] session_frame(3)[of bucket key upload_id] unfolding touches_only_def
    by (auto split: prod.splits sum.splits) (metis prod.collapse)+
  then show ?thesis
    unfolding complete_canary_multipart_def
    by (intro touches_only_bind sdk_frames) (auto split: option.split)
qed

lemma touches_checks:
  "touches_only objects {(bucket, multipart_key)} (canary_checks client bucket root single_key multipart_key abort_key)"
  unfolding canary_checks_def abort_canary_multipart_def
  by (intro touches_only_bind sdk_frames touches_complete)
    (auto intro!: touches_only_bind sdk_frames touches_complete split: sum.split option.split)

lemma cleanup_frame:
  assumes "canary_cleanup client bucket ks failure b = (failure', b')"
  shows "p \<notin> Pair bucket ` set ks \<Longrightarrow> objects b' p = objects b p"
    and "failure' = None \<Longrightarrow> failure = None \<and> (\<forall>k\<in>set ks. objects b' (bucket, k) = None)"
proof -
  have "(p \<notin> Pair bucket ` set ks \<longrightarrow> objects b' p = objects b p) \<and>
    (failure' = None \<longrightarrow> failure = None \<and> (\<forall>k\<in>set ks \<union> {k. objects b (bucket, k) = None}. objects b' (bucket, k) = None))" for p
    using assms
  proof (induction ks arbitrary: failure b)
    case (Cons k ks)
    show ?case
    proof (cases "aws_delete_object client bucket k b")
      case (Pair r b1)
      show ?thesis
      proof (cases r)
        case (Inl e)
        then show ?thesis using Cons Pair delete_frame[of bucket k b r b1 p] by fastforce
      next
        case (Inr u)
        then show ?thesis
          using Cons.IH[of failure b1] Cons.prems Pair delete_removes[of bucket k b u b1] by auto
      qed
    qed
  qed simp
  then show "p \<notin> Pair bucket ` set ks \<Longrightarrow> objects b' p = objects b p"
    "failure' = None \<Longrightarrow> failure = None \<and> (\<forall>k\<in>set ks. objects b' (bucket, k) = None)" by blast+
qed

lemma canary_bucket_clean:
  assumes "canary_bucket client run_id bucket prefix b = (r, b')"
  defines "ks \<equiv> map (\<lambda>suffix. prefix @ ''g7mb-canary/'' @ run_id @ suffix) [''/single'', ''/multipart'', ''/abort'']"
  shows "(p \<notin> Pair bucket ` set ks \<longrightarrow> objects b' p = objects b p) \<and>
    (r = Ok () \<longrightarrow> (\<forall>k\<in>set ks. objects b' (bucket, k) = None))"
proof -
  let ?root = "prefix @ ''g7mb-canary/'' @ run_id"
  let ?single = "?root @ ''/single''" and ?multi = "?root @ ''/multipart''" and ?abort = "?root @ ''/abort''"
  have ks: "ks = [?single, ?multi, ?abort]" by (simp add: ks_def)
  obtain put b0 where put: "attempt ''canary PUT failed: ''
      (aws_put_object client bucket ?single octet_stream None canary_body) b = (put, b0)"
    by (cases "attempt ''canary PUT failed: ''
      (aws_put_object client bucket ?single octet_stream None canary_body) b")
  have "p \<noteq> (bucket, ?single) \<longrightarrow> objects b0 p = objects b p"
    using sdk_frames(1) put unfolding touches_only_def by blast
  then have p0: "p \<notin> Pair bucket ` set ks \<longrightarrow> objects b0 p = objects b p"
    by (auto simp: ks)
  show ?thesis
  proof (cases put)
    case (Inl e)
    then show ?thesis using assms(1) put p0 by (auto simp: canary_bucket_def Let_def op_bind_def)
  next
    case (Inr u)
    obtain outcome b1 where checks: "canary_checks client bucket ?root ?single ?multi ?abort b0 = (outcome, b1)"
      by (cases "canary_checks client bucket ?root ?single ?multi ?abort b0")
    obtain failure b2 where cleanup: "canary_cleanup client bucket ks None b1 = (failure, b2)"
      by (cases "canary_cleanup client bucket ks None b1")
    have result: "b' = b2" "r = Ok () \<Longrightarrow> failure = None"
      using assms(1) put Inr checks cleanup unfolding ks
      by (auto simp: canary_bucket_def Let_def op_bind_def simp del: canary_cleanup.simps split: sum.splits option.splits)
    have "p \<noteq> (bucket, ?multi) \<longrightarrow> objects b1 p = objects b0 p"
      using touches_checks checks unfolding touches_only_def by blast
    then have p1: "p \<notin> Pair bucket ` set ks \<longrightarrow> objects b1 p = objects b0 p"
      by (auto simp: ks)
    show ?thesis
      using cleanup_frame[OF cleanup] p0 p1 result by auto
  qed
qed

end

section \<open>A service in memory\<close>

text \<open>The objects of a service and the parts of its open sessions as association lists.\<close>

record memory =
  mem_objects :: "((string \<times> string) \<times> string) list"
  mem_sessions :: "((string \<times> string) \<times> string list) list"

definition missing :: sdk_error where
  "missing = \<lparr>se_no_such_upload = True, se_not_found = True, se_no_such_key = True, se_code = Some ''NoSuchKey'',
     se_text = ''missing''\<rparr>"

definition memory_output :: "string \<Rightarrow> object_output" where
  "memory_output c = \<lparr>oo_content_length = Some (int (length c)), oo_content_type = None, oo_etag = Some ''etag''\<rparr>"

definition memory_keys :: "memory \<Rightarrow> string \<Rightarrow> string \<Rightarrow> string option \<Rightarrow> string list" where
  "memory_keys b bucket prefix start_after =
     sort (remdups (filter (\<lambda>k. starts_with prefix k \<and> (case start_after of None \<Rightarrow> True | Some cursor \<Rightarrow> cursor < k))
       (map snd (filter (\<lambda>p. fst p = bucket) (map fst (mem_objects b))))))"

definition memory_find :: "memory \<Rightarrow> string \<times> string \<rightharpoonup> string" where
  "memory_find b = map_of (mem_objects b)"

definition memory_parts :: "memory \<Rightarrow> string \<Rightarrow> string \<Rightarrow> string list option" where
  "memory_parts b bucket k = map_of (mem_sessions b) (bucket, k)"

definition memory_sdk :: "memory sdk" where
  "memory_sdk =
     \<lparr>aws_expires_in = (\<lambda>_. Ok ()), aws_presigned = (\<lambda>_ _ b. (Ok ''https://private.invalid/signed'', b)), aws_now = (\<lambda>_. 0),
      aws_create_multipart = (\<lambda>bucket k _ b.
          (Ok (Some ''session''), b\<lparr>mem_sessions := AList.update (bucket, k) [] (mem_sessions b)\<rparr>)),
      aws_upload_part = (\<lambda>bucket k _ _ c b. (case memory_parts b bucket k of
          None \<Rightarrow> (Err missing, b)
        | Some cs \<Rightarrow> (Ok (Some ''etag''), b\<lparr>mem_sessions := AList.update (bucket, k) (cs @ [c]) (mem_sessions b)\<rparr>))),
      aws_complete_multipart = (\<lambda>bucket k _ _ b. (case memory_parts b bucket k of
          None \<Rightarrow> (Err missing, b)
        | Some cs \<Rightarrow> (Ok (), b\<lparr>mem_objects := AList.update (bucket, k) (concat cs) (mem_objects b),
              mem_sessions := AList.delete (bucket, k) (mem_sessions b)\<rparr>))),
      aws_abort_multipart = (\<lambda>bucket k _ b. (case memory_parts b bucket k of
          None \<Rightarrow> (Err missing, b)
        | Some cs \<Rightarrow> (Ok (), b\<lparr>mem_sessions := AList.delete (bucket, k) (mem_sessions b)\<rparr>))),
      aws_head_object = (\<lambda>bucket k b. (case memory_find b (bucket, k) of None \<Rightarrow> Err missing | Some c \<Rightarrow> Ok (memory_output c), b)),
      aws_get_object = (\<lambda>bucket k b. (case memory_find b (bucket, k) of
          None \<Rightarrow> Err missing | Some c \<Rightarrow> Ok (memory_output c, if c = [] then [] else [Ok c]), b)),
      aws_put_object = (\<lambda>bucket k _ _ c b.
          (Ok (Some ''etag''), b\<lparr>mem_objects := AList.update (bucket, k) c (mem_objects b)\<rparr>)),
      aws_list_objects = (\<lambda>bucket prefix start_after n b.
          let ks = memory_keys b bucket prefix start_after in
          (Ok \<lparr>lio_contents = map (listed_entry (memory_find b) bucket) (take (nat n) ks),
             lio_is_truncated = Some (nat n < length ks)\<rparr>, b)),
      aws_delete_object = (\<lambda>bucket k b. (Ok (), b\<lparr>mem_objects := AList.delete (bucket, k) (mem_objects b)\<rparr>)),
      aws_head_bucket = (\<lambda>_ b. (Ok (), b)), aws_create_bucket = (\<lambda>_ _ b. (Ok (), b)),
      aws_get_bucket_cors = (\<lambda>_ b. (Err missing, b)), aws_put_bucket_cors = (\<lambda>_ _ b. (Ok (), b)),
      aws_disk = (\<lambda>_ _. \<lparr>dk_exists = ''exists'', dk_create = None, dk_write = (\<lambda>_. None), dk_flush = None, dk_remove = True\<rparr>),
      aws_io_error = (\<lambda>_. ''missing'')\<rparr>"

lemma memory_keys_namespace: "memory_keys b bucket prefix start_after = namespace_keys (memory_find b) bucket prefix start_after"
proof -
  have "{k. memory_find b (bucket, k) \<noteq> None \<and> starts_with prefix k \<and>
       (case start_after of None \<Rightarrow> True | Some cursor \<Rightarrow> cursor < k)} =
    set (filter (\<lambda>k. starts_with prefix k \<and> (case start_after of None \<Rightarrow> True | Some cursor \<Rightarrow> cursor < k))
       (map snd (filter (\<lambda>p. fst p = bucket) (map fst (mem_objects b)))))"
    by (force simp: map_of_eq_None_iff memory_find_def)
  then show ?thesis
    unfolding memory_keys_def namespace_keys_def by (simp only: sorted_list_of_set_sort_remdups)
qed

lemma memory_find_update [simp]:
  "memory_find (b\<lparr>mem_objects := AList.update p c (mem_objects b)\<rparr>) = (memory_find b)(p \<mapsto> c)"
  "memory_find (b\<lparr>mem_objects := AList.delete p (mem_objects b)\<rparr>) = (memory_find b)(p := None)"
  "memory_find (b\<lparr>mem_sessions := ss\<rparr>) = memory_find b"
  "memory_find (b\<lparr>mem_objects := AList.update p c (mem_objects b), mem_sessions := ss\<rparr>) = (memory_find b)(p \<mapsto> c)"
  by (simp_all add: memory_find_def update_conv' delete_conv')

lemma finite_memory [simp]: "finite (dom (memory_find b))"
  by (simp add: memory_find_def finite_dom_map_of)

interpretation memory: s3_service memory_sdk memory_find
  by unfold_locales
    (auto simp: memory_sdk_def memory_output_def Let_def memory_keys_namespace map_eq_Cons_conv split: option.splits if_splits)

section \<open>The promises\<close>


definition sample_download :: DownloadObjectRequest where
  "sample_download = \<lparr>dor_key = ''raw/a'', dor_destination = ''source'', dor_expected_length = 2, dor_max_length = 10\<rparr>"

definition sample_memory :: memory where
  "sample_memory = \<lparr>mem_objects = [((''bucket'', ''raw/a''), ''ab''), ((''bucket'', ''raw/b''), ''c'')], mem_sessions = []\<rparr>"

definition memory_bucket :: "memory S3CompatibleStore" where
  "memory_bucket = \<lparr>s3_client = memory_sdk, s3_bucket = ''bucket''\<rparr>"

lemma sample_downloaded:
  "s3_download_to memory_bucket sample_download (sample_memory, Map.empty) =
    (Ok \<lparr>om_content_length = 2, om_content_type = None, om_etag = Some ''etag''\<rparr>, sample_memory, [''source'' \<mapsto> ''ab''])"
  by (simp add: s3_download_to_def memory_bucket_def sample_download_def sample_memory_def memory_sdk_def memory_output_def memory_find_def
      stream_body_to_new_file_def checked_add_def to_u64_def)




text \<open>
  Given the documented service, a page of the inventory lists, in order and with their lengths, the
  first objects of the namespace behind the cursor, at most as many as were asked for; the rest are those
  behind the next cursor, and without one there are none.
\<close>

theorem listed_page_is_interval:
  assumes "s3_service client objects"
    and "s3_list_objects \<lparr>s3_client = client, s3_bucket = bucket\<rparr> request b = (Ok page, b')"
  shows "\<exists>rest. namespace_keys (objects b) bucket (lo_prefix request) (lo_start_after request) =
         map lob_key (lop_objects page) @ rest \<and>
       length (lop_objects page) \<le> unat (lo_max_keys request) \<and>
       (\<forall>x\<in>set (lop_objects page). \<exists>c. objects b (bucket, lob_key x) = Some c \<and> lob_content_length x = of_nat (length c)) \<and>
       (case lop_next_start_after page of
          None \<Rightarrow> rest = []
        | Some cursor \<Rightarrow> lop_objects page \<noteq> [] \<and> cursor = lob_key (last (lop_objects page)) \<and>
            namespace_keys (objects b) bucket (lo_prefix request) (Some cursor) = rest)"
  using s3_service.page_is_interval[OF assms] by blast

definition sample_listing :: ListObjectsRequest where
  "sample_listing = \<lparr>lo_prefix = ''raw/'', lo_start_after = None, lo_max_keys = 1\<rparr>"

lemma sample_listed:
  "s3_list_objects memory_bucket sample_listing sample_memory =
    (Ok \<lparr>lop_objects = [\<lparr>lob_key = ''raw/a'', lob_content_length = 2\<rparr>], lop_next_start_after = Some ''raw/a''\<rparr>, sample_memory)"
  by (simp add: s3_list_objects_def list_request_ok_def memory_bucket_def sample_listing_def sample_memory_def memory_sdk_def
      backend_def memory_keys_def memory_find_def starts_with_def listed_page_def listed_object_def listed_entry_def to_u64_def
      less_list_code less_char_def)

theorem listed_page_is_interval_witness:
  "\<exists>rest. namespace_keys (memory_find sample_memory) ''bucket'' ''raw/'' None = [''raw/a''] @ rest \<and>
     namespace_keys (memory_find sample_memory) ''bucket'' ''raw/'' (Some ''raw/a'') = rest"
  using listed_page_is_interval[OF memory.s3_service_axioms sample_listed[unfolded memory_bucket_def]]
  by (auto simp: sample_listing_def)

text \<open>The objects the canary may write.\<close>

fun canary_objects :: "(nat \<Rightarrow> string) \<Rightarrow> nat \<Rightarrow> string list \<Rightarrow> (string \<times> string) set" where
  "canary_objects run_ids index [] = {}"
| "canary_objects run_ids index (bucket # buckets) =
     Pair bucket ` set (map (\<lambda>suffix. (if index = 0 then ''raw/'' else ''media/'') @ ''g7mb-canary/'' @ run_ids index @ suffix)
       [''/single'', ''/multipart'', ''/abort'']) \<union> canary_objects run_ids (index + 1) buckets"

lemma canary_buckets_clean:
  assumes "s3_service client objects" "canary_buckets client run_ids index buckets b = (r, b')"
  shows "(p \<notin> canary_objects run_ids index buckets \<longrightarrow> objects b' p = objects b p) \<and>
    (r = Ok () \<longrightarrow> (\<forall>q\<in>canary_objects run_ids index buckets. objects b' q = None))"
  using assms(2)
proof (induction buckets arbitrary: index b p)
  case Nil
  then show ?case by (simp add: op_return_def)
next
  case (Cons bucket buckets)
  let ?prefix = "if index = 0 then ''raw/'' else ''media/''"
  define K where "K = Pair bucket ` set (map (\<lambda>suffix. ?prefix @ ''g7mb-canary/'' @ run_ids index @ suffix)
    [''/single'', ''/multipart'', ''/abort''])"
  have written: "canary_objects run_ids index (bucket # buckets) = K \<union> canary_objects run_ids (index + 1) buckets"
    by (simp only: canary_objects.simps K_def)
  obtain r1 b1 where one: "canary_bucket client (run_ids index) bucket ?prefix b = (r1, b1)"
    by (cases "canary_bucket client (run_ids index) bucket ?prefix b")
  have clean: "(q \<notin> K \<longrightarrow> objects b1 q = objects b q) \<and> (r1 = Ok () \<longrightarrow> q \<in> K \<longrightarrow> objects b1 q = None)" for q
    using s3_service.canary_bucket_clean[OF assms(1) one, of q] unfolding K_def[symmetric] by (auto simp: K_def)
  have run: "canary_buckets client run_ids index (bucket # buckets) b =
      (case r1 of Inl e \<Rightarrow> (Err e, b1) | Inr _ \<Rightarrow> canary_buckets client run_ids (index + 1) buckets b1)"
    by (simp only: canary_buckets.simps op_bind_def one prod.case)
  show ?case
  proof (cases r1)
    case (Inl e)
    then have "r = Inl e" "b' = b1" using Cons.prems run by simp_all
    then show ?thesis using clean[of p] unfolding written by blast
  next
    case (Inr u)
    then have rest: "canary_buckets client run_ids (index + 1) buckets b1 = (r, b')"
      using Cons.prems run by simp
    note IH = Cons.IH[OF rest]
    have "objects b' q = None" if "r = Ok ()" "q \<in> K \<union> canary_objects run_ids (index + 1) buckets" for q
      using that IH[of q] clean[of q] Inr by (cases "q \<in> canary_objects run_ids (index + 1) buckets") auto
    moreover have "objects b' p = objects b p" if "p \<notin> K \<union> canary_objects run_ids (index + 1) buckets"
      using that IH[of p] clean[of p] by auto
    ultimately show ?thesis unfolding written by blast
  qed
qed


text \<open>A run over the service in memory, with both buckets the same.\<close>

definition sample_admin :: "memory S3StorageAdmin" where
  "sample_admin = \<lparr>ad_client = memory_sdk, ad_provider = Lightsail, ad_region = ''eu-west-1'', ad_custom_endpoint = False\<rparr>"

definition sample_storage :: StorageSettings where
  "sample_storage = \<lparr>sto_provider = Lightsail, sto_endpoint_url = None, sto_region = ''eu-west-1'', sto_raw_bucket = ''bucket'',
     sto_derivative_bucket = ''bucket'', sto_access_key_id = ''a'', sto_access_key_id_file = None,
     sto_secret_access_key = ''s'', sto_secret_access_key_file = None, sto_force_path_style = False\<rparr>"

lemma sample_buckets: "unique_buckets sample_storage = Ok [''bucket'']"
  by (simp add: unique_buckets_def sample_storage_def)

lemma sample_canary:
  "\<exists>b'. canary sample_admin (\<lambda>_. ''run'') sample_storage sample_memory =
    (Ok \<lparr>scr_buckets_checked = 1, scr_single_object = True, scr_multipart = True\<rparr>, b')"
proof -
  have provider: "sto_provider sample_storage = ad_provider sample_admin" "ad_client sample_admin = memory_sdk"
    by (simp_all add: sample_storage_def sample_admin_def)
  have "\<exists>b'. canary_bucket memory_sdk ''run'' ''bucket'' ''raw/'' sample_memory = (Ok (), b')"
    by (simp add: canary_bucket_def Let_def op_bind_def attempt_def canary_checks_def op_check_def op_return_def
        complete_canary_multipart_def fill_canary_multipart_def abort_canary_multipart_def canary_parts_def canary_body_def
        memory_sdk_def memory_output_def memory_find_def memory_parts_def memory_keys_def sample_memory_def listed_entry_def
        starts_with_def less_list_code less_char_def)
  then show ?thesis by (auto simp: canary_def sample_buckets provider op_bind_def op_return_def)
qed


end
