(* ===== verification/Startup.thy ===== *)
theory Startup
  imports S3_Contracts Api Lifecycle Inventory
begin

text \<open>
  What the two processes make of the settings before they serve: \<open>apps/g7mb-api/src/main.rs\<close> and the
  constructors of \<open>apps/g7mb-worker/src/main.rs\<close>, with \<open>probe_sandbox_capabilities\<close> of the control plane.
  Opening the database, running the sandbox binary and decoding its answer are arguments; binding the
  listeners, metrics and signal handling are not modelled.
\<close>

section \<open>Policies from settings\<close>

definition from_secs :: "u64 \<Rightarrow> duration" where
  "from_secs n = seconds (unat n)"

definition upload_batch_policy :: "UploadSettings \<Rightarrow> UploadBatchPolicy" where
  "upload_batch_policy u =
     \<lparr>max_files = ups_max_batch_files u, max_batch_bytes = ups_max_batch_bytes u, max_image_bytes = ups_max_image_bytes u,
      max_video_bytes = ups_max_video_bytes u, multipart_threshold_bytes = ups_multipart_threshold_bytes u,
      multipart_part_size_bytes = ups_multipart_part_size_bytes u\<rparr>"

definition upload_capacity_policy :: "UploadSettings \<Rightarrow> UploadCapacityPolicy" where
  "upload_capacity_policy u =
     \<lparr>max_active_global = ups_max_active_uploads_global u, max_active_per_tenant = ups_max_active_uploads_per_tenant u,
      max_reserved_bytes_global = ups_max_reserved_bytes_global u,
      max_reserved_bytes_per_tenant = ups_max_reserved_bytes_per_tenant u\<rparr>"

definition lifecycle_policy :: "LifecycleSettings \<Rightarrow> LifecyclePolicy" where
  "lifecycle_policy l =
     \<lparr>created_reservation_ttl = from_secs (lcs_created_reservation_ttl_seconds l),
      rejected_source_retention = from_secs (lcs_rejected_source_retention_seconds l),
      cleanup_lease_for = from_secs (lcs_cleanup_lease_seconds l),
      cleanup_retry_delay = from_secs (lcs_cleanup_retry_seconds l), cleanup_batch_size = lcs_cleanup_batch_size l,
      cleanup_max_attempts = unat (lcs_cleanup_max_attempts l),
      tombstone_retention = from_secs (lcs_tombstone_retention_seconds l),
      tombstone_purge_batch_size = lcs_tombstone_purge_batch_size l\<rparr>"

definition inventory_policy :: "LifecycleSettings \<Rightarrow> InventoryPolicy" where
  "inventory_policy l =
     \<lparr>orphan_grace_period = from_secs (lcs_orphan_grace_period_seconds l), page_size = lcs_inventory_page_size l,
      max_pages_per_namespace = lcs_inventory_max_pages_per_run l\<rparr>"

definition delivery_policy :: "DeliverySettings \<Rightarrow> string list \<Rightarrow> DerivativeDeliveryPolicy" where
  "delivery_policy d authorities =
     \<lparr>ddp_signed_url_ttl = from_secs (dls_signed_url_ttl_seconds d),
      ddp_manifest_cache_ttl = from_secs (dls_manifest_cache_ttl_seconds d),
      ddp_manifest_cache_max_bytes = dls_manifest_cache_max_bytes d, ddp_redirect_allowed_authorities = authorities\<rparr>"

definition public_delivery_policy :: "DeliverySettings \<Rightarrow> PublicDeliveryPolicy" where
  "public_delivery_policy d =
     \<lparr>requests_per_second = dls_public_rate_limit_requests_per_second d, burst = dls_public_rate_limit_burst d,
      max_in_flight = dls_public_max_in_flight_requests d, token_max_ttl = from_secs (dls_public_token_max_ttl_seconds d)\<rparr>"

definition api_rate_limit_policy :: "ServerSettings \<Rightarrow> ApiRateLimitPolicy" where
  "api_rate_limit_policy s =
     \<lparr>requests_per_second = srv_rate_limit_requests_per_second s, burst = srv_rate_limit_burst s,
      max_in_flight = srv_max_in_flight_requests s\<rparr>"

fun watermark_position :: "WatermarkPositionSetting \<Rightarrow> WatermarkPosition" where
  "watermark_position CenterSetting = Center"
| "watermark_position TopLeftSetting = TopLeft"
| "watermark_position TopRightSetting = TopRight"
| "watermark_position BottomLeftSetting = BottomLeft"
| "watermark_position BottomRightSetting = BottomRight"

definition configured_watermark :: "WatermarkSettings \<Rightarrow> WatermarkPolicy option" where
  "configured_watermark m =
     (if wms_enabled m
      then Some \<lparr>wp_asset_path = wms_asset_path m, wp_asset_sha256 = wms_asset_sha256 m,
             wp_preset_revision = wms_preset_revision m, wp_position = watermark_position (wms_position m),
             wp_margin_px = wms_margin_px m, wp_max_width_percent = wms_max_width_percent m,
             wp_opacity_percent = wms_opacity_percent m\<rparr>
      else None)"

definition configured_worker_policy :: "Settings \<Rightarrow> WorkerPolicy" where
  "configured_worker_policy s =
     (let w = set_worker s; u = set_upload s in
      \<lparr>wpo_lease_for = from_secs (wks_lease_seconds w), wpo_heartbeat_every = from_secs (wks_heartbeat_seconds w),
       wpo_retry_delay = from_secs (wks_retry_delay_seconds w), wpo_max_attempts = wks_max_attempts w,
       wpo_max_heavy_images = wks_max_concurrent_heavy_images w, wpo_max_videos = wks_max_concurrent_videos w,
       wpo_max_image_bytes = ups_max_image_bytes u, wpo_max_video_bytes = ups_max_video_bytes u,
       wpo_max_temp_disk_bytes = wks_max_temp_disk_bytes w, wpo_temp_directory = wks_temp_directory w,
       wpo_watermark = configured_watermark (set_watermark s)\<rparr>)"

section \<open>The capability probe\<close>

text \<open>\<open>run\<close> is how the child ended; the probe reads one byte more than it accepts.\<close>

definition probe_sandbox_capabilities :: "(string \<Rightarrow> duration \<Rightarrow> ProcessOutcome) \<Rightarrow> (string \<Rightarrow> (string, CapabilitiesResponse) result)
    \<Rightarrow> string \<Rightarrow> duration \<Rightarrow> nat \<Rightarrow> (string, CapabilitiesResponse) result" where
  "probe_sandbox_capabilities run from_json binary timeout max_output_bytes =
     (if binary = [] \<or> timeout = 0 \<or> \<not> within 1024 max_output_bytes 1048576
      then Err ''sandbox capability probe limits are invalid''
      else (case run binary timeout of
          TimedOut \<Rightarrow> Err ''sandbox capability probe timed out''
        | NotStarted e \<Rightarrow> Err ''failed to start sandbox capability probe''
        | WaitFailed e \<Rightarrow> Err ''failed to wait for sandbox capability probe''
        | Exited out \<Rightarrow>
            let answer = take (max_output_bytes + 1) (po_stdout out) in
            if \<not> po_success out then Err ''sandbox capability probe exited unsuccessfully''
            else if length answer > max_output_bytes then Err ''sandbox capability output exceeded its byte limit''
            else (case from_json answer of
                Inl e \<Rightarrow> Err ''sandbox capability JSON is invalid''
              | Inr found \<Rightarrow>
                  if satisfies_v1 found then Ok found
                  else Err ''sandbox does not satisfy the required v1 media capabilities'')))"

section \<open>Processes\<close>

text \<open>What a process finds around it.\<close>

record 'b host =
  ho_urls :: url_world
  ho_client :: "StorageSettings \<Rightarrow> 'b sdk"
  ho_open_database :: "string \<Rightarrow> u32 \<Rightarrow> bool"
  ho_sandbox_capabilities :: "string \<Rightarrow> duration \<Rightarrow> ProcessOutcome"
  ho_capabilities_json :: "string \<Rightarrow> (string, CapabilitiesResponse) result"
  ho_spawn :: spawn
  ho_inspection_json :: "string \<Rightarrow> (string, MediaInspection) result"
  ho_files :: files
  ho_sha256 :: "string \<Rightarrow> string"
  ho_show_uuid :: "uuid \<Rightarrow> string"
  ho_representable :: "int \<Rightarrow> bool"

text \<open>\<open>context\<close>: the error of a step is reported as the text of its context.\<close>

definition with_context :: "bool \<Rightarrow> string \<Rightarrow> (string, unit) result" where
  "with_context ok message = (if ok then Ok () else Err message)"

definition in_context :: "('e, 'a) result \<Rightarrow> string \<Rightarrow> (string, 'a) result" where
  "in_context r message = (case r of Inl _ \<Rightarrow> Err message | Inr a \<Rightarrow> Ok a)"

lemma with_context_Ok [simp]: "with_context ok m = Ok () \<longleftrightarrow> ok"
  by (simp add: with_context_def)

lemma in_context_Ok [simp]: "in_context r m = Ok a \<longleftrightarrow> r = Ok a"
  by (cases r) (simp_all add: in_context_def)

record 'b control_plane =
  cp_state :: "'b ApiState"
  cp_rate_limit :: ApiRateLimitPolicy
  cp_lifecycle :: LifecyclePolicy
  cp_body_limit :: nat
  cp_public :: "PublicDeliveryState option"

definition api_auth :: "AuthSettings \<Rightarrow> (string, ApiAuth) result" where
  "api_auth a =
     (if unat (aus_allowed_skew_seconds a) \<le> i64_max
      then Ok \<lparr>aa_key_id = aus_key_id a, aa_tenant_id = aus_tenant_id a, aa_secret = aus_hmac_secret a,
             aa_allowed_skew_seconds = int (unat (aus_allowed_skew_seconds a))\<rparr>
      else Err ''auth clock skew exceeds signed range'')"

definition public_delivery_state :: "Settings \<Rightarrow> DerivativeDeliveryPolicy \<Rightarrow> (string, PublicDeliveryState option) result" where
  "public_delivery_state s policy =
     (let d = set_delivery s in
      if dls_public_enabled d
      then (case PublicDeliveryState_new (aus_tenant_id (set_auth s)) policy (dls_public_signing_secret d)
                (public_delivery_policy d) of
              None \<Rightarrow> Err ''failed to initialize public derivative delivery'' | Some p \<Rightarrow> Ok (Some p))
      else Ok None)"

definition build_control_plane :: "'b host \<Rightarrow> Settings \<Rightarrow> (string, 'b control_plane) result" where
  "build_control_plane host s =
     (let w = set_worker s; client = ho_client host (set_storage s) in
      and_then (in_context (probe_sandbox_capabilities (ho_sandbox_capabilities host) (ho_capabilities_json host)
          (wks_sandbox_binary w) (from_secs (max (wks_image_timeout_seconds w) (wks_video_timeout_seconds w)))
          (wks_max_sandbox_output_bytes w)) ''required sandbox media capabilities are unavailable'') (\<lambda>capabilities.
      and_then (with_context (ho_open_database host (dbs_url (set_database s)) (dbs_max_connections (set_database s)))
          ''failed to initialize SQLite'') (\<lambda>_.
      and_then (in_context (for_raw_bucket (ho_urls host) client (set_storage s)) ''failed to initialize object storage'')
        (\<lambda>raw_store.
      and_then (in_context (for_derivative_bucket (ho_urls host) client (set_storage s))
          ''failed to initialize derivative object storage'') (\<lambda>derivative_store.
      and_then (with_context (lifecycle_policy_is_valid (lifecycle_policy (set_lifecycle s)))
          ''failed to initialize lifecycle service'') (\<lambda>_.
      and_then (in_context (derive_redirect_authorities (ho_urls host) (set_storage s))
          ''failed to derive provider redirect authorities'') (\<lambda>authorities.
      and_then (with_context (delivery_policy_is_valid (delivery_policy (set_delivery s) authorities))
          ''failed to initialize derivative delivery'') (\<lambda>_.
      and_then (public_delivery_state s (delivery_policy (set_delivery s) authorities)) (\<lambda>public.
      and_then (api_auth (set_auth s)) (\<lambda>auth.
      and_then (with_context (rate_limit_is_valid (api_rate_limit_policy (set_server s)))
          ''failed to initialize API rate limits'') (\<lambda>_.
      Ok \<lparr>cp_state = with_upload_control
             \<lparr>us_store = s3_object_store raw_store, us_policy = upload_batch_policy (set_upload s),
              us_capacity = upload_capacity_policy (set_upload s)\<rparr> auth
             ((ApiState_new True)\<lparr>st_capabilities := Some capabilities,
                st_delivery_service := Some \<lparr>ds_store = s3_object_store derivative_store,
                  ds_policy = delivery_policy (set_delivery s) authorities\<rparr>,
                st_lifecycle_service := True,
                st_policy_service := Some (aus_allowed_skew_seconds (set_auth s))\<rparr>),
          cp_rate_limit = api_rate_limit_policy (set_server s), cp_lifecycle = lifecycle_policy (set_lifecycle s),
          cp_body_limit = srv_request_body_limit_bytes (set_server s), cp_public = public\<rparr>)))))))))))"

definition build_worker :: "'b host \<Rightarrow> Settings \<Rightarrow> (string, ('b, 'b) SourceValidationWorker) result" where
  "build_worker host s =
     (let w = set_worker s; client = ho_client host (set_storage s) in
      and_then (with_context (ho_open_database host (dbs_url (set_database s)) (dbs_max_connections (set_database s)))
          ''failed to initialize SQLite'') (\<lambda>_.
      and_then (in_context (for_raw_bucket (ho_urls host) client (set_storage s)) ''failed to initialize raw object store'')
        (\<lambda>raw_store.
      and_then (in_context (for_derivative_bucket (ho_urls host) client (set_storage s))
          ''failed to initialize derivative object store'') (\<lambda>derivative_store.
      and_then (in_context (ProcessSandboxProbe_new (wks_sandbox_binary w) (from_secs (wks_image_timeout_seconds w))
          (from_secs (wks_video_timeout_seconds w)) (wks_native_threads_per_job w) (wks_max_sandbox_output_bytes w))
          ''sandbox probe configuration is invalid'') (\<lambda>probe.
      and_then (in_context (validate_worker_policy (configured_worker_policy s)) ''worker policy is invalid'') (\<lambda>_.
      Ok \<lparr>raw_files = s3_file_store raw_store, derivative_files = s3_file_store derivative_store,
          worker_sandbox = process_sandbox (ho_spawn host) (ho_inspection_json host) probe,
          worker_policy = configured_worker_policy s, host_files = ho_files host, worker_sha256 = ho_sha256 host,
          worker_show_uuid = ho_show_uuid host, worker_representable = ho_representable host\<rparr>))))))"

section \<open>Accepted settings\<close>

lemma validated:
  assumes "validate_settings world s = Ok ()"
  shows "server_settings_ok (set_server s)" "auth_settings_ok (set_auth s)" "storage_settings_ok (set_storage s)"
    "validate_provider_contract world (set_storage s) = Ok ()" "upload_settings_ok (set_upload s)"
    "worker_settings_ok (set_upload s) (set_worker s)" "database_settings_ok (set_database s)"
    "watermark_config_ok (set_worker s) (set_watermark s)" "lifecycle_settings_ok (set_lifecycle s)"
    "validate_delivery_settings (set_delivery s) (srv_bind_addr (set_server s)) = Ok ()"
    "\<exists>authorities. derive_redirect_authorities world (set_storage s) = Ok authorities"
  using assms by (auto simp: validate_settings_def and_then_eq_Inr)

lemma unat_le_numeral: "v \<le> numeral n \<Longrightarrow> unat (v :: 'a::len word) \<le> unat (numeral n :: 'a word)"
  by (simp add: word_le_nat_alt)

lemma seconds_mono [simp]: "seconds m \<le> seconds n \<longleftrightarrow> m \<le> n" "seconds m = 0 \<longleftrightarrow> m = 0"
  by (simp_all add: seconds_def)

lemma lifecycle_policy_ok: "lifecycle_settings_ok l \<Longrightarrow> lifecycle_policy_is_valid (lifecycle_policy l)"
  unfolding lifecycle_settings_ok_def lifecycle_policy_is_valid_def lifecycle_policy_def within_def from_secs_def
  by (simp add: word_le_nat_alt unat_gt_0 Suc_le_eq)

lemma inventory_policy_ok: "lifecycle_settings_ok l \<Longrightarrow> inventory_policy_is_valid (inventory_policy l)"
  unfolding lifecycle_settings_ok_def inventory_policy_is_valid_def inventory_policy_def within_def from_secs_def
  by (simp add: word_le_nat_alt)

lemma capacity_policy_ok: "upload_settings_ok u \<Longrightarrow> capacity_is_valid (upload_capacity_policy u)"
  unfolding upload_settings_ok_def capacity_is_valid_def upload_capacity_policy_def
  by (auto simp: word_le_nat_alt word_less_nat_alt unat_gt_0)

lemma rate_limit_ok: "server_settings_ok v \<Longrightarrow> rate_limit_is_valid (api_rate_limit_policy v)"
  unfolding server_settings_ok_def rate_limit_is_valid_def api_rate_limit_policy_def within_def
  by (auto simp: word_le_nat_alt word_less_nat_alt)

lemma authorities_ok:
  assumes "derive_redirect_authorities world st = Ok authorities"
  shows "authorities \<noteq> []" "length authorities \<le> 4"
    "list_all (\<lambda>a. a \<noteq> [] \<and> length a \<le> 512 \<and> list_all authority_byte a) authorities"
  using assms by (auto simp: derive_redirect_authorities_def and_then_eq_Inr list_ex_iff list_all_iff split: if_splits)

lemma authority_lowercase: "list_all authority_byte a \<Longrightarrow> to_ascii_lowercase a = a"
  unfolding to_ascii_lowercase_def list_all_iff
  by (rule map_idI) (auto simp: ascii_lower_def authority_byte_def is_ascii_upper_def is_ascii_lower_def is_ascii_digit_def byte_of_def)

lemma delivery_policy_ok:
  assumes "validate_delivery_settings d a = Ok ()" "derive_redirect_authorities world st = Ok authorities"
  shows "delivery_policy_is_valid (delivery_policy d authorities)"
proof -
  have "list_all (\<lambda>a. a \<noteq> [] \<and> length a \<le> 512 \<and> a = to_ascii_lowercase a \<and> list_all authority_byte a) authorities"
    using authorities_ok(3)[OF assms(2)] by (rule list.pred_mono_strong) (simp add: authority_lowercase)
  then show ?thesis
    using assms(1) authorities_ok(1,2)[OF assms(2)]
    by (simp add: validate_delivery_settings_def Let_def delivery_policy_is_valid_def delivery_policy_def within_def
        from_secs_def word_le_nat_alt)
qed

lemma public_policy_ok:
  assumes "validate_delivery_settings d a = Ok ()"
  shows "public_policy_is_valid (public_delivery_policy d)" "dls_public_enabled d \<Longrightarrow> secret_ok (dls_public_signing_secret d)"
  using assms
  by (simp_all add: validate_delivery_settings_def Let_def public_policy_is_valid_def public_delivery_policy_def within_def
      from_secs_def word_le_nat_alt word_less_nat_alt not_less secret_ok_def)

lemma checked_add_commute: "checked_add a b = checked_add b a"
  by (simp add: checked_add_def add.commute)

lemma unat_largest: "unat (- 1 :: u64) = 18446744073709551615"
  by (simp add: unsigned_minus_1_eq_mask mask_eq_exp_minus_1)

text \<open>The limit of the disk reservation keeps the saturating sum of the settings from saturating, so it is
  the checked one of the worker.\<close>

lemma temp_disk_ok:
  assumes "\<not> m < minimum_temp_disk_bytes u" "m \<le> 1024 * 1024 * 1024 * 1024"
  shows "required_temp_disk_bytes (ups_max_image_bytes u) (ups_max_video_bytes u) = Some (minimum_temp_disk_bytes u)"
proof -
  let ?i = "ups_max_image_bytes u" and ?v = "ups_max_video_bytes u"
  have small: "unat (minimum_temp_disk_bytes u) \<le> 1099511627776"
    using assms by (simp add: word_le_nat_alt word_less_nat_alt)
  have add: "checked_add a b = Some (saturating_add a b)" if "unat (saturating_add a b) \<le> 1099511627776" for a b
    using that by (auto simp: saturating_add_def unat_largest split: option.splits)
  have below: "unat a \<le> unat (saturating_add a b)" "unat b \<le> unat (saturating_add a b)"
    if "unat (saturating_add a b) \<le> 1099511627776" for a b
    using add[OF that] by (simp_all add: checked_add_Some)
  have mul: "checked_mul a b = Some (saturating_mul a b)" if "unat (saturating_mul a b) \<le> 1099511627776" for a b
    using that by (auto simp: saturating_mul_def unat_largest split: option.splits)
  define twice where "twice = saturating_mul ?i 2"
  define largest where "largest = saturating_add (max ?v ?i) twice"
  have min: "minimum_temp_disk_bytes u = saturating_add largest (16 * 1024 * 1024)"
    by (simp add: minimum_temp_disk_bytes_def largest_def twice_def)
  have l: "unat largest \<le> 1099511627776" and t: "unat twice \<le> 1099511627776"
    using below small unfolding min largest_def by (meson order_trans)+
  have "checked_mul ?i 2 = Some twice" using mul t unfolding twice_def by blast
  moreover have "checked_add twice (max ?i ?v) = Some largest"
    using add[OF l[unfolded largest_def]] by (simp add: checked_add_commute[of twice] max.commute largest_def)
  moreover have "checked_add largest max_watermark_bytes = Some (minimum_temp_disk_bytes u)"
    using add small unfolding min by (simp add: max_watermark_bytes_def)
  ultimately show ?thesis by (simp add: required_temp_disk_bytes_def)
qed

lemma worker_policy_ok:
  assumes "upload_settings_ok (set_upload s)" "worker_settings_ok (set_upload s) (set_worker s)"
    and "watermark_config_ok (set_worker s) (set_watermark s)"
  shows "validate_worker_policy (configured_worker_policy s) = Ok ()"
proof -
  let ?w = "set_worker s" and ?u = "set_upload s"
  note ok = assms(1,2)[unfolded upload_settings_ok_def worker_settings_ok_def within_def]
  have disk: "required_temp_disk_bytes (ups_max_image_bytes ?u) (ups_max_video_bytes ?u) = Some (minimum_temp_disk_bytes ?u)"
    "\<not> wks_max_temp_disk_bytes ?w < minimum_temp_disk_bytes ?u" "\<not> max_temp_disk_limit < wks_max_temp_disk_bytes ?w"
    using temp_disk_ok ok by (auto simp: max_temp_disk_limit_def not_less)
  have permits: "temp_disk_permits (wks_max_temp_disk_bytes ?w) \<noteq> None"
  proof -
    have "unat (wks_max_temp_disk_bytes ?w) \<le> 1099511627776" using disk(3) by (simp add: max_temp_disk_limit_def word_less_nat_alt)
    then show ?thesis by (simp add: temp_disk_permits_def temp_disk_permit_bytes_def Let_def)
  qed
  have "\<not> unat (wks_lease_seconds ?w) \<le> unat (saturating_mul (wks_heartbeat_seconds ?w) 2)"
    using ok by (simp add: word_le_nat_alt)
  then have beats: "2 * unat (wks_heartbeat_seconds ?w) < unat (wks_lease_seconds ?w)"
    using unat_u64_less[of "wks_lease_seconds ?w"]
    by (auto simp: saturating_mul_def checked_mul_Some checked_mul_None unat_largest split: option.splits)
  then have lease: "\<not> seconds (unat (wks_lease_seconds ?w)) \<le> min (seconds (unat (wks_heartbeat_seconds ?w)) * 2) max_duration"
    by (simp add: seconds_def min_def)
  have watermark: "\<not> (case configured_watermark (set_watermark s) of None \<Rightarrow> False | Some wm \<Rightarrow> \<not> watermark_policy_is_valid wm)"
    using assms(3)
    by (auto simp: configured_watermark_def watermark_config_ok_def watermark_policy_is_valid_def within_def not_less)
  show ?thesis
    using ok disk permits lease watermark beats
    by (simp add: validate_worker_policy_def configured_worker_policy_def Let_def from_secs_def unat_gt_0)
qed

lemma stores_open:
  assumes "storage_settings_ok (set_storage s)" "validate_provider_contract world (set_storage s) = Ok ()"
  shows "for_raw_bucket world client (set_storage s) = Ok \<lparr>s3_client = client, s3_bucket = sto_raw_bucket (set_storage s)\<rparr>"
    "for_derivative_bucket world client (set_storage s) =
       Ok \<lparr>s3_client = client, s3_bucket = sto_derivative_bucket (set_storage s)\<rparr>"
  using assms
  by (simp_all add: for_raw_bucket_def for_derivative_bucket_def S3CompatibleStore_new_def storage_settings_ok_def)

lemma sandbox_opens:
  assumes "worker_settings_ok u w"
  shows "\<exists>probe. ProcessSandboxProbe_new (wks_sandbox_binary w) (from_secs (wks_image_timeout_seconds w))
      (from_secs (wks_video_timeout_seconds w)) (wks_native_threads_per_job w) (wks_max_sandbox_output_bytes w) = Ok probe"
  using assms
  by (simp add: ProcessSandboxProbe_new_def worker_settings_ok_def within_def from_secs_def unat_gt_0 not_less)

text \<open>
  C27. Settings that passed validation give every service a policy it accepts: once the database opens and
  the sandbox answers, the worker starts with a validated policy, reconciliation and reservations have valid
  limits, and the control plane starts as well -- unless public delivery is enabled for a tenant with a
  character no request can carry, which validation lets through and only the listener's constructor refuses.
\<close>

theorem accepted_settings_start:
  assumes "validate_settings (ho_urls host) s = Ok ()"
    and "ho_open_database host (dbs_url (set_database s)) (dbs_max_connections (set_database s))"
    and "probe_sandbox_capabilities (ho_sandbox_capabilities host) (ho_capabilities_json host)
      (wks_sandbox_binary (set_worker s))
      (from_secs (max (wks_image_timeout_seconds (set_worker s)) (wks_video_timeout_seconds (set_worker s))))
      (wks_max_sandbox_output_bytes (set_worker s)) = Ok tools"
  shows "(\<exists>worker. build_worker host s = Ok worker \<and> validate_worker_policy (worker_policy worker) = Ok ()) \<and>
    inventory_policy_is_valid (inventory_policy (set_lifecycle s)) \<and> capacity_is_valid (upload_capacity_policy (set_upload s)) \<and>
    (if dls_public_enabled (set_delivery s) \<and> \<not> bounded_token 64 (aus_tenant_id (set_auth s))
     then build_control_plane host s = Err ''failed to initialize public derivative delivery''
     else \<exists>plane. build_control_plane host s = Ok plane)"
proof -
  note ok = validated[OF assms(1)]
  note stores = stores_open[OF ok(3,4)]
  obtain authorities where authorities: "derive_redirect_authorities (ho_urls host) (set_storage s) = Ok authorities"
    using ok(11) by blast
  have worker: "\<exists>worker. build_worker host s = Ok worker \<and> validate_worker_policy (worker_policy worker) = Ok ()"
    using sandbox_opens[OF ok(6)] worker_policy_ok[OF ok(5,6,8)] assms(2)
    by (auto simp: build_worker_def Let_def stores in_context_def with_context_def)
  have skew: "api_auth (set_auth s) = Ok \<lparr>aa_key_id = aus_key_id (set_auth s), aa_tenant_id = aus_tenant_id (set_auth s),
      aa_secret = aus_hmac_secret (set_auth s), aa_allowed_skew_seconds = int (unat (aus_allowed_skew_seconds (set_auth s)))\<rparr>"
    using ok(2) by (simp add: api_auth_def auth_settings_ok_def i64_max_def word_le_nat_alt)
  have public: "public_delivery_state s (delivery_policy (set_delivery s) authorities) =
      (if dls_public_enabled (set_delivery s) \<and> \<not> bounded_token 64 (aus_tenant_id (set_auth s))
       then Err ''failed to initialize public derivative delivery''
       else Ok (if dls_public_enabled (set_delivery s)
         then Some \<lparr>pds_tenant_id = aus_tenant_id (set_auth s), pds_delivery = delivery_policy (set_delivery s) authorities,
           pds_signing_secret = dls_public_signing_secret (set_delivery s), pds_policy = public_delivery_policy (set_delivery s)\<rparr>
         else None))"
    using public_policy_ok[OF ok(10)]
    by (simp add: public_delivery_state_def Let_def PublicDeliveryState_new_def Public_Delivery.valid_identifier_def)
  show ?thesis
    using worker inventory_policy_ok[OF ok(9)] capacity_policy_ok[OF ok(5)]
      lifecycle_policy_ok[OF ok(9)] rate_limit_ok[OF ok(1)] delivery_policy_ok[OF ok(10) authorities] assms(2,3)
    by (simp add: build_control_plane_def Let_def stores authorities skew public in_context_def with_context_def)
qed

definition sample_tools :: CapabilitiesResponse where
  "sample_tools =
     \<lparr>cr_image_inputs = [''jpeg'', ''png'', ''gif'', ''webp'', ''avif'', ''heif''],
      cr_image_outputs = [''jpeg'', ''webp'', ''avif'', ''png''], cr_video_inputs = [''mp4'', ''mov''], cr_mp4_thumbnail = True,
      cr_mp4_h264_fallback = True, cr_native_versions = (\<lambda>_. Some ''1'')\<rparr>"

definition sample_process_host :: "memory host" where
  "sample_process_host =
     \<lparr>ho_urls = \<lparr>parse_url = \<lambda>_. None\<rparr>, ho_client = (\<lambda>_. memory_sdk), ho_open_database = (\<lambda>_ _. True),
      ho_sandbox_capabilities = (\<lambda>_ _. Exited \<lparr>po_success = True, po_status = ''0'', po_stdout = ''{}'', po_stderr = []\<rparr>),
      ho_capabilities_json = (\<lambda>_. Ok sample_tools), ho_spawn = (\<lambda>_ fs. (TimedOut, fs)), ho_inspection_json = (\<lambda>_. Err []),
      ho_files = Map.empty, ho_sha256 = (\<lambda>_. []), ho_show_uuid = (\<lambda>_. []), ho_representable = (\<lambda>_. True)\<rparr>"

theorem accepted_settings_start_witness:
  "(\<exists>worker. build_worker sample_process_host sample_settings = Ok worker) \<and>
   (\<exists>plane. build_control_plane sample_process_host sample_settings = Ok plane)"
proof -
  have "probe_sandbox_capabilities (ho_sandbox_capabilities sample_process_host) (ho_capabilities_json sample_process_host)
      (wks_sandbox_binary (set_worker sample_settings))
      (from_secs (max (wks_image_timeout_seconds (set_worker sample_settings)) (wks_video_timeout_seconds (set_worker sample_settings))))
      (wks_max_sandbox_output_bytes (set_worker sample_settings)) = Ok sample_tools"
    by (simp add: probe_sandbox_capabilities_def sample_process_host_def sample_settings_def default_settings_defs within_def
        from_secs_def seconds_def satisfies_v1_def sample_tools_def)
  moreover have "ho_open_database sample_process_host (dbs_url (set_database sample_settings))
      (dbs_max_connections (set_database sample_settings))" by (simp add: sample_process_host_def)
  ultimately show ?thesis
    using accepted_settings_start[OF sample_settings_valid] by (auto simp: sample_settings_def default_settings_defs)
qed

end
