(* ===== verification/Host_Files.thy ===== *)
theory Host_Files
  imports Effects Text
begin

text \<open>
  The file system under the commands that keep files: an association list of absolute paths, where a new
  file has mode \<open>0o644\<close>.  Every I/O operation is numbered; \<open>faults\<close> says which of them fail, after how
  many bytes.  An operation answers with the error its caller gives it.
\<close>

section \<open>Files\<close>

text \<open>A regular file has content and mode; a link says whether it leads to a directory.\<close>

datatype node = FileNode string nat | DirNode | LinkNode bool

record host_fs =
  fs_nodes :: "(string \<times> node) list"
  fs_ops :: nat

type_synonym ('e, 'a) fs_op = "(host_fs, 'e, 'a) op"

type_synonym faults = "nat \<Rightarrow> nat option"

text \<open>One I/O operation: a fault may leave part of its effect, otherwise \<open>act\<close> decides.\<close>

definition io_partial :: "faults \<Rightarrow> 'e \<Rightarrow> (nat \<Rightarrow> (string \<times> node) list \<Rightarrow> (string \<times> node) list)
    \<Rightarrow> ((string \<times> node) list \<Rightarrow> ('a \<times> (string \<times> node) list) option) \<Rightarrow> ('e, 'a) fs_op" where
  "io_partial faults message failing act w =
     (let n = fs_ops w; w' = w\<lparr>fs_ops := Suc n\<rparr> in
      case faults n of
        Some k \<Rightarrow> (Err message, w'\<lparr>fs_nodes := failing k (fs_nodes w)\<rparr>)
      | None \<Rightarrow>
          (case act (fs_nodes w) of
             None \<Rightarrow> (Err message, w') | Some (a, nodes) \<Rightarrow> (Ok a, w'\<lparr>fs_nodes := nodes\<rparr>)))"

definition io :: "faults \<Rightarrow> 'e \<Rightarrow> ((string \<times> node) list \<Rightarrow> ('a \<times> (string \<times> node) list) option) \<Rightarrow> ('e, 'a) fs_op" where
  "io faults message act = io_partial faults message (\<lambda>_ nodes. nodes) act"

definition symlink_metadata :: "string \<Rightarrow> (string \<times> node) list \<Rightarrow> (node \<times> (string \<times> node) list) option" where
  "symlink_metadata path nodes = map_option (\<lambda>n. (n, nodes)) (map_of nodes path)"

definition read_content :: "string \<Rightarrow> (string \<times> node) list \<Rightarrow> (string \<times> (string \<times> node) list) option" where
  "read_content path nodes = (case map_of nodes path of Some (FileNode c m) \<Rightarrow> Some (c, nodes) | _ \<Rightarrow> None)"

definition create_new :: "string \<Rightarrow> string \<Rightarrow> (string \<times> node) list \<Rightarrow> (unit \<times> (string \<times> node) list) option" where
  "create_new path content nodes =
     (if map_of nodes path = None then Some ((), AList.update path (FileNode content 420) nodes) else None)"

definition set_content :: "string \<Rightarrow> string \<Rightarrow> (string \<times> node) list \<Rightarrow> (string \<times> node) list" where
  "set_content path content nodes = AList.update path (FileNode content 420) nodes"

definition set_mode :: "string \<Rightarrow> nat \<Rightarrow> (string \<times> node) list \<Rightarrow> (unit \<times> (string \<times> node) list) option" where
  "set_mode path mode nodes =
     (case map_of nodes path of Some (FileNode c m) \<Rightarrow> Some ((), AList.update path (FileNode c mode) nodes) | _ \<Rightarrow> None)"

definition hard_link :: "string \<Rightarrow> string \<Rightarrow> (string \<times> node) list \<Rightarrow> (unit \<times> (string \<times> node) list) option" where
  "hard_link source target nodes =
     (case map_of nodes source of
        Some (FileNode c m) \<Rightarrow>
          if map_of nodes target = None then Some ((), AList.update target (FileNode c m) nodes) else None
      | _ \<Rightarrow> None)"

definition remove_file :: "string \<Rightarrow> (string \<times> node) list \<Rightarrow> (unit \<times> (string \<times> node) list) option" where
  "remove_file path nodes =
     (case map_of nodes path of None \<Rightarrow> None | Some DirNode \<Rightarrow> None | Some _ \<Rightarrow> Some ((), AList.delete path nodes))"

definition create_dir_all :: "string \<Rightarrow> (string \<times> node) list \<Rightarrow> (unit \<times> (string \<times> node) list) option" where
  "create_dir_all path nodes =
     (case map_of nodes path of
        None \<Rightarrow> Some ((), AList.update path DirNode nodes)
      | Some DirNode \<Rightarrow> Some ((), nodes)
      | Some (LinkNode is_dir) \<Rightarrow> if is_dir then Some ((), nodes) else None
      | Some (FileNode c m) \<Rightarrow> None)"

definition rename_file :: "string \<Rightarrow> string \<Rightarrow> (string \<times> node) list \<Rightarrow> (unit \<times> (string \<times> node) list) option" where
  "rename_file source target nodes =
     (case map_of nodes source of
        Some (FileNode c m) \<Rightarrow>
          if map_of nodes target = Some DirNode then None
          else Some ((), AList.update target (FileNode c m) (AList.delete source nodes))
      | _ \<Rightarrow> None)"

definition set_dir_mode :: "string \<Rightarrow> (string \<times> node) list \<Rightarrow> (unit \<times> (string \<times> node) list) option" where
  "set_dir_mode path nodes = (if map_of nodes path = None then None else Some ((), nodes))"

text \<open>\<open>parent\<close> and \<open>file_name\<close> of a normalised absolute path.\<close>

definition path_parent :: "string \<Rightarrow> string" where
  "path_parent path =
     (case dropWhile (\<lambda>c. c \<noteq> CHR ''/'') (rev path) of [] \<Rightarrow> [] | [_] \<Rightarrow> ''/'' | _ # rest \<Rightarrow> rev rest)"

definition path_file_name :: "string \<Rightarrow> string" where
  "path_file_name path = rev (takeWhile (\<lambda>c. c \<noteq> CHR ''/'') (rev path))"

definition path_join :: "string \<Rightarrow> string \<Rightarrow> string" where
  "path_join directory name =
     (if directory \<noteq> [] \<and> last directory = CHR ''/'' then directory @ name else directory @ ''/'' @ name)"

definition is_regular :: "node \<Rightarrow> bool" where
  "is_regular n = (case n of FileNode c m \<Rightarrow> True | _ \<Rightarrow> False)"

section \<open>What the operations change\<close>

definition entry :: "host_fs \<Rightarrow> string \<Rightarrow> node option" where
  "entry w = map_of (fs_nodes w)"

lemma io_partial_Ok:
  "io_partial faults message failing act w = (Ok a, w') \<longleftrightarrow> faults (fs_ops w) = None \<and>
     (\<exists>nodes. act (fs_nodes w) = Some (a, nodes) \<and> w' = w\<lparr>fs_ops := Suc (fs_ops w), fs_nodes := nodes\<rparr>)"
  by (auto simp: io_partial_def Let_def split: option.split)

lemmas io_Ok = io_partial_Ok[of faults message "\<lambda>_ nodes. nodes" for faults message, folded io_def]

lemma touches_io_partial:
  assumes "\<And>nodes a nodes' p. act nodes = Some (a, nodes') \<Longrightarrow> p \<notin> K \<Longrightarrow> map_of nodes' p = map_of nodes p"
    and "\<And>k nodes p. p \<notin> K \<Longrightarrow> map_of (failing k nodes) p = map_of nodes p"
  shows "touches_only entry K (io_partial faults message failing act)"
  using assms unfolding touches_only_def io_partial_def entry_def
  by (auto simp: Let_def split: option.splits)

lemma touches_io:
  assumes "\<And>nodes a nodes' p. act nodes = Some (a, nodes') \<Longrightarrow> p \<notin> K \<Longrightarrow> map_of nodes' p = map_of nodes p"
  shows "touches_only entry K (io faults message act)"
  unfolding io_def by (rule touches_io_partial) (use assms in auto)

lemma keeps_io_partial:
  assumes "\<And>nodes a nodes' p. act nodes = Some (a, nodes') \<Longrightarrow> P p (map_of nodes p) \<Longrightarrow> P p (map_of nodes' p)"
    and "\<And>k nodes p. P p (map_of nodes p) \<Longrightarrow> P p (map_of (failing k nodes) p)"
  shows "keeps entry P (io_partial faults message failing act)"
  using assms unfolding keeps_def io_partial_def entry_def by (auto simp: Let_def split: option.splits)

lemma keeps_io:
  assumes "\<And>nodes a nodes' p. act nodes = Some (a, nodes') \<Longrightarrow> P p (map_of nodes p) \<Longrightarrow> P p (map_of nodes' p)"
  shows "keeps entry P (io faults message act)"
  unfolding io_def by (rule keeps_io_partial) (use assms in auto)

lemmas node_acts = symlink_metadata_def read_content_def create_new_def set_content_def set_mode_def hard_link_def
  remove_file_def create_dir_all_def

lemma touches_reads [simp]:
  "touches_only entry K (io faults message (symlink_metadata path))"
  "touches_only entry K (io faults message (read_content path))"
  "touches_only entry K (io faults message (\<lambda>nodes. Some (f nodes, nodes)))"
  by (auto intro!: touches_io simp: node_acts split: option.splits node.splits)

lemma touches_writes:
  "path \<in> K \<Longrightarrow> touches_only entry K (io faults message (create_new path c))"
  "path \<in> K \<Longrightarrow> touches_only entry K (io faults message (set_mode path m))"
  "path \<in> K \<Longrightarrow> touches_only entry K (io faults message (hard_link source path))"
  "path \<in> K \<Longrightarrow> touches_only entry K (io faults message (remove_file path))"
  "path \<in> K \<Longrightarrow> touches_only entry K (io faults message (create_dir_all path))"
  by (rule touches_io; auto simp: node_acts update_conv' delete_conv' split: option.splits node.splits if_splits)+

lemma touches_set:
  "path \<in> K \<Longrightarrow> touches_only entry K (io_partial faults message (\<lambda>k nodes. set_content path (take k c) nodes)
     (\<lambda>nodes. Some ((), set_content path c nodes)))"
  by (rule touches_io_partial) (auto simp: node_acts update_conv')

lemma touches_case_sum: "touches_only entry K (\<lambda>w. (f w, w))"
  by (simp add: touches_only_def)

lemmas succeeding = op_bind_Ok io_Ok io_partial_Ok node_acts entry_def update_conv' delete_conv'

lemma pure_Ok: "io faults message (\<lambda>nodes. Some (f nodes, nodes)) w = (Ok a, w') \<Longrightarrow> entry w' = entry w \<and> a = f (fs_nodes w)"
  by (auto simp: succeeding)

lemma meta_Ok:
  "io faults message (symlink_metadata path) w = (Ok node, w') \<Longrightarrow> entry w path = Some node \<and> entry w' = entry w"
  by (auto simp: succeeding)

lemma read_Ok:
  "io faults message (read_content path) w = (Ok c, w') \<Longrightarrow> (\<exists>m. entry w path = Some (FileNode c m)) \<and> entry w' = entry w"
  by (auto simp: succeeding split: node.splits option.splits)

lemma new_Ok:
  "io faults message (create_new path c) w = (Ok u, w') \<Longrightarrow> entry w path = None \<and> entry w' = (entry w)(path \<mapsto> FileNode c 420)"
  by (auto simp: succeeding fun_eq_iff split: if_splits)

lemma set_Ok:
  "io_partial faults message failing (\<lambda>nodes. Some ((), set_content path c nodes)) w = (Ok u, w') \<Longrightarrow>
     entry w' = (entry w)(path \<mapsto> FileNode c 420)"
  by (auto simp: succeeding fun_eq_iff)

lemma mode_Ok:
  "io faults message (set_mode path m) w = (Ok u, w') \<Longrightarrow>
     \<exists>c m'. entry w path = Some (FileNode c m') \<and> entry w' = (entry w)(path \<mapsto> FileNode c m)"
  by (auto simp: succeeding fun_eq_iff split: node.splits option.splits)

lemma link_Ok:
  "io faults message (hard_link source target) w = (Ok u, w') \<Longrightarrow>
     \<exists>c m. entry w source = Some (FileNode c m) \<and> entry w target = None \<and> entry w' = (entry w)(target \<mapsto> FileNode c m)"
  by (auto simp: succeeding split: node.splits option.splits if_splits)

lemma remove_Ok:
  "io faults message (remove_file path) w = (Ok u, w') \<Longrightarrow> entry w path \<noteq> None \<and> entry w' = (entry w)(path := None)"
  by (auto simp: succeeding split: node.splits option.splits)

lemma path_join_base: "path_join directory name = path_join directory [] @ name"
  by (simp add: path_join_def)

section \<open>Plain files\<close>

definition is_plain :: "node option \<Rightarrow> bool" where
  "is_plain e \<longleftrightarrow> (\<forall>n. e = Some n \<longrightarrow> is_regular n)"

lemma is_plain_simps [simp]: "is_plain None" "is_plain (Some n) \<longleftrightarrow> is_regular n" "is_regular (FileNode c m)"
  by (simp_all add: is_plain_def is_regular_def)

lemma keeps_pure [simp]: "keeps entry P (io faults message (\<lambda>nodes. Some (f nodes, nodes)))"
  by (rule keeps_io) simp

lemma keeps_plain_io [simp]:
  "keeps entry (\<lambda>p. is_plain) (io faults message (symlink_metadata path))"
  "keeps entry (\<lambda>p. is_plain) (io faults message (read_content path))"
  "keeps entry (\<lambda>p. is_plain) (io faults message (create_new path c))"
  "keeps entry (\<lambda>p. is_plain) (io faults message (set_mode path m))"
  "keeps entry (\<lambda>p. is_plain) (io faults message (hard_link source path))"
  "keeps entry (\<lambda>p. is_plain) (io faults message (remove_file path))"
  by (rule keeps_io; auto simp: node_acts update_conv' delete_conv' split: option.splits node.splits if_splits)+

lemma keeps_plain_set [simp]:
  "keeps entry (\<lambda>p. is_plain) (io_partial faults message (\<lambda>k nodes. set_content path (take k c) nodes)
     (\<lambda>nodes. Some ((), set_content path c nodes)))"
  by (rule keeps_io_partial) (auto simp: node_acts update_conv')

lemma io_run:
  "\<forall>n. faults n = None \<Longrightarrow> act (fs_nodes w) = Some (a, nodes) \<Longrightarrow>
     io_partial faults message failing act w = (Ok a, w\<lparr>fs_ops := Suc (fs_ops w), fs_nodes := nodes\<rparr>)"
  by (simp add: io_partial_Ok)

lemmas running = op_bind_def op_check_def op_return_def io_def io_run node_acts entry_def update_conv' delete_conv'

lemma starts_with_append [simp]: "starts_with s (s @ t)"
  by (simp add: starts_with_def)

lemma starts_with_split: "starts_with s v \<Longrightarrow> s @ drop (length s) v = v"
  by (metis append_take_drop_id starts_with_def)

lemma path_join_inject [simp]: "path_join directory a = path_join directory b \<longleftrightarrow> a = b"
  by (simp add: path_join_def)

section \<open>Replacing a file\<close>

text \<open>
  A file is written under a temporary name, synced, given its mode and renamed over its target; after an
  error the temporary file is removed and the error of the removal dropped.
\<close>

definition write_renamed :: "faults \<Rightarrow> 'e \<Rightarrow> string \<Rightarrow> string \<Rightarrow> string \<Rightarrow> nat \<Rightarrow> ('e, unit) fs_op" where
  "write_renamed faults e temporary path content mode =
     op_bind (io_partial faults e (\<lambda>k nodes. set_content temporary (take k content) nodes)
         (\<lambda>nodes. Some ((), set_content temporary content nodes))) (\<lambda>_.
     op_bind (io faults e (\<lambda>nodes. Some ((), nodes))) (\<lambda>_.
     op_bind (io faults e (set_mode temporary mode)) (\<lambda>_.
     io faults e (rename_file temporary path))))"

definition replace_file :: "faults \<Rightarrow> 'e \<Rightarrow> string \<Rightarrow> string \<Rightarrow> string \<Rightarrow> nat \<Rightarrow> ('e, unit) fs_op" where
  "replace_file faults e temporary path content mode =
     op_bind (io faults e (create_new temporary [])) (\<lambda>_ w.
       case write_renamed faults e temporary path content mode w of
         (Inl e', w1) \<Rightarrow> (Err e', snd (io faults e (remove_file temporary) w1))
       | (Inr u, w1) \<Rightarrow> (Ok u, w1))"

lemma io_Err: "io faults message act w = (Err e, w') \<Longrightarrow> entry w' = entry w"
  by (auto simp: io_def io_partial_def Let_def entry_def split: option.splits)

lemma rename_Ok:
  "io faults message (rename_file source target) w = (Ok u, w') \<Longrightarrow> source \<noteq> target \<Longrightarrow>
     \<exists>c m. entry w source = Some (FileNode c m) \<and> entry w' = (entry w)(source := None, target \<mapsto> FileNode c m)"
  by (auto simp: succeeding rename_file_def fun_eq_iff split: node.splits option.splits if_splits)

lemma write_renamed_Ok:
  assumes "write_renamed faults e temporary path content mode w = (Ok u, w')" "temporary \<noteq> path"
  shows "entry w' = (entry w)(temporary := None, path \<mapsto> FileNode content mode)"
proof -
  obtain w1 w2 w3 where steps: "io_partial faults e (\<lambda>k nodes. set_content temporary (take k content) nodes)
         (\<lambda>nodes. Some ((), set_content temporary content nodes)) w = (Ok (), w1)"
    "io faults e (\<lambda>nodes. Some ((), nodes)) w1 = (Ok (), w2)"
    "io faults e (set_mode temporary mode) w2 = (Ok (), w3)" "io faults e (rename_file temporary path) w3 = (Ok u, w')"
    using assms(1) by (auto simp: write_renamed_def op_bind_Ok)
  have "entry w2 = (entry w)(temporary \<mapsto> FileNode content 420)" using set_Ok[OF steps(1)] pure_Ok[OF steps(2)] by simp
  moreover from this have "entry w3 = (entry w)(temporary \<mapsto> FileNode content mode)" using mode_Ok[OF steps(3)] by auto
  ultimately show ?thesis using rename_Ok[OF steps(4) assms(2)] by auto
qed

lemma write_renamed_Err:
  assumes "write_renamed faults e temporary path content mode w = (Err e', w')" "p \<noteq> temporary"
  shows "entry w' p = entry w p"
proof -
  have K: "touches_only entry {temporary} (io_partial faults e (\<lambda>k nodes. set_content temporary (take k content) nodes)
         (\<lambda>nodes. Some ((), set_content temporary content nodes)))"
    "touches_only entry {temporary} (io faults e (set_mode temporary mode))"
    by (simp_all add: touches_set touches_writes)
  note change = touches_onlyD[OF K(1)] touches_onlyD[OF K(2)] touches_onlyD[OF touches_reads(3)]
  from assms(1)[unfolded write_renamed_def] show ?thesis
  proof (cases rule: op_bind_cases)
    case (1 e1)
    then show ?thesis using change(1)[OF 1(1)] assms(2) by simp
  next
    case (2 u w1)
    then have w1: "entry w1 p = entry w p" using change(1)[OF 2(1)] assms(2) by simp
    from 2(2) show ?thesis
    proof (cases rule: op_bind_cases)
      case (1 e1)
      then show ?thesis using w1 io_Err[OF 1(1)] by simp
    next
      case (2 u w2)
      then have w2: "entry w2 p = entry w p" using w1 pure_Ok[OF 2(1)] by simp
      from 2(2) show ?thesis
      proof (cases rule: op_bind_cases)
        case (1 e1)
        then show ?thesis using w2 io_Err[OF 1(1)] by simp
      next
        case (2 u w3)
        have "entry w3 p = entry w2 p" using change(2)[OF 2(1)] assms(2) by simp
        then show ?thesis using w2 io_Err[OF 2(2)] by simp
      qed
    qed
  qed
qed

text \<open>The replacement is atomic: the target is the new file after a success and what it was after a failure.\<close>

lemma replace_file_Ok:
  assumes "replace_file faults e temporary path content mode w = (Ok u, w')" "temporary \<noteq> path"
  shows "entry w temporary = None \<and> entry w' = (entry w)(path \<mapsto> FileNode content mode)"
proof -
  obtain w1 where w1: "io faults e (create_new temporary []) w = (Ok (), w1)"
    "write_renamed faults e temporary path content mode w1 = (Ok u, w')"
    using assms(1) unfolding replace_file_def op_bind_Ok by (force split: prod.splits sum.splits)
  show ?thesis using new_Ok[OF w1(1)] write_renamed_Ok[OF w1(2) assms(2)] assms(2) by (auto simp: fun_eq_iff)
qed

lemma replace_file_Err:
  assumes "replace_file faults e temporary path content mode w = (Err e', w')" "p \<noteq> temporary"
  shows "entry w' p = entry w p"
  using assms(1)[unfolded replace_file_def]
proof (cases rule: op_bind_cases)
  case (1 e1)
  then show ?thesis using io_Err[OF 1(1)] by simp
next
  case (2 u w1)
  obtain e1 w2 where w2: "write_renamed faults e temporary path content mode w1 = (Err e1, w2)"
    "w' = snd (io faults e (remove_file temporary) w2)"
    using 2(2) by (auto split: prod.splits sum.splits)
  have "touches_only entry {temporary} (io faults e (remove_file temporary))" by (simp add: touches_writes)
  then have "entry w' p = entry w2 p" using assms(2) w2(2) unfolding touches_only_def
    by (cases "io faults e (remove_file temporary) w2") auto
  moreover have "entry w1 p = entry w p" using new_Ok[OF 2(1)] assms(2) by simp
  ultimately show ?thesis using write_renamed_Err[OF w2(1) assms(2)] by simp
qed

end
