(* ===== verification/Backup.thy ===== *)
theory Backup
  imports Integrity Config Host_Files
begin

text \<open>
  The database commands of the worker process: \<open>backup\<close>, \<open>verify\<close> and \<open>restore-rehearsal\<close> of
  \<open>apps/g7mb-worker/src/main.rs\<close> with \<open>backup_to\<close> and \<open>verify_database_file\<close> of
  \<open>crates/g7mb-persistence-sqlite/src/backup.rs\<close>.  The file system is an association list of absolute
  paths, where a new file has mode \<open>0o644\<close>; the \<open>n\<close>-th I/O operation may fail after some bytes.  SQLite's file format, the digest and the JSON
  of the manifest are arguments, and so is the live database at every operation, which other processes
  write meanwhile.
\<close>

section \<open>Files\<close>

type_synonym snapshot = "bool \<times> (nat \<times> bool) list \<times> Database"

record backup_manifest =
  bm_created_at_unix :: int
  bm_snapshot_file :: string
  bm_sha256 :: string
  bm_bytes :: nat
  bm_verification :: DatabaseVerification

record backup_host =
  bh_faults :: "nat \<Rightarrow> nat option"
  bh_cleanup :: "string \<Rightarrow> bool"
  bh_now :: instant
  bh_connect :: bool
  bh_live :: "nat \<Rightarrow> snapshot"
  bh_vacuum :: "snapshot \<Rightarrow> string"
  bh_open :: "string \<Rightarrow> snapshot option"
  bh_migrate :: "snapshot \<Rightarrow> snapshot"
  bh_sha256 :: "string \<Rightarrow> string"
  bh_manifest :: "backup_manifest \<Rightarrow> string"
  bh_temp_dir :: string

section \<open>Snapshots\<close>

definition verify_snapshot :: "snapshot \<Rightarrow> (DatabaseBackupError, DatabaseVerification) result" where
  "verify_snapshot s = (case s of (quick_check, history, db) \<Rightarrow> verify_pool quick_check history db)"

text \<open>\<open>verify_database_file\<close>, its error reported as the context of the caller.\<close>

definition verify_database_file :: "backup_host \<Rightarrow> string \<Rightarrow> string \<Rightarrow> (string, DatabaseVerification) fs_op" where
  "verify_database_file host message path =
     op_bind (op_check (is_absolute path \<and> utf8_valid path) message) (\<lambda>_.
     op_bind (io (bh_faults host) message (read_content path)) (\<lambda>content w.
       case bh_open host content of
         None \<Rightarrow> (Err message, w)
       | Some s \<Rightarrow> (case verify_snapshot s of Inl e \<Rightarrow> Err message | Inr v \<Rightarrow> Ok v, w)))"

definition backup_context :: string where
  "backup_context = ''failed to create verified SQLite snapshot''"

text \<open>\<open>backup_to\<close>: \<open>VACUUM INTO\<close> wants a destination that is not there.\<close>

definition backup_to :: "backup_host \<Rightarrow> string \<Rightarrow> (string, DatabaseVerification) fs_op" where
  "backup_to host destination =
     op_bind (op_check (is_absolute destination \<and> utf8_valid destination) backup_context) (\<lambda>_.
     op_bind (\<lambda>w. case verify_snapshot (bh_live host (fs_ops w)) of
         Inl e \<Rightarrow> (Err backup_context, w) | Inr v \<Rightarrow> (Ok (), w)) (\<lambda>_.
     op_bind (io (bh_faults host) backup_context (\<lambda>nodes. Some ((), nodes))) (\<lambda>_.
     op_bind (\<lambda>w. let bytes = bh_vacuum host (bh_live host (fs_ops w)) in
         io_partial (bh_faults host) backup_context (\<lambda>k nodes. if map_of nodes destination = None then set_content destination (take k bytes) nodes
             else nodes) (create_new destination bytes) w) (\<lambda>_.
     verify_database_file host backup_context destination))))"

definition secure_regular_file :: "backup_host \<Rightarrow> string \<Rightarrow> (string, unit) fs_op" where
  "secure_regular_file host path =
     op_bind (io (bh_faults host) ''failed to inspect generated backup file'' (symlink_metadata path)) (\<lambda>node.
     op_bind (op_check (is_regular node) ''generated backup output is not a regular file'') (\<lambda>_.
     op_bind (io (bh_faults host) ''failed to restrict backup file permissions'' (set_mode path 384)) (\<lambda>_.
     op_bind (io (bh_faults host) ''failed to reopen generated backup file'' (read_content path)) (\<lambda>_.
     io (bh_faults host) ''failed to sync generated backup file'' (\<lambda>nodes. Some ((), nodes))))))"

definition sha256_file :: "backup_host \<Rightarrow> string \<Rightarrow> (string, string) fs_op" where
  "sha256_file host path =
     op_bind (io (bh_faults host) ''failed to open file for SHA-256'' (read_content path)) (\<lambda>content.
     op_bind (io (bh_faults host) ''failed to hash file'' (\<lambda>nodes. Some ((), nodes))) (\<lambda>_.
     op_return (bh_sha256 host content)))"

definition write_create_new :: "backup_host \<Rightarrow> string \<Rightarrow> string \<Rightarrow> (string, unit) fs_op" where
  "write_create_new host path content =
     op_bind (io (bh_faults host) ''failed to create backup manifest'' (create_new path [])) (\<lambda>_.
     op_bind (io_partial (bh_faults host) ''failed to write backup manifest'' (\<lambda>k nodes. set_content path (take k content) nodes)
         (\<lambda>nodes. Some ((), set_content path content nodes))) (\<lambda>_.
     op_bind (io (bh_faults host) ''failed to sync backup manifest'' (\<lambda>nodes. Some ((), nodes))) (\<lambda>_.
     secure_regular_file host path)))"

definition copy_create_new :: "backup_host \<Rightarrow> string \<Rightarrow> string \<Rightarrow> (string, unit) fs_op" where
  "copy_create_new host source target =
     op_bind (io (bh_faults host) ''failed to open restore source'' (read_content source)) (\<lambda>content.
     op_bind (io (bh_faults host) ''failed to create restore candidate'' (create_new target [])) (\<lambda>_.
     op_bind (io_partial (bh_faults host) ''failed to copy restore candidate'' (\<lambda>k nodes. set_content target (take k content) nodes)
         (\<lambda>nodes. Some ((), set_content target content nodes))) (\<lambda>_.
     io (bh_faults host) ''failed to sync restore candidate'' (\<lambda>nodes. Some ((), nodes)))))"

section \<open>Retention\<close>

text \<open>The names in a directory.\<close>

definition children :: "string \<Rightarrow> (string \<times> node) list \<Rightarrow> string list" where
  "children directory nodes =
     map (drop (length (path_join directory [])))
       (filter (\<lambda>p. starts_with (path_join directory []) p \<and> CHR ''/'' \<notin> set (drop (length (path_join directory [])) p) \<and>
            drop (length (path_join directory [])) p \<noteq> [])
         (remdups (map fst nodes)))"

definition ends_with :: "string \<Rightarrow> string \<Rightarrow> bool" where
  "ends_with s v \<longleftrightarrow> length s \<le> length v \<and> drop (length v - length s) v = s"

definition snapshot_name :: "string \<Rightarrow> bool" where
  "snapshot_name name \<longleftrightarrow> utf8_valid name \<and> starts_with ''g7mb-'' name \<and> ends_with ''.db'' name"

fun snapshot_entries :: "backup_host \<Rightarrow> string \<Rightarrow> string list \<Rightarrow> (string, string list) fs_op" where
  "snapshot_entries host directory [] =
     op_bind (io (bh_faults host) ''failed to read backup retention entry'' (\<lambda>nodes. Some ((), nodes))) (\<lambda>_. op_return [])"
| "snapshot_entries host directory (name # names) =
     op_bind (io (bh_faults host) ''failed to read backup retention entry'' (\<lambda>nodes. Some ((), nodes))) (\<lambda>_.
     if \<not> snapshot_name name then snapshot_entries host directory names
     else op_bind (io (bh_faults host) ''failed to inspect backup retention entry'' (symlink_metadata (path_join directory name))) (\<lambda>node.
       op_bind (snapshot_entries host directory names) (\<lambda>rest.
       op_return (if is_regular node then name # rest else rest))))"

text \<open>\<open>with_extension("db.manifest.json")\<close> of a snapshot's name.\<close>

definition manifest_name :: "string \<Rightarrow> string" where
  "manifest_name name = name @ ''.manifest.json''"

fun remove_expired :: "backup_host \<Rightarrow> string \<Rightarrow> string list \<Rightarrow> (string, unit) fs_op" where
  "remove_expired host directory [] = op_return ()"
| "remove_expired host directory (name # names) =
     op_bind (io (bh_faults host) ''failed to remove expired local snapshot'' (remove_file (path_join directory name))) (\<lambda>_.
     op_bind (io (bh_faults host) ''failed to remove expired backup manifest'' (\<lambda>nodes.
         if map_of nodes (path_join directory (manifest_name name)) = None then Some ((), nodes)
         else remove_file (path_join directory (manifest_name name)) nodes)) (\<lambda>_.
     remove_expired host directory names))"

definition rotate_backups :: "backup_host \<Rightarrow> string \<Rightarrow> nat \<Rightarrow> (string, unit) fs_op" where
  "rotate_backups host directory retain =
     op_bind (io (bh_faults host) ''failed to enumerate backup retention directory'' (\<lambda>nodes. Some (children directory nodes, nodes))) (\<lambda>names.
     op_bind (snapshot_entries host directory names) (\<lambda>snapshots.
     remove_expired host directory (take (length snapshots - retain) (sort snapshots))))"

section \<open>The commands\<close>

text \<open>The files of one backup.\<close>

definition backup_stem :: "backup_host \<Rightarrow> string" where
  "backup_stem host = ''g7mb-'' @ show_int (bh_now host) @ ''.db''"

definition backup_paths :: "backup_host \<Rightarrow> string \<Rightarrow> string \<times> string \<times> string \<times> string" where
  "backup_paths host directory =
     (let stem = backup_stem host in
      (path_join directory stem, path_join directory (stem @ ''.partial''),
       path_join directory (manifest_name stem), path_join directory (manifest_name stem @ ''.partial'')))"

definition publish_snapshot :: "backup_host \<Rightarrow> string \<Rightarrow> (string, DatabaseVerification \<times> string \<times> nat) fs_op" where
  "publish_snapshot host directory =
     (case backup_paths host directory of (snapshot, partial_snapshot, manifest, partial_manifest) \<Rightarrow>
      op_bind (backup_to host partial_snapshot) (\<lambda>verification.
      op_bind (secure_regular_file host partial_snapshot) (\<lambda>_.
      op_bind (sha256_file host partial_snapshot) (\<lambda>sha256.
      op_bind (io (bh_faults host) ''failed to inspect snapshot'' (read_content partial_snapshot)) (\<lambda>content.
      let bytes = length content in
      op_bind (write_create_new host partial_manifest (bh_manifest host
          \<lparr>bm_created_at_unix = unix_timestamp (bh_now host), bm_snapshot_file = backup_stem host, bm_sha256 = sha256,
           bm_bytes = bytes, bm_verification = verification\<rparr>)) (\<lambda>_.
      op_bind (io (bh_faults host) ''failed to publish create-new backup snapshot'' (hard_link partial_snapshot snapshot)) (\<lambda>_.
      op_bind (io (bh_faults host) ''failed to publish create-new backup manifest'' (hard_link partial_manifest manifest)) (\<lambda>_.
      op_bind (io (bh_faults host) ''failed to remove partial snapshot'' (remove_file partial_snapshot)) (\<lambda>_.
      op_bind (io (bh_faults host) ''failed to remove partial manifest'' (remove_file partial_manifest)) (\<lambda>_.
      op_return (verification, sha256, bytes)))))))))))"

definition remove_if_present :: "backup_host \<Rightarrow> string \<Rightarrow> host_fs \<Rightarrow> host_fs" where
  "remove_if_present host path w =
     (case remove_file path (fs_nodes w) of
        None \<Rightarrow> w | Some (_, nodes) \<Rightarrow> if bh_cleanup host path then w\<lparr>fs_nodes := nodes\<rparr> else w)"

text \<open>The \<open>match finalized\<close> of the backup: clean up after an error, rotate after a success.\<close>

definition finalize_backup :: "backup_host \<Rightarrow> string \<Rightarrow> nat \<Rightarrow> (string, unit) fs_op" where
  "finalize_backup host directory retain w =
     (case publish_snapshot host directory w of
        (Inl e, w1) \<Rightarrow>
          (case backup_paths host directory of (snapshot, partial_snapshot, manifest, partial_manifest) \<Rightarrow>
             (Err e, remove_if_present host manifest (remove_if_present host snapshot
                (remove_if_present host partial_manifest (remove_if_present host partial_snapshot w1)))))
      | (Inr _, w1) \<Rightarrow> rotate_backups host directory retain w1)"

definition database_backup :: "backup_host \<Rightarrow> string \<Rightarrow> nat \<Rightarrow> (string, unit) fs_op" where
  "database_backup host directory retain =
     op_bind (io (bh_faults host) ''failed to create backup directory'' (create_dir_all directory)) (\<lambda>_.
     op_bind (io (bh_faults host) ''failed to inspect backup directory'' (symlink_metadata directory)) (\<lambda>node.
     op_bind (op_check (node = DirNode) ''backup directory must be a real directory, not a symlink'') (\<lambda>_.
     op_bind (op_check (bh_connect host) ''failed to initialize SQLite'') (\<lambda>_.
     finalize_backup host directory retain))))"

definition validate_snapshot_input :: "backup_host \<Rightarrow> string \<Rightarrow> string \<Rightarrow> (string, unit) fs_op" where
  "validate_snapshot_input host input expected_sha256 =
     op_bind (op_check (is_absolute input \<and> length expected_sha256 = 64 \<and> list_all is_lower_hex expected_sha256)
         ''snapshot path or expected SHA-256 is invalid'') (\<lambda>_.
     op_bind (io (bh_faults host) ''failed to inspect snapshot'' (symlink_metadata input)) (\<lambda>node.
     op_bind (op_check (case node of FileNode c m \<Rightarrow> c \<noteq> [] | _ \<Rightarrow> False)
         ''snapshot must be a non-empty regular file, not a symlink'') (\<lambda>_.
     op_bind (sha256_file host input) (\<lambda>actual.
     op_check (actual = expected_sha256) ''snapshot SHA-256 does not match the expected manifest value''))))"

definition database_verify :: "backup_host \<Rightarrow> string \<Rightarrow> string \<Rightarrow> (string, DatabaseVerification) fs_op" where
  "database_verify host input expected_sha256 =
     op_bind (validate_snapshot_input host input expected_sha256) (\<lambda>_.
     verify_database_file host ''database snapshot verification failed'' input)"

text \<open>Opening the candidate writable migrates it; the canary transaction is rolled back; the temporary
  directory is removed in the end.\<close>

definition database_restore_rehearsal :: "backup_host \<Rightarrow> string \<Rightarrow> string \<Rightarrow> (string, unit) fs_op" where
  "database_restore_rehearsal host input expected_sha256 =
     op_bind (validate_snapshot_input host input expected_sha256) (\<lambda>_.
     op_bind (verify_database_file host ''restore source verification failed'' input) (\<lambda>expected.
     op_bind (io (bh_faults host) ''failed to create restore rehearsal directory'' (create_dir_all (bh_temp_dir host))) (\<lambda>_.
     let candidate = path_join (bh_temp_dir host) ''restored.db'' in
     (\<lambda>w. case op_bind (copy_create_new host input candidate) (\<lambda>_.
            op_bind (io (bh_faults host) ''failed to open restored candidate writable'' (read_content candidate)) (\<lambda>content.
            op_bind (io (bh_faults host) ''failed to rehearse a transaction'' (\<lambda>nodes. Some ((), nodes))) (\<lambda>_ w1.
            case bh_open host content of
              None \<Rightarrow> (Err ''failed to open restored candidate writable'', w1)
            | Some s \<Rightarrow>
                (case verify_snapshot (bh_migrate host s) of
                   Inl e \<Rightarrow> (Err ''restored candidate verification failed'', w1)
                 | Inr actual \<Rightarrow>
                     (if actual = expected then Ok () else Err ''restored candidate counts differ from the verified snapshot'',
                      w1))))) w of
        (r, w2) \<Rightarrow> (r, w2\<lparr>fs_nodes := AList.delete (bh_temp_dir host) (AList.delete candidate (fs_nodes w2))\<rparr>)))))"

lemma touches_verify: "touches_only entry K (verify_database_file host message path)"
proof -
  have "touches_only entry K (\<lambda>w. case bh_open host content of
         None \<Rightarrow> (Err message, w)
       | Some s \<Rightarrow> (case verify_snapshot s of Inl e \<Rightarrow> Err message | Inr v \<Rightarrow> Ok v, w))" for content
    by (auto simp: touches_only_def split: option.splits)
  then show ?thesis unfolding verify_database_file_def by (intro touches_only_bind) auto
qed

lemma touches_secure: "path \<in> K \<Longrightarrow> touches_only entry K (secure_regular_file host path)"
  unfolding secure_regular_file_def by (intro touches_only_bind) (auto intro: touches_writes)

lemma touches_sha: "touches_only entry K (sha256_file host path)"
  unfolding sha256_file_def by (intro touches_only_bind) auto

lemma touches_create: "path \<in> K \<Longrightarrow> touches_only entry K (write_create_new host path c)"
  unfolding write_create_new_def by (intro touches_only_bind) (auto intro: touches_writes touches_set touches_secure)

lemma touches_backup_to: "path \<in> K \<Longrightarrow> touches_only entry K (backup_to host path)"
  unfolding backup_to_def
proof (intro touches_only_bind)
  assume path: "path \<in> K"
  show "touches_only entry K (\<lambda>w. case verify_snapshot (bh_live host (fs_ops w)) of
      Inl e \<Rightarrow> (Err backup_context, w) | Inr v \<Rightarrow> (Ok (), w))"
    by (auto simp: touches_only_def split: sum.splits)
  have "touches_only entry K (io_partial (bh_faults host) backup_context
      (\<lambda>k nodes. if map_of nodes path = None then set_content path (take k bytes) nodes else nodes) (create_new path bytes))" for bytes
    using path by (intro touches_io_partial) (auto simp: node_acts update_conv' split: if_splits)
  then show "touches_only entry K (\<lambda>w. let bytes = bh_vacuum host (bh_live host (fs_ops w)) in
         io_partial (bh_faults host) backup_context (\<lambda>k nodes. if map_of nodes path = None then set_content path (take k bytes) nodes
             else nodes) (create_new path bytes) w)"
    unfolding touches_only_def Let_def by blast
qed (auto intro: touches_verify)

definition backup_files :: "backup_host \<Rightarrow> string \<Rightarrow> string set" where
  "backup_files host directory =
     (case backup_paths host directory of (snapshot, partial_snapshot, manifest, partial_manifest) \<Rightarrow>
        {snapshot, partial_snapshot, manifest, partial_manifest})"

lemma touches_publish: "touches_only entry (backup_files host directory) (publish_snapshot host directory)"
  unfolding publish_snapshot_def backup_files_def
  by (auto simp: Let_def split: prod.split
      intro!: touches_only_bind touches_backup_to touches_secure touches_sha touches_create touches_writes)

section \<open>What a published backup is\<close>

lemma verify_file_Ok:
  assumes "verify_database_file host message path w = (Ok v, w')"
  shows "\<exists>c m s. entry w path = Some (FileNode c m) \<and> bh_open host c = Some s \<and> verify_snapshot s = Ok v \<and> entry w' = entry w"
proof -
  obtain c w1 where read: "io (bh_faults host) message (read_content path) w = (Ok c, w1)"
    and opened: "(case bh_open host c of None \<Rightarrow> (Err message, w1)
       | Some s \<Rightarrow> (case verify_snapshot s of Inl e \<Rightarrow> Err message | Inr v \<Rightarrow> Ok v, w1)) = (Ok v, w')"
    using assms by (auto simp: verify_database_file_def op_bind_Ok)
  from opened obtain s where "bh_open host c = Some s" "verify_snapshot s = Ok v" "w' = w1"
    by (auto split: option.splits sum.splits)
  then show ?thesis using read_Ok[OF read] by (metis option.inject)
qed

lemma backup_to_Ok:
  assumes "backup_to host path w = (Ok v, w')"
  shows "entry w path = None \<and> (\<exists>c s n. bh_open host c = Some s \<and> verify_snapshot s = Ok v \<and>
    c = bh_vacuum host (bh_live host n) \<and> entry w' = (entry w)(path \<mapsto> FileNode c 420))"
proof -
  obtain w1 w2 where prepared: "io (bh_faults host) backup_context (\<lambda>nodes. Some ((), nodes)) w = (Ok (), w1)"
    and written: "io_partial (bh_faults host) backup_context (\<lambda>k nodes. if map_of nodes path = None
        then set_content path (take k (bh_vacuum host (bh_live host (fs_ops w1)))) nodes else nodes)
        (create_new path (bh_vacuum host (bh_live host (fs_ops w1)))) w1 = (Ok (), w2)"
    and verified: "verify_database_file host backup_context path w2 = (Ok v, w')"
    using assms by (auto simp: backup_to_def op_bind_Ok Let_def split: sum.splits)
  have "entry w1 path = None \<and> entry w2 = (entry w1)(path \<mapsto> FileNode (bh_vacuum host (bh_live host (fs_ops w1))) 420)"
    using written by (auto simp: succeeding fun_eq_iff split: if_splits)
  then have written: "entry w path = None" "entry w2 = (entry w)(path \<mapsto> FileNode (bh_vacuum host (bh_live host (fs_ops w1))) 420)"
    using pure_Ok[OF prepared] by auto
  obtain c m s where opened: "entry w2 path = Some (FileNode c m)" "bh_open host c = Some s" "verify_snapshot s = Ok v"
    "entry w' = entry w2" using verify_file_Ok[OF verified] by blast
  have "c = bh_vacuum host (bh_live host (fs_ops w1))" using opened(1) written(2) by simp
  then show ?thesis using opened written by metis
qed

lemma secure_Ok:
  assumes "secure_regular_file host path w = (Ok u, w')"
  shows "\<exists>c m. entry w path = Some (FileNode c m) \<and> entry w' = (entry w)(path \<mapsto> FileNode c 384)"
proof -
  obtain node c w1 w2 w3 where steps: "io (bh_faults host) ''failed to inspect generated backup file'' (symlink_metadata path) w = (Ok node, w1)"
    "io (bh_faults host) ''failed to restrict backup file permissions'' (set_mode path 384) w1 = (Ok (), w2)"
    "io (bh_faults host) ''failed to reopen generated backup file'' (read_content path) w2 = (Ok c, w3)"
    "io (bh_faults host) ''failed to sync generated backup file'' (\<lambda>nodes. Some ((), nodes)) w3 = (Ok u, w')"
    using assms by (auto simp: secure_regular_file_def op_bind_Ok)
  show ?thesis using meta_Ok[OF steps(1)] mode_Ok[OF steps(2)] read_Ok[OF steps(3)] pure_Ok[OF steps(4)] by auto
qed

lemma sha_Ok:
  assumes "sha256_file host path w = (Ok digest, w')"
  shows "\<exists>c m. entry w path = Some (FileNode c m) \<and> digest = bh_sha256 host c \<and> entry w' = entry w"
proof -
  obtain c w1 where steps: "io (bh_faults host) ''failed to open file for SHA-256'' (read_content path) w = (Ok c, w1)"
    "io (bh_faults host) ''failed to hash file'' (\<lambda>nodes. Some ((), nodes)) w1 = (Ok (), w')" "digest = bh_sha256 host c"
    using assms by (auto simp: sha256_file_def op_bind_Ok)
  show ?thesis using read_Ok[OF steps(1)] pure_Ok[OF steps(2)] steps(3) by auto
qed

lemma create_Ok:
  assumes "write_create_new host path c w = (Ok u, w')"
  shows "entry w path = None \<and> entry w' = (entry w)(path \<mapsto> FileNode c 384)"
proof -
  obtain w1 w2 w3 where steps: "io (bh_faults host) ''failed to create backup manifest'' (create_new path []) w = (Ok (), w1)"
    "io_partial (bh_faults host) ''failed to write backup manifest'' (\<lambda>k nodes. set_content path (take k c) nodes)
         (\<lambda>nodes. Some ((), set_content path c nodes)) w1 = (Ok (), w2)"
    "io (bh_faults host) ''failed to sync backup manifest'' (\<lambda>nodes. Some ((), nodes)) w2 = (Ok (), w3)"
    "secure_regular_file host path w3 = (Ok u, w')"
    using assms by (auto simp: write_create_new_def op_bind_Ok)
  show ?thesis using new_Ok[OF steps(1)] set_Ok[OF steps(2)] pure_Ok[OF steps(3)] secure_Ok[OF steps(4)] by auto
qed

lemma backup_paths_distinct:
  assumes "backup_paths host directory = (snapshot, partial_snapshot, manifest, partial_manifest)"
  shows "distinct [snapshot, partial_snapshot, manifest, partial_manifest]"
  using assms unfolding backup_paths_def Let_def manifest_name_def
  by (subst (asm) (1 2 3 4) path_join_base) auto

definition manifest_of :: "backup_host \<Rightarrow> string \<Rightarrow> DatabaseVerification \<Rightarrow> backup_manifest" where
  "manifest_of host content verification =
     \<lparr>bm_created_at_unix = unix_timestamp (bh_now host), bm_snapshot_file = backup_stem host,
      bm_sha256 = bh_sha256 host content, bm_bytes = length content, bm_verification = verification\<rparr>"

lemma publish_snapshot_Ok:
  assumes "publish_snapshot host directory w = (Ok answer, w')"
    and "backup_paths host directory = (snapshot, partial_snapshot, manifest, partial_manifest)"
  shows "entry w snapshot = None \<and> entry w manifest = None \<and>
    (\<exists>c s n v. c = bh_vacuum host (bh_live host n) \<and> bh_open host c = Some s \<and> verify_snapshot s = Ok v \<and>
       answer = (v, bh_sha256 host c, length c) \<and> entry w' = (entry w)(snapshot \<mapsto> FileNode c 384, manifest \<mapsto> FileNode (bh_manifest host (manifest_of host c v)) 384,
         partial_snapshot := None, partial_manifest := None))"
proof -
  from assms obtain v digest content w1 w2 w3 w4 w5 w6 w7 w8 where steps:
    "backup_to host partial_snapshot w = (Ok v, w1)" "secure_regular_file host partial_snapshot w1 = (Ok (), w2)"
    "sha256_file host partial_snapshot w2 = (Ok digest, w3)"
    "io (bh_faults host) ''failed to inspect snapshot'' (read_content partial_snapshot) w3 = (Ok content, w4)"
    "write_create_new host partial_manifest (bh_manifest host
          \<lparr>bm_created_at_unix = unix_timestamp (bh_now host), bm_snapshot_file = backup_stem host, bm_sha256 = digest,
           bm_bytes = length content, bm_verification = v\<rparr>) w4 = (Ok (), w5)"
    "io (bh_faults host) ''failed to publish create-new backup snapshot'' (hard_link partial_snapshot snapshot) w5 = (Ok (), w6)"
    "io (bh_faults host) ''failed to publish create-new backup manifest'' (hard_link partial_manifest manifest) w6 = (Ok (), w7)"
    "io (bh_faults host) ''failed to remove partial snapshot'' (remove_file partial_snapshot) w7 = (Ok (), w8)"
    "io (bh_faults host) ''failed to remove partial manifest'' (remove_file partial_manifest) w8 = (Ok (), w')" "answer = (v, digest, length content)"
    by (auto simp: publish_snapshot_def Let_def op_bind_Ok)
  note distinct = backup_paths_distinct[OF assms(2)]
  from backup_to_Ok[OF steps(1)] obtain c s n where c: "bh_open host c = Some s" "verify_snapshot s = Ok v"
    "c = bh_vacuum host (bh_live host n)" "entry w1 = (entry w)(partial_snapshot \<mapsto> FileNode c 420)" by blast
  have w2: "entry w2 = (entry w)(partial_snapshot \<mapsto> FileNode c 384)" using secure_Ok[OF steps(2)] c(4) by auto
  have w3: "digest = bh_sha256 host c" "entry w3 = entry w2" using sha_Ok[OF steps(3)] w2 by auto
  have w4: "content = c" "entry w4 = entry w2" using read_Ok[OF steps(4)] w2 w3 by auto
  have w5: "entry w5 = (entry w)(partial_snapshot \<mapsto> FileNode c 384,
      partial_manifest \<mapsto> FileNode (bh_manifest host (manifest_of host c v)) 384)"
    using create_Ok[OF steps(5)] w2 w3 w4 by (simp add: manifest_of_def)
  have w6: "entry w snapshot = None" "entry w6 = (entry w5)(snapshot \<mapsto> FileNode c 384)"
    using link_Ok[OF steps(6)] w5 distinct by auto
  have w7: "entry w manifest = None"
    "entry w7 = (entry w6)(manifest \<mapsto> FileNode (bh_manifest host (manifest_of host c v)) 384)"
    using link_Ok[OF steps(7)] w5 w6 distinct by auto
  have "entry w' = (entry w)(snapshot \<mapsto> FileNode c 384,
      manifest \<mapsto> FileNode (bh_manifest host (manifest_of host c v)) 384, partial_snapshot := None, partial_manifest := None)"
    using remove_Ok[OF steps(8)] remove_Ok[OF steps(9)] w5 w6 w7 distinct by (auto simp: fun_eq_iff)
  then show ?thesis using c w6(1) w7(1) w3(1) w4(1) steps(10) by blast
qed

end
