(* ===== verification/Backup_Contracts.thy ===== *)
theory Backup_Contracts
  imports Backup
begin

text \<open>
  What the database commands of \<open>Backup\<close> guarantee.  Rotation touches the oldest snapshots beyond the
  retention count and their manifests only; a backup that fails before its files are published leaves
  none of them; one that succeeds is among the snapshots that are kept; and a published snapshot of a
  healthy database passes \<open>verify\<close> and \<open>restore-rehearsal\<close> with the digest of its manifest.
\<close>

section \<open>What rotation removes\<close>

text \<open>The snapshots of a directory, oldest name first, and the two files of one.\<close>

definition snapshots_of :: "string \<Rightarrow> host_fs \<Rightarrow> string list" where
  "snapshots_of directory w =
     sort (filter (\<lambda>name. snapshot_name name \<and> (\<exists>n\<in>set_option (entry w (path_join directory name)). is_regular n))
       (children directory (fs_nodes w)))"

definition expired_snapshots :: "string \<Rightarrow> nat \<Rightarrow> host_fs \<Rightarrow> string list" where
  "expired_snapshots directory retain w =
     take (length (snapshots_of directory w) - retain) (snapshots_of directory w)"

definition files_of_snapshot :: "string \<Rightarrow> string \<Rightarrow> string set" where
  "files_of_snapshot directory name = {path_join directory name, path_join directory (manifest_name name)}"

lemma children_set:
  "set (children directory (fs_nodes w)) = {n. n \<noteq> [] \<and> CHR ''/'' \<notin> set n \<and> entry w (path_join directory n) \<noteq> None}"
proof (intro set_eqI iffI)
  fix n assume "n \<in> set (children directory (fs_nodes w))"
  then obtain p where p: "p \<in> set (map fst (fs_nodes w))" "starts_with (path_join directory []) p"
    "CHR ''/'' \<notin> set n" "n \<noteq> []" "n = drop (length (path_join directory [])) p"
    unfolding children_def by auto
  have "path_join directory [] @ n = p" using starts_with_split[OF p(2)] p(5) by simp
  then have "p = path_join directory n" using path_join_base[of directory n] by metis
  then have "entry w (path_join directory n) \<noteq> None" using p(1) by (simp add: entry_def map_of_eq_None_iff)
  then show "n \<in> {n. n \<noteq> [] \<and> CHR ''/'' \<notin> set n \<and> entry w (path_join directory n) \<noteq> None}" using p by simp
next
  fix n assume "n \<in> {n. n \<noteq> [] \<and> CHR ''/'' \<notin> set n \<and> entry w (path_join directory n) \<noteq> None}"
  then have n: "n \<noteq> []" "CHR ''/'' \<notin> set n" "path_join directory [] @ n \<in> set (map fst (fs_nodes w))"
    by (auto simp: entry_def map_of_eq_None_iff path_join_base[of directory n])
  then have "drop (length (path_join directory [])) (path_join directory [] @ n) \<in> set (children directory (fs_nodes w))"
    unfolding children_def set_map by (intro imageI) simp
  then show "n \<in> set (children directory (fs_nodes w))" by simp
qed

lemma children_distinct: "distinct (children directory nodes)"
  unfolding children_def
  by (auto simp: distinct_map intro!: inj_onI) (metis starts_with_split)

lemma snapshots_set:
  "set (snapshots_of directory w) =
     {n. n \<noteq> [] \<and> CHR ''/'' \<notin> set n \<and> snapshot_name n \<and> (\<exists>f. entry w (path_join directory n) = Some f \<and> is_regular f)}"
  by (auto simp: snapshots_of_def children_set elem_set)

lemma snapshots_distinct: "distinct (snapshots_of directory w)" "sorted (snapshots_of directory w)"
  by (simp_all add: snapshots_of_def children_distinct)

lemma manifest_not_snapshot: "\<not> snapshot_name (manifest_name n)"
proof
  assume "snapshot_name (manifest_name n)"
  then have "drop (length (manifest_name n) - length ''.db'') (manifest_name n) = ''.db''"
    by (simp add: snapshot_name_def ends_with_def)
  moreover have "drop (length (manifest_name n) - length ''.db'') (manifest_name n) = ''son''" if "False" using that by simp
  ultimately show False by (simp add: manifest_name_def)
qed

lemma entries_Ok:
  "snapshot_entries host directory names w = (Ok xs, w') \<Longrightarrow> entry w' = entry w \<and>
     xs = filter (\<lambda>name. snapshot_name name \<and> (\<exists>n\<in>set_option (entry w (path_join directory name)). is_regular n)) names"
proof (induction names arbitrary: w xs)
  case Nil
  then show ?case by (auto simp: op_bind_Ok dest: pure_Ok)
next
  case (Cons name names)
  from Cons.prems obtain w1 where first: "entry w1 = entry w"
    and rest: "(if \<not> snapshot_name name then snapshot_entries host directory names
     else op_bind (io (bh_faults host) ''failed to inspect backup retention entry'' (symlink_metadata (path_join directory name))) (\<lambda>node.
       op_bind (snapshot_entries host directory names) (\<lambda>rest.
       op_return (if is_regular node then name # rest else rest)))) w1 = (Ok xs, w')"
    by (auto simp: op_bind_Ok dest!: pure_Ok)
  show ?case
  proof (cases "snapshot_name name")
    case False
    then have "snapshot_entries host directory names w1 = (Ok xs, w')" using rest by simp
    from Cons.IH[OF this] show ?thesis using first False by simp
  next
    case True
    with rest obtain node w2 rest' where "io (bh_faults host) ''failed to inspect backup retention entry'' (symlink_metadata (path_join directory name)) w1 = (Ok node, w2)"
      and tail: "snapshot_entries host directory names w2 = (Ok rest', w')" "xs = (if is_regular node then name # rest' else rest')"
      by (auto simp: op_bind_Ok)
    then have "entry w1 (path_join directory name) = Some node" "entry w2 = entry w1" by (auto dest: meta_Ok)
    then show ?thesis using Cons.IH[OF tail(1)] tail(2) first True by auto
  qed
qed

lemma touches_entries: "touches_only entry {} (snapshot_entries host directory names)"
  by (induction names) (auto intro!: touches_only_bind)

lemma touches_expired:
  "touches_only entry (\<Union>n\<in>set names. files_of_snapshot directory n) (remove_expired host directory names)"
proof (induction names)
  case (Cons name names)
  have manifest: "touches_only entry (\<Union>n\<in>set (name # names). files_of_snapshot directory n)
      (io (bh_faults host) ''failed to remove expired backup manifest'' (\<lambda>nodes.
         if map_of nodes (path_join directory (manifest_name name)) = None then Some ((), nodes)
         else remove_file (path_join directory (manifest_name name)) nodes))"
    by (rule touches_io) (auto simp: node_acts delete_conv' files_of_snapshot_def split: if_splits option.splits node.splits)
  have rest: "touches_only entry (\<Union>n\<in>set (name # names). files_of_snapshot directory n) (remove_expired host directory names)"
    by (rule touches_only_mono[OF Cons.IH]) auto
  show ?case unfolding remove_expired.simps
    by (intro touches_only_bind manifest rest touches_writes) (auto simp: files_of_snapshot_def)
qed simp

text \<open>A file that is gone stays gone.\<close>

lemma keeps_absent_expired: "keeps entry (\<lambda>p e. e = None) (remove_expired host directory names)"
proof (induction names)
  case (Cons name names)
  show ?case unfolding remove_expired.simps
    by (intro keeps_bind keeps_io Cons.IH) (auto simp: node_acts delete_conv' split: option.splits node.splits if_splits)
qed simp

lemma expired_Ok:
  "remove_expired host directory names w = (Ok u, w') \<Longrightarrow> n \<in> set names \<Longrightarrow> entry w' (path_join directory n) = None"
proof (induction names arbitrary: w)
  case (Cons name names)
  from Cons.prems(1) obtain w1 w2 where steps: "io (bh_faults host) ''failed to remove expired local snapshot'' (remove_file (path_join directory name)) w = (Ok (), w1)"
    "io (bh_faults host) ''failed to remove expired backup manifest'' (\<lambda>nodes.
         if map_of nodes (path_join directory (manifest_name name)) = None then Some ((), nodes)
         else remove_file (path_join directory (manifest_name name)) nodes) w1 = (Ok (), w2)"
    "remove_expired host directory names w2 = (Ok u, w')"
    by (auto simp: op_bind_Ok)
  have "entry w1 (path_join directory name) = None" using remove_Ok[OF steps(1)] by simp
  then have "entry w2 (path_join directory name) = None"
    using steps(2) by (auto simp: succeeding split: if_splits option.splits node.splits)
  then have "entry w' (path_join directory name) = None"
    using keepsD[OF keeps_absent_expired steps(3)] by simp
  then show ?case using Cons.IH[OF steps(3)] Cons.prems(2) by auto
qed simp

text \<open>Whatever rotation answers, it touches expired snapshots and their manifests only; when it succeeds
  the newest \<open>retain\<close> snapshots are left.\<close>

lemma rotation_steps:
  assumes "rotate_backups host directory retain w = (r, w')"
  shows "(entry w' = entry w \<and> (\<exists>e. r = Err e)) \<or> (\<exists>w1. entry w1 = entry w \<and>
    remove_expired host directory (expired_snapshots directory retain w) w1 = (r, w'))"
proof (cases "io (bh_faults host) ''failed to enumerate backup retention directory''
    (\<lambda>nodes. Some (children directory nodes, nodes)) w")
  case (Pair r1 w1)
  have same: "entry w1 = entry w" using touches_onlyD[OF touches_reads(3) Pair] by blast
  show ?thesis
  proof (cases r1)
    case (Inl e)
    then have "rotate_backups host directory retain w = (Err e, w1)"
      using Pair by (simp add: rotate_backups_def op_bind_def)
    then show ?thesis using assms same by auto
  next
    case (Inr names)
    have names: "names = children directory (fs_nodes w)" using pure_Ok[OF Pair[unfolded Inr]] by simp
    obtain r2 w2 where entries: "snapshot_entries host directory names w1 = (r2, w2)" by fastforce
    have same2: "entry w2 = entry w" using touches_onlyD[OF touches_entries entries] same by auto
    show ?thesis
    proof (cases r2)
      case (Inl e)
      then have "rotate_backups host directory retain w = (Err e, w2)"
        using Pair \<open>r1 = Inr names\<close> entries by (simp add: rotate_backups_def op_bind_def)
      then show ?thesis using assms same2 by auto
    next
      case (Inr xs)
      then have "sort xs = snapshots_of directory w" "length xs = length (snapshots_of directory w)"
        using entries_Ok[of host directory names w1 xs w2] entries names same by (simp_all add: snapshots_of_def)
      then have "remove_expired host directory (expired_snapshots directory retain w) w2 = (r, w')"
        using assms Pair \<open>r1 = Inr names\<close> entries Inr by (simp add: rotate_backups_def op_bind_def expired_snapshots_def)
      then show ?thesis using same2 by blast
    qed
  qed
qed

lemma rotation_touches:
  assumes "rotate_backups host directory retain w = (r, w')"
    and "p \<notin> (\<Union>n\<in>set (expired_snapshots directory retain w). files_of_snapshot directory n)"
  shows "entry w' p = entry w p"
  using rotation_steps[OF assms(1)] touches_onlyD[OF touches_expired _ assms(2)] by metis

lemma rotation_never_creates:
  assumes "rotate_backups host directory retain w = (r, w')" "entry w p = None"
  shows "entry w' p = None"
  using rotation_steps[OF assms(1)] keepsD[OF keeps_absent_expired] assms(2) by metis

lemma kept_snapshot_not_expired:
  assumes "name \<in> set (drop (length (snapshots_of directory w) - retain) (snapshots_of directory w))"
  shows "path_join directory name \<notin> (\<Union>n\<in>set (expired_snapshots directory retain w). files_of_snapshot directory n)"
    and "path_join directory (manifest_name name) \<notin> (\<Union>n\<in>set (expired_snapshots directory retain w). files_of_snapshot directory n)"
proof -
  have kept: "name \<notin> set (expired_snapshots directory retain w)"
    using assms set_take_disj_set_drop_if_distinct[OF snapshots_distinct(1) order_refl]
    by (auto simp: expired_snapshots_def)
  have "name \<in> set (snapshots_of directory w)" using assms by (meson in_set_dropD)
  then have name: "snapshot_name name" by (simp add: snapshots_set)
  have expired: "snapshot_name n" if "n \<in> set (expired_snapshots directory retain w)" for n
    using in_set_takeD[of n] that snapshots_set[of directory w] unfolding expired_snapshots_def by blast
  show "path_join directory name \<notin> (\<Union>n\<in>set (expired_snapshots directory retain w). files_of_snapshot directory n)"
    using kept name manifest_not_snapshot by (auto simp: files_of_snapshot_def)
  show "path_join directory (manifest_name name) \<notin> (\<Union>n\<in>set (expired_snapshots directory retain w). files_of_snapshot directory n)"
    using kept expired manifest_not_snapshot by (auto simp: files_of_snapshot_def manifest_name_def)
qed

lemma rotation_leaves:
  assumes "rotate_backups host directory retain w = (Ok u, w')"
  shows "snapshots_of directory w' = drop (length (snapshots_of directory w) - retain) (snapshots_of directory w)"
proof -
  define d where "d = length (snapshots_of directory w) - retain"
  let ?S = "snapshots_of directory w"
  obtain w1 where w1: "entry w1 = entry w" "remove_expired host directory (expired_snapshots directory retain w) w1 = (Ok u, w')"
    using rotation_steps[OF assms] by auto
  have gone: "entry w' (path_join directory n) = None" if "n \<in> set (take d ?S)" for n
    using expired_Ok[OF w1(2)] that by (simp add: expired_snapshots_def d_def)
  have kept: "entry w' (path_join directory n) = entry w (path_join directory n)" if "n \<in> set (drop d ?S)" for n
    using rotation_touches[OF assms] kept_snapshot_not_expired(1) that unfolding d_def by blast
  have left: "n \<in> set (drop d ?S)" if n: "n \<in> set (snapshots_of directory w')" for n
  proof -
    have name: "snapshot_name n" "entry w' (path_join directory n) \<noteq> None" using n by (auto simp: snapshots_set)
    then have "n \<notin> set (take d ?S)" using gone[of n] by auto
    then have "path_join directory n \<notin> (\<Union>m\<in>set (expired_snapshots directory retain w). files_of_snapshot directory m)"
      using manifest_not_snapshot name(1) by (auto simp: files_of_snapshot_def expired_snapshots_def d_def)
    then have "n \<in> set ?S" using n rotation_touches[OF assms] by (simp add: snapshots_set)
    then show ?thesis using \<open>n \<notin> set (take d ?S)\<close> by (metis UnE append_take_drop_id set_append)
  qed
  have "n \<in> set (snapshots_of directory w')" if n: "n \<in> set (drop d ?S)" for n
    using kept[OF n] in_set_dropD[OF n] by (simp add: snapshots_set)
  with left have "set (snapshots_of directory w') = set (drop d ?S)" by blast
  then show ?thesis
    using sorted_distinct_set_unique[OF snapshots_distinct(2,1) sorted_wrt_drop[OF snapshots_distinct(2)] distinct_drop[OF snapshots_distinct(1)]]
    unfolding d_def by blast
qed

section \<open>What a failed backup leaves\<close>

lemma keeps_verify [simp]: "keeps entry (\<lambda>p. is_plain) (verify_database_file host message path)"
  unfolding verify_database_file_def
  by (intro keeps_bind keeps_plain_io keeps_simple) (auto simp: keeps_def split: option.splits)

lemma keeps_secure [simp]: "keeps entry (\<lambda>p. is_plain) (secure_regular_file host path)"
  unfolding secure_regular_file_def by (intro keeps_bind) auto

lemma keeps_backup_to [simp]: "keeps entry (\<lambda>p. is_plain) (backup_to host path)"
proof -
  have "keeps entry (\<lambda>p. is_plain) (\<lambda>w. case verify_snapshot (bh_live host (fs_ops w)) of
      Inl e \<Rightarrow> (Err backup_context, w) | Inr v \<Rightarrow> (Ok (), w))"
    by (auto simp: keeps_def split: sum.splits)
  moreover have "keeps entry (\<lambda>p. is_plain) (io_partial (bh_faults host) backup_context
      (\<lambda>k nodes. if map_of nodes path = None then set_content path (take k bytes) nodes else nodes) (create_new path bytes))" for bytes
    by (rule keeps_io_partial) (auto simp: node_acts update_conv' split: if_splits)
  then have "keeps entry (\<lambda>p. is_plain) (\<lambda>w. let bytes = bh_vacuum host (bh_live host (fs_ops w)) in
         io_partial (bh_faults host) backup_context (\<lambda>k nodes. if map_of nodes path = None then set_content path (take k bytes) nodes
             else nodes) (create_new path bytes) w)"
    unfolding keeps_def Let_def by blast
  ultimately show ?thesis unfolding backup_to_def by (intro keeps_bind keeps_simple keeps_pure keeps_verify) auto
qed

lemma keeps_publish: "keeps entry (\<lambda>p. is_plain) (publish_snapshot host directory)"
  unfolding publish_snapshot_def sha256_file_def write_create_new_def
  by (auto simp: Let_def split: prod.split intro!: keeps_bind)

lemma removed_if_present:
  assumes "is_plain (entry w path)" "bh_cleanup host path"
  shows "entry (remove_if_present host path w) = (entry w)(path := None)"
  using assms unfolding remove_if_present_def entry_def
  by (auto simp: remove_file_def delete_conv' is_plain_def is_regular_def fun_eq_iff split: option.splits node.splits)

section \<open>The commands, step by step\<close>

text \<open>The state between a published snapshot and rotation.\<close>

definition published_backup :: "backup_host \<Rightarrow> string \<Rightarrow> host_fs \<Rightarrow> host_fs \<Rightarrow> bool" where
  "published_backup host directory w w' \<longleftrightarrow>
     (case backup_paths host directory of (snapshot, partial_snapshot, manifest, partial_manifest) \<Rightarrow>
        \<exists>n s v. let c = bh_vacuum host (bh_live host n) in
          bh_open host c = Some s \<and> verify_snapshot s = Ok v \<and>
          entry w snapshot = None \<and> entry w manifest = None \<and>
          entry w' snapshot = Some (FileNode c 384) \<and>
          entry w' manifest = Some (FileNode (bh_manifest host (manifest_of host c v)) 384) \<and>
          entry w' partial_snapshot = None \<and> entry w' partial_manifest = None \<and>
          (\<forall>p. p \<notin> insert directory (backup_files host directory) \<longrightarrow> entry w' p = entry w p))"

lemma stem_chars: "CHR ''/'' \<notin> set (backup_stem host)"
  using show_int_bytes[of "CHR ''/''" "bh_now host"]
  by (auto simp: backup_stem_def is_ascii_digit_def byte_of_def)

lemma snapshot_name_stem: "snapshot_name (backup_stem host)"
proof -
  have "byte_of c < 128" if "c \<in> set (backup_stem host)" for c
    using that show_int_bytes[of c "bh_now host"]
    by (auto simp: backup_stem_def is_ascii_digit_def byte_of_def)
  then have "utf8_valid (backup_stem host)" by (rule utf8_valid_ascii)
  moreover have "ends_with ''.db'' (backup_stem host)"
    unfolding ends_with_def backup_stem_def by simp
  ultimately show ?thesis by (simp add: snapshot_name_def backup_stem_def starts_with_def)
qed

lemma directory_not_backup_file: "directory \<notin> backup_files host directory"
proof -
  have other: "path_join directory n \<noteq> directory" if "n \<noteq> []" for n
    using that by (auto simp: path_join_def)
  have "backup_stem host \<noteq> []" by (simp add: backup_stem_def)
  then show ?thesis
    using other[THEN not_sym] unfolding backup_files_def backup_paths_def Let_def manifest_name_def by simp
qed

lemma finalize_steps:
  assumes "finalize_backup host directory retain w = (r, w')"
  shows "(\<exists>e w2. publish_snapshot host directory w = (Err e, w2) \<and> r = Err e \<and>
      (case backup_paths host directory of (snapshot, partial_snapshot, manifest, partial_manifest) \<Rightarrow>
            w' = remove_if_present host manifest (remove_if_present host snapshot
               (remove_if_present host partial_manifest (remove_if_present host partial_snapshot w2))))) \<or>
    (\<exists>answer w2. publish_snapshot host directory w = (Ok answer, w2) \<and> rotate_backups host directory retain w2 = (r, w'))"
  using assms unfolding finalize_backup_def by (auto split: prod.splits sum.splits)

lemma backup_steps:
  assumes "database_backup host directory retain w = (r, w')"
  shows "(\<exists>e. r = Err e \<and> (\<forall>p. p \<noteq> directory \<longrightarrow> entry w' p = entry w p)) \<or>
    (\<exists>w1 e w2. (\<forall>p. p \<noteq> directory \<longrightarrow> entry w1 p = entry w p) \<and> publish_snapshot host directory w1 = (Err e, w2) \<and>
      r = Err e \<and> (case backup_paths host directory of (snapshot, partial_snapshot, manifest, partial_manifest) \<Rightarrow>
            w' = remove_if_present host manifest (remove_if_present host snapshot
               (remove_if_present host partial_manifest (remove_if_present host partial_snapshot w2))))) \<or>
    (\<exists>w1 answer w2. (\<forall>p. p \<noteq> directory \<longrightarrow> entry w1 p = entry w p) \<and>
      publish_snapshot host directory w1 = (Ok answer, w2) \<and> rotate_backups host directory retain w2 = (r, w'))"
proof -
  have dir: "touches_only entry {directory} (io (bh_faults host) ''failed to create backup directory'' (create_dir_all directory))"
    by (rule touches_writes) simp
  note run = assms[unfolded database_backup_def]
  from run show ?thesis
  proof (cases rule: op_bind_cases)
    case (1 e)
    then show ?thesis using touches_onlyD[OF dir 1(1)] by auto
  next
    case (2 u wa)
    have wa: "p \<noteq> directory \<Longrightarrow> entry wa p = entry w p" for p using touches_onlyD[OF dir 2(1)] by auto
    from 2(2) show ?thesis
    proof (cases rule: op_bind_cases)
      case (1 e)
      have "entry w' p = entry wa p" for p using touches_onlyD[OF touches_reads(1)[where K="{}"] 1(1)] by simp
      then show ?thesis using wa 1(2) by simp
    next
      case (2 node wb)
      have wb: "p \<noteq> directory \<Longrightarrow> entry wb p = entry w p" for p
        using wa[of p] touches_onlyD[OF touches_reads(1)[where K="{}"] 2(1), of p] by simp
      show ?thesis
      proof (cases "node = DirNode \<and> bh_connect host")
        case False
        then have "(\<exists>e. r = Err e) \<and> w' = wb" using 2(2) by (auto simp: op_bind_def op_check_def split: if_splits)
        then show ?thesis using wb by auto
      next
        case True
        then have "finalize_backup host directory retain wb = (r, w')"
          using 2(2) by (simp add: op_bind_def op_check_def)
        then show ?thesis using finalize_steps wb by metis
      qed
    qed
  qed
qed

lemma published_partial:
  "published_backup host directory w w' \<Longrightarrow> entry w' (path_join directory (backup_stem host @ ''.partial'')) = None"
  by (auto simp: published_backup_def backup_paths_def Let_def)

lemma publish_published:
  assumes "publish_snapshot host directory w1 = (Ok answer, w2)" "\<forall>p. p \<noteq> directory \<longrightarrow> entry w1 p = entry w p"
  shows "published_backup host directory w w2"
proof -
  obtain snapshot partial_snapshot manifest partial_manifest where
    paths: "backup_paths host directory = (snapshot, partial_snapshot, manifest, partial_manifest)"
    by (metis prod_cases4)
  have not_dir: "snapshot \<noteq> directory" "manifest \<noteq> directory"
    using directory_not_backup_file[of directory host] paths by (auto simp: backup_files_def)
  note distinct = backup_paths_distinct[OF paths]
  from publish_snapshot_Ok[OF assms(1) paths] obtain c s n v where
    free: "entry w1 snapshot = None" "entry w1 manifest = None"
    and c: "c = bh_vacuum host (bh_live host n)" "bh_open host c = Some s" "verify_snapshot s = Ok v"
    and w2: "entry w2 = (entry w1)(snapshot \<mapsto> FileNode c 384, manifest \<mapsto> FileNode (bh_manifest host (manifest_of host c v)) 384,
         partial_snapshot := None, partial_manifest := None)" by blast
  have "entry w2 p = entry w p" if "p \<notin> insert directory (backup_files host directory)" for p
    using that assms(2) w2 by (auto simp: backup_files_def paths)
  then show ?thesis
    unfolding published_backup_def paths Let_def prod.case
    using c w2 free distinct assms(2) not_dir
    by (intro exI[of _ n] exI[of _ s] exI[of _ v]) auto
qed

lemma snapshots_after_publishing:
  assumes "published_backup host directory w w'" "\<forall>name\<in>set (snapshots_of directory w). name \<le> backup_stem host"
  shows "snapshots_of directory w' = snapshots_of directory w @ [backup_stem host]"
proof -
  let ?stem = "backup_stem host"
  obtain n s v where after: "entry w (path_join directory ?stem) = None"
    "entry w' (path_join directory ?stem) = Some (FileNode (bh_vacuum host (bh_live host n)) 384)"
    "\<And>p. p \<notin> insert directory (backup_files host directory) \<Longrightarrow> entry w' p = entry w p"
    using assms(1) by (auto simp: published_backup_def backup_paths_def Let_def)
  have nonempty: "?stem \<noteq> []" by (simp add: backup_stem_def)
  have fresh: "?stem \<notin> set (snapshots_of directory w)" using after(1) by (simp add: snapshots_set)
  have partial: "\<not> snapshot_name (a @ ''.partial'')" for a
    by (simp add: snapshot_name_def ends_with_def)
  have same: "entry w' (path_join directory m) = entry w (path_join directory m)"
    if "snapshot_name m" "m \<noteq> ?stem" "m \<noteq> []" for m
  proof (rule after(3))
    have "path_join directory m \<noteq> directory" using that(3) by (auto simp: path_join_def)
    then show "path_join directory m \<notin> insert directory (backup_files host directory)"
      using that partial manifest_not_snapshot
      by (auto simp: backup_files_def backup_paths_def Let_def)
  qed
  have "set (snapshots_of directory w') = insert ?stem (set (snapshots_of directory w))"
  proof (intro set_eqI)
    fix m
    show "m \<in> set (snapshots_of directory w') \<longleftrightarrow> m \<in> insert ?stem (set (snapshots_of directory w))"
    proof (cases "m = ?stem")
      case True
      then show ?thesis
        using after(2) snapshot_name_stem[of host] stem_chars[of host] nonempty by (simp add: snapshots_set)
    next
      case False
      then show ?thesis using same[of m] unfolding snapshots_set mem_Collect_eq insert_iff by metis
    qed
  qed
  moreover have "sorted (snapshots_of directory w @ [?stem])" "distinct (snapshots_of directory w @ [?stem])"
    using assms(2) fresh snapshots_distinct[of directory w] by (auto simp: sorted_append)
  ultimately show ?thesis
    using sorted_distinct_set_unique[of "snapshots_of directory w'" "snapshots_of directory w @ [?stem]"]
      snapshots_distinct[of directory w'] by simp
qed

section \<open>Claims\<close>

text \<open>
  Rotation, whatever it answers, changes nothing but the oldest snapshots beyond the retention count
  and their manifests: every snapshot to be kept and its manifest stay as they are.  When it succeeds
  exactly the newest \<open>retain\<close> snapshots are left.
\<close>

theorem rotation_removes_only_expired:
  assumes "rotate_backups host directory retain w = (r, w')"
  shows "(\<forall>p. p \<notin> (\<Union>n\<in>set (expired_snapshots directory retain w). files_of_snapshot directory n) \<longrightarrow> entry w' p = entry w p) \<and>
    (\<forall>name\<in>set (drop (length (snapshots_of directory w) - retain) (snapshots_of directory w)).
      \<forall>p\<in>files_of_snapshot directory name. entry w' p = entry w p) \<and>
    (r = Ok () \<longrightarrow>
      snapshots_of directory w' = drop (length (snapshots_of directory w) - retain) (snapshots_of directory w))"
  using rotation_touches[OF assms] kept_snapshot_not_expired rotation_leaves[of host directory retain w "()" w'] assms
  by (auto simp: files_of_snapshot_def)



section \<open>A healthy database is saved and restored\<close>

lemma utf8_valid_append:
  assumes "utf8_valid t"
  shows "utf8_valid s \<Longrightarrow> utf8_valid (s @ t)"
proof (induction s rule: length_induct)
  case (1 s)
  then have IH: "utf8_valid (s' @ t)" if "length s' < length s" "utf8_valid s'" for s' using that by blast
  show ?case
  proof (cases s)
    case (Cons a s1)
    note valid = 1(2)[unfolded Cons utf8_valid.simps(2)[of a s1]]
    show ?thesis
    proof (cases "byte_of a < 128")
      case True
      then show ?thesis using valid IH[of s1] Cons by (simp add: Let_def)
    next
      case False
      then obtain b s2 where s1: "s1 = b # s2" using valid by (cases s1) (simp_all add: Let_def)
      show ?thesis
      proof (cases "byte_of a \<le> 223")
        case True
        then show ?thesis using False valid IH[of s2] Cons s1 utf8_valid.simps(2)[of a "b # s2 @ t"] 
          by (simp add: Let_def del: utf8_valid.simps)
      next
        case three: False
        then obtain c s3 where s2: "s2 = c # s3" using valid False s1 by (cases s2) (simp_all add: Let_def)
        show ?thesis
        proof (cases "byte_of a \<le> 239")
          case True
          then show ?thesis using False three valid IH[of s3] Cons s1 s2 utf8_valid.simps(2)[of a "b # c # s3 @ t"]
            by (simp add: Let_def del: utf8_valid.simps)
        next
          case four: False
          then obtain d s4 where s3: "s3 = d # s4" using valid False three s1 s2 by (cases s3) (simp_all add: Let_def)
          show ?thesis using False three four valid IH[of s4] Cons s1 s2 s3 utf8_valid.simps(2)[of a "b # c # d # s4 @ t"]
            by (simp add: Let_def del: utf8_valid.simps)
        qed
      qed
    qed
  qed (use assms in simp)
qed

lemma verify_runs:
  assumes "\<forall>n. bh_faults host n = None" "entry w path = Some (FileNode c m)" "bh_open host c = Some s" "verify_snapshot s = Ok v"
    and "is_absolute path" "utf8_valid path"
  shows "\<exists>w'. verify_database_file host message path w = (Ok v, w')"
  using assms by (simp add: verify_database_file_def running)

lemma secure_runs:
  assumes "\<forall>n. bh_faults host n = None" "entry w path = Some (FileNode c m)"
  shows "\<exists>w'. secure_regular_file host path w = (Ok (), w')"
  using assms by (simp add: secure_regular_file_def running)

lemma sha_runs:
  assumes "\<forall>n. bh_faults host n = None" "entry w path = Some (FileNode c m)"
  shows "\<exists>w'. sha256_file host path w = (Ok (bh_sha256 host c), w')"
  using assms by (simp add: sha256_file_def running)

lemma create_runs:
  assumes "\<forall>n. bh_faults host n = None" "entry w path = None"
  shows "\<exists>w'. write_create_new host path c w = (Ok (), w')"
  using assms by (simp add: write_create_new_def secure_regular_file_def running)

lemma backup_to_runs:
  assumes "\<forall>n. bh_faults host n = None" "entry w path = None" "is_absolute path" "utf8_valid path"
    and "\<forall>n. \<exists>v. verify_snapshot (bh_live host n) = Ok v" "\<forall>n. bh_open host (bh_vacuum host (bh_live host n)) = Some (bh_live host n)"
  shows "\<exists>v w'. backup_to host path w = (Ok v, w')"
proof -
  obtain v0 where "verify_snapshot (bh_live host (fs_ops w)) = Ok v0" using assms(5) by blast
  moreover obtain v where "verify_snapshot (bh_live host (Suc (fs_ops w))) = Ok v" using assms(5) by blast
  ultimately show ?thesis using assms(1-4,6) by (simp add: backup_to_def verify_database_file_def running Let_def)
qed

lemma link_runs:
  "\<forall>n. bh_faults host n = None \<Longrightarrow> entry w source = Some (FileNode c m) \<Longrightarrow> entry w target = None \<Longrightarrow>
     \<exists>w'. io (bh_faults host) (message :: string) (hard_link source target) w = (Ok (), w')"
  by (simp add: running)

lemma remove_runs:
  "\<forall>n. bh_faults host n = None \<Longrightarrow> entry w path = Some (FileNode c m) \<Longrightarrow>
     \<exists>w'. io (bh_faults host) (message :: string) (remove_file path) w = (Ok (), w')"
  by (simp add: running)

lemma read_runs:
  "\<forall>n. bh_faults host n = None \<Longrightarrow> entry w path = Some (FileNode c m) \<Longrightarrow>
     \<exists>w'. io (bh_faults host) (message :: string) (read_content path) w = (Ok c, w')"
  by (simp add: running)


lemma path_ok:
  assumes "is_absolute directory" "utf8_valid directory" "utf8_valid name"
  shows "is_absolute (path_join directory name) \<and> utf8_valid (path_join directory name)"
  using assms utf8_valid_append[of name directory] utf8_valid_append[of "''/'' @ name" directory]
  by (auto simp: path_join_def is_absolute_def starts_with_def Let_def byte_of_def take_Cons' split: if_splits)

lemma utf8_partial: "utf8_valid (backup_stem host @ ''.partial'')"
  using snapshot_name_stem[of host] by (intro utf8_valid_append) (simp_all add: snapshot_name_def byte_of_def)

lemma publish_runs:
  assumes quiet: "\<forall>n. bh_faults host n = None" and "\<forall>n. \<exists>v. verify_snapshot (bh_live host n) = Ok v"
    and "\<forall>n. bh_open host (bh_vacuum host (bh_live host n)) = Some (bh_live host n)"
    and "is_absolute directory" "utf8_valid directory" "\<forall>p\<in>backup_files host directory. entry w p = None"
  shows "\<exists>answer w'. publish_snapshot host directory w = (Ok answer, w')"
proof -
  obtain snapshot partial_snapshot manifest partial_manifest where
    paths: "backup_paths host directory = (snapshot, partial_snapshot, manifest, partial_manifest)"
    by (metis prod_cases4)
  note distinct = backup_paths_distinct[OF paths]
  have free: "entry w snapshot = None" "entry w partial_snapshot = None" "entry w manifest = None" "entry w partial_manifest = None"
    using assms(6) by (simp_all add: backup_files_def paths)
  have "is_absolute partial_snapshot" "utf8_valid partial_snapshot"
    using path_ok[OF assms(4,5) utf8_partial[of host]] paths by (auto simp: backup_paths_def Let_def)
  then obtain v w1 where s1: "backup_to host partial_snapshot w = (Ok v, w1)"
    using backup_to_runs[OF quiet free(2) _ _ assms(2,3)] by blast
  then obtain c where w1: "entry w1 = (entry w)(partial_snapshot \<mapsto> FileNode c 420)" using backup_to_Ok by blast
  then obtain w2 where s2: "secure_regular_file host partial_snapshot w1 = (Ok (), w2)"
    using secure_runs[OF quiet, of w1 partial_snapshot c 420] by auto
  have w2: "entry w2 = (entry w)(partial_snapshot \<mapsto> FileNode c 384)" using secure_Ok[OF s2] w1 by auto
  then obtain w3 where s3: "sha256_file host partial_snapshot w2 = (Ok (bh_sha256 host c), w3)"
    using sha_runs[OF quiet, of w2 partial_snapshot c 384] by auto
  have w3: "entry w3 = entry w2" using sha_Ok[OF s3] by blast
  then obtain w4 where s4: "io (bh_faults host) ''failed to inspect snapshot'' (read_content partial_snapshot) w3 = (Ok c, w4)"
    using read_runs[OF quiet, of w3 partial_snapshot c 384] w2 by fastforce
  have w4: "entry w4 = entry w2" using read_Ok[OF s4] w3 by simp
  define body where "body = bh_manifest host (manifest_of host c v)"
  have "entry w4 partial_manifest = None" using w4 w2 free distinct by auto
  then obtain w5 where s5: "write_create_new host partial_manifest body w4 = (Ok (), w5)"
    using create_runs[OF quiet] by blast
  have w5: "entry w5 = (entry w2)(partial_manifest \<mapsto> FileNode body 384)" using create_Ok[OF s5] w4 by simp
  have "entry w5 partial_snapshot = Some (FileNode c 384)" "entry w5 snapshot = None" using w5 w2 free distinct by auto
  then obtain w6 where s6: "io (bh_faults host) ''failed to publish create-new backup snapshot'' (hard_link partial_snapshot snapshot) w5 = (Ok (), w6)"
    using link_runs[OF quiet] by blast
  have w6: "entry w6 = (entry w5)(snapshot \<mapsto> FileNode c 384)"
    using link_Ok[OF s6] \<open>entry w5 partial_snapshot = _\<close> by auto
  have w6': "entry w6 partial_manifest = Some (FileNode body 384)" "entry w6 manifest = None"
    using w6 w5 w2 free distinct by auto
  then obtain w7 where s7: "io (bh_faults host) ''failed to publish create-new backup manifest'' (hard_link partial_manifest manifest) w6 = (Ok (), w7)"
    using link_runs[OF quiet] by blast
  have w7: "entry w7 = (entry w6)(manifest \<mapsto> FileNode body 384)" using link_Ok[OF s7] w6' by auto
  have "entry w7 partial_snapshot = Some (FileNode c 384)" using w7 w6 w5 w2 distinct by auto
  then obtain w8 where s8: "io (bh_faults host) ''failed to remove partial snapshot'' (remove_file partial_snapshot) w7 = (Ok (), w8)"
    using remove_runs[OF quiet] by blast
  have "entry w8 partial_manifest = Some (FileNode body 384)" using remove_Ok[OF s8] w7 w6' distinct by auto
  then obtain w9 where s9: "io (bh_faults host) ''failed to remove partial manifest'' (remove_file partial_manifest) w8 = (Ok (), w9)"
    using remove_runs[OF quiet] by blast
  show ?thesis
    using s1 s2 s3 s4 s5 s6 s7 s8 s9 unfolding publish_snapshot_def paths prod.case body_def manifest_of_def
    by (simp add: op_bind_def Let_def op_return_def)
qed

lemma input_runs:
  assumes "\<forall>n. bh_faults host n = None" "entry w input = Some (FileNode c m)" "c \<noteq> []" "is_absolute input"
    and "length (bh_sha256 host c) = 64" "list_all is_lower_hex (bh_sha256 host c)"
  shows "\<exists>w'. validate_snapshot_input host input (bh_sha256 host c) w = (Ok (), w') \<and> entry w' = entry w"
  using assms by (simp add: validate_snapshot_input_def sha256_file_def running)

lemma rehearsal_runs:
  assumes "\<forall>n. bh_faults host n = None" "entry w input = Some (FileNode c m)" "c \<noteq> []" "is_absolute input" "utf8_valid input"
    and "length (bh_sha256 host c) = 64" "list_all is_lower_hex (bh_sha256 host c)"
    and "bh_open host c = Some s" "verify_snapshot s = Ok v" "verify_snapshot (bh_migrate host s) = Ok v"
    and "entry w (bh_temp_dir host) = None" "entry w (path_join (bh_temp_dir host) ''restored.db'') = None"
  shows "\<exists>w'. database_restore_rehearsal host input (bh_sha256 host c) w = (Ok (), w') \<and> entry w' = entry w"
proof -
  let ?t = "bh_temp_dir host" and ?c = "path_join (bh_temp_dir host) ''restored.db''"
  have different: "?t \<noteq> ?c" "?t \<noteq> input" "?c \<noteq> input" using assms(2,11,12) by (auto simp: path_join_def)
  obtain w1 where w1: "validate_snapshot_input host input (bh_sha256 host c) w = (Ok (), w1)" "entry w1 = entry w"
    using input_runs[OF assms(1-4,6,7)] by blast
  obtain w2 where w2: "verify_database_file host ''restore source verification failed'' input w1 = (Ok v, w2)"
    using verify_runs[OF assms(1) _ assms(8,9,4,5), of w1 m] w1(2) assms(2) by auto
  have same: "entry w2 = entry w" using verify_file_Ok[OF w2] w1(2) by auto
  have nodes: "map_of (fs_nodes w2) ?t = None" "map_of (fs_nodes w2) ?c = None" "map_of (fs_nodes w2) input = Some (FileNode c m)"
    using same assms(2,11,12) by (simp_all add: entry_def fun_eq_iff)
  obtain w' where run: "database_restore_rehearsal host input (bh_sha256 host c) w = (Ok (), w')"
    "fs_nodes w' = AList.delete ?t (AList.delete ?c (AList.update ?c (FileNode c 420) (AList.update ?c (FileNode [] 420)
       (AList.update ?t DirNode (fs_nodes w2)))))"
    using assms(1,8-10) w1(1) w2 nodes different
    by (simp add: database_restore_rehearsal_def copy_create_new_def running Let_def)
  have "entry w' = entry w2" using nodes different unfolding entry_def run(2)
    by (auto simp: fun_eq_iff update_conv' delete_conv')
  then show ?thesis using run(1) same by metis
qed

text \<open>
  C30. A healthy database is saved and restored.  When no I/O operation fails, every state of the live
  database satisfies the invariant with a current migration history, and a vacuumed copy opens as the
  database it was made from, publishing succeeds; the published snapshot then passes \<open>verify\<close> with the
  digest reported, and the restore rehearsal succeeds, both without changing a file.
\<close>

theorem healthy_database_restores:
  assumes "\<forall>n. bh_faults host n = None"
    and "\<forall>n. \<exists>history db. bh_live host n = (True, history, db) \<and> db_ok db \<and>
          max_version history = Some latest_schema_version \<and> list_all snd history"
    and "\<forall>n. bh_vacuum host (bh_live host n) \<noteq> [] \<and> bh_open host (bh_vacuum host (bh_live host n)) = Some (bh_live host n)"
    and "\<forall>s v. verify_snapshot s = Ok v \<longrightarrow> verify_snapshot (bh_migrate host s) = Ok v"
    and "\<forall>c. length (bh_sha256 host c) = 64 \<and> list_all is_lower_hex (bh_sha256 host c)"
    and "is_absolute directory" "utf8_valid directory"
    and "\<forall>p\<in>backup_files host directory. entry w p = None"
    and "\<forall>p\<in>{bh_temp_dir host, path_join (bh_temp_dir host) ''restored.db''}. entry w p = None \<and> p \<notin> backup_files host directory"
  shows "\<exists>v sha256 bytes w1. publish_snapshot host directory w = (Ok (v, sha256, bytes), w1) \<and>
    (\<exists>w2. database_verify host (path_join directory (backup_stem host)) sha256 w1 = (Ok v, w2) \<and> entry w2 = entry w1) \<and>
    (\<exists>w3. database_restore_rehearsal host (path_join directory (backup_stem host)) sha256 w1 = (Ok (), w3) \<and> entry w3 = entry w1)"
proof -
  let ?snapshot = "path_join directory (backup_stem host)"
  have live: "\<forall>n. \<exists>v. verify_snapshot (bh_live host n) = Ok v"
    using assms(2) verify_pool_of_ok unfolding verify_snapshot_def by (metis old.prod.case)
  have reopens: "\<forall>n. bh_open host (bh_vacuum host (bh_live host n)) = Some (bh_live host n)" using assms(3) by blast
  obtain answer w1 where publish: "publish_snapshot host directory w = (Ok answer, w1)"
    using publish_runs[OF assms(1) live reopens assms(6-8)] by blast
  obtain partial_snapshot manifest partial_manifest where
    paths: "backup_paths host directory = (?snapshot, partial_snapshot, manifest, partial_manifest)"
    by (simp add: backup_paths_def Let_def)
  from publish_snapshot_Ok[OF publish paths] obtain c s n v where
    c: "c = bh_vacuum host (bh_live host n)" "bh_open host c = Some s" "verify_snapshot s = Ok v"
       "answer = (v, bh_sha256 host c, length c)" "entry w1 = (entry w)(?snapshot \<mapsto> FileNode c 384,
         manifest \<mapsto> FileNode (bh_manifest host (manifest_of host c v)) 384, partial_snapshot := None, partial_manifest := None)"
    by blast
  have digest: "length (bh_sha256 host c) = 64" "list_all is_lower_hex (bh_sha256 host c)" "c \<noteq> []"
    using assms(3)[rule_format, of n] assms(5) c(1) by auto
  have input: "is_absolute ?snapshot" "utf8_valid ?snapshot"
    using path_ok[OF assms(6,7)] snapshot_name_stem[of host] by (auto simp: snapshot_name_def)
  have stored: "entry w1 ?snapshot = Some (FileNode c 384)" using c(5) backup_paths_distinct[OF paths] by auto
  have temp: "entry w1 (bh_temp_dir host) = None" "entry w1 (path_join (bh_temp_dir host) ''restored.db'') = None"
    using assms(9) touches_onlyD[OF touches_publish publish] by auto
  obtain w0 where w0: "validate_snapshot_input host ?snapshot (bh_sha256 host c) w1 = (Ok (), w0)" "entry w0 = entry w1"
    using input_runs[OF assms(1) stored digest(3) input(1) digest(1,2)] by blast
  obtain w2 where w2: "verify_database_file host ''database snapshot verification failed'' ?snapshot w0 = (Ok v, w2)"
    using verify_runs[OF assms(1) _ c(2,3) input, of w0 384] stored w0(2) by auto
  have verify: "database_verify host ?snapshot (bh_sha256 host c) w1 = (Ok v, w2)" "entry w2 = entry w1"
    using w0 w2 verify_file_Ok[OF w2] by (auto simp: database_verify_def op_bind_def)
  show ?thesis
    using publish c(4) verify rehearsal_runs[OF assms(1) stored digest(3) input digest(1,2) c(2,3) _ temp] assms(4) c(3) by blast
qed

section \<open>Samples\<close>

definition sample_backup_host :: "nat option \<Rightarrow> backup_host" where
  "sample_backup_host fault =
     \<lparr>bh_faults = (\<lambda>n. if fault = Some n then Some 1 else None), bh_cleanup = (\<lambda>_. True), bh_now = 5, bh_connect = True,
      bh_live = (\<lambda>_. (True, [(11, True)], empty_database)), bh_vacuum = (\<lambda>_. ''db''),
      bh_open = (\<lambda>_. Some (True, [(11, True)], empty_database)), bh_migrate = (\<lambda>s. s),
      bh_sha256 = (\<lambda>_. replicate 64 CHR ''a''), bh_manifest = bm_snapshot_file, bh_temp_dir = ''/tmp/r''\<rparr>"

definition sample_fs :: host_fs where
  "sample_fs = \<lparr>fs_nodes = [(''/b'', DirNode), (''/b/g7mb-1.db'', FileNode ''old'' 384), (''/b/g7mb-2.db'', FileNode ''new'' 384)], fs_ops = 0\<rparr>"

lemma sample_backup_paths:
  "backup_stem (sample_backup_host fault) = ''g7mb-5.db''"
  "backup_paths (sample_backup_host fault) ''/b'' = (''/b/g7mb-5.db'', ''/b/g7mb-5.db.partial'',
     ''/b/g7mb-5.db.manifest.json'', ''/b/g7mb-5.db.manifest.json.partial'')"
  by code_simp+

lemma sample_snapshots: "snapshots_of ''/b'' sample_fs = [''g7mb-1.db'', ''g7mb-2.db'']"
  by code_simp

theorem rotation_removes_only_expired_witness:
  "snapshots_of ''/b'' (snd (rotate_backups (sample_backup_host None) ''/b'' 1 sample_fs)) = [''g7mb-2.db'']"
proof -
  obtain r w' where run: "rotate_backups (sample_backup_host None) ''/b'' 1 sample_fs = (r, w')" by fastforce
  moreover have "fst (rotate_backups (sample_backup_host None) ''/b'' 1 sample_fs) = Ok ()" by code_simp
  ultimately show ?thesis using rotation_removes_only_expired[OF run] by (simp add: sample_snapshots)
qed



theorem healthy_database_restores_witness:
  "\<exists>v sha256 bytes w1. publish_snapshot (sample_backup_host None) ''/b'' sample_fs = (Ok (v, sha256, bytes), w1) \<and>
    (\<exists>w3. database_restore_rehearsal (sample_backup_host None) ''/b/g7mb-5.db'' sha256 w1 = (Ok (), w3))"
proof -
  let ?host = "sample_backup_host None"
  have live: "\<forall>n. \<exists>history db. bh_live ?host n = (True, history, db) \<and> db_ok db \<and>
      max_version history = Some latest_schema_version \<and> list_all snd history"
    using db_ok_empty by (simp add: sample_backup_host_def max_version_def latest_schema_version_def)
  have path: "path_join ''/b'' (backup_stem ?host) = ''/b/g7mb-5.db''" by (simp add: sample_backup_paths path_join_def)
  have h1: "\<forall>n. bh_faults ?host n = None" and
    h3: "\<forall>n. bh_vacuum ?host (bh_live ?host n) \<noteq> [] \<and> bh_open ?host (bh_vacuum ?host (bh_live ?host n)) = Some (bh_live ?host n)" and
    h4: "\<forall>s v. verify_snapshot s = Ok v \<longrightarrow> verify_snapshot (bh_migrate ?host s) = Ok v" and
    h5: "\<forall>c. length (bh_sha256 ?host c) = 64 \<and> list_all is_lower_hex (bh_sha256 ?host c)"
    by (simp_all add: sample_backup_host_def list_all_iff) (simp_all add: is_lower_hex_def is_ascii_digit_def byte_of_def)
  have h6: "is_absolute ''/b''" "utf8_valid ''/b''" by code_simp+
  have h8: "\<forall>p\<in>backup_files ?host ''/b''. entry sample_fs p = None"
    by (simp add: backup_files_def sample_backup_paths(2) entry_def sample_fs_def)
  have temp: "bh_temp_dir ?host = ''/tmp/r''" by (simp add: sample_backup_host_def)
  have h9: "\<forall>p\<in>{bh_temp_dir ?host, path_join (bh_temp_dir ?host) ''restored.db''}.
      entry sample_fs p = None \<and> p \<notin> backup_files ?host ''/b''"
    unfolding temp by (simp add: backup_files_def sample_backup_paths(2) entry_def sample_fs_def path_join_def)
  show ?thesis
    using healthy_database_restores[OF h1 live h3 h4 h5 h6 h8 h9] unfolding path by blast
qed

end
