(* ===== verification/Setup.thy ===== *)
theory Setup
  imports Storage_Admin Host_Files
begin

text \<open>
  The \<open>setup\<close> command of \<open>apps/g7mbctl/src/main.rs\<close> with \<open>setup_config.rs\<close>: what it asks for, the checks
  of the answers, the text it renders, and the order in which it looks at its targets, tries the storage
  and writes secrets and configuration.  The terminal is the list of the lines typed so far, where a
  prompt without a line is still waiting; messages are the constructors of \<open>setup_error\<close>.  Paths are
  normalised.
\<close>

section \<open>Values\<close>

datatype Provider = R2Profile | AwsS3Profile | LightsailProfile | GenericProfile

fun storage_provider :: "Provider \<Rightarrow> StorageProvider" where
  "storage_provider R2Profile = R2"
| "storage_provider AwsS3Profile = AwsS3"
| "storage_provider LightsailProfile = Lightsail"
| "storage_provider GenericProfile = Generic"

fun config_name :: "Provider \<Rightarrow> string" where
  "config_name R2Profile = ''r2''"
| "config_name AwsS3Profile = ''aws-s3''"
| "config_name LightsailProfile = ''lightsail''"
| "config_name GenericProfile = ''generic''"

fun provider_debug :: "Provider \<Rightarrow> string" where
  "provider_debug R2Profile = ''R2''"
| "provider_debug AwsS3Profile = ''AwsS3''"
| "provider_debug LightsailProfile = ''Lightsail''"
| "provider_debug GenericProfile = ''Generic''"

record setup_args =
  sa_non_interactive :: bool
  sa_provider :: "Provider option"
  sa_account_id :: "string option"
  sa_endpoint_url :: "string option"
  sa_region :: "string option"
  sa_bucket :: "string option"
  sa_derivative_bucket :: "string option"
  sa_origins :: "string list"
  sa_access_key_id_file :: "string option"
  sa_secret_access_key_file :: "string option"
  sa_tenant_id :: "string option"
  sa_config :: string
  sa_secrets_dir :: string
  sa_create_buckets :: bool
  sa_skip_cors :: bool
  sa_defer_storage :: bool
  sa_force_path_style :: bool
  sa_force :: bool
  sa_skip_ownership :: bool

record setup_values =
  sv_provider :: Provider
  sv_endpoint_url :: "string option"
  sv_region :: string
  sv_raw_bucket :: string
  sv_derivative_bucket :: string
  sv_origins :: "string list"
  sv_access_key_id :: string
  sv_secret_access_key :: string
  sv_tenant_id :: string
  sv_force_path_style :: bool
  sv_create_buckets :: bool
  sv_configure_cors :: bool
  sv_defer_storage :: bool

datatype setup_error =
    InputPending | NeedsTerminal | NeedsAbsolutePaths | NeedsProvider | NeedsValue string
  | LightsailCannotCreate | LightsailNeedsCors | InvalidAccountId | InvalidRegion | InvalidEndpoint | InvalidBucket
  | InvalidTenant | InvalidOrigin | TooManyOrigins | NeedsOrigin | InvalidSecret string | InvalidSecretFile
  | CredentialTooLong | InvalidPath | TargetNotRegular string | TargetExists string | FileFailure string
  | NoRandomness | StorageFailure ObjectStoreError | GroupFailure | ConfigRejected

record 'b setup_world =
  su_files :: host_fs
  su_store :: 'b
  su_input :: "string list"

text \<open>Outside the program: faults of the file system, the URL, TOML and configuration crates, the SDK's
  client, randomness, the process id and \<open>chgrp\<close>.\<close>

record 'b setup_env =
  se_faults :: faults
  se_urls :: url_world
  se_origin :: "Url \<Rightarrow> string"
  se_client :: "StorageSettings \<Rightarrow> 'b sdk"
  se_run_ids :: "nat \<Rightarrow> string"
  se_random :: "string option"
  se_toml_string :: "string \<Rightarrow> string"
  se_parse_config :: "string \<Rightarrow> (ConfigError, Settings) result"
  se_pid :: string
  se_terminal :: bool
  se_chgrp :: bool

type_synonym ('b, 'a) setup_op = "('b setup_world, setup_error, 'a) op"

definition on_files :: "(setup_error, 'a) fs_op \<Rightarrow> ('b, 'a) setup_op" where
  "on_files m = op_within su_files (\<lambda>fs w. w\<lparr>su_files := fs\<rparr>) m"

definition on_store :: "('b, 'a) store_op \<Rightarrow> ('b, 'a) setup_op" where
  "on_store m = op_map_err StorageFailure (op_within su_store (\<lambda>b w. w\<lparr>su_store := b\<rparr>) m)"

section \<open>Prompts\<close>

text \<open>\<open>str::trim\<close>: as often as there are bytes, a leading or trailing white space character goes.\<close>

fun strip_start :: "nat \<Rightarrow> string \<Rightarrow> string" where
  "strip_start 0 v = v"
| "strip_start (Suc n) v =
     (case find (\<lambda>s. starts_with s v) white_space of None \<Rightarrow> v | Some s \<Rightarrow> strip_start n (drop (length s) v))"

fun strip_end :: "nat \<Rightarrow> string \<Rightarrow> string" where
  "strip_end 0 v = v"
| "strip_end (Suc n) v =
     (case find (\<lambda>s. strip_suffix s v \<noteq> None) white_space of
        None \<Rightarrow> v | Some s \<Rightarrow> strip_end n (take (length v - length s) v))"

definition trim :: "string \<Rightarrow> string" where
  "trim v = (let s = strip_start (length v) v in strip_end (length s) s)"

text \<open>\<open>ask\<close> reads lines until one has an answer.\<close>

fun answered_line :: "(string \<Rightarrow> 'a option) \<Rightarrow> string list \<Rightarrow> ('a \<times> string list) option" where
  "answered_line accept [] = None"
| "answered_line accept (line # lines) =
     (case accept (trim line) of Some a \<Rightarrow> Some (a, lines) | None \<Rightarrow> answered_line accept lines)"

definition ask :: "(string \<Rightarrow> 'a option) \<Rightarrow> ('b, 'a) setup_op" where
  "ask accept w =
     (case answered_line accept (su_input w) of
        None \<Rightarrow> (Err InputPending, w\<lparr>su_input := []\<rparr>) | Some (a, lines) \<Rightarrow> (Ok a, w\<lparr>su_input := lines\<rparr>))"

definition prompt_required :: "('b, string) setup_op" where
  "prompt_required = ask (\<lambda>v. if v = [] then None else Some v)"

definition prompt_default :: "string \<Rightarrow> ('b, string) setup_op" where
  "prompt_default fallback = ask (\<lambda>v. Some (if v = [] then fallback else v))"

definition prompt_yes_no :: "bool \<Rightarrow> ('b, bool) setup_op" where
  "prompt_yes_no fallback =
     ask (\<lambda>v. let a = to_ascii_lowercase v in
       if a = [] then Some fallback else if a = ''y'' \<or> a = ''yes'' then Some True
       else if a = ''n'' \<or> a = ''no'' then Some False else None)"

definition prompt_provider :: "('b, Provider) setup_op" where
  "prompt_provider =
     ask (\<lambda>v. if v = ''1'' then Some R2Profile else if v = ''2'' then Some AwsS3Profile
       else if v = ''3'' then Some LightsailProfile else if v = ''4'' then Some GenericProfile else None)"

text \<open>\<open>rpassword\<close> hands over the line as it was typed.\<close>

definition prompt_password :: "('b, string) setup_op" where
  "prompt_password w =
     (case su_input w of [] \<Rightarrow> (Err InputPending, w) | line # lines \<Rightarrow> (Ok line, w\<lparr>su_input := lines\<rparr>))"

definition required_value :: "string option \<Rightarrow> bool \<Rightarrow> string \<Rightarrow> ('b, string) setup_op" where
  "required_value v interactive label =
     (if v \<noteq> None \<and> v \<noteq> Some [] then op_return (the v)
      else if interactive then prompt_required else (\<lambda>w. (Err (NeedsValue label), w)))"

definition optional_or_prompt :: "string option \<Rightarrow> bool \<Rightarrow> string \<Rightarrow> ('b, string) setup_op" where
  "optional_or_prompt v interactive fallback =
     (if v \<noteq> None \<and> v \<noteq> Some [] then op_return (the v)
      else if interactive then prompt_default fallback else op_return fallback)"

section \<open>Checks of the answers\<close>

fun contains_text :: "string \<Rightarrow> string \<Rightarrow> bool" where
  "contains_text s [] \<longleftrightarrow> s = []"
| "contains_text s (c # v) \<longleftrightarrow> starts_with s (c # v) \<or> contains_text s v"

definition accept_if :: "bool \<Rightarrow> setup_error \<Rightarrow> 'a \<Rightarrow> (setup_error, 'a) result" where
  "accept_if ok e v = (if ok then Ok v else Err e)"

definition bucket_byte :: "char \<Rightarrow> bool" where
  "bucket_byte c \<longleftrightarrow> is_ascii_lower c \<or> is_ascii_digit c \<or> c = CHR ''-'' \<or> c = CHR ''.''"

definition is_ipv4 :: "string \<Rightarrow> bool" where
  "is_ipv4 v \<longleftrightarrow> length v \<le> 15 \<and> (case read_ipv4 v of Some (_, []) \<Rightarrow> True | _ \<Rightarrow> False)"

definition validate_bucket :: "string \<Rightarrow> (setup_error, string) result" where
  "validate_bucket v =
     accept_if (3 \<le> length v \<and> length v \<le> 63 \<and> list_all bucket_byte v \<and> is_ascii_alphanumeric (hd v) \<and>
       is_ascii_alphanumeric (last v) \<and> \<not> contains_text ''..'' v \<and> \<not> contains_text ''.-'' v \<and> \<not> contains_text ''-.'' v \<and>
       \<not> is_ipv4 v \<and> \<not> starts_with ''xn--'' v \<and> strip_suffix ''-s3alias'' v = None \<and> strip_suffix ''--ol-s3'' v = None)
       InvalidBucket v"

definition validate_region :: "string \<Rightarrow> (setup_error, string) result" where
  "validate_region v =
     accept_if (v \<noteq> [] \<and> length v \<le> 128 \<and> list_all (\<lambda>c. is_ascii_alphanumeric c \<or> c = CHR ''-'') v) InvalidRegion v"

definition validate_tenant :: "string \<Rightarrow> (setup_error, string) result" where
  "validate_tenant v =
     accept_if (v \<noteq> [] \<and> length v \<le> 64 \<and> list_all (\<lambda>c. is_ascii_alphanumeric c \<or> c = CHR ''-'' \<or> c = CHR ''_'') v) InvalidTenant v"

text \<open>The check of an endpoint and of an origin: an address without credentials, path or query over HTTPS,
  or over HTTP on the loopback.\<close>

definition bare_https :: "Url \<Rightarrow> string \<Rightarrow> bool" where
  "bare_https url host \<longleftrightarrow>
     url_username url = [] \<and> url_password url = None \<and> url_query url = None \<and> url_fragment url = None \<and>
     (url_path url = [] \<or> url_path url = ''/'') \<and>
     (url_scheme url = ''https'' \<or> url_scheme url = ''http'' \<and> (host = ''localhost'' \<or> host = ''::1'' \<or> loopback_ip host))"

definition checked_url :: "url_world \<Rightarrow> setup_error \<Rightarrow> string \<Rightarrow> (setup_error, Url) result" where
  "checked_url world e v =
     (case parse_url world v of
        None \<Rightarrow> Err e
      | Some url \<Rightarrow> (case url_host url of None \<Rightarrow> Err e | Some host \<Rightarrow> accept_if (bare_https url host) e url))"

definition trim_slashes :: "string \<Rightarrow> string" where
  "trim_slashes v = rev (dropWhile (\<lambda>c. c = CHR ''/'') (rev v))"

definition validate_endpoint :: "url_world \<Rightarrow> string \<Rightarrow> (setup_error, string) result" where
  "validate_endpoint world v = and_then (checked_url world InvalidEndpoint v) (\<lambda>_. Ok (trim_slashes v))"

fun collect_origins :: "url_world \<Rightarrow> (Url \<Rightarrow> string) \<Rightarrow> string list \<Rightarrow> string list \<Rightarrow> (setup_error, string list) result" where
  "collect_origins world origin_of origins [] = Ok origins"
| "collect_origins world origin_of origins (v # vs) =
     and_then (checked_url world InvalidOrigin v) (\<lambda>url.
       let origin = origin_of url in
       collect_origins world origin_of (if origin \<in> set origins then origins else origins @ [origin]) vs)"

definition validate_origins :: "url_world \<Rightarrow> (Url \<Rightarrow> string) \<Rightarrow> string list \<Rightarrow> (setup_error, string list) result" where
  "validate_origins world origin_of vs =
     (if length vs > 32 then Err TooManyOrigins else collect_origins world origin_of [] vs)"

section \<open>Secrets\<close>

definition read_secret_input :: "faults \<Rightarrow> string \<Rightarrow> (setup_error, string) fs_op" where
  "read_secret_input faults path =
     op_bind (op_check (is_absolute path) InvalidSecretFile) (\<lambda>_.
     op_bind (io faults InvalidSecretFile (symlink_metadata path)) (\<lambda>node.
     op_bind (op_check (case node of FileNode c m \<Rightarrow> length c \<le> 4096 \<and> and m 31 = 0 | _ \<Rightarrow> False) InvalidSecretFile) (\<lambda>_.
     op_bind (io faults InvalidSecretFile (read_content path)) (\<lambda>content.
     op_bind (op_check (utf8_valid content \<and> length content \<le> 4096) InvalidSecretFile) (\<lambda>_.
     op_return content)))))"

definition secret_input_ok :: "string \<Rightarrow> bool" where
  "secret_input_ok v \<longleftrightarrow> v \<noteq> [] \<and> CHR 0x0D \<notin> set v \<and> CHR 0x0A \<notin> set v \<and> CHR 0x00 \<notin> set v \<and> is_trimmed v"

definition read_or_prompt_secret :: "faults \<Rightarrow> string option \<Rightarrow> bool \<Rightarrow> string \<Rightarrow> ('b, string) setup_op" where
  "read_or_prompt_secret faults path interactive label =
     op_bind (case path of
         Some p \<Rightarrow> op_map_err (\<lambda>_. InvalidSecret label) (on_files (read_secret_input faults p))
       | None \<Rightarrow> if interactive then prompt_password else (\<lambda>w. (Err (NeedsValue label), w))) (\<lambda>v.
     op_bind (op_check (secret_input_ok (trim_newlines v)) (InvalidSecret label)) (\<lambda>_.
     op_return (trim_newlines v)))"

section \<open>Collecting the values\<close>

definition lightsail_ready :: "setup_args \<Rightarrow> Provider \<Rightarrow> ('b, unit) setup_op" where
  "lightsail_ready args provider =
     (let interactive = \<not> sa_non_interactive args in
      op_bind (op_check (\<not> (provider = LightsailProfile \<and> sa_create_buckets args)) LightsailCannotCreate) (\<lambda>_.
      if provider = LightsailProfile \<and> \<not> sa_skip_cors args
      then (if \<not> interactive then (\<lambda>w. (Err LightsailNeedsCors, w))
            else op_bind (prompt_yes_no False) (\<lambda>ready. op_check ready LightsailNeedsCors))
      else op_return ()))"

definition provider_address :: "'b setup_env \<Rightarrow> setup_args \<Rightarrow> Provider \<Rightarrow> ('b, string option \<times> string) setup_op" where
  "provider_address env args provider =
     (let interactive = \<not> sa_non_interactive args in
      case provider of
        R2Profile \<Rightarrow>
          op_bind (required_value (sa_account_id args) interactive ''Cloudflare Account ID'') (\<lambda>account_id.
          op_bind (op_check (length account_id = 32 \<and> list_all is_ascii_hexdigit account_id) InvalidAccountId) (\<lambda>_.
          op_return (Some (''https://'' @ to_ascii_lowercase account_id @ ''.r2.cloudflarestorage.com''), ''auto'')))
      | GenericProfile \<Rightarrow>
          op_bind (required_value (sa_endpoint_url args) interactive ''S3 endpoint URL'') (\<lambda>endpoint.
          op_bind (optional_or_prompt (sa_region args) interactive ''us-east-1'') (\<lambda>region.
          op_bind (op_of_result (validate_endpoint (se_urls env) endpoint)) (\<lambda>endpoint.
          op_bind (op_of_result (validate_region region)) (\<lambda>region.
          op_return (Some endpoint, region)))))
      | _ \<Rightarrow>
          op_bind (optional_or_prompt (sa_region args) interactive ''ap-northeast-2'') (\<lambda>region.
          op_bind (op_of_result (validate_region region)) (\<lambda>region.
          op_return (None, region))))"

definition collect_buckets :: "setup_args \<Rightarrow> ('b, string \<times> string) setup_op" where
  "collect_buckets args =
     (let interactive = \<not> sa_non_interactive args in
      op_bind (required_value (sa_bucket args) interactive ''Private bucket name'') (\<lambda>raw.
      op_bind (op_of_result (validate_bucket raw)) (\<lambda>raw_bucket.
      op_bind (case sa_derivative_bucket args of
          Some v \<Rightarrow> op_return v
        | None \<Rightarrow> if interactive then prompt_default raw_bucket else op_return raw_bucket) (\<lambda>derivative.
      op_bind (op_of_result (validate_bucket derivative)) (\<lambda>derivative_bucket.
      op_return (raw_bucket, derivative_bucket))))))"

definition collected_origins :: "'b setup_env \<Rightarrow> setup_args \<Rightarrow> bool \<Rightarrow> ('b, string list) setup_op" where
  "collected_origins env args configure_cors =
     (if \<not> configure_cors then op_return []
      else op_bind
        (if sa_origins args = [] \<and> \<not> sa_non_interactive args
         then op_bind prompt_required (\<lambda>v. op_of_result (validate_origins (se_urls env) (se_origin env) [v]))
         else op_of_result (validate_origins (se_urls env) (se_origin env) (sa_origins args))) (\<lambda>origins.
        op_bind (op_check (origins \<noteq> []) NeedsOrigin) (\<lambda>_. op_return origins)))"

definition collect_setup_values :: "'b setup_env \<Rightarrow> setup_args \<Rightarrow> ('b, setup_values) setup_op" where
  "collect_setup_values env args =
     (let interactive = \<not> sa_non_interactive args in
      op_bind (case sa_provider args of
          Some v \<Rightarrow> op_return v
        | None \<Rightarrow> if interactive then prompt_provider else (\<lambda>w. (Err NeedsProvider, w))) (\<lambda>provider.
      op_bind (lightsail_ready args provider) (\<lambda>_.
      op_bind (provider_address env args provider) (\<lambda>address.
      op_bind (collect_buckets args) (\<lambda>buckets.
      op_bind (optional_or_prompt (sa_tenant_id args) interactive ''g7-site'') (\<lambda>tenant.
      op_bind (op_of_result (validate_tenant tenant)) (\<lambda>tenant_id.
      let lightsail = (provider = LightsailProfile); configure_cors = (\<not> sa_skip_cors args \<and> \<not> lightsail) in
      op_bind (collected_origins env args configure_cors) (\<lambda>origins.
      op_bind (read_or_prompt_secret (se_faults env) (sa_access_key_id_file args) interactive ''S3 Access Key ID'') (\<lambda>access_key_id.
      op_bind (read_or_prompt_secret (se_faults env) (sa_secret_access_key_file args) interactive ''S3 Secret Access Key'')
        (\<lambda>secret_access_key.
      op_bind (op_check (length access_key_id \<le> 256 \<and> length secret_access_key \<le> 1024) CredentialTooLong) (\<lambda>_.
      op_bind (if lightsail then op_return False
               else if interactive \<and> \<not> sa_create_buckets args then prompt_yes_no (provider \<noteq> GenericProfile)
               else op_return (sa_create_buckets args)) (\<lambda>create_buckets.
      op_bind (if interactive \<and> \<not> sa_defer_storage args then op_bind (prompt_yes_no True) (\<lambda>now. op_return (\<not> now))
               else op_return (sa_defer_storage args)) (\<lambda>defer_storage.
      op_return
        \<lparr>sv_provider = provider, sv_endpoint_url = fst address, sv_region = snd address, sv_raw_bucket = fst buckets,
         sv_derivative_bucket = snd buckets, sv_origins = origins, sv_access_key_id = access_key_id,
         sv_secret_access_key = secret_access_key, sv_tenant_id = tenant_id,
         sv_force_path_style = sa_force_path_style args, sv_create_buckets = create_buckets,
         sv_configure_cors = configure_cors, sv_defer_storage = defer_storage\<rparr>)))))))))))))"

section \<open>The configuration file\<close>

definition setting_line :: "string \<Rightarrow> string \<Rightarrow> string" where
  "setting_line name v = name @ '' = '' @ v"

definition show_bool :: "bool \<Rightarrow> string" where
  "show_bool b = (if b then ''true'' else ''false'')"

definition quoted :: "string \<Rightarrow> string" where
  "quoted v = CHR 0x22 # v @ [CHR 0x22]"

definition config_lines :: "(string \<Rightarrow> string) \<Rightarrow> setup_values \<Rightarrow> string \<Rightarrow> string \<Rightarrow> string \<Rightarrow> string list" where
  "config_lines toml_string values access_path secret_path hmac_path =
     [''# Generated by g7mbctl setup for '' @ provider_debug (sv_provider values) @ ''. Secrets are loaded from root-only files.'',
      ''[server]'', setting_line ''bind_addr'' (quoted ''127.0.0.1:8088''), [],
      ''[auth]'', setting_line ''key_id'' (quoted ''g7-primary''), setting_line ''tenant_id'' (toml_string (sv_tenant_id values)),
      setting_line ''hmac_secret_file'' (toml_string hmac_path), [],
      ''[storage]'', setting_line ''provider'' (toml_string (config_name (sv_provider values)))] @
     (case sv_endpoint_url values of None \<Rightarrow> [] | Some v \<Rightarrow> [setting_line ''endpoint_url'' (toml_string v)]) @
     [setting_line ''region'' (toml_string (sv_region values)), setting_line ''raw_bucket'' (toml_string (sv_raw_bucket values)),
      setting_line ''derivative_bucket'' (toml_string (sv_derivative_bucket values)),
      setting_line ''access_key_id_file'' (toml_string access_path),
      setting_line ''secret_access_key_file'' (toml_string secret_path),
      setting_line ''force_path_style'' (show_bool (sv_force_path_style values)), [],
      ''[database]'', setting_line ''url'' (quoted ''sqlite:///var/lib/g7mediabooster/g7mb.db''),
      setting_line ''backup_directory'' (quoted ''/var/lib/g7mediabooster/backups''), [],
      ''[worker]'', setting_line ''sandbox_binary'' (quoted ''/usr/local/libexec/g7mb-sandbox''),
      setting_line ''temp_directory'' (quoted ''/var/lib/g7mediabooster/tmp''), setting_line ''max_temp_disk_bytes'' ''12884901888'', [],
      ''[delivery]'', ''# Enable only after installing the provided Nginx path-only proxy.'', setting_line ''public_enabled'' ''false'',
      setting_line ''public_bind_addr'' (quoted ''127.0.0.1:8089''),
      ''# HMAC protocols use distinct canonical domains. Advanced deployments may pin'',
      ''# a separate root-only file before enabling this listener.'',
      setting_line ''public_signing_secret_file'' (toml_string hmac_path)]"

definition render_config :: "(string \<Rightarrow> string) \<Rightarrow> setup_values \<Rightarrow> string \<Rightarrow> string \<Rightarrow> string \<Rightarrow> (setup_error, string) result" where
  "render_config toml_string values access_path secret_path hmac_path =
     accept_if (utf8_valid access_path \<and> utf8_valid secret_path \<and> utf8_valid hmac_path) InvalidPath
       (concat (map (\<lambda>line. line @ [newline]) (config_lines toml_string values access_path secret_path hmac_path)))"

section \<open>Targets\<close>

definition preflight_target :: "faults \<Rightarrow> string \<Rightarrow> string \<Rightarrow> bool \<Rightarrow> (setup_error, unit) fs_op" where
  "preflight_target faults path contents force =
     op_bind (op_try (io faults () (symlink_metadata path))) (\<lambda>metadata.
     case metadata of
       None \<Rightarrow> op_return ()
     | Some node \<Rightarrow>
         op_bind (op_check (is_regular node) (TargetNotRegular path)) (\<lambda>_.
         op_bind (io faults (FileFailure path) (read_content path)) (\<lambda>existing.
         op_check (existing = contents \<or> force) (TargetExists path))))"

definition temporary_path :: "string \<Rightarrow> string \<Rightarrow> string" where
  "temporary_path pid path = path_join (path_parent path) (''.'' @ path_file_name path @ ''.tmp-'' @ pid)"

definition atomic_write :: "faults \<Rightarrow> string \<Rightarrow> string \<Rightarrow> string \<Rightarrow> nat \<Rightarrow> bool \<Rightarrow> (setup_error, unit) fs_op" where
  "atomic_write faults pid path contents mode force =
     op_bind (op_try (io faults () (symlink_metadata path))) (\<lambda>metadata.
     op_bind (op_check (case metadata of None \<Rightarrow> True | Some node \<Rightarrow> is_regular node) (TargetNotRegular path)) (\<lambda>_.
     op_bind (op_try (io faults () (read_content path))) (\<lambda>existing.
     if existing = Some contents then io faults (FileFailure path) (set_mode path mode)
     else op_bind (op_check (existing = None \<or> force) (TargetExists path)) (\<lambda>_.
       op_bind (op_check (utf8_valid (path_file_name path)) InvalidPath) (\<lambda>_.
       replace_file faults (FileFailure path) (temporary_path pid path) path contents mode)))))"

definition create_directory :: "faults \<Rightarrow> string \<Rightarrow> (setup_error, unit) fs_op" where
  "create_directory faults path =
     op_bind (io faults (FileFailure path) (create_dir_all path)) (\<lambda>_.
     io faults (FileFailure path) (set_dir_mode path))"

section \<open>Setup\<close>

definition storage_settings :: "setup_values \<Rightarrow> StorageSettings" where
  "storage_settings values =
     \<lparr>sto_provider = storage_provider (sv_provider values), sto_endpoint_url = sv_endpoint_url values,
      sto_region = sv_region values, sto_raw_bucket = sv_raw_bucket values,
      sto_derivative_bucket = sv_derivative_bucket values, sto_access_key_id = sv_access_key_id values,
      sto_access_key_id_file = None, sto_secret_access_key = sv_secret_access_key values,
      sto_secret_access_key_file = None, sto_force_path_style = sv_force_path_style values\<rparr>"

definition access_path :: "setup_args \<Rightarrow> string" where
  "access_path args = path_join (sa_secrets_dir args) ''storage-access-key-id''"

definition secret_path :: "setup_args \<Rightarrow> string" where
  "secret_path args = path_join (sa_secrets_dir args) ''storage-secret-access-key''"

definition hmac_path :: "setup_args \<Rightarrow> string" where
  "hmac_path args = path_join (sa_secrets_dir args) ''g7-hmac-secret''"

text \<open>(No link at this path is dangling.)\<close>

definition choose_hmac :: "'b setup_env \<Rightarrow> setup_args \<Rightarrow> (setup_error, string) fs_op" where
  "choose_hmac env args =
     op_bind (op_try (io (se_faults env) () (symlink_metadata (hmac_path args)))) (\<lambda>existing.
     if existing \<noteq> None \<and> \<not> sa_force args then read_secret_input (se_faults env) (hmac_path args)
     else op_of_result (case se_random env of None \<Rightarrow> Err NoRandomness | Some v \<Rightarrow> Ok v))"

definition preflight :: "'b setup_env \<Rightarrow> setup_args \<Rightarrow> setup_values \<Rightarrow> string \<Rightarrow> string \<Rightarrow> (setup_error, unit) fs_op" where
  "preflight env args values hmac_secret rendered =
     op_bind (preflight_target (se_faults env) (access_path args) (sv_access_key_id values) (sa_force args)) (\<lambda>_.
     op_bind (preflight_target (se_faults env) (secret_path args) (sv_secret_access_key values) (sa_force args)) (\<lambda>_.
     op_bind (preflight_target (se_faults env) (hmac_path args) hmac_secret (sa_force args)) (\<lambda>_.
     preflight_target (se_faults env) (sa_config args) rendered (sa_force args))))"

definition try_storage :: "'b setup_env \<Rightarrow> setup_values \<Rightarrow> ('b, unit) store_op" where
  "try_storage env values =
     (if sv_defer_storage values then op_return ()
      else let storage = storage_settings values in
        op_bind (op_of_result (S3StorageAdmin_new (se_urls env) (se_client env storage) storage)) (\<lambda>admin.
        op_bind (bootstrap admin storage (sv_create_buckets values) (if sv_configure_cors values then sv_origins values else [])) (\<lambda>_.
        op_bind (canary admin (se_run_ids env) storage) (\<lambda>_. op_return ()))))"

text \<open>What \<open>Settings::load\<close> finds of a secret file.\<close>

definition files_secret_host :: "(string \<times> node) list \<Rightarrow> secret_host" where
  "files_secret_host nodes =
     \<lparr>host_metadata = (\<lambda>path. case map_of nodes path of
          None \<Rightarrow> Err ''not found''
        | Some (FileNode c m) \<Rightarrow> Ok \<lparr>fm_kind = RegularFile, fm_len = length c, fm_mode = of_nat m\<rparr>
        | Some DirNode \<Rightarrow> Ok \<lparr>fm_kind = OtherFile, fm_len = 0, fm_mode = 0\<rparr>
        | Some (LinkNode d) \<Rightarrow> Ok \<lparr>fm_kind = SymlinkFile, fm_len = 0, fm_mode = 0\<rparr>),
      host_read = (\<lambda>path. case map_of nodes path of Some (FileNode c m) \<Rightarrow> Ok c | _ \<Rightarrow> Err ''not readable'')\<rparr>"

definition load_config :: "'b setup_env \<Rightarrow> string \<Rightarrow> (string \<times> node) list \<Rightarrow> (ConfigError, Settings) result" where
  "load_config env path nodes =
     load (se_urls env) (files_secret_host nodes)
       (case map_of nodes path of Some (FileNode c m) \<Rightarrow> se_parse_config env c | _ \<Rightarrow> Err (Message ''not found''))"

text \<open>\<open>Path::starts_with\<close> compares components.\<close>

definition product_config :: "string \<Rightarrow> bool" where
  "product_config path \<longleftrightarrow> path = ''/etc/g7mediabooster'' \<or> starts_with ''/etc/g7mediabooster/'' path"

definition write_targets :: "'b setup_env \<Rightarrow> setup_args \<Rightarrow> setup_values \<Rightarrow> string \<Rightarrow> string \<Rightarrow> (setup_error, unit) fs_op" where
  "write_targets env args values hmac_secret rendered =
     (let faults = se_faults env; pid = se_pid env; force = sa_force args in
      op_bind (create_directory faults (sa_secrets_dir args)) (\<lambda>_.
      op_bind (atomic_write faults pid (access_path args) (sv_access_key_id values) 384 force) (\<lambda>_.
      op_bind (atomic_write faults pid (secret_path args) (sv_secret_access_key values) 384 force) (\<lambda>_.
      op_bind (atomic_write faults pid (hmac_path args) hmac_secret 384 force) (\<lambda>_.
      op_bind (create_directory faults (path_parent (sa_config args))) (\<lambda>_.
      op_bind (atomic_write faults pid (sa_config args) rendered 416 force) (\<lambda>_.
      op_bind (op_check (sa_skip_ownership args \<or> \<not> product_config (sa_config args) \<or> se_chgrp env) GroupFailure) (\<lambda>_.
      io faults ConfigRejected (\<lambda>nodes. case load_config env (sa_config args) nodes of Inl _ \<Rightarrow> None | Inr _ \<Rightarrow> Some ((), nodes))))))))))"

definition prepare_setup :: "'b setup_env \<Rightarrow> setup_args \<Rightarrow> ('b, setup_values \<times> string \<times> string) setup_op" where
  "prepare_setup env args =
     op_bind (op_check (sa_non_interactive args \<or> se_terminal env) NeedsTerminal) (\<lambda>_.
     op_bind (op_check (is_absolute (sa_config args) \<and> is_absolute (sa_secrets_dir args)) NeedsAbsolutePaths) (\<lambda>_.
     op_bind (collect_setup_values env args) (\<lambda>values.
     op_bind (on_files (choose_hmac env args)) (\<lambda>hmac_secret.
     op_bind (op_of_result (render_config (se_toml_string env) values (access_path args) (secret_path args) (hmac_path args)))
       (\<lambda>rendered.
     op_bind (on_files (preflight env args values hmac_secret rendered)) (\<lambda>_.
     op_bind (on_store (try_storage env values)) (\<lambda>_.
     op_return (values, hmac_secret, rendered))))))))"

definition run_setup :: "'b setup_env \<Rightarrow> setup_args \<Rightarrow> ('b, unit) setup_op" where
  "run_setup env args =
     op_bind (prepare_setup env args) (\<lambda>(values, hmac_secret, rendered).
     on_files (write_targets env args values hmac_secret rendered))"

section \<open>The storage commands\<close>

definition load_settings :: "'b setup_env \<Rightarrow> string \<Rightarrow> ('b, Settings) setup_op" where
  "load_settings env path =
     on_files (io (se_faults env) ConfigRejected (\<lambda>nodes.
       case load_config env path nodes of Inl _ \<Rightarrow> None | Inr s \<Rightarrow> Some (s, nodes)))"

definition storage_bootstrap :: "'b setup_env \<Rightarrow> string \<Rightarrow> bool \<Rightarrow> string list \<Rightarrow> bool \<Rightarrow> ('b, BucketBootstrapReport list) setup_op" where
  "storage_bootstrap env path create_missing requested skip_cors =
     op_bind (load_settings env path) (\<lambda>settings.
     op_bind (op_of_result (if skip_cors then Ok [] else validate_origins (se_urls env) (se_origin env) requested)) (\<lambda>origins.
     op_bind (op_check (skip_cors \<or> origins \<noteq> []) NeedsOrigin) (\<lambda>_.
     let storage = set_storage settings in
     on_store (op_bind (op_of_result (S3StorageAdmin_new (se_urls env) (se_client env storage) storage)) (\<lambda>admin.
       bootstrap admin storage create_missing origins)))))"

definition storage_doctor :: "'b setup_env \<Rightarrow> string \<Rightarrow> ('b, StorageCanaryReport) setup_op" where
  "storage_doctor env path =
     op_bind (load_settings env path) (\<lambda>settings.
     let storage = set_storage settings in
     on_store (op_bind (op_of_result (S3StorageAdmin_new (se_urls env) (se_client env storage) storage)) (\<lambda>admin.
       canary admin (se_run_ids env) storage)))"

end
