(* ===== verification/Setup_Contracts.thy ===== *)
theory Setup_Contracts
  imports Setup S3_Contracts
begin

text \<open>
  What \<open>setup\<close> guarantees.  Its files appear in one order and each of them atomically, whatever I/O
  operation fails; without \<open>--force\<close> no existing content is lost; nothing is written before the storage
  was tried; and what it accepts of the operator's answers is compared with what the services accept of
  the configuration it renders.
\<close>

section \<open>One target\<close>

lemma op_try_cases:
  assumes "op_try m s = (r, s')"
  obtains e where "m s = (Err e, s')" "r = Ok None" | a where "m s = (Ok a, s')" "r = Ok (Some a)"
  using assms by (auto simp: op_try_def split: prod.splits sum.splits)

lemma op_try_total: "\<exists>a s'. op_try m s = (Ok a, s')"
  by (auto simp: op_try_def split: prod.split sum.split)

lemma touches_try [simp]: "touches_only view K m \<Longrightarrow> touches_only view K (op_try m)"
  unfolding touches_only_def op_try_def by (fastforce split: prod.splits sum.splits)

lemma touches_of_result [simp]: "touches_only view K (op_of_result r)"
  by (simp add: touches_only_def op_of_result_def)

lemma touches_preflight_target [simp]: "touches_only entry {} (preflight_target faults path contents force)"
  unfolding preflight_target_def by (intro touches_only_bind) (auto intro!: touches_only_bind split: option.split)

lemma touches_secret_input [simp]: "touches_only entry {} (read_secret_input faults path)"
  unfolding read_secret_input_def by (intro touches_only_bind) auto

lemma touches_choose_hmac [simp]: "touches_only entry {} (choose_hmac env args)"
  unfolding choose_hmac_def by (intro touches_only_bind) auto

lemma touches_preflight [simp]: "touches_only entry {} (preflight env args values hmac rendered)"
  unfolding preflight_def by (intro touches_only_bind) auto

lemma try_meta:
  assumes "op_try (io faults () (symlink_metadata path)) w = (Ok r :: (setup_error, node option) result, w')"
  shows "entry w' = entry w" "faults (fs_ops w) = None \<Longrightarrow> r = entry w path"
proof -
  show "entry w' = entry w" using touches_nothing[OF touches_try[OF touches_reads(1)] assms] .
  show "faults (fs_ops w) = None \<Longrightarrow> r = entry w path"
    using assms by (auto simp: op_try_def io_def io_partial_def Let_def symlink_metadata_def entry_def split: option.splits)
qed

lemma try_read:
  assumes "op_try (io faults () (read_content path)) w = (Ok r :: (setup_error, string option) result, w')"
  shows "entry w' = entry w" "r = Some c \<Longrightarrow> \<exists>m. entry w path = Some (FileNode c m)"
    "faults (fs_ops w) = None \<Longrightarrow> r = None \<Longrightarrow> entry w path \<noteq> Some (FileNode d n)"
proof -
  show "entry w' = entry w" using touches_nothing[OF touches_try[OF touches_reads(2)] assms] .
  show "r = Some c \<Longrightarrow> \<exists>m. entry w path = Some (FileNode c m)"
    using assms read_Ok[of faults "()" path w c w'] by (auto simp: op_try_def split: prod.splits sum.splits)
  show "faults (fs_ops w) = None \<Longrightarrow> r = None \<Longrightarrow> entry w path \<noteq> Some (FileNode d n)"
    using assms by (auto simp: op_try_def io_def io_partial_def Let_def read_content_def entry_def split: option.splits)
qed

text \<open>A write stops before it changes anything, finds the content in place and sets the mode, or replaces
  the file: without \<open>--force\<close>, and with readable files, only where there was none.\<close>

definition replaces :: "faults \<Rightarrow> string \<Rightarrow> bool \<Rightarrow> host_fs \<Rightarrow> bool" where
  "replaces faults path force w \<longleftrightarrow> ((\<forall>n. faults n = None) \<and> \<not> force \<longrightarrow> entry w path = None)"

lemma atomic_write_steps:
  assumes "atomic_write faults pid path contents mode force w = (r, w')"
  obtains e where "entry w' = entry w" "r = Err e"
  | w1 m where "entry w1 = entry w" "entry w path = Some (FileNode contents m)"
      "io faults (FileFailure path) (set_mode path mode) w1 = (r, w')"
  | w1 where "entry w1 = entry w" "replaces faults path force w"
      "replace_file faults (FileFailure path) (temporary_path pid path) path contents mode w1 = (r, w')"
proof -
  note run = assms[unfolded atomic_write_def]
  obtain metadata w0 where meta: "op_try (io faults () (symlink_metadata path)) w = (Ok metadata :: (setup_error, node option) result, w0)"
    by (meson op_try_total)
  obtain existing w1 where read: "op_try (io faults () (read_content path)) w0 = (Ok existing :: (setup_error, string option) result, w1)"
    by (meson op_try_total)
  have w0: "entry w0 = entry w" and w1: "entry w1 = entry w" using try_meta(1)[OF meta] try_read(1)[OF read] by simp_all
  let ?plain = "case metadata of None \<Rightarrow> True | Some node \<Rightarrow> is_regular node"
  let ?new = "(existing = None \<or> force) \<and> utf8_valid (path_file_name path)"
  have cases: "(r, w') = (if \<not> ?plain then (Err (TargetNotRegular path), w0)
     else if existing = Some contents then io faults (FileFailure path) (set_mode path mode) w1
     else if \<not> (existing = None \<or> force) then (Err (TargetExists path), w1)
     else if \<not> utf8_valid (path_file_name path) then (Err InvalidPath, w1)
     else replace_file faults (FileFailure path) (temporary_path pid path) path contents mode w1)"
    using run meta read by (auto simp: op_bind_def op_check_def split: if_splits)
  consider "\<not> ?plain" | "?plain" "existing = Some contents" | "?plain" "existing \<noteq> Some contents" "\<not> ?new"
    | "?plain" "existing \<noteq> Some contents" "?new" by blast
  then show thesis
  proof cases
    case 1
    then show thesis using cases w0 that(1) by simp
  next
    case 2
    obtain m where "entry w path = Some (FileNode contents m)" using try_read(2)[OF read 2(2)] w0 by auto
    then show thesis using cases 2 w1 that(2) by simp
  next
    case 3
    then show thesis using cases w1 that(1) by (simp split: if_splits)
  next
    case 4
    have "entry w path = None" if none: "\<And>n. faults n = None" and "\<not> force"
    proof (rule ccontr)
      assume "entry w path \<noteq> None"
      then obtain node where node: "entry w path = Some node" by blast
      then have "is_regular node" using 4(1) try_meta(2)[OF meta none] by simp
      then obtain c m where "node = FileNode c m" by (auto simp: is_regular_def split: node.splits)
      then show False using try_read(3)[OF read none, of c m] node w0 4 \<open>\<not> force\<close> by simp
    qed
    then have "replaces faults path force w" unfolding replaces_def by blast
    then show thesis using cases 4 w1 that(3) by simp
  qed
qed

text \<open>The temporary file has a longer name than its target.\<close>

lemma path_length: "length path \<le> Suc (length (path_parent path) + length (path_file_name path))"
proof -
  let ?slash = "\<lambda>c. c \<noteq> CHR ''/''"
  have "length (rev path) = length (takeWhile ?slash (rev path) @ dropWhile ?slash (rev path))"
    by (simp only: takeWhile_dropWhile_id)
  then have "length path = length (path_file_name path) + length (dropWhile ?slash (rev path))"
    by (simp only: length_append length_rev path_file_name_def)
  moreover have "length (dropWhile ?slash (rev path)) \<le> Suc (length (path_parent path))"
  proof -
    have "length d \<le> Suc (length (case d of [] \<Rightarrow> [] | [_] \<Rightarrow> ''/'' | _ # rest \<Rightarrow> rev rest))" for d :: string
      by (simp split: list.split)
    then show ?thesis unfolding path_parent_def .
  qed
  ultimately show ?thesis by linarith
qed

lemma temporary_path_longer: "length path < length (temporary_path pid path)"
  using path_length[of path] by (simp add: temporary_path_def path_join_def)

lemma temporary_path_other [simp]: "temporary_path pid path \<noteq> path"
  using temporary_path_longer[of path pid] by auto

lemma atomic_write_Ok:
  assumes "atomic_write faults pid path contents mode force w = (Ok u, w')"
  shows "entry w' = (entry w)(path \<mapsto> FileNode contents mode)"
  using assms
proof (cases rule: atomic_write_steps)
  case (2 w1 m)
  then show ?thesis using mode_Ok[OF 2(3)] by auto
next
  case (3 w1)
  then show ?thesis using replace_file_Ok[OF 3(3)] by simp
qed simp

lemma atomic_write_Err:
  assumes "atomic_write faults pid path contents mode force w = (Err e, w')" "p \<noteq> temporary_path pid path"
  shows "entry w' p = entry w p"
  using assms(1)
proof (cases rule: atomic_write_steps)
  case (2 w1 m)
  then show ?thesis using io_Err[OF 2(3)] by simp
next
  case (3 w1)
  then show ?thesis using replace_file_Err[OF 3(3) assms(2)] by simp
qed simp

lemma atomic_write_unforced:
  assumes "atomic_write faults pid path contents mode False w = (r, w')" "\<forall>n. faults n = None"
    and "entry w p = Some (FileNode c m)" "p \<noteq> temporary_path pid path"
  shows "\<exists>m'. entry w' p = Some (FileNode c m')"
proof (cases r)
  case (Inl e)
  then show ?thesis using atomic_write_Err[OF assms(1)[unfolded Inl] assms(4)] assms(3) by simp
next
  case (Inr u)
  then have ok: "entry w' = (entry w)(path \<mapsto> FileNode contents mode)" using atomic_write_Ok assms(1) by simp
  from assms(1) show ?thesis
  proof (cases rule: atomic_write_steps)
    case (3 w1)
    then have "entry w path = None" using assms(2) by (auto simp: replaces_def)
    then show ?thesis using ok assms(3) by (cases "p = path") auto
  qed (use ok assms(3) in auto)
qed

section \<open>The four targets\<close>

text \<open>What \<open>setup\<close> writes, in its order; what it needs besides: temporary files and two directories.\<close>

definition setup_targets :: "setup_args \<Rightarrow> setup_values \<Rightarrow> string \<Rightarrow> string \<Rightarrow> (string \<times> node) list" where
  "setup_targets args values hmac_secret rendered =
     [(access_path args, FileNode (sv_access_key_id values) 384), (secret_path args, FileNode (sv_secret_access_key values) 384),
      (hmac_path args, FileNode hmac_secret 384), (sa_config args, FileNode rendered 416)]"

definition setup_paths :: "setup_args \<Rightarrow> string list" where
  "setup_paths args = [access_path args, secret_path args, hmac_path args, sa_config args]"

definition setup_scratch :: "'b setup_env \<Rightarrow> setup_args \<Rightarrow> string set" where
  "setup_scratch env args =
     set (map (temporary_path (se_pid env)) (setup_paths args)) \<union> {sa_secrets_dir args, path_parent (sa_config args)}"

definition written :: "(string \<times> node) list \<Rightarrow> (string \<Rightarrow> node option) \<Rightarrow> string \<Rightarrow> node option" where
  "written targets view = foldl (\<lambda>v (path, node). v(path \<mapsto> node)) view targets"

text \<open>Outside the scratch paths, \<open>k\<close> of the targets have been written since \<open>view\<close>.\<close>

definition progress :: "string set \<Rightarrow> (string \<times> node) list \<Rightarrow> (string \<Rightarrow> node option) \<Rightarrow> nat \<Rightarrow> host_fs \<Rightarrow> bool" where
  "progress scratch targets view k w \<longleftrightarrow> (\<forall>p. p \<notin> scratch \<longrightarrow> entry w p = written (take k targets) view p)"

lemma progress_0: "progress scratch targets (entry w) 0 w"
  by (simp add: progress_def written_def)

lemma progress_scratch:
  assumes "progress scratch targets view k w" "touches_only entry {d} m" "d \<in> scratch" "m w = (r, w')"
  shows "progress scratch targets view k w'"
  using assms touches_onlyD[OF assms(2,4)] unfolding progress_def by fastforce

lemma progress_nothing:
  assumes "progress scratch targets view k w" "touches_only entry {} m" "m w = (r, w')"
  shows "progress scratch targets view k w'"
  using assms touches_nothing[OF assms(2,3)] unfolding progress_def by simp

lemma progress_write:
  assumes "progress scratch targets view k w" "k < length targets" "targets ! k = (path, FileNode contents mode)"
    and "temporary_path pid path \<in> scratch" "atomic_write faults pid path contents mode force w = (r, w')"
  shows "(\<exists>e. r = Err e) \<and> progress scratch targets view k w' \<or> r = Ok () \<and> progress scratch targets view (Suc k) w'"
proof (cases r)
  case (Inl e)
  have "p \<noteq> temporary_path pid path" if "p \<notin> scratch" for p using that assms(4) by auto
  then have "progress scratch targets view k w'"
    using atomic_write_Err[OF assms(5)[unfolded Inl]] assms(1) unfolding progress_def by simp
  then show ?thesis using Inl by simp
next
  case (Inr u)
  have "entry w' = (entry w)(path \<mapsto> FileNode contents mode)" using atomic_write_Ok assms(5) Inr by simp
  moreover have "take (Suc k) targets = take k targets @ [(path, FileNode contents mode)]"
    using assms(2,3) by (simp add: take_Suc_conv_app_nth)
  ultimately show ?thesis using assms(1) Inr by (simp add: progress_def written_def)
qed

lemma touches_create_directory: "touches_only entry {path} (create_directory faults path)"
  unfolding create_directory_def
  by (intro touches_only_bind) (auto intro!: touches_writes(5) touches_io[of "set_dir_mode path"] simp: set_dir_mode_def split: if_splits)

text \<open>The writing half of the command.\<close>

definition stopped :: "string set \<Rightarrow> (string \<times> node) list \<Rightarrow> (string \<Rightarrow> node option) \<Rightarrow> host_fs \<Rightarrow> bool" where
  "stopped scratch targets view w \<longleftrightarrow> (\<exists>k\<le>length targets. progress scratch targets view k w)"

lemma ensures_progress_scratch:
  assumes "touches_only entry {d} m" "d \<in> scratch" "k \<le> length targets"
  shows "ensures (progress scratch targets view k) m (\<lambda>_. progress scratch targets view k) (\<lambda>_. stopped scratch targets view)"
  unfolding ensures_def
proof (intro allI impI)
  fix w r w'
  assume "progress scratch targets view k w" "m w = (r, w')"
  then have "progress scratch targets view k w'" using progress_scratch[OF _ assms(1,2)] by metis
  then show "case r of Inl e \<Rightarrow> stopped scratch targets view w' | Inr a \<Rightarrow> progress scratch targets view k w'"
    using assms(3) stopped_def by (cases r) auto
qed

lemma ensures_progress_write:
  assumes "k < length targets" "targets ! k = (path, FileNode contents mode)" "temporary_path pid path \<in> scratch"
  shows "ensures (progress scratch targets view k) (atomic_write faults pid path contents mode force)
    (\<lambda>_. progress scratch targets view (Suc k)) (\<lambda>_. stopped scratch targets view)"
  unfolding ensures_def
proof (intro allI impI)
  fix w r w'
  assume "progress scratch targets view k w" "atomic_write faults pid path contents mode force w = (r, w')"
  from progress_write[OF this(1) assms this(2)] assms(1)
  show "case r of Inl e \<Rightarrow> stopped scratch targets view w' | Inr a \<Rightarrow> progress scratch targets view (Suc k) w'"
    unfolding stopped_def by (elim disjE conjE exE) (simp_all, metis less_imp_le)
qed

lemma ensures_load:
  "ensures (progress scratch targets view (length targets))
     (io faults ConfigRejected (\<lambda>nodes. case load_config env path nodes of Inl _ \<Rightarrow> None | Inr _ \<Rightarrow> Some ((), nodes)))
     (\<lambda>_ w. progress scratch targets view (length targets) w \<and> (\<exists>s. load_config env path (fs_nodes w) = Ok s))
     (\<lambda>_. stopped scratch targets view)"
  unfolding ensures_def
proof (intro allI impI)
  fix w r w'
  assume *: "progress scratch targets view (length targets) w"
    "io faults ConfigRejected (\<lambda>nodes. case load_config env path nodes of Inl _ \<Rightarrow> None | Inr _ \<Rightarrow> Some ((), nodes)) w = (r, w')"
  show "case r of Inl e \<Rightarrow> stopped scratch targets view w'
    | Inr a \<Rightarrow> progress scratch targets view (length targets) w' \<and> (\<exists>s. load_config env path (fs_nodes w') = Ok s)"
  proof (cases r)
    case (Inl e)
    have "entry w' = entry w" using io_Err[OF *(2)[unfolded Inl]] .
    then have "progress scratch targets view (length targets) w'" using *(1) by (simp add: progress_def)
    then show ?thesis using Inl unfolding stopped_def by auto
  next
    case (Inr u)
    then have "fs_nodes w' = fs_nodes w" "\<exists>s. load_config env path (fs_nodes w) = Ok s"
      using *(2) by (auto simp: io_Ok split: sum.splits)
    then show ?thesis using *(1) Inr by (simp add: progress_def entry_def)
  qed
qed

lemma write_targets_ensures:
  fixes env :: "'b setup_env" and args vals hmac_secret rendered
  defines "targets \<equiv> setup_targets args vals hmac_secret rendered"
  shows "ensures (progress (setup_scratch env args) targets view 0) (write_targets env args vals hmac_secret rendered)
    (\<lambda>_ w. progress (setup_scratch env args) targets view (length targets) w \<and>
       (\<exists>s. load_config env (sa_config args) (fs_nodes w) = Ok s))
    (\<lambda>_. stopped (setup_scratch env args) targets view)"
proof -
  have scratch: "sa_secrets_dir args \<in> setup_scratch env args" "path_parent (sa_config args) \<in> setup_scratch env args"
    "temporary_path (se_pid env) (access_path args) \<in> setup_scratch env args"
    "temporary_path (se_pid env) (secret_path args) \<in> setup_scratch env args"
    "temporary_path (se_pid env) (hmac_path args) \<in> setup_scratch env args"
    "temporary_path (se_pid env) (sa_config args) \<in> setup_scratch env args"
    by (simp_all add: setup_scratch_def setup_paths_def)
  have n: "length targets = Suc (Suc (Suc (Suc 0)))" by (simp add: targets_def setup_targets_def)
  have nth: "targets ! 0 = (access_path args, FileNode (sv_access_key_id vals) 384)"
    "targets ! Suc 0 = (secret_path args, FileNode (sv_secret_access_key vals) 384)"
    "targets ! Suc (Suc 0) = (hmac_path args, FileNode hmac_secret 384)"
    "targets ! Suc (Suc (Suc 0)) = (sa_config args, FileNode rendered 416)"
    by (simp_all add: targets_def setup_targets_def)
  note directory = ensures_progress_scratch[OF touches_create_directory, where targets = targets and view = view, unfolded n]
  note target = ensures_progress_write[where targets = targets and view = view, unfolded n, OF _ _ scratch(3)]
    ensures_progress_write[where targets = targets and view = view, unfolded n, OF _ _ scratch(4)]
    ensures_progress_write[where targets = targets and view = view, unfolded n, OF _ _ scratch(5)]
    ensures_progress_write[where targets = targets and view = view, unfolded n, OF _ _ scratch(6)]
  have check: "ensures (progress (setup_scratch env args) targets view (Suc (Suc (Suc (Suc 0))))) (op_check ok e)
      (\<lambda>_. progress (setup_scratch env args) targets view (Suc (Suc (Suc (Suc 0))))) (\<lambda>_. stopped (setup_scratch env args) targets view)" for ok e
    unfolding ensures_def op_check_def stopped_def n by auto
  show ?thesis
    unfolding write_targets_def Let_def n
    by (intro ensures_bind[OF directory[OF scratch(1)]] ensures_bind[OF target(1)[OF _ nth(1)]]
        ensures_bind[OF target(2)[OF _ nth(2)]] ensures_bind[OF target(3)[OF _ nth(3)]]
        ensures_bind[OF directory[OF scratch(2)]] ensures_bind[OF target(4)[OF _ nth(4)]] ensures_bind[OF check]
        ensures_load[of _ targets, unfolded n]) simp_all
qed

section \<open>Before anything is written\<close>

text \<open>Files and store, as the answers are collected.\<close>

definition world_view :: "'b setup_world \<Rightarrow> string \<Rightarrow> node option \<times> 'b" where
  "world_view w p = (entry (su_files w) p, su_store w)"

definition unaltering :: "('b, 'a) setup_op \<Rightarrow> bool" where
  "unaltering m \<longleftrightarrow> touches_only world_view {} m"

lemma unaltering_bind: "unaltering m \<Longrightarrow> (\<And>a. unaltering (k a)) \<Longrightarrow> unaltering (op_bind m k)"
  unfolding unaltering_def by (rule touches_only_bind)

lemma unaltering_simple [simp]:
  "unaltering (op_return a)" "unaltering (op_check ok e)" "unaltering (\<lambda>w. (Err e, w))" "unaltering (op_of_result r)"
  by (simp_all add: unaltering_def)

lemma unaltering_ask [simp]: "unaltering (ask accept)" "unaltering prompt_password"
  by (auto simp: unaltering_def touches_only_def ask_def prompt_password_def world_view_def split: option.splits list.splits)

lemma unaltering_files: "touches_only entry {} m \<Longrightarrow> unaltering (on_files m)"
  unfolding unaltering_def touches_only_def on_files_def op_within_def world_view_def by (fastforce split: prod.splits)

lemma unaltering_map_err: "unaltering m \<Longrightarrow> unaltering (op_map_err f m)"
  unfolding unaltering_def touches_only_def op_map_err_def by (fastforce split: prod.splits sum.splits)

lemma unaltering_prompts [simp]:
  "unaltering prompt_required" "unaltering (prompt_default s)" "unaltering (prompt_yes_no b)" "unaltering prompt_provider"
  "unaltering (required_value v i l)" "unaltering (optional_or_prompt v i l)"
  by (simp_all add: prompt_required_def prompt_default_def prompt_yes_no_def prompt_provider_def required_value_def
      optional_or_prompt_def)

lemma unaltering_secret [simp]: "unaltering (read_or_prompt_secret faults path interactive label)"
  unfolding read_or_prompt_secret_def
  by (intro unaltering_bind) (auto intro!: unaltering_map_err unaltering_files split: option.split)

lemma unaltering_parts [simp]:
  "unaltering (lightsail_ready args provider)" "unaltering (provider_address env args provider)"
  "unaltering (collect_buckets args)" "unaltering (collected_origins env args c)"
  unfolding lightsail_ready_def provider_address_def collect_buckets_def collected_origins_def Let_def
  by (auto intro!: unaltering_bind split: option.split Provider.split)

lemma unaltering_collect: "unaltering (collect_setup_values env args)"
  unfolding collect_setup_values_def Let_def
  by (intro unaltering_bind) (auto intro!: unaltering_bind split: option.split)

lemma unaltering_D: "unaltering m \<Longrightarrow> m w = (r, w') \<Longrightarrow> entry (su_files w') = entry (su_files w) \<and> su_store w' = su_store w"
  unfolding unaltering_def by (drule touches_nothing, assumption) (auto simp: world_view_def fun_eq_iff)

lemma on_store_D: "on_store m w = (r, w') \<Longrightarrow> su_files w' = su_files w \<and> (\<forall>a. r = Ok a \<longrightarrow> fst (m (su_store w)) = Ok a)"
  by (auto simp: on_store_def op_map_err_def op_within_def split: prod.splits sum.splits)

text \<open>Preparing changes no file, and ends well only with the storage tried, unless that was deferred.\<close>

definition unchanged :: "'b setup_world \<Rightarrow> 'b setup_world \<Rightarrow> bool" where
  "unchanged w v \<longleftrightarrow> entry (su_files v) = entry (su_files w) \<and> su_store v = su_store w"

lemma ensures_unaltering:
  assumes "unaltering m"
  shows "ensures (\<lambda>v. unchanged w v \<and> P) m (\<lambda>_ v. unchanged w v \<and> P) (\<lambda>_ v. entry (su_files v) = entry (su_files w))"
  unfolding ensures_def unchanged_def using unaltering_D[OF assms] by (auto split: sum.split)

lemma ensures_collect:
  "ensures (\<lambda>v. v = w) (collect_setup_values env args)
     (\<lambda>values v. unchanged w v \<and> fst (collect_setup_values env args w) = Ok values) (\<lambda>_ v. entry (su_files v) = entry (su_files w))"
  unfolding ensures_def unchanged_def
proof (intro allI impI)
  fix v r v'
  assume v: "v = w" and run: "collect_setup_values env args v = (r, v')"
  show "case r of Inl e \<Rightarrow> entry (su_files v') = entry (su_files w)
    | Inr a \<Rightarrow> (entry (su_files v') = entry (su_files w) \<and> su_store v' = su_store w) \<and> fst (collect_setup_values env args w) = Ok a"
    using unaltering_D[OF unaltering_collect run] run v by (simp split: sum.split)
qed

lemma ensures_storage:
  "ensures (\<lambda>v. unchanged w v \<and> P) (on_store m) (\<lambda>u v. entry (su_files v) = entry (su_files w) \<and> fst (m (su_store w)) = Ok u \<and> P)
     (\<lambda>_ v. entry (su_files v) = entry (su_files w))"
  unfolding ensures_def unchanged_def using on_store_D[of m] by (force split: sum.split)

lemma ensures_same: "ensures (\<lambda>v. v = w) (op_check ok e) (\<lambda>_ v. v = w) (\<lambda>_ v. entry (su_files v) = entry (su_files w))"
  by (simp add: ensures_def op_check_def)

lemma prepare_ensures:
  "ensures (\<lambda>v. v = w) (prepare_setup env args)
     (\<lambda>(vals, hmac_secret, rendered) v. entry (su_files v) = entry (su_files w) \<and>
        fst (collect_setup_values env args w) = Ok vals \<and> fst (try_storage env vals (su_store w)) = Ok ())
     (\<lambda>_ v. entry (su_files v) = entry (su_files w))"
  unfolding prepare_setup_def
  by (intro ensures_bind[OF ensures_same] ensures_bind[OF ensures_collect]
      ensures_bind[OF ensures_unaltering[OF unaltering_files[OF touches_choose_hmac]]]
      ensures_bind[OF ensures_unaltering[OF unaltering_simple(4)]]
      ensures_bind[OF ensures_unaltering[OF unaltering_files[OF touches_preflight]]] ensures_bind[OF ensures_storage])
    (simp add: ensures_def op_return_def)

lemma run_setup_cases:
  assumes "run_setup env args w = (r, w')"
  obtains e where "entry (su_files w') = entry (su_files w)" "r = Err e"
  | vals hmac_secret rendered w1 where "entry (su_files w1) = entry (su_files w)"
      "fst (collect_setup_values env args w) = Ok vals" "fst (try_storage env vals (su_store w)) = Ok ()"
      "on_files (write_targets env args vals hmac_secret rendered) w1 = (r, w')"
  using assms[unfolded run_setup_def]
proof (cases rule: op_bind_cases)
  case (1 e)
  then show thesis using ensuresD[OF prepare_ensures refl 1(1)] that(1) by simp
next
  case (2 prepared w1)
  obtain vals hmac_secret rendered where "prepared = (vals, hmac_secret, rendered)" by (cases prepared)
  then show thesis using ensuresD[OF prepare_ensures refl 2(1)] 2(2) that(2)[of w1 vals hmac_secret rendered] by simp
qed

text \<open>
  C31. Setup writes the access key, the secret key, the HMAC secret and the configuration in this order and
  each of them whole: whichever I/O operation fails, what can be found afterwards is the old host with a
  prefix of them written, nothing when the storage was not deferred and did not pass, and success means all
  four are there and the configuration loads.  (Other than by its temporary files and directories.)
\<close>

theorem setup_writes_a_prefix:
  assumes "run_setup env args w = (r, w')"
  shows "\<exists>vals hmac_secret rendered k. k \<le> 4 \<and>
    (\<forall>p. p \<notin> setup_scratch env args \<longrightarrow>
       entry (su_files w') p = written (take k (setup_targets args vals hmac_secret rendered)) (entry (su_files w)) p) \<and>
    (k > 0 \<longrightarrow> fst (collect_setup_values env args w) = Ok vals \<and> fst (try_storage env vals (su_store w)) = Ok ()) \<and>
    (r = Ok () \<longrightarrow> k = 4 \<and> (\<exists>s. load_config env (sa_config args) (fs_nodes (su_files w')) = Ok s))"
  using assms
proof (cases rule: run_setup_cases)
  case (1 e)
  show ?thesis by (rule exI, rule exI, rule exI, rule exI[of _ 0]) (simp add: written_def 1)
next
  case (2 vals hmac_secret rendered w1)
  let ?targets = "setup_targets args vals hmac_secret rendered"
  have n: "length ?targets = 4" by (simp add: setup_targets_def)
  have run: "write_targets env args vals hmac_secret rendered (su_files w1) = (r, su_files w')"
    using 2(4) by (auto simp: on_files_def op_within_def split: prod.splits)
  have start: "progress (setup_scratch env args) ?targets (entry (su_files w)) 0 (su_files w1)"
    by (simp add: progress_def written_def 2(1))
  have "\<exists>k\<le>4. progress (setup_scratch env args) ?targets (entry (su_files w)) k (su_files w') \<and>
      (r = Ok () \<longrightarrow> k = 4 \<and> (\<exists>s. load_config env (sa_config args) (fs_nodes (su_files w')) = Ok s))"
    using ensuresD[OF write_targets_ensures start run] by (cases r) (auto simp: stopped_def n)
  then show ?thesis using 2(2,3) unfolding progress_def by blast
qed

section \<open>Existing files\<close>

text \<open>\<open>holds path c\<close>: the file at \<open>path\<close> has content \<open>c\<close>.\<close>

definition holds :: "string \<Rightarrow> string \<Rightarrow> string \<Rightarrow> node option \<Rightarrow> bool" where
  "holds path c p e \<longleftrightarrow> (p = path \<longrightarrow> (\<exists>m. e = Some (FileNode c m)))"

lemma replace_file_blocked:
  assumes "replace_file faults e temporary path contents mode w = (r, w')" "entry w temporary \<noteq> None"
  shows "entry w' = entry w"
  using assms(1)[unfolded replace_file_def]
proof (cases rule: op_bind_cases)
  case (1 e1)
  then show ?thesis using io_Err[OF 1(1)] by simp
next
  case (2 u w1)
  then show ?thesis using new_Ok[OF 2(1)] assms(2) by simp
qed

lemma atomic_write_keeps:
  assumes "\<forall>n. faults n = None"
  shows "keeps entry (holds path c) (atomic_write faults pid target contents mode False)"
  unfolding keeps_def holds_def
proof (intro allI impI)
  fix w r w' p
  assume run: "atomic_write faults pid target contents mode False w = (r, w')" and "p = path"
    and held: "p = path \<longrightarrow> (\<exists>m. entry w p = Some (FileNode c m))"
  then obtain m where m: "entry w p = Some (FileNode c m)" by blast
  show "\<exists>m. entry w' p = Some (FileNode c m)"
  proof (cases "p = temporary_path pid target")
    case False
    then show ?thesis using atomic_write_unforced[OF run assms m] by blast
  next
    case True
    from run show ?thesis
    proof (cases rule: atomic_write_steps)
      case (2 w1 n)
      show ?thesis
      proof (cases r)
        case (Inl e)
        then show ?thesis using io_Err[OF 2(3)[unfolded Inl]] 2(1) m by simp
      next
        case (Inr u)
        then show ?thesis using mode_Ok[OF 2(3)[unfolded Inr]] 2(1) m True by auto
      qed
    next
      case (3 w1)
      then show ?thesis using replace_file_blocked[OF 3(3)] m True by simp
    qed (use m in simp)
  qed
qed

lemma directory_keeps: "keeps entry (holds path c) (create_directory faults d)"
  unfolding create_directory_def
  by (intro keeps_bind keeps_io) (auto simp: holds_def create_dir_all_def set_dir_mode_def update_conv' split: option.splits node.splits if_splits)

lemma write_targets_keeps:
  assumes "\<forall>n. se_faults env n = None" "\<not> sa_force args"
  shows "keeps entry (holds path c) (write_targets env args vals hmac_secret rendered)"
proof -
  have load: "keeps entry (holds path c) (io (se_faults env) ConfigRejected
      (\<lambda>nodes. case load_config env config nodes of Inl _ \<Rightarrow> None | Inr _ \<Rightarrow> Some ((), nodes)))" for config
    by (rule keeps_io) (auto split: sum.splits)
  show ?thesis
    using assms(2) unfolding write_targets_def Let_def
    by (intro keeps_bind) (simp_all add: directory_keeps atomic_write_keeps[OF assms(1)] load)
qed


section \<open>What the services make of the answers\<close>

text \<open>The settings that the rendered file stands for, once its secret files have been read.\<close>

definition configured_settings :: "setup_args \<Rightarrow> setup_values \<Rightarrow> string \<Rightarrow> Settings" where
  "configured_settings args vals hmac_secret =
     (default_settings
        \<lparr>aus_key_id = ''g7-primary'', aus_tenant_id = sv_tenant_id vals, aus_hmac_secret = hmac_secret,
         aus_hmac_secret_file = Some (hmac_path args), aus_allowed_skew_seconds = 300\<rparr>
        ((storage_settings vals)\<lparr>sto_access_key_id_file := Some (access_path args),
           sto_secret_access_key_file := Some (secret_path args)\<rparr>))
       \<lparr>set_database := default_database_settings\<lparr>dbs_url := ''sqlite:///var/lib/g7mediabooster/g7mb.db''\<rparr>,
        set_worker := default_worker_settings\<lparr>wks_sandbox_binary := ''/usr/local/libexec/g7mb-sandbox'',
          wks_temp_directory := ''/var/lib/g7mediabooster/tmp''\<rparr>,
        set_delivery := default_delivery_settings\<lparr>dls_public_signing_secret_file := Some (hmac_path args)\<rparr>\<rparr>"

lemma op_of_result_Ok [simp]: "op_of_result r w = (Ok a, w') \<longleftrightarrow> r = Ok a \<and> w' = w"
  by (auto simp: op_of_result_def)

lemma accept_if_Ok [simp]: "accept_if ok e v = Ok a \<longleftrightarrow> ok \<and> a = v"
  by (auto simp: accept_if_def)

lemma answers_within_limits:
  assumes "validate_bucket b = Ok v" shows "v \<noteq> []" "length v \<le> 255"
  using assms by (auto simp: validate_bucket_def)

lemma region_within_limits: "validate_region b = Ok v \<Longrightarrow> v \<noteq> [] \<and> length v \<le> 128"
  by (auto simp: validate_region_def)

lemma address_region: "provider_address env args provider w = (Ok (endpoint, region), w') \<Longrightarrow> region \<noteq> [] \<and> length region \<le> 128"
  by (auto simp: provider_address_def op_bind_Ok Let_def dest: region_within_limits split: Provider.splits)

lemma buckets_within_limits:
  "collect_buckets args w = (Ok (raw, derivative), w') \<Longrightarrow>
     raw \<noteq> [] \<and> length raw \<le> 255 \<and> derivative \<noteq> [] \<and> length derivative \<le> 255"
  unfolding collect_buckets_def Let_def op_bind_Ok by (auto dest: answers_within_limits)

lemma secret_nonempty: "read_or_prompt_secret faults path interactive label w = (Ok v, w') \<Longrightarrow> v \<noteq> []"
  by (auto simp: read_or_prompt_secret_def op_bind_Ok secret_input_ok_def)

lemma collected_storage_ok:
  fixes env :: "'b setup_env"
  assumes "collect_setup_values env args w = (Ok vals, w')"
  shows "storage_settings_ok (storage_settings vals)" "sv_tenant_id vals \<noteq> []" "length (sv_tenant_id vals) \<le> 64"
proof -
  obtain provider address buckets tenant v access secret
    and w1 w2 w3 w4 w5 w6 w7 w8 :: "'b setup_world" where steps:
    "provider_address env args provider w1 = (Ok address, w2)" "collect_buckets args w3 = (Ok buckets, w4)"
    "validate_tenant v = Ok tenant"
    "read_or_prompt_secret (se_faults env) (sa_access_key_id_file args) (\<not> sa_non_interactive args) ''S3 Access Key ID'' w5 = (Ok access, w6)"
    "read_or_prompt_secret (se_faults env) (sa_secret_access_key_file args) (\<not> sa_non_interactive args) ''S3 Secret Access Key'' w7
       = (Ok secret, w8)"
    "length access \<le> 256" "length secret \<le> 1024"
    and vals: "sv_region vals = snd address" "sv_raw_bucket vals = fst buckets" "sv_derivative_bucket vals = snd buckets"
    "sv_access_key_id vals = access" "sv_secret_access_key vals = secret" "sv_tenant_id vals = tenant"
    using assms unfolding collect_setup_values_def Let_def op_bind_Ok by force
  show "storage_settings_ok (storage_settings vals)"
    using address_region[of env args provider w1 "fst address" "snd address" w2] buckets_within_limits[of args w3 "fst buckets" "snd buckets" w4]
      steps secret_nonempty[OF steps(4)] secret_nonempty[OF steps(5)]
    by (simp add: storage_settings_ok_def storage_settings_def vals)
  show "sv_tenant_id vals \<noteq> []" "length (sv_tenant_id vals) \<le> 64" using steps(3) by (auto simp: validate_tenant_def vals)
qed

text \<open>
  Every answer that setup collects stays within the limits of the services, so that with an HMAC secret of
  accepted length its configuration passes their validation unless the provider contract or the redirect
  authorities refuse it.  The contract does refuse some: path style for R2 or AWS, and two buckets for
  Lightsail; with a deferred storage check nothing looks at it before the files are written.
\<close>

theorem collected_answers_pass_validation:
  assumes "collect_setup_values env args w = (Ok vals, w')" "32 \<le> length hmac_secret" "length hmac_secret \<le> 256"
  shows "(validate_settings (se_urls env) (configured_settings args vals hmac_secret) = Ok () \<longleftrightarrow>
      validate_provider_contract (se_urls env) (storage_settings vals) = Ok () \<and>
      (\<exists>authorities. derive_redirect_authorities (se_urls env) (storage_settings vals) = Ok authorities)) \<and>
    (sv_force_path_style vals \<and> sv_provider vals \<noteq> GenericProfile \<or>
     sv_provider vals = LightsailProfile \<and> sv_raw_bucket vals \<noteq> sv_derivative_bucket vals \<longrightarrow>
       validate_settings (se_urls env) (configured_settings args vals hmac_secret) \<noteq> Ok ()) \<and>
    (fst (try_storage env vals store) = Ok () \<and> \<not> sv_defer_storage vals \<longrightarrow>
       validate_provider_contract (se_urls env) (storage_settings vals) = Ok ())"
proof -
  let ?s = "storage_settings vals" and ?urls = "se_urls env"
  let ?c = "configured_settings args vals hmac_secret"
  note storage = collected_storage_ok[OF assms(1)]
  have same: "validate_provider_contract ?urls (set_storage ?c) = validate_provider_contract ?urls ?s"
    "derive_redirect_authorities ?urls (set_storage ?c) = derive_redirect_authorities ?urls ?s"
    "storage_settings_ok (set_storage ?c) = storage_settings_ok ?s"
    by (simp_all add: configured_settings_def default_settings_def validate_provider_contract_def parsed_endpoint_def
        derive_redirect_authorities_def custom_authorities_def storage_settings_ok_def Let_def
        cong: option.case_cong StorageProvider.case_cong if_cong)
  have auth: "auth_settings_ok (set_auth ?c)"
    using storage assms(2,3) by (simp add: configured_settings_def default_settings_def auth_settings_ok_def within_def)
  have rest: "server_settings_ok (set_server ?c)" "upload_settings_ok (set_upload ?c)" "worker_settings_ok (set_upload ?c) (set_worker ?c)"
    "database_settings_ok (set_database ?c)" "watermark_config_ok (set_worker ?c) (set_watermark ?c)" "lifecycle_settings_ok (set_lifecycle ?c)"
    "validate_delivery_settings (set_delivery ?c) (srv_bind_addr (set_server ?c)) = Ok ()"
    by (simp_all add: configured_settings_def default_settings_defs server_settings_ok_def upload_settings_ok_def worker_settings_ok_def
        database_settings_ok_def watermark_config_ok_def lifecycle_settings_ok_def validate_delivery_settings_def within_def
        minimum_temp_disk_bytes_def saturating_add_def saturating_mul_def checked_add_def checked_mul_def is_absolute_def
        starts_with_def max_def ensure_def)
  have iff: "validate_settings ?urls ?c = Ok () \<longleftrightarrow> validate_provider_contract ?urls ?s = Ok () \<and>
      (\<exists>authorities. derive_redirect_authorities ?urls ?s = Ok authorities)"
    using auth rest storage(1) by (auto simp: validate_settings_def and_then_eq_Inr same ensure_def)
  have refused: "validate_provider_contract ?urls ?s \<noteq> Ok ()"
    if "sv_force_path_style vals \<and> sv_provider vals \<noteq> GenericProfile \<or>
        sv_provider vals = LightsailProfile \<and> sv_raw_bucket vals \<noteq> sv_derivative_bucket vals"
    using that by (cases "sv_provider vals")
      (auto simp: validate_provider_contract_def and_then_eq_Inr storage_settings_def Let_def ensure_def)
  have tried: "validate_provider_contract ?urls ?s = Ok ()" if "fst (try_storage env vals store) = Ok ()" "\<not> sv_defer_storage vals"
    using that by (auto simp: try_storage_def Let_def S3StorageAdmin_new_def S3CompatibleStore_new_def op_bind_def op_of_result_def
        and_then_eq_Inr split: prod.splits sum.splits if_splits)
  show ?thesis using iff refused tried by blast
qed

section \<open>A run\<close>

text \<open>A deferred setup of a Lightsail account on an empty host.\<close>

definition sample_setup_args :: setup_args where
  "sample_setup_args =
     \<lparr>sa_non_interactive = True, sa_provider = Some LightsailProfile, sa_account_id = None, sa_endpoint_url = None,
      sa_region = Some ''eu-west-1'', sa_bucket = Some ''bucket'', sa_derivative_bucket = None, sa_origins = [],
      sa_access_key_id_file = Some ''/in/id'', sa_secret_access_key_file = Some ''/in/key'', sa_tenant_id = Some ''site'',
      sa_config = ''/c/g.toml'', sa_secrets_dir = ''/s'', sa_create_buckets = False, sa_skip_cors = True,
      sa_defer_storage = True, sa_force_path_style = False, sa_force = False, sa_skip_ownership = True\<rparr>"

definition sample_setup_settings :: Settings where
  "sample_setup_settings =
     default_settings
       \<lparr>aus_key_id = ''g7-primary'', aus_tenant_id = ''site'', aus_hmac_secret = [], aus_hmac_secret_file = Some ''/s/g7-hmac-secret'',
        aus_allowed_skew_seconds = 300\<rparr>
       (sample_account\<lparr>sto_access_key_id := [], sto_access_key_id_file := Some ''/s/storage-access-key-id'',
          sto_secret_access_key := [], sto_secret_access_key_file := Some ''/s/storage-secret-access-key''\<rparr>)"

definition sample_setup_env :: "memory setup_env" where
  "sample_setup_env =
     \<lparr>se_faults = (\<lambda>_. None), se_urls = \<lparr>parse_url = \<lambda>_. None\<rparr>, se_origin = (\<lambda>_. []), se_client = (\<lambda>_. memory_sdk),
      se_run_ids = (\<lambda>_. []), se_random = Some ''0123456789abcdef0123456789abcdef'', se_toml_string = quoted,
      se_parse_config = (\<lambda>_. Ok sample_setup_settings), se_pid = ''7'', se_terminal = False, se_chgrp = True\<rparr>"

definition sample_setup_world :: "memory setup_world" where
  "sample_setup_world =
     \<lparr>su_files = \<lparr>fs_nodes = [(''/in/id'', FileNode ''id'' 384), (''/in/key'', FileNode ''key'' 384)], fs_ops = 0\<rparr>,
      su_store = sample_memory, su_input = []\<rparr>"

lemma atomic_write_fresh:
  assumes "\<forall>n. faults n = None" "entry w path = None" "entry w (temporary_path pid path) = None" "utf8_valid (path_file_name path)"
  shows "\<exists>w'. atomic_write faults pid path contents mode force w = (Ok (), w') \<and> entry w' = (entry w)(path \<mapsto> FileNode contents mode)"
proof -
  have none: "map_of (fs_nodes w) path = None" "map_of (fs_nodes w) (temporary_path pid path) = None"
    using assms(2,3) by (simp_all add: entry_def)
  have "isl (fst (atomic_write faults pid path contents mode force w)) = False"
    using assms(1,4) none
    by (simp add: atomic_write_def replace_file_def write_renamed_def op_try_def io_partial_def Let_def rename_file_def running
        temporary_path_other[THEN not_sym])
  then obtain u w' where run: "atomic_write faults pid path contents mode force w = (Ok u, w')"
    by (cases "atomic_write faults pid path contents mode force w"; cases "fst (atomic_write faults pid path contents mode force w)") auto
  then show ?thesis using atomic_write_Ok[OF run] by simp
qed

lemma create_directory_fresh:
  assumes "\<forall>n. faults n = None" "entry w path = None"
  shows "\<exists>w'. create_directory faults path w = (Ok (), w') \<and> entry w' = (entry w)(path \<mapsto> DirNode)"
  using assms by (simp add: create_directory_def io_partial_def Let_def set_dir_mode_def running fun_eq_iff)

definition sample_values :: setup_values where
  "sample_values =
     \<lparr>sv_provider = LightsailProfile, sv_endpoint_url = None, sv_region = ''eu-west-1'', sv_raw_bucket = ''bucket'',
      sv_derivative_bucket = ''bucket'', sv_origins = [], sv_access_key_id = ''id'', sv_secret_access_key = ''key'',
      sv_tenant_id = ''site'', sv_force_path_style = False, sv_create_buckets = False, sv_configure_cors = False,
      sv_defer_storage = True\<rparr>"

lemma sample_answers:
  "validate_bucket ''bucket'' = Ok ''bucket''" "validate_region ''eu-west-1'' = Ok ''eu-west-1''" "validate_tenant ''site'' = Ok ''site''"
  "secret_input_ok ''id''" "secret_input_ok ''key''" "trim_newlines ''id'' = ''id''" "trim_newlines ''key'' = ''key''"
  by code_simp+

lemma sample_reads:
  "read_secret_input (\<lambda>_. None) ''/in/id'' \<lparr>fs_nodes = [(''/in/id'', FileNode ''id'' 384), (''/in/key'', FileNode ''key'' 384)], fs_ops = n\<rparr>
     = (Ok ''id'', \<lparr>fs_nodes = [(''/in/id'', FileNode ''id'' 384), (''/in/key'', FileNode ''key'' 384)], fs_ops = Suc (Suc n)\<rparr>)"
  "read_secret_input (\<lambda>_. None) ''/in/key'' \<lparr>fs_nodes = [(''/in/id'', FileNode ''id'' 384), (''/in/key'', FileNode ''key'' 384)], fs_ops = n\<rparr>
     = (Ok ''key'', \<lparr>fs_nodes = [(''/in/id'', FileNode ''id'' 384), (''/in/key'', FileNode ''key'' 384)], fs_ops = Suc (Suc n)\<rparr>)"
  by code_simp+

lemma sample_collected: "fst (collect_setup_values sample_setup_env sample_setup_args sample_setup_world) = Ok sample_values"
  by (simp add: collect_setup_values_def lightsail_ready_def provider_address_def collect_buckets_def collected_origins_def
      optional_or_prompt_def required_value_def sample_setup_env_def sample_setup_args_def sample_setup_world_def op_bind_def
      op_return_def op_check_def op_of_result_def accept_if_def Let_def sample_answers sample_reads read_or_prompt_secret_def
      on_files_def op_within_def op_map_err_def sample_values_def)

text \<open>The three secrets and the configuration go to paths where the host has nothing.\<close>

lemma sample_paths:
  "access_path sample_setup_args = ''/s/storage-access-key-id''" "secret_path sample_setup_args = ''/s/storage-secret-access-key''"
  "hmac_path sample_setup_args = ''/s/g7-hmac-secret''" "sa_config sample_setup_args = ''/c/g.toml''"
  "sa_secrets_dir sample_setup_args = ''/s''" "path_parent ''/c/g.toml'' = ''/c''"
  "temporary_path ''7'' ''/s/storage-access-key-id'' = ''/s/.storage-access-key-id.tmp-7''"
  "temporary_path ''7'' ''/s/storage-secret-access-key'' = ''/s/.storage-secret-access-key.tmp-7''"
  "temporary_path ''7'' ''/s/g7-hmac-secret'' = ''/s/.g7-hmac-secret.tmp-7''"
  "temporary_path ''7'' ''/c/g.toml'' = ''/c/.g.toml.tmp-7''"
  by (simp_all add: access_path_def secret_path_def hmac_path_def sample_setup_args_def path_join_def path_parent_def
      temporary_path_def path_file_name_def)

lemma sample_names:
  "utf8_valid (path_file_name ''/s/storage-access-key-id'')" "utf8_valid (path_file_name ''/s/storage-secret-access-key'')"
  "utf8_valid (path_file_name ''/s/g7-hmac-secret'')" "utf8_valid (path_file_name ''/c/g.toml'')"
  "utf8_valid ''/s/storage-access-key-id''" "utf8_valid ''/s/storage-secret-access-key''" "utf8_valid ''/s/g7-hmac-secret''"
  by code_simp+

lemma preflight_missing:
  "\<forall>n. faults n = None \<Longrightarrow> map_of (fs_nodes w) path = None \<Longrightarrow>
     preflight_target faults path contents force w = (Ok (), w\<lparr>fs_ops := Suc (fs_ops w)\<rparr>)"
  by (simp add: preflight_target_def op_try_def io_partial_def Let_def running)

definition sample_rendered :: string where
  "sample_rendered = concat (map (\<lambda>line. line @ [newline])
     (config_lines quoted sample_values ''/s/storage-access-key-id'' ''/s/storage-secret-access-key'' ''/s/g7-hmac-secret''))"

lemma sample_prepared:
  "\<exists>w. prepare_setup sample_setup_env sample_setup_args sample_setup_world =
     (Ok (sample_values, ''0123456789abcdef0123456789abcdef'', sample_rendered), w) \<and>
     entry (su_files w) = [''/in/id'' \<mapsto> FileNode ''id'' 384, ''/in/key'' \<mapsto> FileNode ''key'' 384]"
proof -
  obtain w where w: "collect_setup_values sample_setup_env sample_setup_args sample_setup_world = (Ok sample_values, w)"
    using sample_collected by (metis prod.collapse)
  have env: "\<forall>n. se_faults sample_setup_env n = None" "se_random sample_setup_env = Some ''0123456789abcdef0123456789abcdef''"
    "se_toml_string sample_setup_env = quoted" by (simp_all add: sample_setup_env_def)
  have files: "entry (su_files w) = [''/in/id'' \<mapsto> FileNode ''id'' 384, ''/in/key'' \<mapsto> FileNode ''key'' 384]"
    using unaltering_D[OF unaltering_collect w] by (simp add: sample_setup_world_def entry_def fun_eq_iff)
  then have missing: "map_of (fs_nodes (su_files w)) ''/s/storage-access-key-id'' = None"
    "map_of (fs_nodes (su_files w)) ''/s/storage-secret-access-key'' = None" "map_of (fs_nodes (su_files w)) ''/s/g7-hmac-secret'' = None"
    "map_of (fs_nodes (su_files w)) ''/c/g.toml'' = None"
    by (simp_all add: entry_def)
  have start: "sa_non_interactive sample_setup_args" "is_absolute ''/c/g.toml''" "is_absolute ''/s''" "sv_defer_storage sample_values"
    by (simp_all add: sample_setup_args_def is_absolute_def starts_with_def sample_values_def)
  have hmac: "choose_hmac sample_setup_env sample_setup_args (su_files w) =
      (Ok ''0123456789abcdef0123456789abcdef'', (su_files w)\<lparr>fs_ops := Suc (fs_ops (su_files w))\<rparr>)"
    using missing(3) env by (simp add: choose_hmac_def op_try_def op_of_result_def io_partial_def Let_def running sample_paths)
  have rendered: "render_config (se_toml_string sample_setup_env) sample_values (access_path sample_setup_args)
      (secret_path sample_setup_args) (hmac_path sample_setup_args) = Ok sample_rendered"
    unfolding render_config_def accept_if_def sample_rendered_def sample_paths by (simp only: sample_names simp_thms if_True env)
  define fs where "fs = (su_files w)\<lparr>fs_ops := Suc (fs_ops (su_files w))\<rparr>"
  have fs: "fs_nodes fs = fs_nodes (su_files w)" by (simp add: fs_def)
  have preflight: "preflight sample_setup_env sample_setup_args sample_values c r fs =
      (Ok (), fs\<lparr>fs_ops := Suc (Suc (Suc (Suc (fs_ops fs))))\<rparr>)" for c r
    by (simp add: preflight_def op_bind_def sample_paths preflight_missing[OF env(1)] missing fs)
  have "prepare_setup sample_setup_env sample_setup_args sample_setup_world =
     (Ok (sample_values, ''0123456789abcdef0123456789abcdef'', sample_rendered),
      w\<lparr>su_files := fs\<lparr>fs_ops := Suc (Suc (Suc (Suc (fs_ops fs))))\<rparr>\<rparr>)"
    using start(4)
    by (simp add: prepare_setup_def op_bind_def op_check_def op_return_def op_of_result_def on_files_def op_within_def
        start sample_paths(4,5) w hmac rendered fs_def[symmetric] preflight on_store_def op_map_err_def try_storage_def)
  then show ?thesis using files by (simp add: entry_def fs)
qed

lemma sample_resolved:
  assumes "length content \<le> 4096" "content \<noteq> []" "utf8_valid content" "trim_newlines content = content" "secret_value_ok content"
    and "map_of nodes path = Some (FileNode content 384)" "is_absolute path"
  shows "resolve_secret (files_secret_host nodes) [] (Some path) name = Ok content"
  using assms by (simp add: resolve_secret_Ok files_secret_host_def)

lemma sample_loads:
  assumes "map_of nodes ''/s/storage-access-key-id'' = Some (FileNode ''id'' 384)"
    and "map_of nodes ''/s/storage-secret-access-key'' = Some (FileNode ''key'' 384)"
    and "map_of nodes ''/s/g7-hmac-secret'' = Some (FileNode ''0123456789abcdef0123456789abcdef'' 384)"
    and "map_of nodes ''/c/g.toml'' = Some (FileNode sample_rendered 416)"
  shows "\<exists>s. load_config sample_setup_env ''/c/g.toml'' nodes = Ok s"
proof -
  let ?urls = "\<lparr>parse_url = \<lambda>_. None\<rparr>"
  let ?auth = "\<lparr>aus_key_id = ''g7-primary'', aus_tenant_id = ''site'', aus_hmac_secret = ''0123456789abcdef0123456789abcdef'',
        aus_hmac_secret_file = Some ''/s/g7-hmac-secret'', aus_allowed_skew_seconds = 300\<rparr>"
  let ?account = "sample_account\<lparr>sto_access_key_id := ''id'', sto_access_key_id_file := Some ''/s/storage-access-key-id'',
          sto_secret_access_key := ''key'', sto_secret_access_key_file := Some ''/s/storage-secret-access-key''\<rparr>"
  have content: "utf8_valid ''id''" "utf8_valid ''key''" "utf8_valid ''0123456789abcdef0123456789abcdef''"
    "trim_newlines ''0123456789abcdef0123456789abcdef'' = ''0123456789abcdef0123456789abcdef''"
    "secret_value_ok ''id''" "secret_value_ok ''key''" "secret_value_ok ''0123456789abcdef0123456789abcdef''"
    by code_simp+
  have absolute: "is_absolute ''/s/storage-access-key-id''" "is_absolute ''/s/storage-secret-access-key''" "is_absolute ''/s/g7-hmac-secret''"
    by (simp_all add: is_absolute_def starts_with_def)
  have "resolve_secret_files (files_secret_host nodes) sample_setup_settings = Ok (default_settings ?auth ?account)"
    using sample_resolved[OF _ _ content(1) sample_answers(6) content(5) assms(1) absolute(1)]
      sample_resolved[OF _ _ content(2) sample_answers(7) content(6) assms(2) absolute(2)]
      sample_resolved[OF _ _ content(3,4,7) assms(3) absolute(3)]
    by (simp add: resolve_secret_files_def resolve_public_secret_def sample_setup_settings_def default_settings_def
        default_delivery_settings_def)
  moreover have "validate_settings ?urls (default_settings ?auth ?account) = Ok ()"
  proof -
    obtain authorities where "derive_redirect_authorities ?urls sample_account = Ok authorities" using sample_account_ok(3) by blast
    then have "derive_redirect_authorities ?urls ?account = Ok authorities" "validate_provider_contract ?urls ?account = Ok ()"
      using sample_account_ok(2)[of ?urls] by (simp_all add: sample_account_def derive_redirect_authorities_def validate_provider_contract_def
          parsed_endpoint_def)
    then show ?thesis using default_settings_valid[of ?auth ?account ?urls authorities]
      by (simp add: auth_settings_ok_def within_def storage_settings_ok_def sample_account_def)
  qed
  ultimately show ?thesis
    using assms(4) by (simp add: load_config_def load_def sample_setup_env_def)
qed

lemma sample_written:
  assumes "entry w = [''/in/id'' \<mapsto> FileNode ''id'' 384, ''/in/key'' \<mapsto> FileNode ''key'' 384]"
  shows "fst (write_targets sample_setup_env sample_setup_args sample_values ''0123456789abcdef0123456789abcdef'' sample_rendered w) = Ok ()"
proof -
  let ?faults = "se_faults sample_setup_env" and ?put = "atomic_write (se_faults sample_setup_env) ''7''"
  have env: "\<forall>n. ?faults n = None" "se_pid sample_setup_env = ''7''" "sa_skip_ownership sample_setup_args" "\<not> sa_force sample_setup_args"
    "sv_access_key_id sample_values = ''id''" "sv_secret_access_key sample_values = ''key''"
    by (simp_all add: sample_setup_env_def sample_setup_args_def sample_values_def)
  obtain w1 where w1: "create_directory ?faults ''/s'' w = (Ok (), w1)" "entry w1 = (entry w)(''/s'' \<mapsto> DirNode)"
    using create_directory_fresh[OF env(1), of w "''/s''"] assms by auto
  obtain w2 where w2: "?put ''/s/storage-access-key-id'' ''id'' 384 False w1 = (Ok (), w2)"
    "entry w2 = (entry w1)(''/s/storage-access-key-id'' \<mapsto> FileNode ''id'' 384)"
    using atomic_write_fresh[OF env(1), of w1 "''/s/storage-access-key-id''" "''7''" "''id''" 384 False] w1(2) assms
    by (auto simp: sample_paths sample_names)
  obtain w3 where w3: "?put ''/s/storage-secret-access-key'' ''key'' 384 False w2 = (Ok (), w3)"
    "entry w3 = (entry w2)(''/s/storage-secret-access-key'' \<mapsto> FileNode ''key'' 384)"
    using atomic_write_fresh[OF env(1), of w2 "''/s/storage-secret-access-key''" "''7''" "''key''" 384 False] w2(2) w1(2) assms
    by (auto simp: sample_paths sample_names)
  obtain w4 where w4: "?put ''/s/g7-hmac-secret'' ''0123456789abcdef0123456789abcdef'' 384 False w3 = (Ok (), w4)"
    "entry w4 = (entry w3)(''/s/g7-hmac-secret'' \<mapsto> FileNode ''0123456789abcdef0123456789abcdef'' 384)"
    using atomic_write_fresh[OF env(1), of w3 "''/s/g7-hmac-secret''" "''7''" "''0123456789abcdef0123456789abcdef''" 384 False]
      w3(2) w2(2) w1(2) assms
    by (auto simp: sample_paths sample_names)
  obtain w5 where w5: "create_directory ?faults ''/c'' w4 = (Ok (), w5)" "entry w5 = (entry w4)(''/c'' \<mapsto> DirNode)"
    using create_directory_fresh[OF env(1), of w4 "''/c''"] w4(2) w3(2) w2(2) w1(2) assms by auto
  obtain w6 where w6: "?put ''/c/g.toml'' sample_rendered 416 False w5 = (Ok (), w6)"
    "entry w6 = (entry w5)(''/c/g.toml'' \<mapsto> FileNode sample_rendered 416)"
    using atomic_write_fresh[OF env(1), of w5 "''/c/g.toml''" "''7''" sample_rendered 416 False] w5(2) w4(2) w3(2) w2(2) w1(2) assms
    by (auto simp: sample_paths sample_names)
  have files: "entry w6 ''/s/storage-access-key-id'' = Some (FileNode ''id'' 384)"
    "entry w6 ''/s/storage-secret-access-key'' = Some (FileNode ''key'' 384)"
    "entry w6 ''/s/g7-hmac-secret'' = Some (FileNode ''0123456789abcdef0123456789abcdef'' 384)"
    "entry w6 ''/c/g.toml'' = Some (FileNode sample_rendered 416)"
    by (simp_all add: w6(2) w5(2) w4(2) w3(2) w2(2))
  obtain s where "load_config sample_setup_env ''/c/g.toml'' (fs_nodes w6) = Ok s"
    using sample_loads[OF files[unfolded entry_def]] by blast
  then show ?thesis
    using w1(1) w2(1) w3(1) w4(1) w5(1) w6(1) env
    by (simp add: write_targets_def Let_def sample_paths op_bind_def op_check_def io_def io_partial_def)
qed

lemma sample_setup_succeeds: "\<exists>w. run_setup sample_setup_env sample_setup_args sample_setup_world = (Ok (), w)"
proof -
  let ?hmac = "''0123456789abcdef0123456789abcdef''"
  obtain w where w: "prepare_setup sample_setup_env sample_setup_args sample_setup_world = (Ok (sample_values, ?hmac, sample_rendered), w)"
    "entry (su_files w) = [''/in/id'' \<mapsto> FileNode ''id'' 384, ''/in/key'' \<mapsto> FileNode ''key'' 384]"
    using sample_prepared by blast
  obtain fs where "write_targets sample_setup_env sample_setup_args sample_values ?hmac sample_rendered (su_files w) = (Ok (), fs)"
    using sample_written[OF w(2)] by (metis prod.collapse)
  then show ?thesis using w(1) by (simp add: run_setup_def op_bind_def on_files_def op_within_def)
qed

theorem setup_writes_a_prefix_witness:
  "\<exists>w access_key hmac_secret rendered. run_setup sample_setup_env sample_setup_args sample_setup_world = (Ok (), w) \<and>
     entry (su_files w) ''/s/g7-hmac-secret'' = Some (FileNode hmac_secret 384) \<and>
     entry (su_files w) ''/c/g.toml'' = Some (FileNode rendered 416) \<and>
     entry (su_files w) ''/s/storage-access-key-id'' = Some (FileNode access_key 384)"
proof -
  obtain w where run: "run_setup sample_setup_env sample_setup_args sample_setup_world = (Ok (), w)"
    using sample_setup_succeeds by blast
  have scratch: "setup_scratch sample_setup_env sample_setup_args = {''/s/.storage-access-key-id.tmp-7'', ''/s/.storage-secret-access-key.tmp-7'',
      ''/s/.g7-hmac-secret.tmp-7'', ''/c/.g.toml.tmp-7'', ''/s'', ''/c''}"
    by (simp add: setup_scratch_def setup_paths_def sample_paths) (auto simp: sample_setup_env_def sample_paths)
  obtain vals hmac_secret rendered where files: "\<forall>p. p \<notin> setup_scratch sample_setup_env sample_setup_args \<longrightarrow>
      entry (su_files w) p = written (take 4 (setup_targets sample_setup_args vals hmac_secret rendered)) (entry (su_files sample_setup_world)) p"
    using setup_writes_a_prefix[OF run]
  proof (elim exE conjE)
    fix vals hmac_secret rendered k
    assume "\<forall>p. p \<notin> setup_scratch sample_setup_env sample_setup_args \<longrightarrow> entry (su_files w) p =
        written (take k (setup_targets sample_setup_args vals hmac_secret rendered)) (entry (su_files sample_setup_world)) p"
      "Ok () = (Ok () :: (setup_error, unit) result) \<longrightarrow> k = 4 \<and> (\<exists>s. load_config sample_setup_env (sa_config sample_setup_args) (fs_nodes (su_files w)) = Ok s)"
    then show thesis using that by blast
  qed
  from files[THEN spec, of "''/s/g7-hmac-secret''"] files[THEN spec, of "''/c/g.toml''"]
    files[THEN spec, of "''/s/storage-access-key-id''"] show ?thesis
    by (simp add: run scratch setup_targets_def written_def sample_paths)
qed


theorem collected_answers_pass_validation_witness:
  "validate_settings (se_urls sample_setup_env)
     (configured_settings sample_setup_args sample_values ''0123456789abcdef0123456789abcdef'') = Ok ()"
proof -
  obtain w where run: "collect_setup_values sample_setup_env sample_setup_args sample_setup_world = (Ok sample_values, w)"
    using sample_collected by (metis prod.collapse)
  let ?urls = "se_urls sample_setup_env"
  obtain authorities where "derive_redirect_authorities ?urls sample_account = Ok authorities" using sample_account_ok(3) by blast
  then have "derive_redirect_authorities ?urls (storage_settings sample_values) = Ok authorities"
    "validate_provider_contract ?urls (storage_settings sample_values) = Ok ()"
    using sample_account_ok(2)[of ?urls] by (simp_all add: sample_account_def storage_settings_def sample_values_def
        derive_redirect_authorities_def validate_provider_contract_def parsed_endpoint_def)
  then show ?thesis
    using collected_answers_pass_validation[OF run, of "''0123456789abcdef0123456789abcdef''"] by simp
qed

end
