(* ===== verification/Installer.thy ===== *)
theory Installer
  imports Setup
begin

text \<open>
  The installer of \<open>apps/g7mbctl/src/installer.rs\<close> and \<open>installer/directories.rs\<close>: the release bundle and
  its manifest, the payload that is copied file by file, the directories, the service account and the
  commands around them.  A command is an argument that may change the host; the polls of a waiting loop are
  the clock readings it takes.  No other process replaces a file between two operations, and messages are
  the constructors of \<open>install_error\<close>.
\<close>

section \<open>The payload\<close>

record PayloadFile =
  pf_source :: string
  pf_destination :: string
  pf_mode :: nat
  pf_maximum_bytes :: nat

definition payload_file :: "string \<Rightarrow> string \<Rightarrow> nat \<Rightarrow> nat \<Rightarrow> PayloadFile" where
  "payload_file source destination mode maximum =
     \<lparr>pf_source = source, pf_destination = destination, pf_mode = mode, pf_maximum_bytes = maximum\<rparr>"

definition kib :: nat where "kib = 1024"

definition mib :: nat where "mib = 1024 * 1024"

definition share :: "string \<Rightarrow> string" where
  "share name = ''/usr/local/share/g7mediabooster/'' @ name"

definition unit_file :: "string \<Rightarrow> PayloadFile" where
  "unit_file name = payload_file (''systemd/'' @ name) (''/etc/systemd/system/'' @ name) 420 (64 * kib)"

definition INSTALLED_MODULE :: string where
  "INSTALLED_MODULE = share ''gnuboard7/jiwonpapa-g7mediabooster.zip''"

definition MANIFEST :: string where
  "MANIFEST = ''MANIFEST.sha256''"

definition PAYLOAD_FILES :: "PayloadFile list" where
  "PAYLOAD_FILES =
     [payload_file ''bin/g7mbctl'' ''/usr/local/bin/g7mbctl'' 493 (128 * mib),
      payload_file ''bin/g7mb-api'' ''/usr/local/bin/g7mb-api'' 493 (128 * mib),
      payload_file ''bin/g7mb-worker'' ''/usr/local/bin/g7mb-worker'' 493 (128 * mib),
      payload_file ''libexec/g7mb-sandbox'' ''/usr/local/libexec/g7mb-sandbox'' 493 (128 * mib),
      payload_file ''VERSION'' (share ''VERSION'') 420 128,
      payload_file MANIFEST (share ''MANIFEST.sha256'') 420 (64 * kib),
      payload_file ''INSTALL.md'' (share ''INSTALL.md'') 420 (256 * kib),
      payload_file ''CHANGELOG.md'' (share ''CHANGELOG.md'') 420 (256 * kib),
      payload_file ''gnuboard7/jiwonpapa-g7mediabooster.zip'' INSTALLED_MODULE 420 (32 * mib),
      payload_file ''gnuboard7/jiwonpapa-g7mediabooster.zip.sha256'' (share ''gnuboard7/jiwonpapa-g7mediabooster.zip.sha256'') 420 1024,
      payload_file ''gnuboard7/official-features-v1.json'' (share ''gnuboard7/official-features-v1.json'') 420 (256 * kib),
      payload_file ''gnuboard7/verify-gnuboard7-media-contract.sh'' (share ''gnuboard7/verify-gnuboard7-media-contract.sh'') 493 (256 * kib),
      payload_file ''gnuboard7/g7mb-harness.pyz'' (share ''gnuboard7/g7mb-harness.pyz'') 420 (2 * mib),
      payload_file ''gnuboard7/verify-gnuboard7-module-host.php'' (share ''gnuboard7/verify-gnuboard7-module-host.php'') 420 (64 * kib),
      unit_file ''g7mediabooster.target'', unit_file ''g7mediabooster-api.service'', unit_file ''g7mediabooster-worker.service'',
      unit_file ''g7mediabooster-cleanup.service'', unit_file ''g7mediabooster-cleanup.timer'',
      unit_file ''g7mediabooster-inventory.service'', unit_file ''g7mediabooster-inventory.timer'',
      unit_file ''g7mediabooster-backup.service'', unit_file ''g7mediabooster-backup.timer'',
      payload_file ''nginx/g7mediabooster-public.conf'' (share ''nginx/g7mediabooster-public.conf'') 420 (64 * kib)]"

datatype install_error =
    NotLinux | NotRoot | CommandNotRun string | CommandFailed string | NoNativeRuntime | UnsupportedSystem
  | InstallRefused | NoShell | WrongGroup | NotADirectory string | MissingFile string | BadFile string | BadManifest
  | DuplicateEntry string | WrongCount | MissingEntry string | WrongDigest string | UnsafeDestination string
  | NotRegularTarget string | DifferentTarget string | BadName | IoFailed string | NoBundle | NoConfiguration
  | BadConfiguration | UnitInactive string | NotReady | SandboxFailed | CanaryFailed ObjectStoreError

section \<open>Files of the bundle\<close>

definition validate_regular_file :: "faults \<Rightarrow> string \<Rightarrow> nat \<Rightarrow> (install_error, unit) fs_op" where
  "validate_regular_file faults path maximum_bytes =
     op_bind (io faults (MissingFile path) (symlink_metadata path)) (\<lambda>node.
     op_check (case node of FileNode c m \<Rightarrow> c \<noteq> [] \<and> length c \<le> maximum_bytes | _ \<Rightarrow> False) (BadFile path))"

text \<open>An opened regular file is its content.\<close>

definition open_regular :: "faults \<Rightarrow> string \<Rightarrow> (install_error, string) fs_op" where
  "open_regular faults path =
     op_bind (io faults (IoFailed path) (symlink_metadata path)) (\<lambda>node.
     op_bind (op_check (is_regular node) (BadFile path)) (\<lambda>_.
     io faults (IoFailed path) (read_content path)))"

definition sha256_of_file :: "faults \<Rightarrow> (string \<Rightarrow> string) \<Rightarrow> string \<Rightarrow> (install_error, string) fs_op" where
  "sha256_of_file faults sha256 path =
     op_bind (open_regular faults path) (\<lambda>content. io faults (IoFailed path) (\<lambda>nodes. Some (sha256 content, nodes)))"

definition files_equal :: "faults \<Rightarrow> string \<Rightarrow> string \<Rightarrow> (install_error, bool) fs_op" where
  "files_equal faults content destination =
     op_bind (io faults (IoFailed destination) (read_content destination)) (\<lambda>other.
     op_return (content = other))"

section \<open>The manifest\<close>

text \<open>\<open>str::lines\<close>, and \<open>split_once\<close> at two spaces.\<close>

fun text_lines :: "string \<Rightarrow> string list" where
  "text_lines [] = []"
| "text_lines (c # v) =
     (let line = takeWhile (\<lambda>c. c \<noteq> newline) (c # v); rest = drop (Suc (length line)) (c # v) in
      (case strip_suffix [CHR 0x0D] line of None \<Rightarrow> line | Some stripped \<Rightarrow> if newline \<in> set (c # v) then stripped else line) #
      text_lines rest)"

fun split_fields :: "string \<Rightarrow> (string \<times> string) option" where
  "split_fields [] = None"
| "split_fields (c # v) =
     (if starts_with ''  '' (c # v) then Some ([], drop 2 (c # v))
      else map_option (\<lambda>(digest, source). (c # digest, source)) (split_fields v))"

fun path_segments :: "string \<Rightarrow> string list" where
  "path_segments [] = [[]]"
| "path_segments (c # v) =
     (if c = CHR ''/'' then [] # path_segments v
      else (case path_segments v of [] \<Rightarrow> [[c]] | s # segments \<Rightarrow> (c # s) # segments))"

text \<open>Every component of a relative path is a normal one: empty segments and inner dots are none.\<close>

definition normal_components :: "string \<Rightarrow> bool" where
  "normal_components source \<longleftrightarrow> hd (path_segments source) \<noteq> ''.'' \<and> ''..'' \<notin> set (path_segments source)"

definition manifest_entry_ok :: "string \<Rightarrow> string \<Rightarrow> bool" where
  "manifest_entry_ok digest source \<longleftrightarrow>
     length digest = 64 \<and> list_all is_lower_hex digest \<and> source \<noteq> [] \<and> \<not> is_absolute source \<and> normal_components source"

fun parse_manifest :: "(string \<times> string) list \<Rightarrow> string list \<Rightarrow> (install_error, (string \<times> string) list) result" where
  "parse_manifest declared [] = Ok declared"
| "parse_manifest declared (line # lines) =
     (case split_fields line of
        None \<Rightarrow> Err BadManifest
      | Some (digest, source) \<Rightarrow>
          if \<not> manifest_entry_ok digest source then Err BadManifest
          else if map_of declared source \<noteq> None then Err (DuplicateEntry source)
          else parse_manifest ((source, digest) # declared) lines)"

definition expected_sources :: "string list" where
  "expected_sources = filter (\<lambda>source. source \<noteq> MANIFEST) (map pf_source PAYLOAD_FILES)"

fun verify_digests :: "faults \<Rightarrow> (string \<Rightarrow> string) \<Rightarrow> string \<Rightarrow> (string \<times> string) list \<Rightarrow> string list \<Rightarrow> (install_error, unit) fs_op" where
  "verify_digests faults sha256 bundle declared [] = op_return ()"
| "verify_digests faults sha256 bundle declared (source # sources) =
     (case map_of declared source of
        None \<Rightarrow> (\<lambda>w. (Err (MissingEntry source), w))
      | Some expected \<Rightarrow>
          op_bind (sha256_of_file faults sha256 (path_join bundle source)) (\<lambda>actual.
          op_bind (op_check (actual = expected) (WrongDigest source)) (\<lambda>_.
          verify_digests faults sha256 bundle declared sources)))"

definition verify_payload_manifest :: "faults \<Rightarrow> (string \<Rightarrow> string) \<Rightarrow> string \<Rightarrow> (install_error, unit) fs_op" where
  "verify_payload_manifest faults sha256 bundle =
     op_bind (io faults BadManifest (read_content (path_join bundle MANIFEST))) (\<lambda>manifest.
     op_bind (op_check (utf8_valid manifest) BadManifest) (\<lambda>_.
     op_bind (op_of_result (parse_manifest [] (text_lines manifest))) (\<lambda>declared.
     op_bind (op_check (length declared = length expected_sources) WrongCount) (\<lambda>_.
     verify_digests faults sha256 bundle declared expected_sources))))"

fun validate_payload_files :: "faults \<Rightarrow> string \<Rightarrow> PayloadFile list \<Rightarrow> (install_error, unit) fs_op" where
  "validate_payload_files faults bundle [] = op_return ()"
| "validate_payload_files faults bundle (p # ps) =
     op_bind (validate_regular_file faults (path_join bundle (pf_source p)) (pf_maximum_bytes p)) (\<lambda>_.
     validate_payload_files faults bundle ps)"

definition validate_bundle :: "faults \<Rightarrow> (string \<Rightarrow> string) \<Rightarrow> string \<Rightarrow> (install_error, unit) fs_op" where
  "validate_bundle faults sha256 bundle =
     op_bind (io faults NoBundle (symlink_metadata bundle)) (\<lambda>node.
     op_bind (op_check (node = DirNode) (NotADirectory bundle)) (\<lambda>_.
     op_bind (validate_payload_files faults bundle PAYLOAD_FILES) (\<lambda>_.
     verify_payload_manifest faults sha256 bundle)))"

section \<open>Directories\<close>

text \<open>\<open>symlink_metadata\<close> that tells a missing file from an error.\<close>

definition metadata_of :: "faults \<Rightarrow> string \<Rightarrow> (install_error, node option) fs_op" where
  "metadata_of faults path = io faults (IoFailed path) (\<lambda>nodes. Some (map_of nodes path, nodes))"

definition make_directory :: "faults \<Rightarrow> string \<Rightarrow> (install_error, unit) fs_op" where
  "make_directory faults path =
     op_bind (io faults (IoFailed path) (create_dir_all path)) (\<lambda>_.
     io faults (IoFailed path) (set_dir_mode path))"

definition create_install_directory :: "faults \<Rightarrow> string \<Rightarrow> (install_error, unit) fs_op" where
  "create_install_directory faults path =
     op_bind (op_try (io faults () (symlink_metadata path))) (\<lambda>metadata.
     op_bind (op_check (metadata = None \<or> metadata = Some DirNode) (NotADirectory path)) (\<lambda>_.
     make_directory faults path))"

definition ensure_directory :: "faults \<Rightarrow> string \<Rightarrow> (install_error, unit) fs_op" where
  "ensure_directory faults path =
     op_bind (metadata_of faults path) (\<lambda>metadata.
     case metadata of
       None \<Rightarrow> make_directory faults path
     | Some node \<Rightarrow> op_check (node = DirNode) (NotADirectory path))"

section \<open>Copying the payload\<close>

definition rooted :: "string \<Rightarrow> string \<Rightarrow> (install_error, string) result" where
  "rooted root destination =
     (if \<not> is_absolute destination \<or> ''..'' \<in> set (path_segments destination)
      then Err (UnsafeDestination destination)
      else Ok (path_join root (dropWhile (\<lambda>c. c = CHR ''/'') destination)))"

definition install_temporary :: "string \<Rightarrow> string \<Rightarrow> string" where
  "install_temporary pid path = path_join (path_parent path) (''.'' @ path_file_name path @ ''.install-'' @ pid)"

definition replace_target :: "faults \<Rightarrow> string \<Rightarrow> string \<Rightarrow> string \<Rightarrow> nat \<Rightarrow> (install_error, unit) fs_op" where
  "replace_target faults pid content destination mode =
     op_bind (ensure_directory faults (path_parent destination)) (\<lambda>_.
     op_bind (op_check (utf8_valid (path_file_name destination)) BadName) (\<lambda>_.
     replace_file faults (IoFailed destination) (install_temporary pid destination) destination content mode))"

definition copy_file_atomic :: "faults \<Rightarrow> string \<Rightarrow> string \<Rightarrow> string \<Rightarrow> nat \<Rightarrow> bool \<Rightarrow> (install_error, unit) fs_op" where
  "copy_file_atomic faults pid source destination mode force =
     op_bind (open_regular faults source) (\<lambda>input.
     op_bind (op_try (io faults () (symlink_metadata destination))) (\<lambda>metadata.
     case metadata of
       None \<Rightarrow> replace_target faults pid input destination mode
     | Some node \<Rightarrow>
         op_bind (op_check (is_regular node) (NotRegularTarget destination)) (\<lambda>_.
         op_bind (files_equal faults input destination) (\<lambda>equal.
         if equal then io faults (IoFailed destination) (set_mode destination mode)
         else op_bind (op_check force (DifferentTarget destination)) (\<lambda>_.
           op_bind (open_regular faults source) (\<lambda>input.
           replace_target faults pid input destination mode))))))"

fun copy_payload :: "faults \<Rightarrow> string \<Rightarrow> string \<Rightarrow> string \<Rightarrow> bool \<Rightarrow> PayloadFile list \<Rightarrow> (install_error, unit) fs_op" where
  "copy_payload faults pid bundle root force [] = op_return ()"
| "copy_payload faults pid bundle root force (p # ps) =
     op_bind (op_of_result (rooted root (pf_destination p))) (\<lambda>destination.
     op_bind (copy_file_atomic faults pid (path_join bundle (pf_source p)) destination (pf_mode p) force) (\<lambda>_.
     copy_payload faults pid bundle root force ps))"

fun compare_payload :: "faults \<Rightarrow> (string \<Rightarrow> string) \<Rightarrow> string \<Rightarrow> string \<Rightarrow> PayloadFile list \<Rightarrow> (install_error, unit) fs_op" where
  "compare_payload faults sha256 bundle root [] = op_return ()"
| "compare_payload faults sha256 bundle root (p # ps) =
     (if pf_source p = MANIFEST then compare_payload faults sha256 bundle root ps
      else op_bind (op_of_result (rooted root (pf_destination p))) (\<lambda>destination.
        op_bind (sha256_of_file faults sha256 (path_join bundle (pf_source p))) (\<lambda>expected.
        op_bind (sha256_of_file faults sha256 destination) (\<lambda>actual.
        op_bind (op_check (expected = actual) (WrongDigest (pf_source p))) (\<lambda>_.
        compare_payload faults sha256 bundle root ps)))))"

definition install_payload :: "faults \<Rightarrow> string \<Rightarrow> (string \<Rightarrow> string) \<Rightarrow> string \<Rightarrow> string \<Rightarrow> bool \<Rightarrow> (install_error, unit) fs_op" where
  "install_payload faults pid sha256 bundle root force =
     op_bind (verify_payload_manifest faults sha256 bundle) (\<lambda>_.
     op_bind (copy_payload faults pid bundle root force PAYLOAD_FILES) (\<lambda>_.
     op_bind (verify_payload_manifest faults sha256 bundle) (\<lambda>_.
     compare_payload faults sha256 bundle root PAYLOAD_FILES)))"

fun preflight_payload :: "faults \<Rightarrow> string \<Rightarrow> string \<Rightarrow> bool \<Rightarrow> PayloadFile list \<Rightarrow> (install_error, unit) fs_op" where
  "preflight_payload faults bundle root force [] = op_return ()"
| "preflight_payload faults bundle root force (p # ps) =
     op_bind (op_of_result (rooted root (pf_destination p))) (\<lambda>destination.
     op_bind (open_regular faults (path_join bundle (pf_source p))) (\<lambda>input.
     op_bind (op_try (io faults () (symlink_metadata destination))) (\<lambda>metadata.
     op_bind
       (case metadata of
          None \<Rightarrow> op_return ()
        | Some node \<Rightarrow>
            op_bind (op_check (is_regular node) (NotRegularTarget destination)) (\<lambda>_.
            op_bind (files_equal faults input destination) (\<lambda>equal.
            op_check (equal \<or> force) (DifferentTarget destination)))) (\<lambda>_.
     preflight_payload faults bundle root force ps))))"

definition preflight_install_payload :: "faults \<Rightarrow> string \<Rightarrow> string \<Rightarrow> bool \<Rightarrow> (install_error, unit) fs_op" where
  "preflight_install_payload faults bundle root force = preflight_payload faults bundle root force PAYLOAD_FILES"

end
