(* ===== verification/Installation.thy ===== *)
theory Installation
  imports Installer
begin

text \<open>
  The commands of the installer around its payload: \<open>install\<close>, \<open>status\<close>, \<open>doctor\<close> and what they run.
  Every command goes through \<open>ie_run\<close>, which may change files and services; the API is asked through
  \<open>ie_http\<close>, the answer being what the first read returns.
\<close>

section \<open>Commands\<close>

datatype command_outcome = CommandMissing | CommandUnusable | CommandDone bool string

record ('b, 'h) install_world =
  iw_files :: host_fs
  iw_store :: 'b
  iw_host :: 'h

record ('b, 'h) install_env =
  ie_setup :: "'b setup_env"
  ie_linux :: bool
  ie_run :: "string \<Rightarrow> string list \<Rightarrow> ('b, 'h) install_world \<Rightarrow> command_outcome \<times> ('b, 'h) install_world"
  ie_http :: "SocketAddr \<Rightarrow> ('b, 'h) install_world \<Rightarrow> string option \<times> ('b, 'h) install_world"
  ie_sha256 :: "string \<Rightarrow> string"
  ie_executable :: "string option"
  ie_canonical :: "string \<Rightarrow> string option"
  ie_answer :: string
  ie_ready_polls :: "nat list"
  ie_unit_polls :: "nat list"

type_synonym ('b, 'h, 'a) install_op = "(('b, 'h) install_world, install_error, 'a) op"

definition in_files :: "(install_error, 'a) fs_op \<Rightarrow> ('b, 'h, 'a) install_op" where
  "in_files m = op_within iw_files (\<lambda>fs w. w\<lparr>iw_files := fs\<rparr>) m"

definition run_command :: "('b, 'h) install_env \<Rightarrow> string \<Rightarrow> string list \<Rightarrow> ('b, 'h, bool \<times> string) install_op" where
  "run_command env program arguments w =
     (case ie_run env program arguments w of
        (CommandDone success stdout, w') \<Rightarrow> (Ok (success, stdout), w')
      | (_, w') \<Rightarrow> (Err (CommandNotRun program), w'))"

definition command_succeeds :: "('b, 'h) install_env \<Rightarrow> string \<Rightarrow> string list \<Rightarrow> ('b, 'h, bool) install_op" where
  "command_succeeds env program arguments =
     op_bind (run_command env program arguments) (\<lambda>outcome. op_return (fst outcome))"

definition run_checked :: "('b, 'h) install_env \<Rightarrow> string \<Rightarrow> string list \<Rightarrow> ('b, 'h, unit) install_op" where
  "run_checked env program arguments =
     op_bind (run_command env program arguments) (\<lambda>outcome. op_check (fst outcome) (CommandFailed program))"

definition require_command :: "('b, 'h) install_env \<Rightarrow> string \<times> string \<Rightarrow> ('b, 'h, unit) install_op" where
  "require_command env p = run_checked env (fst p) [snd p]"

definition optional_command_succeeds :: "('b, 'h) install_env \<Rightarrow> string \<Rightarrow> string list \<Rightarrow> ('b, 'h, bool) install_op" where
  "optional_command_succeeds env program arguments w =
     (case ie_run env program arguments w of
        (CommandMissing, w') \<Rightarrow> (Ok False, w')
      | (CommandUnusable, w') \<Rightarrow> (Err (CommandNotRun program), w')
      | (CommandDone success _, w') \<Rightarrow> (Ok success, w'))"

definition command_stdout :: "('b, 'h) install_env \<Rightarrow> string \<Rightarrow> string list \<Rightarrow> ('b, 'h, string) install_op" where
  "command_stdout env program arguments =
     op_bind (run_command env program arguments) (\<lambda>outcome.
     op_bind (op_check (fst outcome \<and> utf8_valid (snd outcome)) (CommandFailed program)) (\<lambda>_.
     op_return (snd outcome)))"

fun all_in_order :: "('a \<Rightarrow> ('b, 'h, unit) install_op) \<Rightarrow> 'a list \<Rightarrow> ('b, 'h, unit) install_op" where
  "all_in_order f [] = op_return ()"
| "all_in_order f (x # xs) = op_bind (f x) (\<lambda>_. all_in_order f xs)"

section \<open>The host\<close>

definition ensure_root :: "('b, 'h) install_env \<Rightarrow> ('b, 'h, unit) install_op" where
  "ensure_root env = op_bind (command_stdout env ''id'' [''-u'']) (\<lambda>uid. op_check (trim uid = ''0'') NotRoot)"

definition trim_quotes :: "string \<Rightarrow> string" where
  "trim_quotes v =
     (let quote = (\<lambda>c. c = CHR 0x22) in rev (dropWhile quote (rev (dropWhile quote v))))"

fun os_identity :: "string option \<times> string option \<Rightarrow> string list \<Rightarrow> string option \<times> string option" where
  "os_identity found [] = found"
| "os_identity (system, release) (line # lines) =
     os_identity
       (if starts_with ''ID='' line then (Some (trim_quotes (drop 3 line)), release)
        else if starts_with ''VERSION_ID='' line then (system, Some (trim_quotes (drop 11 line)))
        else (system, release)) lines"

definition is_supported_ubuntu :: "string \<Rightarrow> bool" where
  "is_supported_ubuntu os_release \<longleftrightarrow> os_identity (None, None) (text_lines os_release) = (Some ''ubuntu'', Some ''24.04'')"

definition dependency_install_confirmed :: "string \<Rightarrow> bool" where
  "dependency_install_confirmed answer \<longleftrightarrow> to_ascii_lowercase (trim answer) \<in> set [[], ''y'', ''yes'']"

definition native_runtime_available :: "('b, 'h) install_env \<Rightarrow> ('b, 'h, bool) install_op" where
  "native_runtime_available env =
     op_bind (optional_command_succeeds env ''vips'' [''--version'']) (\<lambda>vips.
     if \<not> vips then op_return False
     else op_bind (optional_command_succeeds env ''ffmpeg'' [''-version'']) (\<lambda>ffmpeg.
       if \<not> ffmpeg then op_return False else optional_command_succeeds env ''ffprobe'' [''-version'']))"

definition apt_install :: "string list" where
  "apt_install = [''install'', ''-y'', ''--no-install-recommends'', ''libvips-tools'', ''ffmpeg'', ''libheif-plugin-aomdec'',
     ''libheif-plugin-aomenc'', ''libheif-plugin-libde265'', ''libheif-plugin-x265'']"

definition ensure_native_runtime :: "('b, 'h) install_env \<Rightarrow> bool \<Rightarrow> bool \<Rightarrow> ('b, 'h, unit) install_op" where
  "ensure_native_runtime env install_without_prompt skip_install =
     op_bind (native_runtime_available env) (\<lambda>available.
     if available then op_return ()
     else
       op_bind (op_check (\<not> skip_install) NoNativeRuntime) (\<lambda>_.
       op_bind (in_files (io (se_faults (ie_setup env)) UnsupportedSystem (read_content ''/etc/os-release''))) (\<lambda>os_release.
       op_bind (op_check (utf8_valid os_release \<and> is_supported_ubuntu os_release) UnsupportedSystem) (\<lambda>_.
       op_bind (require_command env (''apt-get'', ''--version'')) (\<lambda>_.
       op_bind (op_check (install_without_prompt \<or> se_terminal (ie_setup env)) NoNativeRuntime) (\<lambda>_.
       op_bind (op_check (install_without_prompt \<or> dependency_install_confirmed (ie_answer env)) InstallRefused) (\<lambda>_.
       op_bind (run_checked env ''apt-get'' [''update'']) (\<lambda>_.
       op_bind (command_succeeds env ''apt-get'' apt_install) (\<lambda>installed.
       op_bind (op_check installed NoNativeRuntime) (\<lambda>_.
       op_bind (native_runtime_available env) (\<lambda>available. op_check available NoNativeRuntime)))))))))))"

definition SERVICE_USER :: string where
  "SERVICE_USER = ''g7mediabooster''"

definition is_file :: "string \<Rightarrow> ('b, 'h) install_world \<Rightarrow> bool" where
  "is_file path w \<longleftrightarrow>
     (case entry (iw_files w) path of Some (FileNode c m) \<Rightarrow> True | Some (LinkNode is_dir) \<Rightarrow> \<not> is_dir | _ \<Rightarrow> False)"

definition prepare_service_account :: "('b, 'h) install_env \<Rightarrow> ('b, 'h, unit) install_op" where
  "prepare_service_account env =
     op_bind (command_succeeds env ''getent'' [''group'', SERVICE_USER]) (\<lambda>group.
     op_bind (if group then op_return () else run_checked env ''groupadd'' [''--system'', SERVICE_USER]) (\<lambda>_.
     op_bind (command_succeeds env ''id'' [''-u'', SERVICE_USER]) (\<lambda>user.
     op_bind
       (if user then op_return ()
        else (\<lambda>w. case find (\<lambda>shell. is_file shell w) [''/usr/sbin/nologin'', ''/sbin/nologin'', ''/bin/false''] of
            None \<Rightarrow> (Err NoShell, w)
          | Some shell \<Rightarrow>
              run_checked env ''useradd'' [''--system'', ''--gid'', SERVICE_USER, ''--home-dir'', ''/var/lib/g7mediabooster'',
                ''--shell'', shell, SERVICE_USER] w)) (\<lambda>_.
     op_bind (command_stdout env ''id'' [''-gn'', SERVICE_USER]) (\<lambda>group.
     op_check (trim group = SERVICE_USER) WrongGroup)))))"

definition prepare_directories :: "('b, 'h) install_env \<Rightarrow> ('b, 'h, unit) install_op" where
  "prepare_directories env =
     op_bind (all_in_order (\<lambda>path. in_files (create_install_directory (se_faults (ie_setup env)) path))
       [''/etc/g7mediabooster'', ''/etc/g7mediabooster/credentials'', ''/var/lib/g7mediabooster'',
        ''/var/lib/g7mediabooster/tmp'', ''/var/lib/g7mediabooster/backups'']) (\<lambda>_.
     op_bind (run_checked env ''chown'' [''root:root'', ''/etc/g7mediabooster/credentials'']) (\<lambda>_.
     op_bind (run_checked env ''chgrp'' [SERVICE_USER, ''/etc/g7mediabooster'']) (\<lambda>_.
     all_in_order (\<lambda>path. run_checked env ''chown'' [''g7mediabooster:g7mediabooster'', path])
       [''/var/lib/g7mediabooster'', ''/var/lib/g7mediabooster/tmp'', ''/var/lib/g7mediabooster/backups''])))"

definition prepare_install_directories :: "('b, 'h) install_env \<Rightarrow> ('b, 'h, unit) install_op" where
  "prepare_install_directories env =
     op_bind (all_in_order (\<lambda>path. in_files (ensure_directory (se_faults (ie_setup env)) path))
       [''/usr/local/bin'', ''/usr/local/libexec'', ''/etc/systemd/system'']) (\<lambda>_.
     all_in_order (\<lambda>path. in_files (create_install_directory (se_faults (ie_setup env)) path))
       [''/usr/local/share/g7mediabooster'', ''/usr/local/share/g7mediabooster/gnuboard7'', ''/usr/local/share/g7mediabooster/nginx''])"

section \<open>Health\<close>

definition SERVICE_TARGET :: string where
  "SERVICE_TARGET = ''g7mediabooster.target''"

definition ACTIVE_UNITS :: "string list" where
  "ACTIVE_UNITS = [SERVICE_TARGET, ''g7mediabooster-api.service'', ''g7mediabooster-worker.service'',
     ''g7mediabooster-cleanup.timer'', ''g7mediabooster-inventory.timer'', ''g7mediabooster-backup.timer'']"

definition unit_is_active :: "('b, 'h) install_env \<Rightarrow> string \<Rightarrow> ('b, 'h, bool) install_op" where
  "unit_is_active env name =
     op_bind (run_command env ''systemctl'' [''is-active'', name]) (\<lambda>outcome.
     op_return (fst outcome \<and> trim (snd outcome) = ''active''))"

definition check_http_ready :: "('b, 'h) install_env \<Rightarrow> SocketAddr \<Rightarrow> ('b, 'h, unit) install_op" where
  "check_http_ready env address w =
     (case ie_http env address w of
        (Some response, w') \<Rightarrow>
          (if utf8_valid response \<and> (starts_with ''HTTP/1.1 200 '' response \<or> starts_with ''HTTP/1.0 200 '' response)
           then Ok () else Err NotReady, w')
      | (None, w') \<Rightarrow> (Err NotReady, w'))"

fun wait_until_ready :: "('b, 'h) install_env \<Rightarrow> SocketAddr \<Rightarrow> nat \<Rightarrow> nat list \<Rightarrow> ('b, 'h, unit) install_op" where
  "wait_until_ready env address deadline [] = (\<lambda>w. (Err NotReady, w))"
| "wait_until_ready env address deadline (now # polls) =
     (if \<not> now < deadline then (\<lambda>w. (Err NotReady, w))
      else op_bind (op_try (check_http_ready env address)) (\<lambda>ready.
        if ready \<noteq> None then op_return () else wait_until_ready env address deadline polls))"

fun pending_units :: "('b, 'h) install_env \<Rightarrow> string list \<Rightarrow> ('b, 'h, string list) install_op" where
  "pending_units env [] = op_return []"
| "pending_units env (name # names) =
     op_bind (unit_is_active env name) (\<lambda>active.
     op_bind (pending_units env names) (\<lambda>pending. op_return (if active then pending else name # pending)))"

fun wait_until_active_units :: "('b, 'h) install_env \<Rightarrow> nat \<Rightarrow> nat list \<Rightarrow> ('b, 'h, unit) install_op" where
  "wait_until_active_units env deadline [] = (\<lambda>w. (Err NotReady, w))"
| "wait_until_active_units env deadline (now # polls) =
     (if \<not> now < deadline then (\<lambda>w. (Err NotReady, w))
      else op_bind (pending_units env ACTIVE_UNITS) (\<lambda>pending.
        if pending = [] then op_return () else wait_until_active_units env deadline polls))"

definition load_installed :: "('b, 'h) install_env \<Rightarrow> string \<Rightarrow> ('b, 'h, Settings) install_op" where
  "load_installed env path =
     in_files (io (se_faults (ie_setup env)) BadConfiguration (\<lambda>nodes.
       case load_config (ie_setup env) path nodes of Inl _ \<Rightarrow> None | Inr s \<Rightarrow> Some (s, nodes)))"

definition status :: "('b, 'h) install_env \<Rightarrow> string \<Rightarrow> ('b, 'h, Settings) install_op" where
  "status env config =
     op_bind (op_check (ie_linux env) NotLinux) (\<lambda>_.
     op_bind (load_installed env config) (\<lambda>settings.
     op_bind (all_in_order (\<lambda>name. op_bind (unit_is_active env name) (\<lambda>active. op_check active (UnitInactive name))) ACTIVE_UNITS) (\<lambda>_.
     op_bind (check_http_ready env (srv_bind_addr (set_server settings))) (\<lambda>_.
     op_return settings))))"

definition sandbox_doctor :: "('b, 'h) install_env \<Rightarrow> string \<Rightarrow> ('b, 'h, unit) install_op" where
  "sandbox_doctor env sandbox =
     op_bind (in_files (validate_regular_file (se_faults (ie_setup env)) sandbox (128 * mib))) (\<lambda>_.
     op_bind (run_command env sandbox [''doctor'']) (\<lambda>checked.
     op_bind (op_check (fst checked) SandboxFailed) (\<lambda>_.
     op_bind (run_command env sandbox [''capabilities'']) (\<lambda>found.
     op_check (fst found \<and> length (snd found) \<le> 65536 \<and> snd found \<noteq> []) SandboxFailed))))"

definition doctor :: "('b, 'h) install_env \<Rightarrow> string \<Rightarrow> bool \<Rightarrow> ('b, 'h, unit) install_op" where
  "doctor env config skip_storage =
     op_bind (status env config) (\<lambda>settings.
     op_bind (sandbox_doctor env (wks_sandbox_binary (set_worker settings))) (\<lambda>_.
     if skip_storage then op_return ()
     else let storage = set_storage settings; setup_env = ie_setup env in
       op_map_err CanaryFailed (op_within iw_store (\<lambda>b w. w\<lparr>iw_store := b\<rparr>)
         (op_bind (op_of_result (S3StorageAdmin_new (se_urls setup_env) (se_client setup_env storage) storage)) (\<lambda>admin.
          op_bind (canary admin (se_run_ids setup_env) storage) (\<lambda>_. op_return ()))))))"

section \<open>Installation\<close>

record InstallOptions =
  io_bundle_dir :: "string option"
  io_force :: bool
  io_skip_setup :: bool
  io_skip_start :: bool
  io_install_dependencies :: bool
  io_skip_dependency_install :: bool

fun first_bundle :: "('b, 'h) install_env \<Rightarrow> string list \<Rightarrow> ('b, 'h, string) install_op" where
  "first_bundle env [] = (\<lambda>w. (Err NoBundle, w))"
| "first_bundle env (candidate # candidates) =
     op_bind (op_try (in_files (validate_bundle (se_faults (ie_setup env)) (ie_sha256 env) candidate))) (\<lambda>valid.
     if valid \<noteq> None then op_return candidate else first_bundle env candidates)"

definition bundle_candidates :: "string \<Rightarrow> string list" where
  "bundle_candidates executable =
     (let parent = path_parent executable in
      if path_file_name parent = ''bin'' then [path_parent parent, parent] else [parent])"

definition resolve_bundle_dir :: "('b, 'h) install_env \<Rightarrow> string option \<Rightarrow> ('b, 'h, string) install_op" where
  "resolve_bundle_dir env explicit =
     (case explicit of
        Some path \<Rightarrow>
          (case ie_canonical env path of
             None \<Rightarrow> (\<lambda>w. (Err NoBundle, w))
           | Some canonical \<Rightarrow>
               op_bind (in_files (validate_bundle (se_faults (ie_setup env)) (ie_sha256 env) canonical)) (\<lambda>_.
               op_return canonical))
      | None \<Rightarrow>
          (case ie_executable env of
             None \<Rightarrow> (\<lambda>w. (Err NoBundle, w)) | Some executable \<Rightarrow> first_bundle env (bundle_candidates executable)))"

definition INSTALLED_CONFIG :: string where
  "INSTALLED_CONFIG = ''/etc/g7mediabooster/g7mb.toml''"

definition start_services :: "('b, 'h) install_env \<Rightarrow> bool \<Rightarrow> ('b, 'h, unit) install_op" where
  "start_services env target_was_active =
     op_bind (\<lambda>w. (if is_file INSTALLED_CONFIG w then Ok () else Err NoConfiguration, w)) (\<lambda>_.
     op_bind (run_checked env ''systemctl''
         (if target_was_active then [''restart'', SERVICE_TARGET] else [''enable'', ''--now'', SERVICE_TARGET])) (\<lambda>_.
     op_bind (load_installed env INSTALLED_CONFIG) (\<lambda>settings.
     op_bind (wait_until_ready env (srv_bind_addr (set_server settings)) (hd (ie_ready_polls env @ [0]) + 30000) (tl (ie_ready_polls env))) (\<lambda>_.
     op_bind (wait_until_active_units env (hd (ie_unit_polls env @ [0]) + 30000) (tl (ie_unit_polls env))) (\<lambda>_.
     op_bind (status env INSTALLED_CONFIG) (\<lambda>_. op_return ()))))))"

definition install :: "('b, 'h) install_env \<Rightarrow> InstallOptions \<Rightarrow> ('b, 'h, unit) install_op" where
  "install env options =
     (let faults = se_faults (ie_setup env) in
      op_bind (op_check (ie_linux env) NotLinux) (\<lambda>_.
      op_bind (ensure_root env) (\<lambda>_.
      op_bind (all_in_order (require_command env)
        [(''systemctl'', ''--version''), (''useradd'', ''--help''), (''groupadd'', ''--help''), (''getent'', ''--help''),
         (''chown'', ''--help''), (''chgrp'', ''--help'')]) (\<lambda>_.
      op_bind (ensure_native_runtime env (io_install_dependencies options) (io_skip_dependency_install options)) (\<lambda>_.
      op_bind (resolve_bundle_dir env (io_bundle_dir options)) (\<lambda>bundle.
      op_bind (in_files (validate_bundle faults (ie_sha256 env) bundle)) (\<lambda>_.
      op_bind (sandbox_doctor env (path_join bundle ''libexec/g7mb-sandbox'')) (\<lambda>_.
      op_bind (prepare_service_account env) (\<lambda>_.
      op_bind (prepare_install_directories env) (\<lambda>_.
      op_bind (in_files (preflight_install_payload faults bundle ''/'' (io_force options))) (\<lambda>_.
      op_bind (command_succeeds env ''systemctl'' [''is-active'', ''--quiet'', SERVICE_TARGET]) (\<lambda>target_was_active.
      op_bind (in_files (install_payload faults (se_pid (ie_setup env)) (ie_sha256 env) bundle ''/'' (io_force options))) (\<lambda>_.
      op_bind (prepare_directories env) (\<lambda>_.
      op_bind (run_checked env ''systemctl'' [''daemon-reload'']) (\<lambda>_.
      op_bind (\<lambda>w. if \<not> is_file INSTALLED_CONFIG w \<and> \<not> io_skip_setup options
                  then run_checked env ''/usr/local/bin/g7mbctl'' [''setup''] w else (Ok (), w)) (\<lambda>_.
      if io_skip_start options then op_return () else start_services env target_was_active))))))))))))))))"

end
