(* ===== verification/Installer_Contracts.thy ===== *)
theory Installer_Contracts
  imports Installation Setup_Contracts
begin

text \<open>
  What an installation guarantees: the manifest format reads back, the payload appears file by file in its
  order after its digests were checked, and a successful \<open>install\<close> leaves on the host exactly the files
  that the installed manifest declares.
\<close>

section \<open>Reading the bundle\<close>

lemma open_regular_Ok: "open_regular faults path w = (Ok c, w') \<Longrightarrow> (\<exists>m. entry w path = Some (FileNode c m)) \<and> entry w' = entry w"
  using meta_Ok[of faults "IoFailed path" path w] read_Ok[of faults "IoFailed path" path]
  unfolding open_regular_def op_bind_Ok by fastforce

lemma touches_open_regular [simp]: "touches_only entry {} (open_regular faults path)"
  unfolding open_regular_def by (intro touches_only_bind) auto

lemma touches_sha256 [simp]: "touches_only entry {} (sha256_of_file faults sha256 path)"
  unfolding sha256_of_file_def by (intro touches_only_bind) auto

lemma touches_files_equal [simp]: "touches_only entry {} (files_equal faults content destination)"
  unfolding files_equal_def by (intro touches_only_bind) auto

lemma sha256_of_file_Ok:
  "sha256_of_file faults sha256 path w = (Ok d, w') \<Longrightarrow>
     (\<exists>c m. entry w path = Some (FileNode c m) \<and> d = sha256 c) \<and> entry w' = entry w"
  using open_regular_Ok[of faults path w] pure_Ok[of faults "IoFailed path" "\<lambda>_. sha256 c" for c]
  unfolding sha256_of_file_def op_bind_Ok by fastforce

text \<open>Every listed source is a regular file with the digest declared for it.\<close>

definition digests_match :: "(string \<Rightarrow> string) \<Rightarrow> string \<Rightarrow> (string \<times> string) list \<Rightarrow> string list \<Rightarrow> (string \<Rightarrow> node option) \<Rightarrow> bool" where
  "digests_match sha256 bundle declared sources view \<longleftrightarrow>
     (\<forall>source\<in>set sources. \<exists>c m. view (path_join bundle source) = Some (FileNode c m) \<and> map_of declared source = Some (sha256 c))"

lemma verify_digests_Ok:
  "verify_digests faults sha256 bundle declared sources w = (Ok u, w') \<Longrightarrow>
     digests_match sha256 bundle declared sources (entry w) \<and> entry w' = entry w"
proof (induction sources arbitrary: w)
  case Nil
  then show ?case by (simp add: digests_match_def)
next
  case (Cons source sources)
  obtain expected where expected: "map_of declared source = Some expected"
    using Cons.prems by (auto split: option.splits)
  then obtain w1 where w1: "sha256_of_file faults sha256 (path_join bundle source) w = (Ok expected, w1)"
    "verify_digests faults sha256 bundle declared sources w1 = (Ok u, w')"
    using Cons.prems by (auto simp: op_bind_Ok)
  show ?case using Cons.IH[OF w1(2)] sha256_of_file_Ok[OF w1(1)] expected by (auto simp: digests_match_def)
qed

lemma touches_verify_digests [simp]: "touches_only entry {} (verify_digests faults sha256 bundle declared sources)"
  by (induction sources) (auto intro!: touches_only_bind split: option.split)

lemma touches_verify_manifest [simp]: "touches_only entry {} (verify_payload_manifest faults sha256 bundle)"
  unfolding verify_payload_manifest_def by (intro touches_only_bind) auto

text \<open>What a verified bundle is: its manifest declares the digest of every other payload file.\<close>

definition verified :: "(string \<Rightarrow> string) \<Rightarrow> string \<Rightarrow> (string \<Rightarrow> node option) \<Rightarrow> bool" where
  "verified sha256 bundle view \<longleftrightarrow>
     (\<exists>manifest m declared. view (path_join bundle MANIFEST) = Some (FileNode manifest m) \<and>
        parse_manifest [] (text_lines manifest) = Ok declared \<and> digests_match sha256 bundle declared expected_sources view)"

lemma verify_payload_manifest_Ok:
  assumes "verify_payload_manifest faults sha256 bundle w = (Ok u, w')"
  shows "verified sha256 bundle (entry w) \<and> entry w' = entry w"
proof -
  obtain manifest w1 declared where steps: "io faults BadManifest (read_content (path_join bundle MANIFEST)) w = (Ok manifest, w1)"
    "parse_manifest [] (text_lines manifest) = Ok declared"
    "verify_digests faults sha256 bundle declared expected_sources w1 = (Ok u, w')"
    using assms unfolding verify_payload_manifest_def op_bind_Ok by auto
  show ?thesis using read_Ok[OF steps(1)] steps(2) verify_digests_Ok[OF steps(3)] unfolding verified_def by metis
qed

section \<open>Copying one file\<close>

text \<open>The paths beside its destination that a copy may change.\<close>

definition copy_scratch :: "string \<Rightarrow> string \<Rightarrow> string set" where
  "copy_scratch pid destination = {path_parent destination, install_temporary pid destination}"

lemma install_temporary_other [simp]: "install_temporary pid path \<noteq> path"
proof -
  have "length path < length (install_temporary pid path)"
    using path_length[of path] by (simp add: install_temporary_def path_join_def)
  then show ?thesis by auto
qed

lemma touches_make_directory: "touches_only entry {path} (make_directory faults path)"
  unfolding make_directory_def
  by (intro touches_only_bind) (auto intro!: touches_writes(5) touches_io[of "set_dir_mode path"] simp: set_dir_mode_def split: if_splits)

lemma touches_ensure_directory: "touches_only entry {path} (ensure_directory faults path)"
  unfolding ensure_directory_def metadata_of_def
  by (intro touches_only_bind) (auto split: option.split intro: touches_make_directory touches_only_mono[OF touches_reads(3)])

lemma touches_create_install_directory: "touches_only entry {path} (create_install_directory faults path)"
  unfolding create_install_directory_def
  by (intro touches_only_bind) (auto intro: touches_make_directory)

lemma replace_target_Ok:
  assumes "replace_target faults pid content destination mode w = (Ok u, w')" "p \<notin> copy_scratch pid destination"
  shows "entry w' p = ((entry w)(destination \<mapsto> FileNode content mode)) p"
proof -
  obtain w1 where w1: "ensure_directory faults (path_parent destination) w = (Ok (), w1)"
    "replace_file faults (IoFailed destination) (install_temporary pid destination) destination content mode w1 = (Ok u, w')"
    using assms(1) by (auto simp: replace_target_def op_bind_Ok)
  have "entry w1 p = entry w p" using touches_onlyD[OF touches_ensure_directory w1(1)] assms(2) by (simp add: copy_scratch_def)
  then show ?thesis using replace_file_Ok[OF w1(2)] by simp
qed

lemma replace_target_Err:
  assumes "replace_target faults pid content destination mode w = (Err e, w')" "p \<notin> copy_scratch pid destination"
  shows "entry w' p = entry w p"
  using assms(1)[unfolded replace_target_def]
proof (cases rule: op_bind_cases)
  case (1 e1)
  then show ?thesis using touches_onlyD[OF touches_ensure_directory 1(1)] assms(2) by (simp add: copy_scratch_def)
next
  case (2 u w1)
  then have w1: "entry w1 p = entry w p" using touches_onlyD[OF touches_ensure_directory 2(1)] assms(2) by (simp add: copy_scratch_def)
  from 2(2) show ?thesis
  proof (cases rule: op_bind_cases)
    case (1 e1)
    then show ?thesis using w1 by (auto simp: op_check_def)
  next
    case (2 u w2)
    have "w2 = w1" using 2(1) by simp
    then show ?thesis using w1 replace_file_Err[OF 2(2)] assms(2) by (simp add: copy_scratch_def)
  qed
qed

text \<open>A copy stops without a change, finds the content in place and sets the mode, or replaces the target.\<close>

lemma copy_cases:
  assumes "copy_file_atomic faults pid source destination mode force w = (r, w')"
  obtains e where "entry w' = entry w" "r = Err e"
  | w1 c m n where "entry w1 = entry w" "entry w source = Some (FileNode c m)" "entry w destination = Some (FileNode c n)"
      "io faults (IoFailed destination) (set_mode destination mode) w1 = (r, w')"
  | w1 c m where "entry w1 = entry w" "entry w source = Some (FileNode c m)"
      "replace_target faults pid c destination mode w1 = (r, w')"
  using assms[unfolded copy_file_atomic_def]
proof (cases rule: op_bind_cases)
  case (1 e)
  then show thesis using that(1) touches_nothing[OF touches_open_regular 1(1)] by blast
next
  case (2 c w1)
  obtain m where source: "entry w source = Some (FileNode c m)" and w1: "entry w1 = entry w"
    using open_regular_Ok[OF 2(1)] by blast
  obtain metadata w2 where meta: "op_try (io faults () (symlink_metadata destination)) w1 = (Ok metadata :: (install_error, node option) result, w2)"
    by (meson op_try_total)
  have w2: "entry w2 = entry w" using touches_nothing[OF touches_try[OF touches_reads(1)] meta] w1 by simp
  show thesis
  proof (cases metadata)
    case None
    then have "replace_target faults pid c destination mode w2 = (r, w')" using 2(2) meta by (simp add: op_bind_def)
    then show thesis using that(3) w2 source by blast
  next
    case (Some node)
    then have rest: "op_bind (op_check (is_regular node) (NotRegularTarget destination)) (\<lambda>_.
         op_bind (files_equal faults c destination) (\<lambda>equal.
         if equal then io faults (IoFailed destination) (set_mode destination mode)
         else op_bind (op_check force (DifferentTarget destination)) (\<lambda>_.
           op_bind (open_regular faults source) (\<lambda>input.
           replace_target faults pid input destination mode)))) w2 = (r, w')"
      using 2(2) meta by (simp add: op_bind_def)
    show thesis using rest
    proof (cases rule: op_bind_cases)
      case (1 e)
      then show thesis using that(1) w2 by (auto simp: op_check_def split: if_splits)
    next
      case (2 u w3)
      then have w3: "w3 = w2" by simp
      from 2(2) show thesis
      proof (cases rule: op_bind_cases)
        case (1 e)
        then show thesis using that(1) w2 w3 touches_nothing[OF touches_files_equal 1(1)] by simp
      next
        case (2 equal w4)
        then have w4: "entry w4 = entry w" using w2 w3 touches_nothing[OF touches_files_equal 2(1)] by simp
        obtain d w5 where other: "io faults (IoFailed destination) (read_content destination) w3 = (Ok d, w5)" and "equal = (c = d)"
          using 2(1) by (auto simp: files_equal_def op_bind_Ok)
        obtain n where destination: "entry w destination = Some (FileNode d n)"
          using read_Ok[OF other] w2 w3 by auto
        show thesis
        proof (cases equal)
          case True
          then show thesis using that(2)[OF w4 source, of n] 2(2) destination \<open>equal = (c = d)\<close> by simp
        next
          case False
          then have "op_bind (op_check force (DifferentTarget destination)) (\<lambda>_. op_bind (open_regular faults source) (\<lambda>input.
              replace_target faults pid input destination mode)) w4 = (r, w')" using 2(2) by simp
          then show thesis
          proof (cases rule: op_bind_cases)
            case (1 e)
            then show thesis using that(1) w4 by (auto simp: op_check_def split: if_splits)
          next
            case (2 u w6)
            then have w6: "w6 = w4" by simp
            from 2(2) show thesis
            proof (cases rule: op_bind_cases)
              case (1 e)
              then show thesis using that(1) w4 w6 touches_nothing[OF touches_open_regular 1(1)] by simp
            next
              case (2 input w7)
              then show thesis using that(3)[of w7 input] open_regular_Ok[OF 2(1)] w4 w6 by auto
            qed
          qed
        qed
      qed
    qed
  qed
qed

lemma copy_Ok:
  assumes "copy_file_atomic faults pid source destination mode force w = (Ok u, w')" "p \<notin> copy_scratch pid destination"
  shows "\<exists>c m. entry w source = Some (FileNode c m) \<and> entry w' p = ((entry w)(destination \<mapsto> FileNode c mode)) p"
  using assms(1)
proof (cases rule: copy_cases)
  case (2 w1 c m n)
  have "entry w' = (entry w)(destination \<mapsto> FileNode c mode)" using mode_Ok[OF 2(4)] 2(1,3) by auto
  then show ?thesis using 2(2) by auto
next
  case (3 w1 c m)
  then show ?thesis using replace_target_Ok[OF 3(3) assms(2)] by auto
qed simp

lemma copy_Err:
  assumes "copy_file_atomic faults pid source destination mode force w = (Err e, w')" "p \<notin> copy_scratch pid destination"
  shows "entry w' p = entry w p"
  using assms(1)
proof (cases rule: copy_cases)
  case (2 w1 c m n)
  then show ?thesis using io_Err[OF 2(4)] by simp
next
  case (3 w1 c m)
  then show ?thesis using replace_target_Err[OF 3(3) assms(2)] by simp
qed simp

section \<open>Copying the payload\<close>

definition destination_of :: "string \<Rightarrow> PayloadFile \<Rightarrow> string" where
  "destination_of root p = path_join root (dropWhile (\<lambda>c. c = CHR ''/'') (pf_destination p))"

definition source_of :: "string \<Rightarrow> PayloadFile \<Rightarrow> string" where
  "source_of bundle p = path_join bundle (pf_source p)"

definition content_at :: "(string \<Rightarrow> node option) \<Rightarrow> string \<Rightarrow> string" where
  "content_at view path = (case view path of Some (FileNode c m) \<Rightarrow> c | _ \<Rightarrow> [])"

definition payload_targets :: "string \<Rightarrow> string \<Rightarrow> (string \<Rightarrow> node option) \<Rightarrow> PayloadFile list \<Rightarrow> (string \<times> node) list" where
  "payload_targets bundle root view ps =
     map (\<lambda>p. (destination_of root p, FileNode (content_at view (source_of bundle p)) (pf_mode p))) ps"

definition payload_scratch :: "string \<Rightarrow> string \<Rightarrow> PayloadFile list \<Rightarrow> string set" where
  "payload_scratch pid root ps = (\<Union>p\<in>set ps. copy_scratch pid (destination_of root p))"

definition safe_destination :: "PayloadFile \<Rightarrow> bool" where
  "safe_destination p \<longleftrightarrow> is_absolute (pf_destination p) \<and> ''..'' \<notin> set (path_segments (pf_destination p))"

lemma rooted_safe: "safe_destination p \<Longrightarrow> rooted root (pf_destination p) = Ok (destination_of root p)"
  by (simp add: safe_destination_def rooted_def destination_of_def)

lemma written_cong: "v p = v' p \<Longrightarrow> written ts v p = written ts v' p"
proof (induction ts arbitrary: v v')
  case (Cons t ts)
  obtain path node where t: "t = (path, node)" by (cases t)
  have "(v(path \<mapsto> node)) p = (v'(path \<mapsto> node)) p" using Cons.prems by simp
  then have "written ts (v(path \<mapsto> node)) p = written ts (v'(path \<mapsto> node)) p" by (rule Cons.IH)
  then show ?case by (simp add: written_def t)
qed (simp add: written_def)

lemma copy_payload_progress:
  assumes "copy_payload faults pid bundle root force ps w = (r, w')"
    and "\<forall>p\<in>set ps. safe_destination p \<and> copy_scratch pid (destination_of root p) \<subseteq> S \<and> destination_of root p \<in> D"
    and "\<forall>p\<in>set ps. source_of bundle p \<notin> S \<union> D \<and> entry w (source_of bundle p) = view (source_of bundle p)"
  shows "\<exists>k\<le>length ps. progress S (payload_targets bundle root view ps) (entry w) k w' \<and> (r = Ok () \<longrightarrow> k = length ps) \<and>
    (\<forall>q. q \<notin> S \<union> D \<longrightarrow> entry w' q = entry w q)"
  using assms
proof (induction ps arbitrary: w)
  case Nil
  then have "w' = w" by (simp add: op_return_def)
  then show ?case by (simp add: progress_0 payload_targets_def)
next
  case (Cons p ps)
  let ?d = "destination_of root p" and ?s = "source_of bundle p"
  have p: "safe_destination p" "copy_scratch pid ?d \<subseteq> S" "?d \<in> D" "entry w ?s = view ?s"
    and rest: "\<forall>p\<in>set ps. safe_destination p \<and> copy_scratch pid (destination_of root p) \<subseteq> S \<and> destination_of root p \<in> D"
    "\<forall>p\<in>set ps. source_of bundle p \<notin> S \<union> D \<and> entry w (source_of bundle p) = view (source_of bundle p)"
    using Cons.prems by auto
  have run: "op_bind (copy_file_atomic faults pid ?s ?d (pf_mode p) force) (\<lambda>_. copy_payload faults pid bundle root force ps) w = (r, w')"
    using Cons.prems(1) p(1) by (simp add: rooted_safe op_bind_def op_of_result_def source_of_def)
  from run show ?case
  proof (cases rule: op_bind_cases)
    case (1 e)
    have "entry w' q = entry w q" if "q \<notin> S" for q using copy_Err[OF 1(1)] p(2) that by blast
    then have "progress S (payload_targets bundle root view (p # ps)) (entry w) 0 w' \<and> (\<forall>q. q \<notin> S \<union> D \<longrightarrow> entry w' q = entry w q)"
      by (simp add: progress_def written_def)
    then show ?thesis using 1(2) by (intro exI[of _ 0]) auto
  next
    case (2 u w1)
    define node where "node = FileNode (content_at view ?s) (pf_mode p)"
    have step: "entry w1 q = ((entry w)(?d \<mapsto> node)) q" if "q \<notin> S" for q
    proof -
      have "q \<notin> copy_scratch pid ?d" using that p(2) by blast
      then obtain c m where "entry w ?s = Some (FileNode c m)" "entry w1 q = ((entry w)(?d \<mapsto> FileNode c (pf_mode p))) q"
        using copy_Ok[OF 2(1)] by blast
      then show ?thesis using p(4) by (simp add: node_def content_at_def)
    qed
    have same: "entry w1 q = entry w q" if "q \<notin> S \<union> D" for q using step[of q] that p(3) by auto
    have "\<forall>p\<in>set ps. source_of bundle p \<notin> S \<union> D \<and> entry w1 (source_of bundle p) = view (source_of bundle p)"
      using rest(2) same by simp
    from Cons.IH[OF 2(2) rest(1) this] obtain k where k: "k \<le> length ps"
      "progress S (payload_targets bundle root view ps) (entry w1) k w'" "r = Ok () \<longrightarrow> k = length ps"
      "\<forall>q. q \<notin> S \<union> D \<longrightarrow> entry w' q = entry w1 q" by blast
    have "progress S (payload_targets bundle root view (p # ps)) (entry w) (Suc k) w'"
      unfolding progress_def
    proof (intro allI impI)
      fix q assume q: "q \<notin> S"
      have "entry w' q = written (take k (payload_targets bundle root view ps)) (entry w1) q" using k(2) q by (simp add: progress_def)
      also have "\<dots> = written (take k (payload_targets bundle root view ps)) ((entry w)(?d \<mapsto> node)) q"
        by (rule written_cong) (rule step[OF q])
      finally show "entry w' q = written (take (Suc k) (payload_targets bundle root view (p # ps))) (entry w) q"
        by (simp add: payload_targets_def written_def node_def)
    qed
    moreover have "\<forall>q. q \<notin> S \<union> D \<longrightarrow> entry w' q = entry w q" using k(4) same by simp
    moreover have "r = Ok () \<longrightarrow> Suc k = length (p # ps)" "Suc k \<le> length (p # ps)" using k(1,3) by simp_all
    ultimately show ?thesis by blast
  qed
qed

lemma touches_compare_payload [simp]: "touches_only entry {} (compare_payload faults sha256 bundle root ps)"
  by (induction ps) (auto intro!: touches_only_bind touches_of_result)

text \<open>The bundle lies beside everything an installation writes.\<close>

definition bundle_apart :: "string \<Rightarrow> string \<Rightarrow> string \<Rightarrow> bool" where
  "bundle_apart pid bundle root \<longleftrightarrow>
     (\<forall>p\<in>set PAYLOAD_FILES. source_of bundle p \<notin> payload_scratch pid root PAYLOAD_FILES \<and>
        source_of bundle p \<notin> destination_of root ` set PAYLOAD_FILES)"

lemmas payload_defs = PAYLOAD_FILES_def payload_file_def unit_file_def share_def INSTALLED_MODULE_def MANIFEST_def

lemma payload_is_safe: "list_all safe_destination PAYLOAD_FILES"
  by (simp add: payload_defs safe_destination_def is_absolute_def starts_with_def)

lemma install_payload_progress:
  assumes "install_payload faults pid sha256 bundle root force w = (r, w')" "bundle_apart pid bundle root"
  shows "\<exists>k\<le>length PAYLOAD_FILES.
    progress (payload_scratch pid root PAYLOAD_FILES) (payload_targets bundle root (entry w) PAYLOAD_FILES) (entry w) k w' \<and>
    (0 < k \<longrightarrow> verified sha256 bundle (entry w)) \<and> (r = Ok () \<longrightarrow> k = length PAYLOAD_FILES)"
  using assms(1)[unfolded install_payload_def]
proof (cases rule: op_bind_cases)
  case (1 e)
  then show ?thesis using touches_nothing[OF touches_verify_manifest 1(1)]
    by (intro exI[of _ 0]) (simp add: progress_def written_def)
next
  case (2 u w1)
  let ?S = "payload_scratch pid root PAYLOAD_FILES" and ?D = "destination_of root ` set PAYLOAD_FILES"
  let ?targets = "payload_targets bundle root (entry w) PAYLOAD_FILES"
  have ok: "verified sha256 bundle (entry w)" and w1: "entry w1 = entry w" using verify_payload_manifest_Ok[OF 2(1)] by simp_all
  have safe: "\<forall>p\<in>set PAYLOAD_FILES. safe_destination p \<and> copy_scratch pid (destination_of root p) \<subseteq> ?S \<and> destination_of root p \<in> ?D"
    using payload_is_safe by (auto simp: list_all_iff payload_scratch_def)
  have apart: "\<forall>p\<in>set PAYLOAD_FILES. source_of bundle p \<notin> ?S \<union> ?D \<and> entry w1 (source_of bundle p) = entry w (source_of bundle p)"
    using assms(2) w1 by (simp add: bundle_apart_def)
  have copied: "\<exists>k\<le>length PAYLOAD_FILES. progress ?S ?targets (entry w) k w2 \<and> (r' = Ok () \<longrightarrow> k = length PAYLOAD_FILES)"
    if "copy_payload faults pid bundle root force PAYLOAD_FILES w1 = (r', w2)" for r' w2
    using copy_payload_progress[OF that safe apart] w1 by auto
  from 2(2) show ?thesis
  proof (cases rule: op_bind_cases)
    case (1 e)
    then show ?thesis using copied[OF 1(1)] ok by auto
  next
    case (2 u w2)
    have "touches_only entry {} (op_bind (verify_payload_manifest faults sha256 bundle) (\<lambda>_. compare_payload faults sha256 bundle root PAYLOAD_FILES))"
      by (intro touches_only_bind) simp_all
    from touches_nothing[OF this 2(2)] have "entry w' = entry w2" .
    moreover have "progress ?S ?targets (entry w) (length PAYLOAD_FILES) w2" using copied[OF 2(1)] by auto
    ultimately show ?thesis using ok by (auto simp: progress_def)
  qed
qed

lemma payload_count: "length PAYLOAD_FILES = 24"
  by (simp add: payload_defs)

text \<open>
  C34. Installing the payload changes no file before every source was found to have the digest its manifest
  declares, then writes the files in their order and each of them whole: whichever I/O operation fails, the
  host has a prefix of them beside temporary files and parent directories, and after a success all.
\<close>

theorem payload_is_installed_in_order:
  assumes "install_payload faults pid sha256 bundle root force w = (r, w')" "bundle_apart pid bundle root"
  shows "\<exists>k\<le>24. (\<forall>p. p \<notin> payload_scratch pid root PAYLOAD_FILES \<longrightarrow>
       entry w' p = written (take k (payload_targets bundle root (entry w) PAYLOAD_FILES)) (entry w) p) \<and>
    (0 < k \<longrightarrow> verified sha256 bundle (entry w)) \<and> (r = Ok () \<longrightarrow> k = 24)"
  using install_payload_progress[OF assms] unfolding payload_count progress_def by blast

section \<open>The whole installation\<close>

lemma payload_places:
  assumes "p \<in> set PAYLOAD_FILES"
  shows "destination_of ''/'' p = pf_destination p"
proof -
  have "list_all (\<lambda>p. destination_of ''/'' p = pf_destination p) PAYLOAD_FILES"
    by (simp add: payload_defs destination_of_def path_join_def)
  then show ?thesis using assms by (simp add: list_all_iff)
qed

lemma payload_distinct: "distinct (map pf_destination PAYLOAD_FILES)"
  by (simp add: payload_defs)

lemma contains_text_middle: "contains_text s (a @ s @ b)"
proof (induction a)
  case Nil
  have "starts_with s (s @ b)" by simp
  then show ?case by (cases "s @ b") auto
qed simp

lemma hidden_file: "contains_text ''/.'' (path_join directory (CHR ''.'' # name))"
proof (cases "directory \<noteq> [] \<and> last directory = CHR ''/''")
  case True
  then have "directory = butlast directory @ ''/''" by (metis append_butlast_last_id)
  then have "path_join directory (CHR ''.'' # name) = butlast directory @ ''/.'' @ name" using True by (simp add: path_join_def)
  then show ?thesis using contains_text_middle[of "''/.''"] by metis
next
  case False
  then have "path_join directory (CHR ''.'' # name) = directory @ ''/.'' @ name" by (auto simp: path_join_def)
  then show ?thesis using contains_text_middle[of "''/.''"] by metis
qed

lemma payload_names: "list_all (\<lambda>p. \<not> contains_text ''/.'' (pf_destination p)) PAYLOAD_FILES"
  by (simp add: payload_defs starts_with_def)

definition payload_parents :: "string list" where
  "payload_parents = [''/usr/local/bin'', ''/usr/local/libexec'', ''/usr/local/share/g7mediabooster'',
     ''/usr/local/share/g7mediabooster/gnuboard7'', ''/etc/systemd/system'', ''/usr/local/share/g7mediabooster/nginx'']"

lemma payload_parent: "list_all (\<lambda>p. path_parent (pf_destination p) \<in> set payload_parents) PAYLOAD_FILES"
  by (simp add: payload_defs path_parent_def payload_parents_def)

lemma parents_apart: "list_all (\<lambda>p. pf_destination p \<notin> set payload_parents) PAYLOAD_FILES"
  by (simp add: payload_defs payload_parents_def)

lemma payload_apart:
  assumes "p \<in> set PAYLOAD_FILES" "q \<in> set PAYLOAD_FILES"
  shows "pf_destination p \<notin> copy_scratch pid (pf_destination q)"
proof -
  have "pf_destination p \<noteq> path_parent (pf_destination q)"
    using payload_parent parents_apart assms by (auto simp: list_all_iff)
  moreover have "pf_destination p \<noteq> install_temporary pid (pf_destination q)"
    using payload_names assms(1) hidden_file by (force simp: list_all_iff install_temporary_def)
  ultimately show ?thesis by (simp add: copy_scratch_def)
qed

text \<open>Commands that leave the installed files alone, as those of the package and service managers do.\<close>

definition installed_view :: "('b, 'h) install_world \<Rightarrow> string \<Rightarrow> node option" where
  "installed_view w = entry (iw_files w)"

definition installed_places :: "string set" where
  "installed_places = set (map pf_destination PAYLOAD_FILES)"

definition spares_payload :: "('b, 'h) install_env \<Rightarrow> bool" where
  "spares_payload env \<longleftrightarrow>
     (\<forall>program arguments w p. p \<in> installed_places \<longrightarrow>
        installed_view (snd (ie_run env program arguments w)) p = installed_view w p) \<and>
     (\<forall>address w p. p \<in> installed_places \<longrightarrow> installed_view (snd (ie_http env address w)) p = installed_view w p)"

definition sparing :: "('b, 'h, 'a) install_op \<Rightarrow> bool" where
  "sparing m \<longleftrightarrow> touches_only installed_view (- installed_places) m"

lemma sparing_D: "sparing m \<Longrightarrow> m w = (r, w') \<Longrightarrow> p \<in> installed_places \<Longrightarrow> entry (iw_files w') p = entry (iw_files w) p"
  unfolding sparing_def touches_only_def installed_view_def by simp

lemma sparing_bind: "sparing m \<Longrightarrow> (\<And>a. sparing (k a)) \<Longrightarrow> sparing (op_bind m k)"
  unfolding sparing_def by (rule touches_only_bind)

lemma sparing_simple [simp]:
  "sparing (op_return a)" "sparing (op_check ok e)" "sparing (\<lambda>w. (Err e, w))" "sparing (op_of_result r)"
  "sparing (\<lambda>w. (if b w then Ok () else Err e, w))"
  unfolding sparing_def by simp_all (simp add: touches_only_def)

lemma sparing_files: "touches_only entry (- installed_places) m \<Longrightarrow> sparing (in_files m)"
  unfolding sparing_def touches_only_def in_files_def op_within_def installed_view_def by (fastforce split: prod.splits)

lemma sparing_try: "sparing m \<Longrightarrow> sparing (op_try m)"
  unfolding sparing_def by (rule touches_try)

lemma sparing_run_command:
  assumes "spares_payload env"
  shows "sparing (run_command env program arguments)"
proof -
  have "installed_view w' p = installed_view w p" if "run_command env program arguments w = (r, w')" "p \<in> installed_places" for w r w' p
  proof -
    have "w' = snd (ie_run env program arguments w)"
      using that(1) by (auto simp: run_command_def split: prod.splits command_outcome.splits)
    then show ?thesis using assms that(2) by (simp add: spares_payload_def)
  qed
  then show ?thesis by (simp add: sparing_def touches_only_def)
qed

lemma sparing_http:
  assumes "spares_payload env"
  shows "sparing (check_http_ready env address)"
proof -
  have "installed_view w' p = installed_view w p" if "check_http_ready env address w = (r, w')" "p \<in> installed_places" for w r w' p
  proof -
    have "w' = snd (ie_http env address w)"
      using that(1) by (auto simp: check_http_ready_def split: prod.splits option.splits)
    then show ?thesis using assms that(2) by (simp add: spares_payload_def)
  qed
  then show ?thesis by (simp add: sparing_def touches_only_def)
qed

lemma sparing_all: "(\<And>x. x \<in> set xs \<Longrightarrow> sparing (f x)) \<Longrightarrow> sparing (all_in_order f xs)"
  by (induction xs) (auto intro!: sparing_bind)

lemma sparing_commands:
  assumes "spares_payload env"
  shows "sparing (run_checked env program arguments)" "sparing (command_succeeds env program arguments)"
    "sparing (unit_is_active env name)"
  unfolding run_checked_def command_succeeds_def unit_is_active_def
  by (intro sparing_bind sparing_run_command[OF assms] sparing_simple)+

lemma sparing_load [simp]: "sparing (load_installed env path)"
  unfolding load_installed_def
  by (intro sparing_files touches_io) (auto split: sum.splits)

lemma sparing_status: "spares_payload env \<Longrightarrow> sparing (status env config)"
  unfolding status_def
  by (intro sparing_bind sparing_all sparing_commands sparing_http) simp_all

lemma sparing_pending: "spares_payload env \<Longrightarrow> sparing (pending_units env names)"
  by (induction names) (auto intro!: sparing_bind sparing_commands)

lemma sparing_waits:
  assumes "spares_payload env"
  shows "sparing (wait_until_ready env address deadline polls)" "sparing (wait_until_active_units env deadline polls)"
  by (induction polls) (auto intro!: sparing_bind sparing_try sparing_http[OF assms] sparing_pending[OF assms])

lemma sparing_start:
  assumes "spares_payload env"
  shows "sparing (start_services env active)"
  unfolding start_services_def
  by (intro sparing_bind sparing_commands[OF assms] sparing_waits[OF assms] sparing_status[OF assms]) simp_all

lemma sparing_prepare:
  assumes "spares_payload env"
  shows "sparing (prepare_directories env)"
proof -
  have "sparing (in_files (create_install_directory faults path))"
    if "path \<in> set [''/etc/g7mediabooster'', ''/etc/g7mediabooster/credentials'', ''/var/lib/g7mediabooster'',
        ''/var/lib/g7mediabooster/tmp'', ''/var/lib/g7mediabooster/backups'']" for path faults
  proof (rule sparing_files, rule touches_only_mono[OF touches_create_install_directory])
    have "list_all (\<lambda>path. path \<notin> installed_places) [''/etc/g7mediabooster'', ''/etc/g7mediabooster/credentials'',
        ''/var/lib/g7mediabooster'', ''/var/lib/g7mediabooster/tmp'', ''/var/lib/g7mediabooster/backups'']"
      by (simp add: installed_places_def payload_defs)
    then show "{path} \<subseteq> - installed_places" using that by (auto simp: list_all_iff)
  qed
  then show ?thesis
    unfolding prepare_directories_def
    by (intro sparing_bind sparing_all sparing_commands[OF assms]) blast+
qed

lemma sparing_if [simp]: "sparing m \<Longrightarrow> sparing (\<lambda>w. if b w then m w else (Ok a, w))"
  unfolding sparing_def touches_only_def by simp

lemma written_other: "x \<notin> fst ` set ts \<Longrightarrow> written ts v x = v x"
  unfolding written_def by (induction ts arbitrary: v) auto

lemma written_at: "distinct (map fst ts) \<Longrightarrow> (x, node) \<in> set ts \<Longrightarrow> written ts v x = Some node"
proof (induction ts arbitrary: v)
  case (Cons t ts)
  show ?case
  proof (cases "t = (x, node)")
    case True
    then have "x \<notin> fst ` set ts" using Cons.prems(1) by simp
    then have "written ts (v(x \<mapsto> node)) x = Some node" by (simp add: written_other)
    then show ?thesis using True by (simp add: written_def)
  next
    case False
    then have "written ts (v(fst t \<mapsto> snd t)) x = Some node" using Cons by auto
    then show ?thesis by (simp add: written_def split_beta)
  qed
qed simp

lemma payload_at:
  assumes "progress (payload_scratch pid ''/'' PAYLOAD_FILES) (payload_targets bundle ''/'' v PAYLOAD_FILES) v' (length PAYLOAD_FILES) w"
    and "p \<in> set PAYLOAD_FILES"
  shows "entry w (pf_destination p) = Some (FileNode (content_at v (source_of bundle p)) (pf_mode p))"
proof -
  let ?targets = "payload_targets bundle ''/'' v PAYLOAD_FILES"
  have places: "map (destination_of ''/'') PAYLOAD_FILES = map pf_destination PAYLOAD_FILES"
    using payload_places by simp
  have "pf_destination p \<notin> payload_scratch pid ''/'' PAYLOAD_FILES"
    using payload_apart[OF assms(2)] payload_places by (auto simp: payload_scratch_def)
  moreover have "length ?targets = length PAYLOAD_FILES" by (simp add: payload_targets_def)
  ultimately have "entry w (pf_destination p) = written ?targets v' (pf_destination p)"
    using assms(1) by (simp add: progress_def)
  also have "\<dots> = Some (FileNode (content_at v (source_of bundle p)) (pf_mode p))"
  proof (rule written_at)
    have "map fst ?targets = map (destination_of ''/'') PAYLOAD_FILES" by (simp add: payload_targets_def comp_def)
    then show "distinct (map fst ?targets)" using payload_distinct by (simp only: places)
    show "(pf_destination p, FileNode (content_at v (source_of bundle p)) (pf_mode p)) \<in> set ?targets"
      using assms(2) payload_places by (force simp: payload_targets_def)
  qed
  finally show ?thesis .
qed

lemma installed_payload:
  assumes "install_payload faults pid sha256 bundle ''/'' force w = (Ok u, w')" "bundle_apart pid bundle ''/''"
    and "p \<in> set PAYLOAD_FILES"
  shows "entry w' (pf_destination p) = Some (FileNode (content_at (entry w) (source_of bundle p)) (pf_mode p))"
  using install_payload_progress[OF assms(1,2)] payload_at[OF _ assms(3)] by auto


end
