(* ===== verification/Installer_Runs.thy ===== *)
theory Installer_Runs
  imports Installer_Contracts
begin

text \<open>
  Installations that succeed: what the packaging script prints as a manifest reads back, and on a host whose
  I/O does not fail a bundle with matching digests installs wherever nothing is in its way.
\<close>

section \<open>The manifest format\<close>

text \<open>\<open>sha256sum\<close>: a digest, two spaces and the file's name on each line.\<close>

definition manifest_line :: "string \<times> string \<Rightarrow> string" where
  "manifest_line e = snd e @ ''  '' @ fst e"

definition render_manifest :: "(string \<times> string) list \<Rightarrow> string" where
  "render_manifest entries = concat (map (\<lambda>e. manifest_line e @ [newline]) entries)"

definition line_safe :: "string \<Rightarrow> bool" where
  "line_safe v \<longleftrightarrow> newline \<notin> set v \<and> v \<noteq> [] \<and> last v \<noteq> CHR 0x0D"

lemma text_lines_Cons:
  assumes "newline \<notin> set line" "line \<noteq> []" "last line \<noteq> CHR 0x0D"
  shows "text_lines (line @ newline # rest) = line # text_lines rest"
proof -
  obtain c v where cv: "line @ newline # rest = c # v" by (cases "line @ newline # rest") auto
  have line: "takeWhile (\<lambda>c. c \<noteq> newline) (c # v) = line"
    unfolding cv[symmetric] using assms(1) by (subst takeWhile_append2) auto
  have rest: "drop (Suc (length line)) (c # v) = rest" by (simp only: cv[symmetric]) simp
  have strip: "strip_suffix [CHR 0x0D] line = None"
    using assms(2,3) by (auto simp: strip_suffix_def) (metis append_butlast_last_id last_snoc append_take_drop_id last_appendR)
  have "text_lines (c # v) = line # text_lines rest"
    by (subst text_lines.simps) (simp only: line rest strip Let_def option.case)
  then show ?thesis by (simp only: cv)
qed

lemma split_fields_line:
  assumes "CHR '' '' \<notin> set digest"
  shows "split_fields (digest @ ''  '' @ source) = Some (digest, source)"
  using assms by (induction digest) (auto simp: starts_with_def)

lemma hex_is_not_blank: "\<not> is_lower_hex (CHR '' '')"
  by (simp add: is_lower_hex_def is_ascii_digit_def byte_of_def)

lemma rendered_manifest:
  assumes "list_all (\<lambda>(source, digest). manifest_entry_ok digest source \<and> line_safe source) entries"
    and "distinct (map fst entries)"
  shows "parse_manifest [] (text_lines (render_manifest entries)) = Ok (rev entries)"
proof -
  have "parse_manifest declared (text_lines (render_manifest entries)) = Ok (rev entries @ declared)"
    if "set (map fst entries) \<inter> fst ` set declared = {}" for declared
    using assms that
  proof (induction entries arbitrary: declared)
    case Nil
    then show ?case by (simp add: render_manifest_def)
  next
    case (Cons e entries)
    obtain source digest where e: "e = (source, digest)" by (cases e)
    have ok: "manifest_entry_ok digest source" "line_safe source" using Cons.prems(1) by (simp_all add: e)
    have hex: "list_all is_lower_hex digest" using ok(1) by (simp add: manifest_entry_ok_def)
    have blank: "CHR '' '' \<notin> set digest" and plain: "newline \<notin> set digest"
      using hex newline_classes(4) hex_is_not_blank by (auto simp: list_all_iff)
    have line: "newline \<notin> set (manifest_line e)" "manifest_line e \<noteq> []" "last (manifest_line e) \<noteq> CHR 0x0D"
      using ok(2) plain by (auto simp: manifest_line_def e line_safe_def newline_def)
    have lines: "text_lines (render_manifest (e # entries)) = manifest_line e # text_lines (render_manifest entries)"
      using text_lines_Cons[OF line, of "render_manifest entries"] by (simp add: render_manifest_def)
    have fields: "split_fields (manifest_line e) = Some (digest, source)"
      using split_fields_line[OF blank] by (simp add: manifest_line_def e)
    have fresh: "map_of declared source = None" using Cons.prems(3) by (auto simp: e map_of_eq_None_iff)
    have "parse_manifest ((source, digest) # declared) (text_lines (render_manifest entries)) = Ok (rev entries @ (source, digest) # declared)"
      using Cons.prems by (intro Cons.IH) (auto simp: e)
    then show ?case using lines fields by (simp add: ok(1) fresh e)
  qed
  from this[of "[]"] show ?thesis by simp
qed

text \<open>
  A manifest of distinct, acceptable entries in the format of \<open>sha256sum\<close> is read back exactly.
\<close>

theorem manifest_reads_back:
  assumes "list_all (\<lambda>(source, digest). manifest_entry_ok digest source \<and> line_safe source) entries"
    and "distinct (map fst entries)"
  shows "parse_manifest [] (text_lines (render_manifest entries)) = Ok (rev entries)"
  using rendered_manifest[OF assms] .

section \<open>A host without faults\<close>

lemma io_succeeds:
  assumes "\<forall>n. faults n = None" "\<And>w. P w \<Longrightarrow> \<exists>a nodes. act (fs_nodes w) = Some (a, nodes) \<and> (\<forall>w'. fs_nodes w' = nodes \<longrightarrow> Q a w')"
  shows "succeeds P (io faults e act) Q"
  unfolding succeeds_def
proof (intro allI impI)
  fix w assume "P w"
  then obtain a nodes where "act (fs_nodes w) = Some (a, nodes)" "\<forall>w'. fs_nodes w' = nodes \<longrightarrow> Q a w'" using assms(2) by blast
  then show "\<exists>a w'. io faults e act w = (Ok a, w') \<and> Q a w'"
    using assms(1) by (simp add: io_def io_run)
qed

lemma meta_succeeds:
  "\<forall>n. faults n = None \<Longrightarrow> v p = Some node \<Longrightarrow>
     succeeds (\<lambda>w. entry w = v) (io faults e (symlink_metadata p)) (\<lambda>a w. a = node \<and> entry w = v)"
  by (rule io_succeeds) (auto simp: symlink_metadata_def entry_def)

lemma read_succeeds:
  "\<forall>n. faults n = None \<Longrightarrow> v p = Some (FileNode c m) \<Longrightarrow>
     succeeds (\<lambda>w. entry w = v) (io faults e (read_content p)) (\<lambda>a w. a = c \<and> entry w = v)"
  by (rule io_succeeds) (auto simp: read_content_def entry_def)

lemma open_succeeds:
  assumes "\<forall>n. faults n = None" "v p = Some (FileNode c m)"
  shows "succeeds (\<lambda>w. entry w = v) (open_regular faults p) (\<lambda>a w. a = c \<and> entry w = v)"
  unfolding open_regular_def
proof (rule succeeds_bind[OF meta_succeeds[where v = v and p = p, OF assms]])
  fix node
  show "succeeds (\<lambda>w. node = FileNode c m \<and> entry w = v) (op_bind (op_check (is_regular node) (BadFile p)) (\<lambda>_. io faults (IoFailed p) (read_content p)))
      (\<lambda>a w. a = c \<and> entry w = v)"
    by (rule succeeds_bind[where Q = "\<lambda>_ w. entry w = v"]) (simp_all add: read_succeeds[where v = v and p = p, OF assms])
qed

lemma sha256_succeeds:
  assumes "\<forall>n. faults n = None" "v p = Some (FileNode c m)"
  shows "succeeds (\<lambda>w. entry w = v) (sha256_of_file faults sha256 p) (\<lambda>d w. d = sha256 c \<and> entry w = v)"
  unfolding sha256_of_file_def
proof (rule succeeds_bind[OF open_succeeds[where v = v and p = p, OF assms]])
  fix a
  show "succeeds (\<lambda>w. a = c \<and> entry w = v) (io faults (IoFailed p) (\<lambda>nodes. Some (sha256 a, nodes))) (\<lambda>d w. d = sha256 c \<and> entry w = v)"
    by (rule io_succeeds[OF assms(1)]) (auto simp: entry_def)
qed

lemma verify_digests_succeeds:
  assumes "\<forall>n. faults n = None" "digests_match sha256 bundle declared sources v"
  shows "succeeds (\<lambda>w. entry w = v) (verify_digests faults sha256 bundle declared sources) (\<lambda>_ w. entry w = v)"
  using assms(2)
proof (induction sources)
  case (Cons source sources)
  obtain c m where c: "v (path_join bundle source) = Some (FileNode c m)" "map_of declared source = Some (sha256 c)"
    and rest: "digests_match sha256 bundle declared sources v"
    using Cons.prems by (auto simp: digests_match_def)
  have "succeeds (\<lambda>w. entry w = v) (op_bind (sha256_of_file faults sha256 (path_join bundle source)) (\<lambda>actual.
      op_bind (op_check (actual = sha256 c) (WrongDigest source)) (\<lambda>_. verify_digests faults sha256 bundle declared sources))) (\<lambda>_ w. entry w = v)"
  proof (rule succeeds_bind[OF sha256_succeeds[where v = v and p = "path_join bundle source", OF assms(1) c(1)]])
    fix d
    show "succeeds (\<lambda>w. d = sha256 c \<and> entry w = v) (op_bind (op_check (d = sha256 c) (WrongDigest source))
        (\<lambda>_. verify_digests faults sha256 bundle declared sources)) (\<lambda>_ w. entry w = v)"
      by (rule succeeds_bind[where Q = "\<lambda>_ w. entry w = v"]) (simp_all add: Cons.IH[OF rest])
  qed
  then show ?case by (simp add: c(2))
qed simp

text \<open>What verification asks of a bundle beyond the digests: a text, and no entry too many.\<close>

definition complete_manifest :: "(string \<Rightarrow> string) \<Rightarrow> string \<Rightarrow> (string \<Rightarrow> node option) \<Rightarrow> bool" where
  "complete_manifest sha256 bundle view \<longleftrightarrow>
     (\<exists>manifest m declared. view (path_join bundle MANIFEST) = Some (FileNode manifest m) \<and> utf8_valid manifest \<and>
        parse_manifest [] (text_lines manifest) = Ok declared \<and> length declared = length expected_sources \<and>
        digests_match sha256 bundle declared expected_sources view)"

lemma verify_manifest_succeeds:
  assumes "\<forall>n. faults n = None" "complete_manifest sha256 bundle v"
  shows "succeeds (\<lambda>w. entry w = v) (verify_payload_manifest faults sha256 bundle) (\<lambda>_ w. entry w = v)"
proof -
  obtain manifest m declared where m: "v (path_join bundle MANIFEST) = Some (FileNode manifest m)" "utf8_valid manifest"
    "parse_manifest [] (text_lines manifest) = Ok declared" "length declared = length expected_sources"
    "digests_match sha256 bundle declared expected_sources v"
    using assms(2) unfolding complete_manifest_def by blast
  note digests = verify_digests_succeeds[OF assms(1) m(5)]
  show ?thesis
    unfolding verify_payload_manifest_def
  proof (rule succeeds_bind[OF read_succeeds[where v = v and p = "path_join bundle MANIFEST", OF assms(1) m(1)]])
    fix found
    show "succeeds (\<lambda>w. found = manifest \<and> entry w = v) (op_bind (op_check (utf8_valid found) BadManifest) (\<lambda>_.
        op_bind (op_of_result (parse_manifest [] (text_lines found))) (\<lambda>declared.
        op_bind (op_check (length declared = length expected_sources) WrongCount) (\<lambda>_.
        verify_digests faults sha256 bundle declared expected_sources)))) (\<lambda>_ w. entry w = v)"
      using succeedsD[OF digests] m(2,3,4) by (auto simp: succeeds_def op_bind_def op_check_def op_of_result_def)
  qed
qed

lemma ensure_directory_succeeds:
  assumes "\<forall>n. faults n = None" "v path = None \<or> v path = Some DirNode"
  shows "succeeds (\<lambda>w. entry w = v) (ensure_directory faults path) (\<lambda>_ w. entry w = v(path \<mapsto> DirNode))"
  unfolding ensure_directory_def
proof (rule succeeds_bind[where Q = "\<lambda>a w. a = v path \<and> entry w = v"])
  show "succeeds (\<lambda>w. entry w = v) (metadata_of faults path) (\<lambda>a w. a = v path \<and> entry w = v)"
    unfolding metadata_of_def by (rule io_succeeds[OF assms(1)]) (auto simp: entry_def)
  fix metadata :: "node option"
  show "succeeds (\<lambda>w. metadata = v path \<and> entry w = v) (case metadata of None \<Rightarrow> make_directory faults path
      | Some node \<Rightarrow> op_check (node = DirNode) (NotADirectory path)) (\<lambda>_ w. entry w = v(path \<mapsto> DirNode))"
  proof (cases "v path")
    case None
    have "succeeds (\<lambda>w. entry w = v) (make_directory faults path) (\<lambda>_ w. entry w = v(path \<mapsto> DirNode))"
      unfolding make_directory_def
    proof (rule succeeds_bind[where Q = "\<lambda>_ w. entry w = v(path \<mapsto> DirNode)"])
      show "succeeds (\<lambda>w. entry w = v) (io faults (IoFailed path) (create_dir_all path)) (\<lambda>_ w. entry w = v(path \<mapsto> DirNode))"
        using None by (intro io_succeeds[OF assms(1)]) (auto simp: entry_def create_dir_all_def update_conv')
      show "succeeds (\<lambda>w. entry w = v(path \<mapsto> DirNode)) (io faults (IoFailed path) (set_dir_mode path)) (\<lambda>_ w. entry w = v(path \<mapsto> DirNode))"
        by (intro io_succeeds[OF assms(1)]) (auto simp: entry_def set_dir_mode_def)
    qed
    then show ?thesis using None by (auto simp: succeeds_def)
  next
    case (Some node)
    then show ?thesis using assms(2) by (auto simp: succeeds_def op_check_def fun_eq_iff)
  qed
qed

lemma replace_file_succeeds:
  assumes "\<forall>n. faults n = None" "v temporary = None" "v path \<noteq> Some DirNode" "temporary \<noteq> path"
  shows "succeeds (\<lambda>w. entry w = v) (replace_file faults e temporary path content mode) (\<lambda>_ w. entry w = v(path \<mapsto> FileNode content mode))"
  unfolding succeeds_def
proof (intro allI impI)
  fix w assume w: "entry w = v"
  then have none: "map_of (fs_nodes w) temporary = None" "map_of (fs_nodes w) path \<noteq> Some DirNode"
    using assms(2,3) by (auto simp: entry_def)
  then have "isl (fst (replace_file faults e temporary path content mode w)) = False"
    using assms(1,4) by (simp add: replace_file_def write_renamed_def Let_def rename_file_def running)
  then obtain u w' where run: "replace_file faults e temporary path content mode w = (Ok u, w')"
    by (cases "replace_file faults e temporary path content mode w"; cases "fst (replace_file faults e temporary path content mode w)") auto
  then show "\<exists>a w'. replace_file faults e temporary path content mode w = (Ok a, w') \<and> entry w' = v(path \<mapsto> FileNode content mode)"
    using replace_file_Ok[OF run assms(4)] w by auto
qed

lemma copy_succeeds:
  assumes "\<forall>n. faults n = None" "v source = Some (FileNode c m)" "v destination = None"
    and "v (install_temporary pid destination) = None" "v (path_parent destination) = None \<or> v (path_parent destination) = Some DirNode"
    and "path_parent destination \<noteq> destination" "path_parent destination \<noteq> install_temporary pid destination"
    and "utf8_valid (path_file_name destination)"
  shows "succeeds (\<lambda>w. entry w = v) (copy_file_atomic faults pid source destination mode force)
    (\<lambda>_ w. entry w = v(path_parent destination \<mapsto> DirNode, destination \<mapsto> FileNode c mode))"
proof -
  let ?v = "v(path_parent destination \<mapsto> DirNode)"
  have target: "succeeds (\<lambda>w. entry w = v) (replace_target faults pid c destination mode) (\<lambda>_ w. entry w = ?v(destination \<mapsto> FileNode c mode))"
    unfolding replace_target_def
  proof (rule succeeds_bind[OF ensure_directory_succeeds[where v = v and path = "path_parent destination", OF assms(1,5)]])
    have "succeeds (\<lambda>w. entry w = ?v) (replace_file faults (IoFailed destination) (install_temporary pid destination) destination c mode)
        (\<lambda>_ w. entry w = ?v(destination \<mapsto> FileNode c mode))"
      by (rule replace_file_succeeds[OF assms(1)]) (use assms(3,4,6,7) in auto)
    then show "succeeds (\<lambda>w. entry w = ?v) (op_bind (op_check (utf8_valid (path_file_name destination)) BadName)
        (\<lambda>_. replace_file faults (IoFailed destination) (install_temporary pid destination) destination c mode))
        (\<lambda>_ w. entry w = ?v(destination \<mapsto> FileNode c mode))"
      using assms(8) by (simp add: succeeds_def op_bind_def op_check_def)
  qed
  have absent: "succeeds (\<lambda>w. entry w = v) (op_try (io faults () (symlink_metadata destination))) (\<lambda>a w. a = None \<and> entry w = v)"
    using assms(1,3) by (auto simp: succeeds_def op_try_def io_def io_partial_def Let_def symlink_metadata_def entry_def)
  show ?thesis
    unfolding copy_file_atomic_def
  proof (rule succeeds_bind[OF open_succeeds[where v = v and p = source, OF assms(1,2)]])
    fix input
    show "succeeds (\<lambda>w. input = c \<and> entry w = v) (op_bind (op_try (io faults () (symlink_metadata destination))) (\<lambda>metadata.
       case metadata of
         None \<Rightarrow> replace_target faults pid input destination mode
       | Some node \<Rightarrow>
         op_bind (op_check (is_regular node) (NotRegularTarget destination)) (\<lambda>_.
         op_bind (files_equal faults input destination) (\<lambda>equal.
         if equal then io faults (IoFailed destination) (set_mode destination mode)
         else op_bind (op_check force (DifferentTarget destination)) (\<lambda>_.
           op_bind (open_regular faults source) (\<lambda>input.
           replace_target faults pid input destination mode))))))
       (\<lambda>_ w. entry w = ?v(destination \<mapsto> FileNode c mode))"
    proof (cases "input = c")
      case True
      have "succeeds (\<lambda>w. metadata = None \<and> entry w = v) (case metadata of
         None \<Rightarrow> replace_target faults pid c destination mode
       | Some node \<Rightarrow>
         op_bind (op_check (is_regular node) (NotRegularTarget destination)) (\<lambda>_.
         op_bind (files_equal faults c destination) (\<lambda>equal.
         if equal then io faults (IoFailed destination) (set_mode destination mode)
         else op_bind (op_check force (DifferentTarget destination)) (\<lambda>_.
           op_bind (open_regular faults source) (\<lambda>input.
           replace_target faults pid input destination mode))))) (\<lambda>_ w. entry w = ?v(destination \<mapsto> FileNode c mode))" for metadata
        using target by (cases metadata) (auto simp: succeeds_def)
      then show ?thesis unfolding True simp_thms by (rule succeeds_bind[OF absent])
    qed (simp add: succeeds_def)
  qed
qed

section \<open>The payload on a fresh host\<close>

text \<open>Nothing is in the way of the payload \<open>ps\<close>, and the bundle is as \<open>v\<close> shows it.\<close>

definition unobstructed :: "string \<Rightarrow> string \<Rightarrow> (string \<Rightarrow> node option) \<Rightarrow> PayloadFile list \<Rightarrow> (string \<Rightarrow> node option) \<Rightarrow> bool" where
  "unobstructed pid bundle v ps view \<longleftrightarrow>
     (\<forall>p\<in>set ps. view (pf_destination p) = None) \<and>
     (\<forall>p\<in>set PAYLOAD_FILES. view (install_temporary pid (pf_destination p)) = None \<and>
        (view (path_parent (pf_destination p)) = None \<or> view (path_parent (pf_destination p)) = Some DirNode) \<and>
        view (source_of bundle p) = v (source_of bundle p))"

lemma payload_file_names: "list_all (\<lambda>p. utf8_valid (path_file_name (pf_destination p))) PAYLOAD_FILES"
proof -
  have "list_all (\<lambda>name. list_all (\<lambda>c. byte_of c < 128) name) (map (\<lambda>p. path_file_name (pf_destination p)) PAYLOAD_FILES)"
    by (simp add: payload_defs path_file_name_def byte_of_def)
  then show ?thesis by (auto simp: list_all_iff intro: utf8_valid_ascii)
qed

lemma temporary_is_no_parent:
  assumes "p \<in> set PAYLOAD_FILES"
  shows "path_parent (pf_destination p) \<noteq> install_temporary pid (pf_destination q)"
proof -
  have "list_all (\<lambda>d. \<not> contains_text ''/.'' d) payload_parents" by (simp add: payload_parents_def starts_with_def)
  moreover have "path_parent (pf_destination p) \<in> set payload_parents" using payload_parent assms by (simp add: list_all_iff)
  ultimately show ?thesis using hidden_file by (force simp: list_all_iff install_temporary_def)
qed

lemma sources_apart:
  assumes "bundle_apart pid bundle ''/''" "p \<in> set PAYLOAD_FILES" "q \<in> set PAYLOAD_FILES"
  shows "source_of bundle p \<noteq> pf_destination q" "source_of bundle p \<noteq> path_parent (pf_destination q)"
  using assms payload_places by (auto simp: bundle_apart_def payload_scratch_def copy_scratch_def)

lemma unobstructed_step:
  assumes "unobstructed pid bundle v (p # ps) view" "bundle_apart pid bundle ''/''" "set (p # ps) \<subseteq> set PAYLOAD_FILES"
    and "distinct (map pf_destination (p # ps))"
  shows "unobstructed pid bundle v ps (view(path_parent (pf_destination p) \<mapsto> DirNode, pf_destination p \<mapsto> FileNode c m))"
proof -
  have p: "p \<in> set PAYLOAD_FILES" using assms(3) by simp
  have apart: "pf_destination q \<noteq> path_parent (pf_destination p)" "path_parent (pf_destination q) \<noteq> pf_destination p"
    "install_temporary pid (pf_destination q) \<noteq> pf_destination p" if "q \<in> set PAYLOAD_FILES" for q
    using payload_apart[OF that p, of pid] payload_apart[OF p that, of pid] by (auto simp: copy_scratch_def)
  have temporary: "install_temporary pid (pf_destination q) \<noteq> path_parent (pf_destination p)" for q :: PayloadFile
    using temporary_is_no_parent[OF p] by metis
  have "pf_destination q \<noteq> pf_destination p" if "q \<in> set ps" for q
    using assms(4) imageI[OF that, of pf_destination] by auto
  moreover have "view (pf_destination q) = None" if "q \<in> set ps" for q using assms(1) that by (simp add: unobstructed_def)
  moreover have "q \<in> set PAYLOAD_FILES" if "q \<in> set ps" for q using assms(3) that by auto
  ultimately have "(view(path_parent (pf_destination p) \<mapsto> DirNode, pf_destination p \<mapsto> FileNode c m)) (pf_destination q) = None" if "q \<in> set ps" for q
    using that apart(1) by simp
  moreover have "view (install_temporary pid (pf_destination q)) = None \<and>
      (view (path_parent (pf_destination q)) = None \<or> view (path_parent (pf_destination q)) = Some DirNode) \<and>
      view (source_of bundle q) = v (source_of bundle q)" if "q \<in> set PAYLOAD_FILES" for q
    using assms(1) that by (simp add: unobstructed_def)
  ultimately show ?thesis
    using apart temporary sources_apart[OF assms(2) _ p] by (simp add: unobstructed_def)
qed

lemma copy_payload_succeeds:
  assumes "\<forall>n. faults n = None" "bundle_apart pid bundle ''/''"
    and "\<forall>p\<in>set PAYLOAD_FILES. \<exists>c m. v (source_of bundle p) = Some (FileNode c m)"
    and "set ps \<subseteq> set PAYLOAD_FILES" "distinct (map pf_destination ps)"
  shows "succeeds (\<lambda>w. unobstructed pid bundle v ps (entry w)) (copy_payload faults pid bundle ''/'' force ps) (\<lambda>_ w. True)"
  using assms(4,5)
proof (induction ps)
  case (Cons p ps)
  let ?d = "pf_destination p"
  have p: "p \<in> set PAYLOAD_FILES" using Cons.prems(1) by simp
  have rooted: "rooted ''/'' ?d = Ok ?d"
    using payload_is_safe p payload_places[OF p] by (simp add: list_all_iff rooted_safe)
  have IH: "succeeds (\<lambda>w. unobstructed pid bundle v ps (entry w)) (copy_payload faults pid bundle ''/'' force ps) (\<lambda>_ w. True)"
    using Cons by simp
  have copy: "succeeds (\<lambda>w. w = w0) (copy_file_atomic faults pid (path_join bundle (pf_source p)) ?d (pf_mode p) force)
      (\<lambda>_ w. unobstructed pid bundle v ps (entry w))" if w0: "unobstructed pid bundle v (p # ps) (entry w0)" for w0
  proof -
    obtain c m where c: "entry w0 (path_join bundle (pf_source p)) = Some (FileNode c m)"
      using assms(3) p w0 by (force simp: unobstructed_def source_of_def)
    have "?d \<notin> copy_scratch pid ?d" using payload_apart[OF p p] .
    then have other: "path_parent ?d \<noteq> ?d" by (auto simp: copy_scratch_def)
    have free: "entry w0 ?d = None" "entry w0 (install_temporary pid ?d) = None"
      "entry w0 (path_parent ?d) = None \<or> entry w0 (path_parent ?d) = Some DirNode"
      using w0 p by (simp_all add: unobstructed_def)
    have "utf8_valid (path_file_name ?d)" using payload_file_names p by (simp add: list_all_iff)
    from copy_succeeds[where v = "entry w0", OF assms(1) c free(1,2,3) other temporary_is_no_parent[OF p] this]
    have "succeeds (\<lambda>w. entry w = entry w0) (copy_file_atomic faults pid (path_join bundle (pf_source p)) ?d (pf_mode p) force)
      (\<lambda>_ w. entry w = (entry w0)(path_parent ?d \<mapsto> DirNode, ?d \<mapsto> FileNode c (pf_mode p)))" .
    then show ?thesis
      by (rule succeeds_weaken) (use unobstructed_step[OF w0 assms(2) Cons.prems(1,2)] in auto)
  qed
  have "succeeds (\<lambda>w. unobstructed pid bundle v (p # ps) (entry w)) (op_bind (copy_file_atomic faults pid (path_join bundle (pf_source p)) ?d (pf_mode p) force)
      (\<lambda>_. copy_payload faults pid bundle ''/'' force ps)) (\<lambda>_ w. True)"
    by (rule succeeds_bind[OF succeeds_if_pre[OF copy]]) (use IH in simp_all)
  then show ?case by (simp add: rooted op_bind_def[of "op_of_result _"] op_of_result_def)
qed simp


lemma compare_payload_succeeds:
  assumes "\<forall>n. faults n = None" "set ps \<subseteq> set PAYLOAD_FILES"
    and "\<forall>p\<in>set ps. \<exists>c m n. v (source_of bundle p) = Some (FileNode c m) \<and> v (pf_destination p) = Some (FileNode c n)"
  shows "succeeds (\<lambda>w. entry w = v) (compare_payload faults sha256 bundle ''/'' ps) (\<lambda>_ w. entry w = v)"
  using assms(2,3)
proof (induction ps)
  case (Cons p ps)
  have IH: "succeeds (\<lambda>w. entry w = v) (compare_payload faults sha256 bundle ''/'' ps) (\<lambda>_ w. entry w = v)" using Cons by simp
  show ?case
  proof (cases "pf_source p = MANIFEST")
    case False
    have p: "p \<in> set PAYLOAD_FILES" using Cons.prems(1) by simp
    have rooted: "rooted ''/'' (pf_destination p) = Ok (pf_destination p)"
      using payload_is_safe p payload_places[OF p] by (simp add: list_all_iff rooted_safe)
    obtain c m n where c: "v (path_join bundle (pf_source p)) = Some (FileNode c m)" "v (pf_destination p) = Some (FileNode c n)"
      using Cons.prems(2) by (auto simp: source_of_def)
    note source = sha256_succeeds[of faults v "path_join bundle (pf_source p)" c m sha256, OF assms(1) c(1)]
    note target = sha256_succeeds[of faults v "pf_destination p" c n sha256, OF assms(1) c(2)]
    have "\<exists>a w'. compare_payload faults sha256 bundle ''/'' (p # ps) w = (Ok a, w') \<and> entry w' = v" if w: "entry w = v" for w
    proof -
      obtain w1 where w1: "sha256_of_file faults sha256 (path_join bundle (pf_source p)) w = (Ok (sha256 c), w1)" "entry w1 = v"
        using succeedsD[OF source, of w] w by auto
      obtain w2 where w2: "sha256_of_file faults sha256 (pf_destination p) w1 = (Ok (sha256 c), w2)" "entry w2 = v"
        using succeedsD[OF target, of w1] w1(2) by auto
      obtain u w3 where "compare_payload faults sha256 bundle ''/'' ps w2 = (Ok u, w3)" "entry w3 = v"
        using succeedsD[OF IH, of w2] w2(2) by auto
      then show ?thesis using w1(1) w2(1) False by (simp add: rooted op_bind_def op_of_result_def op_check_def)
    qed
    then show ?thesis by (simp add: succeeds_def)
  qed (use IH in simp)
qed simp

lemma complete_manifest_cong:
  assumes "complete_manifest sha256 bundle v" "\<And>p. p \<in> set PAYLOAD_FILES \<Longrightarrow> v' (source_of bundle p) = v (source_of bundle p)"
  shows "complete_manifest sha256 bundle v'"
proof -
  have "payload_file MANIFEST (share MANIFEST) 420 (64 * kib) \<in> set PAYLOAD_FILES" by (simp add: PAYLOAD_FILES_def MANIFEST_def)
  from assms(2)[OF this] have "v' (path_join bundle MANIFEST) = v (path_join bundle MANIFEST)"
    by (simp add: payload_file_def source_of_def)
  moreover have "v' (path_join bundle source) = v (path_join bundle source)" if "source \<in> set expected_sources" for source
    using that assms(2) by (auto simp: expected_sources_def source_of_def)
  ultimately show ?thesis using assms(1) by (simp add: complete_manifest_def digests_match_def)
qed

lemma payload_installs:
  assumes "\<forall>n. faults n = None" "bundle_apart pid bundle ''/''" "complete_manifest sha256 bundle (entry w)"
    and "unobstructed pid bundle (entry w) PAYLOAD_FILES (entry w)"
  shows "\<exists>w'. install_payload faults pid sha256 bundle ''/'' force w = (Ok (), w')"
proof -
  let ?v = "entry w"
  have declared: "digests_match sha256 bundle declared expected_sources ?v \<Longrightarrow> p \<in> set PAYLOAD_FILES \<Longrightarrow> pf_source p \<noteq> MANIFEST \<Longrightarrow>
      \<exists>c m. ?v (source_of bundle p) = Some (FileNode c m)" for declared p
    unfolding digests_match_def expected_sources_def source_of_def by fastforce
  have sources: "\<forall>p\<in>set PAYLOAD_FILES. \<exists>c m. ?v (source_of bundle p) = Some (FileNode c m)"
  proof
    fix p assume p: "p \<in> set PAYLOAD_FILES"
    obtain manifest m declared where manifest: "?v (path_join bundle MANIFEST) = Some (FileNode manifest m)"
      "digests_match sha256 bundle declared expected_sources ?v"
      using assms(3) unfolding complete_manifest_def by blast
    show "\<exists>c m. ?v (source_of bundle p) = Some (FileNode c m)"
      using declared[OF manifest(2) p] manifest(1) by (cases "pf_source p = MANIFEST") (simp_all add: source_of_def)
  qed
  note verify = verify_manifest_succeeds[where v = ?v, OF assms(1,3)]
  obtain u w1 where w1: "verify_payload_manifest faults sha256 bundle w = (Ok u, w1)" "entry w1 = ?v"
    using succeedsD[OF verify refl] by blast
  obtain u2 w2 where w2: "copy_payload faults pid bundle ''/'' force PAYLOAD_FILES w1 = (Ok u2, w2)"
    using succeedsD[OF copy_payload_succeeds[OF assms(1,2) sources subset_refl payload_distinct], of w1] assms(4) w1(2) by auto
  have safe: "\<forall>p\<in>set PAYLOAD_FILES. safe_destination p \<and> copy_scratch pid (destination_of ''/'' p) \<subseteq> payload_scratch pid ''/'' PAYLOAD_FILES \<and>
      destination_of ''/'' p \<in> destination_of ''/'' ` set PAYLOAD_FILES"
    using payload_is_safe by (auto simp: list_all_iff payload_scratch_def)
  have apart: "\<forall>p\<in>set PAYLOAD_FILES. source_of bundle p \<notin> payload_scratch pid ''/'' PAYLOAD_FILES \<union> destination_of ''/'' ` set PAYLOAD_FILES \<and>
      entry w1 (source_of bundle p) = entry w1 (source_of bundle p)"
    using assms(2) by (simp add: bundle_apart_def)
  have kept: "entry w2 (source_of bundle p) = ?v (source_of bundle p)" if "p \<in> set PAYLOAD_FILES" for p
    using copy_payload_progress[OF w2 safe apart] that w1(2) assms(2) by (auto simp: bundle_apart_def)
  have "complete_manifest sha256 bundle (entry w2)" using complete_manifest_cong[OF assms(3) kept] .
  note verify = verify_manifest_succeeds[where v = "entry w2", OF assms(1) this]
  obtain u3 w3 where w3: "verify_payload_manifest faults sha256 bundle w2 = (Ok u3, w3)" "entry w3 = entry w2"
    using succeedsD[OF verify refl] by blast
  have "progress (payload_scratch pid ''/'' PAYLOAD_FILES) (payload_targets bundle ''/'' (entry w1) PAYLOAD_FILES) (entry w1) (length PAYLOAD_FILES) w2"
    using copy_payload_progress[OF w2 safe apart] by auto
  from payload_at[OF this] have "\<forall>p\<in>set PAYLOAD_FILES. \<exists>c m n. entry w3 (source_of bundle p) = Some (FileNode c m) \<and>
      entry w3 (pf_destination p) = Some (FileNode c n)"
    using sources kept w3(2) w1(2) by (fastforce simp: content_at_def)
  note compare = compare_payload_succeeds[where v = "entry w3", OF assms(1) subset_refl this]
  obtain u4 w4 where "compare_payload faults sha256 bundle ''/'' PAYLOAD_FILES w3 = (Ok u4, w4)"
    using succeedsD[OF compare refl] by blast
  then show ?thesis using w1(1) w2 w3(1) by (simp add: install_payload_def op_bind_def)
qed


section \<open>A whole installation\<close>

lemma validate_payload_files_succeeds:
  assumes "\<forall>n. faults n = None"
    and "\<forall>p\<in>set ps. \<exists>c m. v (source_of bundle p) = Some (FileNode c m) \<and> c \<noteq> [] \<and> length c \<le> pf_maximum_bytes p"
  shows "succeeds (\<lambda>w. entry w = v) (validate_payload_files faults bundle ps) (\<lambda>_ w. entry w = v)"
  using assms(2)
proof (induction ps)
  case (Cons p ps)
  obtain c m where c: "v (path_join bundle (pf_source p)) = Some (FileNode c m)" "c \<noteq> []" "length c \<le> pf_maximum_bytes p"
    using Cons.prems by (auto simp: source_of_def)
  have "succeeds (\<lambda>w. entry w = v) (validate_regular_file faults (path_join bundle (pf_source p)) (pf_maximum_bytes p)) (\<lambda>_ w. entry w = v)"
    unfolding validate_regular_file_def
    by (rule succeeds_bind[OF meta_succeeds[where v = v and p = "path_join bundle (pf_source p)", OF assms(1) c(1)]]) (use c(2,3) in auto)
  then show ?case using Cons by (auto intro: succeeds_bind)
qed simp

lemma validate_bundle_succeeds:
  assumes "\<forall>n. faults n = None" "v bundle = Some DirNode" "complete_manifest sha256 bundle v"
    and "\<forall>p\<in>set PAYLOAD_FILES. \<exists>c m. v (source_of bundle p) = Some (FileNode c m) \<and> c \<noteq> [] \<and> length c \<le> pf_maximum_bytes p"
  shows "succeeds (\<lambda>w. entry w = v) (validate_bundle faults sha256 bundle) (\<lambda>_ w. entry w = v)"
  unfolding validate_bundle_def
proof (rule succeeds_bind[OF meta_succeeds[where v = v and p = "bundle", OF assms(1,2)]])
  fix node
  show "succeeds (\<lambda>w. node = DirNode \<and> entry w = v) (op_bind (op_check (node = DirNode) (NotADirectory bundle)) (\<lambda>_.
      op_bind (validate_payload_files faults bundle PAYLOAD_FILES) (\<lambda>_. verify_payload_manifest faults sha256 bundle))) (\<lambda>_ w. entry w = v)"
    by (intro succeeds_bind[where Q = "\<lambda>_ w. entry w = v"] validate_payload_files_succeeds[OF assms(1,4)] verify_manifest_succeeds[OF assms(1,3)]) simp
qed

lemma create_install_directory_succeeds:
  assumes "\<forall>n. faults n = None" "v path = None \<or> v path = Some DirNode"
  shows "succeeds (\<lambda>w. entry w = v) (create_install_directory faults path) (\<lambda>_ w. entry w = v(path \<mapsto> DirNode))"
  unfolding succeeds_def
proof (intro allI impI)
  fix w assume "entry w = v"
  then have "map_of (fs_nodes w) path = None \<or> map_of (fs_nodes w) path = Some DirNode" "v = map_of (fs_nodes w)"
    using assms(2) by (auto simp: entry_def)
  then show "\<exists>a w'. create_install_directory faults path w = (Ok a, w') \<and> entry w' = v(path \<mapsto> DirNode)"
    using assms(1) by (auto simp: create_install_directory_def make_directory_def op_try_def io_partial_def Let_def set_dir_mode_def running fun_eq_iff)
qed

lemma preflight_succeeds:
  assumes "\<forall>n. faults n = None" "set ps \<subseteq> set PAYLOAD_FILES"
    and "\<forall>p\<in>set ps. \<exists>c m. v (source_of bundle p) = Some (FileNode c m)" "\<forall>p\<in>set ps. v (pf_destination p) = None"
  shows "succeeds (\<lambda>w. entry w = v) (preflight_payload faults bundle ''/'' force ps) (\<lambda>_ w. entry w = v)"
  using assms(2-)
proof (induction ps)
  case (Cons p ps)
  have IH: "succeeds (\<lambda>w. entry w = v) (preflight_payload faults bundle ''/'' force ps) (\<lambda>_ w. entry w = v)" using Cons by simp
  have p: "p \<in> set PAYLOAD_FILES" using Cons.prems(1) by simp
  have rooted: "rooted ''/'' (pf_destination p) = Ok (pf_destination p)"
    using payload_is_safe p payload_places[OF p] by (simp add: list_all_iff rooted_safe)
  obtain c m where c: "v (path_join bundle (pf_source p)) = Some (FileNode c m)" "v (pf_destination p) = None"
    using Cons.prems(2,3) by (auto simp: source_of_def)
  have "\<exists>a w'. preflight_payload faults bundle ''/'' force (p # ps) w = (Ok a, w') \<and> entry w' = v" if w: "entry w = v" for w
  proof -
    obtain w1 where w1: "open_regular faults (path_join bundle (pf_source p)) w = (Ok c, w1)" "entry w1 = v"
      using succeedsD[OF open_succeeds[where v = v and p = "path_join bundle (pf_source p)", OF assms(1) c(1)], of w] w by auto
    have absent: "op_try (io faults () (symlink_metadata (pf_destination p))) w1 = (Ok None :: (install_error, node option) result, w1\<lparr>fs_ops := Suc (fs_ops w1)\<rparr>)"
      using assms(1) c(2) w1(2) by (simp add: op_try_def io_def io_partial_def Let_def symlink_metadata_def entry_def)
    obtain u w3 where "preflight_payload faults bundle ''/'' force ps (w1\<lparr>fs_ops := Suc (fs_ops w1)\<rparr>) = (Ok u, w3)" "entry w3 = v"
      using succeedsD[OF IH, of "w1\<lparr>fs_ops := Suc (fs_ops w1)\<rparr>"] w1(2) by (auto simp: entry_def)
    then show ?thesis using w1(1) absent by (simp add: rooted op_bind_def op_of_result_def op_return_def)
  qed
  then show ?case by (simp add: succeeds_def)
qed simp

lemma in_files_succeeds:
  assumes "succeeds (\<lambda>w. entry w = v) m (\<lambda>_ w. entry w = v')"
  shows "succeeds (\<lambda>w. installed_view w = v) (in_files m) (\<lambda>_ w. installed_view w = v')"
  using assms unfolding succeeds_def installed_view_def in_files_def op_within_def by fastforce

end
