(* ===== verification/Installer_Samples.thy ===== *)
theory Installer_Samples
  imports Installer_Runs
begin

text \<open>
  A bundle and a host on which \<open>install\<close> runs to its end, and the installer's properties at that point.
\<close>

section \<open>A bundle\<close>

text \<open>The bundle at \<open>/b\<close>: one-letter files and the manifest over a constant digest.\<close>

definition sample_digest :: string where
  "sample_digest = replicate 64 (CHR ''0'')"

definition sample_manifest_text :: string where
  "sample_manifest_text = render_manifest (map (\<lambda>source. (source, sample_digest)) expected_sources)"

definition sample_bundle_content :: "PayloadFile \<Rightarrow> string" where
  "sample_bundle_content p = (if pf_source p = MANIFEST then sample_manifest_text else ''x'')"

definition sample_bundle_nodes :: "(string \<times> node) list" where
  "sample_bundle_nodes =
     (''/b'', DirNode) # map (\<lambda>p. (source_of ''/b'' p, FileNode (sample_bundle_content p) 420)) PAYLOAD_FILES"

lemmas expected_sources_simp = expected_sources_def payload_defs

lemma distinct_sources: "distinct (map pf_source PAYLOAD_FILES)" "distinct expected_sources"
  by (simp_all add: expected_sources_simp)

lemma sample_manifest_parses:
  "parse_manifest [] (text_lines sample_manifest_text) = Ok (rev (map (\<lambda>source. (source, sample_digest)) expected_sources))"
  unfolding sample_manifest_text_def
proof (rule rendered_manifest)
  have "list_all (\<lambda>source. manifest_entry_ok sample_digest source \<and> line_safe source) expected_sources"
    by (simp add: expected_sources_simp manifest_entry_ok_def sample_digest_def list_all_iff[of _ "replicate _ _"] is_lower_hex_def
        is_ascii_digit_def byte_of_def is_absolute_def starts_with_def normal_components_def line_safe_def newline_def)
  then show "list_all (\<lambda>(source, digest). manifest_entry_ok digest source \<and> line_safe source)
      (map (\<lambda>source. (source, sample_digest)) expected_sources)"
    by (simp add: list_all_iff)
  show "distinct (map fst (map (\<lambda>source. (source, sample_digest)) expected_sources))"
    using distinct_sources(2) by (simp add: comp_def)
qed

lemma sample_bundle_at: "map_of sample_bundle_nodes ''/b'' = Some DirNode"
  by (simp add: sample_bundle_nodes_def)

lemma sample_bundle_source:
  assumes "p \<in> set PAYLOAD_FILES"
  shows "map_of sample_bundle_nodes (source_of ''/b'' p) = Some (FileNode (sample_bundle_content p) 420)"
proof (rule map_of_is_SomeI)
  have "distinct (map (source_of ''/b'') PAYLOAD_FILES)"
    using distinct_sources(1) by (simp add: distinct_map inj_on_def source_of_def)
  moreover have "''/b'' \<notin> source_of ''/b'' ` set PAYLOAD_FILES" by (auto simp: source_of_def path_join_def)
  ultimately show "distinct (map fst sample_bundle_nodes)" by (simp add: sample_bundle_nodes_def comp_def)
  show "(source_of ''/b'' p, FileNode (sample_bundle_content p) 420) \<in> set sample_bundle_nodes"
    using assms by (auto simp: sample_bundle_nodes_def)
qed

lemma sample_bundle_elsewhere:
  assumes "take 2 q \<noteq> ''/b''"
  shows "map_of sample_bundle_nodes q = None"
proof -
  have "take 2 key = ''/b''" if "key \<in> fst ` set sample_bundle_nodes" for key
    using that by (auto simp: sample_bundle_nodes_def source_of_def path_join_def)
  then show ?thesis using assms by (auto simp: map_of_eq_None_iff)
qed

lemma payload_elsewhere:
  assumes "p \<in> set PAYLOAD_FILES"
  shows "take 2 (pf_destination p) \<noteq> ''/b''" "take 2 (path_parent (pf_destination p)) \<noteq> ''/b''"
    "take 2 (install_temporary pid (pf_destination p)) \<noteq> ''/b''"
proof -
  have "list_all (\<lambda>p. take 2 (pf_destination p) \<noteq> ''/b'') PAYLOAD_FILES" by (simp add: payload_defs)
  then show "take 2 (pf_destination p) \<noteq> ''/b''" using assms by (simp add: list_all_iff)
  have parents: "list_all (\<lambda>d. take 2 d \<noteq> ''/b'' \<and> take 2 (path_join d x) \<noteq> ''/b'') payload_parents" for x
    by (simp add: payload_parents_def path_join_def)
  have "path_parent (pf_destination p) \<in> set payload_parents" using payload_parent assms by (simp add: list_all_iff)
  then show "take 2 (path_parent (pf_destination p)) \<noteq> ''/b''" "take 2 (install_temporary pid (pf_destination p)) \<noteq> ''/b''"
    using parents by (auto simp: list_all_iff install_temporary_def)
qed

lemma sample_bundle_apart: "bundle_apart pid ''/b'' ''/''"
proof -
  have "take 2 (source_of ''/b'' p) = ''/b''" for p :: PayloadFile by (simp add: source_of_def path_join_def)
  moreover have "take 2 x \<noteq> ''/b''" if x: "x \<in> payload_scratch pid ''/'' PAYLOAD_FILES \<union> destination_of ''/'' ` set PAYLOAD_FILES" for x
  proof -
    obtain q where q: "q \<in> set PAYLOAD_FILES" "x = path_parent (pf_destination q) \<or> x = install_temporary pid (pf_destination q) \<or> x = pf_destination q"
      using x payload_places by (auto simp: payload_scratch_def copy_scratch_def)
    show ?thesis using q(2) payload_elsewhere[OF q(1)] by metis
  qed
  ultimately show ?thesis unfolding bundle_apart_def by (metis Un_iff)
qed

lemma sample_manifest_complete:
  assumes "\<And>p. p \<in> set PAYLOAD_FILES \<Longrightarrow> v (source_of ''/b'' p) = Some (FileNode (sample_bundle_content p) 420)"
  shows "complete_manifest (\<lambda>_. sample_digest) ''/b'' v"
proof -
  let ?entries = "map (\<lambda>source. (source, sample_digest)) expected_sources"
  have manifest: "payload_file MANIFEST (share MANIFEST) 420 (64 * kib) \<in> set PAYLOAD_FILES" by (simp add: PAYLOAD_FILES_def MANIFEST_def)
  have "v (path_join ''/b'' MANIFEST) = Some (FileNode sample_manifest_text 420)"
    using assms[OF manifest] by (simp add: payload_file_def source_of_def sample_bundle_content_def)
  moreover have "utf8_valid sample_manifest_text"
  proof (rule utf8_valid_ascii)
    have "list_all (\<lambda>source. list_all (\<lambda>c. byte_of c < 128) source) expected_sources"
      by (simp add: expected_sources_simp byte_of_def)
    then show "byte_of c < 128" if "c \<in> set sample_manifest_text" for c
      using that by (auto simp: sample_manifest_text_def render_manifest_def manifest_line_def sample_digest_def newline_def byte_of_def list_all_iff split: if_splits)
  qed
  moreover have "digests_match (\<lambda>_. sample_digest) ''/b'' (rev ?entries) expected_sources v"
    unfolding digests_match_def
  proof
    fix source assume source: "source \<in> set expected_sources"
    then obtain p where p: "p \<in> set PAYLOAD_FILES" "source = pf_source p" by (auto simp: expected_sources_def)
    have "map_of (rev ?entries) source = Some sample_digest"
      using source distinct_sources(2) by (intro map_of_is_SomeI) (auto simp: rev_map[symmetric] comp_def)
    then show "\<exists>c m. v (path_join ''/b'' source) = Some (FileNode c m) \<and> map_of (rev ?entries) source = Some sample_digest"
      using assms[OF p(1)] p(2) by (simp add: source_of_def)
  qed
  ultimately show ?thesis unfolding complete_manifest_def using sample_manifest_parses by fastforce
qed

lemma sample_bundle_sizes:
  assumes "p \<in> set PAYLOAD_FILES"
  shows "sample_bundle_content p \<noteq> [] \<and> length (sample_bundle_content p) \<le> pf_maximum_bytes p"
proof -
  have "sample_manifest_text \<noteq> []" "length sample_manifest_text \<le> 64 * kib"
    by (simp_all add: sample_manifest_text_def render_manifest_def manifest_line_def sample_digest_def expected_sources_simp kib_def)
  moreover have "list_all (\<lambda>p. 1 \<le> pf_maximum_bytes p \<and> (pf_source p = MANIFEST \<longrightarrow> pf_maximum_bytes p = 64 * kib)) PAYLOAD_FILES"
    by (simp add: payload_defs kib_def mib_def)
  ultimately show ?thesis using assms by (auto simp: sample_bundle_content_def list_all_iff)
qed

section \<open>The command on a host that does as it is told\<close>

text \<open>Every command succeeds; \<open>id\<close> answers as for root and the service account.\<close>

definition sample_install_env :: "(memory, unit) install_env" where
  "sample_install_env =
     \<lparr>ie_setup = sample_setup_env, ie_linux = True,
      ie_run = (\<lambda>program arguments w. (CommandDone True
        (if arguments = [''-u''] then ''0'' else if arguments = [''-gn'', SERVICE_USER] then SERVICE_USER else ''active''), w)),
      ie_http = (\<lambda>address w. (None, w)), ie_sha256 = (\<lambda>_. sample_digest), ie_executable = None, ie_canonical = Some,
      ie_answer = [], ie_ready_polls = [], ie_unit_polls = []\<rparr>"

definition sample_install_options :: InstallOptions where
  "sample_install_options =
     \<lparr>io_bundle_dir = Some ''/b'', io_force = False, io_skip_setup = True, io_skip_start = True,
      io_install_dependencies = False, io_skip_dependency_install = True\<rparr>"

definition sample_install_world :: "(memory, unit) install_world" where
  "sample_install_world = \<lparr>iw_files = \<lparr>fs_nodes = sample_bundle_nodes, fs_ops = 0\<rparr>, iw_store = sample_memory, iw_host = ()\<rparr>"

lemma sample_env:
  "\<forall>n. se_faults (ie_setup sample_install_env) n = None" "se_pid (ie_setup sample_install_env) = ''7''" "ie_linux sample_install_env"
  "ie_canonical sample_install_env path = Some path" "ie_sha256 sample_install_env = (\<lambda>_. sample_digest)"
  by (simp_all add: sample_install_env_def sample_setup_env_def)

lemma sample_run:
  "run_command sample_install_env program arguments w = (Ok (True,
     if arguments = [''-u''] then ''0'' else if arguments = [''-gn'', SERVICE_USER] then SERVICE_USER else ''active''), w)"
  by (simp add: run_command_def sample_install_env_def)

lemma sample_succeeds: "command_succeeds sample_install_env program arguments w = (Ok True, w)"
  "run_checked sample_install_env program arguments w = (Ok (), w)" "require_command sample_install_env c w = (Ok (), w)"
  by (simp_all add: command_succeeds_def require_command_def run_checked_def op_bind_def op_return_def op_check_def sample_run)

lemma sample_required: "all_in_order (require_command sample_install_env) cs w = (Ok (), w)"
  by (induction cs) (simp_all add: op_bind_def op_return_def sample_succeeds)

lemma sample_all: "all_in_order (\<lambda>path. run_checked sample_install_env program (arguments path)) paths w = (Ok (), w)"
  by (induction paths) (simp_all add: op_bind_def op_return_def sample_succeeds)

lemma sample_root: "ensure_root sample_install_env w = (Ok (), w)"
proof -
  have "trim ''0'' = ''0''" "utf8_valid ''0''" by code_simp+
  then show ?thesis by (simp add: ensure_root_def command_stdout_def op_bind_def op_check_def op_return_def sample_run)
qed

lemma sample_account: "prepare_service_account sample_install_env w = (Ok (), w)"
proof -
  have "trim SERVICE_USER = SERVICE_USER" "utf8_valid SERVICE_USER" by code_simp+
  then show ?thesis
    by (simp add: prepare_service_account_def command_stdout_def op_bind_def op_check_def op_return_def sample_succeeds sample_run)
qed

lemma sample_runtime: "ensure_native_runtime sample_install_env a b w = (Ok (), w)"
  by (simp add: ensure_native_runtime_def native_runtime_available_def optional_command_succeeds_def op_bind_def op_return_def
      sample_install_env_def)

lemma sample_doctor:
  assumes "succeeds (\<lambda>w. entry w = v) (validate_regular_file (se_faults (ie_setup sample_install_env)) sandbox (128 * mib)) (\<lambda>_ w. entry w = v)"
  shows "succeeds (\<lambda>w. installed_view w = v) (sandbox_doctor sample_install_env sandbox) (\<lambda>_ w. installed_view w = v)"
  unfolding sandbox_doctor_def
  by (rule succeeds_bind[OF in_files_succeeds[OF assms]])
    (simp add: succeeds_def op_bind_def op_check_def sample_run SERVICE_USER_def)

definition with_directories :: "string list \<Rightarrow> (string \<Rightarrow> node option) \<Rightarrow> string \<Rightarrow> node option" where
  "with_directories paths v q = (if q \<in> set paths then Some DirNode else v q)"

lemma directories_succeed:
  assumes "\<And>v path. v path = None \<or> v path = Some DirNode \<Longrightarrow> succeeds (\<lambda>w. entry w = v) (mk path) (\<lambda>_ w. entry w = v(path \<mapsto> DirNode))"
    and "list_all (\<lambda>path. v path = None \<or> v path = Some DirNode) paths"
  shows "succeeds (\<lambda>w :: ('b, 'h) install_world. installed_view w = v) (all_in_order (\<lambda>path. in_files (mk path)) paths) (\<lambda>_ w. installed_view w = with_directories paths v)"
  using assms(2)
proof (induction paths arbitrary: v)
  case Nil
  then show ?case by (simp add: with_directories_def fun_eq_iff)
next
  case (Cons path paths)
  have step: "succeeds (\<lambda>w :: ('b, 'h) install_world. installed_view w = v) (in_files (mk path)) (\<lambda>_ w. installed_view w = v(path \<mapsto> DirNode))"
    using Cons.prems by (intro in_files_succeeds assms(1)) simp
  have "list_all (\<lambda>p. (v(path \<mapsto> DirNode)) p = None \<or> (v(path \<mapsto> DirNode)) p = Some DirNode) paths"
    using Cons.prems by (auto simp: list_all_iff)
  note rest = Cons.IH[OF this]
  have "with_directories paths (v(path \<mapsto> DirNode)) = with_directories (path # paths) v"
    by (auto simp: with_directories_def fun_eq_iff)
  with rest have rest: "succeeds (\<lambda>w :: ('b, 'h) install_world. installed_view w = v(path \<mapsto> DirNode)) (all_in_order (\<lambda>path. in_files (mk path)) paths)
      (\<lambda>_ w. installed_view w = with_directories (path # paths) v)" by (simp only:)
  show ?case unfolding all_in_order.simps by (rule succeeds_bind[OF step rest])
qed

lemma sample_directories:
  assumes "list_all (\<lambda>path. v path = None \<or> v path = Some DirNode) [''/etc/g7mediabooster'', ''/etc/g7mediabooster/credentials'',
      ''/var/lib/g7mediabooster'', ''/var/lib/g7mediabooster/tmp'', ''/var/lib/g7mediabooster/backups'']"
  shows "succeeds (\<lambda>w. installed_view w = v) (prepare_directories sample_install_env) (\<lambda>_ w. True)"
  unfolding prepare_directories_def
  by (rule succeeds_bind[OF directories_succeed[OF create_install_directory_succeeds[OF sample_env(1)] assms]])
    (simp_all add: succeeds_def op_bind_def sample_succeeds sample_all)

lemma sample_install_directories:
  assumes "list_all (\<lambda>path. v path = None) payload_parents"
  shows "succeeds (\<lambda>w. installed_view w = v) (prepare_install_directories sample_install_env) (\<lambda>_ w. installed_view w = with_directories payload_parents v)"
proof -
  let ?first = "[''/usr/local/bin'', ''/usr/local/libexec'', ''/etc/systemd/system'']"
  let ?second = "[''/usr/local/share/g7mediabooster'', ''/usr/local/share/g7mediabooster/gnuboard7'', ''/usr/local/share/g7mediabooster/nginx'']"
  have free: "list_all (\<lambda>path. v path = None \<or> v path = Some DirNode) ?first"
    "list_all (\<lambda>path. with_directories ?first v path = None \<or> with_directories ?first v path = Some DirNode) ?second"
    using assms by (simp_all add: payload_parents_def with_directories_def)
  have all: "with_directories ?second (with_directories ?first v) = with_directories payload_parents v"
    by (auto simp: with_directories_def payload_parents_def fun_eq_iff)
  show ?thesis
    unfolding prepare_install_directories_def all[symmetric]
    by (rule succeeds_bind[OF directories_succeed[OF ensure_directory_succeeds[OF sample_env(1)] free(1)]
          directories_succeed[OF create_install_directory_succeeds[OF sample_env(1)] free(2)]])
qed

definition prepared_view :: "string \<Rightarrow> node option" where
  "prepared_view = with_directories payload_parents (map_of sample_bundle_nodes)"

lemma prepared_bundle:
  assumes "p \<in> set PAYLOAD_FILES"
  shows "prepared_view (source_of ''/b'' p) = Some (FileNode (sample_bundle_content p) 420)"
proof -
  have "list_all (\<lambda>d. take 2 d \<noteq> ''/b'') payload_parents" by (simp add: payload_parents_def)
  moreover have "take 2 (source_of ''/b'' p) = ''/b''" by (simp add: source_of_def path_join_def)
  ultimately show ?thesis using sample_bundle_source[OF assms] by (auto simp: prepared_view_def with_directories_def list_all_iff)
qed

lemma prepared_unobstructed: "unobstructed pid ''/b'' prepared_view PAYLOAD_FILES prepared_view"
proof -
  have "pf_destination p \<notin> set payload_parents" if "p \<in> set PAYLOAD_FILES" for p
    using parents_apart that by (simp add: list_all_iff)
  moreover have "install_temporary pid (pf_destination p) \<notin> set payload_parents" for p :: PayloadFile
  proof -
    have "list_all (\<lambda>d. \<not> contains_text ''/.'' d) payload_parents" by (simp add: payload_parents_def starts_with_def)
    then show ?thesis using hidden_file by (force simp: list_all_iff install_temporary_def)
  qed
  moreover have "path_parent (pf_destination p) \<in> set payload_parents" if "p \<in> set PAYLOAD_FILES" for p
    using payload_parent that by (simp add: list_all_iff)
  ultimately show ?thesis
    using sample_bundle_elsewhere payload_elsewhere by (simp add: unobstructed_def prepared_view_def with_directories_def)
qed

definition service_directories :: "string list" where
  "service_directories = [''/etc/g7mediabooster'', ''/etc/g7mediabooster/credentials'',
     ''/var/lib/g7mediabooster'', ''/var/lib/g7mediabooster/tmp'', ''/var/lib/g7mediabooster/backups'']"

lemma service_directories_apart:
  "list_all (\<lambda>d. d \<notin> set payload_parents \<and> \<not> contains_text ''/.'' d \<and> take 2 d \<noteq> ''/b'') service_directories"
  "list_all (\<lambda>d. d \<notin> set (map pf_destination PAYLOAD_FILES)) service_directories"
  by (simp_all add: service_directories_def payload_parents_def starts_with_def payload_defs)

lemma service_directories_free:
  assumes "install_payload faults pid sha256 ''/b'' ''/'' force w = (Ok u, w')" "entry w = prepared_view" "d \<in> set service_directories"
  shows "entry w' d = None"
proof -
  have d: "d \<notin> set payload_parents" "\<not> contains_text ''/.'' d" "take 2 d \<noteq> ''/b''" "d \<notin> pf_destination ` set PAYLOAD_FILES"
    using service_directories_apart assms(3) by (auto simp: list_all_iff)
  have "d \<noteq> path_parent (pf_destination p)" "d \<noteq> install_temporary pid (pf_destination p)" if "p \<in> set PAYLOAD_FILES" for p
    using d(1,2) payload_parent that hidden_file by (auto simp: list_all_iff install_temporary_def)
  then have "d \<notin> payload_scratch pid ''/'' PAYLOAD_FILES"
    using payload_places by (auto simp: payload_scratch_def copy_scratch_def)
  moreover obtain k where "progress (payload_scratch pid ''/'' PAYLOAD_FILES) (payload_targets ''/b'' ''/'' (entry w) PAYLOAD_FILES) (entry w) k w'"
    using install_payload_progress[OF assms(1) sample_bundle_apart] by blast
  ultimately have "entry w' d = written (take k (payload_targets ''/b'' ''/'' (entry w) PAYLOAD_FILES)) (entry w) d"
    by (simp add: progress_def)
  also have "\<dots> = entry w d"
  proof (rule written_other)
    have "fst ` set (payload_targets ''/b'' ''/'' (entry w) PAYLOAD_FILES) = pf_destination ` set PAYLOAD_FILES"
      using payload_places by (force simp: payload_targets_def)
    then show "d \<notin> fst ` set (take k (payload_targets ''/b'' ''/'' (entry w) PAYLOAD_FILES))"
      using d(4) by (metis image_mono set_take_subset subsetD)
  qed
  also have "\<dots> = None" using assms(2) d(1) sample_bundle_elsewhere[OF d(3)] by (simp add: prepared_view_def with_directories_def)
  finally show ?thesis .
qed

lemma sample_bundle_valid:
  "succeeds (\<lambda>w. entry w = map_of sample_bundle_nodes)
     (validate_bundle (se_faults (ie_setup sample_install_env)) (\<lambda>_. sample_digest) ''/b'') (\<lambda>_ w. entry w = map_of sample_bundle_nodes)"
  by (rule validate_bundle_succeeds[where v = "map_of sample_bundle_nodes", OF sample_env(1) sample_bundle_at sample_manifest_complete[OF sample_bundle_source]])
    (use sample_bundle_source sample_bundle_sizes in auto)

lemma sample_sandbox_valid:
  "succeeds (\<lambda>w. entry w = map_of sample_bundle_nodes)
     (validate_regular_file (se_faults (ie_setup sample_install_env)) ''/b/libexec/g7mb-sandbox'' (128 * mib)) (\<lambda>_ w. entry w = map_of sample_bundle_nodes)"
proof -
  have "map_of sample_bundle_nodes ''/b/libexec/g7mb-sandbox'' = Some (FileNode ''x'' 420)"
    by (simp add: sample_bundle_nodes_def payload_defs source_of_def path_join_def sample_bundle_content_def)
  from meta_succeeds[where v = "map_of sample_bundle_nodes" and p = "''/b/libexec/g7mb-sandbox''", OF sample_env(1) this]
  show ?thesis unfolding validate_regular_file_def by (rule succeeds_bind) (simp add: mib_def)
qed

lemma sample_preflight:
  "succeeds (\<lambda>w. entry w = prepared_view)
     (preflight_install_payload (se_faults (ie_setup sample_install_env)) ''/b'' ''/'' force) (\<lambda>_ w. entry w = prepared_view)"
  unfolding preflight_install_payload_def
proof (rule preflight_succeeds[OF sample_env(1) subset_refl])
  show "\<forall>p\<in>set PAYLOAD_FILES. \<exists>c m. prepared_view (source_of ''/b'' p) = Some (FileNode c m)" using prepared_bundle by blast
  show "\<forall>p\<in>set PAYLOAD_FILES. prepared_view (pf_destination p) = None"
    using prepared_unobstructed unfolding unobstructed_def by blast
qed

lemma sample_bundle_resolves:
  assumes "installed_view w = map_of sample_bundle_nodes"
  shows "\<exists>w'. resolve_bundle_dir sample_install_env (Some ''/b'') w = (Ok ''/b'', w') \<and> installed_view w' = map_of sample_bundle_nodes"
proof -
  obtain u w' where "in_files (validate_bundle (se_faults (ie_setup sample_install_env)) (\<lambda>_. sample_digest) ''/b'') w = (Ok u, w')"
    "installed_view w' = map_of sample_bundle_nodes"
    using succeedsD[OF in_files_succeeds[OF sample_bundle_valid] assms] by blast
  then show ?thesis by (simp add: resolve_bundle_dir_def sample_env op_bind_def op_return_def)
qed

lemma sample_install_succeeds: "\<exists>w. install sample_install_env sample_install_options sample_install_world = (Ok (), w)"
proof -
  let ?env = sample_install_env and ?V = "map_of sample_bundle_nodes"
  let ?faults = "se_faults (ie_setup ?env)"
  have "installed_view sample_install_world = ?V" by (simp add: installed_view_def sample_install_world_def entry_def)
  then obtain w1 where w1: "resolve_bundle_dir ?env (Some ''/b'') sample_install_world = (Ok ''/b'', w1)" "installed_view w1 = ?V"
    using sample_bundle_resolves by blast
  obtain u2 w2 where w2: "in_files (validate_bundle ?faults (\<lambda>_. sample_digest) ''/b'') w1 = (Ok u2, w2)" "installed_view w2 = ?V"
    using succeedsD[OF in_files_succeeds[OF sample_bundle_valid] w1(2)] by blast
  obtain u3 w3 where w3: "sandbox_doctor ?env ''/b/libexec/g7mb-sandbox'' w2 = (Ok u3, w3)" "installed_view w3 = ?V"
    using succeedsD[OF sample_doctor[OF sample_sandbox_valid] w2(2)] by blast
  have "list_all (\<lambda>d. take 2 d \<noteq> ''/b'') payload_parents" by (simp add: payload_parents_def)
  then have "list_all (\<lambda>path. ?V path = None) payload_parents" using sample_bundle_elsewhere by (simp add: list_all_iff)
  from succeedsD[OF sample_install_directories[OF this] w3(2)]
  obtain u4 w4 where w4: "prepare_install_directories ?env w3 = (Ok u4, w4)" "installed_view w4 = prepared_view"
    unfolding prepared_view_def by blast
  obtain u5 w5 where w5: "in_files (preflight_install_payload ?faults ''/b'' ''/'' False) w4 = (Ok u5, w5)" "installed_view w5 = prepared_view"
    using succeedsD[OF in_files_succeeds[OF sample_preflight] w4(2)] by blast
  have view: "entry (iw_files w5) = prepared_view" using w5(2) by (simp add: installed_view_def)
  obtain fs where fs: "install_payload ?faults ''7'' (\<lambda>_. sample_digest) ''/b'' ''/'' False (iw_files w5) = (Ok (), fs)"
    using payload_installs[OF sample_env(1) sample_bundle_apart, of "\<lambda>_. sample_digest" "iw_files w5" "''7''"]
      sample_manifest_complete[OF prepared_bundle] prepared_unobstructed view by metis
  define w6 where "w6 = w5\<lparr>iw_files := fs\<rparr>"
  have w6: "in_files (install_payload ?faults ''7'' (\<lambda>_. sample_digest) ''/b'' ''/'' False) w5 = (Ok (), w6)"
    using fs by (simp add: in_files_def op_within_def w6_def)
  have "list_all (\<lambda>d. installed_view w6 d = None) service_directories"
    using service_directories_free[OF fs view] by (simp add: list_all_iff installed_view_def w6_def)
  then have "list_all (\<lambda>path. installed_view w6 path = None \<or> installed_view w6 path = Some DirNode) service_directories"
    by (simp add: list_all_iff)
  from succeedsD[OF sample_directories[OF this[unfolded service_directories_def]] refl]
  obtain u7 w7 where w7: "prepare_directories ?env w6 = (Ok u7, w7)" by blast
  have join: "path_join ''/b'' ''libexec/g7mb-sandbox'' = ''/b/libexec/g7mb-sandbox''" by (simp add: path_join_def)
  have "install ?env sample_install_options sample_install_world = (Ok (), w7)"
    unfolding install_def Let_def
    by (simp add: op_bind_def[of "op_check _ _"] op_check_def sample_install_options_def op_bind_def op_return_def sample_env sample_root
        sample_required sample_runtime sample_account sample_succeeds w1(1) w2(1) join w3(1) w4(1) w5(1) w6 w7)
  then show ?thesis by blast
qed

section \<open>The installer's properties at this point\<close>

lemma sample_spares: "spares_payload sample_install_env"
  by (simp add: spares_payload_def sample_install_env_def)


definition prepared_fs :: host_fs where
  "prepared_fs = \<lparr>fs_nodes = map (\<lambda>d. (d, DirNode)) payload_parents @ sample_bundle_nodes, fs_ops = 0\<rparr>"

lemma prepared_fs: "entry prepared_fs = prepared_view"
proof -
  have "map_of (map (\<lambda>d. (d, DirNode)) ds) q = (if q \<in> set ds then Some DirNode else None)" for ds :: "string list" and q
    by (induction ds) auto
  then show ?thesis by (simp add: fun_eq_iff entry_def prepared_fs_def prepared_view_def with_directories_def map_add_def)
qed

lemma prepared_fs_complete: "complete_manifest (\<lambda>_. sample_digest) ''/b'' (entry prepared_fs)"
  unfolding prepared_fs by (rule sample_manifest_complete[OF prepared_bundle])


theorem payload_is_installed_in_order_witness:
  "\<exists>r w' k. install_payload (\<lambda>n. if n = 90 then Some 0 else None) ''7'' (\<lambda>_. sample_digest) ''/b'' ''/'' False prepared_fs = (r, w') \<and>
     k \<le> 24 \<and> entry w' ''/usr/local/bin/g7mbctl'' =
       written (take k (payload_targets ''/b'' ''/'' (entry prepared_fs) PAYLOAD_FILES)) (entry prepared_fs) ''/usr/local/bin/g7mbctl''"
proof -
  obtain r w' where run: "install_payload (\<lambda>n. if n = 90 then Some 0 else None) ''7'' (\<lambda>_. sample_digest) ''/b'' ''/'' False prepared_fs = (r, w')"
    by (meson surj_pair)
  have "''/usr/local/bin/g7mbctl'' \<in> pf_destination ` set PAYLOAD_FILES" by (simp add: payload_defs)
  then have "''/usr/local/bin/g7mbctl'' \<notin> payload_scratch ''7'' ''/'' PAYLOAD_FILES"
    using payload_apart payload_places by (auto simp: payload_scratch_def)
  then show ?thesis using payload_is_installed_in_order[OF run sample_bundle_apart] run by blast
qed

theorem manifest_reads_back_witness:
  "parse_manifest [] (text_lines (render_manifest [(''bin/g7mbctl'', sample_digest), (''LICENSE'', sample_digest)])) =
     Ok [(''LICENSE'', sample_digest), (''bin/g7mbctl'', sample_digest)]"
  using manifest_reads_back[of "[(''bin/g7mbctl'', sample_digest), (''LICENSE'', sample_digest)]"]
  by (simp add: manifest_entry_ok_def sample_digest_def list_all_iff is_lower_hex_def is_ascii_digit_def byte_of_def
      is_absolute_def starts_with_def normal_components_def line_safe_def newline_def)

end
