(* ===== verification/Vips.thy ===== *)
theory Vips
  imports Media Host_Files Net
begin

text \<open>
  The image engine of \<open>crates/g7mb-media/src/lib.rs\<close> around libvips: which operations a thumbnail and a
  watermark ask for, in which order and on which checks.  libvips is an argument: images are values of a
  type \<open>'i\<close> with a header, and an operation that fails answers nothing.  A quotient of two lengths that
  the code passes as a float is the pair of them.
\<close>

datatype ImageOutputFormat = JpegOutput | WebpOutput | AvifOutput | PngOutput

record 'i vips =
  vx_load :: "string \<Rightarrow> (string \<times> node) list \<Rightarrow> 'i option"
  vx_header :: "'i \<Rightarrow> VipsHeader"
  vx_bands :: "'i \<Rightarrow> int"
  vx_thumbnail :: "string \<Rightarrow> int \<Rightarrow> (string \<times> node) list \<Rightarrow> 'i option"
  vx_resize :: "'i \<Rightarrow> int \<times> int \<Rightarrow> 'i option"
  vx_srgb :: "'i \<Rightarrow> 'i option"
  vx_addalpha :: "'i \<Rightarrow> 'i option"
  vx_multiply_alpha :: "'i \<Rightarrow> u8 \<Rightarrow> 'i option"
  vx_composite :: "'i \<Rightarrow> 'i \<Rightarrow> int \<Rightarrow> int \<Rightarrow> 'i option"
  vx_flatten_white :: "'i \<Rightarrow> 'i option"
  vx_save_jpeg :: "'i \<Rightarrow> string \<Rightarrow> (string \<times> node) list \<Rightarrow> bool \<times> (string \<times> node) list"
  vx_save_png :: "'i \<Rightarrow> string \<Rightarrow> (string \<times> node) list \<Rightarrow> bool \<times> (string \<times> node) list"
  vx_write :: "'i \<Rightarrow> string \<Rightarrow> (string \<times> node) list \<Rightarrow> bool \<times> (string \<times> node) list"
  vx_init :: bool
  vx_version :: "string option"

section \<open>The engine\<close>

definition VipsEngine_new :: "'i vips \<Rightarrow> int \<Rightarrow> (MediaError, unit) result" where
  "VipsEngine_new vips threads =
     (if threads \<le> 0 then Err (InvalidMediaRequest ''libvips thread count must be positive'')
      else if \<not> vx_init vips then Err (MediaError.Vips ''initialization'') else Ok ())"

definition vips_of :: "string \<Rightarrow> 'a option \<Rightarrow> (MediaError, 'a) result" where
  "vips_of what answer = (case answer of None \<Rightarrow> Err (MediaError.Vips what) | Some a \<Rightarrow> Ok a)"

definition utf8_path :: "string \<Rightarrow> (MediaError, unit) result" where
  "utf8_path path = (if utf8_valid path then Ok () else Err NonUtf8Path)"

definition engine_probe :: "'i vips \<Rightarrow> string \<Rightarrow> u64 \<Rightarrow> (string \<times> node) list \<Rightarrow> (MediaError, ImageProbe) result" where
  "engine_probe vips input len nodes =
     and_then (utf8_path input) (\<lambda>_.
     and_then (vips_of ''probe'' (vx_load vips input nodes)) (\<lambda>img.
     vips_probe (vx_header vips img) len))"

section \<open>Watermarks\<close>

definition apply_watermark :: "'i vips \<Rightarrow> (string \<times> node) list \<Rightarrow> 'i \<Rightarrow> WatermarkSpec \<Rightarrow> (MediaError, 'i) result" where
  "apply_watermark vips nodes base spec =
     and_then (utf8_path (ws_input spec)) (\<lambda>_.
     and_then (vips_of ''watermark decode'' (vx_load vips (ws_input spec) nodes)) (\<lambda>mark.
     and_then (admit_watermark (vx_header vips base) (vx_header vips mark) spec) (\<lambda>placement.
     and_then (vips_of ''watermark colourspace'' (vx_srgb vips mark)) (\<lambda>coloured.
     let width = vh_width (vx_header vips mark) in
     and_then
       (if uint (wp_width placement) < width
        then vips_of ''watermark resize'' (vx_resize vips coloured (uint (wp_width placement), width)) else Ok coloured) (\<lambda>sized.
     and_then
       (if vx_bands vips sized = 3 then vips_of ''watermark alpha'' (vx_addalpha vips sized)
        else if vx_bands vips sized = 4 then Ok sized
        else Err (InvalidMediaRequest ''watermark must decode to sRGB or sRGBA'')) (\<lambda>translucent.
     and_then (vips_of ''watermark opacity'' (vx_multiply_alpha vips translucent (ws_opacity spec))) (\<lambda>faded.
     if uint (wp_x placement) \<ge> 2 ^ 31 then Err (InvalidMediaRequest ''watermark x overflow'')
     else if uint (wp_y placement) \<ge> 2 ^ 31 then Err (InvalidMediaRequest ''watermark y overflow'')
     else vips_of ''watermark composite'' (vx_composite vips base faded (uint (wp_x placement)) (uint (wp_y placement))))))))))"

section \<open>Thumbnails\<close>

record ImageThumbnailRequest =
  itr_input :: string
  itr_output :: string
  itr_max_edge :: u32
  itr_format :: ImageOutputFormat
  itr_watermark :: "WatermarkSpec option"

text \<open>Everything up to the encoder; the pixels come from the input with \<open>fail-on=error\<close>.\<close>

definition render_thumbnail :: "'i vips \<Rightarrow> ImageThumbnailRequest \<Rightarrow> (string \<times> node) list \<Rightarrow> (MediaError, 'i) result" where
  "render_thumbnail vips request nodes =
     and_then (utf8_path (itr_input request)) (\<lambda>_.
     and_then (utf8_path (itr_output request)) (\<lambda>_.
     if unat (itr_max_edge request) \<ge> 2 ^ 31 then Err (InvalidMediaRequest ''image edge exceeds native range'')
     else if \<not> (1 \<le> unat (itr_max_edge request) \<and> unat (itr_max_edge request) \<le> 8192)
     then Err (InvalidMediaRequest ''image edge must be between 1 and 8192'')
     else
     and_then (vips_of ''thumbnail header'' (vx_load vips (itr_input request) nodes)) (\<lambda>header.
     and_then (thumbnail_target_width (itr_max_edge request) (vx_header vips header)) (\<lambda>target_width.
     and_then (vips_of ''thumbnail'' (vx_thumbnail vips (itr_input request @ ''[fail-on=error]'') target_width nodes)) (\<lambda>img.
     let rendered = max (vh_width (vx_header vips img)) (vh_height (vx_header vips img)); max_edge = uint (itr_max_edge request) in
     and_then (if rendered > max_edge then vips_of ''thumbnail bound'' (vx_resize vips img (max_edge, rendered)) else Ok img) (\<lambda>bounded.
     and_then (vips_of ''colourspace'' (vx_srgb vips bounded)) (\<lambda>coloured.
     and_then (case itr_watermark request of Some spec \<Rightarrow> apply_watermark vips nodes coloured spec | None \<Rightarrow> Ok coloured) (\<lambda>marked.
     if itr_format request = JpegOutput \<and> vx_bands vips marked = 4 then vips_of ''flatten'' (vx_flatten_white vips marked)
     else Ok marked))))))))"

definition encode_image :: "'i vips \<Rightarrow> ImageOutputFormat \<Rightarrow> string \<Rightarrow> 'i \<Rightarrow> (host_fs, MediaError, unit) op" where
  "encode_image vips format path img w =
     (let saved = (\<lambda>(ok, nodes). (if ok then Ok () else Err (MediaError.Vips ''encode''), w\<lparr>fs_nodes := nodes\<rparr>));
          written = (\<lambda>target. case target of
            Inl e \<Rightarrow> (Err e, w) | Inr name \<Rightarrow> saved (vx_write vips img name (fs_nodes w))) in
      case format of
        JpegOutput \<Rightarrow> saved (vx_save_jpeg vips img path (fs_nodes w))
      | WebpOutput \<Rightarrow> written (filename_with_options path ''webp'' ''Q=80,smart-subsample,effort=4,strip'')
      | AvifOutput \<Rightarrow> written (filename_with_options path ''avif'' ''Q=50,bitdepth=8,compression=av1,effort=4,strip'')
      | PngOutput \<Rightarrow> saved (vx_save_png vips img path (fs_nodes w)))"

definition engine_thumbnail :: "'i vips \<Rightarrow> ImageThumbnailRequest \<Rightarrow> (host_fs, MediaError, unit) op" where
  "engine_thumbnail vips request w =
     (case render_thumbnail vips request (fs_nodes w) of
        Inl e \<Rightarrow> (Err e, w)
      | Inr img \<Rightarrow> encode_image vips (itr_format request) (itr_output request) img w)"

text \<open>Encoders that write no file but the one they are given, whatever options follow its name.\<close>

definition encoders_write_only_their_output :: "'i vips \<Rightarrow> bool" where
  "encoders_write_only_their_output vips \<longleftrightarrow>
     (\<forall>img path options nodes p. p \<noteq> path \<longrightarrow>
        map_of (snd (vx_save_jpeg vips img path nodes)) p = map_of nodes p \<and>
        map_of (snd (vx_save_png vips img path nodes)) p = map_of nodes p \<and>
        map_of (snd (vx_write vips img (path @ ''['' @ options @ '']'') nodes)) p = map_of nodes p)"

lemma touches_encode_image:
  assumes "encoders_write_only_their_output vips"
  shows "touches_only entry {path} (encode_image vips format path img)"
proof -
  have kept: "map_of (snd (vx_save_jpeg vips img path nodes)) p = map_of nodes p"
    "map_of (snd (vx_save_png vips img path nodes)) p = map_of nodes p"
    "map_of (snd (vx_write vips img (path @ CHR ''['' # options @ '']'') nodes)) p = map_of nodes p" if "p \<noteq> path" for p nodes options
    using assms that by (simp_all add: encoders_write_only_their_output_def)
  have same: "entry (snd (encode_image vips format path img w)) p = entry w p" if p: "p \<noteq> path" for w p
  proof -
    have written: "entry (snd (case filename_with_options path e options of Inl e \<Rightarrow> (Err e, w)
        | Inr name \<Rightarrow> (\<lambda>(ok, nodes). (if ok then Ok () else Err (MediaError.Vips ''encode''), w\<lparr>fs_nodes := nodes\<rparr>))
            (vx_write vips img name (fs_nodes w)))) p = entry w p" for e options
    proof (cases "filename_with_options path e options")
      case (Inr name)
      then have "name = path @ CHR ''['' # options @ '']''"
        by (auto simp: filename_with_options_def split: option.splits if_splits)
      then show ?thesis using Inr kept(3)[OF p] by (simp add: split_beta entry_def)
    qed simp
    show ?thesis
      using written kept[OF p] by (cases format) (simp_all add: encode_image_def split_beta entry_def)
  qed
  show ?thesis unfolding touches_only_def using same by (metis singletonI snd_conv)
qed

lemma touches_engine_thumbnail:
  "encoders_write_only_their_output vips \<Longrightarrow> touches_only entry {itr_output request} (engine_thumbnail vips request)"
  using touches_encode_image unfolding touches_only_def engine_thumbnail_def by (fastforce split: sum.splits)

end
