(* ===== verification/Fallback_Decoder.thy ===== *)
theory Fallback_Decoder
  imports Media Host_Files
begin

text \<open>
  The emergency poster of \<open>crates/g7mb-media/src/openh264_fallback.rs\<close>: the limits, the access units of
  an MP4 sample as an Annex B stream, and the loop that decodes samples until a frame appears and writes it
  as PPM.  The MP4 parser and the OpenH264 decoder are arguments; a \<open>usize\<close> is a natural number whose
  checked operations stop at \<open>2 ^ 64\<close>.
\<close>

section \<open>Limits\<close>

record OpenH264FallbackLimits =
  fl_max_input_bytes :: nat
  fl_max_samples :: nat
  fl_max_sample_bytes :: nat
  fl_max_decode_bytes :: nat
  fl_max_nals_per_sample :: nat
  fl_max_parameter_set_bytes :: nat
  fl_max_dimension :: nat
  fl_max_frame_pixels :: nat
  fl_max_decode_errors :: nat

definition default_fallback_limits :: OpenH264FallbackLimits where
  "default_fallback_limits =
     \<lparr>fl_max_input_bytes = 512 * 1024 * 1024, fl_max_samples = 120, fl_max_sample_bytes = 16 * 1024 * 1024,
      fl_max_decode_bytes = 32 * 1024 * 1024, fl_max_nals_per_sample = 1024,
      fl_max_parameter_set_bytes = 256 * 1024, fl_max_dimension = 4096, fl_max_frame_pixels = 16777216,
      fl_max_decode_errors = 8\<rparr>"

definition validate_fallback_limits :: "OpenH264FallbackLimits \<Rightarrow> (MediaError, OpenH264FallbackLimits) result" where
  "validate_fallback_limits l =
     (if fl_max_input_bytes l = 0 \<or> fl_max_samples l = 0 \<or> fl_max_sample_bytes l = 0 \<or>
         fl_max_decode_bytes l < fl_max_sample_bytes l \<or> fl_max_nals_per_sample l = 0 \<or>
         fl_max_parameter_set_bytes l = 0 \<or> fl_max_dimension l = 0 \<or> fl_max_frame_pixels l = 0 \<or>
         fl_max_decode_errors l = 0
      then Err (InvalidMediaRequest ''OpenH264 fallback limits must be positive and internally consistent'')
      else Ok l)"

text \<open>\<open>checked_add\<close> and \<open>checked_mul\<close> of \<open>usize\<close>.\<close>

definition checked_usize :: "nat \<Rightarrow> nat option" where
  "checked_usize n = (if n < 2 ^ 64 then Some n else None)"

definition bounded_usize :: "nat \<Rightarrow> nat \<Rightarrow> nat option" where
  "bounded_usize bound n = Option.bind (checked_usize n) (\<lambda>m. if m \<le> bound then Some m else None)"

lemma bounded_usize_Some [simp]: "bounded_usize bound n = Some m \<longleftrightarrow> m = n \<and> n < 2 ^ 64 \<and> n \<le> bound"
  by (auto simp: bounded_usize_def checked_usize_def)

section \<open>Access units\<close>

definition ANNEX_B_START_CODE :: string where
  "ANNEX_B_START_CODE = bytes [0, 0, 0, 1]"

definition append_annex_b_nal :: "string \<Rightarrow> string \<Rightarrow> nat \<Rightarrow> (MediaError, string) result" where
  "append_annex_b_nal output nal max_output_bytes =
     (case Option.bind (checked_usize (length output + length ANNEX_B_START_CODE)) (\<lambda>n. bounded_usize max_output_bytes (n + length nal)) of
        None \<Rightarrow> Err FallbackLimit | Some _ \<Rightarrow> Ok (output @ ANNEX_B_START_CODE @ nal))"

text \<open>The big-endian length field of a NAL unit.\<close>

fun length_field :: "nat \<Rightarrow> string \<Rightarrow> nat option" where
  "length_field acc [] = Some acc"
| "length_field acc (c # cs) =
     Option.bind (checked_usize (acc * 256)) (\<lambda>shifted.
     Option.bind (checked_usize (shifted + byte_of c)) (\<lambda>acc'. length_field acc' cs))"

function avcc_loop :: "string \<Rightarrow> nat \<Rightarrow> nat \<Rightarrow> nat \<Rightarrow> nat \<Rightarrow> nat \<Rightarrow> string \<Rightarrow> (MediaError, string) result" where
  "avcc_loop input nal_length_size max_nals max_output_bytes cursor nals output =
     (if cursor < length input then
        (case bounded_usize (length input) (cursor + nal_length_size) of
           None \<Rightarrow> Err FallbackDecode
         | Some length_end \<Rightarrow>
         (case length_field 0 (take nal_length_size (drop cursor input)) of
           None \<Rightarrow> Err FallbackLimit
         | Some len \<Rightarrow>
             if len = 0 then Err FallbackDecode
             else (case bounded_usize (length input) (length_end + len) of
               None \<Rightarrow> Err FallbackDecode
             | Some nal_end \<Rightarrow>
                 if nals + 1 > max_nals then Err FallbackLimit
                 else (case append_annex_b_nal output (take len (drop length_end input)) max_output_bytes of
                     Inl e \<Rightarrow> Err e
                   | Inr output' \<Rightarrow> avcc_loop input nal_length_size max_nals max_output_bytes nal_end (nals + 1) output'))))
      else if output = [] then Err FallbackDecode else Ok output)"
  by pat_completeness auto

termination
  by (relation "measure (\<lambda>(input, _, _, _, cursor, _). length input - cursor)") auto

declare avcc_loop.simps [simp del]

definition avcc_to_annex_b :: "string \<Rightarrow> nat \<Rightarrow> nat \<Rightarrow> nat \<Rightarrow> (MediaError, string) result" where
  "avcc_to_annex_b input nal_length_size max_nals max_output_bytes =
     (if input = [] \<or> nal_length_size \<notin> {1, 2, 4} then Err FallbackDecode
      else avcc_loop input nal_length_size max_nals max_output_bytes 0 0 [])"

section \<open>The track\<close>

record Mp4Avcc =
  ma_length_size_minus_one :: nat
  ma_sequence_parameter_sets :: "string list"
  ma_picture_parameter_sets :: "string list"

record Mp4Track =
  mt_is_video :: bool
  mt_is_h264 :: "bool option"
  mt_avc1 :: "Mp4Avcc option"
  mt_track_id :: u32
  mt_sample_count :: u32

record Mp4Sample =
  ms_is_sync :: bool
  ms_bytes :: string

text \<open>What the MP4 parser reads of a file: its tracks, and a sample by track and number.\<close>

record Mp4Reader =
  mr_tracks :: "Mp4Track list"
  mr_read_sample :: "u32 \<Rightarrow> u32 \<Rightarrow> Mp4Sample option option"

record H264TrackConfig =
  tc_track_id :: u32
  tc_sample_count :: u32
  tc_nal_length_size :: nat
  tc_parameter_sets :: string

fun join_parameter_sets :: "nat \<Rightarrow> string \<Rightarrow> string list \<Rightarrow> (MediaError, string) result" where
  "join_parameter_sets max_bytes joined [] = Ok joined"
| "join_parameter_sets max_bytes joined (parameter_set # sets) =
     (if parameter_set = [] \<or> length parameter_set > 65535 then Err FallbackLimit
      else and_then (append_annex_b_nal joined parameter_set max_bytes) (\<lambda>joined'. join_parameter_sets max_bytes joined' sets))"

definition h264_track_config :: "Mp4Reader \<Rightarrow> OpenH264FallbackLimits \<Rightarrow> (MediaError, H264TrackConfig) result" where
  "h264_track_config mp4 limits =
     (case filter mt_is_video (mr_tracks mp4) of
        [track] \<Rightarrow>
          (case (mt_is_h264 track, mt_avc1 track) of
             (Some True, Some avcc) \<Rightarrow>
               (let nal_length_size = ma_length_size_minus_one avcc + 1;
                    sets = ma_sequence_parameter_sets avcc @ ma_picture_parameter_sets avcc in
                if nal_length_size \<notin> {1, 2, 4} then Err FallbackUnsupported
                else if checked_usize (length sets) = None \<or> length sets = 0 \<or> length sets > 32 then Err FallbackLimit
                else and_then (join_parameter_sets (fl_max_parameter_set_bytes limits) [] sets) (\<lambda>parameter_sets.
                  if mt_sample_count track = 0 then Err FallbackDecode
                  else Ok \<lparr>tc_track_id = mt_track_id track, tc_sample_count = mt_sample_count track,
                           tc_nal_length_size = nal_length_size, tc_parameter_sets = parameter_sets\<rparr>))
           | _ \<Rightarrow> Err FallbackUnsupported)
      | _ \<Rightarrow> Err FallbackUnsupported)"

section \<open>Decoding\<close>

record DecodedFrame =
  df_width :: nat
  df_height :: nat
  df_rgb :: string

text \<open>The decoder keeps a state \<open>'d\<close>; \<open>od_nal_units\<close> splits an Annex B stream.\<close>

record 'd OpenH264 =
  od_new :: "'d option"
  od_decode :: "string \<Rightarrow> 'd \<Rightarrow> (unit, DecodedFrame option) result \<times> 'd"
  od_nal_units :: "string \<Rightarrow> string list"

fun decode_parameter_sets :: "'d OpenH264 \<Rightarrow> nat \<Rightarrow> nat \<Rightarrow> 'd \<Rightarrow> string list \<Rightarrow> (MediaError, nat \<times> 'd) result" where
  "decode_parameter_sets h264 max_errors errors d [] = Ok (errors, d)"
| "decode_parameter_sets h264 max_errors errors d (nal # nals) =
     (case od_decode h264 nal d of
        (Inr _, d') \<Rightarrow> decode_parameter_sets h264 max_errors errors d' nals
      | (Inl _, d') \<Rightarrow>
          if errors + 1 > max_errors then Err FallbackDecode
          else decode_parameter_sets h264 max_errors (errors + 1) d' nals)"

fun decode_access_unit :: "'d OpenH264 \<Rightarrow> nat \<Rightarrow> nat \<Rightarrow> 'd \<Rightarrow> string list \<Rightarrow> (MediaError, DecodedFrame option \<times> nat \<times> 'd) result" where
  "decode_access_unit h264 max_errors errors d [] = Ok (None, errors, d)"
| "decode_access_unit h264 max_errors errors d (nal # nals) =
     (case od_decode h264 nal d of
        (Inr (Some frame), d') \<Rightarrow> Ok (Some frame, errors, d')
      | (Inr None, d') \<Rightarrow> decode_access_unit h264 max_errors errors d' nals
      | (Inl _, d') \<Rightarrow>
          if errors + 1 > max_errors then Err FallbackDecode
          else decode_access_unit h264 max_errors (errors + 1) d' nals)"

definition validate_frame :: "nat \<Rightarrow> nat \<Rightarrow> OpenH264FallbackLimits \<Rightarrow> (MediaError, unit) result" where
  "validate_frame width height limits =
     (case checked_usize (width * height) of
        None \<Rightarrow> Err FallbackLimit
      | Some pixels \<Rightarrow>
          if width = 0 \<or> height = 0 \<or> width > fl_max_dimension limits \<or> height > fl_max_dimension limits \<or>
             pixels > fl_max_frame_pixels limits
          then Err FallbackLimit else Ok ())"

record found_frame =
  ff_frame :: DecodedFrame
  ff_sample :: u32
  ff_decoded_bytes :: nat

text \<open>The loop over the samples \<open>1..=sample_limit\<close>, until an access unit yields a frame.\<close>

fun decode_samples :: "'d OpenH264 \<Rightarrow> Mp4Reader \<Rightarrow> OpenH264FallbackLimits \<Rightarrow> H264TrackConfig \<Rightarrow> bool \<Rightarrow> nat \<Rightarrow> nat \<Rightarrow> 'd
    \<Rightarrow> u32 list \<Rightarrow> (MediaError, found_frame option) result" where
  "decode_samples h264 mp4 limits track found_sync decoded_bytes errors d [] = Ok None"
| "decode_samples h264 mp4 limits track found_sync decoded_bytes errors d (sample_id # ids) =
     (case mr_read_sample mp4 (tc_track_id track) sample_id of
        Some (Some sample) \<Rightarrow>
          if \<not> found_sync \<and> \<not> ms_is_sync sample
          then decode_samples h264 mp4 limits track False decoded_bytes errors d ids
          else if ms_bytes sample = [] \<or> length (ms_bytes sample) > fl_max_sample_bytes limits then Err FallbackLimit
          else (case bounded_usize (fl_max_decode_bytes limits) (decoded_bytes + length (ms_bytes sample)) of
            None \<Rightarrow> Err FallbackLimit
          | Some decoded_bytes' \<Rightarrow>
              and_then (avcc_to_annex_b (ms_bytes sample) (tc_nal_length_size track) (fl_max_nals_per_sample limits)
                  (fl_max_sample_bytes limits)) (\<lambda>access_unit.
              and_then (decode_access_unit h264 (fl_max_decode_errors limits) errors d (od_nal_units h264 access_unit))
                (\<lambda>(frame, errors', d').
                  case frame of
                    Some f \<Rightarrow> Ok (Some \<lparr>ff_frame = f, ff_sample = sample_id, ff_decoded_bytes = decoded_bytes'\<rparr>)
                  | None \<Rightarrow> decode_samples h264 mp4 limits track True decoded_bytes' errors' d' ids)))
      | _ \<Rightarrow> Err FallbackDecode)"

section \<open>The poster\<close>

record OpenH264FallbackFrame =
  ofr_width :: u32
  ofr_height :: u32
  ofr_samples_read :: u32
  ofr_decoded_bytes :: nat

definition ppm_text :: "nat \<Rightarrow> nat \<Rightarrow> string \<Rightarrow> string" where
  "ppm_text width height rgb = ''P6'' @ [newline] @ show_nat width @ '' '' @ show_nat height @ [newline] @ ''255'' @ [newline] @ rgb"

text \<open>The buffered writer may stop after any number of bytes.\<close>

definition write_ppm :: "faults \<Rightarrow> string \<Rightarrow> nat \<Rightarrow> nat \<Rightarrow> string \<Rightarrow> (MediaError, unit) fs_op" where
  "write_ppm faults output width height rgb =
     op_bind (io faults (MediaOutput ''open'') (create_new output [])) (\<lambda>_.
     io_partial faults (MediaOutput ''write'') (\<lambda>k nodes. set_content output (take k (ppm_text width height rgb)) nodes)
       (\<lambda>nodes. Some ((), set_content output (ppm_text width height rgb) nodes)))"

definition checked_u32 :: "nat \<Rightarrow> (MediaError, u32) result" where
  "checked_u32 n = (if n < 2 ^ 32 then Ok (of_nat n) else Err FallbackLimit)"

definition write_frame :: "faults \<Rightarrow> OpenH264FallbackLimits \<Rightarrow> string \<Rightarrow> found_frame \<Rightarrow> (MediaError, OpenH264FallbackFrame) fs_op" where
  "write_frame faults limits output found =
     (let width = df_width (ff_frame found); height = df_height (ff_frame found) in
      op_bind (op_of_result (validate_frame width height limits)) (\<lambda>_.
      op_bind (op_check (Option.bind (checked_usize (width * height)) (\<lambda>pixels. checked_usize (pixels * 3)) \<noteq> None) FallbackLimit) (\<lambda>_.
      op_bind (write_ppm faults output width height (df_rgb (ff_frame found))) (\<lambda>_.
      op_bind (op_of_result (checked_u32 width)) (\<lambda>w.
      op_bind (op_of_result (checked_u32 height)) (\<lambda>h.
      op_return \<lparr>ofr_width = w, ofr_height = h, ofr_samples_read = ff_sample found,
        ofr_decoded_bytes = ff_decoded_bytes found\<rparr>))))))"

definition sample_ids :: "u32 \<Rightarrow> nat \<Rightarrow> u32 list" where
  "sample_ids sample_count max_samples = map of_nat [1..<min (unat sample_count) max_samples + 1]"

definition search_frame :: "'d OpenH264 \<Rightarrow> Mp4Reader \<Rightarrow> OpenH264FallbackLimits \<Rightarrow> (MediaError, found_frame) result" where
  "search_frame h264 mp4 limits =
     and_then (h264_track_config mp4 limits) (\<lambda>track.
     case od_new h264 of
       None \<Rightarrow> Err FallbackDecode
     | Some d \<Rightarrow>
         and_then (decode_parameter_sets h264 (fl_max_decode_errors limits) 0 d (od_nal_units h264 (tc_parameter_sets track))) (\<lambda>(errors, d').
         and_then (decode_samples h264 mp4 limits track False 0 errors d' (sample_ids (tc_sample_count track) (fl_max_samples limits))) (\<lambda>found.
         case found of
           Some f \<Rightarrow> Ok f
         | None \<Rightarrow>
             if unat (tc_sample_count track) > min (unat (tc_sample_count track)) (fl_max_samples limits)
             then Err FallbackLimit else Err FallbackDecode)))"

text \<open>An opened regular file is its content; a directory opens but is no file.\<close>

definition open_input :: "string \<Rightarrow> (string \<times> node) list \<Rightarrow> (string option \<times> (string \<times> node) list) option" where
  "open_input path nodes =
     (case map_of nodes path of
        None \<Rightarrow> None | Some (FileNode c m) \<Rightarrow> Some (Some c, nodes) | Some _ \<Rightarrow> Some (None, nodes))"

definition extract_first_frame_ppm :: "faults \<Rightarrow> (string \<Rightarrow> Mp4Reader option) \<Rightarrow> 'd OpenH264 \<Rightarrow> string \<Rightarrow> string \<Rightarrow> OpenH264FallbackLimits
    \<Rightarrow> (MediaError, OpenH264FallbackFrame) fs_op" where
  "extract_first_frame_ppm faults read_header h264 input output limits =
     op_bind (op_of_result (validate_fallback_limits limits)) (\<lambda>limits.
     op_bind (op_check (input \<noteq> output) (InvalidMediaRequest ''fallback input and output must differ'')) (\<lambda>_.
     op_bind (io faults (MediaInput ''open'') (open_input input)) (\<lambda>file.
     op_bind (op_check (case file of None \<Rightarrow> False | Some content \<Rightarrow> content \<noteq> [] \<and> length content \<le> fl_max_input_bytes limits) FallbackLimit) (\<lambda>_.
     case Option.bind file read_header of
       None \<Rightarrow> (\<lambda>w. (Err FallbackDecode, w))
     | Some mp4 \<Rightarrow>
         op_bind (op_of_result (search_frame h264 mp4 limits)) (\<lambda>found. write_frame faults limits output found)))))"

end
