(* ===== verification/Fallback_Contracts.thy ===== *)
theory Fallback_Contracts
  imports Fallback_Decoder
begin

text \<open>
  The emergency poster: which samples become an Annex B stream and what stream they become, and that the
  search for a frame and the file it writes stay within the limits.
\<close>

section \<open>Access units\<close>

text \<open>An AVCC sample is a sequence of units: a big-endian length of \<open>n\<close> bytes and that many bytes.\<close>

definition avcc_unit :: "nat \<Rightarrow> string \<times> string \<Rightarrow> bool" where
  "avcc_unit n u \<longleftrightarrow> length (fst u) = n \<and> be_value (fst u) = length (snd u) \<and> snd u \<noteq> []"

definition avcc_sample :: "(string \<times> string) list \<Rightarrow> string" where
  "avcc_sample units = concat (map (\<lambda>u. fst u @ snd u) units)"

definition annex_b :: "string list \<Rightarrow> string" where
  "annex_b nals = concat (map (\<lambda>nal. ANNEX_B_START_CODE @ nal) nals)"

lemma start_code_length [simp]: "length ANNEX_B_START_CODE = 4"
  by (simp add: ANNEX_B_START_CODE_def bytes_def)

lemma avcc_sample_simps [simp]:
  "avcc_sample [] = []" "avcc_sample (u # units) = fst u @ snd u @ avcc_sample units"
  "annex_b [] = []" "annex_b (nal # nals) = ANNEX_B_START_CODE @ nal @ annex_b nals"
  by (simp_all add: avcc_sample_def annex_b_def)

lemma length_field_fold:
  assumes "length cs + k \<le> 8" "acc < 256 ^ k"
  shows "length_field acc cs = Some (fold (\<lambda>c v. 256 * v + byte_of c) cs acc)"
  using assms
proof (induction cs arbitrary: acc k)
  case (Cons c cs)
  have "byte_of c < 256" by (simp add: byte_of_def)
  then have "256 * acc + byte_of c < 256 * Suc acc" by simp
  also have "\<dots> \<le> 256 * 256 ^ k" using Cons.prems(2) by (intro mult_le_mono2) simp
  finally have grown: "256 * acc + byte_of c < 256 ^ Suc k" by simp
  moreover have "(256::nat) ^ Suc k \<le> 256 ^ 8" using Cons.prems(1) by (intro power_increasing) auto
  ultimately have "256 * acc + byte_of c < 2 ^ 64" by simp
  then have "length_field acc (c # cs) = length_field (256 * acc + byte_of c) cs"
    by (simp add: checked_usize_def mult.commute)
  also have "\<dots> = Some (fold (\<lambda>c v. 256 * v + byte_of c) cs (256 * acc + byte_of c))"
    using Cons.prems(1) grown by (intro Cons.IH[of "Suc k"]) auto
  finally show ?case by simp
qed simp

lemma length_field_value: "length cs \<le> 8 \<Longrightarrow> length_field 0 cs = Some (be_value cs)"
  unfolding be_value_def by (rule length_field_fold[of cs 0]) simp_all

lemma append_annex_b_Ok:
  assumes "max_bytes < 2 ^ 64"
  shows "append_annex_b_nal sofar nal max_bytes =
    (if length sofar + 4 + length nal \<le> max_bytes then Ok (sofar @ ANNEX_B_START_CODE @ nal) else Err FallbackLimit)"
  using assms by (auto simp: append_annex_b_nal_def checked_usize_def bounded_usize_def)

text \<open>One turn of the loop, without the overflows that a slice's length excludes.\<close>

lemma avcc_turn:
  assumes "cursor < length input" "length input < 2 ^ 63" "max_bytes < 2 ^ 64" "n \<in> {1, 2, 4}"
  shows "avcc_loop input n max_nals max_bytes cursor nals sofar = Ok out \<longleftrightarrow>
    (let len = be_value (take n (drop cursor input)) in
     cursor + n \<le> length input \<and> len \<noteq> 0 \<and> cursor + n + len \<le> length input \<and> nals + 1 \<le> max_nals \<and>
     length sofar + 4 + len \<le> max_bytes \<and>
     avcc_loop input n max_nals max_bytes (cursor + n + len) (nals + 1)
       (sofar @ ANNEX_B_START_CODE @ take len (drop (cursor + n) input)) = Ok out)"
proof -
  let ?len = "be_value (take n (drop cursor input))"
  have field: "length_field 0 (take n (drop cursor input)) = Some ?len"
    using assms(4) by (intro length_field_value) auto
  have end1: "bounded_usize (length input) (cursor + n) = (if cursor + n \<le> length input then Some (cursor + n) else None)"
    using assms(2) by (auto simp: bounded_usize_def checked_usize_def)
  have end2: "bounded_usize (length input) (cursor + n + ?len) = (if cursor + n + ?len \<le> length input then Some (cursor + n + ?len) else None)"
    using assms(2) by (auto simp: bounded_usize_def checked_usize_def)
  show ?thesis
    by (subst avcc_loop.simps) (simp add: assms(1) field end1 end2 append_annex_b_Ok[OF assms(3)] Let_def)
qed

lemma take_twice: "drop c xs = take n (drop c xs) @ take m (drop (c + n) xs) @ drop (c + n + m) xs"
proof -
  have "drop (c + n) xs = take m (drop (c + n) xs) @ drop (c + n + m) xs"
    by (metis append_take_drop_id drop_drop add.commute)
  then show ?thesis by (metis append_take_drop_id drop_drop add.commute)
qed

lemma avcc_loop_Ok:
  assumes "cursor \<le> length input" "length input < 2 ^ 63" "max_bytes < 2 ^ 64" "n \<in> {1, 2, 4}"
  shows "avcc_loop input n max_nals max_bytes cursor nals sofar = Ok out \<longleftrightarrow>
    (\<exists>units. list_all (avcc_unit n) units \<and> drop cursor input = avcc_sample units \<and>
       (units \<noteq> [] \<longrightarrow> nals + length units \<le> max_nals \<and> length out \<le> max_bytes) \<and>
       out = sofar @ annex_b (map snd units) \<and> out \<noteq> [])"
  using assms(1)
proof (induction "length input - cursor" arbitrary: cursor nals sofar rule: less_induct)
  case less
  let ?P = "\<lambda>cursor nals sofar units. list_all (avcc_unit n) units \<and> drop cursor input = avcc_sample units \<and>
       (units \<noteq> [] \<longrightarrow> nals + length units \<le> max_nals \<and> length out \<le> max_bytes) \<and>
       out = sofar @ annex_b (map snd units) \<and> out \<noteq> []"
  have n: "0 < n" using assms(4) by auto
  show ?case
  proof (cases "cursor < length input")
    case False
    have "units = []" if "?P cursor nals sofar units" for units
      using that False n by (cases units) (auto simp: avcc_unit_def)
    then show ?thesis using False less.prems by (subst avcc_loop.simps) force
  next
    case True
    let ?len = "be_value (take n (drop cursor input))"
    let ?nal = "take ?len (drop (cursor + n) input)"
    let ?next = "cursor + n + ?len"
    note turn = avcc_turn[OF True assms(2-4), of max_nals nals sofar out, unfolded Let_def]
    have rest: "avcc_loop input n max_nals max_bytes ?next (nals + 1) (sofar @ ANNEX_B_START_CODE @ ?nal) = Ok out \<longleftrightarrow>
        (\<exists>units. ?P ?next (nals + 1) (sofar @ ANNEX_B_START_CODE @ ?nal) units)" if "?next \<le> length input"
      using less.hyps[of ?next "nals + 1" "sofar @ ANNEX_B_START_CODE @ ?nal"] that True n by auto
    show ?thesis
    proof
      assume "avcc_loop input n max_nals max_bytes cursor nals sofar = Ok out"
      then have ok: "?len \<noteq> 0" "?next \<le> length input" "nals + 1 \<le> max_nals" "length sofar + 4 + ?len \<le> max_bytes"
        "avcc_loop input n max_nals max_bytes ?next (nals + 1) (sofar @ ANNEX_B_START_CODE @ ?nal) = Ok out"
        unfolding turn by auto
      then obtain units where units: "?P ?next (nals + 1) (sofar @ ANNEX_B_START_CODE @ ?nal) units" using rest by blast
      let ?u = "(take n (drop cursor input), ?nal)"
      have "drop cursor input = take n (drop cursor input) @ ?nal @ drop ?next input"
        by (rule take_twice)
      then have sample: "drop cursor input = avcc_sample (?u # units)" using units by simp
      have "length ?nal = ?len" "length (take n (drop cursor input)) = n" using ok(2) by (simp_all add: min_absorb2)
      moreover from this(1) ok(1) have "?nal \<noteq> []" by (metis list.size(3))
      ultimately have valid: "list_all (avcc_unit n) (?u # units)" using units by (simp add: avcc_unit_def)
      have bytes: "length out \<le> max_bytes"
      proof (cases units)
        case Nil
        then have "out = sofar @ ANNEX_B_START_CODE @ ?nal" using units by simp
        then show ?thesis using ok(4) by simp
      next
        case (Cons u us)
        then have "units \<noteq> []" by simp
        then show ?thesis using units by blast
      qed
      have count: "nals + length (?u # units) \<le> max_nals" using units ok(3) by (cases units) simp_all
      have out: "out = sofar @ annex_b (map snd (?u # units))" "out \<noteq> []" using units by (simp, blast)
      show "\<exists>units. ?P cursor nals sofar units"
        by (intro exI[of _ "?u # units"] conjI impI valid sample count bytes out)
    next
      assume "\<exists>units. ?P cursor nals sofar units"
      then obtain units where units: "?P cursor nals sofar units" by blast
      then obtain u us where u: "units = u # us" using True by (cases units) auto
      have unit: "length (fst u) = n" "be_value (fst u) = length (snd u)" "snd u \<noteq> []"
        using units by (simp_all add: u avcc_unit_def)
      have drop: "drop cursor input = fst u @ snd u @ avcc_sample us" using units by (simp add: u)
      have field: "take n (drop cursor input) = fst u" unfolding drop by (simp add: unit(1))
      then have len: "?len = length (snd u)" by (simp add: unit(2))
      have "drop (cursor + n) input = snd u @ avcc_sample us"
        using arg_cong[OF drop, of "drop n"] by (simp add: unit(1) add.commute)
      note tail = this
      have nal: "?nal = snd u" unfolding len tail by simp
      have "drop ?next input = drop (length (snd u)) (drop (cursor + n) input)" unfolding len by (simp add: add.commute)
      then have after: "drop ?next input = avcc_sample us" unfolding tail by simp
      have total: "length (drop cursor input) = n + length (snd u) + length (avcc_sample us)" unfolding drop by (simp add: unit(1))
      then have fits: "?next \<le> length input" using True len by simp
      have "?P ?next (nals + 1) (sofar @ ANNEX_B_START_CODE @ ?nal) us"
      proof (intro conjI impI after)
        show "list_all (avcc_unit n) us" "nals + 1 + length us \<le> max_nals" using units unfolding u by simp_all
        show "out \<noteq> []" "length out \<le> max_bytes" using units u by blast+
        show "out = (sofar @ ANNEX_B_START_CODE @ ?nal) @ annex_b (map snd us)" using units unfolding u nal by simp
      qed
      then have "avcc_loop input n max_nals max_bytes ?next (nals + 1) (sofar @ ANNEX_B_START_CODE @ ?nal) = Ok out"
        using rest[OF fits] by blast
      moreover have "length sofar + 4 + ?len \<le> max_bytes" "nals + 1 \<le> max_nals" using units len by (auto simp: u)
      ultimately show "avcc_loop input n max_nals max_bytes cursor nals sofar = Ok out"
        unfolding turn using fits len unit(3) by simp
    qed
  qed
qed

lemma access_unit_converts:
  assumes "length input < 2 ^ 63" "max_bytes < 2 ^ 64"
  shows "avcc_to_annex_b input n max_nals max_bytes = Ok out \<longleftrightarrow>
    n \<in> {1, 2, 4} \<and> (\<exists>units. units \<noteq> [] \<and> list_all (avcc_unit n) units \<and> input = avcc_sample units \<and>
      length units \<le> max_nals \<and> out = annex_b (map snd units) \<and> length out \<le> max_bytes)"
proof (cases "input \<noteq> [] \<and> n \<in> {1, 2, 4}")
  case True
  then have "avcc_to_annex_b input n max_nals max_bytes = Ok out \<longleftrightarrow>
      avcc_loop input n max_nals max_bytes 0 0 [] = Ok out" by (auto simp: avcc_to_annex_b_def)
  also have "\<dots> \<longleftrightarrow> (\<exists>units. list_all (avcc_unit n) units \<and> input = avcc_sample units \<and>
      (units \<noteq> [] \<longrightarrow> length units \<le> max_nals \<and> length out \<le> max_bytes) \<and> out = annex_b (map snd units) \<and> out \<noteq> [])"
    using avcc_loop_Ok[of 0 input max_bytes n max_nals 0 "[]" out] assms True by simp
  also have "\<dots> \<longleftrightarrow> (\<exists>units. units \<noteq> [] \<and> list_all (avcc_unit n) units \<and> input = avcc_sample units \<and>
      length units \<le> max_nals \<and> out = annex_b (map snd units) \<and> length out \<le> max_bytes)"
  proof -
    have "units \<noteq> []" if "input = avcc_sample units" for units using that True by auto
    moreover have "annex_b (map snd units) \<noteq> []" if "units \<noteq> []" for units :: "(string \<times> string) list"
      using that by (cases units) (auto simp: ANNEX_B_START_CODE_def bytes_def)
    ultimately show ?thesis by blast
  qed
  finally show ?thesis using True by simp
next
  case False
  have "avcc_sample units \<noteq> []" if "units \<noteq> []" "list_all (avcc_unit n) units" for units
    using that by (cases units) (auto simp: avcc_unit_def)
  then show ?thesis using False by (auto simp: avcc_to_annex_b_def)
qed

text \<open>
  C36. The conversion accepts exactly the samples that are sequences of non-empty units with length fields of
  1, 2 or 4 bytes, at most \<open>max_nals\<close> of them and at most \<open>max_bytes\<close> of output, and the output is the
  units' contents in their order, each behind a start code.
\<close>

theorem access_unit_converts_iff:
  assumes "length input < 2 ^ 63" "max_bytes < 2 ^ 64"
  shows "avcc_to_annex_b input n max_nals max_bytes = Ok out \<longleftrightarrow>
    n \<in> {1, 2, 4} \<and> (\<exists>units. units \<noteq> [] \<and> list_all (avcc_unit n) units \<and> input = avcc_sample units \<and>
      length units \<le> max_nals \<and> out = annex_b (map snd units) \<and> length out \<le> max_bytes)"
  using access_unit_converts[OF assms] .

theorem access_unit_converts_iff_witness:
  "avcc_to_annex_b (bytes [0, 0, 0, 2, 101, 170, 0, 0, 0, 1, 6]) 4 4 64 = Ok (bytes [0, 0, 0, 1, 101, 170, 0, 0, 0, 1, 6])"
proof -
  let ?units = "[(bytes [0, 0, 0, 2], bytes [101, 170]), (bytes [0, 0, 0, 1], bytes [6])]"
  have "list_all (avcc_unit 4) ?units \<and> bytes [0, 0, 0, 2, 101, 170, 0, 0, 0, 1, 6] = avcc_sample ?units"
    by (simp add: avcc_unit_def bytes_def be_value_def byte_of_def)
  moreover have "annex_b (map snd ?units) = bytes [0, 0, 0, 1, 101, 170, 0, 0, 0, 1, 6]"
    by (simp add: ANNEX_B_START_CODE_def bytes_def)
  moreover have "?units \<noteq> []" "length ?units \<le> 4" "length (bytes [0, 0, 0, 1, 101, 170, 0, 0, 0, 1, 6]) \<le> 64" by (simp_all add: bytes_def)
  ultimately have "\<exists>units. units \<noteq> [] \<and> list_all (avcc_unit 4) units \<and>
      bytes [0, 0, 0, 2, 101, 170, 0, 0, 0, 1, 6] = avcc_sample units \<and> length units \<le> 4 \<and>
      bytes [0, 0, 0, 1, 101, 170, 0, 0, 0, 1, 6] = annex_b (map snd units) \<and>
      length (bytes [0, 0, 0, 1, 101, 170, 0, 0, 0, 1, 6]) \<le> 64" by metis
  moreover have "length (bytes [0, 0, 0, 2, 101, 170, 0, 0, 0, 1, 6]) < 2 ^ 63" "(64::nat) < 2 ^ 64" by (simp_all add: bytes_def)
  ultimately show ?thesis
    using access_unit_converts_iff[of "bytes [0, 0, 0, 2, 101, 170, 0, 0, 0, 1, 6]" 64 4 4 "bytes [0, 0, 0, 1, 101, 170, 0, 0, 0, 1, 6]"]
    by blast
qed

section \<open>The search for a frame\<close>

definition yields :: "'d OpenH264 \<Rightarrow> DecodedFrame \<Rightarrow> bool" where
  "yields h264 f \<longleftrightarrow> (\<exists>nal d d'. od_decode h264 nal d = (Ok (Some f), d'))"

lemma decode_access_unit_Ok:
  "decode_access_unit h264 max_errors errors d nals = Ok (Some f, errors', d') \<Longrightarrow> yields h264 f"
proof (induction nals arbitrary: errors d)
  case (Cons nal nals)
  then show ?case by (auto simp: yields_def split: prod.splits sum.splits option.splits if_splits)
qed simp

lemma decode_samples_Ok:
  assumes "decode_samples h264 mp4 limits track found_sync decoded_bytes errors d ids = Ok (Some found)"
  shows "ff_sample found \<in> set ids \<and> ff_decoded_bytes found \<le> fl_max_decode_bytes limits \<and> yields h264 (ff_frame found)"
  using assms
proof (induction ids arbitrary: found_sync decoded_bytes errors d)
  case (Cons i ids)
  show ?case
  proof (cases "mr_read_sample mp4 (tc_track_id track) i")
    case (Some read)
    show ?thesis
    proof (cases read)
      case (Some sample)
      note read = \<open>mr_read_sample mp4 (tc_track_id track) i = Some read\<close> Some
      show ?thesis
      proof (cases "\<not> found_sync \<and> \<not> ms_is_sync sample")
        case True
        then have "decode_samples h264 mp4 limits track False decoded_bytes errors d ids = Ok (Some found)"
          using Cons.prems read by simp
        from Cons.IH[OF this] show ?thesis by simp
      next
        case False
        then obtain unit frame errors' d' where
          total: "decoded_bytes + length (ms_bytes sample) \<le> fl_max_decode_bytes limits"
          and decoded: "decode_access_unit h264 (fl_max_decode_errors limits) errors d (od_nal_units h264 unit) = Ok (frame, errors', d')"
          and rest: "(case frame of
                Some f \<Rightarrow> Ok (Some \<lparr>ff_frame = f, ff_sample = i, ff_decoded_bytes = decoded_bytes + length (ms_bytes sample)\<rparr>)
              | None \<Rightarrow> decode_samples h264 mp4 limits track True (decoded_bytes + length (ms_bytes sample)) errors' d' ids) = Ok (Some found)"
          using Cons.prems read by (auto simp: and_then_eq_Inr split: if_splits option.splits prod.splits)
        show ?thesis
        proof (cases frame)
          case None
          then show ?thesis using Cons.IH rest by simp
        next
          case (Some f)
          then show ?thesis using rest total decode_access_unit_Ok[of h264 _ errors d _ f errors' d'] decoded by auto
        qed
      qed
    qed (use Cons.prems Some in simp)
  qed (use Cons.prems in simp)
qed simp

lemma sample_ids_bound: "i \<in> set (sample_ids count max_samples) \<Longrightarrow> 1 \<le> unat i \<and> unat i \<le> max_samples"
proof -
  assume "i \<in> set (sample_ids count max_samples)"
  then obtain n where n: "i = of_nat n" "1 \<le> n" "n \<le> min (unat count) max_samples"
    by (auto simp: sample_ids_def)
  then have "n < 2 ^ 32" using unat_u32_less[of count] by simp
  then have "unat i = n" using n(1) by (simp add: unsigned_of_nat take_bit_nat_eq_self_iff)
  then show ?thesis using n by simp
qed

lemma search_frame_Ok:
  assumes "search_frame h264 mp4 limits = Ok found"
  shows "1 \<le> unat (ff_sample found)" "unat (ff_sample found) \<le> fl_max_samples limits"
    "ff_decoded_bytes found \<le> fl_max_decode_bytes limits" "yields h264 (ff_frame found)"
proof -
  obtain track d errors d' where
    "decode_samples h264 mp4 limits track False 0 errors d' (sample_ids (tc_sample_count track) (fl_max_samples limits)) = Ok (Some found)"
    using assms by (auto simp: search_frame_def and_then_eq_Inr split: option.splits if_splits)
  note found = decode_samples_Ok[OF this]
  show "1 \<le> unat (ff_sample found)" "unat (ff_sample found) \<le> fl_max_samples limits"
    "ff_decoded_bytes found \<le> fl_max_decode_bytes limits" "yields h264 (ff_frame found)"
    using found sample_ids_bound by blast+
qed

section \<open>The file\<close>

lemma touches_write_ppm: "touches_only entry {path} (write_ppm faults path width height rgb)"
  unfolding write_ppm_def by (intro touches_only_bind touches_writes touches_set) simp_all

lemma write_ppm_Ok:
  "write_ppm faults path width height rgb w = (Ok u, w') \<Longrightarrow>
     entry w path = None \<and> entry w' = (entry w)(path \<mapsto> FileNode (ppm_text width height rgb) 420)"
  unfolding write_ppm_def op_bind_Ok using new_Ok set_Ok by fastforce

lemma write_ppm_kept:
  assumes "write_ppm faults path width height rgb w = (r, w')" "entry w path \<noteq> None"
  shows "entry w' = entry w \<and> r \<noteq> Ok ()"
  using assms(1)[unfolded write_ppm_def]
proof (cases rule: op_bind_cases)
  case (1 e)
  then show ?thesis using io_Err[OF 1(1)] by simp
next
  case (2 u w1)
  then show ?thesis using new_Ok[OF 2(1)] assms(2) by simp
qed

text \<open>What a poster of \<open>f\<close> is.\<close>

definition bounded_poster :: "OpenH264FallbackLimits \<Rightarrow> OpenH264FallbackFrame \<Rightarrow> string \<Rightarrow> bool" where
  "bounded_poster limits f content \<longleftrightarrow>
     (\<exists>rgb. content = ppm_text (unat (ofr_width f)) (unat (ofr_height f)) rgb \<and>
        length rgb = unat (ofr_width f) * unat (ofr_height f) * 3) \<and>
     ofr_width f \<noteq> 0 \<and> unat (ofr_width f) \<le> fl_max_dimension limits \<and>
     ofr_height f \<noteq> 0 \<and> unat (ofr_height f) \<le> fl_max_dimension limits \<and>
     unat (ofr_width f) * unat (ofr_height f) \<le> fl_max_frame_pixels limits \<and>
     1 \<le> unat (ofr_samples_read f) \<and> unat (ofr_samples_read f) \<le> fl_max_samples limits \<and>
     ofr_decoded_bytes f \<le> fl_max_decode_bytes limits"

lemma checked_u32_Ok: "checked_u32 n = Ok v \<longleftrightarrow> n < 2 ^ 32 \<and> v = of_nat n"
  by (auto simp: checked_u32_def)

lemma validate_frame_Ok:
  "validate_frame width height limits = Ok () \<longleftrightarrow> width * height < 2 ^ 64 \<and> 0 < width \<and> 0 < height \<and>
     width \<le> fl_max_dimension limits \<and> height \<le> fl_max_dimension limits \<and> width * height \<le> fl_max_frame_pixels limits"
  by (auto simp: validate_frame_def checked_usize_def)

lemma write_frame_Ok:
  assumes "write_frame faults limits path found w = (Ok f, w')" "search_frame h264 mp4 limits = Ok found"
    and "length (df_rgb (ff_frame found)) = df_width (ff_frame found) * df_height (ff_frame found) * 3"
  shows "entry w path = None \<and> (\<exists>content. entry w' path = Some (FileNode content 420) \<and> bounded_poster limits f content)"
proof -
  let ?w = "df_width (ff_frame found)" and ?h = "df_height (ff_frame found)"
  obtain w1 where steps: "validate_frame ?w ?h limits = Ok ()" "?w < 2 ^ 32" "?h < 2 ^ 32"
    "write_ppm faults path ?w ?h (df_rgb (ff_frame found)) w = (Ok (), w1)" "entry w' = entry w1"
    "f = \<lparr>ofr_width = of_nat ?w, ofr_height = of_nat ?h, ofr_samples_read = ff_sample found, ofr_decoded_bytes = ff_decoded_bytes found\<rparr>"
    using assms(1) unfolding write_frame_def Let_def op_bind_Ok by (auto simp: op_of_result_def checked_u32_Ok)
  have unat: "unat (of_nat ?w :: u32) = ?w" "unat (of_nat ?h :: u32) = ?h"
    using steps(2,3) by (simp_all add: unsigned_of_nat take_bit_nat_eq_self_iff)
  have frame: "0 < ?w" "0 < ?h" "?w \<le> fl_max_dimension limits" "?h \<le> fl_max_dimension limits" "?w * ?h \<le> fl_max_frame_pixels limits"
    using steps(1) unfolding validate_frame_Ok by simp_all
  have positive: "(of_nat ?w :: u32) \<noteq> 0" "(of_nat ?h :: u32) \<noteq> 0" using unat frame(1,2) by (metis less_irrefl unsigned_0)+
  have "bounded_poster limits f (ppm_text ?w ?h (df_rgb (ff_frame found)))"
    unfolding bounded_poster_def steps(6) using unat frame assms(3) search_frame_Ok[OF assms(2)] positive by auto
  then show ?thesis using write_ppm_Ok[OF steps(4)] steps(5) by simp
qed

lemma write_frame_changes:
  assumes "write_frame faults limits path found w = (r, w')"
  shows "p \<noteq> path \<Longrightarrow> entry w' p = entry w p" "entry w path \<noteq> None \<Longrightarrow> entry w' path = entry w path"
proof -
  have "touches_only entry {path} (write_frame faults limits path found)"
    unfolding write_frame_def Let_def op_of_result_def
    by (intro touches_only_bind touches_write_ppm touches_case_sum) simp_all
  then show "p \<noteq> path \<Longrightarrow> entry w' p = entry w p" using touches_onlyD assms by fastforce
  have "keeps (\<lambda>w _. entry w path) (\<lambda>_ e. e = Some node) (write_frame faults limits path found)" for node
    unfolding write_frame_def Let_def op_of_result_def
    by (intro keeps_bind) (auto simp: keeps_def op_return_def op_check_def dest: write_ppm_kept)
  from keepsD[OF this assms] show "entry w path \<noteq> None \<Longrightarrow> entry w' path = entry w path" by (cases "entry w path") auto
qed

text \<open>
  C37. The emergency poster: whatever it answers, the extraction changes no file but its output, and not even
  that where one exists already; a success has written there a PPM of exactly the frame's size, within the
  limits on dimensions and pixels, found among the first samples and after decoding no more than the budget.
\<close>

theorem fallback_poster_is_bounded:
  assumes "extract_first_frame_ppm faults read_header h264 input path limits w = (r, w')"
    and "\<And>f. yields h264 f \<Longrightarrow> length (df_rgb f) = df_width f * df_height f * 3"
  shows "(\<forall>p. p \<noteq> path \<or> entry w p \<noteq> None \<longrightarrow> entry w' p = entry w p) \<and>
    (case r of Inl e \<Rightarrow> True | Inr f \<Rightarrow> entry w path = None \<and>
       (\<exists>content. entry w' path = Some (FileNode content 420) \<and> bounded_poster limits f content))"
proof -
  have "(\<exists>e. r = Err e \<and> entry w' = entry w) \<or>
      (\<exists>mp4 found w1. entry w1 = entry w \<and> search_frame h264 mp4 limits = Ok found \<and> write_frame faults limits path found w1 = (r, w'))"
    using assms(1)[unfolded extract_first_frame_ppm_def]
  proof (cases rule: op_bind_cases)
    case (1 e)
    then show ?thesis by (simp add: op_of_result_def)
  next
    case (2 l w1)
    then have l: "l = limits" "w1 = w" by (auto simp: op_of_result_def validate_fallback_limits_def split: if_splits)
    from 2(2) show ?thesis
    proof (cases rule: op_bind_cases)
      case (1 e)
      then show ?thesis using l by (auto simp: op_check_def split: if_splits)
    next
      case (2 u w2)
      then have w2: "w2 = w" using l by simp
      from 2(2) show ?thesis
      proof (cases rule: op_bind_cases)
        case (1 e)
        then show ?thesis using io_Err[OF 1(1)] w2 by simp
      next
        case (2 opened w3)
        then have w3: "entry w3 = entry w" using w2 by (auto simp: succeeding open_input_def split: option.splits node.splits)
        from 2(2) show ?thesis
        proof (cases rule: op_bind_cases)
          case (1 e)
          then show ?thesis using w3 by (auto simp: op_check_def split: if_splits)
        next
          case (2 u w4)
          then have w4: "entry w4 = entry w" using w3 by simp
          show ?thesis
          proof (cases "Option.bind opened read_header")
            case None
            then show ?thesis using 2(2) w4 by auto
          next
            case (Some mp4)
            then have "op_bind (op_of_result (search_frame h264 mp4 limits)) (write_frame faults limits path) w4 = (r, w')"
              using 2(2) l by simp
            then show ?thesis
            proof (cases rule: op_bind_cases)
              case (1 e)
              then show ?thesis using w4 by (simp add: op_of_result_def)
            next
              case (2 found w5)
              then show ?thesis using w4 by (auto simp: op_of_result_def)
            qed
          qed
        qed
      qed
    qed
  qed
  then consider e where "r = Err e" "entry w' = entry w"
    | mp4 found w1 where "entry w1 = entry w" "search_frame h264 mp4 limits = Ok found" "write_frame faults limits path found w1 = (r, w')"
    by blast
  then show ?thesis
  proof cases
    case 1
    then show ?thesis by simp
  next
    case 2
    have "\<forall>p. p \<noteq> path \<or> entry w p \<noteq> None \<longrightarrow> entry w' p = entry w p"
      using write_frame_changes[OF 2(3)] 2(1) by metis
    moreover have "entry w path = None \<and> (\<exists>content. entry w' path = Some (FileNode content 420) \<and> bounded_poster limits f content)"
      if "r = Ok f" for f
      using write_frame_Ok[OF 2(3)[unfolded that] 2(2) assms(2)[OF search_frame_Ok(4)[OF 2(2)]]] 2(1) by simp
    ultimately show ?thesis by (auto split: sum.split)
  qed
qed

section \<open>A poster\<close>

definition sample_unit :: string where
  "sample_unit = bytes [0, 0, 0, 1, 9]"

definition sample_frame :: DecodedFrame where
  "sample_frame = \<lparr>df_width = 2, df_height = 2, df_rgb = replicate 12 (CHR ''a'')\<rparr>"

definition sample_h264 :: "unit OpenH264" where
  "sample_h264 =
     \<lparr>od_new = Some (), od_decode = (\<lambda>nal d. (Ok (if nal = bytes [9] then Some sample_frame else None), d)),
      od_nal_units = (\<lambda>stream. [drop 4 stream])\<rparr>"

definition sample_mp4 :: Mp4Reader where
  "sample_mp4 =
     \<lparr>mr_tracks = [\<lparr>mt_is_video = True, mt_is_h264 = Some True,
         mt_avc1 = Some \<lparr>ma_length_size_minus_one = 3, ma_sequence_parameter_sets = [bytes [7]], ma_picture_parameter_sets = []\<rparr>,
         mt_track_id = 1, mt_sample_count = 1\<rparr>],
      mr_read_sample = (\<lambda>track sample. Some (Some \<lparr>ms_is_sync = True, ms_bytes = sample_unit\<rparr>))\<rparr>"

definition sample_found :: found_frame where
  "sample_found = \<lparr>ff_frame = sample_frame, ff_sample = 1, ff_decoded_bytes = 5\<rparr>"

lemma sample_limits:
  "validate_fallback_limits default_fallback_limits = Ok default_fallback_limits"
  "fl_max_parameter_set_bytes default_fallback_limits = 262144" "fl_max_decode_errors default_fallback_limits = 8"
  "fl_max_samples default_fallback_limits = 120" "fl_max_sample_bytes default_fallback_limits = 16777216"
  "fl_max_decode_bytes default_fallback_limits = 33554432" "fl_max_nals_per_sample default_fallback_limits = 1024"
  "fl_max_input_bytes default_fallback_limits = 536870912" "validate_frame 2 2 default_fallback_limits = Ok ()"
  by (simp_all add: validate_fallback_limits_def default_fallback_limits_def validate_frame_def checked_usize_def)

lemma sample_access_unit: "avcc_to_annex_b sample_unit 4 1024 16777216 = Ok (ANNEX_B_START_CODE @ bytes [9])"
proof -
  let ?units = "[(bytes [0, 0, 0, 1], bytes [9])]"
  have "list_all (avcc_unit 4) ?units" "sample_unit = avcc_sample ?units"
    by (simp_all add: sample_unit_def avcc_unit_def bytes_def be_value_def byte_of_def)
  moreover have "length (annex_b (map snd ?units)) \<le> 16777216" "length ?units \<le> 1024" "?units \<noteq> []" by (simp_all add: bytes_def)
  moreover have "ANNEX_B_START_CODE @ bytes [9] = annex_b (map snd ?units)" by simp
  moreover have "length sample_unit < 2 ^ 63" "(16777216::nat) < 2 ^ 64" by (simp_all add: sample_unit_def bytes_def)
  ultimately show ?thesis by (subst access_unit_converts) (simp_all only: insert_iff simp_thms, metis)
qed

lemma sample_config:
  "h264_track_config sample_mp4 default_fallback_limits =
     Ok \<lparr>tc_track_id = 1, tc_sample_count = 1, tc_nal_length_size = 4, tc_parameter_sets = ANNEX_B_START_CODE @ bytes [7]\<rparr>"
proof -
  have "append_annex_b_nal [] (bytes [7]) 262144 = Ok (ANNEX_B_START_CODE @ bytes [7])"
    by (subst append_annex_b_Ok) (simp_all add: bytes_def)
  then show ?thesis
    by (simp add: h264_track_config_def sample_mp4_def sample_limits(2) Let_def checked_usize_def bytes_def)
qed

lemma sample_decodes:
  "od_new sample_h264 = Some ()" "od_nal_units sample_h264 (ANNEX_B_START_CODE @ nal) = [nal]"
  "od_decode sample_h264 (bytes [7]) d = (Ok None, d)"
  "od_decode sample_h264 (bytes [9]) d = (Ok (Some sample_frame), d)"
  by (simp_all add: sample_h264_def bytes_def)

lemma sample_ids_one: "sample_ids 1 120 = [1]"
  by (simp add: sample_ids_def)

lemma sample_search: "search_frame sample_h264 sample_mp4 default_fallback_limits = Ok sample_found"
proof -
  have read: "mr_read_sample sample_mp4 1 1 = Some (Some \<lparr>ms_is_sync = True, ms_bytes = sample_unit\<rparr>)"
    by (simp add: sample_mp4_def)
  have "length sample_unit = 5" "sample_unit \<noteq> []" by (simp_all add: sample_unit_def bytes_def)
  moreover have "bounded_usize 33554432 5 = Some 5" by simp
  ultimately show ?thesis
    by (simp add: search_frame_def sample_config sample_decodes sample_limits sample_ids_one read sample_access_unit sample_found_def
        del: bounded_usize_Some)
qed

lemma sample_yields: "yields sample_h264 f \<Longrightarrow> length (df_rgb f) = df_width f * df_height f * 3"
  by (auto simp: yields_def sample_h264_def sample_frame_def split: if_splits)

lemma sample_poster_written:
  assumes "entry w ''/in.mp4'' = Some (FileNode ''v'' m)" "entry w path = None"
  shows "\<exists>f w'. extract_first_frame_ppm (\<lambda>_. None) (\<lambda>_. Some sample_mp4) sample_h264 ''/in.mp4'' path default_fallback_limits w = (Ok f, w')"
proof -
  have "''/in.mp4'' \<noteq> path" using assms by auto
  then show ?thesis
    using assms by (simp add: extract_first_frame_ppm_def sample_limits sample_search write_frame_def write_ppm_def sample_found_def
        sample_frame_def op_of_result_def open_input_def checked_usize_def checked_u32_def running Let_def)
qed

definition video_fs :: host_fs where
  "video_fs = \<lparr>fs_nodes = [(''/in.mp4'', FileNode ''v'' 420)], fs_ops = 0\<rparr>"

lemma video_fs: "entry video_fs ''/in.mp4'' = Some (FileNode ''v'' 420)" "p \<noteq> ''/in.mp4'' \<Longrightarrow> entry video_fs p = None"
  by (simp_all add: entry_def video_fs_def)

theorem fallback_poster_is_bounded_witness:
  "\<exists>f w' content. extract_first_frame_ppm (\<lambda>_. None) (\<lambda>_. Some sample_mp4) sample_h264 ''/in.mp4'' ''/out.ppm'' default_fallback_limits video_fs = (Ok f, w') \<and>
     entry w' ''/out.ppm'' = Some (FileNode content 420) \<and> bounded_poster default_fallback_limits f content"
proof -
  obtain f w' where run: "extract_first_frame_ppm (\<lambda>_. None) (\<lambda>_. Some sample_mp4) sample_h264 ''/in.mp4'' ''/out.ppm'' default_fallback_limits video_fs = (Ok f, w')"
    using sample_poster_written[OF video_fs(1), of "''/out.ppm''"] video_fs(2) by auto
  show ?thesis using fallback_poster_is_bounded[OF run sample_yields] run by auto
qed

end
