(* ===== verification/Sandbox.thy ===== *)
theory Sandbox
  imports Vips Fallback_Decoder Sandbox_Probe Contracts Installer
begin

text \<open>
  The sandbox binary of \<open>apps/g7mb-sandbox/src/main.rs\<close>: probing an untrusted source, the poster of a video
  with its fallback and its watermark, images, and the self-checks.  Child processes are an argument that
  may change files; libvips, the decoder and the MP4 parser are those of \<open>Vips\<close> and \<open>Fallback_Decoder\<close>.
\<close>

section \<open>The process\<close>

datatype sandbox_error =
    SandboxBail string | SandboxMedia MediaError | SandboxImagePolicy ImagePolicyError
  | SandboxVideoPolicy VideoPolicyError | SandboxIo string

type_synonym 'a sandbox_op = "(host_fs, sandbox_error, 'a) op"

text \<open>How an attempt to open a connection ended: the error's number, if it has one, or a connection.\<close>

datatype connect_outcome = Connected | ConnectFailed "nat option"

record ('i, 'd) sandbox_env =
  sx_faults :: faults
  sx_run :: "string \<Rightarrow> string list \<Rightarrow> duration \<Rightarrow> (string \<times> node) list \<Rightarrow> ProcessOutcome \<times> (string \<times> node) list"
  sx_native_vips :: bool
  sx_vips :: "'i vips"
  sx_debug_log :: bool
  sx_read_header :: "string \<Rightarrow> Mp4Reader option"
  sx_h264 :: "'d OpenH264"
  sx_from_json :: "string \<Rightarrow> (string, RawFfprobeOutput) result"
  sx_seek_text :: "u64 \<Rightarrow> string"
  sx_tempdir :: "string option"
  sx_fixture :: "string option"
  sx_blank :: "string \<Rightarrow> bool"
  sx_linux :: bool
  sx_connect :: connect_outcome

definition run_child :: "('i, 'd) sandbox_env \<Rightarrow> string \<Rightarrow> string list \<Rightarrow> duration \<Rightarrow> (host_fs, 'e, ProcessOutcome) op" where
  "run_child env program arguments limit w =
     (case sx_run env program arguments limit (fs_nodes w) of (outcome, nodes) \<Rightarrow> (Ok outcome, w\<lparr>fs_nodes := nodes\<rparr>))"

text \<open>A result the caller matches on, and a call whose error is dropped.\<close>

definition op_attempt :: "('s, 'e, 'a) op \<Rightarrow> ('s, 'f, ('e, 'a) result) op" where
  "op_attempt m s = (case m s of (r, s') \<Rightarrow> (Ok r, s'))"

definition discard_file :: "('i, 'd) sandbox_env \<Rightarrow> string \<Rightarrow> (host_fs, 'e, unit) op" where
  "discard_file env path = op_bind (op_try (io (sx_faults env) () (remove_file path))) (\<lambda>_. op_return ())"

text \<open>The length of a regular file; what is none is as good as missing.\<close>

definition file_length :: "string \<Rightarrow> (string \<times> node) list \<Rightarrow> (nat \<times> (string \<times> node) list) option" where
  "file_length path nodes = (case map_of nodes path of Some (FileNode c m) \<Rightarrow> Some (length c, nodes) | _ \<Rightarrow> None)"

definition detect_at :: "('i, 'd) sandbox_env \<Rightarrow> string \<Rightarrow> MediaKind \<Rightarrow> (host_fs, MediaError, MediaFormat) op" where
  "detect_at env path declared =
     op_bind (op_attempt (io (sx_faults env) ''open'' (read_content path))) (\<lambda>content.
     op_of_result (detect_file content declared))"

text \<open>\<open>Path::with_extension\<close> of a path that ends in a file name.\<close>

definition file_stem :: "string \<Rightarrow> string" where
  "file_stem name =
     (let parts = split_on (CHR ''.'') name; stem = join_with (CHR ''.'') (butlast parts) in
      if length parts = 1 \<or> stem = [] then name else stem)"

definition with_extension :: "string \<Rightarrow> string \<Rightarrow> string" where
  "with_extension path e =
     (let name = path_file_name path in take (length path - length name) path @ file_stem name @ ''.'' @ e)"

section \<open>Images\<close>

record ImageThumbnailJob =
  itj_input :: string
  itj_output :: string
  itj_max_edge :: u32
  itj_format :: ImageOutputFormat
  itj_threads :: int
  itj_watermark :: "string option"
  itj_position :: WatermarkPosition
  itj_margin_px :: u32
  itj_max_width_percent :: u8
  itj_opacity_percent :: u8

definition image_thumbnail :: "('i, 'd) sandbox_env \<Rightarrow> ImageThumbnailJob \<Rightarrow> unit sandbox_op" where
  "image_thumbnail env job =
     (if \<not> sx_native_vips env then (\<lambda>w. (Err (SandboxBail ''image support requires the native-vips feature''), w))
      else op_map_err SandboxMedia
        (op_bind (op_of_result (VipsEngine_new (sx_vips env) (itj_threads job))) (\<lambda>_.
         op_bind (op_check (sx_debug_log env \<longrightarrow> vx_version (sx_vips env) \<noteq> None) (MediaError.Vips ''version'')) (\<lambda>_.
         engine_thumbnail (sx_vips env)
           \<lparr>itr_input = itj_input job, itr_output = itj_output job, itr_max_edge = itj_max_edge job,
            itr_format = itj_format job,
            itr_watermark = map_option (\<lambda>mark. \<lparr>ws_input = mark, ws_position = itj_position job,
              ws_margin = itj_margin_px job, ws_max_width = itj_max_width_percent job,
              ws_opacity = itj_opacity_percent job\<rparr>) (itj_watermark job)\<rparr>))))"

section \<open>Probing\<close>

definition ffprobe_arguments :: "string \<Rightarrow> string list" where
  "ffprobe_arguments input =
     [''-v'', ''error'', ''-protocol_whitelist'', ''file,crypto,data'', ''-show_entries'',
      ''format=format_name,duration:stream=codec_type,codec_name,width,height,duration'', ''-of'', ''json'', ''-i'', input]"

definition inspect_video :: "('i, 'd) sandbox_env \<Rightarrow> string \<Rightarrow> duration \<Rightarrow> VideoProbeRequest \<Rightarrow> (host_fs, MediaError, VideoInspection) op" where
  "inspect_video env input limit request =
     op_bind (op_of_result (FfprobeInspector_new limit)) (\<lambda>limit.
     if vpr_format request \<notin> {Mp4, QuickTime, Webm}
     then op_of_result (inspect (sx_from_json env) TimedOut request)
     else op_bind (run_child env ''ffprobe'' (ffprobe_arguments input) limit) (\<lambda>outcome.
       op_of_result (inspect (sx_from_json env) outcome request)))"

definition probe_image :: "('i, 'd) sandbox_env \<Rightarrow> string \<Rightarrow> u64 \<Rightarrow> MediaFormat \<Rightarrow> int \<Rightarrow> MediaInspection sandbox_op" where
  "probe_image env input len format threads =
     (if \<not> sx_native_vips env then (\<lambda>w. (Err (SandboxBail ''image probe requires the native-vips feature''), w))
      else op_bind (op_map_err SandboxMedia (op_of_result (VipsEngine_new (sx_vips env) threads))) (\<lambda>_.
        op_bind (op_map_err SandboxMedia (\<lambda>w. (engine_probe (sx_vips env) input len (fs_nodes w), w))) (\<lambda>facts.
        op_bind (op_map_err SandboxImagePolicy (op_of_result (validate_image (image_limits_for_format format) facts))) (\<lambda>_.
        op_return (ImageInspected format (content_type format) facts)))))"

definition probe :: "('i, 'd) sandbox_env \<Rightarrow> string \<Rightarrow> MediaKind \<Rightarrow> u64 \<Rightarrow> duration \<Rightarrow> int \<Rightarrow> MediaInspection sandbox_op" where
  "probe env input declared len limit threads =
     op_bind (op_check (\<not> (len = 0 \<or> limit = 0 \<or> threads \<le> 0)) (SandboxBail ''sandbox probe limits must be positive'')) (\<lambda>_.
     op_bind (op_map_err SandboxMedia (detect_at env input declared)) (\<lambda>format.
     case declared of
       Image \<Rightarrow> probe_image env input len format threads
     | Video \<Rightarrow>
         op_bind (op_map_err SandboxMedia (inspect_video env input limit \<lparr>vpr_byte_len = len, vpr_format = format\<rparr>)) (\<lambda>inspection.
         op_bind (op_map_err SandboxVideoPolicy (op_of_result (validate_video default_video_limits (vi_probe inspection)))) (\<lambda>_.
         op_return (VideoInspected format (content_type format) inspection)))))"

section \<open>Video posters\<close>

definition extract_attempt :: "('i, 'd) sandbox_env \<Rightarrow> FfmpegThumbnailer \<Rightarrow> VideoThumbnailRequest
    \<Rightarrow> u64 \<Rightarrow> FfmpegSeekMode \<Rightarrow> duration \<Rightarrow> (host_fs, MediaError, unit) op" where
  "extract_attempt env self request timestamp_ms mode limit =
     op_bind (run_child env (ft_binary self)
         (ffmpeg_arguments (\<lambda>n. show_nat (unat n)) (sx_seek_text env) self request timestamp_ms mode) limit) (\<lambda>outcome.
     if (case outcome of Exited out \<Rightarrow> po_success out | _ \<Rightarrow> False)
     then op_bind (op_attempt (io (sx_faults env) ''metadata'' (file_length (vtr_output request)))) (\<lambda>written.
       op_of_result (attempt_result outcome written))
     else op_of_result (attempt_result outcome (Err [])))"

definition extract_frame :: "('i, 'd) sandbox_env \<Rightarrow> FfmpegThumbnailer \<Rightarrow> VideoThumbnailRequest \<Rightarrow> (host_fs, MediaError, unit) op" where
  "extract_frame env self request =
     extract_thumbnail (extract_attempt env self request)
       (\<lambda>w. snd (io (sx_faults env) () (remove_file (vtr_output request)) w)) self request"

record VideoThumbnailArgs =
  vta_input :: string
  vta_output :: string
  vta_timestamp_ms :: u64
  vta_duration_ms :: u64
  vta_max_width :: u32
  vta_timeout_seconds :: u64
  vta_threads :: u32
  vta_ffmpeg_bin :: string
  vta_allow_openh264_fallback :: bool
  vta_watermark :: "string option"
  vta_watermark_position :: WatermarkPosition
  vta_watermark_margin_px :: u32
  vta_watermark_max_width_percent :: u8
  vta_watermark_opacity_percent :: u8

definition poster_job :: "VideoThumbnailArgs \<Rightarrow> string \<Rightarrow> ImageThumbnailJob" where
  "poster_job a input =
     \<lparr>itj_input = input, itj_output = vta_output a, itj_max_edge = vta_max_width a, itj_format = JpegOutput,
      itj_threads = uint (vta_threads a), itj_watermark = vta_watermark a, itj_position = vta_watermark_position a,
      itj_margin_px = vta_watermark_margin_px a, itj_max_width_percent = vta_watermark_max_width_percent a,
      itj_opacity_percent = vta_watermark_opacity_percent a\<rparr>"

definition frame_output :: "VideoThumbnailArgs \<Rightarrow> string" where
  "frame_output a = (if vta_watermark a = None then vta_output a else with_extension (vta_output a) ''frame.jpg'')"

definition fallback_output :: "VideoThumbnailArgs \<Rightarrow> string" where
  "fallback_output a = with_extension (vta_output a) ''fallback.ppm''"

text \<open>The poster is made of an intermediate file, which is removed whether or not that succeeds.\<close>

definition finish_poster :: "('i, 'd) sandbox_env \<Rightarrow> VideoThumbnailArgs \<Rightarrow> string \<Rightarrow> unit sandbox_op" where
  "finish_poster env a intermediate =
     op_bind (op_check (unat (vta_threads a) < 2 ^ 31) (SandboxBail ''invalid libvips thread budget'')) (\<lambda>_.
     op_bind (op_attempt (image_thumbnail env (poster_job a intermediate))) (\<lambda>result.
     op_bind (discard_file env intermediate) (\<lambda>_.
     op_of_result result)))"

definition openh264_poster :: "('i, 'd) sandbox_env \<Rightarrow> VideoThumbnailArgs \<Rightarrow> unit sandbox_op" where
  "openh264_poster env a =
     op_bind (op_check (sx_native_vips env) (SandboxBail ''OpenH264 fallback requires the native-vips feature'')) (\<lambda>_.
     op_bind (op_check (fallback_output a \<noteq> vta_input a \<and> fallback_output a \<noteq> vta_output a) (SandboxBail ''OpenH264 fallback paths must differ'')) (\<lambda>_.
     op_bind (discard_file env (frame_output a)) (\<lambda>_.
     op_bind (op_attempt (extract_first_frame_ppm (sx_faults env) (sx_read_header env) (sx_h264 env) (vta_input a) (fallback_output a)
         default_fallback_limits)) (\<lambda>result.
     case result of
       Inl e \<Rightarrow> op_bind (discard_file env (fallback_output a)) (\<lambda>_. op_of_result (Err (SandboxMedia e)))
     | Inr _ \<Rightarrow> finish_poster env a (fallback_output a)))))"

text \<open>What follows FFmpeg's answer.\<close>

definition poster_after :: "('i, 'd) sandbox_env \<Rightarrow> VideoThumbnailArgs \<Rightarrow> (MediaError, unit) result \<Rightarrow> unit sandbox_op" where
  "poster_after env a ffmpeg_result =
     (case ffmpeg_result of
        Inl (Spawn tool e) \<Rightarrow>
          if vta_allow_openh264_fallback a then openh264_poster env a
          else op_of_result (Err (SandboxMedia (Spawn tool e)))
      | Inl e \<Rightarrow> op_of_result (Err (SandboxMedia e))
      | Inr _ \<Rightarrow> if vta_watermark a = None then op_return () else finish_poster env a (frame_output a))"

definition video_thumbnail :: "('i, 'd) sandbox_env \<Rightarrow> VideoThumbnailArgs \<Rightarrow> unit sandbox_op" where
  "video_thumbnail env a =
     (let total = seconds (unat (vta_timeout_seconds a)) in
      op_bind (op_check (\<not> (vta_watermark a \<noteq> None \<and> total < seconds 4))
        (SandboxBail ''watermarked video thumbnail timeout must be at least four seconds'')) (\<lambda>_.
      op_bind (op_check (frame_output a \<noteq> vta_input a) (SandboxBail ''video thumbnail input and intermediate output must differ'')) (\<lambda>_.
      op_bind (op_map_err SandboxMedia (op_of_result
          (FfmpegThumbnailer_new (vta_ffmpeg_bin a) (if vta_watermark a = None then total else total div 2) (vta_threads a)))) (\<lambda>thumbnailer.
      op_bind (op_attempt (extract_frame env thumbnailer
          \<lparr>vtr_input = vta_input a, vtr_output = frame_output a, vtr_timestamp_ms = vta_timestamp_ms a,
           vtr_duration_ms = vta_duration_ms a, vtr_max_width = vta_max_width a\<rparr>)) (\<lambda>result.
      poster_after env a result)))))"

section \<open>Self-checks\<close>

definition probe_native_tool :: "('i, 'd) sandbox_env \<Rightarrow> string \<Rightarrow> string list \<Rightarrow> (host_fs, MediaError, NativeToolReport) op" where
  "probe_native_tool env tool arguments =
     op_bind (run_child env tool arguments (seconds 5)) (\<lambda>outcome.
     op_of_result (probe_tool text_lines (sx_blank env) tool outcome))"

definition native_tool_report :: "('i, 'd) sandbox_env \<Rightarrow> (host_fs, MediaError, NativeToolReport list) op" where
  "native_tool_report env =
     op_bind (probe_native_tool env ''vips'' [''--version'']) (\<lambda>vips.
     op_bind (probe_native_tool env ''ffmpeg'' [''-version'']) (\<lambda>ffmpeg.
     op_bind (probe_native_tool env ''ffprobe'' [''-version'']) (\<lambda>ffprobe.
     op_return [vips, ffmpeg, ffprobe])))"

definition healthy_tools :: "('i, 'd) sandbox_env \<Rightarrow> NativeToolReport list sandbox_op" where
  "healthy_tools env =
     op_bind (op_map_err SandboxMedia (native_tool_report env)) (\<lambda>reports.
     op_bind (op_check (list_all ntr_healthy reports) (SandboxBail ''one or more native tools reported loader errors'')) (\<lambda>_.
     op_return reports))"

text \<open>\<open>EPERM\<close> is the answer of the filter to a network call.\<close>

definition EPERM :: nat where
  "EPERM = 1"

definition verify_network_is_denied :: "('i, 'd) sandbox_env \<Rightarrow> unit sandbox_op" where
  "verify_network_is_denied env =
     (if \<not> sx_linux env then op_return ()
      else (case sx_connect env of
          ConnectFailed number \<Rightarrow>
            op_check (number = Some EPERM) (SandboxBail ''sandbox network syscall was not denied with EPERM'')
        | Connected \<Rightarrow> op_of_result (Err (SandboxBail ''sandbox unexpectedly opened a network connection''))))"

definition sandbox_self_check :: "('i, 'd) sandbox_env \<Rightarrow> unit sandbox_op" where
  "sandbox_self_check env = op_bind (healthy_tools env) (\<lambda>_. verify_network_is_denied env)"

section \<open>Capabilities\<close>

text \<open>A temporary directory, removed with all it contains when the check is over.\<close>

definition under :: "string \<Rightarrow> string \<Rightarrow> bool" where
  "under directory path \<longleftrightarrow> path = directory \<or> starts_with (path_join directory []) path"

definition with_tempdir :: "('i, 'd) sandbox_env \<Rightarrow> string \<Rightarrow> (string \<Rightarrow> 'a sandbox_op) \<Rightarrow> 'a sandbox_op" where
  "with_tempdir env what k w =
     (case sx_tempdir env of
        None \<Rightarrow> (Err (SandboxIo what), w)
      | Some directory \<Rightarrow>
          (case k directory (w\<lparr>fs_nodes := AList.update directory DirNode (fs_nodes w)\<rparr>) of
             (r, w') \<Rightarrow> (r, w'\<lparr>fs_nodes := filter (\<lambda>(path, _). \<not> under directory path) (fs_nodes w')\<rparr>)))"

definition write_file :: "('i, 'd) sandbox_env \<Rightarrow> string \<Rightarrow> string \<Rightarrow> string \<Rightarrow> unit sandbox_op" where
  "write_file env what path content =
     io_partial (sx_faults env) (SandboxIo what) (\<lambda>k nodes. set_content path (take k content) nodes)
       (\<lambda>nodes. Some ((), set_content path content nodes))"

definition TINY_PPM :: string where
  "TINY_PPM = ''P6'' @ [newline] @ ''2 2'' @ [newline] @ ''255'' @ [newline] @
     bytes [255, 0, 0, 0, 255, 0, 0, 0, 255, 255, 255, 255]"

definition image_fixture_decodes :: "('i, 'd) sandbox_env \<Rightarrow> string \<Rightarrow> bool sandbox_op" where
  "image_fixture_decodes env path =
     op_bind (op_try (io (sx_faults env) () (file_length path))) (\<lambda>metadata.
     case metadata of
       None \<Rightarrow> op_return False
     | Some len \<Rightarrow>
         if len = 0 then op_return False
         else op_bind (op_try (detect_at env path Image)) (\<lambda>detected.
           if detected = None then op_return False
           else (\<lambda>w. (Ok (case engine_probe (sx_vips env) path (of_nat len) (fs_nodes w) of Inl _ \<Rightarrow> False | Inr _ \<Rightarrow> True), w))))"

definition native_copy :: "('i, 'd) sandbox_env \<Rightarrow> string \<Rightarrow> string \<Rightarrow> bool sandbox_op" where
  "native_copy env source target =
     op_bind (run_child env ''vips'' [''copy'', source, target] (seconds 5)) (\<lambda>outcome.
     op_return (case outcome of Exited out \<Rightarrow> po_success out | _ \<Rightarrow> False))"

fun encoded_formats :: "('i, 'd) sandbox_env \<Rightarrow> string \<Rightarrow> (string \<times> string \<times> ImageOutputFormat) list \<Rightarrow> (string list \<times> string list) sandbox_op" where
  "encoded_formats env directory [] = op_return ([], [])"
| "encoded_formats env directory ((name, ext, format) # formats) =
     (let target = path_join directory (''roundtrip.'' @ ext) in
      op_bind (op_try (engine_thumbnail (sx_vips env)
        \<lparr>itr_input = path_join directory ''source.ppm'', itr_output = target, itr_max_edge = 2, itr_format = format, itr_watermark = None\<rparr>)) (\<lambda>encoded.
      op_bind (if encoded = None then op_return False else image_fixture_decodes env target) (\<lambda>decodes.
      op_bind (encoded_formats env directory formats) (\<lambda>(inputs, outputs).
      op_return (if decodes then name # inputs else inputs, if encoded = None then outputs else name # outputs)))))"

fun decoded_formats :: "('i, 'd) sandbox_env \<Rightarrow> string \<Rightarrow> (string \<times> string) list \<Rightarrow> string list sandbox_op" where
  "decoded_formats env directory [] = op_return []"
| "decoded_formats env directory ((name, ext) # formats) =
     (let target = path_join directory (''decoder.'' @ ext) in
      op_bind (native_copy env (path_join directory ''source.ppm'') target) (\<lambda>copied.
      op_bind (if copied then image_fixture_decodes env target else op_return False) (\<lambda>decodes.
      op_bind (decoded_formats env directory formats) (\<lambda>inputs.
      op_return (if decodes then name # inputs else inputs)))))"

definition image_capabilities :: "('i, 'd) sandbox_env \<Rightarrow> (string list \<times> string list) sandbox_op" where
  "image_capabilities env =
     (if \<not> sx_native_vips env then op_return ([], [])
      else with_tempdir env ''failed to create capability fixture directory'' (\<lambda>directory.
        op_bind (write_file env ''failed to write image capability fixture'' (path_join directory ''source.ppm'') TINY_PPM) (\<lambda>_.
        op_bind (op_map_err SandboxMedia (op_of_result (VipsEngine_new (sx_vips env) 1))) (\<lambda>_.
        op_bind (encoded_formats env directory
          [(''jpeg'', ''jpg'', JpegOutput), (''png'', ''png'', PngOutput), (''webp'', ''webp'', WebpOutput), (''avif'', ''avif'', AvifOutput)])
          (\<lambda>(inputs, outputs).
        op_bind (decoded_formats env directory [(''gif'', ''gif''), (''heif'', ''heic'')]) (\<lambda>others.
        op_return (sort (inputs @ others), sort outputs)))))))"

definition verify_video_capability :: "('i, 'd) sandbox_env \<Rightarrow> string \<Rightarrow> string \<Rightarrow> unit sandbox_op" where
  "verify_video_capability env input poster =
     op_bind (io (sx_faults env) (SandboxIo ''failed to inspect capability fixture'') (file_length input)) (\<lambda>len.
     op_bind (op_map_err SandboxMedia (detect_at env input Video)) (\<lambda>format.
     op_bind (op_map_err SandboxMedia (inspect_video env input (seconds 5) \<lparr>vpr_byte_len = of_nat len, vpr_format = format\<rparr>)) (\<lambda>inspection.
     op_bind (op_map_err SandboxMedia (op_of_result (FfmpegThumbnailer_new ''ffmpeg'' (seconds 6) 1))) (\<lambda>thumbnailer.
     op_bind (op_map_err SandboxMedia (extract_frame env thumbnailer
        \<lparr>vtr_input = input, vtr_output = poster, vtr_timestamp_ms = 1,
         vtr_duration_ms = vp_duration_ms (vi_probe inspection), vtr_max_width = 64\<rparr>)) (\<lambda>_.
     op_bind (io (sx_faults env) (SandboxIo ''failed to inspect capability output'') (file_length poster)) (\<lambda>written.
     op_check (written \<noteq> 0) (SandboxBail ''capability fixture produced an empty poster'')))))))"

definition remux_arguments :: "string \<Rightarrow> string \<Rightarrow> string list" where
  "remux_arguments source target =
     [''-hide_banner'', ''-loglevel'', ''error'', ''-nostdin'', ''-i'', source, ''-map'', ''0:v:0'', ''-c:v'', ''copy'',
      ''-map_metadata'', ''-1'', ''-f'', ''mov'', ''-y'', target]"

definition video_capabilities :: "('i, 'd) sandbox_env \<Rightarrow> string list sandbox_op" where
  "video_capabilities env =
     with_tempdir env ''failed to create video capability directory'' (\<lambda>directory.
       case sx_fixture env of
         None \<Rightarrow> op_of_result (Err (SandboxBail ''embedded MP4 capability fixture is invalid''))
       | Some fixture \<Rightarrow>
           (let mp4 = path_join directory ''tiny-h264.mp4''; mov = path_join directory ''tiny-h264.mov'' in
            op_bind (write_file env ''failed to write MP4 capability fixture'' mp4 fixture) (\<lambda>_.
            op_bind (verify_video_capability env mp4 (path_join directory ''mp4-poster.jpg'')) (\<lambda>_.
            op_bind (run_child env ''ffmpeg'' (remux_arguments mp4 mov) (seconds 5)) (\<lambda>outcome.
            op_bind (op_check (case outcome of Exited out \<Rightarrow> po_success out | _ \<Rightarrow> False) (SandboxBail ''MOV capability fixture remux failed'')) (\<lambda>_.
            op_bind (verify_video_capability env mov (path_join directory ''mov-poster.jpg'')) (\<lambda>_.
            op_return [''mov'', ''mp4''])))))))"

definition runtime_capabilities :: "('i, 'd) sandbox_env \<Rightarrow> CapabilitiesResponse sandbox_op" where
  "runtime_capabilities env =
     op_bind (healthy_tools env) (\<lambda>reports.
     op_bind (image_capabilities env) (\<lambda>(image_inputs, image_outputs).
     op_bind (video_capabilities env) (\<lambda>video_inputs.
     op_return
       \<lparr>cr_image_inputs = image_inputs, cr_image_outputs = image_outputs, cr_video_inputs = video_inputs,
        cr_mp4_thumbnail = list_ex (\<lambda>format. format = ''mp4'') video_inputs, cr_mp4_h264_fallback = sx_native_vips env,
        cr_native_versions = map_of (map (\<lambda>report. (ntr_tool report, ntr_version report)) (rev reports))\<rparr>)))"

end
