(* ===== verification/Sandbox_Contracts.thy ===== *)
theory Sandbox_Contracts
  imports Sandbox Fallback_Contracts Setup_Contracts
begin

text \<open>
  What the sandbox guarantees its caller: a source it reports is within the policy, a poster leaves no
  intermediate file and no other trace, and the budget below which it renders no video at all.
\<close>

section \<open>Probing\<close>

lemma map_err_Ok [simp]: "op_map_err f m w = (Ok a, w') \<longleftrightarrow> m w = (Ok a, w')"
  by (auto simp: op_map_err_def split: prod.split sum.split)

lemma of_result_Ok [simp]: "op_of_result r w = (Ok a, w') \<longleftrightarrow> r = Ok a \<and> w' = w"
  by (auto simp: op_of_result_def)

lemma op_attempt_Ok [simp]: "op_attempt m w = (Ok r, w') \<longleftrightarrow> m w = (r, w')"
  by (auto simp: op_attempt_def split: prod.split)

lemma detect_file_Ok: "detect_file content declared = Ok format \<Longrightarrow> kind format = declared"
  by (cases content) (auto simp: detect_file_def and_then_eq_Inr split: if_splits)

lemma detect_at_Ok: "detect_at env path declared w = (Ok format, w') \<Longrightarrow> kind format = declared"
  by (auto simp: detect_at_def op_bind_Ok dest: detect_file_Ok)

lemma vips_probe_len: "vips_probe h len = Ok facts \<Longrightarrow> ip_byte_len facts = len"
  by (auto simp: vips_probe_def and_then_eq_Inr)

lemma inspection_from_raw:
  "video_inspection_from_raw request raw = Ok i \<Longrightarrow>
     vp_byte_len (vi_probe i) = vpr_byte_len request \<and> codec_allowed (vpr_format request) (vi_codec i)"
  by (auto simp: video_inspection_from_raw_def and_then_eq_Inr split: if_splits)

lemma inspect_Ok:
  "inspect from_json outcome request = Ok i \<Longrightarrow>
     vp_byte_len (vi_probe i) = vpr_byte_len request \<and> codec_allowed (vpr_format request) (vi_codec i)"
  by (auto simp: inspect_def split: if_splits ProcessOutcome.splits sum.splits dest: inspection_from_raw)

lemma inspect_video_Ok:
  "inspect_video env input limit request w = (Ok i, w') \<Longrightarrow>
     vp_byte_len (vi_probe i) = vpr_byte_len request \<and> codec_allowed (vpr_format request) (vi_codec i)"
  by (auto simp: inspect_video_def op_bind_Ok split: if_splits dest: inspect_Ok)


section \<open>What a poster changes\<close>

text \<open>Child processes that write no file but the last one they are given, as FFmpeg does.\<close>

definition children_write_their_output :: "('i, 'd) sandbox_env \<Rightarrow> bool" where
  "children_write_their_output env \<longleftrightarrow>
     (\<forall>program arguments limit nodes p. p \<noteq> last arguments \<longrightarrow>
        map_of (snd (sx_run env program arguments limit nodes)) p = map_of nodes p)"

definition confined :: "('i, 'd) sandbox_env \<Rightarrow> bool" where
  "confined env \<longleftrightarrow> children_write_their_output env \<and> encoders_write_only_their_output (sx_vips env)"

lemma touches_attempt: "touches_only view K m \<Longrightarrow> touches_only view K (op_attempt m)"
  unfolding touches_only_def op_attempt_def by (auto split: prod.splits)

lemma touches_discard: "touches_only entry {path} (discard_file env path)"
  unfolding discard_file_def by (intro touches_only_bind touches_try touches_writes) simp_all

lemma touches_run_child:
  assumes "confined env"
  shows "touches_only entry {last arguments} (run_child env program arguments limit)"
proof -
  have "map_of (snd (sx_run env program arguments limit nodes)) p = map_of nodes p" if "p \<noteq> last arguments" for nodes p
    using assms that by (simp add: confined_def children_write_their_output_def)
  then show ?thesis unfolding touches_only_def run_child_def entry_def by (auto split: prod.splits) (metis snd_conv)
qed

lemma touches_file_length [simp]: "touches_only entry K (io faults message (file_length path))"
  by (rule touches_io) (auto simp: file_length_def split: option.splits node.splits)

lemma last_ffmpeg_argument: "last (ffmpeg_arguments show seek self request t mode) = vtr_output request"
  by (simp add: ffmpeg_arguments_def Let_def)

lemma touches_extract_attempt:
  assumes "confined env"
  shows "touches_only entry {vtr_output request} (extract_attempt env self request t mode limit)"
  unfolding extract_attempt_def
  using touches_run_child[OF assms, of "ffmpeg_arguments (\<lambda>n. show_nat (unat n)) (sx_seek_text env) self request t mode"]
  by (intro touches_only_bind) (auto simp: last_ffmpeg_argument intro!: touches_only_bind touches_attempt touches_of_result)

lemma touches_extract_frame:
  assumes "confined env"
  shows "touches_only entry {vtr_output request} (extract_frame env self request)"
proof -
  note attempt = touches_onlyD[OF touches_extract_attempt[OF assms]]
  have removed: "entry (snd (io (sx_faults env) () (remove_file (vtr_output request)) w)) p = entry w p" if "p \<noteq> vtr_output request" for w p
    using touches_onlyD[OF touches_writes(4)[of "vtr_output request" "{vtr_output request}"], of _ "()" w] that
    by (cases "io (sx_faults env) () (remove_file (vtr_output request)) w") auto
  show ?thesis
    unfolding touches_only_def extract_frame_def extract_thumbnail_def Let_def
    using attempt removed by (auto split: prod.splits sum.splits if_splits)
qed

lemma touches_map_err: "touches_only view K m \<Longrightarrow> touches_only view K (op_map_err f m)"
  unfolding touches_only_def op_map_err_def by (auto split: prod.splits sum.splits)

lemma touches_image_thumbnail:
  assumes "confined env"
  shows "touches_only entry {itj_output job} (image_thumbnail env job)"
proof (cases "sx_native_vips env")
  case True
  have "encoders_write_only_their_output (sx_vips env)" using assms by (simp add: confined_def)
  then have "touches_only entry {itj_output job} (engine_thumbnail (sx_vips env) request)" if "itr_output request = itj_output job" for request
    using touches_engine_thumbnail that by metis
  then show ?thesis using True unfolding image_thumbnail_def
    by (auto intro!: touches_map_err touches_only_bind)
qed (simp add: image_thumbnail_def)

lemma touches_finish_poster:
  assumes "confined env"
  shows "touches_only entry {vta_output a, intermediate} (finish_poster env a intermediate)"
proof -
  have "touches_only entry {vta_output a, intermediate} (image_thumbnail env (poster_job a intermediate))"
    using touches_image_thumbnail[OF assms, of "poster_job a intermediate"] by (auto simp: poster_job_def intro: touches_only_mono)
  moreover have "touches_only entry {vta_output a, intermediate} (discard_file env intermediate)"
    by (rule touches_only_mono[OF touches_discard]) simp
  ultimately show ?thesis unfolding finish_poster_def by (intro touches_only_bind touches_attempt) simp_all
qed

text \<open>The paths a poster may change.\<close>

definition poster_paths :: "VideoThumbnailArgs \<Rightarrow> string set" where
  "poster_paths a = {vta_output a, frame_output a, fallback_output a}"

lemma touches_write_frame: "touches_only entry {path} (write_frame faults limits path found)"
  using write_frame_changes(1) unfolding touches_only_def by blast

lemma touches_extract_first: "touches_only entry {path} (extract_first_frame_ppm faults read_header h264 input path limits)"
  unfolding extract_first_frame_ppm_def
proof (intro touches_only_bind)
  show "touches_only entry {path} (io faults (MediaInput ''open'') (open_input input))"
    by (rule touches_io) (auto simp: open_input_def split: option.splits node.splits)
qed (auto split: option.splits intro!: touches_only_bind touches_write_frame)

lemma touches_openh264:
  assumes "confined env"
  shows "touches_only entry (poster_paths a) (openh264_poster env a)"
proof -
  have paths: "{frame_output a} \<subseteq> poster_paths a" "{fallback_output a} \<subseteq> poster_paths a" "{vta_output a, fallback_output a} \<subseteq> poster_paths a"
    by (auto simp: poster_paths_def)
  note steps = touches_only_mono[OF touches_discard paths(1)] touches_only_mono[OF touches_discard paths(2)]
    touches_only_mono[OF touches_extract_first paths(2)] touches_only_mono[OF touches_finish_poster[OF assms] paths(3)]
  show ?thesis unfolding openh264_poster_def
    by (intro touches_only_bind touches_attempt steps) (auto split: sum.split intro!: touches_only_bind steps)
qed

lemma touches_video_thumbnail:
  assumes "confined env"
  shows "touches_only entry (poster_paths a) (video_thumbnail env a)"
proof -
  have paths: "{frame_output a} \<subseteq> poster_paths a" "{vta_output a, frame_output a} \<subseteq> poster_paths a" by (auto simp: poster_paths_def)
  have extraction: "touches_only entry (poster_paths a) (extract_frame env self request)" if "vtr_output request = frame_output a" for self request
    using touches_only_mono[OF touches_extract_frame[OF assms, of request] ] paths(1) that by metis
  note steps = touches_only_mono[OF touches_finish_poster[OF assms] paths(2)] touches_openh264[OF assms]
  show ?thesis unfolding video_thumbnail_def poster_after_def Let_def
    by (intro touches_only_bind touches_attempt touches_map_err extraction)
      (auto split: sum.split MediaError.split intro: steps)
qed

section \<open>What it leaves\<close>

definition no_file :: "string \<Rightarrow> host_fs \<Rightarrow> bool" where
  "no_file path w \<longleftrightarrow> (\<forall>c m. entry w path \<noteq> Some (FileNode c m))"

lemma discard_succeeds:
  assumes "\<forall>n. sx_faults env n = None" "discard_file env path w = (r, w')"
  shows "no_file path w'"
proof -
  have "w' = snd (io (sx_faults env) () (remove_file path) w)"
    using assms(2) by (auto simp: discard_file_def op_bind_def op_try_def op_return_def split: prod.splits sum.splits)
  then show ?thesis
    using assms(1) by (auto simp: no_file_def io_def io_partial_def Let_def remove_file_def entry_def delete_conv' split: option.splits node.splits)
qed

lemma finish_poster_Ok:
  assumes "finish_poster env a intermediate w = (Ok u, w')" "\<forall>n. sx_faults env n = None"
  shows "no_file intermediate w'"
  using assms(1) discard_succeeds[OF assms(2)] by (auto simp: finish_poster_def op_bind_Ok)

lemma failed_case_Ok:
  "(case r of Inl e \<Rightarrow> op_bind m (\<lambda>_. op_of_result (Err (f e))) | Inr b \<Rightarrow> k b) w = (Ok u, w') \<Longrightarrow> \<exists>b. r = Ok b \<and> k b w = (Ok u, w')"
  by (cases r) (auto simp: op_bind_Ok)

lemma openh264_Ok:
  assumes "openh264_poster env a w = (Ok u, w')" "confined env" "\<forall>n. sx_faults env n = None"
  shows "no_file (fallback_output a) w' \<and> (frame_output a \<noteq> vta_output a \<longrightarrow> no_file (frame_output a) w')"
proof -
  obtain w1 u1 w2 f where steps: "(discard_file env (frame_output a) :: unit sandbox_op) w = (Ok u1, w1)"
    "extract_first_frame_ppm (sx_faults env) (sx_read_header env) (sx_h264 env) (vta_input a) (fallback_output a) default_fallback_limits w1 = (f, w2)"
    "finish_poster env a (fallback_output a) w2 = (Ok u, w')"
    using assms(1) by (auto simp: openh264_poster_def op_bind_Ok dest!: failed_case_Ok)
  have removed: "no_file (fallback_output a) w'" using finish_poster_Ok[OF steps(3) assms(3)] .
  have "no_file (frame_output a) w'" if other: "frame_output a \<noteq> vta_output a" "frame_output a \<noteq> fallback_output a"
  proof -
    have "entry w2 (frame_output a) = entry w1 (frame_output a)" using touches_onlyD[OF touches_extract_first steps(2)] other(2) by simp
    moreover have "entry w' (frame_output a) = entry w2 (frame_output a)"
      using touches_onlyD[OF touches_finish_poster[OF assms(2)] steps(3)] other by simp
    ultimately show ?thesis using discard_succeeds[OF assms(3) steps(1)] by (simp add: no_file_def)
  qed
  then show ?thesis using removed by metis
qed

text \<open>
  C38. Where child processes and encoders write only their output, the poster of a video changes no file but
  its output and the two intermediate files, whatever happens; and where I/O does not fail, a success leaves
  no intermediate file that was not there before, whichever way the poster was made.
\<close>

theorem poster_leaves_no_intermediate:
  assumes "video_thumbnail env a w = (r, w')" "confined env"
  shows "(\<forall>p. p \<notin> poster_paths a \<longrightarrow> entry w' p = entry w p) \<and>
    (r = Ok () \<and> (\<forall>n. sx_faults env n = None) \<longrightarrow>
       (\<forall>p\<in>{frame_output a, fallback_output a} - {vta_output a}. no_file p w' \<or> entry w' p = entry w p))"
proof (intro conjI impI)
  show "\<forall>p. p \<notin> poster_paths a \<longrightarrow> entry w' p = entry w p"
    using touches_onlyD[OF touches_video_thumbnail[OF assms(2)] assms(1)] by blast
  assume ok: "r = Ok () \<and> (\<forall>n. sx_faults env n = None)"
  obtain thumbnailer request result w1 where extraction: "extract_frame env thumbnailer request w = (result, w1)"
    and request: "vtr_output request = frame_output a"
    and rest: "poster_after env a result w1 = (Ok (), w')"
  proof -
    have "video_thumbnail env a w = (Ok (), w')" using assms(1) ok by simp
    then obtain thumbnailer result w1 where "extract_frame env thumbnailer
          \<lparr>vtr_input = vta_input a, vtr_output = frame_output a, vtr_timestamp_ms = vta_timestamp_ms a,
           vtr_duration_ms = vta_duration_ms a, vtr_max_width = vta_max_width a\<rparr> w = (result, w1)"
      "poster_after env a result w1 = (Ok (), w')"
      unfolding video_thumbnail_def Let_def op_bind_Ok by auto
    from that[OF this(1) _ this(2)] show thesis by simp
  qed
  have kept: "entry w1 p = entry w p" if "p \<noteq> frame_output a" for p
    using touches_onlyD[OF touches_extract_frame[OF assms(2)] extraction] that request by simp
  consider (frame) "vta_watermark a = None" "w' = w1" | (watermark) "vta_watermark a \<noteq> None" "finish_poster env a (frame_output a) w1 = (Ok (), w')"
    | (fallback) "openh264_poster env a w1 = (Ok (), w')"
    using rest by (cases result) (auto split: MediaError.splits if_splits simp: poster_after_def)
  then show "\<forall>p\<in>{frame_output a, fallback_output a} - {vta_output a}. no_file p w' \<or> entry w' p = entry w p"
  proof cases
    case frame
    then show ?thesis using kept by (auto simp: frame_output_def)
  next
    case watermark
    have "no_file (frame_output a) w'" using finish_poster_Ok[OF watermark(2)] ok by blast
    moreover have "entry w' p = entry w p" if "p \<noteq> frame_output a" "p \<noteq> vta_output a" for p
      using touches_onlyD[OF touches_finish_poster[OF assms(2)] watermark(2)] kept[of p] that by simp
    ultimately show ?thesis by (metis DiffE empty_iff insert_iff)
  next
    case fallback
    then show ?thesis using openh264_Ok[OF fallback assms(2)] ok by auto
  qed
qed

section \<open>The budget of a video\<close>

lemma short_budget_refuses:
  assumes "unat (vta_timeout_seconds a) < 2"
  shows "\<exists>e. video_thumbnail env a w = (Err e, w)"
proof -
  have "unat (vta_timeout_seconds a) = 0 \<or> unat (vta_timeout_seconds a) = 1" using assms by linarith
  then show ?thesis
    by (auto simp: video_thumbnail_def Let_def op_bind_def op_check_def op_map_err_def op_of_result_def FfmpegThumbnailer_new_def seconds_def)
qed

text \<open>
  C40. A video budget of one second passes the validation of the worker's settings and, without a watermark, of
  the watermark's; the worker hands it to the sandbox as it is, and the sandbox then refuses every poster
  before it starts FFmpeg.
\<close>

theorem one_second_budget_renders_no_video:
  assumes "worker_settings_ok u s" "psb_video_timeout self = seconds 1" "vta_timeout_seconds a = 1"
  shows "worker_settings_ok u (s\<lparr>wks_video_timeout_seconds := 1\<rparr>) \<and>
    (\<exists>before after. video_arguments self source target format inspection watermark = before @ [''--timeout-seconds'', ''1''] @ after) \<and>
    (\<exists>e. video_thumbnail env a w = (Err e, w))"
proof (intro conjI)
  show "worker_settings_ok u (s\<lparr>wks_video_timeout_seconds := 1\<rparr>)" using assms(1) by (simp add: worker_settings_ok_def)
  have "show_nat (max (as_secs (psb_video_timeout self)) 1) = ''1''"
    using assms(2) by (simp add: as_secs_def seconds_def) (simp add: show_nat.simps digit_char_def char_of_eq_iff)
  then show "\<exists>before after. video_arguments self source target format inspection watermark = before @ [''--timeout-seconds'', ''1''] @ after"
    unfolding video_arguments_def by (intro exI[of _ "take 11 (video_arguments self source target format inspection watermark)"] exI) (simp add: video_arguments_def)
  show "\<exists>e. video_thumbnail env a w = (Err e, w)" using assms(3) by (intro short_budget_refuses) simp
qed

section \<open>Capabilities\<close>

lemma with_tempdir_Ok: "with_tempdir env what k w = (Ok a, w') \<Longrightarrow> \<exists>directory w0 w1. sx_tempdir env = Some directory \<and> k directory w0 = (Ok a, w1)"
  by (auto simp: with_tempdir_def split: option.splits prod.splits)

lemma video_capabilities_Ok: "video_capabilities env w = (Ok formats, w') \<Longrightarrow> formats = [''mov'', ''mp4'']"
  unfolding video_capabilities_def
  by (drule with_tempdir_Ok) (auto simp: op_bind_Ok Let_def split: option.splits)

lemma probe_tool_Ok: "probe_tool lines blank tool outcome = Ok report \<Longrightarrow> ntr_tool report = tool"
  by (cases outcome) (auto simp: probe_tool_def split: if_splits)

lemma probe_native_tool_Ok: "probe_native_tool env tool arguments w = (Ok report, w') \<Longrightarrow> ntr_tool report = tool"
  by (auto simp: probe_native_tool_def op_bind_Ok dest: probe_tool_Ok)

lemma healthy_tools_Ok:
  "healthy_tools env w = (Ok reports, w') \<Longrightarrow> map ntr_tool reports = [''vips'', ''ffmpeg'', ''ffprobe'']"
  by (auto simp: healthy_tools_def native_tool_report_def op_bind_Ok dest!: probe_native_tool_Ok)

text \<open>What the sandbox reports satisfies the service's requirement but for the image fixtures and empty versions.\<close>

lemma reported_capabilities:
  assumes "runtime_capabilities env w = (Ok c, w')"
  shows "cr_video_inputs c = [''mov'', ''mp4''] \<and> cr_mp4_thumbnail c \<and> (cr_mp4_h264_fallback c \<longleftrightarrow> sx_native_vips env) \<and>
    (\<forall>tool\<in>{''vips'', ''ffmpeg'', ''ffprobe''}. cr_native_versions c tool \<noteq> None)"
proof -
  obtain reports w1 image_inputs image_outputs w2 video_inputs where steps: "healthy_tools env w = (Ok reports, w1)"
    "video_capabilities env w2 = (Ok video_inputs, w')"
    "c = \<lparr>cr_image_inputs = image_inputs, cr_image_outputs = image_outputs, cr_video_inputs = video_inputs,
        cr_mp4_thumbnail = list_ex (\<lambda>format. format = ''mp4'') video_inputs, cr_mp4_h264_fallback = sx_native_vips env,
        cr_native_versions = map_of (map (\<lambda>report. (ntr_tool report, ntr_version report)) (rev reports))\<rparr>"
    using assms by (auto simp: runtime_capabilities_def op_bind_Ok)
  have "video_inputs = [''mov'', ''mp4'']" by (rule video_capabilities_Ok[OF steps(2)])
  moreover have "map_of (map (\<lambda>report. (ntr_tool report, ntr_version report)) (rev reports)) tool \<noteq> None"
    if "tool \<in> {''vips'', ''ffmpeg'', ''ffprobe''}" for tool
  proof -
    have "tool \<in> ntr_tool ` set reports" using healthy_tools_Ok[OF steps(1)] that by (metis list.set_map list.simps(15) set_empty2)
    then show ?thesis by (simp add: map_of_eq_None_iff image_image)
  qed
  ultimately show ?thesis unfolding steps(3) by simp
qed

section \<open>A run of each\<close>

text \<open>A host where FFmpeg cannot start, and a library that keeps nothing of an image but its two by two pixels.\<close>

definition sample_vips :: "unit vips" where
  "sample_vips =
     \<lparr>vx_load = (\<lambda>path nodes. Some ()), vx_header = (\<lambda>_. \<lparr>vh_width = 2, vh_height = 2, vh_page_height = 0, vh_pages = 1\<rparr>),
      vx_bands = (\<lambda>_. 3), vx_thumbnail = (\<lambda>path width nodes. Some ()), vx_resize = (\<lambda>_ _. Some ()), vx_srgb = Some,
      vx_addalpha = Some, vx_multiply_alpha = (\<lambda>_ _. Some ()), vx_composite = (\<lambda>_ _ _ _. Some ()), vx_flatten_white = Some,
      vx_save_jpeg = (\<lambda>_ path nodes. (True, AList.update path (FileNode ''jpeg'' 420) nodes)),
      vx_save_png = (\<lambda>_ path nodes. (True, AList.update path (FileNode ''png'' 420) nodes)),
      vx_write = (\<lambda>_ name nodes. (False, nodes)), vx_init = True, vx_version = Some ''8.15''\<rparr>"

definition sample_sandbox_env :: "(unit, unit) sandbox_env" where
  "sample_sandbox_env =
     \<lparr>sx_faults = (\<lambda>_. None), sx_run = (\<lambda>program arguments limit nodes. (NotStarted ''not found'', nodes)), sx_native_vips = True,
      sx_vips = sample_vips, sx_debug_log = False, sx_read_header = (\<lambda>_. Some sample_mp4), sx_h264 = sample_h264,
      sx_from_json = (\<lambda>_. Err ''json''), sx_seek_text = (\<lambda>_. ''0.000''), sx_tempdir = None, sx_fixture = None,
      sx_blank = (\<lambda>l. l = []), sx_linux = True, sx_connect = ConnectFailed (Some 1)\<rparr>"

lemma sample_confined: "confined sample_sandbox_env"
  by (simp add: confined_def children_write_their_output_def encoders_write_only_their_output_def sample_sandbox_env_def sample_vips_def
      update_conv')

definition sample_poster_args :: VideoThumbnailArgs where
  "sample_poster_args =
     \<lparr>vta_input = ''/in.mp4'', vta_output = ''/out.jpg'', vta_timestamp_ms = 0, vta_duration_ms = 1000, vta_max_width = 1280,
      vta_timeout_seconds = 4, vta_threads = 1, vta_ffmpeg_bin = ''ffmpeg'', vta_allow_openh264_fallback = True,
      vta_watermark = None, vta_watermark_position = BottomRight, vta_watermark_margin_px = 24,
      vta_watermark_max_width_percent = 20, vta_watermark_opacity_percent = 80\<rparr>"

lemma sample_outputs:
  "frame_output sample_poster_args = ''/out.jpg''" "fallback_output sample_poster_args = ''/out.fallback.ppm''"
  by (simp_all add: frame_output_def fallback_output_def sample_poster_args_def with_extension_def path_file_name_def
      file_stem_def Let_def)

lemma sample_not_started:
  assumes "entry w target = None"
  shows "\<exists>w'. extract_frame sample_sandbox_env self
       \<lparr>vtr_input = input, vtr_output = target, vtr_timestamp_ms = 0, vtr_duration_ms = 1000, vtr_max_width = 1280\<rparr> w =
     (Err (Spawn ''ffmpeg'' ''not found''), w') \<and> entry w' = entry w"
  using assms
  by (simp add: extract_frame_def extract_thumbnail_def extract_attempt_def run_child_def op_bind_def attempt_result_def
      op_of_result_def sample_sandbox_env_def io_def io_partial_def remove_file_def entry_def Let_def)

lemma discard_absent:
  assumes "entry w path = None"
  shows "\<exists>w'. (discard_file sample_sandbox_env path :: unit sandbox_op) w = (Ok (), w') \<and> entry w' = entry w"
  using assms
  by (simp add: discard_file_def op_bind_def op_try_def op_return_def io_def io_partial_def remove_file_def entry_def
      sample_sandbox_env_def Let_def)

lemma discard_returns: "\<exists>w'. (discard_file env path :: unit sandbox_op) w = (Ok (), w')"
  by (cases "io (sx_faults env) () (remove_file path) w") (auto simp: discard_file_def op_bind_def op_try_def op_return_def split: sum.split)

lemma sample_rendered:
  assumes "utf8_valid (itr_input request)" "utf8_valid (itr_output request)" "itr_max_edge request = 1280"
    "itr_format request = JpegOutput" "itr_watermark request = None"
  shows "\<exists>w'. engine_thumbnail sample_vips request w = (Ok (), w')"
proof -
  have "thumbnail_target_width 1280 \<lparr>vh_width = 2, vh_height = 2, vh_page_height = 0, vh_pages = 1\<rparr> = Ok 2"
    by (simp add: thumbnail_target_width_def frame_height_def)
  then have "render_thumbnail sample_vips request (fs_nodes w) = Ok ()"
    using assms by (simp add: render_thumbnail_def utf8_path_def vips_of_def sample_vips_def Let_def)
  then show ?thesis using assms(4) by (simp add: engine_thumbnail_def encode_image_def sample_vips_def)
qed

lemma sample_poster_paths: "utf8_valid ''/out.fallback.ppm''" "utf8_valid ''/out.jpg''"
proof -
  have "list_all (\<lambda>c. byte_of c < 128) ''/out.fallback.ppm''" "list_all (\<lambda>c. byte_of c < 128) ''/out.jpg''" by (simp_all add: byte_of_def)
  then show "utf8_valid ''/out.fallback.ppm''" "utf8_valid ''/out.jpg''" by (auto simp only: list_all_iff intro!: utf8_valid_ascii)
qed

lemma sample_image: "\<exists>w'. image_thumbnail sample_sandbox_env (poster_job sample_poster_args ''/out.fallback.ppm'') w = (Ok (), w')"
proof -
  have env: "sx_native_vips sample_sandbox_env" "\<not> sx_debug_log sample_sandbox_env" "sx_vips sample_sandbox_env = sample_vips"
    by (simp_all add: sample_sandbox_env_def)
  have new: "VipsEngine_new sample_vips 1 = Ok ()" by (simp add: VipsEngine_new_def sample_vips_def)
  obtain w' where "engine_thumbnail sample_vips
      \<lparr>itr_input = ''/out.fallback.ppm'', itr_output = ''/out.jpg'', itr_max_edge = 1280, itr_format = JpegOutput, itr_watermark = None\<rparr> w = (Ok (), w')"
    using sample_rendered sample_poster_paths by (metis ImageThumbnailRequest.select_convs)
  then show ?thesis
    by (simp add: image_thumbnail_def env poster_job_def sample_poster_args_def new op_map_err_def op_bind_def op_check_def op_of_result_def)
qed

lemma sample_poster: "\<exists>w'. video_thumbnail sample_sandbox_env sample_poster_args video_fs = (Ok (), w')"
proof -
  let ?env = sample_sandbox_env and ?a = sample_poster_args
  obtain w1 where w1: "extract_frame ?env \<lparr>ft_binary = ''ffmpeg'', ft_timeout = seconds 4, ft_threads = 1\<rparr>
       \<lparr>vtr_input = ''/in.mp4'', vtr_output = ''/out.jpg'', vtr_timestamp_ms = 0, vtr_duration_ms = 1000, vtr_max_width = 1280\<rparr> video_fs =
     (Err (Spawn ''ffmpeg'' ''not found''), w1)" "entry w1 = entry video_fs"
    using sample_not_started[OF video_fs(2)[of "''/out.jpg''"]] by auto
  obtain w2 where w2: "(discard_file ?env ''/out.jpg'' :: unit sandbox_op) w1 = (Ok (), w2)" "entry w2 = entry video_fs"
    using discard_absent[of w1 "''/out.jpg''"] w1(2) video_fs(2)[of "''/out.jpg''"] by auto
  obtain f w3 where w3: "extract_first_frame_ppm (\<lambda>_. None) (\<lambda>_. Some sample_mp4) sample_h264 ''/in.mp4'' ''/out.fallback.ppm'' default_fallback_limits w2 = (Ok f, w3)"
    using sample_poster_written[of w2 420 "''/out.fallback.ppm''"] video_fs(1) video_fs(2)[of "''/out.fallback.ppm''"] w2(2) by auto
  obtain w4 where w4: "image_thumbnail ?env (poster_job ?a ''/out.fallback.ppm'') w3 = (Ok (), w4)" using sample_image by blast
  obtain w5 where w5: "(discard_file ?env ''/out.fallback.ppm'' :: unit sandbox_op) w4 = (Ok (), w5)" using discard_returns by blast
  have env: "sx_faults ?env = (\<lambda>_. None)" "sx_read_header ?env = (\<lambda>_. Some sample_mp4)" "sx_h264 ?env = sample_h264" "sx_native_vips ?env"
    by (simp_all add: sample_sandbox_env_def)
  have args: "vta_input ?a = ''/in.mp4''" "vta_output ?a = ''/out.jpg''" "unat (vta_timeout_seconds ?a) = 4" "vta_threads ?a = 1" "vta_watermark ?a = None"
    "vta_allow_openh264_fallback ?a" "vta_timestamp_ms ?a = 0" "vta_duration_ms ?a = 1000" "vta_max_width ?a = 1280" "vta_ffmpeg_bin ?a = ''ffmpeg''"
    by (simp_all add: sample_poster_args_def)
  have finish: "finish_poster ?env ?a ''/out.fallback.ppm'' w3 = (Ok (), w5)"
    by (simp add: finish_poster_def args op_bind_def op_check_def op_attempt_def op_of_result_def w4 w5)
  have "openh264_poster ?env ?a w1 = (Ok (), w5)"
    by (simp add: openh264_poster_def sample_outputs args env op_bind_def op_check_def op_attempt_def w2(1) w3 finish)
  then have after: "poster_after ?env ?a (Err (Spawn ''ffmpeg'' ''not found'')) w1 = (Ok (), w5)" by (simp add: poster_after_def args)
  have new: "FfmpegThumbnailer_new ''ffmpeg'' (seconds 4) 1 = Ok \<lparr>ft_binary = ''ffmpeg'', ft_timeout = seconds 4, ft_threads = 1\<rparr>"
    by (simp add: FfmpegThumbnailer_new_def seconds_def)
  have "video_thumbnail ?env ?a video_fs = (Ok (), w5)"
    unfolding video_thumbnail_def Let_def
    by (simp add: sample_outputs args op_bind_def op_check_def op_map_err_def op_of_result_def op_attempt_def new w1(1) after)
  then show ?thesis by blast
qed

theorem poster_leaves_no_intermediate_witness:
  "\<exists>w'. video_thumbnail sample_sandbox_env sample_poster_args video_fs = (Ok (), w') \<and>
     entry w' ''/in.mp4'' = Some (FileNode ''v'' 420) \<and> no_file ''/out.fallback.ppm'' w'"
proof -
  obtain w' where w': "video_thumbnail sample_sandbox_env sample_poster_args video_fs = (Ok (), w')" using sample_poster by blast
  have faults: "\<forall>n. sx_faults sample_sandbox_env n = None" by (simp add: sample_sandbox_env_def)
  have outputs: "vta_output sample_poster_args = ''/out.jpg''" "''/in.mp4'' \<notin> poster_paths sample_poster_args"
    using sample_outputs by (simp_all add: poster_paths_def) (simp_all add: sample_poster_args_def)
  note spared = poster_leaves_no_intermediate[OF w' sample_confined]
  have "no_file ''/out.fallback.ppm'' w' \<or> entry w' ''/out.fallback.ppm'' = entry video_fs ''/out.fallback.ppm''"
    using spared faults outputs(1) sample_outputs by simp
  then have "no_file ''/out.fallback.ppm'' w'" using video_fs(2)[of "''/out.fallback.ppm''"] by (auto simp: no_file_def)
  moreover have "entry w' ''/in.mp4'' = entry video_fs ''/in.mp4''" using spared outputs(2) by blast
  ultimately show ?thesis using w' video_fs(1) by simp
qed

definition photo_fs :: host_fs where
  "photo_fs = \<lparr>fs_nodes = [(''/in.jpg'', FileNode (bytes [255, 216, 255, 224]) 420)], fs_ops = 0\<rparr>"

definition photo_facts :: ImageProbe where
  "photo_facts = \<lparr>ip_byte_len = 100, ip_width = 2, ip_height = 2, ip_frames = 1\<rparr>"

lemma photo_accepted: "validate_image (image_limits_for_format Jpeg) photo_facts = Ok ()"
  by (simp add: validate_image_def image_limits_for_format_def default_image_limits_def photo_facts_def image_pixels_def widening_mul_def
      checked_mul_def)

lemma photo_probed:
  "\<exists>w'. probe sample_sandbox_env ''/in.jpg'' Image 100 (seconds 15) 1 photo_fs = (Ok (ImageInspected Jpeg ''image/jpeg'' photo_facts), w')"
proof -
  have "list_all (\<lambda>c. byte_of c < 128) ''/in.jpg''" by (simp add: byte_of_def)
  then have path: "utf8_valid ''/in.jpg''" by (auto simp only: list_all_iff intro!: utf8_valid_ascii)
  have jpeg: "detect_file (Ok (bytes [255, 216, 255, 224])) Image = Ok Jpeg"
    by (simp add: detect_file_def detect_media_format_def starts_with_def bytes_def signature_prefix_bytes_def)
  have facts: "vips_probe \<lparr>vh_width = 2, vh_height = 2, vh_page_height = 0, vh_pages = 1\<rparr> 100 = Ok photo_facts"
    by (simp add: vips_probe_def int_u32_def frame_height_def photo_facts_def)
  have "sx_faults sample_sandbox_env = (\<lambda>_. None)" "sx_native_vips sample_sandbox_env" "sx_vips sample_sandbox_env = sample_vips"
    by (simp_all add: sample_sandbox_env_def)
  note env = this
  have detected: "\<exists>w'. detect_at sample_sandbox_env ''/in.jpg'' Image photo_fs = (Ok Jpeg, w')"
  proof -
    have "io (\<lambda>_. None) ''open'' (read_content ''/in.jpg'') photo_fs = (Ok (bytes [255, 216, 255, 224]), photo_fs\<lparr>fs_ops := 1\<rparr>)"
      by (simp add: photo_fs_def io_def io_partial_def read_content_def)
    then show ?thesis by (simp add: detect_at_def op_bind_def op_attempt_def op_of_result_def env jpeg)
  qed
  have "utf8_path ''/in.jpg'' = Ok ()" by (simp only: utf8_path_def path if_True)
  moreover have "vips_of ''probe'' (vx_load sample_vips ''/in.jpg'' nodes) = Ok ()" "vips_probe (vx_header sample_vips ()) 100 = Ok photo_facts" for nodes
    using facts by (simp_all add: vips_of_def sample_vips_def)
  ultimately have engine: "VipsEngine_new sample_vips 1 = Ok ()" "\<And>nodes. engine_probe sample_vips ''/in.jpg'' 100 nodes = Ok photo_facts"
    by (simp_all only: engine_probe_def and_then_simps) (simp add: VipsEngine_new_def sample_vips_def)
  have image: "probe_image sample_sandbox_env ''/in.jpg'' 100 Jpeg 1 w = (Ok (ImageInspected Jpeg ''image/jpeg'' photo_facts), w)" for w
    by (simp add: probe_image_def env engine op_bind_def op_map_err_def op_of_result_def op_return_def photo_accepted)
  show ?thesis
    using detected by (auto simp: probe_def op_bind_def op_check_def op_map_err_def seconds_def image)
qed


definition short_budget_worker :: ProcessSandboxProbe where
  "short_budget_worker =
     \<lparr>psb_binary = ''sandbox'', psb_image_timeout = seconds 30, psb_video_timeout = seconds 1, psb_native_threads = 1, psb_max_output_bytes = 4096\<rparr>"

theorem one_second_budget_renders_no_video_witness:
  "worker_settings_ok default_upload_settings (default_worker_settings\<lparr>wks_video_timeout_seconds := 1\<rparr>) \<and>
     (\<exists>e. video_thumbnail sample_sandbox_env (sample_poster_args\<lparr>vta_timeout_seconds := 1\<rparr>) video_fs = (Err e, video_fs))"
proof -
  have "worker_settings_ok default_upload_settings default_worker_settings"
    by (simp add: worker_settings_ok_def default_settings_defs minimum_temp_disk_bytes_def within_def
        saturating_add_def saturating_mul_def checked_add_def checked_mul_def)
  moreover have "psb_video_timeout short_budget_worker = seconds 1" by (simp add: short_budget_worker_def)
  moreover have "vta_timeout_seconds (sample_poster_args\<lparr>vta_timeout_seconds := 1\<rparr>) = 1" by simp
  ultimately show ?thesis using one_second_budget_renders_no_video by blast
qed

end
