(* ===== verification/Spec2Isabelle.thy ===== *)
theory Spec2Isabelle
  imports Prelude Domain Database Integrity Leases Samples Job_Queue Nonce_Store Ports
    Upload_Repository Uploads Lifecycle_Repository Lifecycle Processing_Repository Site_Policy
    Inventory Observability Store Journey Races Text Media
    Auth Net Delivery Admission Public_Delivery Contracts Api Tenancy Replay
    Sandbox_Probe Worker Worker_Runs Worker_Publication
    Config Effects Object_Store_S3 Storage_Admin S3_Contracts Startup Backup Backup_Contracts
    Host_Files Setup Setup_Contracts Installer Installation Installer_Contracts Installer_Runs
    Installer_Samples Vips Fallback_Decoder Fallback_Contracts Sandbox Sandbox_Contracts
begin

text \<open>
  A verification library for g7mediabooster, the media service of \<open>src/crates\<close> and \<open>src/apps\<close>: a control
  plane hands out signed upload targets, a worker validates and transforms what was uploaded in a sandboxed
  subprocess and publishes derivatives, a maintenance run removes what has expired, and a command line
  installs and configures it all.  The definitions follow the Rust sources function by function; the
  theorems numbered C1 to C40 stand in the theories of the components they are about, each after its
  statement in words and, where it has hypotheses, followed by a witness at concrete values.

  \<^bold>\<open>How the parts interact.\<close>  A signed request reaches a handler of \<open>apps/g7mb-api\<close> (\<open>Auth\<close>, \<open>Api\<close>), which
  calls the services of \<open>crates/g7mb-application\<close> (\<open>Uploads\<close>, \<open>Site_Policy\<close>, \<open>Delivery\<close>, \<open>Lifecycle\<close>,
  \<open>Inventory\<close>).  They reach the database through the repository ports that \<open>SqliteStore\<close> of
  \<open>crates/g7mb-persistence-sqlite\<close> implements, and the object store through the port of \<open>Ports\<close>, which
  \<open>crates/g7mb-object-store-s3\<close> implements.  A confirmed upload is a row of the job queue; the worker of
  \<open>apps/g7mb-worker\<close> claims it under a lease (\<open>Job_Queue\<close>, \<open>Worker\<close>), downloads the source, has
  \<open>apps/g7mb-sandbox\<close> (\<open>Sandbox\<close>) inspect and render it through the port of \<open>Sandbox_Probe\<close>, stores the results
  and publishes them (\<open>Processing_Repository\<close>), after which \<open>Delivery\<close> and \<open>Public_Delivery\<close> serve them.
\<close>

text \<open>
  \<^bold>\<open>Vocabulary.\<close>  \<open>Prelude\<close>: results as sums (\<open>Ok\<close>, \<open>Err\<close>), unsigned integers as words of their width with
  \<open>checked_add\<close> and \<open>checked_mul\<close>, tables as lists of rows.  \<open>Text\<close> and \<open>Net\<close>: what the sources use of the standard
  library on numbers, strings, UTF-8 and addresses.  \<open>Effects\<close>: fallible operations over a state, with
  \<open>touches_only\<close>, \<open>keeps\<close>, \<open>ensures\<close> and \<open>succeeds\<close> to reason about sequences of them.  \<open>Host_Files\<close>: a file
  system whose numbered operations may fail, a write after any number of bytes.  \<open>Leases\<close> and \<open>Store\<close> state
  the interfaces \<open>lease_protocol\<close> and \<open>guarded_machine\<close>, \<open>Nonce_Store\<close> and \<open>S3_Contracts\<close> the interfaces
  \<open>nonce_store\<close> and \<open>s3_service\<close>; each is interpreted on the model's own operations, the last on a bucket that
  keeps its objects in a list, since the service itself is outside the repository.

  \<^bold>\<open>Domain and database.\<close>  \<open>Domain\<close> is \<open>g7mb-domain/src/lib.rs\<close>: batch planning, object keys, the
  lifecycle of an upload, image and video policies.  \<open>Database\<close> is the schema of the migrations: row
  records, triggers, and the statements that run them.  \<open>Integrity\<close> says what a well-formed database is and
  models \<open>verify_pool\<close>.  \<open>Upload_Repository\<close>, \<open>Job_Queue\<close>, \<open>Nonce_Store\<close>, \<open>Lifecycle_Repository\<close>,
  \<open>Processing_Repository\<close>, \<open>Site_Policy\<close>, \<open>Inventory\<close> and \<open>Observability\<close> are the ports of \<open>SqliteStore\<close>
  (\<open>g7mb-persistence-sqlite/src/lib.rs\<close>), a transaction being one step.  \<open>Store\<close> joins them into one relation
  \<open>store_step\<close>: a path of steps is any interleaving of API, worker and maintenance, and C1 is the invariant of
  all databases it reaches.  \<open>Races\<close> shows what such interleavings allow on one upload, \<open>Journey\<close> and \<open>Samples\<close>
  hold databases the witnesses run on.

  \<^bold>\<open>Services.\<close>  \<open>Uploads\<close>, \<open>Lifecycle\<close>, \<open>Inventory\<close>, \<open>Site_Policy\<close> and \<open>Delivery\<close> are the services of
  \<open>g7mb-application/src\<close> in the files \<open>uploads.rs\<close>, \<open>lifecycle.rs\<close>, \<open>inventory.rs\<close>, \<open>policies.rs\<close> and
  \<open>delivery.rs\<close>, over any provider of the object-store port.

  \<^bold>\<open>Control plane.\<close>  \<open>Auth\<close> is \<open>g7mb-auth/src/lib.rs\<close>, \<open>Contracts\<close> is \<open>g7mb-contracts/src/lib.rs\<close>; \<open>Admission\<close>
  and \<open>Api\<close> are \<open>g7mb-api/src/lib.rs\<close>, \<open>Public_Delivery\<close> is \<open>public_delivery.rs\<close> beside it, whose limiter keeps
  a state of its own.  \<open>Tenancy\<close> and \<open>Replay\<close> hold the properties that span authentication and handlers.

  \<^bold>\<open>Media and worker.\<close>  \<open>Media\<close>, \<open>Vips\<close> and \<open>Fallback_Decoder\<close> are \<open>g7mb-media/src/lib.rs\<close> and
  \<open>openh264_fallback.rs\<close>; \<open>Sandbox\<close> is \<open>g7mb-sandbox/src/main.rs\<close>; \<open>Sandbox_Probe\<close> and \<open>Worker\<close> are
  \<open>g7mb-worker/src/lib.rs\<close>.  A worker run is a function of its ports and an agenda that says, at every point
  where the code awaits, what other actors did to the database, which heartbeats fell due and what the clock
  reads.

  \<^bold>\<open>Configuration and operation.\<close>  \<open>Config\<close> is \<open>g7mb-config/src\<close>; \<open>Object_Store_S3\<close> and \<open>Storage_Admin\<close> are the
  adapter and the administrator of \<open>g7mb-object-store-s3\<close>; \<open>Startup\<close> is what the two processes
  build from their settings; \<open>Backup\<close> is \<open>g7mb-persistence-sqlite/src/backup.rs\<close> with the database commands of
  \<open>g7mb-worker/src/main.rs\<close>; \<open>Setup\<close> is \<open>setup\<close> and the storage commands of \<open>g7mbctl/src/main.rs\<close> and
  \<open>setup_config.rs\<close>; \<open>Installer\<close> and \<open>Installation\<close> are \<open>g7mbctl/src/installer.rs\<close> and
  \<open>installer/directories.rs\<close>.
\<close>

text \<open>
  \<^bold>\<open>What the lemmas show.\<close>  Next to each operation stand its effect on every branch and the preservation of the
  invariant.  The claims build on them: tombstones only after the provider acknowledged a deletion
  (C2), capacity limits that hold under any interleaving (C3), exclusive claims and bounded waiting of
  jobs (C4, C12), all-or-nothing intents and confirmations (C5, C7), immutable publication of bytes that were
  stored before (C8, C9), tenant isolation and replay protection (C10, C11), deliveries only of what is
  published (C16, C18), bounds of admission, disk and decoding (C17, C20, C37), downloads and the adapter's
  refinement of the contract the worker rests on (C24, C25), backups that restore or leave nothing
  (C28 to C30), setup and installation as prefixes of one order of atomic writes (C31 to C34), an installation
  that succeeds (C35), the conversion of access units (C36), and the sandbox's reports and posters (C38,
  C39).  The claims C13, C19, C22 and C40 state behaviour that the sources' comments do not promise.

  \<^bold>\<open>Loops and fuel.\<close>  Recursion is on the data nearly everywhere.  \<open>avcc_loop\<close> ends because each turn advances the
  cursor within the input.  \<open>strip_start\<close> and \<open>strip_end\<close> of \<open>Setup\<close> take the length of the string as fuel,
  which is enough because each turn removes at least one byte.  A waiting loop of the installer is a
  recursion on the clock readings it takes, and a copied body one on the bytes that arrive.  \<open>scan_pages\<close> takes as
  fuel the number of pages the policy allows, which is the bound of the source's own loop.  C21 shows that a
  worker run ends.

  \<^bold>\<open>Arguments of the model.\<close>  SHA-256, HMAC and base64url, the JSON, TOML and URL parsers, the \<open>config\<close> crate,
  UUID generation, the clock, the AWS SDK, libvips, FFmpeg, the MP4 parser, OpenH264, SQLite's
  file format and every child process are arguments; a theorem that relies on one of them names what it relies
  on as a hypothesis.

  \<^bold>\<open>Idealisations.\<close>  Strings are lists of bytes and lengths are natural numbers, below \<open>2 ^ 64\<close> where the code
  checks.  An I/O error that the code passes on without context carries a text of the model.  New files have
  mode \<open>0o644\<close>; \<open>create_dir_all\<close> makes the leaf only, and modes of directories are not tracked; no other
  process replaces a file between two file operations of a command.  The terminal of \<open>setup\<close> is the list of the lines
  typed; the answer to the installer's HTTP request is what its first read returns.  An output of the
  sandbox that is no regular file counts as missing.

  \<^bold>\<open>Not modelled.\<close>  The process loops of worker and listeners (spawning tokio tasks, signals, graceful
  shutdown), the axum router's layers and the OpenAPI document, metrics and tracing, the clap command-line
  parsers, and the installation of the seccomp filter: each is a call into a framework with no logic of the
  program's own.  Test support, \<open>xtask\<close>, the fuzz targets, the PHP and TypeScript clients and the packaging
  scripts are not part of the service.
\<close>

end
